(* ===== verification/Js.thy ===== *)
theory Js
  imports Complex_Main "HOL-Library.AList" "HOL-Library.Sublist"
begin

text \<open>
  The part of JavaScript's values and standard library that the program uses: numbers
  (finite values as rationals, with the infinities and NaN kept apart), JSON-like values,
  truthiness, property reads and writes, and the string functions \<open>trim\<close>,
  \<open>toLowerCase\<close>, \<open>split\<close>, \<open>includes\<close>, \<open>startsWith\<close>, \<open>endsWith\<close>.
  A string is a list of code units below 256. \<open>undefined\<close> is \<open>None\<close> of an option type.
  Finite numbers are exact: the rounding of IEEE doubles is not modelled.
\<close>

subsection \<open>Numbers\<close>

datatype jsnum = Fin rat | PInf | NInf | NaN

fun num_add :: "jsnum \<Rightarrow> jsnum \<Rightarrow> jsnum" where
  "num_add (Fin a) (Fin b) = Fin (a + b)"
| "num_add NaN y = NaN"
| "num_add x NaN = NaN"
| "num_add PInf NInf = NaN"
| "num_add NInf PInf = NaN"
| "num_add PInf y = PInf"
| "num_add NInf y = NInf"
| "num_add x PInf = PInf"
| "num_add x NInf = NInf"

text \<open>Multiplication by a positive constant (the source multiplies by 1000 only).\<close>

fun num_scale :: "rat \<Rightarrow> jsnum \<Rightarrow> jsnum" where
  "num_scale c (Fin a) = Fin (c * a)"
| "num_scale c x = x"

fun num_lt :: "jsnum \<Rightarrow> jsnum \<Rightarrow> bool" where
  "num_lt (Fin a) (Fin b) = (a < b)"
| "num_lt NaN y = False"
| "num_lt x NaN = False"
| "num_lt PInf y = False"
| "num_lt x NInf = False"
| "num_lt NInf y = True"
| "num_lt x PInf = True"

fun num_floor :: "jsnum \<Rightarrow> jsnum" where
  "num_floor (Fin a) = Fin (of_int \<lfloor>a\<rfloor>)"
| "num_floor x = x"

fun num_finite :: "jsnum \<Rightarrow> bool" where
  "num_finite (Fin a) = True"
| "num_finite x = False"

abbreviation num_int :: "int \<Rightarrow> jsnum" where
  "num_int n \<equiv> Fin (of_int n)"

text \<open>
  \<open>===\<close> on numbers: NaN differs from itself.
\<close>

fun num_eq :: "jsnum \<Rightarrow> jsnum \<Rightarrow> bool" where
  "num_eq NaN y = False"
| "num_eq x y = (x = y)"

text \<open>\<open><=\<close> on numbers and on dates, false when a side is NaN.\<close>

definition num_le :: "jsnum \<Rightarrow> jsnum \<Rightarrow> bool" where
  "num_le x y \<longleftrightarrow> num_lt x y \<or> num_eq x y"

lemma num_le_Fin [simp]: "num_le (Fin a) (Fin b) \<longleftrightarrow> a \<le> b"
  by (auto simp: num_le_def)

lemma num_lt_irrefl [simp]: "\<not> num_lt x x"
  by (cases x) auto

lemma num_lt_trans: "num_lt x y \<Longrightarrow> num_lt y z \<Longrightarrow> num_lt x z"
  by (cases x; cases y; cases z) auto

lemma num_not_lt_trans_int:
  "num_lt e (num_int a) \<Longrightarrow> a \<le> b \<Longrightarrow> num_lt e (num_int b)"
  by (cases e) auto

subsection \<open>Values\<close>

datatype jsval = JNull | JBool bool | JNum jsnum | JStr string
  | JArr "jsval list" | JObj "(string \<times> jsval) list"

type_synonym obj = "(string \<times> jsval) list"

definition oget :: "obj \<Rightarrow> string \<Rightarrow> jsval option" where
  "oget = map_of"

definition oset :: "obj \<Rightarrow> string \<Rightarrow> jsval \<Rightarrow> obj" where
  "oset ob k v = AList.update k v ob"

definition ohas :: "obj \<Rightarrow> string \<Rightarrow> bool" where
  "ohas ob k = (oget ob k \<noteq> None)"

lemma oget_Nil [simp]: "oget [] k = None"
  by (simp add: oget_def)

lemma oget_Cons [simp]: "oget ((a, b) # ob) k = (if k = a then Some b else oget ob k)"
  by (simp add: oget_def)

lemma oget_oset [simp]: "oget (oset ob k v) k' = (if k' = k then Some v else oget ob k')"
  by (simp add: oget_def oset_def update_conv')

lemma oget_append: "oget (a @ b) k = (case oget a k of Some v \<Rightarrow> Some v | None \<Rightarrow> oget b k)"
  by (simp add: oget_def map_add_def split: option.splits)

text \<open>
  The keys of an object built by writes are distinct, and writing keeps them so.
\<close>

lemma distinct_oset: "distinct (map fst ob) \<Longrightarrow> distinct (map fst (oset ob k v))"
  by (simp add: oset_def distinct_update)

text \<open>\<open>{ ...a, ...b }\<close>.\<close>

definition omerge :: "obj \<Rightarrow> obj \<Rightarrow> obj" where
  "omerge a b = foldl (\<lambda>acc (k, v). oset acc k v) a b"

lemma distinct_omerge: "distinct (map fst a) \<Longrightarrow> distinct (map fst (omerge a b))"
  unfolding omerge_def by (induction b arbitrary: a) (auto simp: distinct_oset)

lemma omerge_Cons: "omerge a ((k, v) # b) = omerge (oset a k v) b"
  by (simp add: omerge_def)

lemma omerge_Nil [simp]: "omerge a [] = a"
  by (simp add: omerge_def)

lemma oget_omerge:
  "distinct (map fst b) \<Longrightarrow> oget (omerge a b) k = (case oget b k of Some v \<Rightarrow> Some v | None \<Rightarrow> oget a k)"
proof (induction b arbitrary: a)
  case (Cons x b)
  obtain j v where x: "x = (j, v)" by fastforce
  have "oget b j = None" using Cons.prems by (simp add: x oget_def map_of_eq_None_iff)
  then show ?case using Cons by (auto simp: x omerge_Cons split: option.splits)
qed simp

fun truthy :: "jsval option \<Rightarrow> bool" where
  "truthy None = False"
| "truthy (Some JNull) = False"
| "truthy (Some (JBool b)) = b"
| "truthy (Some (JNum n)) = (n \<noteq> NaN \<and> n \<noteq> Fin 0)"
| "truthy (Some (JStr s)) = (s \<noteq> [])"
| "truthy (Some (JArr xs)) = True"
| "truthy (Some (JObj ob)) = True"

text \<open>
  Property read on an unknown value that was checked to be an object: arrays have no
  named claims.
\<close>

fun vget :: "jsval \<Rightarrow> string \<Rightarrow> jsval option" where
  "vget (JObj ob) k = oget ob k"
| "vget v k = None"

fun is_object :: "jsval \<Rightarrow> bool" where
  "is_object (JObj ob) = True"
| "is_object (JArr xs) = True"
| "is_object v = False"

fun str_of :: "jsval option \<Rightarrow> string option" where
  "str_of (Some (JStr s)) = Some s"
| "str_of v = None"

fun num_of :: "jsval option \<Rightarrow> jsnum option" where
  "num_of (Some (JNum n)) = Some n"
| "num_of v = None"

lemma str_of_Some [simp]: "str_of v = Some s \<longleftrightarrow> v = Some (JStr s)"
  by (cases v rule: str_of.cases) auto

lemma num_of_Some [simp]: "num_of v = Some n \<longleftrightarrow> v = Some (JNum n)"
  by (cases v rule: num_of.cases) auto

subsection \<open>Strings\<close>

definition code :: "char \<Rightarrow> nat" where
  "code c = of_char c"

text \<open>White space as \<open>trim\<close> and the regular expression class \<open>\s\<close> see it.\<close>

definition is_ws :: "char \<Rightarrow> bool" where
  "is_ws c \<longleftrightarrow> code c \<in> {9, 10, 11, 12, 13, 32, 160}"

definition js_trim :: "string \<Rightarrow> string" where
  "js_trim s = rev (dropWhile is_ws (rev (dropWhile is_ws s)))"

definition lower_char :: "char \<Rightarrow> char" where
  "lower_char c =
     (if 65 \<le> code c \<and> code c \<le> 90 \<or> 192 \<le> code c \<and> code c \<le> 222 \<and> code c \<noteq> 215
      then char_of (code c + 32) else c)"

definition js_lower :: "string \<Rightarrow> string" where
  "js_lower s = map lower_char s"

fun js_split :: "char \<Rightarrow> string \<Rightarrow> string list" where
  "js_split c [] = [[]]"
| "js_split c (x # xs) =
     (if x = c then [] # js_split c xs
      else (case js_split c xs of [] \<Rightarrow> [[x]] | y # ys \<Rightarrow> (x # y) # ys))"

fun js_join :: "string \<Rightarrow> string list \<Rightarrow> string" where
  "js_join sep [] = []"
| "js_join sep [x] = x"
| "js_join sep (x # xs) = x @ sep @ js_join sep xs"

text \<open>Array destructuring and indexing: out of range is \<open>undefined\<close>.\<close>

definition js_nth :: "'a list \<Rightarrow> nat \<Rightarrow> 'a option" where
  "js_nth xs i = (if i < length xs then Some (xs ! i) else None)"

definition js_includes :: "string \<Rightarrow> string \<Rightarrow> bool" where
  "js_includes s t = sublist t s"

definition js_ends_with :: "string \<Rightarrow> string \<Rightarrow> bool" where
  "js_ends_with s t = suffix t s"

definition js_starts_with :: "string \<Rightarrow> string \<Rightarrow> bool" where
  "js_starts_with s t = prefix t s"

text \<open>\<open>replaceAll('-', '')\<close>.\<close>

definition strip_dashes :: "string \<Rightarrow> string" where
  "strip_dashes s = filter (\<lambda>c. c \<noteq> CHR ''-'') s"

text \<open>A string that is present and not empty (the truthiness of an optional string).\<close>

definition opt_str :: "string option \<Rightarrow> bool" where
  "opt_str s = (s \<noteq> None \<and> s \<noteq> Some [])"

lemma opt_str_simps [simp]: "opt_str None = False" "opt_str (Some s) = (s \<noteq> [])"
  by (auto simp: opt_str_def)

lemma js_split_ne [simp]: "js_split c s \<noteq> []"
  by (induction s) (auto split: list.splits)

lemma js_split_no_sep: "p \<in> set (js_split c s) \<Longrightarrow> c \<notin> set p"
  by (induction s arbitrary: p) (fastforce split: if_splits list.splits)+

lemma js_split_id: "c \<notin> set s \<Longrightarrow> js_split c s = [s]"
  by (induction s) auto

lemma js_split_append: "c \<notin> set s \<Longrightarrow> js_split c (s @ c # t) = s # js_split c t"
  by (induction s) auto

lemma js_split_set: "x \<in> set s \<Longrightarrow> x = c \<or> (\<exists>p \<in> set (js_split c s). x \<in> set p)"
proof (induction s)
  case (Cons y s)
  obtain q qs where "js_split c s = q # qs" by (cases "js_split c s") simp_all
  with Cons show ?case by auto
qed simp

lemma js_join_split: "js_join [c] (js_split c s) = s"
proof (induction s)
  case Nil
  show ?case by simp
next
  case (Cons x xs)
  obtain y ys where s: "js_split c xs = y # ys"
    by (cases "js_split c xs") simp_all
  show ?case using Cons.IH by (cases ys) (auto simp: s)
qed

lemma dropWhile_hd: "dropWhile P s = x # t \<Longrightarrow> \<not> P x"
  by (induction s) (auto split: if_splits)

lemma dropWhile_none: "\<forall>c \<in> set s. \<not> P c \<Longrightarrow> dropWhile P s = s"
  by (cases s) auto

lemma js_trim_no_ws: "\<forall>c \<in> set s. \<not> is_ws c \<Longrightarrow> js_trim s = s"
  by (simp add: js_trim_def dropWhile_none)

lemma js_trim_set: "set (js_trim s) \<subseteq> set s"
  by (auto simp: js_trim_def dest!: set_dropWhileD)

lemma js_trim_last: "js_trim s = t @ [x] \<Longrightarrow> \<not> is_ws x"
proof -
  assume "js_trim s = t @ [x]"
  then have "rev (js_trim s) = x # rev t" by simp
  then have "dropWhile is_ws (rev (dropWhile is_ws s)) = x # rev t"
    by (simp add: js_trim_def)
  then show ?thesis by (rule dropWhile_hd)
qed

lemma js_trim_idem [simp]: "js_trim (js_trim s) = js_trim s"
proof (cases "js_trim s")
  case Nil
  have "js_trim [] = []" by (simp add: js_trim_def)
  with Nil show ?thesis by simp
next
  case (Cons x t)
  define u where "u = dropWhile is_ws s"
  obtain w where w: "u = js_trim s @ w"
    unfolding u_def js_trim_def
    by (metis rev_append rev_rev_ident takeWhile_dropWhile_id)
  then have "u = x # (t @ w)" by (simp add: Cons)
  then have x: "\<not> is_ws x" unfolding u_def by (rule dropWhile_hd)
  obtain t' y where l: "js_trim s = t' @ [y]"
    using Cons by (metis append_butlast_last_id list.distinct(1))
  then have "\<not> is_ws y" by (rule js_trim_last)
  then have "dropWhile is_ws (rev (js_trim s)) = rev (js_trim s)"
    by (simp add: l)
  moreover have "dropWhile is_ws (js_trim s) = js_trim s"
    using x by (simp add: Cons)
  ultimately show ?thesis by (subst js_trim_def) simp
qed

subsection \<open>Decimal digit strings\<close>

definition is_digit :: "char \<Rightarrow> bool" where
  "is_digit c \<longleftrightarrow> 48 \<le> code c \<and> code c \<le> 57"

definition digit :: "nat \<Rightarrow> char" where
  "digit d = char_of (48 + d)"

fun show_nat :: "nat \<Rightarrow> string" where
  "show_nat n = (if n < 10 then [digit n] else show_nat (n div 10) @ [digit (n mod 10)])"

declare show_nat.simps [simp del]

lemma digit_is_digit: "d < 10 \<Longrightarrow> is_digit (digit d)"
  by (simp add: is_digit_def digit_def code_def)

lemma show_nat_digits: "\<forall>c \<in> set (show_nat n). is_digit c"
proof (induction n rule: show_nat.induct)
  case (1 n)
  then show ?case
    by (subst show_nat.simps) (auto simp: digit_is_digit)
qed

lemma show_nat_ne [simp]: "show_nat n \<noteq> []"
  by (subst show_nat.simps) simp

subsection \<open>Arrays as sets\<close>

lemma find_SomeD: "find P xs = Some x \<Longrightarrow> x \<in> set xs \<and> P x"
  by (auto simp: find_Some_iff)

text \<open>\<open>Array.from(new Set(xs))\<close>: the first occurrences, in order.\<close>

fun js_unique :: "'a list \<Rightarrow> 'a list" where
  "js_unique [] = []"
| "js_unique (x # xs) = x # filter (\<lambda>y. y \<noteq> x) (js_unique xs)"

lemma set_js_unique [simp]: "set (js_unique xs) = set xs"
  by (induction xs) auto

lemma distinct_js_unique [simp]: "distinct (js_unique xs)"
  by (induction xs) auto

subsection \<open>Dates\<close>

text \<open>
  \<open>Date.prototype.toISOString\<close> of a time in milliseconds since 1970, for the years from 0
  to 9999. The date of a day is computed with years that begin in March.
\<close>

definition civil :: "int \<Rightarrow> int \<times> int \<times> int" where
  "civil days =
     (let z = days + 719468;
          era = z div 146097;
          doe = z mod 146097;
          yoe = (doe - doe div 1460 + doe div 36524 - doe div 146096) div 365;
          doy = doe - (365 * yoe + yoe div 4 - yoe div 100);
          mp = (5 * doy + 2) div 153;
          d = doy - (153 * mp + 2) div 5 + 1;
          m = (if mp < 10 then mp + 3 else mp - 9)
      in (yoe + era * 400 + (if m \<le> 2 then 1 else 0), m, d))"

definition pad :: "nat \<Rightarrow> int \<Rightarrow> string" where
  "pad n i = (let s = show_nat (nat i) in replicate (n - length s) (CHR ''0'') @ s)"

definition iso_string :: "int \<Rightarrow> string" where
  "iso_string ms =
     (let (y, m, d) = civil (ms div 86400000);
          t = ms mod 86400000
      in pad 4 y @ ''-'' @ pad 2 m @ ''-'' @ pad 2 d @ ''T'' @ pad 2 (t div 3600000) @ '':'' @
         pad 2 (t div 60000 mod 60) @ '':'' @ pad 2 (t div 1000 mod 60) @ ''.'' @ pad 3 (t mod 1000) @ ''Z'')"

end
