(* ===== verification/Prelude.thy ===== *)
theory Prelude
  imports Js
begin

text \<open>
  The error codes of \<open>errors/error.codes.ts\<close>, the errors that can be thrown
  (\<open>errors/vcknots.error.ts\<close>), and the state-and-error computations all operations are
  written in: a computation takes the state and returns an error or a value together
  with the state, so the writes made before a throw are kept, as in the source. The
  text of an error message is abbreviated to a tag; its code is exact.
\<close>

subsection \<open>Errors\<close>

text \<open>The union type \<open>ErrorCodes\<close> of string literals; the source lists two of them twice.\<close>

type_synonym error_code = string

definition ErrorCodes :: "error_code list" where
  "ErrorCodes =
   [''invalid_request'', ''invalid_client'', ''invalid_grant'', ''unauthorized_client'',
    ''unsupported_grant_type'', ''invalid_scope'', ''invalid_dpop_proof'', ''use_dpop_nonce'',
    ''invalid_token'', ''insufficient_scope'', ''invalid_credential_request'',
    ''invalid_proof'', ''invalid_nonce'', ''invalid_encryption_parameters'',
    ''credential_request_denied'', ''unsupported_credential_type'',
    ''unknown_credential_configuration'', ''unknown_credential_identifier'', ''access_denied'',
    ''vp_formats_not_supported'', ''invalid_presentation_definition_uri'',
    ''invalid_presentation_definition_reference'', ''invalid_request_uri_method'',
    ''wallet_unavailable'', ''issuer_not_found'', ''verifier_not_found'',
    ''credential_configuration_not_found'', ''authorization_metadata_not_found'',
    ''offer_not_found'', ''duplicate_credential_configuration_name'', ''unauthorized'',
    ''forbidden'', ''user_not_found'', ''issuer_user_already_exists'',
    ''verifier_user_already_exists'', ''jwks_not_found'', ''invalid_presentation_submission'',
    ''invalid_options'', ''invalid_sd_jwt'', ''invalid_configuration'',
    ''invalid_tx_code_options'', ''internal_server_error'', ''illegal_argument'',
    ''illegal_state'', ''feature_not_implemented_yet'', ''provider_not_found'',
    ''issuer_public_key_corrupted'', ''issuer_asymmetric_sign_failed'',
    ''unsupported_issuer_key_alg'', ''invalid_access_token'', ''invalid_issuer_key'',
    ''authz_issuer_key_not_found'', ''authz_verifier_key_not_found'', ''invalid_credential'',
    ''unsupported_vp_token'', ''invalid_vp_token'', ''invalid_jwt'', ''invalid_claims'',
    ''invalid_tx_code'', ''holder_binding_failed'', ''unsupported_client_id_prefix'',
    ''unsupported_proofs_type'', ''invalid_certificate'', ''duplicate_verifier'',
    ''duplicate_issuer'', ''duplicate_authz_server'', ''certificate_not_found'',
    ''request_object_not_found'', ''verifier_vp_formats_not_supported'',
    ''unsupported_cryptographic_binding_method'', ''insecure_http_not_allowed'',
    ''transaction_id_not_found'']"

text \<open>A thrown value: a \<open>VcknotsError\<close> with its \<open>name\<close>, or any other exception.\<close>

datatype exn = VcknotsError error_code string | JsError string

text \<open>\<open>err\<close> builds the error that \<open>throw\<close> then throws; \<open>raise\<close> throws it at once.\<close>

definition err :: "error_code \<Rightarrow> string \<Rightarrow> exn" where
  "err c msg = VcknotsError c msg"

lemma err_inject [simp]: "err c m = err c' m' \<longleftrightarrow> c = c' \<and> m = m'"
  by (simp add: err_def)

subsection \<open>Computations\<close>

type_synonym ('w, 'a) M = "'w \<Rightarrow> (exn + 'a) \<times> 'w"

definition ret :: "'a \<Rightarrow> ('w, 'a) M" where
  "ret x = (\<lambda>w. (Inr x, w))"

definition throw :: "exn \<Rightarrow> ('w, 'a) M" where
  "throw e = (\<lambda>w. (Inl e, w))"

definition raise :: "error_code \<Rightarrow> string \<Rightarrow> ('w, 'a) M" where
  "raise c msg = throw (err c msg)"

definition bindM :: "('w, 'a) M \<Rightarrow> ('a \<Rightarrow> ('w, 'b) M) \<Rightarrow> ('w, 'b) M" where
  "bindM m f = (\<lambda>w. case m w of (Inl e, w') \<Rightarrow> (Inl e, w') | (Inr x, w') \<Rightarrow> f x w')"

definition thenM :: "('w, 'a) M \<Rightarrow> ('w, 'b) M \<Rightarrow> ('w, 'b) M" where
  "thenM m n = bindM m (\<lambda>_. n)"

definition whenM :: "bool \<Rightarrow> ('w, unit) M \<Rightarrow> ('w, unit) M" where
  "whenM b m = (if b then m else ret ())"

text \<open>\<open>try { m } catch (e) { h e }\<close>.\<close>

definition catchM :: "('w, 'a) M \<Rightarrow> (exn \<Rightarrow> ('w, 'a) M) \<Rightarrow> ('w, 'a) M" where
  "catchM m h = (\<lambda>w. case m w of (Inl e, w') \<Rightarrow> h e w' | (Inr x, w') \<Rightarrow> (Inr x, w'))"

text \<open>A pure step that may throw.\<close>

definition liftE :: "exn + 'a \<Rightarrow> ('w, 'a) M" where
  "liftE r = (\<lambda>w. (r, w))"

text \<open>A computation on a part of the state.\<close>

definition zoom :: "('w \<Rightarrow> 's) \<Rightarrow> ('s \<Rightarrow> 'w \<Rightarrow> 'w) \<Rightarrow> ('s, 'a) M \<Rightarrow> ('w, 'a) M" where
  "zoom g p m = (\<lambda>w. case m (g w) of (r, s) \<Rightarrow> (r, p s w))"

text \<open>\<open>for (const x of xs) ...\<close>, stopping at the first throw.\<close>

fun forM :: "'a list \<Rightarrow> ('a \<Rightarrow> ('w, unit) M) \<Rightarrow> ('w, unit) M" where
  "forM [] f = ret ()"
| "forM (x # xs) f = thenM (f x) (forM xs f)"

text \<open>The same, collecting a value for each element.\<close>

fun mapM :: "('a \<Rightarrow> ('w, 'b) M) \<Rightarrow> 'a list \<Rightarrow> ('w, 'b list) M" where
  "mapM f [] = ret []"
| "mapM f (x # xs) = bindM (f x) (\<lambda>y. bindM (mapM f xs) (\<lambda>ys. ret (y # ys)))"

text \<open>
  \<open>run_simps\<close> evaluate a run forwards; \<open>inr_simps\<close> take a run that returned apart. The
  two sets are used separately.
\<close>

named_theorems run_simps \<open>unfolding a run into its steps\<close>
named_theorems inr_simps \<open>taking a run that returned a value apart\<close>

lemma ret_run [run_simps]: "ret x w = (Inr x, w)"
  by (simp add: ret_def)

lemma throw_run [run_simps]: "throw e w = (Inl e, w)"
  by (simp add: throw_def)

lemma raise_run [run_simps]: "raise c m w = (Inl (err c m), w)"
  by (simp add: raise_def throw_def)

lemma liftE_run [run_simps]: "liftE r w = (r, w)"
  by (simp add: liftE_def)

lemma thenM_run [run_simps]:
  "thenM m n w = (case m w of (Inl e, w') \<Rightarrow> (Inl e, w') | (Inr x, w') \<Rightarrow> n w')"
  by (simp add: thenM_def bindM_def)

lemma bindM_run [run_simps]:
  "bindM m f w = (case m w of (Inl e, w') \<Rightarrow> (Inl e, w') | (Inr x, w') \<Rightarrow> f x w')"
  by (simp add: bindM_def)

lemma catchM_run [run_simps]:
  "catchM m h w = (case m w of (Inl e, w') \<Rightarrow> h e w' | (Inr x, w') \<Rightarrow> (Inr x, w'))"
  by (simp add: catchM_def)

lemma whenM_run [run_simps]:
  "whenM b m w = (if b then m w else (Inr (), w))"
  by (simp add: whenM_def ret_def)

lemma zoom_run [run_simps]: "zoom g p m w = (fst (m (g w)), p (snd (m (g w))) w)"
  by (simp add: zoom_def split: prod.splits)

text \<open>
  A run that returned a value went through every step; a run that threw did so in one of
  them. These two facts take a hypothesis about a handler's run apart.
\<close>

lemma bindM_Inr [inr_simps]:
  "bindM m f w = (Inr y, w2) \<longleftrightarrow> (\<exists>x w1. m w = (Inr x, w1) \<and> f x w1 = (Inr y, w2))"
  by (auto simp: bindM_def split: prod.splits sum.splits)

lemma bindM_Inl:
  "bindM m f w = (Inl e, w2) \<longleftrightarrow>
     m w = (Inl e, w2) \<or> (\<exists>x w1. m w = (Inr x, w1) \<and> f x w1 = (Inl e, w2))"
  by (auto simp: bindM_def split: prod.splits sum.splits)

lemma thenM_Inr [inr_simps]:
  "thenM m n w = (Inr y, w2) \<longleftrightarrow> (\<exists>x w1. m w = (Inr x, w1) \<and> n w1 = (Inr y, w2))"
  by (auto simp: thenM_def bindM_Inr)

lemma thenM_Inl:
  "thenM m n w = (Inl e, w2) \<longleftrightarrow>
     m w = (Inl e, w2) \<or> (\<exists>x w1. m w = (Inr x, w1) \<and> n w1 = (Inl e, w2))"
  by (auto simp: thenM_def bindM_Inl)

lemma zoom_Inr [inr_simps]:
  "zoom g p m w = (Inr y, w2) \<longleftrightarrow> (\<exists>s. m (g w) = (Inr y, s) \<and> w2 = p s w)"
  by (auto simp: zoom_def split: prod.splits)

lemma ret_Inr [inr_simps]: "ret x w = (Inr y, w2) \<longleftrightarrow> y = x \<and> w2 = w"
  by (auto simp: ret_def)

lemma throw_Inr [inr_simps]: "throw e w = (Inr y, w2) \<longleftrightarrow> False"
  by (simp add: throw_def)

lemma raise_Inr [inr_simps]: "raise c m w = (Inr y, w2) \<longleftrightarrow> False"
  by (simp add: raise_run)

lemma liftE_Inr [inr_simps]: "liftE r w = (Inr y, w2) \<longleftrightarrow> r = Inr y \<and> w2 = w"
  by (auto simp: liftE_def)

lemma whenM_Inr [inr_simps]:
  "whenM b m w = (Inr y, w2) \<longleftrightarrow> (if b then m w = (Inr y, w2) else w2 = w)"
  by (auto simp: whenM_def ret_def)

lemma if_Inr [inr_simps]:
  "(if b then m else n) w = (Inr y, w2) \<longleftrightarrow> (if b then m w = (Inr y, w2) else n w = (Inr y, w2))"
  by simp

lemma option_Inr [inr_simps]:
  "(case v of None \<Rightarrow> m | Some x \<Rightarrow> f x) w = (Inr y, w2) \<longleftrightarrow>
     (case v of None \<Rightarrow> m w = (Inr y, w2) | Some x \<Rightarrow> f x w = (Inr y, w2))"
  by (cases v) simp_all

text \<open>A run that returns a value with a property.\<close>

definition returns :: "('a \<Rightarrow> bool) \<Rightarrow> (exn + 'a) \<times> 'w \<Rightarrow> bool" where
  "returns p r = (case fst r of Inl e \<Rightarrow> False | Inr x \<Rightarrow> p x)"

lemma returnsE:
  assumes "returns p r"
  obtains x w' where "r = (Inr x, w')" "p x"
  using assms by (cases r; cases "fst r") (auto simp: returns_def)

subsection \<open>What a computation keeps\<close>

text \<open>
  \<open>keeps I m\<close>: whether \<open>m\<close> returns or throws, the property \<open>I\<close> of the state that held
  before holds afterwards. The rules follow the structure of a handler, so an
  invariant of a handler is reduced to its calls.
\<close>

definition keeps :: "('w \<Rightarrow> bool) \<Rightarrow> ('w, 'a) M \<Rightarrow> bool" where
  "keeps I m \<longleftrightarrow> (\<forall>w. I w \<longrightarrow> I (snd (m w)))"

named_theorems keeps_intros \<open>rules for invariants of computations\<close>

lemma keepsD: "keeps I m \<Longrightarrow> I w \<Longrightarrow> I (snd (m w))"
  by (simp add: keeps_def)

lemma keepsD_run: "keeps I m \<Longrightarrow> I w \<Longrightarrow> m w = (r, w') \<Longrightarrow> I w'"
  by (drule (1) keepsD) simp

lemma keeps_ret [keeps_intros]: "keeps I (ret x)"
  by (simp add: keeps_def ret_def)

lemma keeps_throw [keeps_intros]: "keeps I (throw e)"
  by (simp add: keeps_def throw_def)

lemma keeps_raise [keeps_intros]: "keeps I (raise c m)"
  by (simp add: keeps_def raise_run)

lemma keeps_liftE [keeps_intros]: "keeps I (liftE r)"
  by (simp add: keeps_def liftE_def)

lemma keeps_bindM [keeps_intros]:
  "keeps I m \<Longrightarrow> (\<And>x. keeps I (f x)) \<Longrightarrow> keeps I (bindM m f)"
  by (fastforce simp: keeps_def bindM_def split: prod.splits sum.splits)

lemma keeps_thenM [keeps_intros]: "keeps I m \<Longrightarrow> keeps I n \<Longrightarrow> keeps I (thenM m n)"
  unfolding thenM_def by (intro keeps_intros)

lemma keeps_whenM [keeps_intros]: "(b \<Longrightarrow> keeps I m) \<Longrightarrow> keeps I (whenM b m)"
  by (simp add: whenM_def keeps_ret)

lemma keeps_catchM [keeps_intros]:
  "keeps I m \<Longrightarrow> (\<And>e. keeps I (h e)) \<Longrightarrow> keeps I (catchM m h)"
  by (fastforce simp: keeps_def catchM_def split: prod.splits sum.splits)

lemma keeps_if [keeps_intros]:
  "(b \<Longrightarrow> keeps I m) \<Longrightarrow> (\<not> b \<Longrightarrow> keeps I n) \<Longrightarrow> keeps I (if b then m else n)"
  by simp

lemma keeps_option [keeps_intros]:
  "keeps I m \<Longrightarrow> (\<And>x. keeps I (f x)) \<Longrightarrow> keeps I (case v of None \<Rightarrow> m | Some x \<Rightarrow> f x)"
  by (cases v) simp_all

lemma keeps_sum [keeps_intros]:
  "(\<And>x. keeps I (f x)) \<Longrightarrow> (\<And>x. keeps I (g x)) \<Longrightarrow> keeps I (case v of Inl x \<Rightarrow> f x | Inr x \<Rightarrow> g x)"
  by (cases v) simp_all

lemma keeps_prod [keeps_intros]:
  "(\<And>x y. keeps I (f x y)) \<Longrightarrow> keeps I (case v of (x, y) \<Rightarrow> f x y)"
  by (cases v) simp

lemma keeps_list [keeps_intros]:
  "keeps I m \<Longrightarrow> (\<And>x xs. keeps I (f x xs)) \<Longrightarrow> keeps I (case v of [] \<Rightarrow> m | x # xs \<Rightarrow> f x xs)"
  by (cases v) simp_all

lemma keeps_Let [keeps_intros]: "(\<And>x. keeps I (f x)) \<Longrightarrow> keeps I (Let v f)"
  by (simp add: Let_def)

lemma keeps_forM [keeps_intros]: "(\<And>x. keeps I (f x)) \<Longrightarrow> keeps I (forM xs f)"
  by (induction xs) (auto intro: keeps_intros)

lemma keeps_mapM [keeps_intros]: "(\<And>x. keeps I (f x)) \<Longrightarrow> keeps I (mapM f xs)"
  by (induction xs) (auto intro!: keeps_intros)

lemma keeps_zoom:
  "(\<And>w. I w \<Longrightarrow> I (p (snd (m (g w))) w)) \<Longrightarrow> keeps I (zoom g p m)"
  by (simp add: keeps_def zoom_run)

subsection \<open>Options\<close>

text \<open>\<open>a ?? b\<close> and the promise rejection of an absent value.\<close>

fun orElse :: "'a option \<Rightarrow> 'a option \<Rightarrow> 'a option" where
  "orElse (Some x) y = Some x"
| "orElse None y = y"

definition getOr :: "'a \<Rightarrow> 'a option \<Rightarrow> 'a" where
  "getOr d v = (case v of Some x \<Rightarrow> x | None \<Rightarrow> d)"

lemma getOr_simps [simp]: "getOr d None = d" "getOr d (Some x) = x"
  by (simp_all add: getOr_def)

lemma orElse_None [simp]: "orElse v None = v"
  by (cases v) auto

lemma orElse_eq_None [simp]: "orElse u v = None \<longleftrightarrow> u = None \<and> v = None"
  by (cases u) auto

end
