(* ===== verification/Interfaces.thy ===== *)
theory Interfaces
  imports Prelude
begin

text \<open>
  The contracts the flows rely on, as locales: a store of values taken at most once
  (nonces, pre-authorized codes), a guard against replays (the jti stores), and a store
  that returns what was last saved (metadata, policies, clients, request objects). Each is
  interpreted in the theory of the store that provides it.
\<close>

subsection \<open>Values that are taken at most once\<close>

text \<open>
  \<open>takes q s k\<close>: in the state \<open>s\<close> the operation \<open>q\<close> hands \<open>k\<close> out; \<open>issues q k\<close>: the
  operation stores \<open>k\<close> (again).
\<close>

locale single_use =
  fixes exec :: "'q \<Rightarrow> 's \<Rightarrow> 's"
    and live :: "'s \<Rightarrow> 'k \<Rightarrow> bool"
    and takes :: "'q \<Rightarrow> 's \<Rightarrow> 'k \<Rightarrow> bool"
    and issues :: "'q \<Rightarrow> 'k \<Rightarrow> bool"
  assumes takes_live: "takes q s k \<Longrightarrow> live s k"
    and takes_kills: "takes q s k \<Longrightarrow> \<not> live (exec q s) k"
    and stays_dead: "\<not> live s k \<Longrightarrow> \<not> issues q k \<Longrightarrow> \<not> live (exec q s) k"
begin

primrec taken :: "'k \<Rightarrow> 'q list \<Rightarrow> 's \<Rightarrow> nat" where
  "taken k [] s = 0"
| "taken k (q # qs) s = (if takes q s k then 1 else 0) + taken k qs (exec q s)"

lemma dead_never_taken:
  "\<not> live s k \<Longrightarrow> (\<And>q. q \<in> set qs \<Longrightarrow> \<not> issues q k) \<Longrightarrow> taken k qs s = 0"
proof (induction qs arbitrary: s)
  case Nil
  show ?case by simp
next
  case (Cons q qs)
  have "\<not> takes q s k" using Cons.prems(1) takes_live by blast
  moreover have "\<not> live (exec q s) k" using Cons.prems by (simp add: stays_dead)
  ultimately show ?case using Cons by simp
qed

lemma taken_at_most_once:
  "(\<And>q. q \<in> set qs \<Longrightarrow> \<not> issues q k) \<Longrightarrow> taken k qs s \<le> 1"
proof (induction qs arbitrary: s)
  case Nil
  show ?case by simp
next
  case (Cons q qs)
  show ?case
  proof (cases "takes q s k")
    case True
    then have "taken k qs (exec q s) = 0"
      using Cons.prems by (intro dead_never_taken takes_kills) simp_all
    with True show ?thesis by simp
  next
    case False
    with Cons show ?thesis by simp
  qed
qed

end

subsection \<open>Replay guards\<close>

text \<open>
  \<open>admit now k ttl s\<close> records the key \<open>k\<close> for \<open>ttl\<close> milliseconds unless it is held
  already; \<open>held s k\<close> is the time until which a recorded key is held.
\<close>

definition lapsed :: "int \<Rightarrow> jsnum \<Rightarrow> bool" where
  "lapsed now e = num_lt e (num_int now)"

text \<open>The clauses are about one key; the other keys may be forgotten only when they lapse.\<close>

locale replay_guard =
  fixes admit :: "int \<Rightarrow> 'k \<Rightarrow> jsnum \<Rightarrow> 's \<Rightarrow> bool \<times> 's"
    and held :: "'s \<Rightarrow> 'k \<Rightarrow> jsnum option"
  assumes admit_result:
      "fst (admit now k ttl s) \<longleftrightarrow> (\<forall>e. held s k = Some e \<longrightarrow> lapsed now e)"
    and admit_records:
      "fst (admit now k ttl s) \<Longrightarrow> held (snd (admit now k ttl s)) k = Some (num_add (num_int now) ttl)"
    and admit_retains:
      "held s k' = Some e \<Longrightarrow> \<not> lapsed now e \<Longrightarrow> held (snd (admit now k ttl s)) k' = Some e"
begin

primrec admissions :: "'k \<Rightarrow> (int \<times> 'k \<times> jsnum) list \<Rightarrow> 's \<Rightarrow> nat" where
  "admissions k [] s = 0"
| "admissions k (q # qs) s = (case q of (now, k', ttl) \<Rightarrow>
     (if k' = k \<and> fst (admit now k' ttl s) then 1 else 0) + admissions k qs (snd (admit now k' ttl s)))"

lemma held_not_admitted:
  assumes "held s k = Some e" and "\<forall>(now, k', ttl) \<in> set qs. \<not> lapsed now e"
  shows "admissions k qs s = 0"
  using assms
proof (induction qs arbitrary: s)
  case Nil
  show ?case by simp
next
  case (Cons q qs)
  obtain now k' ttl where q: "q = (now, k', ttl)" by (cases q)
  have nl: "\<not> lapsed now e" using Cons.prems(2) by (simp add: q)
  have "k' = k \<Longrightarrow> \<not> fst (admit now k' ttl s)"
    using Cons.prems(1) nl by (auto simp: admit_result)
  moreover have "held (snd (admit now k' ttl s)) k = Some e"
    using Cons.prems(1) nl by (rule admit_retains)
  ultimately show ?case using Cons by (auto simp: q)
qed

definition run :: "(int \<times> 'k \<times> jsnum) list \<Rightarrow> 's \<Rightarrow> 's" where
  "run qs s = fold (\<lambda>(now, k, ttl) s'. snd (admit now k ttl s')) qs s"

lemma run_Nil [simp]: "run [] s = s"
  by (simp add: run_def)

lemma run_Cons [simp]: "run ((now, k, ttl) # qs) s = run qs (snd (admit now k ttl s))"
  by (simp add: run_def)

lemma held_run:
  assumes "held s k = Some e" and "\<forall>(now, k', ttl) \<in> set qs. \<not> lapsed now e"
  shows "held (run qs s) k = Some e"
  using assms
proof (induction qs arbitrary: s)
  case Nil
  then show ?case by simp
next
  case (Cons q qs)
  then show ?case by (cases q) (auto simp: admit_retains)
qed

lemma no_replay:
  assumes "fst (admit t k ttl s)"
    and "\<forall>(now, k', ttl') \<in> set qs. \<not> lapsed now (num_add (num_int t) ttl)"
  shows "admissions k qs (snd (admit t k ttl s)) = 0"
  using admit_records [OF assms(1)] assms(2) by (rule held_not_admitted)

end

subsection \<open>Stores of values by key\<close>

locale kv_store =
  fixes put :: "'k \<Rightarrow> 'v \<Rightarrow> 's \<Rightarrow> 's"
    and get :: "'s \<Rightarrow> 'k \<Rightarrow> 'v option"
    and visible :: "'v \<Rightarrow> bool"
  assumes get_put_same: "get (put k v s) k = (if visible v then Some v else None)"
    and get_put_other: "k' \<noteq> k \<Longrightarrow> get (put k v s) k' = get s k'"
begin

lemma get_fold_other:
  "k \<notin> fst ` set kvs \<Longrightarrow> get (fold (\<lambda>(k', v). put k' v) kvs s) k = get s k"
  by (induction kvs arbitrary: s) (auto simp: get_put_other)

text \<open>The last write to a key is what a later read returns.\<close>

lemma get_last_write:
  assumes "visible v" and "k \<notin> fst ` set later"
  shows "get (fold (\<lambda>(k', v'). put k' v') (earlier @ (k, v) # later) s) k = Some v"
  using assms by (simp add: get_fold_other get_put_same)

end

end
