(* ===== verification/Pac_Store.thy ===== *)
theory Pac_Store
  imports Interfaces
begin

text \<open>
  The in-memory store of pre-authorized codes
  (\<open>providers/in-memory/in-memory-pre-authorized-code-store.provider.ts\<close>): codes with an
  expiry, an optional transaction code and a counter of failed attempts. \<open>now\<close> is the
  reading of the clock in milliseconds, \<open>limit\<close> the configured number of attempts.
\<close>

subsection \<open>State and operations\<close>

datatype tx_mode = Numeric | Text

text \<open>The transaction code of a request or an entry: \<open>string | number\<close>.\<close>

datatype tx_code = TxStr string | TxNum jsnum

record pac_entry =
  pe_ids :: "string list"
  pe_tx_code :: "tx_code option"
  pe_mode :: "tx_mode option"
  pe_expires_at :: "int option"
  pe_attempts :: "int option"

type_synonym pac_store = "string \<Rightarrow> pac_entry option"

definition DEFAULT_MAX_TX_CODE_ATTEMPTS :: jsnum where
  "DEFAULT_MAX_TX_CODE_ATTEMPTS = Fin 5"

text \<open>\<open>Math.floor\<close> of a finite number, as an integer; other numbers take the default.\<close>

fun floor_or :: "int \<Rightarrow> jsnum \<Rightarrow> int" where
  "floor_or d (Fin a) = \<lfloor>a\<rfloor>"
| "floor_or d x = d"

definition maxTxCodeAttempts :: "jsnum option \<Rightarrow> int" where
  "maxTxCodeAttempts opt =
     (let raw = getOr DEFAULT_MAX_TX_CODE_ATTEMPTS opt
      in if num_finite raw then max 1 (floor_or 5 raw) else 5)"

definition MAX_SAFE_INTEGER :: int where
  "MAX_SAFE_INTEGER = 2 ^ 53 - 1"

fun toDigitString :: "tx_code \<Rightarrow> string option" where
  "toDigitString (TxNum (Fin a)) =
     (if a = of_int \<lfloor>a\<rfloor> \<and> \<lfloor>a\<rfloor> \<le> MAX_SAFE_INTEGER \<and> 0 \<le> a
      then Some (show_nat (nat \<lfloor>a\<rfloor>)) else None)"
| "toDigitString (TxNum x) = None"
| "toDigitString (TxStr s) = (if s \<noteq> [] \<and> list_all is_digit s then Some s else None)"

text \<open>\<open>===\<close> on \<open>string | number\<close>.\<close>

fun tx_same :: "tx_code \<Rightarrow> tx_code \<Rightarrow> bool" where
  "tx_same (TxStr s) (TxStr t) = (s = t)"
| "tx_same (TxNum a) (TxNum b) = num_eq a b"
| "tx_same x y = False"

text \<open>The time to live in seconds of a saved entry, used by two stores.\<close>

definition ttl_sec :: "jsnum option \<Rightarrow> int" where
  "ttl_sec opt =
     (let raw = getOr (Fin 300) opt; cand = floor_or 0 raw
      in if num_finite raw \<and> 0 < cand then cand else 300)"

record pac_save_options =
  so_ttlSec :: "jsnum option"
  so_mode :: "tx_mode option"

definition pac_save ::
  "int \<Rightarrow> string \<Rightarrow> string list \<Rightarrow> tx_code option \<Rightarrow> pac_save_options \<Rightarrow> (pac_store, unit) M" where
  "pac_save now c ids tx opts =
     (let mode = getOr Numeric (so_mode opts);
          expiresAt = now + ttl_sec (so_ttlSec opts) * 1000;
          put = (\<lambda>stored. \<lambda>codes. (Inr (), codes(c \<mapsto>
            \<lparr>pe_ids = ids, pe_tx_code = stored, pe_mode = Some mode,
             pe_expires_at = Some expiresAt, pe_attempts = None\<rparr>)))
      in case tx of
           None \<Rightarrow> put None
         | Some t \<Rightarrow>
             if mode \<noteq> Text then
               (case toDigitString t of
                  None \<Rightarrow> raise ''invalid_tx_code'' ''tx_code must be a non-negative integer''
                | Some canonical \<Rightarrow> put (Some (TxStr canonical)))
             else put (Some t))"

definition pac_delete :: "string \<Rightarrow> (pac_store, unit) M" where
  "pac_delete c = (\<lambda>codes. (Inr (), codes(c := None)))"

definition LOCKED_MESSAGE :: string where
  "LOCKED_MESSAGE = ''Pre-authorized code is invalid, consumed, or locked''"

definition lockoutIfExhausted :: "int \<Rightarrow> string \<Rightarrow> pac_entry \<Rightarrow> (pac_store, unit) M" where
  "lockoutIfExhausted limit c item =
     whenM (getOr 0 (pe_attempts item) \<ge> limit)
       (thenM (pac_delete c) (raise ''invalid_grant'' LOCKED_MESSAGE))"

definition pac_expired :: "int \<Rightarrow> pac_entry \<Rightarrow> bool" where
  "pac_expired now e =
     (case pe_expires_at e of None \<Rightarrow> False | Some x \<Rightarrow> x \<noteq> 0 \<and> x < now)"

text \<open>The comparison of the transaction code: the error to throw, if any.\<close>

definition tx_matches :: "tx_mode option \<Rightarrow> tx_code \<Rightarrow> tx_code \<Rightarrow> bool" where
  "tx_matches mode expected actual =
     (if mode \<noteq> Some Text
      then (case (toDigitString expected, toDigitString actual) of
              (Some x, Some y) \<Rightarrow> x = y | _ \<Rightarrow> False)
      else tx_same expected actual)"

definition pac_consume ::
  "int \<Rightarrow> int \<Rightarrow> string \<Rightarrow> tx_code option \<Rightarrow> (pac_store, string list) M" where
  "pac_consume limit now c tx = (\<lambda>codes.
     case codes c of
       None \<Rightarrow> raise ''invalid_grant'' LOCKED_MESSAGE codes
     | Some entry \<Rightarrow>
         let currentAttempts = getOr 0 (pe_attempts entry) in
         if currentAttempts \<ge> limit then raise ''invalid_grant'' LOCKED_MESSAGE codes
         else
           let item = entry\<lparr>pe_attempts := Some (currentAttempts + 1)\<rparr>;
               fail = (\<lambda>code msg. thenM (lockoutIfExhausted limit c item) (raise code msg))
           in (if pac_expired now item then
                 thenM (pac_delete c) (raise ''invalid_grant'' ''Pre-authorized code has expired'')
               else
                 thenM
                   (case (pe_tx_code item, tx) of
                      (Some expected, None) \<Rightarrow>
                        fail ''invalid_request'' ''tx_code is required for this pre-authorized code''
                    | (Some expected, Some actual) \<Rightarrow>
                        if tx_matches (pe_mode item) expected actual then ret ()
                        else fail ''invalid_grant'' ''Invalid tx_code provided''
                    | (None, Some actual) \<Rightarrow>
                        fail ''invalid_request'' ''tx_code should not be provided for this pre-authorized code''
                    | (None, None) \<Rightarrow> ret ())
                   (thenM (pac_delete c) (ret (pe_ids item))))
              (codes(c \<mapsto> item)))"

subsection \<open>The runs of \<open>consume\<close>\<close>

definition tx_ok :: "pac_entry \<Rightarrow> tx_code option \<Rightarrow> bool" where
  "tx_ok e tx =
     (case (pe_tx_code e, tx) of
        (None, None) \<Rightarrow> True
      | (Some expected, Some actual) \<Rightarrow> tx_matches (pe_mode e) expected actual
      | _ \<Rightarrow> False)"

definition counted :: "pac_entry \<Rightarrow> pac_entry" where
  "counted e = e\<lparr>pe_attempts := Some (getOr 0 (pe_attempts e) + 1)\<rparr>"

lemma counted_simps [simp]:
  "pe_ids (counted e) = pe_ids e" "pe_tx_code (counted e) = pe_tx_code e"
  "pe_mode (counted e) = pe_mode e" "pe_expires_at (counted e) = pe_expires_at e"
  "pe_attempts (counted e) = Some (getOr 0 (pe_attempts e) + 1)"
  by (simp_all add: counted_def)

lemma pac_expired_counted [simp]: "pac_expired now (counted e) = pac_expired now e"
  by (simp add: pac_expired_def)

lemma pac_consume_absent:
  "codes c = None \<Longrightarrow> pac_consume limit now c tx codes = (Inl (err ''invalid_grant'' LOCKED_MESSAGE), codes)"
  by (simp add: pac_consume_def run_simps)

lemma pac_consume_locked:
  "codes c = Some e \<Longrightarrow> limit \<le> getOr 0 (pe_attempts e) \<Longrightarrow>
     pac_consume limit now c tx codes = (Inl (err ''invalid_grant'' LOCKED_MESSAGE), codes)"
  by (simp add: pac_consume_def run_simps)

lemma pac_consume_expired:
  "codes c = Some e \<Longrightarrow> getOr 0 (pe_attempts e) < limit \<Longrightarrow> pac_expired now e \<Longrightarrow>
     pac_consume limit now c tx codes =
       (Inl (err ''invalid_grant'' ''Pre-authorized code has expired''), codes(c := None))"
  by (simp add: pac_consume_def counted_def [symmetric] pac_delete_def run_simps Let_def)

lemma pac_consume_ok:
  "codes c = Some e \<Longrightarrow> getOr 0 (pe_attempts e) < limit \<Longrightarrow> \<not> pac_expired now e \<Longrightarrow> tx_ok e tx \<Longrightarrow>
     pac_consume limit now c tx codes = (Inr (pe_ids e), codes(c := None))"
  by (auto simp: pac_consume_def counted_def [symmetric] pac_delete_def run_simps Let_def tx_ok_def
      split: option.splits)

text \<open>A wrong transaction code: the last attempt removes the entry.\<close>

lemma pac_consume_wrong:
  assumes "codes c = Some e" "getOr 0 (pe_attempts e) < limit" "\<not> pac_expired now e" "\<not> tx_ok e tx"
  shows "snd (pac_consume limit now c tx codes) =
           codes(c := (if limit \<le> getOr 0 (pe_attempts e) + 1 then None else Some (counted e)))"
    and "\<exists>x. fst (pac_consume limit now c tx codes) = Inl x"
  using assms
  by (auto simp: pac_consume_def counted_def [symmetric] pac_delete_def lockoutIfExhausted_def
      run_simps Let_def tx_ok_def split: option.splits)

lemmas pac_consume_runs =
  pac_consume_absent pac_consume_locked pac_consume_expired pac_consume_ok pac_consume_wrong

lemma pac_consume_other:
  "c' \<noteq> c \<Longrightarrow> snd (pac_consume limit now c tx codes) c' = codes c'"
proof (cases "codes c")
  case (Some e)
  assume "c' \<noteq> c"
  with Some show ?thesis
    by (cases "limit \<le> getOr 0 (pe_attempts e)"; cases "pac_expired now e"; cases "tx_ok e tx")
      (simp_all add: pac_consume_runs)
qed (simp add: pac_consume_absent)

text \<open>Every attempt either removes the entry or uses one attempt up.\<close>

lemma pac_consume_step:
  assumes "codes c = Some e" "getOr 0 (pe_attempts e) < limit"
  shows "snd (pac_consume limit now c tx codes) c = None \<or>
         (snd (pac_consume limit now c tx codes) c = Some (counted e) \<and>
          getOr 0 (pe_attempts e) + 1 < limit)"
  using assms
  by (cases "pac_expired now e"; cases "tx_ok e tx") (auto simp: pac_consume_runs)

lemma pac_consume_Inr_iff:
  "fst (pac_consume limit now c tx codes) = Inr ids \<longleftrightarrow>
     (\<exists>e. codes c = Some e \<and> getOr 0 (pe_attempts e) < limit \<and> \<not> pac_expired now e \<and>
        tx_ok e tx \<and> ids = pe_ids e)"
proof (cases "codes c")
  case (Some e)
  show ?thesis
  proof (cases "limit \<le> getOr 0 (pe_attempts e)")
    case False
    then have a: "getOr 0 (pe_attempts e) < limit" by simp
    show ?thesis
    proof (cases "pac_expired now e")
      case False
      show ?thesis
      proof (cases "tx_ok e tx")
        case True
        with Some a \<open>\<not> pac_expired now e\<close> show ?thesis by (auto simp: pac_consume_ok)
      next
        case wrong: False
        obtain x where "fst (pac_consume limit now c tx codes) = Inl x"
          using pac_consume_wrong(2) [where codes = codes, OF Some a False wrong] by blast
        with Some wrong show ?thesis by simp
      qed
    qed (simp add: Some a pac_consume_expired)
  qed (simp add: Some pac_consume_locked)
qed (simp add: pac_consume_absent)

lemma pac_consume_Inr_deletes:
  "fst (pac_consume limit now c tx codes) = Inr ids \<Longrightarrow>
     snd (pac_consume limit now c tx codes) = codes(c := None)"
  by (auto simp: pac_consume_Inr_iff pac_consume_ok)

subsection \<open>The invariant of the store\<close>

definition pac_below :: "int \<Rightarrow> pac_store \<Rightarrow> bool" where
  "pac_below limit codes \<longleftrightarrow>
     (\<forall>c e. codes c = Some e \<longrightarrow> 0 \<le> getOr 0 (pe_attempts e) \<and> getOr 0 (pe_attempts e) < limit)"

lemma maxTxCodeAttempts_pos: "0 < maxTxCodeAttempts opt"
  unfolding maxTxCodeAttempts_def Let_def by (auto simp: less_max_iff_disj)

lemma ttl_sec_pos: "0 < ttl_sec opt"
  by (simp add: ttl_sec_def Let_def)

lemma pac_below_save:
  "0 < limit \<Longrightarrow> pac_below limit codes \<Longrightarrow> pac_below limit (snd (pac_save now c ids tx opts codes))"
  by (auto simp: pac_below_def pac_save_def Let_def raise_run split: option.splits)

lemma pac_below_consume:
  assumes "pac_below limit codes"
  shows "pac_below limit (snd (pac_consume limit now c tx codes))"
proof (cases "codes c")
  case (Some e)
  then have a: "0 \<le> getOr 0 (pe_attempts e)" "getOr 0 (pe_attempts e) < limit"
    using assms by (auto simp: pac_below_def)
  show ?thesis unfolding pac_below_def
  proof (intro allI impI)
    fix c' e' assume e': "snd (pac_consume limit now c tx codes) c' = Some e'"
    show "0 \<le> getOr 0 (pe_attempts e') \<and> getOr 0 (pe_attempts e') < limit"
    proof (cases "c' = c")
      case True
      with pac_consume_step [where codes = codes and now = now and tx = tx, OF Some a(2)] e' a show ?thesis by auto
    next
      case False
      with e' assms show ?thesis by (auto simp: pac_below_def pac_consume_other)
    qed
  qed
qed (simp add: assms pac_consume_absent)

subsection \<open>Histories of the store\<close>

datatype pac_op =
    PacSave int string "string list" "tx_code option" pac_save_options
  | PacConsume int string "tx_code option"

fun pac_exec :: "int \<Rightarrow> pac_op \<Rightarrow> pac_store \<Rightarrow> pac_store" where
  "pac_exec limit (PacSave now c ids tx opts) codes = snd (pac_save now c ids tx opts codes)"
| "pac_exec limit (PacConsume now c tx) codes = snd (pac_consume limit now c tx codes)"

fun pac_takes :: "int \<Rightarrow> pac_op \<Rightarrow> pac_store \<Rightarrow> string \<Rightarrow> bool" where
  "pac_takes limit (PacSave now c' ids tx opts) codes c = False"
| "pac_takes limit (PacConsume now c' tx) codes c =
     (c' = c \<and> (case fst (pac_consume limit now c' tx codes) of Inl e \<Rightarrow> False | Inr ids \<Rightarrow> True))"

fun pac_issues :: "pac_op \<Rightarrow> string \<Rightarrow> bool" where
  "pac_issues (PacSave now c' ids tx opts) c = (c' = c)"
| "pac_issues (PacConsume now c' tx) c = False"

definition pac_live :: "pac_store \<Rightarrow> string \<Rightarrow> bool" where
  "pac_live codes c = (codes c \<noteq> None)"

fun pac_tries :: "string \<Rightarrow> pac_op \<Rightarrow> bool" where
  "pac_tries c (PacConsume now c' tx) = (c' = c)"
| "pac_tries c (PacSave now c' ids tx opts) = False"

lemma pac_save_other:
  "c' \<noteq> c \<Longrightarrow> snd (pac_save now c ids tx opts codes) c' = codes c'"
  by (auto simp: pac_save_def Let_def raise_run split: option.splits)

lemma pac_takes_ConsumeD:
  "pac_takes limit (PacConsume now c' tx) codes c \<Longrightarrow>
     c' = c \<and> (\<exists>ids. fst (pac_consume limit now c tx codes) = Inr ids)"
  by (auto split: sum.splits)

interpretation pac: single_use "pac_exec limit" pac_live "pac_takes limit" pac_issues
proof unfold_locales
  fix q s k assume "pac_takes limit q s k"
  then show "pac_live s k"
    by (cases q) (auto simp: pac_live_def pac_consume_Inr_iff simp del: pac_takes.simps(2)
        dest!: pac_takes_ConsumeD)
next
  fix q s k assume "pac_takes limit q s k"
  then show "\<not> pac_live (pac_exec limit q s) k"
    by (cases q) (auto simp: pac_live_def pac_consume_Inr_deletes simp del: pac_takes.simps(2)
        dest!: pac_takes_ConsumeD)
next
  fix q s k assume "\<not> pac_live s k" "\<not> pac_issues q k"
  then show "\<not> pac_live (pac_exec limit q s) k"
    by (cases q) (auto simp: pac_live_def pac_save_other,
        metis pac_consume_absent pac_consume_other snd_conv)
qed

definition pac_run :: "int \<Rightarrow> pac_op list \<Rightarrow> pac_store \<Rightarrow> pac_store" where
  "pac_run limit qs codes = fold (pac_exec limit) qs codes"

definition pac_left :: "int \<Rightarrow> pac_store \<Rightarrow> string \<Rightarrow> int" where
  "pac_left limit codes c =
     (case codes c of None \<Rightarrow> 0 | Some e \<Rightarrow> limit - getOr 0 (pe_attempts e))"

lemma pac_below_exec: "0 < limit \<Longrightarrow> pac_below limit s \<Longrightarrow> pac_below limit (pac_exec limit q s)"
  by (cases q) (simp_all add: pac_below_save pac_below_consume)

lemma pac_left_exec:
  assumes "pac_below limit s" "\<not> pac_issues q c"
  shows "pac_left limit (pac_exec limit q s) c \<le> max 0 (pac_left limit s c - (if pac_tries c q then 1 else 0))"
proof (cases q)
  case (PacSave now c' ids tx opts)
  with assms show ?thesis
    by (auto simp: pac_left_def pac_save_other split: option.splits)
next
  case (PacConsume now c' tx)
  show ?thesis
  proof (cases "c' = c \<and> s c \<noteq> None")
    case True
    then obtain e where e: "s c = Some e" by auto
    then have "getOr 0 (pe_attempts e) < limit" using assms(1) by (auto simp: pac_below_def)
    from pac_consume_step [where codes = s and now = now and tx = tx, OF e this] True e show ?thesis
      by (auto simp: PacConsume pac_left_def split: option.splits)
  next
    case False
    then show ?thesis
      by (cases "c' = c") (auto simp: PacConsume pac_left_def pac_consume_absent pac_consume_other
          split: option.splits)
  qed
qed

lemma pac_left_run:
  assumes "0 < limit" "pac_below limit s" "\<forall>q \<in> set qs. \<not> pac_issues q c"
  shows "pac_left limit (pac_run limit qs s) c \<le>
           max 0 (pac_left limit s c - int (length (filter (pac_tries c) qs)))"
  using assms(2,3)
proof (induction qs arbitrary: s)
  case Nil
  then show ?case by (simp add: pac_run_def)
next
  case (Cons q qs)
  have b: "pac_below limit (pac_exec limit q s)"
    using assms(1) Cons.prems(1) by (rule pac_below_exec)
  have "pac_left limit (pac_run limit qs (pac_exec limit q s)) c \<le>
          max 0 (pac_left limit (pac_exec limit q s) c - int (length (filter (pac_tries c) qs)))"
    using Cons.IH [OF b] Cons.prems(2) by simp
  moreover have "pac_left limit (pac_exec limit q s) c \<le>
      max 0 (pac_left limit s c - (if pac_tries c q then 1 else 0))"
    using Cons.prems by (simp add: pac_left_exec)
  ultimately show ?case by (auto simp: pac_run_def split: if_splits)
qed

lemma pac_below_run: "0 < limit \<Longrightarrow> pac_below limit s \<Longrightarrow> pac_below limit (pac_run limit qs s)"
  by (induction qs arbitrary: s) (simp_all add: pac_run_def pac_below_exec)

lemma pac_left_bound: "pac_below limit s \<Longrightarrow> 0 < limit \<Longrightarrow> pac_left limit s c \<le> limit"
  by (fastforce simp: pac_left_def pac_below_def split: option.splits)

lemma pac_left_none: "pac_below limit s \<Longrightarrow> pac_left limit s c \<le> 0 \<Longrightarrow> s c = None"
  by (fastforce simp: pac_left_def pac_below_def split: option.splits)

subsection \<open>Properties\<close>

text \<open>C32. Brute-force lockout: once a pre-authorized code has been presented as often as the
  limit allows, with right or wrong transaction codes, it is gone, and every further attempt
  fails with \<open>invalid_grant\<close> until the code is saved again. Attempts on other codes and
  saves of other codes in between make no difference.\<close>

theorem tx_code_lockout:
  assumes "0 < limit" and "pac_below limit st"
    and "\<forall>q \<in> set qs. \<not> pac_issues q c"
    and "limit \<le> int (length (filter (pac_tries c) qs))"
  shows "pac_consume limit now c tx (pac_run limit qs st) =
           (Inl (err ''invalid_grant'' LOCKED_MESSAGE), pac_run limit qs st)"
proof -
  have "pac_left limit (pac_run limit qs st) c \<le> 0"
    using pac_left_run [OF assms(1-3)] pac_left_bound [OF assms(2,1), of c] assms(4) by linarith
  with pac_below_run [OF assms(1,2)] have "pac_run limit qs st c = None"
    by (rule pac_left_none)
  then show ?thesis by (rule pac_consume_absent)
qed

definition demo_save :: "string \<Rightarrow> pac_op" where
  "demo_save c = PacSave 0 c [''cfg''] (Some (TxStr ''0417'')) \<lparr>so_ttlSec = None, so_mode = None\<rparr>"

definition demo_codes :: pac_store where
  "demo_codes = pac_exec 2 (demo_save ''code'') (\<lambda>_. None)"

lemma demo_codes_below: "pac_below 2 demo_codes"
  unfolding demo_codes_def demo_save_def
  by (rule pac_below_exec) (simp_all add: pac_below_def)

theorem tx_code_lockout_witness:
  "pac_consume 2 5 ''code'' (Some (TxStr ''0417''))
      (pac_run 2 [PacConsume 1 ''code'' (Some (TxStr ''9'')), PacConsume 2 ''code'' None] demo_codes) =
   (Inl (err ''invalid_grant'' LOCKED_MESSAGE),
    pac_run 2 [PacConsume 1 ''code'' (Some (TxStr ''9'')), PacConsume 2 ''code'' None] demo_codes)"
  by (rule tx_code_lockout) (simp_all add: demo_codes_below)

text \<open>Round trip of a code with a numeric transaction code: the digits that were saved, as a
  string with leading zeros or as the number they print, are what is accepted, until the
  expiry computed from the time to live, and no other digits are.\<close>

theorem pac_save_consume:
  assumes "0 < limit" and "toDigitString t = Some d" and "so_mode opts \<noteq> Some Text"
    and "0 < t0 + ttl_sec (so_ttlSec opts) * 1000" and "now \<le> t0 + ttl_sec (so_ttlSec opts) * 1000"
  shows "fst (pac_consume limit now c (Some u) (snd (pac_save t0 c ids (Some t) opts st))) =
           (if toDigitString u = Some d then Inr ids
            else if limit = 1 then Inl (err ''invalid_grant'' LOCKED_MESSAGE)
            else Inl (err ''invalid_grant'' ''Invalid tx_code provided''))"
proof -
  have d: "toDigitString (TxStr d) = Some d"
    using assms(2) by (cases t rule: toDigitString.cases) (auto simp: show_nat_digits list_all_iff split: if_splits)
  have m: "getOr Numeric (so_mode opts) \<noteq> Text"
    using assms(3) by (cases "so_mode opts") auto
  define st' where "st' = snd (pac_save t0 c ids (Some t) opts st)"
  have st': "st' c = Some \<lparr>pe_ids = ids, pe_tx_code = Some (TxStr d), pe_mode = Some (getOr Numeric (so_mode opts)),
      pe_expires_at = Some (t0 + ttl_sec (so_ttlSec opts) * 1000), pe_attempts = None\<rparr>"
    using m by (simp add: st'_def pac_save_def assms(2))
  show ?thesis
  proof (cases "toDigitString u = Some d")
    case True
    then have "pac_consume limit now c (Some u) st' = (Inr ids, st'(c := None))"
      using st' assms m d by (subst pac_consume_ok) (auto simp: pac_expired_def tx_ok_def tx_matches_def)
    with True show ?thesis by (simp add: st'_def)
  next
    case False
    then show ?thesis
      using st' assms m d unfolding st'_def [symmetric]
      by (auto simp: pac_consume_def run_simps Let_def pac_expired_def tx_matches_def lockoutIfExhausted_def
          pac_delete_def split: option.splits)
  qed
qed

lemma demo_digits: "toDigitString (TxStr ''0417'') = Some ''0417''"
  by (simp add: is_digit_def code_def)

theorem pac_save_consume_witness:
  "fst (pac_consume 5 1000 ''code'' (Some (TxStr ''0417''))
      (snd (pac_save 0 ''code'' [''cfg''] (Some (TxStr ''0417'')) \<lparr>so_ttlSec = None, so_mode = None\<rparr> (\<lambda>_. None))))
   = Inr [''cfg'']"
  using pac_save_consume [of 5 "TxStr ''0417''" "''0417''" "\<lparr>so_ttlSec = None, so_mode = None\<rparr>" 0 1000 "''code''"
      "TxStr ''0417''" "[''cfg'']" "\<lambda>_. None"]
  by (simp add: demo_digits ttl_sec_def Let_def del: toDigitString.simps)

text \<open>The attempts counter stays below the limit: whatever the configured number of attempts
  (fractions, infinities and values below one included), the limit is at least one, and
  after any sequence of operations on an empty store every stored code has been tried
  fewer times than the limit.\<close>

theorem pac_attempts_bounded:
  "1 \<le> maxTxCodeAttempts opt \<and>
   pac_below (maxTxCodeAttempts opt) (pac_run (maxTxCodeAttempts opt) qs (\<lambda>_. None))"
proof
  show "1 \<le> maxTxCodeAttempts opt" using maxTxCodeAttempts_pos [of opt] by simp
  have "pac_below (maxTxCodeAttempts opt) (\<lambda>_. None)" by (simp add: pac_below_def)
  with maxTxCodeAttempts_pos
  show "pac_below (maxTxCodeAttempts opt) (pac_run (maxTxCodeAttempts opt) qs (\<lambda>_. None))"
    by (rule pac_below_run)
qed

end
