(* ===== verification/Nonce_Store.thy ===== *)
theory Nonce_Store
  imports Interfaces
begin

text \<open>
  The in-memory nonce store (\<open>providers/in-memory/in-memory-nonce-store.provider.ts\<close>,
  \<open>nonce.types.ts\<close>): nonces with an expiry in milliseconds. \<open>validate\<close> reads,
  \<open>revoke\<close> removes, \<open>consume\<close> does both in one step.
\<close>

subsection \<open>State and operations\<close>

record nonce_rec =
  nonce :: string
  nonce_expires_in :: "jsnum option"

record NonceState =
  ns_nonce :: nonce_rec
  ns_expires_at :: jsnum

type_synonym nonce_store = "string \<Rightarrow> NonceState option"

definition getValidNonceState :: "int \<Rightarrow> nonce_rec \<Rightarrow> (nonce_store, NonceState option) M" where
  "getValidNonceState now n = (\<lambda>st.
     case st (nonce n) of
       None \<Rightarrow> (Inr None, st)
     | Some ns \<Rightarrow>
         if num_lt (ns_expires_at ns) (num_int now) then (Inr None, st(nonce n := None))
         else (Inr (Some ns), st))"

definition nonce_save :: "int \<Rightarrow> nonce_rec \<Rightarrow> (nonce_store, unit) M" where
  "nonce_save now n =
     (case nonce_expires_in n of
        None \<Rightarrow> throw (JsError ''nonce_expires_in is required when saving nonce'')
      | Some ttlMs \<Rightarrow> (\<lambda>st. (Inr (), st(nonce n \<mapsto>
          \<lparr>ns_nonce = n, ns_expires_at = num_add (num_int now) ttlMs\<rparr>))))"

definition nonce_validate :: "int \<Rightarrow> nonce_rec \<Rightarrow> (nonce_store, bool) M" where
  "nonce_validate now n = bindM (getValidNonceState now n) (\<lambda>s. ret (s \<noteq> None))"

text \<open>\<open>Map.delete\<close> tells whether there was an entry.\<close>

definition nonce_revoke :: "nonce_rec \<Rightarrow> (nonce_store, bool) M" where
  "nonce_revoke n = (\<lambda>st. (Inr (st (nonce n) \<noteq> None), st(nonce n := None)))"

definition nonce_consume :: "int \<Rightarrow> nonce_rec \<Rightarrow> (nonce_store, bool) M" where
  "nonce_consume now n =
     bindM (getValidNonceState now n) (\<lambda>s.
       case s of None \<Rightarrow> ret False | Some ns \<Rightarrow> nonce_revoke n)"

subsection \<open>What the operations return\<close>

text \<open>A stored nonce that has not expired; the instant of expiry itself is still valid.\<close>

definition nonce_valid :: "int \<Rightarrow> nonce_store \<Rightarrow> string \<Rightarrow> bool" where
  "nonce_valid now st k =
     (case st k of None \<Rightarrow> False | Some ns \<Rightarrow> \<not> num_lt (ns_expires_at ns) (num_int now))"

lemma nonce_validate_result: "fst (nonce_validate now n st) = Inr (nonce_valid now st (nonce n))"
  by (simp add: nonce_validate_def getValidNonceState_def nonce_valid_def run_simps split: option.splits)

lemma nonce_validate_state:
  "snd (nonce_validate now n st) = (if nonce_valid now st (nonce n) then st else st(nonce n := None))"
  by (auto simp: nonce_validate_def getValidNonceState_def nonce_valid_def run_simps split: option.splits)

lemma nonce_consume_result: "fst (nonce_consume now n st) = Inr (nonce_valid now st (nonce n))"
  by (simp add: nonce_consume_def getValidNonceState_def nonce_revoke_def nonce_valid_def run_simps
      split: option.splits)

lemma nonce_consume_state: "snd (nonce_consume now n st) = st(nonce n := None)"
  by (auto simp: nonce_consume_def getValidNonceState_def nonce_revoke_def run_simps split: option.splits)

lemma nonce_revoke_run: "nonce_revoke n st = (Inr (st (nonce n) \<noteq> None), st(nonce n := None))"
  by (simp add: nonce_revoke_def)

lemma nonce_save_run:
  "nonce_expires_in n = Some ttl \<Longrightarrow> nonce_save now n st =
     (Inr (), st(nonce n \<mapsto> \<lparr>ns_nonce = n, ns_expires_at = num_add (num_int now) ttl\<rparr>))"
  by (simp add: nonce_save_def)

lemma nonce_save_no_ttl:
  "nonce_expires_in n = None \<Longrightarrow> nonce_save now n st =
     (Inl (JsError ''nonce_expires_in is required when saving nonce''), st)"
  by (simp add: nonce_save_def run_simps)

lemmas nonce_runs = nonce_validate_result nonce_validate_state nonce_consume_result
  nonce_consume_state nonce_revoke_run

subsection \<open>Histories of the store\<close>

datatype nonce_op =
    NSave int nonce_rec | NValidate int nonce_rec | NRevoke nonce_rec | NConsume int nonce_rec

fun nonce_exec :: "nonce_op \<Rightarrow> nonce_store \<Rightarrow> nonce_store" where
  "nonce_exec (NSave now n) st = snd (nonce_save now n st)"
| "nonce_exec (NValidate now n) st = snd (nonce_validate now n st)"
| "nonce_exec (NRevoke n) st = snd (nonce_revoke n st)"
| "nonce_exec (NConsume now n) st = snd (nonce_consume now n st)"

text \<open>The operation hands the nonce out: \<open>consume\<close> or \<open>revoke\<close> returned true for it.\<close>

fun nonce_takes :: "nonce_op \<Rightarrow> nonce_store \<Rightarrow> string \<Rightarrow> bool" where
  "nonce_takes (NConsume now n) st k = (nonce n = k \<and> fst (nonce_consume now n st) = Inr True)"
| "nonce_takes (NRevoke n) st k = (nonce n = k \<and> fst (nonce_revoke n st) = Inr True)"
| "nonce_takes q st k = False"

fun nonce_issues :: "nonce_op \<Rightarrow> string \<Rightarrow> bool" where
  "nonce_issues (NSave now n) k = (nonce n = k)"
| "nonce_issues q k = False"

definition nonce_live :: "nonce_store \<Rightarrow> string \<Rightarrow> bool" where
  "nonce_live st k = (st k \<noteq> None)"

interpretation nst: single_use nonce_exec nonce_live nonce_takes nonce_issues
proof unfold_locales
  fix q s k assume "nonce_takes q s k"
  then show "nonce_live s k"
    by (cases q) (auto simp: nonce_live_def nonce_runs nonce_valid_def split: option.splits)
next
  fix q s k assume "nonce_takes q s k"
  then show "\<not> nonce_live (nonce_exec q s) k"
    by (cases q) (auto simp: nonce_live_def nonce_runs)
next
  fix q s k assume "\<not> nonce_live s k" "\<not> nonce_issues q k"
  then show "\<not> nonce_live (nonce_exec q s) k"
    by (cases q) (auto simp: nonce_live_def nonce_runs nonce_save_def run_simps split: option.splits)
qed

subsection \<open>Properties\<close>

text \<open>How often the nonce \<open>k\<close> is handed out in a sequence of operations.\<close>

fun nonces_handed_out :: "string \<Rightarrow> nonce_op list \<Rightarrow> nonce_store \<Rightarrow> nat" where
  "nonces_handed_out k [] st = 0"
| "nonces_handed_out k (q # qs) st =
     (if nonce_takes q st k then 1 else 0) + nonces_handed_out k qs (nonce_exec q st)"

lemma nonces_handed_out_taken: "nonces_handed_out k qs st = nst.taken k qs st"
  by (induction qs arbitrary: st) simp_all

text \<open>Whatever sequence of operations runs on the store, a nonce that is not saved
  again is handed out by \<open>consume\<close> or \<open>revoke\<close> at most once, at any clock readings.\<close>

theorem nonce_taken_at_most_once:
  assumes "\<forall>q \<in> set qs. \<not> nonce_issues q k"
  shows "nonces_handed_out k qs st \<le> 1"
  unfolding nonces_handed_out_taken using assms by (intro nst.taken_at_most_once) blast

definition demo_nonce :: nonce_rec where
  "demo_nonce = \<lparr>nonce = ''n1'', nonce_expires_in = Some (Fin 1000)\<rparr>"

definition demo_nonce_store :: nonce_store where
  "demo_nonce_store = nonce_exec (NSave 0 demo_nonce) (\<lambda>_. None)"

theorem nonce_taken_at_most_once_witness:
  "nonces_handed_out ''n1'' [NConsume 5 demo_nonce, NConsume 6 demo_nonce, NRevoke demo_nonce] demo_nonce_store \<le> 1"
  by (rule nonce_taken_at_most_once) simp

text \<open>A nonce saved at \<open>t\<close> with a time to live \<open>ttl\<close> is accepted by \<open>validate\<close> and by
  \<open>consume\<close> exactly as long as the clock has not passed \<open>t + ttl\<close>; \<open>consume\<close> removes it.\<close>

theorem nonce_save_then_check:
  assumes "nonce_expires_in n = Some ttl" and "nonce m = nonce n"
    and "st' = snd (nonce_save t n st)"
  shows "fst (nonce_validate now m st') = Inr (\<not> lapsed now (num_add (num_int t) ttl)) \<and>
         fst (nonce_consume now m st') = Inr (\<not> lapsed now (num_add (num_int t) ttl)) \<and>
         fst (nonce_consume now' m (snd (nonce_consume now m st'))) = Inr False"
  using assms
  by (simp add: nonce_save_run nonce_runs nonce_valid_def lapsed_def)

theorem nonce_save_then_check_witness:
  "fst (nonce_consume 1000 demo_nonce (snd (nonce_save 0 demo_nonce (\<lambda>_. None)))) = Inr True"
  using nonce_save_then_check [of demo_nonce "Fin 1000" demo_nonce _ 0 "\<lambda>_. None" 1000]
  by (simp add: demo_nonce_def lapsed_def)

end
