(* ===== verification/Types.thy ===== *)
theory Types
  imports Pac_Store Nonce_Store
begin

text \<open>
  The data of the authorization server and the credential issuer: authorization server
  metadata, OAuth clients and policies, token requests and responses, DPoP contexts,
  issuer metadata, credential offers, requests and proofs (the \<open>*.types.ts\<close> files). An
  optional field is an option; branded strings are strings; a field named by a reserved
  word or shared by two records carries a prefix.
\<close>

subsection \<open>Authorization server metadata (\<open>authorization-server.types.ts\<close>)\<close>

record AuthorizationServerMetadata =
  pre_authorized_grant_anonymous_access_supported :: "bool option"
  as_issuer :: string
  authorization_endpoint :: string
  token_endpoint :: string
  as_jwks_uri :: "string option"
  registration_endpoint :: "string option"
  scopes_supported :: "string list option"
  response_types_supported :: "string list"
  response_modes_supported :: "string list option"
  grant_types_supported :: "string list option"
  token_endpoint_auth_methods_supported :: "string list option"
  token_endpoint_auth_signing_alg_values_supported :: "string list option"
  service_documentation :: "string option"
  ui_locales_supported :: "string list option"
  op_policy_uri :: "string option"
  op_tos_uri :: "string option"
  revocation_endpoint :: "string option"
  revocation_endpoint_auth_methods_supported :: "string list option"
  revocation_endpoint_auth_signing_alg_values_supported :: "string list option"
  introspection_endpoint :: "string option"
  introspection_endpoint_auth_methods_supported :: "string list option"
  introspection_endpoint_auth_signing_alg_values_supported :: "string list option"
  code_challenge_methods_supported :: "string list option"

subsection \<open>OAuth policy and clients (\<open>authz-oauth-policy.types.ts\<close>, \<open>authz-oauth-client.types.ts\<close>)\<close>

datatype DPoPMode = Off | Optional | Required

datatype SenderConstraintMethod = MethodNone | MethodDpop | MethodMtls

record DpopOptions =
  dpop_mode :: "DPoPMode option"

record SenderConstrainedAccessToken =
  sc_method :: "SenderConstraintMethod option"
  sc_dpop :: "DpopOptions option"

record AuthzClientPolicy =
  cp_senderConstrainedAccessToken :: "SenderConstrainedAccessToken option"

record AuthzOAuthPolicy =
  default_client :: "AuthzClientPolicy option"
  anonymous_client :: "AuthzClientPolicy option"

record AuthzOAuthClient =
  client_id :: string
  client_name :: "string option"
  token_endpoint_auth_method :: "string option"
  token_endpoint_auth_signing_alg :: "string option"
  client_assertion_audience :: "string option"
  client_jwks :: "obj list option"
  client_jwks_uri :: "string option"
  allowed_grant_types :: "string list option"
  senderConstrainedAccessToken :: "SenderConstrainedAccessToken option"
  client_enabled :: "bool option"
  client_comment :: "string option"
  client_passthrough :: obj

subsection \<open>Token requests and responses (\<open>token-request.types.ts\<close>)\<close>

definition GrantType_PreAuthorizedCode :: string where
  "GrantType_PreAuthorizedCode = ''urn:ietf:params:oauth:grant-type:pre-authorized_code''"

definition GrantType_AuthorizationCode :: string where
  "GrantType_AuthorizationCode = ''authorization_code''"

text \<open>The last constructor is for the \<open>default\<close> branch of the switch on the grant type.\<close>

datatype TokenRequest =
    TokenRequestPreAuthorizedCode string "tx_code option"
  | TokenRequestAuthorizationCode string "string option" "string option"
  | TokenRequestOther string

record TokenResponse =
  access_token :: string
  token_type :: string
  expires_in :: jsnum

subsection \<open>DPoP (\<open>dpop-proof.types.ts\<close>)\<close>

datatype DpopHeaderReason = DpopMissing | DpopDuplicate | DpopMalformed

datatype ParsedDpopHeader = DpopOk string | DpopBad DpopHeaderReason

record DPoPProofVerifyContext =
  htm :: string
  htu :: string
  ctx_nonce :: "string option"
  ctx_accessToken :: "string option"

record DPoPProofPayload =
  pp_jti :: string
  pp_iat :: jsnum
  pp_htm :: string
  pp_htu :: string
  pp_nonce :: "string option"
  pp_ath :: "string option"

record VerifiedDpopProof =
  jwkThumbprint :: string
  vp_jti :: string
  vp_iat :: jsnum
  vp_nonce :: "string option"

subsection \<open>Issuer metadata (\<open>credential-issuer.types.ts\<close>)\<close>

record LogoDetails =
  logo_uri :: string
  alt_text :: "string option"

record IssuerDisplay =
  id_name :: "string option"
  id_locale :: "string option"
  id_logo :: "LogoDetails option"

record CredentialMetadataDisplay =
  md_name :: string
  md_locale :: "string option"
  md_logo :: "LogoDetails option"
  md_description :: "string option"
  md_background_color :: "string option"
  md_background_image :: "string option"
  md_text_color :: "string option"

record CredentialMetadataClaimDisplay =
  cd_name :: "string option"
  cd_locale :: "string option"

record CredentialMetadataClaim =
  claim_path :: "string list"
  claim_mandatory :: "bool option"
  claim_display :: "CredentialMetadataClaimDisplay list option"

record CredentialMetadata =
  cm_display :: "CredentialMetadataDisplay list option"
  cm_claims :: "CredentialMetadataClaim list option"

record CredentialDefinition =
  cdef_type :: "string list"
  cdef_context :: "string list option"

datatype cred_format = Format string | Formats "string list"

record CredentialConfigurationSupported =
  cc_format :: cred_format
  cc_scope :: "string option"
  cryptographic_binding_methods_supported :: "string list option"
  cryptographic_suites_supported :: "string list option"
  proof_types_supported :: "(string \<times> string list) list option"
  credential_signing_alg_values_supported :: "string list option"
  credential_metadata :: "CredentialMetadata option"
  credential_definition :: "CredentialDefinition option"
  cc_doctype :: "string option"
  cc_vct :: "string option"

record CredentialRequestEncryption =
  req_jwks :: "obj list"
  req_enc_values_supported :: "string list"
  req_zip_values_supported :: "string list option"
  req_encryption_required :: bool

record CredentialResponseEncryption =
  resp_alg_values_supported :: "string list"
  resp_enc_values_supported :: "string list"
  resp_zip_values_supported :: "string list option"
  resp_encryption_required :: bool

record CredentialIssuerMetadata =
  credential_issuer :: string
  authorization_servers :: "string list option"
  credential_endpoint :: string
  nonce_endpoint :: "string option"
  deferred_credential_endpoint :: "string option"
  notification_endpoint :: "string option"
  credential_request_encryption :: "CredentialRequestEncryption option"
  credential_response_encryption :: "CredentialResponseEncryption option"
  batch_size :: "int option"
  credential_configurations_supported :: "(string \<times> CredentialConfigurationSupported) list"
  credential_manifest_uri :: "string option"
  issuer_display :: "IssuerDisplay list option"

subsection \<open>Credential offers, requests and proofs\<close>

text \<open>\<open>credential-offer.types.ts\<close>.\<close>

record TxCode =
  input_mode :: "tx_mode option"
  tx_length :: "int option"
  tx_description :: "string option"

record PreAuthorizedCodeGrant =
  pre_authorized_code :: string
  grant_tx_code :: "TxCode option"
  pre_authorization_server :: "string option"

record AuthorizationCodeGrant =
  issuer_state :: "string option"
  code_authorization_server :: "string option"

record Grants =
  authorization_code_grant :: "AuthorizationCodeGrant option"
  pre_authorized_code_grant :: "PreAuthorizedCodeGrant option"

record CredentialOffer =
  offer_issuer :: string
  offer_grants :: "Grants option"
  offer_configuration_ids :: "string list"

text \<open>\<open>proofs.types.ts\<close>: a strict union of the three kinds of proofs.\<close>

datatype Proofs = JwtProofs "string list" | DiVpProofs "jsval list" | AttestationProofs "string list"

record CredentialRequest =
  credential_identifier :: "string option"
  credential_configuration_id :: "string option"
  request_proofs :: "Proofs option"

text \<open>
  \<open>credential.types.ts\<close>: the content of a proof JWT. The header is the decoded JSON object,
  whose members other than \<open>alg\<close> have any type.
\<close>

datatype audience = AudStr string | AudList "string list"

record ProofJwtBody =
  pb_iss :: "string option"
  pb_aud :: "audience option"
  pb_iat :: "jsnum option"
  pb_nonce :: "string option"

record ProofJwt =
  proof_header :: obj
  proof_payload :: ProofJwtBody

text \<open>\<open>credential-proof-jwt.types.ts\<close>.\<close>

record CredentialProofJwtVerifyContext =
  usePreAuth :: bool
  ctx_credentialIssuer :: string
  ctx_clientId :: "string option"

text \<open>\<open>signature-key.types.ts\<close>: a stored key is a PEM string or a JWK.\<close>

datatype key_material = Pem string | Jwk obj

datatype key_format = PemFormat | JwkFormat

record SignatureKeyEntry =
  format :: key_format
  declaredAlg :: string
  key_kid :: "string option"
  publicKey :: "key_material option"
  privateKey :: key_material

end
