(* ===== verification/Verifier_Types.thy ===== *)
theory Verifier_Types
  imports Prelude
begin

text \<open>
  The data of the verifier: its metadata (\<open>verifier-metadata.types.ts\<close>), DCQL queries as
  the parser hands them over (\<open>dcql.type.ts\<close>), request objects and authorization requests
  and responses, transactions, and the DID documents of \<open>did.types.ts\<close>. A format entry of
  \<open>vp_formats_supported\<close> is a JSON object; the query keeps the parsed JSON value beside the
  fields the flow reads.
\<close>

record VerifierMetadata =
  redirect_uris :: "string list option"
  vm_token_endpoint_auth_method :: "string option"
  vm_grant_types :: "string option"
  vm_client_name :: "string option"
  vm_client_uri :: "string option"
  vm_logo_uri :: "string option"
  vm_scope :: "string option"
  contacts :: "string list option"
  tos_uri :: "string option"
  policy_uri :: "string option"
  vm_jwks_uri :: "string option"
  vm_jwks :: "jsval list option"
  software_id :: "string option"
  software_version :: "string option"
  vm_response_types :: "string option"
  encrypted_response_enc_values_supported :: "string list option"
  vp_formats_supported :: obj

record DcqlCredential =
  dc_id :: string
  dc_format :: string
  dc_claims :: "jsval list list option"

record DcqlCredentialSet =
  set_options :: "string list list"
  set_required :: "bool option"

record DcqlQuery =
  dq_credentials :: "DcqlCredential list"
  dq_credential_sets :: "DcqlCredentialSet list option"
  dq_json :: jsval

text \<open>\<open>request-object.types.ts\<close>.\<close>

record RequestObject =
  ro_response_type :: string
  ro_client_id :: string
  ro_state :: "string option"
  ro_scope :: "string option"
  ro_client_metadata :: "VerifierMetadata option"
  ro_transaction_data :: "string list option"
  ro_nonce :: string
  ro_response_mode :: string
  ro_response_uri :: "string option"
  ro_iss :: "string option"
  ro_aud :: "string option"
  ro_dcql_query :: DcqlQuery

text \<open>\<open>authorization-request.types.ts\<close>: by reference or inline.\<close>

datatype AuthorizationRequest = RequestUriFlow string string | InlineDcqlFlow RequestObject

text \<open>\<open>authorization-response.types.ts\<close>: presentations by credential query id.\<close>

datatype VerifiablePresentation = VpString string | VpObject obj

record AuthorizationResponse =
  vp_token :: "(string \<times> VerifiablePresentation list) list"
  resp_state :: "string option"

text \<open>\<open>transaction-id.types.ts\<close>.\<close>

record TransactionRecord =
  tr_dcqlQuery :: DcqlQuery
  tr_clientId :: string
  tr_verifierId :: string
  tr_state :: "string option"
  tr_nonce :: string

record Transaction =
  transaction_id :: string
  tx_dcqlQuery :: DcqlQuery
  transaction_data_expires_at :: jsnum
  tx_clientId :: string
  tx_verifierId :: string
  tx_state :: "string option"
  tx_nonce :: string

text \<open>\<open>did.types.ts\<close>: the parts of a DID document the flows read.\<close>

record VerificationMethod =
  method_id :: string
  publicKeyJwk :: "obj option"

record DidDocument =
  did_id :: string
  verificationMethod :: "VerificationMethod list option"

text \<open>\<open>encryption-key.types.ts\<close>.\<close>

record EncryptionKeyEntry =
  enc_publicKey :: obj
  enc_privateKey :: obj
  enc_declaredAlg :: string

end
