(* ===== verification/Stores.thy ===== *)
theory Stores
  imports Types Verifier_Types
begin

text \<open>
  The remaining in-memory stores without keys to sign with: metadata of authorization
  servers, issuers and verifiers, OAuth policies and clients, request objects, verifier
  certificates, the allowed credential configurations of an access token and the
  verifier's transactions (\<open>providers/in-memory/*\<close>). Each is a map from keys to entries.
\<close>

subsection \<open>Metadata and policies\<close>

type_synonym authz_metadata_store = "string \<Rightarrow> AuthorizationServerMetadata option"

definition authz_metadata_fetch ::
  "string \<Rightarrow> (authz_metadata_store, AuthorizationServerMetadata option) M" where
  "authz_metadata_fetch issuer = (\<lambda>st. (Inr (st issuer), st))"

definition authz_metadata_save ::
  "AuthorizationServerMetadata \<Rightarrow> (authz_metadata_store, unit) M" where
  "authz_metadata_save metadata = (\<lambda>st. (Inr (), st(as_issuer metadata \<mapsto> metadata)))"

type_synonym authz_policy_store = "string \<Rightarrow> AuthzOAuthPolicy option"

definition authz_policy_fetch :: "string \<Rightarrow> (authz_policy_store, AuthzOAuthPolicy option) M" where
  "authz_policy_fetch issuer = (\<lambda>st. (Inr (st issuer), st))"

definition authz_policy_save :: "string \<Rightarrow> AuthzOAuthPolicy \<Rightarrow> (authz_policy_store, unit) M" where
  "authz_policy_save issuer policy = (\<lambda>st. (Inr (), st(issuer \<mapsto> policy)))"

type_synonym issuer_metadata_store = "string \<Rightarrow> CredentialIssuerMetadata option"

definition issuer_metadata_fetch ::
  "string \<Rightarrow> (issuer_metadata_store, CredentialIssuerMetadata option) M" where
  "issuer_metadata_fetch issuer = (\<lambda>st. (Inr (st issuer), st))"

definition issuer_metadata_save ::
  "CredentialIssuerMetadata \<Rightarrow> (issuer_metadata_store, unit) M" where
  "issuer_metadata_save metadata = (\<lambda>st. (Inr (), st(credential_issuer metadata \<mapsto> metadata)))"

type_synonym verifier_metadata_store = "string \<Rightarrow> VerifierMetadata option"

definition verifier_metadata_fetch ::
  "string \<Rightarrow> (verifier_metadata_store, VerifierMetadata option) M" where
  "verifier_metadata_fetch verifier = (\<lambda>st. (Inr (st verifier), st))"

definition verifier_metadata_save ::
  "string \<Rightarrow> VerifierMetadata \<Rightarrow> (verifier_metadata_store, unit) M" where
  "verifier_metadata_save verifier metadata = (\<lambda>st. (Inr (), st(verifier \<mapsto> metadata)))"

subsection \<open>OAuth clients\<close>

type_synonym oauth_client_store = "string \<Rightarrow> AuthzOAuthClient option"

definition oauth_client_key :: "string \<Rightarrow> string \<Rightarrow> string" where
  "oauth_client_key issuer clientId = issuer @ char_of (10::nat) # clientId"

text \<open>A client that is not enabled is invisible.\<close>

definition client_visible :: "AuthzOAuthClient \<Rightarrow> bool" where
  "client_visible client \<longleftrightarrow> client_enabled client \<noteq> Some False"

definition oauth_client_lookup :: "oauth_client_store \<Rightarrow> string \<Rightarrow> AuthzOAuthClient option" where
  "oauth_client_lookup st key =
     (case st key of None \<Rightarrow> None
      | Some client \<Rightarrow> if client_enabled client = Some False then None else Some client)"

definition oauth_client_fetch ::
  "string \<Rightarrow> string \<Rightarrow> (oauth_client_store, AuthzOAuthClient option) M" where
  "oauth_client_fetch issuer clientId =
     (\<lambda>st. (Inr (oauth_client_lookup st (oauth_client_key issuer clientId)), st))"

definition oauth_client_save :: "string \<Rightarrow> AuthzOAuthClient \<Rightarrow> (oauth_client_store, unit) M" where
  "oauth_client_save issuer client =
     (\<lambda>st. (Inr (), st(oauth_client_key issuer (client_id client) \<mapsto> client)))"

subsection \<open>Request objects and certificates\<close>

type_synonym request_object_store = "string \<Rightarrow> RequestObject option"

definition request_object_fetch :: "string \<Rightarrow> (request_object_store, RequestObject option) M" where
  "request_object_fetch i = (\<lambda>st. (Inr (st i), st))"

definition request_object_save :: "string \<Rightarrow> RequestObject \<Rightarrow> (request_object_store, unit) M" where
  "request_object_save i requestObject = (\<lambda>st. (Inr (), st(i \<mapsto> requestObject)))"

definition request_object_delete :: "string \<Rightarrow> (request_object_store, unit) M" where
  "request_object_delete i = (\<lambda>st. (Inr (), st(i := None)))"

type_synonym certificate_store = "string \<Rightarrow> string list option"

text \<open>\<open>replace(/needle/g, '')\<close>: occurrences from left to right.\<close>

fun remove_all :: "nat \<Rightarrow> string \<Rightarrow> string \<Rightarrow> string" where
  "remove_all skip needle [] = []"
| "remove_all (Suc n) needle (c # cs) = remove_all n needle cs"
| "remove_all 0 needle (c # cs) =
     (if needle \<noteq> [] \<and> prefix needle (c # cs) then remove_all (length needle - 1) needle cs
      else c # remove_all 0 needle cs)"

definition strip_pem :: "string \<Rightarrow> string" where
  "strip_pem c = js_trim (filter (\<lambda>x. \<not> is_ws x)
     (remove_all 0 ''-----END CERTIFICATE-----'' (remove_all 0 ''-----BEGIN CERTIFICATE-----'' c)))"

definition certificate_save :: "string \<Rightarrow> string list \<Rightarrow> (certificate_store, unit) M" where
  "certificate_save verifier cert = (\<lambda>st. (Inr (), st(verifier \<mapsto> cert)))"

definition certificate_fetch :: "string \<Rightarrow> (certificate_store, string list) M" where
  "certificate_fetch verifier = (\<lambda>st. (Inr (map strip_pem (getOr [] (st verifier))), st))"

subsection \<open>Allowed credential configurations of an access token\<close>

record AllowedEntry =
  allowed_ids :: "string list"
  allowed_expires_at :: int

type_synonym allowed_store = "string \<Rightarrow> AllowedEntry option"

definition allowed_save ::
  "int \<Rightarrow> string \<Rightarrow> string list \<Rightarrow> jsnum option \<Rightarrow> (allowed_store, unit) M" where
  "allowed_save now accessTokenHash ids ttl = (\<lambda>st. (Inr (),
     st(accessTokenHash \<mapsto> \<lparr>allowed_ids = ids, allowed_expires_at = now + ttl_sec ttl * 1000\<rparr>)))"

definition allowed_fetch :: "int \<Rightarrow> string \<Rightarrow> (allowed_store, string list option) M" where
  "allowed_fetch now accessTokenHash = (\<lambda>st.
     case st accessTokenHash of
       None \<Rightarrow> (Inr None, st)
     | Some entry \<Rightarrow>
         if allowed_expires_at entry \<noteq> 0 \<and> allowed_expires_at entry < now
         then (Inr None, st(accessTokenHash := None))
         else (Inr (Some (allowed_ids entry)), st))"

definition allowed_delete :: "string \<Rightarrow> (allowed_store, unit) M" where
  "allowed_delete accessTokenHash = (\<lambda>st. (Inr (), st(accessTokenHash := None)))"

subsection \<open>Transactions of the verifier\<close>

type_synonym transaction_store = "string \<Rightarrow> Transaction option"

definition DEFAULT_TRANSACTION_EXPIRE_IN_MS :: jsnum where
  "DEFAULT_TRANSACTION_EXPIRE_IN_MS = Fin (5 * 60 * 1000)"

definition transaction_save ::
  "jsnum option \<Rightarrow> int \<Rightarrow> string \<Rightarrow> TransactionRecord \<Rightarrow> (transaction_store, unit) M" where
  "transaction_save expire_in now transactionId r = (\<lambda>st. (Inr (), st(transactionId \<mapsto>
     \<lparr>transaction_id = transactionId, tx_dcqlQuery = tr_dcqlQuery r,
      transaction_data_expires_at =
        num_add (num_int now) (getOr DEFAULT_TRANSACTION_EXPIRE_IN_MS expire_in),
      tx_clientId = tr_clientId r, tx_verifierId = tr_verifierId r,
      tx_state = tr_state r, tx_nonce = tr_nonce r\<rparr>)))"

definition transaction_fetch :: "int \<Rightarrow> string \<Rightarrow> (transaction_store, Transaction option) M" where
  "transaction_fetch now transactionId = (\<lambda>st.
     case st transactionId of
       None \<Rightarrow> (Inr None, st)
     | Some t \<Rightarrow>
         if num_lt (transaction_data_expires_at t) (num_int now)
         then (Inr None, st(transactionId := None))
         else (Inr (Some t), st))"

definition transaction_delete :: "string \<Rightarrow> (transaction_store, unit) M" where
  "transaction_delete transactionId = (\<lambda>st. (Inr (), st(transactionId := None)))"

subsection \<open>The stores return what was last saved\<close>

definition map_put :: "string \<Rightarrow> 'v \<Rightarrow> (string \<Rightarrow> 'v option) \<Rightarrow> (string \<Rightarrow> 'v option)" where
  "map_put k v st = st(k \<mapsto> v)"

interpretation plain: kv_store map_put "\<lambda>st k. st k" "\<lambda>v. True"
  by unfold_locales (simp_all add: map_put_def)

interpretation clients: kv_store map_put oauth_client_lookup client_visible
  by unfold_locales (simp_all add: map_put_def oauth_client_lookup_def client_visible_def)

lemma authz_metadata_save_put: "snd (authz_metadata_save m st) = map_put (as_issuer m) m st"
  by (simp add: authz_metadata_save_def map_put_def)

lemma oauth_client_save_put:
  "snd (oauth_client_save issuer c st) = map_put (oauth_client_key issuer (client_id c)) c st"
  by (simp add: oauth_client_save_def map_put_def)

lemma request_object_save_put: "snd (request_object_save i r st) = map_put i r st"
  by (simp add: request_object_save_def map_put_def)

end
