(* ===== verification/Extern.thy ===== *)
theory Extern
  imports Stores
begin

text \<open>
  The third-party code the program calls (jose, base64url with JSON, SHA-256, zod's URL
  schema, WHATWG URLs, DID resolution) as fields of a record of functions: every operation
  that uses one takes the record as its first argument. Nothing is assumed of the fields
  here; a property that needs documented behaviour of one names it as a hypothesis.
  A throw of such code is an \<open>exn\<close>.
\<close>

subsection \<open>Parameters\<close>

text \<open>What \<open>importJWK\<close> may return: a \<open>CryptoKey\<close> or, for symmetric keys, raw bytes.\<close>

datatype crypto_key = CryptoKey jsval | RawKey string

text \<open>The options of jose's \<open>jwtVerify\<close> that the program sets.\<close>

record verify_options =
  vo_issuer :: "string option"
  vo_subject :: "string option"
  vo_audience :: "string list option"
  vo_algorithms :: "string list option"
  vo_typ :: "string option"
  vo_maxTokenAge :: "jsnum option"
  vo_clockTolerance :: "jsnum option"

definition no_verify_options :: verify_options where
  "no_verify_options = \<lparr>vo_issuer = None, vo_subject = None, vo_audience = None, vo_algorithms = None,
     vo_typ = None, vo_maxTokenAge = None, vo_clockTolerance = None\<rparr>"

record url =
  url_protocol :: string
  url_hostname :: string
  url_port :: string
  url_pathname :: string
  url_search :: string
  url_hash :: string

text \<open>
  \<open>decode_json\<close> is \<open>JSON.parse(base64url.decode(x))\<close>, where \<open>None\<close> is its throw;
  \<open>zod_url\<close> is the value of \<open>z.string().url()\<close>, when it parses;
  \<open>encode_json\<close> is \<open>base64url.encode(JSON.stringify(x))\<close>. The key generator and the
  signer take the randomness they use; \<open>jwtVerify\<close> takes the time in milliseconds.
\<close>

text \<open>What the certificate class of \<open>node:crypto\<close> tells; the dates are in milliseconds.\<close>

record x509 =
  x_issuer :: string
  x_subject :: string
  x_validFrom :: jsnum
  x_validTo :: jsnum
  x_publicKey :: crypto_key

record ext =
  decode_json :: "string \<Rightarrow> jsval option"
  encode_json :: "jsval \<Rightarrow> string"
  sha256_b64url :: "string \<Rightarrow> string"
  zod_url :: "string \<Rightarrow> string option"
  importJWK :: "obj \<Rightarrow> string \<Rightarrow> exn + crypto_key"
  importSPKI :: "string \<Rightarrow> string \<Rightarrow> exn + crypto_key"
  importPKCS8 :: "string \<Rightarrow> string \<Rightarrow> exn + crypto_key"
  exportJWK :: "crypto_key \<Rightarrow> obj"
  calculateJwkThumbprint :: "obj \<Rightarrow> exn + string"
  generateKeyPair :: "string \<Rightarrow> string \<Rightarrow> obj \<times> obj"
  compactSign :: "crypto_key \<Rightarrow> string \<Rightarrow> jsval \<Rightarrow> jsval \<Rightarrow> exn + string"
  jwtVerify :: "int \<Rightarrow> string \<Rightarrow> crypto_key \<Rightarrow> verify_options \<Rightarrow> exn + obj"
  decodeProtectedHeader :: "string \<Rightarrow> exn + obj"
  decodeJwt :: "string \<Rightarrow> exn + obj"
  url_parse :: "string \<Rightarrow> url option"
  url_string :: "url \<Rightarrow> string"
  resolveDid :: "string \<Rightarrow> exn + DidDocument option"
  x509_parse :: "string \<Rightarrow> exn + x509"
  x509_verify :: "x509 \<Rightarrow> crypto_key \<Rightarrow> exn + bool"
  export_spki :: "crypto_key \<Rightarrow> exn + string"

subsection \<open>Small wrappers in the source\<close>

text \<open>\<open>z.string().url()\<close> on an unknown value.\<close>

definition parse_url_value :: "ext \<Rightarrow> jsval option \<Rightarrow> exn + string" where
  "parse_url_value X v =
     (case v of
        Some (JStr s) \<Rightarrow> (case zod_url X s of Some t \<Rightarrow> Inr t | None \<Rightarrow> Inl (JsError ''ZodError''))
      | _ \<Rightarrow> Inl (JsError ''ZodError''))"

lemma parse_url_value_Inr:
  "parse_url_value X v = Inr t \<longleftrightarrow> (\<exists>s. v = Some (JStr s) \<and> zod_url X s = Some t)"
  by (auto simp: parse_url_value_def split: option.splits jsval.splits)

text \<open>\<open>calculateAccessTokenHash\<close> of \<open>dpop-proof.ts\<close>.\<close>

definition calculateAccessTokenHash :: "ext \<Rightarrow> string \<Rightarrow> string" where
  "calculateAccessTokenHash X accessToken = sha256_b64url X accessToken"

text \<open>
  The check shared by three providers: \<open>alg\<close> must not be empty, \<open>none\<close> or of the HMAC
  family. \<open>/^hs/i\<close> looks at the first two characters.
\<close>

definition starts_hs :: "string \<Rightarrow> bool" where
  "starts_hs s = js_starts_with (js_lower s) ''hs''"

definition isProhibitedAlg :: "string \<Rightarrow> bool" where
  "isProhibitedAlg alg =
     (let trimmed = js_trim alg
      in if trimmed = [] then True
         else if js_lower trimmed = ''none'' then True
         else starts_hs trimmed)"

text \<open>\<open>selectProvider\<close> of \<open>provider.utils.ts\<close>: the first candidate that can handle the value.\<close>

definition selectProvider :: "('p \<Rightarrow> 'u \<Rightarrow> bool) \<Rightarrow> 'p list \<Rightarrow> 'u \<Rightarrow> exn + 'p" where
  "selectProvider canHandle candidates u =
     (case find (\<lambda>p. canHandle p u) candidates of
        None \<Rightarrow> Inl (err ''provider_not_found'' ''No provider found'')
      | Some p \<Rightarrow> Inr p)"

lemma selectProvider_Inr: "selectProvider h ps u = Inr p \<Longrightarrow> p \<in> set ps \<and> h p u"
  by (auto simp: selectProvider_def find_Some_iff split: option.splits)

text \<open>
  A concrete instance, for evaluating the model: identities where the type allows it. The
  examples override single fields of it.
\<close>

definition ext0 :: ext where
  "ext0 = \<lparr>decode_json = (\<lambda>s. None), encode_json = (\<lambda>v. ''e30''), sha256_b64url = (\<lambda>s. CHR ''#'' # s),
     zod_url = Some, importJWK = (\<lambda>k a. Inr (CryptoKey (JObj k))),
     importSPKI = (\<lambda>p a. Inr (CryptoKey (JStr p))), importPKCS8 = (\<lambda>p a. Inr (CryptoKey (JStr p))),
     exportJWK = (\<lambda>k. []), calculateJwkThumbprint = (\<lambda>k. Inr ''thumb''),
     generateKeyPair = (\<lambda>a e. ([(''kty'', JStr ''EC'')], [(''kty'', JStr ''EC''), (''d'', JStr e)])),
     compactSign = (\<lambda>k e h p. Inr ''h.p.sig''), jwtVerify = (\<lambda>now t k vo. Inr []),
     decodeProtectedHeader = (\<lambda>t. Inr []), decodeJwt = (\<lambda>t. Inr []),
     url_parse = (\<lambda>s. Some \<lparr>url_protocol = ''https:'', url_hostname = s, url_port = [],
       url_pathname = ''/'', url_search = [], url_hash = []\<rparr>),
     url_string = url_hostname, resolveDid = (\<lambda>d. Inr None),
     x509_parse = (\<lambda>c. Inl (JsError ''x509'')), x509_verify = (\<lambda>c k. Inr True),
     export_spki = (\<lambda>k. Inr ''pem'')\<rparr>"

end
