(* ===== verification/Key_Stores.thy ===== *)
theory Key_Stores
  imports Extern
begin

text \<open>
  The in-memory signature key stores of authorization servers, issuers and verifiers, the
  verifier's encryption key store (\<open>in-memory-*-key-store.provider(s).ts\<close>), and the
  default key generators (\<open>*-signature-key.provider.ts\<close>,
  \<open>verifier-encryption-key.provider.ts\<close>). A store maps an entity to its entries, at most
  one per algorithm.
\<close>

type_synonym key_store = "string \<Rightarrow> SignatureKeyEntry list option"

type_synonym enc_key_store = "string \<Rightarrow> EncryptionKeyEntry list option"

subsection \<open>Generators\<close>

text \<open>A generator handles exactly its algorithm; the default is ES256.\<close>

definition key_generator_canHandle :: "string \<Rightarrow> string \<Rightarrow> bool" where
  "key_generator_canHandle alg keyAlg = (keyAlg = alg)"

definition authz_key_generate :: "ext \<Rightarrow> string \<Rightarrow> string \<Rightarrow> obj \<times> obj" where
  "authz_key_generate X alg entropy =
     (case generateKeyPair X alg entropy of (publicJwk, privateJwk) \<Rightarrow>
        (oset publicJwk ''alg'' (JStr alg), oset privateJwk ''alg'' (JStr alg)))"

definition verifier_key_generate :: "ext \<Rightarrow> string \<Rightarrow> string \<Rightarrow> exn + (obj \<times> obj)" where
  "verifier_key_generate X alg entropy =
     (case generateKeyPair X alg entropy of (publicJwk, privateJwk) \<Rightarrow>
        (case calculateJwkThumbprint X publicJwk of
           Inl e \<Rightarrow> Inl e
         | Inr kid \<Rightarrow> Inr (oset (oset publicJwk ''alg'' (JStr alg)) ''kid'' (JStr kid),
                          oset privateJwk ''alg'' (JStr alg))))"

definition verifier_enc_key_generate :: "ext \<Rightarrow> string \<Rightarrow> string \<Rightarrow> exn + (obj \<times> obj)" where
  "verifier_enc_key_generate X alg entropy =
     (case generateKeyPair X alg entropy of (publicJwk, privateJwk) \<Rightarrow>
        (case calculateJwkThumbprint X publicJwk of
           Inl e \<Rightarrow> Inl e
         | Inr kid \<Rightarrow>
             Inr (oset (oset (oset publicJwk ''alg'' (JStr alg)) ''kid'' (JStr kid)) ''use'' (JStr ''enc''),
                  oset privateJwk ''alg'' (JStr alg))))"

subsection \<open>Saving\<close>

text \<open>
  The entry to store: the caller's pair, which must be declared for the requested
  algorithm, or a generated one. \<open>generated\<close> is what the selected generator returns.
\<close>

definition pair_to_save ::
  "string \<Rightarrow> SignatureKeyEntry option \<Rightarrow> exn + (obj \<times> obj) \<Rightarrow> exn + SignatureKeyEntry" where
  "pair_to_save keyAlg pair generated =
     (case pair of
        None \<Rightarrow>
          (case generated of
             Inl e \<Rightarrow> Inl e
           | Inr (pub, priv) \<Rightarrow>
               Inr \<lparr>format = JwkFormat, declaredAlg = keyAlg, key_kid = None,
                    publicKey = Some (Jwk pub), privateKey = Jwk priv\<rparr>)
      | Some p \<Rightarrow>
          if declaredAlg p \<noteq> keyAlg then Inl (err ''illegal_argument'' ''algorithm mismatch'')
          else Inr p)"

definition key_save ::
  "string \<Rightarrow> string \<Rightarrow> SignatureKeyEntry option \<Rightarrow> exn + (obj \<times> obj) \<Rightarrow> (key_store, unit) M" where
  "key_save who keyAlg pair generated = (\<lambda>st.
     let current = getOr [] (st who)
     in case pair_to_save keyAlg pair generated of
          Inl e \<Rightarrow> (Inl e, st)
        | Inr entry \<Rightarrow>
            (Inr (), st(who \<mapsto> filter (\<lambda>c. declaredAlg c \<noteq> keyAlg) current @ [entry])))"

text \<open>The default registration of the three stores: one generator, for ES256.\<close>

definition default_generated :: "(string \<Rightarrow> exn + (obj \<times> obj)) \<Rightarrow> string \<Rightarrow> exn + (obj \<times> obj)" where
  "default_generated generate keyAlg =
     (case selectProvider key_generator_canHandle [''ES256''] keyAlg of
        Inl e \<Rightarrow> Inl e
      | Inr alg \<Rightarrow> generate alg)"

definition authz_key_save ::
  "ext \<Rightarrow> string \<Rightarrow> string \<Rightarrow> string \<Rightarrow> SignatureKeyEntry option \<Rightarrow> (key_store, unit) M" where
  "authz_key_save X entropy authz keyAlg pair =
     key_save authz keyAlg pair (default_generated (\<lambda>alg. Inr (authz_key_generate X alg entropy)) keyAlg)"

definition issuer_key_save ::
  "ext \<Rightarrow> string \<Rightarrow> string \<Rightarrow> string \<Rightarrow> SignatureKeyEntry option \<Rightarrow> (key_store, unit) M" where
  "issuer_key_save X entropy issuer keyAlg pair =
     key_save issuer keyAlg pair (default_generated (\<lambda>alg. Inr (authz_key_generate X alg entropy)) keyAlg)"

definition verifier_key_save ::
  "ext \<Rightarrow> string \<Rightarrow> string \<Rightarrow> string \<Rightarrow> SignatureKeyEntry option \<Rightarrow> (key_store, unit) M" where
  "verifier_key_save X entropy verifier keyAlg pair =
     key_save verifier keyAlg pair (default_generated (\<lambda>alg. verifier_key_generate X alg entropy) keyAlg)"

definition verifier_enc_key_save ::
  "ext \<Rightarrow> string \<Rightarrow> string \<Rightarrow> string \<Rightarrow> (enc_key_store, unit) M" where
  "verifier_enc_key_save X entropy verifier keyAlg = (\<lambda>st.
     let current = getOr [] (st verifier)
     in case selectProvider key_generator_canHandle [''RSA-OAEP-256''] keyAlg of
          Inl e \<Rightarrow> (Inl e, st)
        | Inr alg \<Rightarrow>
            (case verifier_enc_key_generate X alg entropy of
               Inl e \<Rightarrow> (Inl e, st)
             | Inr (pub, priv) \<Rightarrow>
                 (Inr (), st(verifier \<mapsto> filter (\<lambda>c. enc_declaredAlg c \<noteq> keyAlg) current @
                    [\<lparr>enc_publicKey = pub, enc_privateKey = priv, enc_declaredAlg = keyAlg\<rparr>]))))"

definition verifier_enc_key_fetch :: "string \<Rightarrow> string \<Rightarrow> (enc_key_store, obj option) M" where
  "verifier_enc_key_fetch verifier keyAlg = (\<lambda>st. (Inr
     (case st verifier of
        None \<Rightarrow> None
      | Some pairs \<Rightarrow> map_option enc_publicKey (find (\<lambda>c. enc_declaredAlg c = keyAlg) pairs)), st))"

subsection \<open>Fetching and signing\<close>

text \<open>
  The key is looked up by the algorithm of a token header, which is any JSON value: only a
  string can equal a declared algorithm.
\<close>

definition find_key :: "key_store \<Rightarrow> string \<Rightarrow> jsval \<Rightarrow> SignatureKeyEntry option" where
  "find_key st who alg =
     (case st who of None \<Rightarrow> None | Some pairs \<Rightarrow> find (\<lambda>c. JStr (declaredAlg c) = alg) pairs)"

text \<open>A public key of the entry, as imported; the three stores share this code.\<close>

definition import_public :: "ext \<Rightarrow> SignatureKeyEntry \<Rightarrow> exn + crypto_key option" where
  "import_public X entry =
     (case publicKey entry of
        None \<Rightarrow> Inr None
      | Some (Jwk jwk) \<Rightarrow>
          if format entry = JwkFormat then
            (case importJWK X jwk (declaredAlg entry) of
               Inl e \<Rightarrow> Inl e
             | Inr (RawKey b) \<Rightarrow> Inr None
             | Inr (CryptoKey k) \<Rightarrow> Inr (Some (CryptoKey k)))
          else Inr None
      | Some (Pem pem) \<Rightarrow>
          if pem = [] then Inr None
          else (case importSPKI X pem (declaredAlg entry) of Inl e \<Rightarrow> Inl e | Inr k \<Rightarrow> Inr (Some k)))"

definition key_fetch :: "ext \<Rightarrow> string \<Rightarrow> jsval \<Rightarrow> (key_store, crypto_key option) M" where
  "key_fetch X who alg = (\<lambda>st.
     (case find_key st who alg of
        None \<Rightarrow> Inr None
      | Some entry \<Rightarrow> import_public X entry, st))"

definition import_private :: "ext \<Rightarrow> SignatureKeyEntry \<Rightarrow> exn + crypto_key option" where
  "import_private X entry =
     (case privateKey entry of
        Jwk jwk \<Rightarrow>
          if format entry = JwkFormat then
            (case importJWK X jwk (declaredAlg entry) of
               Inl e \<Rightarrow> Inl e
             | Inr (RawKey b) \<Rightarrow> Inr None
             | Inr (CryptoKey k) \<Rightarrow> Inr (Some (CryptoKey k)))
          else Inr None
      | Pem pem \<Rightarrow>
          if pem = [] then Inr None
          else (case importPKCS8 X pem (declaredAlg entry) of Inl e \<Rightarrow> Inl e | Inr k \<Rightarrow> Inr (Some k)))"

text \<open>The signature part of the compact JWS; \<open>undefined\<close> when the split has no third part.\<close>

definition sign_with ::
  "ext \<Rightarrow> string \<Rightarrow> crypto_key \<Rightarrow> jsval \<Rightarrow> jsval \<Rightarrow> exn + string option" where
  "sign_with X entropy key payload header =
     (case compactSign X key entropy header payload of
        Inl e \<Rightarrow> Inl e
      | Inr jws \<Rightarrow> Inr (js_nth (js_split (CHR ''.'') jws) 2))"

definition sign_failed :: exn where
  "sign_failed = err ''internal_server_error'' ''sign error''"

text \<open>The authorization server's store: only its own missing-key error passes the \<open>catch\<close>.\<close>

definition authz_key_sign ::
  "ext \<Rightarrow> string \<Rightarrow> string \<Rightarrow> string \<Rightarrow> jsval \<Rightarrow> jsval \<Rightarrow> (key_store, string option) M" where
  "authz_key_sign X entropy authz keyAlg payload header = (\<lambda>st.
     (case st authz of
        None \<Rightarrow> Inr None
      | Some pairs \<Rightarrow>
          (case find_key st authz (JStr keyAlg) of
             None \<Rightarrow> Inr None
           | Some entry \<Rightarrow>
               (case import_private X entry of
                  Inl e \<Rightarrow> Inl sign_failed
                | Inr None \<Rightarrow> Inl (err ''authz_verifier_key_not_found'' ''Verifier private key not found.'')
                | Inr (Some key) \<Rightarrow>
                    (case sign_with X entropy key payload header of
                       Inl e \<Rightarrow> Inl sign_failed
                     | Inr sig \<Rightarrow> Inr sig))), st))"

text \<open>The issuer's store: importing happens outside the \<open>try\<close>.\<close>

definition issuer_key_sign ::
  "ext \<Rightarrow> string \<Rightarrow> string \<Rightarrow> string \<Rightarrow> jsval \<Rightarrow> jsval \<Rightarrow> (key_store, string option) M" where
  "issuer_key_sign X entropy issuer keyAlg payload header = (\<lambda>st.
     (case st issuer of
        None \<Rightarrow> Inr None
      | Some pairs \<Rightarrow>
          (case (case find_key st issuer (JStr keyAlg) of
                   None \<Rightarrow> Inr None
                 | Some entry \<Rightarrow> import_private X entry) of
             Inl e \<Rightarrow> Inl e
           | Inr None \<Rightarrow> Inl (err ''authz_issuer_key_not_found'' ''Issuer private key not found.'')
           | Inr (Some key) \<Rightarrow>
               (case sign_with X entropy key payload header of
                  Inl e \<Rightarrow> Inl sign_failed
                | Inr sig \<Rightarrow> Inr sig)), st))"

text \<open>The verifier's store: the \<open>catch\<close> rewraps every error, the missing key included.\<close>

definition verifier_key_sign ::
  "ext \<Rightarrow> string \<Rightarrow> string \<Rightarrow> string \<Rightarrow> jsval \<Rightarrow> jsval \<Rightarrow> (key_store, string option) M" where
  "verifier_key_sign X entropy verifier keyAlg payload header = (\<lambda>st.
     (case st verifier of
        None \<Rightarrow> Inr None
      | Some pairs \<Rightarrow>
          (case (case find_key st verifier (JStr keyAlg) of
                   None \<Rightarrow> Inr None
                 | Some entry \<Rightarrow> import_private X entry) of
             Inl e \<Rightarrow> Inl sign_failed
           | Inr None \<Rightarrow> Inl sign_failed
           | Inr (Some key) \<Rightarrow>
               (case sign_with X entropy key payload header of
                  Inl e \<Rightarrow> Inl sign_failed
                | Inr sig \<Rightarrow> Inr sig)), st))"

subsection \<open>One key per algorithm\<close>

definition algs_distinct :: "key_store \<Rightarrow> bool" where
  "algs_distinct st \<longleftrightarrow> (\<forall>who pairs. st who = Some pairs \<longrightarrow> distinct (map declaredAlg pairs))"

lemma pair_to_save_alg: "pair_to_save keyAlg pair g = Inr entry \<Longrightarrow> declaredAlg entry = keyAlg"
  by (auto simp: pair_to_save_def split: option.splits sum.splits prod.splits if_splits)

lemma distinct_algs_replace:
  assumes "distinct (map declaredAlg ps)" and "declaredAlg entry = a"
  shows "distinct (map declaredAlg (filter (\<lambda>c. declaredAlg c \<noteq> a) ps @ [entry]))"
  using assms by (auto simp: distinct_map_filter)

lemma key_save_distinct:
  assumes "algs_distinct st"
  shows "algs_distinct (snd (key_save who keyAlg pair g st))"
proof (cases "pair_to_save keyAlg pair g")
  case (Inr entry)
  have "distinct (map declaredAlg (getOr [] (st who)))"
    using assms by (cases "st who") (auto simp: algs_distinct_def)
  then have "distinct (map declaredAlg (filter (\<lambda>c. declaredAlg c \<noteq> keyAlg) (getOr [] (st who)) @ [entry]))"
    using pair_to_save_alg [OF Inr] by (rule distinct_algs_replace)
  with assms Inr show ?thesis by (auto simp: key_save_def algs_distinct_def)
qed (simp add: assms key_save_def)

lemma find_filter_ne: "(\<And>x. P x \<Longrightarrow> Q x) \<Longrightarrow> find P (filter Q xs) = find P xs"
  by (induction xs) auto

lemma find_filter_disjoint: "(\<And>x. P x \<Longrightarrow> \<not> Q x) \<Longrightarrow> find P (filter Q xs) = None"
  by (induction xs) auto

lemma find_append: "find P (xs @ ys) = (case find P xs of None \<Rightarrow> find P ys | Some x \<Rightarrow> Some x)"
  by (induction xs) auto

lemma find_key_save_same:
  assumes "pair_to_save keyAlg pair g = Inr entry"
  shows "find_key (snd (key_save who keyAlg pair g st)) who (JStr keyAlg) = Some entry"
  using pair_to_save_alg [OF assms]
  by (simp add: key_save_def assms find_key_def find_append find_filter_disjoint)

lemma find_key_save_other:
  assumes "who' \<noteq> who \<or> alg \<noteq> JStr keyAlg"
  shows "find_key (snd (key_save who keyAlg pair g st)) who' alg = find_key st who' alg"
proof (cases "pair_to_save keyAlg pair g")
  case (Inr entry)
  note a = pair_to_save_alg [OF Inr]
  show ?thesis
  proof (cases "who' = who")
    case True
    with assms have ne: "alg \<noteq> JStr keyAlg" by simp
    then have f: "find (\<lambda>c. JStr (declaredAlg c) = alg) (filter (\<lambda>c. declaredAlg c \<noteq> keyAlg) ps)
        = find (\<lambda>c. JStr (declaredAlg c) = alg) ps" for ps
      by (intro find_filter_ne) auto
    show ?thesis using True ne
      by (cases "st who") (simp_all add: key_save_def find_key_def find_append f a Inr split: option.splits)
  qed (simp add: key_save_def Inr find_key_def)
qed (simp add: key_save_def)

end
