(* ===== verification/Jti_Stores.thy ===== *)
theory Jti_Stores
  imports Interfaces
begin

text \<open>
  The two in-memory stores of used JWT identifiers
  (\<open>in-memory-dpop-proof-jti-store.provider.ts\<close>,
  \<open>in-memory-oauth-client-assertion-jti-store.provider.ts\<close>): a map from keys to expiry
  times; expired keys are removed at each call, a key is recorded only when absent.
\<close>

subsection \<open>State and operations\<close>

type_synonym jti_store = "string \<Rightarrow> jsnum option"

definition DEFAULT_DPOP_PROOF_JTI_TTL_MS :: jsnum where
  "DEFAULT_DPOP_PROOF_JTI_TTL_MS = Fin (6 * 60 * 1000)"

definition DEFAULT_OAUTH_CLIENT_ASSERTION_JTI_TTL_MS :: jsnum where
  "DEFAULT_OAUTH_CLIENT_ASSERTION_JTI_TTL_MS = Fin (5 * 60 * 1000)"

text \<open>The loop deletes each entry with \<open>now > expiresAt\<close>.\<close>

definition cleanupExpired :: "int \<Rightarrow> jti_store \<Rightarrow> jti_store" where
  "cleanupExpired now st = (\<lambda>k. case st k of None \<Rightarrow> None
     | Some e \<Rightarrow> if num_lt e (num_int now) then None else Some e)"

definition dpop_jti_key :: "string \<Rightarrow> string \<Rightarrow> string" where
  "dpop_jti_key jwkThumbprint jti = jwkThumbprint @ '':'' @ jti"

definition dpop_saveIfAbsent ::
  "int \<Rightarrow> string \<Rightarrow> string \<Rightarrow> jsnum option \<Rightarrow> (jti_store, bool) M" where
  "dpop_saveIfAbsent now jwkThumbprint jti ttlMs = (\<lambda>st0.
     let key = dpop_jti_key jwkThumbprint jti;
         st = cleanupExpired now st0
     in case st key of
          Some e \<Rightarrow> (Inr False, st)
        | None \<Rightarrow> (Inr True,
            st(key \<mapsto> num_add (num_int now) (getOr DEFAULT_DPOP_PROOF_JTI_TTL_MS ttlMs))))"

text \<open>\<open>JSON.stringify\<close> of a string: the quote, the backslash and the control characters
  are escaped.\<close>

definition hex_digit :: "nat \<Rightarrow> char" where
  "hex_digit n = (if n < 10 then char_of (48 + n) else char_of (87 + n))"

definition json_char :: "char \<Rightarrow> string" where
  "json_char c =
     (if code c = 34 then [CHR 0x5C, CHR 0x22]
      else if code c = 92 then [CHR 0x5C, CHR 0x5C]
      else if code c = 8 then [CHR 0x5C, CHR ''b'']
      else if code c = 9 then [CHR 0x5C, CHR ''t'']
      else if code c = 10 then [CHR 0x5C, CHR ''n'']
      else if code c = 12 then [CHR 0x5C, CHR ''f'']
      else if code c = 13 then [CHR 0x5C, CHR ''r'']
      else if code c < 32 then
        [CHR 0x5C, CHR ''u'', CHR ''0'', CHR ''0'', hex_digit (code c div 16), hex_digit (code c mod 16)]
      else [c])"

definition json_quote :: "string \<Rightarrow> string" where
  "json_quote s = CHR 0x22 # concat (map json_char s) @ [CHR 0x22]"

text \<open>\<open>JSON.stringify([clientId, jti])\<close>.\<close>

definition oauth_jti_key :: "string \<Rightarrow> string \<Rightarrow> string" where
  "oauth_jti_key clientId jti = ''['' @ json_quote clientId @ '','' @ json_quote jti @ '']''"

definition oauth_saveIfAbsent ::
  "int \<Rightarrow> string \<Rightarrow> string \<Rightarrow> jsnum option \<Rightarrow> (jti_store, bool) M" where
  "oauth_saveIfAbsent now clientId jti ttlMs = (\<lambda>st0.
     let key = oauth_jti_key clientId jti;
         st = cleanupExpired now st0
     in if st key \<noteq> None then (Inr False, st)
        else (Inr True,
          st(key \<mapsto> num_add (num_int now) (getOr DEFAULT_OAUTH_CLIENT_ASSERTION_JTI_TTL_MS ttlMs))))"

subsection \<open>The stores guard against replays\<close>

text \<open>The operations by key, for the two interpretations.\<close>

definition jti_admit :: "int \<Rightarrow> string \<Rightarrow> jsnum \<Rightarrow> jti_store \<Rightarrow> bool \<times> jti_store" where
  "jti_admit now key ttl st0 =
     (let st = cleanupExpired now st0
      in if st key \<noteq> None then (False, st)
         else (True, st(key \<mapsto> num_add (num_int now) ttl)))"

lemma dpop_saveIfAbsent_admit:
  "dpop_saveIfAbsent now t j ttl st =
     (Inr (fst (jti_admit now (dpop_jti_key t j) (getOr DEFAULT_DPOP_PROOF_JTI_TTL_MS ttl) st)),
      snd (jti_admit now (dpop_jti_key t j) (getOr DEFAULT_DPOP_PROOF_JTI_TTL_MS ttl) st))"
  by (auto simp: dpop_saveIfAbsent_def jti_admit_def Let_def split: option.splits)

lemma oauth_saveIfAbsent_admit:
  "oauth_saveIfAbsent now c j ttl st =
     (Inr (fst (jti_admit now (oauth_jti_key c j) (getOr DEFAULT_OAUTH_CLIENT_ASSERTION_JTI_TTL_MS ttl) st)),
      snd (jti_admit now (oauth_jti_key c j) (getOr DEFAULT_OAUTH_CLIENT_ASSERTION_JTI_TTL_MS ttl) st))"
  by (auto simp: oauth_saveIfAbsent_def jti_admit_def Let_def split: option.splits)

interpretation jti: replay_guard jti_admit "\<lambda>st k. st k"
  by unfold_locales (auto simp: jti_admit_def cleanupExpired_def lapsed_def Let_def split: option.splits)

subsection \<open>The keys identify the pair\<close>

lemma append_sep_inj:
  assumes "a @ (c :: char) # x = b @ c # y" and "c \<notin> set a" and "c \<notin> set b"
  shows "a = b \<and> x = y"
proof -
  have "js_split c (a @ c # x) = js_split c (b @ c # y)" using assms(1) by simp
  then have "a = b" using assms(2,3) by (simp add: js_split_append)
  with assms(1) show ?thesis by simp
qed

lemma dpop_jti_key_inj:
  assumes "dpop_jti_key t j = dpop_jti_key t' j'" and "CHR '':'' \<notin> set t" and "CHR '':'' \<notin> set t'"
  shows "t = t' \<and> j = j'"
  using assms by (auto simp: dpop_jti_key_def dest: append_sep_inj)

text \<open>A reader of a quoted string that undoes the escapes, to show that quoting loses
  nothing.\<close>

definition unhex :: "char \<Rightarrow> nat" where
  "unhex c = (if code c < 58 then code c - 48 else code c - 87)"

fun unquote :: "string \<Rightarrow> (string \<times> string) option" where
  "unquote [] = None"
| "unquote (c # r) =
     (if code c = 34 then Some ([], r)
      else if code c = 92 then
        (case r of
           [] \<Rightarrow> None
         | d # r1 \<Rightarrow>
             if d = CHR ''u'' then
               (case r1 of a # b # h # l # r2 \<Rightarrow>
                   map_option (\<lambda>(s, t). (char_of (16 * unhex h + unhex l) # s, t)) (unquote r2)
                | _ \<Rightarrow> None)
             else map_option (\<lambda>(s, t).
                ((if d = CHR ''b'' then char_of (8::nat) else if d = CHR ''t'' then char_of (9::nat)
                  else if d = CHR ''n'' then char_of (10::nat) else if d = CHR ''f'' then char_of (12::nat)
                  else if d = CHR ''r'' then char_of (13::nat) else d) # s, t)) (unquote r1))
      else map_option (\<lambda>(s, t). (c # s, t)) (unquote r))"

lemma code_of: "code (char_of n) = n mod 256"
  by (simp add: code_def)

lemma char_of_code: "char_of (code c) = c"
  by (simp add: code_def)

lemma code_eq: "code c = code d \<longleftrightarrow> c = d"
  by (metis char_of_code)

lemma unhex_hex: "n < 16 \<Longrightarrow> unhex (hex_digit n) = n"
  by (auto simp: unhex_def hex_digit_def code_of)

lemma code_iff: "n < 256 \<Longrightarrow> code c = n \<longleftrightarrow> c = char_of n"
  by (metis char_of_code code_of mod_less)

lemma unquote_char:
  "unquote (json_char c @ r) = map_option (\<lambda>(s, t). (c # s, t)) (unquote r)"
proof -
  have k: "code (CHR 0x5C) = 92" "code (CHR 0x22) = 34" by (simp_all add: code_def)
  consider "code c \<in> {34, 92, 8, 9, 10, 12, 13}" | "code c \<notin> {34, 92, 8, 9, 10, 12, 13}" "code c < 32"
    | "code c \<notin> {34, 92}" "\<not> code c < 32" by auto
  then show ?thesis
  proof cases
    case 1
    then have "c = CHR 0x22 \<or> c = CHR 0x5C \<or> c = char_of (8::nat) \<or> c = char_of (9::nat) \<or>
        c = char_of (10::nat) \<or> c = char_of (12::nat) \<or> c = char_of (13::nat)"
      by (metis char_of_code insert_iff empty_iff k)
    then show ?thesis
      by (elim disjE) (simp_all only: json_char_def k code_of, simp_all add: k)
  next
    case 2
    have "16 * (code c div 16) + code c mod 16 = code c" by simp
    with 2 show ?thesis
      by (simp add: json_char_def k unhex_hex char_of_code less_mult_imp_div_less)
  next
    case 3
    then show ?thesis by (simp add: json_char_def)
  qed
qed

lemma unquote_quote: "unquote (concat (map json_char s) @ CHR 0x22 # r) = Some (s, r)"
proof (induction s)
  case Nil
  show ?case by (simp add: code_def)
next
  case (Cons c s)
  then show ?case by (simp add: unquote_char)
qed

lemma json_quote_append_inj:
  assumes "json_quote s @ r = json_quote s' @ r'"
  shows "s = s' \<and> r = r'"
proof -
  have "unquote (concat (map json_char s) @ CHR 0x22 # r) = unquote (concat (map json_char s') @ CHR 0x22 # r')"
    using assms by (simp add: json_quote_def)
  then show ?thesis by (simp add: unquote_quote)
qed

lemma oauth_jti_key_eq [simp]: "oauth_jti_key c j = oauth_jti_key c' j' \<longleftrightarrow> c = c' \<and> j = j'"
proof
  assume "oauth_jti_key c j = oauth_jti_key c' j'"
  then have "json_quote c @ '','' @ json_quote j @ '']'' = json_quote c' @ '','' @ json_quote j' @ '']''"
    by (simp add: oauth_jti_key_def)
  then have "c = c' \<and> '','' @ json_quote j @ '']'' = '','' @ json_quote j' @ '']''"
    by (rule json_quote_append_inj)
  then have "c = c'" and "json_quote j @ '']'' = json_quote j' @ '']''" by simp_all
  then show "c = c' \<and> j = j'" using json_quote_append_inj by blast
qed simp

end
