(* ===== verification/World.thy ===== *)
theory World
  imports Key_Stores Jti_Stores
begin

text \<open>
  The state of a program set up with its default providers: one field per in-memory store
  of \<open>in-memory.provider.ts\<close> and \<open>initializeDefaultProviders\<close>, the clock and the source of
  randomness. \<open>clk\<close> gives the successive readings of \<open>Date.now()\<close> in milliseconds and
  \<open>rnd\<close> the successive results of \<open>randomUUID\<close> and of the key generator's and signer's
  entropy; reading one moves on to the next. An operation of a store that reads the clock
  takes one reading when it starts.
\<close>

record world =
  w_issuer_metadata :: issuer_metadata_store
  w_pac :: pac_store
  w_verifier_metadata :: verifier_metadata_store
  w_issuer_keys :: key_store
  w_authz_metadata :: authz_metadata_store
  w_policies :: authz_policy_store
  w_clients :: oauth_client_store
  w_authz_keys :: key_store
  w_oauth_jtis :: jti_store
  w_dpop_jtis :: jti_store
  w_nonces :: nonce_store
  w_request_objects :: request_object_store
  w_enc_keys :: enc_key_store
  w_verifier_keys :: key_store
  w_certificates :: certificate_store
  w_transactions :: transaction_store
  w_allowed :: allowed_store
  w_clk :: "nat \<Rightarrow> int"
  w_rnd :: "nat \<Rightarrow> string"

definition shift :: "(nat \<Rightarrow> 'a) \<Rightarrow> nat \<Rightarrow> 'a" where
  "shift f n = f (Suc n)"

definition now_ms :: "(world, int) M" where
  "now_ms = (\<lambda>w. (Inr (w_clk w 0), w\<lparr>w_clk := shift (w_clk w)\<rparr>))"

definition fresh :: "(world, string) M" where
  "fresh = (\<lambda>w. (Inr (w_rnd w 0), w\<lparr>w_rnd := shift (w_rnd w)\<rparr>))"

text \<open>The stores, as operations of the program's state.\<close>

definition on_issuer_metadata :: "(issuer_metadata_store, 'a) M \<Rightarrow> (world, 'a) M" where
  "on_issuer_metadata = zoom w_issuer_metadata (\<lambda>s. w_issuer_metadata_update (\<lambda>_. s))"

definition on_pac :: "(pac_store, 'a) M \<Rightarrow> (world, 'a) M" where
  "on_pac = zoom w_pac (\<lambda>s. w_pac_update (\<lambda>_. s))"

definition on_verifier_metadata :: "(verifier_metadata_store, 'a) M \<Rightarrow> (world, 'a) M" where
  "on_verifier_metadata = zoom w_verifier_metadata (\<lambda>s. w_verifier_metadata_update (\<lambda>_. s))"

definition on_issuer_keys :: "(key_store, 'a) M \<Rightarrow> (world, 'a) M" where
  "on_issuer_keys = zoom w_issuer_keys (\<lambda>s. w_issuer_keys_update (\<lambda>_. s))"

definition on_authz_metadata :: "(authz_metadata_store, 'a) M \<Rightarrow> (world, 'a) M" where
  "on_authz_metadata = zoom w_authz_metadata (\<lambda>s. w_authz_metadata_update (\<lambda>_. s))"

definition on_policies :: "(authz_policy_store, 'a) M \<Rightarrow> (world, 'a) M" where
  "on_policies = zoom w_policies (\<lambda>s. w_policies_update (\<lambda>_. s))"

definition on_clients :: "(oauth_client_store, 'a) M \<Rightarrow> (world, 'a) M" where
  "on_clients = zoom w_clients (\<lambda>s. w_clients_update (\<lambda>_. s))"

definition on_authz_keys :: "(key_store, 'a) M \<Rightarrow> (world, 'a) M" where
  "on_authz_keys = zoom w_authz_keys (\<lambda>s. w_authz_keys_update (\<lambda>_. s))"

definition on_oauth_jtis :: "(jti_store, 'a) M \<Rightarrow> (world, 'a) M" where
  "on_oauth_jtis = zoom w_oauth_jtis (\<lambda>s. w_oauth_jtis_update (\<lambda>_. s))"

definition on_dpop_jtis :: "(jti_store, 'a) M \<Rightarrow> (world, 'a) M" where
  "on_dpop_jtis = zoom w_dpop_jtis (\<lambda>s. w_dpop_jtis_update (\<lambda>_. s))"

definition on_nonces :: "(nonce_store, 'a) M \<Rightarrow> (world, 'a) M" where
  "on_nonces = zoom w_nonces (\<lambda>s. w_nonces_update (\<lambda>_. s))"

definition on_request_objects :: "(request_object_store, 'a) M \<Rightarrow> (world, 'a) M" where
  "on_request_objects = zoom w_request_objects (\<lambda>s. w_request_objects_update (\<lambda>_. s))"

definition on_enc_keys :: "(enc_key_store, 'a) M \<Rightarrow> (world, 'a) M" where
  "on_enc_keys = zoom w_enc_keys (\<lambda>s. w_enc_keys_update (\<lambda>_. s))"

definition on_verifier_keys :: "(key_store, 'a) M \<Rightarrow> (world, 'a) M" where
  "on_verifier_keys = zoom w_verifier_keys (\<lambda>s. w_verifier_keys_update (\<lambda>_. s))"

definition on_certificates :: "(certificate_store, 'a) M \<Rightarrow> (world, 'a) M" where
  "on_certificates = zoom w_certificates (\<lambda>s. w_certificates_update (\<lambda>_. s))"

definition on_transactions :: "(transaction_store, 'a) M \<Rightarrow> (world, 'a) M" where
  "on_transactions = zoom w_transactions (\<lambda>s. w_transactions_update (\<lambda>_. s))"

definition on_allowed :: "(allowed_store, 'a) M \<Rightarrow> (world, 'a) M" where
  "on_allowed = zoom w_allowed (\<lambda>s. w_allowed_update (\<lambda>_. s))"

lemmas on_defs = on_issuer_metadata_def on_pac_def on_verifier_metadata_def on_issuer_keys_def
  on_authz_metadata_def on_policies_def on_clients_def on_authz_keys_def on_oauth_jtis_def
  on_dpop_jtis_def on_nonces_def on_request_objects_def on_enc_keys_def on_verifier_keys_def
  on_certificates_def on_transactions_def on_allowed_def

text \<open>An operation that reads the clock first.\<close>

definition timed :: "(int \<Rightarrow> (world, 'a) M) \<Rightarrow> (world, 'a) M" where
  "timed f = bindM now_ms f"

subsection \<open>Which part of the state an operation writes\<close>

text \<open>
  \<open>preserves p m\<close>: the run of \<open>m\<close> leaves the part \<open>p\<close> of the state as it is, whether it
  returns or throws.
\<close>

definition preserves :: "('w \<Rightarrow> 's) \<Rightarrow> ('w, 'a) M \<Rightarrow> bool" where
  "preserves p m \<longleftrightarrow> (\<forall>w. p (snd (m w)) = p w)"

lemma preserves_keeps: "preserves p m \<longleftrightarrow> (\<forall>v. keeps (\<lambda>w. p w = v) m)"
  by (auto simp: preserves_def keeps_def)

lemma preservesD: "preserves p m \<Longrightarrow> m w = (r, w') \<Longrightarrow> p w' = p w"
  by (metis preserves_def snd_conv)

named_theorems preserves_intros \<open>rules for preserved parts\<close>

lemma preserves_ret [preserves_intros]: "preserves p (ret x)"
  by (simp add: preserves_def run_simps)

lemma preserves_throw [preserves_intros]: "preserves p (throw e)"
  by (simp add: preserves_def run_simps)

lemma preserves_raise [preserves_intros]: "preserves p (raise c m)"
  by (simp add: preserves_def run_simps)

lemma preserves_liftE [preserves_intros]: "preserves p (liftE r)"
  by (simp add: preserves_def run_simps)

lemma preserves_bindM [preserves_intros]:
  "preserves p m \<Longrightarrow> (\<And>x. preserves p (f x)) \<Longrightarrow> preserves p (bindM m f)"
  unfolding preserves_keeps by (intro allI keeps_bindM) blast+

lemma preserves_thenM [preserves_intros]:
  "preserves p m \<Longrightarrow> preserves p n \<Longrightarrow> preserves p (thenM m n)"
  unfolding thenM_def by (intro preserves_intros)

lemma preserves_whenM [preserves_intros]: "preserves p m \<Longrightarrow> preserves p (whenM b m)"
  by (simp add: whenM_def preserves_ret)

lemma preserves_catchM [preserves_intros]:
  "preserves p m \<Longrightarrow> (\<And>e. preserves p (h e)) \<Longrightarrow> preserves p (catchM m h)"
  unfolding preserves_keeps by (intro allI keeps_catchM) blast+

lemma preserves_if [preserves_intros]:
  "preserves p m \<Longrightarrow> preserves p n \<Longrightarrow> preserves p (if b then m else n)"
  by simp

lemma preserves_option [preserves_intros]:
  "preserves p m \<Longrightarrow> (\<And>x. preserves p (f x)) \<Longrightarrow> preserves p (case v of None \<Rightarrow> m | Some x \<Rightarrow> f x)"
  by (cases v) simp_all

lemma preserves_sum [preserves_intros]:
  "(\<And>x. preserves p (f x)) \<Longrightarrow> (\<And>x. preserves p (g x)) \<Longrightarrow>
     preserves p (case v of Inl x \<Rightarrow> f x | Inr x \<Rightarrow> g x)"
  by (cases v) simp_all

lemma preserves_prod [preserves_intros]:
  "(\<And>x y. preserves p (f x y)) \<Longrightarrow> preserves p (case v of (x, y) \<Rightarrow> f x y)"
  by (cases v) simp

lemma preserves_Let [preserves_intros]: "(\<And>x. preserves p (f x)) \<Longrightarrow> preserves p (Let v f)"
  by (simp add: Let_def)

lemma preserves_forM [preserves_intros]: "(\<And>x. preserves p (f x)) \<Longrightarrow> preserves p (forM xs f)"
  by (induction xs) (simp_all add: preserves_intros)

lemma preserves_mapM [preserves_intros]: "(\<And>x. preserves p (f x)) \<Longrightarrow> preserves p (mapM f xs)"
  by (induction xs) (simp_all add: preserves_intros)

lemma preserves_zoom: "(\<And>s w. p (put s w) = p w) \<Longrightarrow> preserves p (zoom g put m)"
  by (simp add: preserves_def run_simps)

lemma preserves_timed [preserves_intros]:
  "(\<And>w c. p (w\<lparr>w_clk := c\<rparr>) = p w) \<Longrightarrow> (\<And>t. preserves p (f t)) \<Longrightarrow> preserves p (timed f)"
  unfolding timed_def by (rule preserves_bindM) (simp_all add: preserves_def now_ms_def)

lemma preserves_now [preserves_intros]:
  "(\<And>w c. p (w\<lparr>w_clk := c\<rparr>) = p w) \<Longrightarrow> preserves p now_ms"
  by (simp add: preserves_def now_ms_def)

lemma preserves_fresh [preserves_intros]:
  "(\<And>w c. p (w\<lparr>w_rnd := c\<rparr>) = p w) \<Longrightarrow> preserves p fresh"
  by (simp add: preserves_def fresh_def)

text \<open>An operation on one store preserves all the others.\<close>

lemma preserves_on_issuer_metadata [preserves_intros]:
  "(\<And>s w. p (w_issuer_metadata_update (\<lambda>_. s) w) = p w) \<Longrightarrow> preserves p (on_issuer_metadata m)"
  unfolding on_defs by (rule preserves_zoom)

lemma preserves_on_pac [preserves_intros]:
  "(\<And>s w. p (w_pac_update (\<lambda>_. s) w) = p w) \<Longrightarrow> preserves p (on_pac m)"
  unfolding on_defs by (rule preserves_zoom)

lemma preserves_on_verifier_metadata [preserves_intros]:
  "(\<And>s w. p (w_verifier_metadata_update (\<lambda>_. s) w) = p w) \<Longrightarrow> preserves p (on_verifier_metadata m)"
  unfolding on_defs by (rule preserves_zoom)

lemma preserves_on_issuer_keys [preserves_intros]:
  "(\<And>s w. p (w_issuer_keys_update (\<lambda>_. s) w) = p w) \<Longrightarrow> preserves p (on_issuer_keys m)"
  unfolding on_defs by (rule preserves_zoom)

lemma preserves_on_authz_metadata [preserves_intros]:
  "(\<And>s w. p (w_authz_metadata_update (\<lambda>_. s) w) = p w) \<Longrightarrow> preserves p (on_authz_metadata m)"
  unfolding on_defs by (rule preserves_zoom)

lemma preserves_on_policies [preserves_intros]:
  "(\<And>s w. p (w_policies_update (\<lambda>_. s) w) = p w) \<Longrightarrow> preserves p (on_policies m)"
  unfolding on_defs by (rule preserves_zoom)

lemma preserves_on_clients [preserves_intros]:
  "(\<And>s w. p (w_clients_update (\<lambda>_. s) w) = p w) \<Longrightarrow> preserves p (on_clients m)"
  unfolding on_defs by (rule preserves_zoom)

lemma preserves_on_authz_keys [preserves_intros]:
  "(\<And>s w. p (w_authz_keys_update (\<lambda>_. s) w) = p w) \<Longrightarrow> preserves p (on_authz_keys m)"
  unfolding on_defs by (rule preserves_zoom)

lemma preserves_on_oauth_jtis [preserves_intros]:
  "(\<And>s w. p (w_oauth_jtis_update (\<lambda>_. s) w) = p w) \<Longrightarrow> preserves p (on_oauth_jtis m)"
  unfolding on_defs by (rule preserves_zoom)

lemma preserves_on_dpop_jtis [preserves_intros]:
  "(\<And>s w. p (w_dpop_jtis_update (\<lambda>_. s) w) = p w) \<Longrightarrow> preserves p (on_dpop_jtis m)"
  unfolding on_defs by (rule preserves_zoom)

lemma preserves_on_nonces [preserves_intros]:
  "(\<And>s w. p (w_nonces_update (\<lambda>_. s) w) = p w) \<Longrightarrow> preserves p (on_nonces m)"
  unfolding on_defs by (rule preserves_zoom)

lemma preserves_on_request_objects [preserves_intros]:
  "(\<And>s w. p (w_request_objects_update (\<lambda>_. s) w) = p w) \<Longrightarrow> preserves p (on_request_objects m)"
  unfolding on_defs by (rule preserves_zoom)

lemma preserves_on_enc_keys [preserves_intros]:
  "(\<And>s w. p (w_enc_keys_update (\<lambda>_. s) w) = p w) \<Longrightarrow> preserves p (on_enc_keys m)"
  unfolding on_defs by (rule preserves_zoom)

lemma preserves_on_verifier_keys [preserves_intros]:
  "(\<And>s w. p (w_verifier_keys_update (\<lambda>_. s) w) = p w) \<Longrightarrow> preserves p (on_verifier_keys m)"
  unfolding on_defs by (rule preserves_zoom)

lemma preserves_on_certificates [preserves_intros]:
  "(\<And>s w. p (w_certificates_update (\<lambda>_. s) w) = p w) \<Longrightarrow> preserves p (on_certificates m)"
  unfolding on_defs by (rule preserves_zoom)

lemma preserves_on_transactions [preserves_intros]:
  "(\<And>s w. p (w_transactions_update (\<lambda>_. s) w) = p w) \<Longrightarrow> preserves p (on_transactions m)"
  unfolding on_defs by (rule preserves_zoom)

lemma preserves_on_allowed [preserves_intros]:
  "(\<And>s w. p (w_allowed_update (\<lambda>_. s) w) = p w) \<Longrightarrow> preserves p (on_allowed m)"
  unfolding on_defs by (rule preserves_zoom)

text \<open>The runs of the readings and of timed operations.\<close>

lemma now_ms_run [run_simps]: "now_ms w = (Inr (w_clk w 0), w\<lparr>w_clk := shift (w_clk w)\<rparr>)"
  by (simp add: now_ms_def)

lemma fresh_run [run_simps]: "fresh w = (Inr (w_rnd w 0), w\<lparr>w_rnd := shift (w_rnd w)\<rparr>)"
  by (simp add: fresh_def)

lemma timed_run [run_simps]: "timed f w = f (w_clk w 0) (w\<lparr>w_clk := shift (w_clk w)\<rparr>)"
  by (simp add: timed_def run_simps)

lemma now_ms_Inr [inr_simps]:
  "now_ms w = (Inr y, w2) \<longleftrightarrow> y = w_clk w 0 \<and> w2 = w\<lparr>w_clk := shift (w_clk w)\<rparr>"
  by (auto simp: now_ms_def)

lemma fresh_Inr [inr_simps]:
  "fresh w = (Inr y, w2) \<longleftrightarrow> y = w_rnd w 0 \<and> w2 = w\<lparr>w_rnd := shift (w_rnd w)\<rparr>"
  by (auto simp: fresh_def)

text \<open>An empty program state, for examples: one reading of the clock per second.\<close>

definition world0 :: world where
  "world0 = \<lparr>w_issuer_metadata = (\<lambda>_. None), w_pac = (\<lambda>_. None), w_verifier_metadata = (\<lambda>_. None),
     w_issuer_keys = (\<lambda>_. None), w_authz_metadata = (\<lambda>_. None), w_policies = (\<lambda>_. None),
     w_clients = (\<lambda>_. None), w_authz_keys = (\<lambda>_. None), w_oauth_jtis = (\<lambda>_. None), w_dpop_jtis = (\<lambda>_. None),
     w_nonces = (\<lambda>_. None), w_request_objects = (\<lambda>_. None), w_enc_keys = (\<lambda>_. None),
     w_verifier_keys = (\<lambda>_. None), w_certificates = (\<lambda>_. None), w_transactions = (\<lambda>_. None),
     w_allowed = (\<lambda>_. None), w_clk = (\<lambda>n. int n * 1000), w_rnd = (\<lambda>n. show_nat n)\<rparr>"

end
