(* ===== verification/Verifier_Extern.thy ===== *)
theory Verifier_Extern
  imports World
begin

text \<open>
  The third-party code that only the verifier calls, as a second record of parameters:
  jsonwebtoken, the key objects of \<open>node:crypto\<close>, the global \<open>fetch\<close>, the dcql package and
  the SD-JWT packages. Nothing is assumed of the fields.
\<close>

text \<open>What \<open>jwt.decode(token, { complete: true })\<close> returns: a payload is JSON or text.\<close>

record decoded_jwt =
  dj_header :: obj
  dj_payload :: jsval

datatype jwt_key = PemKey string | KeyObject crypto_key

text \<open>The answer to a request: \<open>ok\<close>, and the value of \<open>json()\<close> unless that rejects.\<close>

record http_response =
  http_ok :: bool
  http_json :: "jsval option"

text \<open>
  \<open>json_text\<close> is \<open>JSON.parse\<close>. \<open>jwt_verify\<close> takes the time in milliseconds and \<open>ignoreNotBefore\<close>; a
  \<open>JsonWebTokenError\<close> or one of its subclasses is an error of that name. \<open>http_fetch\<close> takes
  the environment's choice, so that two requests may be answered differently.
  \<open>dcql_parse\<close> is \<open>DcqlQuery.parse\<close> followed by \<open>DcqlQuery.validate\<close>. A verifier of
  \<open>ES256.getVerifier\<close> is named by its key; \<open>sd_validate\<close> and \<open>sd_verify\<close> are the methods
  of an \<open>SDJwtInstance\<close> with the issuer's verifier and the optional key-binding verifier.
\<close>

record vlib =
  jwt_decode :: "string \<Rightarrow> exn + decoded_jwt option"
  jwt_verify :: "int \<Rightarrow> string \<Rightarrow> jwt_key \<Rightarrow> bool \<Rightarrow> exn + jsval"
  json_text :: "string \<Rightarrow> jsval option"
  createPublicKey :: "jsval \<Rightarrow> exn + crypto_key"
  http_fetch :: "string \<Rightarrow> string \<Rightarrow> exn + http_response"
  url_resolve :: "string \<Rightarrow> string \<Rightarrow> string option"
  url_origin :: "url \<Rightarrow> string"
  zod_datetime :: "string \<Rightarrow> bool"
  dcql_parse :: "jsval option \<Rightarrow> exn + DcqlQuery"
  sd_decode :: "string \<Rightarrow> exn + decoded_jwt"
  sd_kb_jwt :: "string \<Rightarrow> string option"
  getVerifier :: "jsval \<Rightarrow> exn + jsval"
  sd_validate :: "int \<Rightarrow> jsval \<Rightarrow> jsval option \<Rightarrow> string \<Rightarrow> exn + unit"
  sd_verify :: "int \<Rightarrow> jsval \<Rightarrow> jsval option \<Rightarrow> string \<Rightarrow> string list \<Rightarrow> string option \<Rightarrow> exn + jsval"
  x509_parse_der :: "string \<Rightarrow> exn + x509"

text \<open>A request to the network.\<close>

definition fetch_url :: "vlib \<Rightarrow> string \<Rightarrow> (world, http_response) M" where
  "fetch_url V u = bindM fresh (\<lambda>choice. liftE (http_fetch V choice u))"

lemma preserves_fetch_url [preserves_intros]:
  "(\<And>w c. p (w\<lparr>w_rnd := c\<rparr>) = p w) \<Longrightarrow> preserves p (fetch_url V u)"
  unfolding fetch_url_def by (intro preserves_intros)

text \<open>Property read on any value: on \<open>null\<close> it throws.\<close>

definition js_prop :: "jsval \<Rightarrow> string \<Rightarrow> exn + jsval option" where
  "js_prop v k = (case v of JNull \<Rightarrow> Inl (JsError ''TypeError'') | _ \<Rightarrow> Inr (vget v k))"

lemma js_prop_Inr: "js_prop v k = Inr x \<longleftrightarrow> v \<noteq> JNull \<and> x = vget v k"
  by (cases v) (auto simp: js_prop_def)

text \<open>A list of strings that a schema has checked.\<close>

definition strings_of :: "jsval option \<Rightarrow> string list option" where
  "strings_of v =
     (case v of
        Some (JArr xs) \<Rightarrow>
          if list_all (\<lambda>x. str_of (Some x) \<noteq> None) xs
          then Some (map (\<lambda>x. getOr [] (str_of (Some x))) xs) else None
      | _ \<Rightarrow> None)"

text \<open>\<open>e instanceof VcknotsError ? throw e : throw err(code)\<close>.\<close>

definition rethrow :: "error_code \<Rightarrow> exn \<Rightarrow> exn" where
  "rethrow c e = (case e of VcknotsError c' m \<Rightarrow> e | JsError m \<Rightarrow> err c m)"

text \<open>The instance used by the examples.\<close>

definition vlib0 :: vlib where
  "vlib0 = \<lparr>jwt_decode = (\<lambda>t. Inr None), jwt_verify = (\<lambda>now t k i. Inr JNull),
     json_text = (\<lambda>s. None), createPublicKey = (\<lambda>v. Inr (CryptoKey v)), http_fetch = (\<lambda>e u. Inl (JsError ''TypeError'')),
     url_resolve = (\<lambda>r b. Some (b @ r)), url_origin = url_hostname, zod_datetime = (\<lambda>s. True),
     dcql_parse = (\<lambda>v. Inl (JsError ''ValiError'')), sd_decode = (\<lambda>s. Inl (JsError ''SDJWTException'')),
     sd_kb_jwt = (\<lambda>s. None), getVerifier = Inr, sd_validate = (\<lambda>now k kb s. Inr ()),
     sd_verify = (\<lambda>now k kb s cs n. Inr (JObj [])), x509_parse_der = (\<lambda>s. Inl (JsError ''x509''))\<rparr>"

end
