(* ===== verification/Claim_Paths.thy ===== *)
theory Claim_Paths
  imports Types
begin

text \<open>
  Reading and writing a claim at a path of an object (\<open>providers/issue-credential.utils.ts\<close>).
  Objects are values: a write returns the changed object. The source mutates, so a nested
  object of the claims that was copied by reference into a credential would show later
  writes to that credential; this sharing is not modelled.
\<close>

definition forbiddenPathSegments :: "string list" where
  "forbiddenPathSegments = [''__proto__'', ''constructor'', ''prototype'']"

definition isPlainObject :: "jsval \<Rightarrow> bool" where
  "isPlainObject v = (case v of JObj ob \<Rightarrow> True | _ \<Rightarrow> False)"

definition assertSafePath :: "string list \<Rightarrow> exn + unit" where
  "assertSafePath path =
     (if path = [] then Inl (err ''invalid_claims'' ''Claim path must not be empty.'')
      else case find (\<lambda>segment. segment \<in> set forbiddenPathSegments) path of
             Some segment \<Rightarrow> Inl (err ''invalid_claims'' ''Unsupported claim path segment'')
           | None \<Rightarrow> Inr ())"

text \<open>The loop of the read: \<open>None\<close> is \<open>undefined\<close>.\<close>

fun claim_at :: "jsval \<Rightarrow> string list \<Rightarrow> jsval option" where
  "claim_at current [] = Some current"
| "claim_at current (segment # path) =
     (if \<not> isPlainObject current then None
      else case vget current segment of None \<Rightarrow> None | Some next \<Rightarrow> claim_at next path)"

definition getClaimValue :: "obj \<Rightarrow> string list \<Rightarrow> exn + jsval option" where
  "getClaimValue claims path =
     (case assertSafePath path of Inl e \<Rightarrow> Inl e | Inr _ \<Rightarrow> Inr (claim_at (JObj claims) path))"

text \<open>A member that is not a plain object, or absent, is replaced by an empty one.\<close>

definition plain_member :: "obj \<Rightarrow> string \<Rightarrow> obj" where
  "plain_member current segment = (case oget current segment of Some (JObj ob) \<Rightarrow> ob | _ \<Rightarrow> [])"

fun put_claim :: "obj \<Rightarrow> string list \<Rightarrow> jsval \<Rightarrow> obj" where
  "put_claim current [] v = current"
| "put_claim current [segment] v = oset current segment v"
| "put_claim current (segment # s # path) v =
     oset current segment (JObj (put_claim (plain_member current segment) (s # path) v))"

definition setClaimValue :: "obj \<Rightarrow> string list \<Rightarrow> jsval \<Rightarrow> exn + obj" where
  "setClaimValue target path v =
     (case assertSafePath path of Inl e \<Rightarrow> Inl e | Inr _ \<Rightarrow> Inr (put_claim target path v))"

subsection \<open>Facts\<close>

lemma isPlainObject_JObj [simp]: "isPlainObject (JObj ob)"
  by (simp add: isPlainObject_def)

lemma isPlainObject_iff: "isPlainObject v \<longleftrightarrow> (\<exists>ob. v = JObj ob)"
  by (auto simp: isPlainObject_def split: jsval.splits)

definition safe_path :: "string list \<Rightarrow> bool" where
  "safe_path path \<longleftrightarrow> path \<noteq> [] \<and> set path \<inter> set forbiddenPathSegments = {}"

lemma assertSafePath_Inr: "assertSafePath path = Inr u \<longleftrightarrow> safe_path path"
  by (auto simp: assertSafePath_def safe_path_def find_None_iff dest!: find_SomeD split: option.splits)

lemma assertSafePath_Inl: "assertSafePath path = Inl e \<Longrightarrow> \<exists>m. e = err ''invalid_claims'' m"
  by (auto simp: assertSafePath_def split: option.splits if_splits)

lemma safe_path_Inr [simp]: "safe_path path \<Longrightarrow> assertSafePath path = Inr ()"
  by (simp add: assertSafePath_Inr)

text \<open>Two paths are apart when they differ at a common position.\<close>

fun apart :: "string list \<Rightarrow> string list \<Rightarrow> bool" where
  "apart (a # p) (b # q) = (a \<noteq> b \<or> apart p q)"
| "apart p q = False"

lemma claim_at_put_same: "path \<noteq> [] \<Longrightarrow> claim_at (JObj (put_claim ob path v)) path = Some v"
  by (induction ob path v rule: put_claim.induct) auto

lemma claim_at_empty: "q \<noteq> [] \<Longrightarrow> claim_at (JObj []) q = None"
  by (cases q) simp_all

lemma claim_at_plain_member:
  "q \<noteq> [] \<Longrightarrow> claim_at (JObj ob) (a # q) = claim_at (JObj (plain_member ob a)) q"
  by (cases q) (auto simp: plain_member_def isPlainObject_iff split: option.splits jsval.splits)

lemma claim_at_put_apart:
  "apart path q \<Longrightarrow> claim_at (JObj (put_claim ob path v)) q = claim_at (JObj ob) q"
proof (induction ob path v arbitrary: q rule: put_claim.induct)
  case (3 ob a s path v)
  obtain b q' where q: "q = b # q'" using 3(2) by (cases q) auto
  show ?case
  proof (cases "a = b")
    case True
    with 3(2) q have ap: "apart (s # path) q'" by simp
    then have ne: "q' \<noteq> []" by auto
    have "claim_at (JObj (put_claim ob (a # s # path) v)) q =
        claim_at (JObj (put_claim (plain_member ob a) (s # path) v)) q'"
      using True q by simp
    also have "\<dots> = claim_at (JObj (plain_member ob a)) q'" using 3(1) ap by simp
    also have "\<dots> = claim_at (JObj ob) q" using True q ne by (simp add: claim_at_plain_member del: claim_at.simps)
    finally show ?thesis .
  qed (auto simp: q split: option.splits)
qed (auto elim: apart.elims split: option.splits)

lemma distinct_put_claim: "distinct (map fst ob) \<Longrightarrow> distinct (map fst (put_claim ob path v))"
  by (cases "(ob, path, v)" rule: put_claim.cases) (auto simp: distinct_oset)

subsection \<open>Properties\<close>

text \<open>Writing and reading claims: a path with a forbidden or no segment is refused by both
  with \<open>invalid_claims\<close>, and the object is not touched; on a safe path a read after a write
  returns the written value, at any depth and whatever was there, and a path that branches
  off keeps its value.\<close>

theorem claim_set_get:
  "(if safe_path path then
      (\<exists>target'. setClaimValue target path v = Inr target' \<and>
         getClaimValue target' path = Inr (Some v) \<and>
         (\<forall>q. apart path q \<longrightarrow> getClaimValue target' q = getClaimValue target q))
    else (\<exists>m. setClaimValue target path v = Inl (err ''invalid_claims'' m) \<and>
              getClaimValue target path = Inl (err ''invalid_claims'' m)))"
proof (cases "assertSafePath path")
  case (Inl e)
  then have "\<not> safe_path path" by (metis Inl_Inr_False assertSafePath_Inr)
  with Inl show ?thesis using assertSafePath_Inl [OF Inl]
    by (auto simp: setClaimValue_def getClaimValue_def)
next
  case (Inr u)
  then have s: "safe_path path" by (simp add: assertSafePath_Inr)
  then have "path \<noteq> []" by (simp add: safe_path_def)
  with s show ?thesis
    by (auto simp: setClaimValue_def getClaimValue_def claim_at_put_same claim_at_put_apart split: sum.splits)
qed

theorem claim_set_get_witness:
  "\<exists>t. setClaimValue [(''a'', JNum (Fin 1))] [''a'', ''b''] (JStr ''x'') = Inr t \<and>
     getClaimValue t [''a'', ''b''] = Inr (Some (JStr ''x''))"
proof -
  have "safe_path [''a'', ''b'']" by (simp add: safe_path_def forbiddenPathSegments_def)
  with claim_set_get [of "[''a'', ''b'']" "[(''a'', JNum (Fin 1))]" "JStr ''x''"] show ?thesis by auto
qed

end
