(* ===== verification/Certificates.thy ===== *)
theory Certificates
  imports World
begin

text \<open>
  Validation of an X.509 chain and its public key (\<open>providers/certificate.provider.ts\<close>).
  Parsing a certificate and checking one signature are parameters; the validity periods,
  the links of the chain and the self-signed root are modelled.
\<close>

text \<open>Each certificate is compared with its own reading of the clock.\<close>

definition cert_in_period :: "ext \<Rightarrow> string \<Rightarrow> (world, bool) M" where
  "cert_in_period X c =
     bindM (liftE (x509_parse X c)) (\<lambda>x509Cert.
     bindM now_ms (\<lambda>now.
     ret (num_le (x_validFrom x509Cert) (num_int now) \<and> num_le (num_int now) (x_validTo x509Cert))))"

text \<open>A throw while a link is checked makes the chain invalid.\<close>

definition link_valid :: "ext \<Rightarrow> string \<Rightarrow> string \<Rightarrow> bool" where
  "link_valid X subjectCertPem issuerCertPem =
     (case (x509_parse X subjectCertPem, x509_parse X issuerCertPem) of
        (Inr subjectCert, Inr issuerCert) \<Rightarrow>
          x_issuer subjectCert = x_subject issuerCert \<and>
          x509_verify X subjectCert (x_publicKey issuerCert) = Inr True \<and>
          num_le (x_validFrom issuerCert) (x_validFrom subjectCert) \<and>
          num_le (x_validFrom subjectCert) (x_validTo issuerCert)
      | _ \<Rightarrow> False)"

fun links_valid :: "ext \<Rightarrow> string list \<Rightarrow> bool" where
  "links_valid X (a # b # cs) = (if \<not> link_valid X a b then False else links_valid X (b # cs))"
| "links_valid X cs = True"

definition root_valid :: "ext \<Rightarrow> string \<Rightarrow> exn + bool" where
  "root_valid X c =
     (case x509_parse X c of
        Inl e \<Rightarrow> Inl e
      | Inr rootCert \<Rightarrow>
          if x_issuer rootCert = x_subject rootCert
          then Inr (x509_verify X rootCert (x_publicKey rootCert) = Inr True)
          else Inr True)"

definition certificate_validate :: "ext \<Rightarrow> string list \<Rightarrow> (world, bool) M" where
  "certificate_validate X cert = catchM
     (if cert = [] then raise ''invalid_certificate'' ''Certificate chain is empty.''
      else bindM (mapM (cert_in_period X) cert) (\<lambda>periods.
           let chainValid = list_all (\<lambda>b. b) periods \<and> links_valid X cert in
           bindM (liftE (root_valid X (last cert))) (\<lambda>rootValid.
           ret (chainValid \<and> rootValid))))
     (\<lambda>_. ret False)"

text \<open>The empty string when the certificate cannot be read.\<close>

definition certificate_getPublicKey :: "ext \<Rightarrow> string \<Rightarrow> string" where
  "certificate_getPublicKey X cert =
     (case x509_parse X cert of
        Inl e \<Rightarrow> []
      | Inr c \<Rightarrow> (case export_spki X (x_publicKey c) of Inl e \<Rightarrow> [] | Inr pem \<Rightarrow> pem))"

subsection \<open>What a valid chain is\<close>

lemma links_valid_nth:
  "links_valid X cs \<longleftrightarrow> (\<forall>i. Suc i < length cs \<longrightarrow> link_valid X (cs ! i) (cs ! Suc i))"
proof (induction X cs rule: links_valid.induct)
  case (1 X a b cs)
  show ?case
  proof
    assume l: "links_valid X (a # b # cs)"
    then have "link_valid X a b" "links_valid X (b # cs)" by (simp_all split: if_splits)
    with 1 show "\<forall>i. Suc i < length (a # b # cs) \<longrightarrow> link_valid X ((a # b # cs) ! i) ((a # b # cs) ! Suc i)"
      by (auto simp: nth_Cons split: nat.splits)
  next
    assume a: "\<forall>i. Suc i < length (a # b # cs) \<longrightarrow> link_valid X ((a # b # cs) ! i) ((a # b # cs) ! Suc i)"
    have "link_valid X a b" using a [rule_format, of 0] by simp
    moreover have "\<forall>i. Suc i < length (b # cs) \<longrightarrow> link_valid X ((b # cs) ! i) ((b # cs) ! Suc i)"
      using a by (metis Suc_less_eq length_Cons nth_Cons_Suc)
    ultimately show "links_valid X (a # b # cs)" using 1 by simp
  qed
qed simp_all

definition in_period_at :: "ext \<Rightarrow> string \<Rightarrow> int \<Rightarrow> bool" where
  "in_period_at X c now \<longleftrightarrow> (\<exists>x. x509_parse X c = Inr x \<and>
     num_le (x_validFrom x) (num_int now) \<and> num_le (num_int now) (x_validTo x))"

lemma cert_in_period_run:
  "cert_in_period X c w =
     (case x509_parse X c of Inl e \<Rightarrow> (Inl e, w)
      | Inr x \<Rightarrow> (Inr (in_period_at X c (w_clk w 0)), w\<lparr>w_clk := shift (w_clk w)\<rparr>))"
  by (simp add: cert_in_period_def run_simps in_period_at_def split: sum.split)

lemma mapM_period_Inr:
  assumes "mapM (cert_in_period X) cs w = (Inr bs, w')"
  shows "length bs = length cs \<and>
    (list_all (\<lambda>b. b) bs \<longleftrightarrow> (\<forall>i < length cs. in_period_at X (cs ! i) (w_clk w i))) \<and>
    (\<forall>c \<in> set cs. \<exists>x. x509_parse X c = Inr x) \<and> (\<exists>c. w' = w\<lparr>w_clk := c\<rparr>)"
  using assms
proof (induction cs arbitrary: w bs)
  case Nil
  then show ?case by (auto simp: ret_def intro: exI [of _ "w_clk w"])
next
  case (Cons c cs)
  obtain x where x: "x509_parse X c = Inr x"
    using Cons.prems by (auto simp: bindM_Inr cert_in_period_run [of X c] split: sum.splits)
  define w1 where "w1 = w\<lparr>w_clk := shift (w_clk w)\<rparr>"
  obtain bs' where bs: "mapM (cert_in_period X) cs w1 = (Inr bs', w')" "bs = in_period_at X c (w_clk w 0) # bs'"
    using Cons.prems x by (auto simp: bindM_Inr ret_Inr cert_in_period_run [of X c] w1_def)
  have "w_clk w1 i = w_clk w (Suc i)" for i by (simp add: w1_def shift_def)
  with Cons.IH [OF bs(1)] bs(2) x show ?case
    by (auto simp: w1_def less_Suc_eq_0_disj)
qed

lemma mapM_period_Inl:
  assumes "mapM (cert_in_period X) cs w = (Inl e, w')"
  shows "(\<exists>c \<in> set cs. \<exists>e. x509_parse X c = Inl e) \<and> (\<exists>c. w' = w\<lparr>w_clk := c\<rparr>)"
  using assms
proof (induction cs arbitrary: w)
  case (Cons c cs)
  show ?case
  proof (cases "x509_parse X c")
    case (Inl e)
    then show ?thesis using Cons.prems by (auto simp: bindM_run cert_in_period_run [of X c] intro: exI [of _ "w_clk w"])
  next
    case (Inr x)
    then have "mapM (cert_in_period X) cs (w\<lparr>w_clk := shift (w_clk w)\<rparr>) = (Inl e, w')"
      using Cons.prems by (auto simp: bindM_run cert_in_period_run [of X c] ret_def split: prod.splits sum.splits)
    from Cons.IH [OF this] show ?thesis by auto
  qed
qed (simp add: ret_def)

definition root_signed :: "ext \<Rightarrow> string \<Rightarrow> bool" where
  "root_signed X c \<longleftrightarrow> (\<exists>x. x509_parse X c = Inr x \<and>
     (x_issuer x = x_subject x \<longrightarrow> x509_verify X x (x_publicKey x) = Inr True))"

lemma certificate_validate_run:
  "\<exists>clk. certificate_validate X cs w =
     (Inr (cs \<noteq> [] \<and> (\<forall>i < length cs. in_period_at X (cs ! i) (w_clk w i)) \<and>
        (\<forall>i. Suc i < length cs \<longrightarrow> link_valid X (cs ! i) (cs ! Suc i)) \<and> root_signed X (last cs)),
      w\<lparr>w_clk := clk\<rparr>)"
proof (cases "cs = []")
  case True
  then show ?thesis by (auto simp: certificate_validate_def run_simps intro: exI [of _ "w_clk w"])
next
  case False
  obtain r w1 where m: "mapM (cert_in_period X) cs w = (r, w1)" by fastforce
  show ?thesis
  proof (cases r)
    case (Inl e)
    obtain clk where w1: "w1 = w\<lparr>w_clk := clk\<rparr>" using mapM_period_Inl m Inl by blast
    obtain c e' where c: "c \<in> set cs" "x509_parse X c = Inl e'" using mapM_period_Inl m Inl by blast
    then obtain i where "i < length cs" "\<not> in_period_at X (cs ! i) (w_clk w i)"
      by (metis in_period_at_def in_set_conv_nth Inl_Inr_False)
    with False m Inl w1 show ?thesis
      by (auto simp: certificate_validate_def run_simps)
  next
    case (Inr bs)
    note p = mapM_period_Inr [OF m [unfolded Inr]]
    then obtain clk where w1: "w1 = w\<lparr>w_clk := clk\<rparr>" by blast
    obtain x where x: "x509_parse X (last cs) = Inr x" using p last_in_set [OF False] by blast
    then have "root_valid X (last cs) = Inr (root_signed X (last cs))"
      by (simp add: root_valid_def root_signed_def)
    with False m Inr w1 p show ?thesis
      by (auto simp: certificate_validate_def run_simps Let_def links_valid_nth)
  qed
qed

lemma preserves_certificate_validate [preserves_intros]:
  "(\<And>w c. p (w\<lparr>w_clk := c\<rparr>) = p w) \<Longrightarrow> preserves p (certificate_validate X cs)"
proof (unfold preserves_def, intro allI)
  fix w assume "\<And>w c. p (w\<lparr>w_clk := c\<rparr>) = p w"
  then show "p (snd (certificate_validate X cs w)) = p w"
    using certificate_validate_run [of X cs w] by (elim exE) simp
qed


text \<open>Two certificates, the first issued by the self-signed second one.\<close>

definition ext_certs :: ext where
  "ext_certs = ext0\<lparr>x509_parse := (\<lambda>c.
     if c = ''leaf'' then Inr \<lparr>x_issuer = ''CA'', x_subject = ''L'', x_validFrom = Fin 0, x_validTo = Fin 90000,
       x_publicKey = RawKey ''l''\<rparr>
     else Inr \<lparr>x_issuer = ''CA'', x_subject = ''CA'', x_validFrom = Fin 0, x_validTo = Fin 90000,
       x_publicKey = RawKey ''ca''\<rparr>)\<rparr>"


end
