(* ===== verification/Credential_Proof.thy ===== *)
theory Credential_Proof
  imports Certificates
begin

text \<open>
  Verification of the proof JWT of a credential request
  (\<open>providers/credential-proof-jwt.provider.ts\<close>): the header and its key reference, the
  resolution of the holder's key, the signature, and the claims.
\<close>

definition OID4VCI_JWT_PROOF_TYP :: string where
  "OID4VCI_JWT_PROOF_TYP = ''openid4vci-proof+jwt''"

definition DEFAULT_PROOF_JWT_MAX_TOKEN_AGE_SECONDS :: jsnum where
  "DEFAULT_PROOF_JWT_MAX_TOKEN_AGE_SECONDS = Fin 300"

definition DEFAULT_PROOF_JWT_CLOCK_TOLERANCE_SECONDS :: jsnum where
  "DEFAULT_PROOF_JWT_CLOCK_TOLERANCE_SECONDS = Fin 60"

record CredentialProofJwtFactoryOptions =
  cp_maxTokenAgeSeconds :: "jsnum option"
  cp_clockToleranceSeconds :: "jsnum option"

definition no_proof :: "string \<Rightarrow> exn" where
  "no_proof msg = err ''invalid_proof'' msg"

subsection \<open>The key reference of the header\<close>

datatype bindingMethod = BindKid string | BindJwk jsval | BindX5c "jsval list"

definition header_kid :: "obj \<Rightarrow> string option" where
  "header_kid h = (case oget h ''kid'' of Some (JStr s) \<Rightarrow> if js_trim s \<noteq> [] then Some s else None | _ \<Rightarrow> None)"

definition header_x5c :: "obj \<Rightarrow> jsval list option" where
  "header_x5c h = (case oget h ''x5c'' of Some (JArr cs) \<Rightarrow> if cs \<noteq> [] then Some cs else None | _ \<Rightarrow> None)"

text \<open>The method comes with the part of the header it refers to.\<close>

definition resolveProofBindingMethod :: "obj \<Rightarrow> exn + bindingMethod" where
  "resolveProofBindingMethod h =
     (let present = length (filter (\<lambda>b. b) [header_kid h \<noteq> None, oget h ''jwk'' \<noteq> None, header_x5c h \<noteq> None])
      in if present = 0 then Inl (no_proof ''Proof JWT header must contain one of kid, jwk, or x5c'')
         else if 1 < present then Inl (no_proof ''Proof JWT header: kid, jwk, and x5c are mutually exclusive'')
         else case header_kid h of
                Some kid \<Rightarrow> Inr (BindKid kid)
              | None \<Rightarrow>
                  (case oget h ''jwk'' of
                     Some jwk \<Rightarrow> Inr (BindJwk jwk)
                   | None \<Rightarrow> Inr (BindX5c (getOr [] (header_x5c h)))))"

text \<open>\<open>match(/.{1,64}/g)\<close> on a string without line breaks.\<close>

function chunks64 :: "string \<Rightarrow> string list" where
  "chunks64 s = (if s = [] then [] else take 64 s # chunks64 (drop 64 s))"
  by auto
termination by (relation "measure length") auto

declare chunks64.simps [simp del]

definition newline :: string where
  "newline = [char_of (10 :: nat)]"

definition derBase64ToPem :: "string \<Rightarrow> string" where
  "derBase64ToPem derBase64 =
     (let stripped = filter (\<lambda>c. \<not> is_ws c) derBase64;
          body = (if stripped = [] then derBase64 else js_join newline (chunks64 stripped))
      in ''-----BEGIN CERTIFICATE-----'' @ newline @ body @ newline @ ''-----END CERTIFICATE-----'' @ newline)"

text \<open>The registered DID provider resolves \<open>did:key\<close>; a failing resolution counts as none.\<close>

definition did_canHandle :: "string \<Rightarrow> string \<Rightarrow> bool" where
  "did_canHandle p m = (m = p)"

definition try_resolve :: "ext \<Rightarrow> string \<Rightarrow> DidDocument option" where
  "try_resolve X did = (case resolveDid X did of Inl e \<Rightarrow> None | Inr d \<Rightarrow> d)"

definition resolveDidPublicKeyJwk :: "ext \<Rightarrow> string \<Rightarrow> exn + obj" where
  "resolveDidPublicKeyJwk X kid =
     (let didSplit = js_split (CHR '':'') kid in
      if length didSplit < 3 \<or> didSplit ! 0 \<noteq> ''did'' then Inl (no_proof ''Invalid DID format'')
      else case selectProvider did_canHandle [''key''] (didSplit ! 1) of
        Inl e \<Rightarrow> Inl e
      | Inr p \<Rightarrow>
          let did = hd (js_split (CHR ''#'') kid);
              didDoc0 = try_resolve X kid;
              didDoc = (if didDoc0 = None \<and> did \<noteq> kid then try_resolve X did else didDoc0);
              methods = (case didDoc of None \<Rightarrow> [] | Some d \<Rightarrow> getOr [] (verificationMethod d));
              vm = orElse (find (\<lambda>m. method_id m = kid) methods) (find (\<lambda>m. publicKeyJwk m \<noteq> None) methods)
          in case (case vm of None \<Rightarrow> None | Some m \<Rightarrow> publicKeyJwk m) of
               None \<Rightarrow> Inl (no_proof ''Unsupported did type detected.'')
             | Some jwk \<Rightarrow> Inr jwk)"

text \<open>The strings of the certificate array; a member that is no string is a \<open>TypeError\<close>.\<close>

definition x5c_pems :: "jsval list \<Rightarrow> exn + string list" where
  "x5c_pems x5c =
     (if list_all (\<lambda>v. str_of (Some v) \<noteq> None) x5c
      then Inr (map (\<lambda>v. derBase64ToPem (getOr [] (str_of (Some v)))) x5c)
      else Inl (JsError ''TypeError''))"

definition wrap_import :: "exn + crypto_key \<Rightarrow> exn + crypto_key" where
  "wrap_import r = (case r of Inl e \<Rightarrow> Inl (no_proof ''Failed to import proof JWT key'') | Inr k \<Rightarrow> Inr k)"

definition resolveHeaderPublicKey :: "ext \<Rightarrow> obj \<Rightarrow> string \<Rightarrow> (world, crypto_key) M" where
  "resolveHeaderPublicKey X h proofAlg =
     bindM (liftE (resolveProofBindingMethod h)) (\<lambda>bindingMethod.
     case bindingMethod of
       BindKid kid \<Rightarrow>
         bindM (liftE (resolveDidPublicKeyJwk X kid)) (\<lambda>publicKeyJwk. liftE (importJWK X publicKeyJwk proofAlg))
     | BindJwk v \<Rightarrow>
         (case v of
            JObj jwk \<Rightarrow>
              if ohas jwk ''d'' then throw (no_proof ''Proof JWT header jwk must contain a public key only.'')
              else liftE (wrap_import (importJWK X jwk proofAlg))
          | _ \<Rightarrow> throw (no_proof ''Proof JWT header jwk must be a JSON object.''))
     | BindX5c x5c \<Rightarrow>
         bindM (liftE (x5c_pems x5c)) (\<lambda>certificateChain.
         bindM (certificate_validate X certificateChain) (\<lambda>certValid.
         if \<not> certValid then throw (no_proof ''x5c certificate chain is invalid.'')
         else
           let publicKeyPem = certificate_getPublicKey X (hd certificateChain) in
           if publicKeyPem = [] then throw (no_proof ''Unable to extract public key from x5c certificate chain.'')
           else liftE (wrap_import (importSPKI X publicKeyPem proofAlg)))))"

subsection \<open>The claims\<close>

text \<open>The rules for \<open>iss\<close>: who may name itself as the issuer of the proof.\<close>

definition iss_rule :: "CredentialProofJwtVerifyContext \<Rightarrow> jsval option \<Rightarrow> exn + unit" where
  "iss_rule ctx issValue =
     (let hasIss = (issValue \<noteq> None) in
      if usePreAuth ctx then
        (if \<not> opt_str (ctx_clientId ctx) then
           (if hasIss then Inl (no_proof ''iss claim must be omitted for anonymous access'') else Inr ())
         else if hasIss \<and> str_of issValue \<noteq> ctx_clientId ctx then
           Inl (no_proof ''iss claim must match the client_id'')
         else Inr ())
      else
        (if hasIss then
           (case str_of issValue of
              None \<Rightarrow> Inl (no_proof ''iss claim must be the client_id or the Credential Issuer Identifier'')
            | Some iss \<Rightarrow>
                if Some iss \<noteq> ctx_clientId ctx \<and> iss \<noteq> ctx_credentialIssuer ctx
                then Inl (no_proof ''iss claim must be the client_id or the Credential Issuer Identifier'')
                else Inr ())
         else Inr ()))"

definition proof_claims_check ::
  "CredentialProofJwtVerifyContext option \<Rightarrow> obj \<Rightarrow> exn + ProofJwtBody" where
  "proof_claims_check verificationContext payload =
     (case (oget payload ''aud'', oget payload ''iat'') of
        (Some (JStr aud), Some (JNum iat)) \<Rightarrow>
          (case verificationContext of
             None \<Rightarrow> Inl (no_proof ''Credential proof verification requires credentialIssuer and usePreAuth'')
           | Some ctx \<Rightarrow>
               (case iss_rule ctx (oget payload ''iss'') of
                  Inl e \<Rightarrow> Inl e
                | Inr _ \<Rightarrow>
                    if aud \<noteq> ctx_credentialIssuer ctx
                    then Inl (no_proof ''aud claim must be the Credential Issuer Identifier.'')
                    else Inr \<lparr>pb_iss = str_of (oget payload ''iss''), pb_aud = Some (AudStr aud),
                              pb_iat = Some iat, pb_nonce = str_of (oget payload ''nonce'')\<rparr>))
      | _ \<Rightarrow> Inl (no_proof ''Unsupported Proof Payload.''))"

definition proof_header_check :: "obj \<Rightarrow> exn + string" where
  "proof_header_check h =
     (case oget h ''alg'' of
        Some (JStr proofAlg) \<Rightarrow>
          if isProhibitedAlg proofAlg then
            Inl (no_proof ''Proof JWT alg must not be none or a symmetric (MAC) algorithm.'')
          else if oget h ''typ'' \<noteq> Some (JStr OID4VCI_JWT_PROOF_TYP) then
            Inl (no_proof ''Proof JWT header typ must be openid4vci-proof+jwt.'')
          else Inr proofAlg
      | _ \<Rightarrow> Inl (no_proof ''Unsupported Proof Header alg value.''))"

definition proof_verify_options :: "CredentialProofJwtFactoryOptions \<Rightarrow> string \<Rightarrow> verify_options" where
  "proof_verify_options F proofAlg = no_verify_options
     \<lparr>vo_algorithms := Some [proofAlg],
      vo_maxTokenAge := Some (getOr DEFAULT_PROOF_JWT_MAX_TOKEN_AGE_SECONDS (cp_maxTokenAgeSeconds F)),
      vo_clockTolerance := Some (getOr DEFAULT_PROOF_JWT_CLOCK_TOLERANCE_SECONDS (cp_clockToleranceSeconds F))\<rparr>"

text \<open>A proof is a compact JWT or a data integrity proof, which is refused.\<close>

datatype proof_value = ProofString string | ProofObject jsval

definition verifyCredentialProof ::
  "ext \<Rightarrow> CredentialProofJwtFactoryOptions \<Rightarrow> proof_value \<Rightarrow> CredentialProofJwtVerifyContext option \<Rightarrow>
   (world, ProofJwt) M" where
  "verifyCredentialProof X F pv verificationContext =
     (case pv of
        ProofObject v \<Rightarrow> throw (no_proof ''Unsupported proof type.'')
      | ProofString jwt \<Rightarrow>
          (case decodeJwt X jwt of
             Inl e \<Rightarrow> throw (no_proof ''Failed to decode proof JWT'')
           | Inr decoded \<Rightarrow>
               if str_of (oget decoded ''payload'') \<noteq> None then throw (no_proof ''Unsupported jwt payload type.'')
               else
                 bindM (liftE (decodeProtectedHeader X jwt)) (\<lambda>h.
                 bindM (liftE (proof_header_check h)) (\<lambda>proofAlg.
                 bindM (resolveHeaderPublicKey X h proofAlg) (\<lambda>verificationKey.
                 bindM now_ms (\<lambda>now.
                 case jwtVerify X now jwt verificationKey (proof_verify_options F proofAlg) of
                   Inl e \<Rightarrow> throw (no_proof ''Proof JWT verification failed'')
                 | Inr payload \<Rightarrow>
                     bindM (liftE (proof_claims_check verificationContext payload)) (\<lambda>body.
                     ret \<lparr>proof_header = oset h ''alg'' (JStr proofAlg), proof_payload = body\<rparr>)))))))"

definition credential_proof_canHandle :: "string \<Rightarrow> string \<Rightarrow> bool" where
  "credential_proof_canHandle p proofType = (proofType = ''jwt'')"

subsection \<open>What an accepted proof satisfies\<close>

lemma resolveProofBindingMethod_Inr:
  "resolveProofBindingMethod h = Inr m \<Longrightarrow>
     (case m of
        BindKid kid \<Rightarrow> oget h ''kid'' = Some (JStr kid) \<and> oget h ''jwk'' = None \<and> header_x5c h = None
      | BindJwk v \<Rightarrow> header_kid h = None \<and> oget h ''jwk'' = Some v \<and> header_x5c h = None
      | BindX5c cs \<Rightarrow> header_kid h = None \<and> oget h ''jwk'' = None \<and> oget h ''x5c'' = Some (JArr cs) \<and> cs \<noteq> [])"
  by (auto simp: resolveProofBindingMethod_def Let_def header_kid_def header_x5c_def
      split: if_splits option.splits jsval.splits)

text \<open>The key that a header refers to, as the holder's public key.\<close>

definition key_of_header :: "ext \<Rightarrow> obj \<Rightarrow> string \<Rightarrow> crypto_key \<Rightarrow> bool" where
  "key_of_header X h alg key \<longleftrightarrow>
     (\<exists>kid jwk. oget h ''kid'' = Some (JStr kid) \<and> oget h ''jwk'' = None \<and> header_x5c h = None \<and>
        resolveDidPublicKeyJwk X kid = Inr jwk \<and> importJWK X jwk alg = Inr key) \<or>
     (\<exists>jwk. oget h ''jwk'' = Some (JObj jwk) \<and> header_kid h = None \<and> header_x5c h = None \<and>
        \<not> ohas jwk ''d'' \<and> importJWK X jwk alg = Inr key) \<or>
     (\<exists>cs pems w. oget h ''x5c'' = Some (JArr cs) \<and> header_kid h = None \<and> oget h ''jwk'' = None \<and>
        x5c_pems cs = Inr pems \<and> fst (certificate_validate X pems w) = Inr True \<and>
        importSPKI X (certificate_getPublicKey X (hd pems)) alg = Inr key)"

lemma wrap_import_Inr: "wrap_import r = Inr k \<longleftrightarrow> r = Inr k"
  by (auto simp: wrap_import_def split: sum.splits)

lemma resolveHeaderPublicKey_Inr:
  assumes "resolveHeaderPublicKey X h alg w = (Inr key, w')"
  shows "key_of_header X h alg key \<and> (\<exists>c. w' = w\<lparr>w_clk := c\<rparr>)"
proof -
  have id: "\<exists>c. w = w\<lparr>w_clk := c\<rparr>" by (rule exI [of _ "w_clk w"]) simp
  obtain m where m: "resolveProofBindingMethod h = Inr m"
    using assms by (auto simp: resolveHeaderPublicKey_def inr_simps)
  note hm = resolveProofBindingMethod_Inr [OF m]
  show ?thesis
  proof (cases m)
    case (BindKid kid)
    with assms m hm id show ?thesis
      by (auto simp: resolveHeaderPublicKey_def inr_simps key_of_header_def)
  next
    case (BindJwk v)
    with assms m hm id show ?thesis
      by (auto simp: resolveHeaderPublicKey_def run_simps key_of_header_def wrap_import_Inr
          split: jsval.splits if_splits)
  next
    case (BindX5c cs)
    obtain pems where p: "x5c_pems cs = Inr pems"
      using assms m BindX5c by (auto simp: resolveHeaderPublicKey_def inr_simps)
    obtain v w1 where v: "certificate_validate X pems w = (v, w1)" by fastforce
    obtain c where w1: "w1 = w\<lparr>w_clk := c\<rparr>"
      using certificate_validate_run [of X pems w] v by auto
    have "v = Inr True \<and> w' = w1 \<and> importSPKI X (certificate_getPublicKey X (hd pems)) alg = Inr key"
      using assms m BindX5c p v
      by (auto simp: resolveHeaderPublicKey_def run_simps Let_def wrap_import_Inr split: sum.splits if_splits)
    with hm BindX5c p v w1 show ?thesis
      unfolding key_of_header_def by (auto simp: fst_conv intro!: exI [of _ w])
  qed
qed

lemma preserves_json_case:
  "(\<And>ob. preserves p (f ob)) \<Longrightarrow> preserves p m \<Longrightarrow>
     preserves p (case v of JObj ob \<Rightarrow> f ob | JNull \<Rightarrow> m | JBool b \<Rightarrow> m | JNum n \<Rightarrow> m | JStr s \<Rightarrow> m | JArr a \<Rightarrow> m)"
  by (cases v) simp_all

lemma preserves_binding_case:
  "(\<And>k. preserves p (f k)) \<Longrightarrow> (\<And>v. preserves p (g v)) \<Longrightarrow> (\<And>c. preserves p (h c)) \<Longrightarrow>
     preserves p (case m of BindKid k \<Rightarrow> f k | BindJwk v \<Rightarrow> g v | BindX5c c \<Rightarrow> h c)"
  by (cases m) simp_all

lemma preserves_resolveHeaderPublicKey [preserves_intros]:
  "(\<And>w c. p (w\<lparr>w_clk := c\<rparr>) = p w) \<Longrightarrow> preserves p (resolveHeaderPublicKey X h alg)"
  unfolding resolveHeaderPublicKey_def
  by (intro preserves_intros preserves_binding_case preserves_json_case) simp_all

lemma preserves_verifyCredentialProof [preserves_intros]:
  "(\<And>w c. p (w\<lparr>w_clk := c\<rparr>) = p w) \<Longrightarrow> preserves p (verifyCredentialProof X F pv ctx)"
  unfolding verifyCredentialProof_def
  by (cases pv) (auto intro!: preserves_intros)

text \<open>The claims of an accepted proof, as the issuer reads them.\<close>

lemma proof_claims_check_Inr:
  assumes "proof_claims_check ctx claims = Inr body"
  obtains c aud iat where "ctx = Some c" "oget claims ''aud'' = Some (JStr (ctx_credentialIssuer c))"
    "oget claims ''iat'' = Some (JNum iat)" "iss_rule c (oget claims ''iss'') = Inr ()"
    "pb_nonce body = str_of (oget claims ''nonce'')" "pb_iss body = str_of (oget claims ''iss'')"
  using assms
  by (auto simp: proof_claims_check_def split: option.splits jsval.splits sum.splits if_splits)

lemma proof_header_check_Inr:
  "proof_header_check h = Inr alg \<Longrightarrow> oget h ''alg'' = Some (JStr alg) \<and> \<not> isProhibitedAlg alg \<and>
     oget h ''typ'' = Some (JStr OID4VCI_JWT_PROOF_TYP)"
  by (auto simp: proof_header_check_def split: option.splits jsval.splits if_splits)

lemma verifyCredentialProof_Inr:
  assumes "verifyCredentialProof X F pv ctx w = (Inr p, w')"
  obtains jwt h alg key now claims c where
    "pv = ProofString jwt" "decodeProtectedHeader X jwt = Inr h" "proof_header_check h = Inr alg"
    "key_of_header X h alg key" "jwtVerify X now jwt key (proof_verify_options F alg) = Inr claims"
    "proof_claims_check ctx claims = Inr (proof_payload p)" "proof_header p = oset h ''alg'' (JStr alg)"
    "w' = w\<lparr>w_clk := c\<rparr>"
proof -
  obtain jwt where j: "pv = ProofString jwt"
    using assms by (cases pv) (auto simp: verifyCredentialProof_def run_simps)
  obtain h alg key w1 where h: "decodeProtectedHeader X jwt = Inr h" "proof_header_check h = Inr alg"
      "resolveHeaderPublicKey X h alg w = (Inr key, w1)"
    using assms
    by (cases "decodeJwt X jwt") (auto simp: verifyCredentialProof_def j inr_simps split: if_splits)
  obtain c where k: "key_of_header X h alg key" "w1 = w\<lparr>w_clk := c\<rparr>"
    using resolveHeaderPublicKey_Inr [OF h(3)] by blast
  obtain claims where c: "jwtVerify X (w_clk w1 0) jwt key (proof_verify_options F alg) = Inr claims"
      "proof_claims_check ctx claims = Inr (proof_payload p)" "proof_header p = oset h ''alg'' (JStr alg)"
      "w' = w1\<lparr>w_clk := shift (w_clk w1)\<rparr>"
    using assms h by (auto simp: verifyCredentialProof_def j run_simps split: sum.splits if_splits)
  show ?thesis by (rule that [OF j h(1,2) k(1) c(1-3)]) (simp add: c(4) k(2))
qed

subsection \<open>Properties\<close>

text \<open>C28. An accepted credential proof is a JWT of the proof type with an asymmetric algorithm; its
  header names exactly one key, a resolvable DID key, an embedded public key or a valid
  certificate chain, and the signature verified under that key with the configured window
  for \<open>iat\<close>; it is addressed to this issuer, and it names an issuer only where the grant
  allows it: with a pre-authorized code either nobody or the client itself, and nobody
  for anonymous access.\<close>

theorem credential_proof_sound:
  assumes "verifyCredentialProof X F pv (Some ctx) w = (Inr p, w')"
  shows "\<exists>jwt h alg key now claims.
    pv = ProofString jwt \<and> decodeProtectedHeader X jwt = Inr h \<and>
    oget h ''alg'' = Some (JStr alg) \<and> \<not> isProhibitedAlg alg \<and>
    oget h ''typ'' = Some (JStr ''openid4vci-proof+jwt'') \<and>
    key_of_header X h alg key \<and>
    jwtVerify X now jwt key (proof_verify_options F alg) = Inr claims \<and>
    oget claims ''aud'' = Some (JStr (ctx_credentialIssuer ctx)) \<and>
    (usePreAuth ctx \<longrightarrow> oget claims ''iss'' = None \<or>
       (opt_str (ctx_clientId ctx) \<and> str_of (oget claims ''iss'') = ctx_clientId ctx)) \<and>
    proof_header p = oset h ''alg'' (JStr alg) \<and>
    pb_nonce (proof_payload p) = str_of (oget claims ''nonce'')"
  using assms
proof (rule verifyCredentialProof_Inr)
  fix jwt h alg key now claims c
  assume a: "pv = ProofString jwt" "decodeProtectedHeader X jwt = Inr h" "proof_header_check h = Inr alg"
    "key_of_header X h alg key" "jwtVerify X now jwt key (proof_verify_options F alg) = Inr claims"
    "proof_claims_check (Some ctx) claims = Inr (proof_payload p)" "proof_header p = oset h ''alg'' (JStr alg)"
  have hd: "oget h ''alg'' = Some (JStr alg)" "\<not> isProhibitedAlg alg"
      "oget h ''typ'' = Some (JStr ''openid4vci-proof+jwt'')"
    using proof_header_check_Inr [OF a(3)] by (auto simp: OID4VCI_JWT_PROOF_TYP_def)
  have cl: "oget claims ''aud'' = Some (JStr (ctx_credentialIssuer ctx))" "iss_rule ctx (oget claims ''iss'') = Inr ()"
      "pb_nonce (proof_payload p) = str_of (oget claims ''nonce'')"
    using a(6) by (auto elim: proof_claims_check_Inr)
  have "usePreAuth ctx \<longrightarrow> oget claims ''iss'' = None \<or>
       (opt_str (ctx_clientId ctx) \<and> str_of (oget claims ''iss'') = ctx_clientId ctx)"
    using cl(2) by (auto simp: iss_rule_def Let_def split: if_splits)
  with a hd cl show ?thesis by blast
qed

definition ext_proof :: ext where
  "ext_proof = ext0\<lparr>
     decodeProtectedHeader := (\<lambda>t. Inr [(''alg'', JStr ''ES256''), (''typ'', JStr ''openid4vci-proof+jwt''),
       (''jwk'', JObj [(''kty'', JStr ''EC'')])]),
     jwtVerify := (\<lambda>now t k vo. Inr [(''aud'', JStr ''iss''), (''iat'', JNum (Fin 0)), (''nonce'', JStr ''n1'')])\<rparr>"

definition no_proof_options :: CredentialProofJwtFactoryOptions where
  "no_proof_options = \<lparr>cp_maxTokenAgeSeconds = None, cp_clockToleranceSeconds = None\<rparr>"

definition demo_proof_ctx :: CredentialProofJwtVerifyContext where
  "demo_proof_ctx = \<lparr>usePreAuth = True, ctx_credentialIssuer = ''iss'', ctx_clientId = None\<rparr>"

lemma demo_proof_alg: "\<not> isProhibitedAlg ''ES256''"
  by code_simp

lemma demo_proof_run:
  "verifyCredentialProof ext_proof no_proof_options (ProofString ''h.p.s'') (Some demo_proof_ctx) w =
     (Inr \<lparr>proof_header = [(''alg'', JStr ''ES256''), (''typ'', JStr ''openid4vci-proof+jwt''),
            (''jwk'', JObj [(''kty'', JStr ''EC'')])],
          proof_payload = \<lparr>pb_iss = None, pb_aud = Some (AudStr ''iss''), pb_iat = Some (Fin 0), pb_nonce = Some ''n1''\<rparr>\<rparr>,
      w\<lparr>w_clk := shift (w_clk w)\<rparr>)"
  by (simp add: verifyCredentialProof_def ext_proof_def ext0_def run_simps proof_header_check_def demo_proof_alg
      OID4VCI_JWT_PROOF_TYP_def resolveHeaderPublicKey_def resolveProofBindingMethod_def header_kid_def header_x5c_def
      ohas_def wrap_import_def proof_claims_check_def demo_proof_ctx_def iss_rule_def oset_def Let_def)

theorem credential_proof_sound_witness:
  "\<exists>h alg key. oget h ''typ'' = Some (JStr ''openid4vci-proof+jwt'') \<and> key_of_header ext_proof h alg key"
  using credential_proof_sound [OF demo_proof_run [of world0]] by blast

subsection \<open>Certificates as PEM\<close>

lemma chunks64_concat: "concat (chunks64 s) = s"
proof (induction s rule: chunks64.induct)
  case (1 s)
  then show ?case by (subst chunks64.simps) auto
qed

lemma chunks64_set: "x \<in> set (chunks64 s) \<Longrightarrow> set x \<subseteq> set s"
  using chunks64_concat [of s] by (metis UN_upper set_concat)

lemma filter_join: "filter P (js_join sep xs) = (if filter P sep = [] then concat (map (filter P) xs) else filter P (js_join sep xs))"
proof (cases "filter P sep = []")
  case True
  then have "filter P (js_join sep xs) = concat (map (filter P) xs)"
    by (induction sep xs rule: js_join.induct) auto
  with True show ?thesis by simp
qed simp

lemma js_join_set: "set (js_join sep xs) \<subseteq> set sep \<union> (\<Union>x \<in> set xs. set x)"
  by (induction sep xs rule: js_join.induct) auto

lemma remove_all_skip: "remove_all (length p) n (p @ s) = remove_all 0 n s"
  by (induction p) auto

lemma remove_all_here: "remove_all 0 (a # n) ((a # n) @ s) = remove_all 0 (a # n) s"
  using remove_all_skip [of n "a # n" s] by simp

lemma remove_all_free: "a \<notin> set t \<Longrightarrow> remove_all 0 (a # n) (t @ s) = t @ remove_all 0 (a # n) s"
  by (induction t) auto

lemma remove_begin_end:
  "remove_all 0 ''-----BEGIN CERTIFICATE-----'' (''-----END CERTIFICATE-----'' @ newline) =
     ''-----END CERTIFICATE-----'' @ newline"
  by code_simp

lemma remove_end_newline: "remove_all 0 ''-----END CERTIFICATE-----'' newline = newline"
  by code_simp

text \<open>The PEM text built from a base64 certificate of a proof header is read back by the
  certificate store: stripping it gives the base64 text without white space.\<close>

theorem pem_roundtrip:
  assumes "CHR ''-'' \<notin> set b" and "\<exists>c \<in> set b. \<not> is_ws c"
  shows "strip_pem (derBase64ToPem b) = filter (\<lambda>c. \<not> is_ws c) b"
proof -
  define s where "s = filter (\<lambda>c. \<not> is_ws c) b"
  define body where "body = newline @ js_join newline (chunks64 s) @ newline"
  have ne: "s \<noteq> []" using assms(2) by (auto simp: s_def filter_empty_conv)
  have nl: "filter (\<lambda>c. \<not> is_ws c) newline = []" "CHR ''-'' \<notin> set newline"
    by code_simp+
  have "set body \<subseteq> set newline \<union> set s"
    using js_join_set [of newline "chunks64 s"] chunks64_set [of _ s] by (auto simp: body_def)
  then have free: "CHR ''-'' \<notin> set body" using nl(2) assms(1) by (auto simp: s_def)
  have pem: "derBase64ToPem b = ''-----BEGIN CERTIFICATE-----'' @ body @ ''-----END CERTIFICATE-----'' @ newline"
    using ne by (simp add: derBase64ToPem_def s_def body_def Let_def)
  have 1: "remove_all 0 ''-----BEGIN CERTIFICATE-----'' (derBase64ToPem b) = body @ ''-----END CERTIFICATE-----'' @ newline"
    unfolding pem by (subst remove_all_here, subst remove_all_free [OF free], subst remove_begin_end, rule refl)
  have 2: "remove_all 0 ''-----END CERTIFICATE-----'' (body @ ''-----END CERTIFICATE-----'' @ newline) = body @ newline"
    by (subst remove_all_free [OF free], subst remove_all_here, subst remove_end_newline, rule refl)
  have "filter (\<lambda>c. \<not> is_ws c) (body @ newline) = concat (map (filter (\<lambda>c. \<not> is_ws c)) (chunks64 s))"
    using nl(1) by (simp add: body_def filter_join)
  also have "\<dots> = filter (\<lambda>c. \<not> is_ws c) s" by (simp only: filter_concat [symmetric] chunks64_concat)
  also have "\<dots> = s" by (simp add: s_def)
  finally have "filter (\<lambda>c. \<not> is_ws c) (body @ newline) = s" .
  then have "strip_pem (derBase64ToPem b) = js_trim s" by (simp only: strip_pem_def 1 2)
  also have "\<dots> = s" by (rule js_trim_no_ws) (simp add: s_def)
  finally show ?thesis by (simp add: s_def)
qed

theorem pem_roundtrip_witness: "strip_pem (derBase64ToPem ''MI IB'') = ''MIIB''"
  by (subst pem_roundtrip) (auto simp: is_ws_def code_def)

end
