(* ===== verification/Issue_Credential.thy ===== *)
theory Issue_Credential
  imports Claim_Paths Credential_Proof "HOL-Library.List_Lexorder" "HOL-Library.Char_ord"
begin

text \<open>
  The two issuance providers: W3C credentials as JWT
  (\<open>providers/issue-credential-jwt-vc-json.provider.ts\<close>) and SD-JWT credentials
  (\<open>providers/issue-credential-dc-sd-jwt.provider.ts\<close>). Salts and identifiers are values of
  the randomness stream. Objects list their members in insertion order.
\<close>

record IssueCredentialProviderOptions =
  ip_identifier :: "string option"

text \<open>The subject comes from the options or from \<open>kid\<close> of a proof header, which may be any JSON.\<close>

record IssueCredentialCreateCredentialOptions =
  ic_claims :: "obj option"
  ic_subject :: "jsval option"
  ic_keyAlg :: "string option"
  ic_proofHeader :: "obj option"
  ic_nonDisclosableClaims :: "string list option"

text \<open>Checked once, when the provider is created.\<close>

definition check_identifier :: "ext \<Rightarrow> IssueCredentialProviderOptions \<Rightarrow> exn + unit" where
  "check_identifier X P =
     (case ip_identifier P of
        None \<Rightarrow> Inr ()
      | Some i \<Rightarrow>
          if zod_url X i = None then Inl (err ''invalid_options'' ''Identifier must be a valid URL.'') else Inr ())"

subsection \<open>Shared steps\<close>

text \<open>The schema of a JWK: the named members are strings when they are present.\<close>

definition parse_jwk :: "obj \<Rightarrow> exn + obj" where
  "parse_jwk jwk =
     (if list_all (\<lambda>k. oget jwk k = None \<or> str_of (oget jwk k) \<noteq> None)
           [''e'', ''n'', ''kty'', ''x'', ''y'', ''crv'', ''kid'', ''use'', ''alg'']
      then Inr jwk else Inl (JsError ''ZodError''))"

definition metadata_claims :: "CredentialConfigurationSupported \<Rightarrow> CredentialMetadataClaim list" where
  "metadata_claims configuration =
     (case credential_metadata configuration of None \<Rightarrow> [] | Some m \<Rightarrow> getOr [] (cm_claims m))"

text \<open>The key of the issuer for the algorithm, and its thumbprint as \<open>kid\<close>.\<close>

definition issuer_kid ::
  "ext \<Rightarrow> string \<Rightarrow> CredentialConfigurationSupported \<Rightarrow> string \<Rightarrow> (world, string) M" where
  "issuer_kid X credentialIssuer configuration keyAlg =
     (if (case credential_signing_alg_values_supported configuration of
            None \<Rightarrow> False | Some algs \<Rightarrow> keyAlg \<notin> set algs) then
        raise ''unsupported_issuer_key_alg'' ''Unsupported key algorithm.''
      else bindM (on_issuer_keys (key_fetch X credentialIssuer (JStr keyAlg))) (\<lambda>issuerKey.
        case issuerKey of
          None \<Rightarrow> raise ''authz_issuer_key_not_found'' ''Issuer key not found.''
        | Some key \<Rightarrow>
            bindM (liftE (parse_jwk (exportJWK X key))) (\<lambda>jwk. liftE (calculateJwkThumbprint X jwk))))"

definition sign_credential ::
  "ext \<Rightarrow> string \<Rightarrow> string \<Rightarrow> jsval \<Rightarrow> jsval \<Rightarrow> (world, string) M" where
  "sign_credential X credentialIssuer keyAlg jwtPayload jwtHeader =
     bindM fresh (\<lambda>entropy.
     bindM (on_issuer_keys (issuer_key_sign X entropy credentialIssuer keyAlg jwtPayload jwtHeader)) (\<lambda>signature.
     if \<not> opt_str signature then raise ''internal_server_error'' ''Cannot sign credentials.''
     else ret (encode_json X jwtHeader @ ''.'' @ encode_json X jwtPayload @ ''.'' @ getOr [] signature)))"

subsection \<open>W3C credentials as JWT\<close>

definition credentialSubjectPath :: "string list \<Rightarrow> exn + string list" where
  "credentialSubjectPath path =
     (case path of
        [] \<Rightarrow> Inr path
      | p # subjectPath \<Rightarrow>
          if p \<noteq> ''credentialSubject'' then Inr path
          else if subjectPath = [] then
            Inl (err ''invalid_configuration'' ''credential_metadata.claims[].path must point to a claim'')
          else Inr subjectPath)"

text \<open>One claim description: the value to put in the subject, if any.\<close>

definition subject_claim :: "obj \<Rightarrow> CredentialMetadataClaim \<Rightarrow> obj \<Rightarrow> exn + obj" where
  "subject_claim claimsSource claim credentialSubject =
     (case credentialSubjectPath (claim_path claim) of
        Inl e \<Rightarrow> Inl e
      | Inr subjectPath \<Rightarrow>
          (case getClaimValue claimsSource (claim_path claim) of
             Inl e \<Rightarrow> Inl e
           | Inr value0 \<Rightarrow>
               (case (if value0 = None \<and> length subjectPath \<noteq> length (claim_path claim)
                      then getClaimValue claimsSource subjectPath else Inr value0) of
                  Inl e \<Rightarrow> Inl e
                | Inr None \<Rightarrow>
                    if claim_mandatory claim = Some True
                    then Inl (err ''invalid_claims'' ''Claim is mandatory in the credential definition.'')
                    else Inr credentialSubject
                | Inr (Some v) \<Rightarrow> setClaimValue credentialSubject subjectPath v)))"

fun build_subject :: "obj \<Rightarrow> CredentialMetadataClaim list \<Rightarrow> obj \<Rightarrow> exn + obj" where
  "build_subject claimsSource [] credentialSubject = Inr credentialSubject"
| "build_subject claimsSource (claim # claims) credentialSubject =
     (case subject_claim claimsSource claim credentialSubject of
        Inl e \<Rightarrow> Inl e
      | Inr s \<Rightarrow> build_subject claimsSource claims s)"

definition credential_id :: "IssueCredentialProviderOptions \<Rightarrow> string \<Rightarrow> (world, string) M" where
  "credential_id P credentialIssuer =
     (case ip_identifier P of
        Some i \<Rightarrow> ret i
      | None \<Rightarrow> bindM fresh (\<lambda>uuid. ret (credentialIssuer @ ''/vc/'' @ strip_dashes uuid)))"

definition verifiable_credential ::
  "string \<Rightarrow> string list \<Rightarrow> string \<Rightarrow> int \<Rightarrow> jsval option \<Rightarrow> obj \<Rightarrow> jsval" where
  "verifiable_credential i types credentialIssuer today subject credentialSubject =
     JObj [(''@context'', JArr [JStr ''https://www.w3.org/2018/credentials/v1'']),
           (''id'', JStr i), (''type'', JArr (map JStr types)), (''issuer'', JStr credentialIssuer),
           (''issuanceDate'', JStr (iso_string today)),
           (''credentialSubject'', JObj (omerge (case subject of None \<Rightarrow> [] | Some s \<Rightarrow> [(''id'', s)]) credentialSubject))]"

definition kid_header :: "string \<Rightarrow> string \<Rightarrow> string \<Rightarrow> jsval" where
  "kid_header keyAlg kid typ = JObj [(''alg'', JStr keyAlg), (''kid'', JStr kid), (''typ'', JStr typ)]"

definition createCredential_jwt ::
  "ext \<Rightarrow> IssueCredentialProviderOptions \<Rightarrow> string \<Rightarrow> CredentialConfigurationSupported \<Rightarrow>
   IssueCredentialCreateCredentialOptions \<Rightarrow> (world, string) M" where
  "createCredential_jwt X P credentialIssuer configuration options =
     (case credential_definition configuration of
        None \<Rightarrow> raise ''invalid_configuration'' ''Invalid credential configuration.''
      | Some cdef \<Rightarrow>
          if cc_format configuration \<noteq> Format ''jwt_vc_json'' then
            raise ''invalid_configuration'' ''Invalid credential configuration.''
          else
            bindM now_ms (\<lambda>today.
            bindM (liftE (build_subject (getOr [] (ic_claims options)) (metadata_claims configuration) []))
              (\<lambda>credentialSubject.
            bindM (credential_id P credentialIssuer) (\<lambda>i.
            let vc = verifiable_credential i (cdef_type cdef) credentialIssuer today (ic_subject options) credentialSubject;
                keyAlg = getOr ''ES256'' (ic_keyAlg options)
            in bindM (issuer_kid X credentialIssuer configuration keyAlg) (\<lambda>kid.
               sign_credential X credentialIssuer keyAlg
                 (JObj ([(''vc'', vc), (''iss'', JStr credentialIssuer)] @
                    (case ic_subject options of None \<Rightarrow> [] | Some s \<Rightarrow> [(''sub'', s)])))
                 (kid_header keyAlg kid ''JWT''))))))"

subsection \<open>SD-JWT credentials\<close>

definition encodeDisclosure :: "ext \<Rightarrow> string \<Rightarrow> string \<Rightarrow> jsval \<Rightarrow> string" where
  "encodeDisclosure X salt claimName claimValue = encode_json X (JArr [JStr salt, JStr claimName, claimValue])"

definition hashDisclosure :: "ext \<Rightarrow> string \<Rightarrow> string" where
  "hashDisclosure X disclosure = sha256_b64url X disclosure"

text \<open>One disclosure for each member, with a new salt; the digests are sorted by code units.\<close>

definition createDisclosures :: "ext \<Rightarrow> obj \<Rightarrow> obj \<Rightarrow> (world, string list \<times> obj) M" where
  "createDisclosures X claimValues target =
     bindM (mapM (\<lambda>(claimName, claimValue).
              bindM fresh (\<lambda>salt. ret (encodeDisclosure X salt claimName claimValue))) claimValues)
       (\<lambda>disclosures. ret (disclosures,
          oset target ''_sd'' (JArr (map JStr (sort (map (hashDisclosure X) disclosures))))))"

text \<open>
  The key the credential is bound to, when the configuration asks for a binding: the
  embedded key of the proof, or the first key of the document of its DID.
\<close>

definition holder_jwk ::
  "ext \<Rightarrow> CredentialConfigurationSupported \<Rightarrow> obj option \<Rightarrow> exn + jsval" where
  "holder_jwk X configuration proofHeader =
     (case cryptographic_binding_methods_supported configuration of
        None \<Rightarrow> Inr (JObj [])
      | Some methods \<Rightarrow>
          (case proofHeader of
             None \<Rightarrow> Inl (err ''invalid_options'' ''holderJwk must be provided in options'')
           | Some h \<Rightarrow>
               if truthy (oget h ''jwk'') then
                 (if ''jwk'' \<notin> set methods then
                    Inl (err ''unsupported_cryptographic_binding_method'' ''Unsupported binding method'')
                  else Inr (the (oget h ''jwk'')))
               else if truthy (oget h ''kid'') then
                 (case str_of (oget h ''kid'') of
                    None \<Rightarrow> Inl (JsError ''TypeError'')
                  | Some kid \<Rightarrow>
                      let didSplit = js_split (CHR '':'') kid in
                      if length didSplit < 3 \<or> didSplit ! 0 \<noteq> ''did'' then Inl (no_proof ''Invalid DID format'')
                      else if ''did:'' @ didSplit ! 1 \<notin> set methods then
                        Inl (err ''unsupported_cryptographic_binding_method'' ''Unsupported binding method'')
                      else (case selectProvider did_canHandle [''key''] (didSplit ! 1) of
                              Inl e \<Rightarrow> Inl e
                            | Inr p \<Rightarrow>
                                (case resolveDid X kid of
                                   Inl e \<Rightarrow> Inl e
                                 | Inr didDoc \<Rightarrow>
                                     (case (case didDoc of None \<Rightarrow> [] | Some d \<Rightarrow> getOr [] (verificationMethod d)) of
                                        m # ms \<Rightarrow>
                                          (case publicKeyJwk m of
                                             Some jwk \<Rightarrow> Inr (JObj jwk)
                                           | None \<Rightarrow> Inl (no_proof ''Unsupported did type detected.''))
                                      | [] \<Rightarrow> Inl (no_proof ''Unsupported did type detected.'')))))
               else Inl (no_proof ''Invalid proof header: either jwk or kid must be provided.'')))"

text \<open>The claims to put in the JWT and the claims to disclose selectively, by their root names.\<close>

definition sd_claim ::
  "string list \<Rightarrow> obj \<Rightarrow> CredentialMetadataClaim \<Rightarrow> obj \<times> obj \<Rightarrow> exn + obj \<times> obj" where
  "sd_claim nonDisclosableClaims claimsSource claim acc =
     (case acc of (sdJwtClaims, disclosableClaims) \<Rightarrow>
     (case getClaimValue claimsSource (claim_path claim) of
        Inl e \<Rightarrow> Inl e
      | Inr None \<Rightarrow>
          if claim_mandatory claim = Some True
          then Inl (err ''invalid_claims'' ''Mandatory claim is missing.'') else Inr acc
      | Inr (Some v) \<Rightarrow>
          let root = hd (claim_path claim) in
          (case getClaimValue claimsSource [root] of
             Inl e \<Rightarrow> Inl e
           | Inr None \<Rightarrow> Inr acc
           | Inr (Some rootValue) \<Rightarrow>
               if root \<in> set nonDisclosableClaims then
                 (case setClaimValue sdJwtClaims [root] rootValue of Inl e \<Rightarrow> Inl e | Inr s \<Rightarrow> Inr (s, disclosableClaims))
               else
                 (case setClaimValue disclosableClaims [root] rootValue of Inl e \<Rightarrow> Inl e | Inr d \<Rightarrow> Inr (sdJwtClaims, d)))))"

fun sd_claims ::
  "string list \<Rightarrow> obj \<Rightarrow> CredentialMetadataClaim list \<Rightarrow> obj \<times> obj \<Rightarrow> exn + obj \<times> obj" where
  "sd_claims nds claimsSource [] acc = Inr acc"
| "sd_claims nds claimsSource (claim # claims) acc =
     (case sd_claim nds claimsSource claim acc of Inl e \<Rightarrow> Inl e | Inr a \<Rightarrow> sd_claims nds claimsSource claims a)"

definition non_empty_object :: "jsval \<Rightarrow> bool" where
  "non_empty_object v = (case v of JObj ob \<Rightarrow> ob \<noteq> [] | JArr xs \<Rightarrow> xs \<noteq> [] | JStr s \<Rightarrow> s \<noteq> [] | _ \<Rightarrow> False)"

definition sd_jwt_payload ::
  "string \<Rightarrow> string \<Rightarrow> int \<Rightarrow> jsval option \<Rightarrow> jsval \<Rightarrow> obj \<Rightarrow> obj" where
  "sd_jwt_payload credentialIssuer vct now subject holderJwk sdJwtClaims =
     omerge ([(''iss'', JStr credentialIssuer), (''vct'', JStr vct), (''iat'', JNum (num_int (now div 1000)))] @
       (case subject of None \<Rightarrow> [] | Some s \<Rightarrow> [(''sub'', s)]) @
       (if non_empty_object holderJwk then [(''cnf'', JObj [(''jwk'', holderJwk)])] else [])) sdJwtClaims"

definition createCredential_sd_jwt ::
  "ext \<Rightarrow> string \<Rightarrow> CredentialConfigurationSupported \<Rightarrow> IssueCredentialCreateCredentialOptions \<Rightarrow>
   (world, string) M" where
  "createCredential_sd_jwt X credentialIssuer configuration options =
     (if \<not> opt_str (cc_vct configuration) \<or> cc_format configuration \<noteq> Format ''dc+sd-jwt'' then
        raise ''invalid_configuration'' ''Invalid credential configuration.''
      else
        bindM (liftE (holder_jwk X configuration (ic_proofHeader options))) (\<lambda>holderJwk.
        bindM (liftE (sd_claims (getOr [] (ic_nonDisclosableClaims options)) (getOr [] (ic_claims options))
            (metadata_claims configuration) ([], []))) (\<lambda>(sdJwtClaims, disclosableClaims).
        let keyAlg = getOr ''ES256'' (ic_keyAlg options) in
        bindM (issuer_kid X credentialIssuer configuration keyAlg) (\<lambda>kid.
        bindM now_ms (\<lambda>now.
        let jwtPayload = sd_jwt_payload credentialIssuer (getOr [] (cc_vct configuration)) now (ic_subject options)
              holderJwk sdJwtClaims in
        bindM (if disclosableClaims \<noteq> [] then
                 bindM (createDisclosures X disclosableClaims jwtPayload) (\<lambda>(disclosures, payload).
                 ret (disclosures, oset payload ''_sd_alg'' (JStr ''sha-256'')))
               else ret ([], jwtPayload)) (\<lambda>(disclosures, payload).
        bindM (sign_credential X credentialIssuer keyAlg (JObj payload) (kid_header keyAlg kid ''dc+sd-jwt'')) (\<lambda>jwt.
        ret (if disclosures \<noteq> [] then jwt @ ''~'' @ js_join ''~'' disclosures @ ''~'' else jwt))))))))"

subsection \<open>The claims of an SD-JWT\<close>

lemma getClaimValue_Inr: "getClaimValue src path = Inr v \<longleftrightarrow> safe_path path \<and> v = claim_at (JObj src) path"
  by (auto simp: getClaimValue_def assertSafePath_Inr split: sum.splits)

lemma setClaimValue_Inr: "setClaimValue t path v = Inr t' \<longleftrightarrow> safe_path path \<and> t' = put_claim t path v"
  by (auto simp: setClaimValue_def assertSafePath_Inr split: sum.splits)

text \<open>What one step and the loop over the claim descriptions put among the disclosable claims.\<close>

definition sd_step_ok :: "obj \<Rightarrow> CredentialMetadataClaim \<Rightarrow> obj \<Rightarrow> obj \<Rightarrow> bool" where
  "sd_step_ok src c d d' \<longleftrightarrow>
     (if claim_at (JObj src) (claim_path c) = None then claim_mandatory c \<noteq> Some True \<and> d' = d
      else \<exists>v. claim_at (JObj src) [hd (claim_path c)] = Some v \<and> d' = oset d (hd (claim_path c)) v)"

lemma claim_at_root: "claim_at (JObj src) p = Some v \<Longrightarrow> p \<noteq> [] \<Longrightarrow> claim_at (JObj src) [hd p] \<noteq> None"
  by (cases p) (auto split: option.splits)

lemma sd_claim_Inr:
  assumes "sd_claim [] src c (s, d) = Inr (s', d')"
  shows "s' = s \<and> sd_step_ok src c d d'"
  using assms claim_at_root [of src "claim_path c"]
  by (auto simp: sd_claim_def sd_step_ok_def getClaimValue_Inr setClaimValue_Inr safe_path_def Let_def
      split: sum.splits option.splits if_splits)

lemma sd_claims_Inr:
  assumes "sd_claims [] src cs (s, d) = Inr (s', d')"
  shows "s' = s \<and>
    (distinct (map fst d) \<longrightarrow> distinct (map fst d')) \<and>
    (\<forall>k v. oget d' k = Some v \<longrightarrow> oget d k = Some v \<or>
       (\<exists>c \<in> set cs. hd (claim_path c) = k \<and> claim_at (JObj src) [k] = Some v)) \<and>
    (\<forall>k. oget d k \<noteq> None \<longrightarrow> oget d' k \<noteq> None) \<and>
    (\<forall>c \<in> set cs. (claim_mandatory c = Some True \<longrightarrow> claim_at (JObj src) (claim_path c) \<noteq> None) \<and>
       (claim_at (JObj src) (claim_path c) \<noteq> None \<longrightarrow> oget d' (hd (claim_path c)) \<noteq> None))"
  using assms
proof (induction cs arbitrary: s d)
  case (Cons c cs)
  obtain s1 d1 where 1: "sd_claim [] src c (s, d) = Inr (s1, d1)" "sd_claims [] src cs (s1, d1) = Inr (s', d')"
    using Cons.prems by (auto split: sum.splits)
  note st = sd_claim_Inr [OF 1(1)] and ih = Cons.IH [OF 1(2)]
  show ?case
  proof (cases "claim_at (JObj src) (claim_path c) = None")
    case True
    then show ?thesis using st ih by (auto simp: sd_step_ok_def)
  next
    case False
    then obtain v where v: "claim_at (JObj src) [hd (claim_path c)] = Some v" "d1 = oset d (hd (claim_path c)) v"
      using st by (auto simp: sd_step_ok_def)
    have dist: "distinct (map fst d) \<Longrightarrow> distinct (map fst d1)" by (simp add: v(2) distinct_oset)
    have ih3: "oget d1 k \<noteq> None \<Longrightarrow> oget d' k \<noteq> None" for k using ih by blast
    have "oget d' (hd (claim_path c)) \<noteq> None" by (rule ih3) (simp add: v(2))
    moreover have "oget d k \<noteq> None \<Longrightarrow> oget d' k \<noteq> None" for k by (rule ih3) (simp add: v(2))
    moreover have "oget d' k = Some u \<Longrightarrow> oget d k = Some u \<or>
       (\<exists>c \<in> set (c # cs). hd (claim_path c) = k \<and> claim_at (JObj src) [k] = Some u)" for k u
    proof -
      assume "oget d' k = Some u"
      then have "oget d1 k = Some u \<or> (\<exists>c \<in> set cs. hd (claim_path c) = k \<and> claim_at (JObj src) [k] = Some u)"
        using ih by blast
      then show ?thesis using v by (auto split: if_splits)
    qed
    ultimately show ?thesis using st ih dist False by (auto simp del: claim_at.simps)
  qed
qed simp

lemma mapM_disclosures:
  assumes "mapM (\<lambda>(n, v). bindM fresh (\<lambda>salt. ret (encodeDisclosure X salt n v))) cs w = (Inr ds, w')"
  shows "list_all2 (\<lambda>(n, v) d. \<exists>salt. d = encodeDisclosure X salt n v) cs ds"
  using assms
proof (induction cs arbitrary: w ds)
  case (Cons c cs)
  obtain n v where c: "c = (n, v)" by fastforce
  from Cons.prems obtain d ds' w1 where "d = encodeDisclosure X (w_rnd w 0) n v" "ds = d # ds'"
      "mapM (\<lambda>(n, v). bindM fresh (\<lambda>salt. ret (encodeDisclosure X salt n v))) cs w1 = (Inr ds', w')"
    by (auto simp: c inr_simps)
  with Cons.IH show ?case by (auto simp: c)
qed (simp add: ret_def)

lemma createDisclosures_Inr:
  assumes "createDisclosures X cs target w = (Inr (ds, payload), w')"
  shows "list_all2 (\<lambda>(n, v) d. \<exists>salt. d = encodeDisclosure X salt n v) cs ds \<and>
    payload = oset target ''_sd'' (JArr (map JStr (sort (map (hashDisclosure X) ds))))"
  using assms by (auto simp: createDisclosures_def inr_simps mapM_disclosures)

lemma sign_credential_Inr:
  assumes "sign_credential X iss alg payload hdr w = (Inr c, w')"
  obtains sig where "sig \<noteq> []" "c = encode_json X hdr @ ''.'' @ encode_json X payload @ ''.'' @ sig"
proof -
  obtain y where "opt_str y" "c = encode_json X hdr @ ''.'' @ encode_json X payload @ ''.'' @ getOr [] y"
    using assms unfolding sign_credential_def bindM_Inr if_Inr raise_Inr ret_Inr by (auto split: if_splits)
  with that show ?thesis by (cases y) auto
qed

text \<open>The parts of an SD-JWT credential that was created without claims kept in the clear.\<close>

lemma createCredential_sd_jwt_Inr:
  assumes "createCredential_sd_jwt X iss conf opts w = (Inr c, w')"
    and "ic_nonDisclosableClaims opts = None"
  obtains holder claims kid now payload ds jwt where
    "holder_jwk X conf (ic_proofHeader opts) = Inr holder"
    "sd_claims [] (getOr [] (ic_claims opts)) (metadata_claims conf) ([], []) = Inr ([], claims)"
    "list_all2 (\<lambda>(n, v) d. \<exists>salt. d = encodeDisclosure X salt n v) claims ds"
    "payload = (let p = sd_jwt_payload iss (getOr [] (cc_vct conf)) now (ic_subject opts) holder [] in
       if claims = [] then p
       else oset (oset p ''_sd'' (JArr (map JStr (sort (map (hashDisclosure X) ds))))) ''_sd_alg'' (JStr ''sha-256''))"
    "\<exists>sig. jwt = encode_json X (kid_header (getOr ''ES256'' (ic_keyAlg opts)) kid ''dc+sd-jwt'') @ ''.'' @
       encode_json X (JObj payload) @ ''.'' @ sig"
    "c = (if ds \<noteq> [] then jwt @ ''~'' @ js_join ''~'' ds @ ''~'' else jwt)"
proof -
  obtain holder s claims kid w1 where 1: "holder_jwk X conf (ic_proofHeader opts) = Inr holder"
      "sd_claims [] (getOr [] (ic_claims opts)) (metadata_claims conf) ([], []) = Inr (s, claims)"
      "issuer_kid X iss conf (getOr ''ES256'' (ic_keyAlg opts)) w = (Inr kid, w1)"
    using assms by (auto simp: createCredential_sd_jwt_def inr_simps Let_def split: if_splits)
  have s: "s = []" using sd_claims_Inr [OF 1(2)] by simp
  define p where "p = sd_jwt_payload iss (getOr [] (cc_vct conf)) (w_clk w1 0) (ic_subject opts) holder []"
  define w2 where "w2 = w1\<lparr>w_clk := shift (w_clk w1)\<rparr>"
  obtain ds payload w3 where 2: "(if claims \<noteq> [] then
                 bindM (createDisclosures X claims p) (\<lambda>(disclosures, payload).
                 ret (disclosures, oset payload ''_sd_alg'' (JStr ''sha-256'')))
               else ret ([], p)) w2 = (Inr (ds, payload), w3)"
     "bindM (sign_credential X iss (getOr ''ES256'' (ic_keyAlg opts)) (JObj payload)
         (kid_header (getOr ''ES256'' (ic_keyAlg opts)) kid ''dc+sd-jwt'')) (\<lambda>jwt.
        ret (if ds \<noteq> [] then jwt @ ''~'' @ js_join ''~'' ds @ ''~'' else jwt)) w3 = (Inr c, w')"
    using assms 1 s
    by (auto simp: createCredential_sd_jwt_def bindM_Inr raise_Inr liftE_Inr now_ms_Inr Let_def p_def w2_def split: if_splits)
  obtain jwt w4 where j: "sign_credential X iss (getOr ''ES256'' (ic_keyAlg opts)) (JObj payload)
         (kid_header (getOr ''ES256'' (ic_keyAlg opts)) kid ''dc+sd-jwt'') w3 = (Inr jwt, w4)"
      "c = (if ds \<noteq> [] then jwt @ ''~'' @ js_join ''~'' ds @ ''~'' else jwt)"
    using 2(2) by (auto simp: bindM_Inr ret_Inr)
  obtain sig where sig: "jwt = encode_json X (kid_header (getOr ''ES256'' (ic_keyAlg opts)) kid ''dc+sd-jwt'') @ ''.'' @
       encode_json X (JObj payload) @ ''.'' @ sig"
    using j(1) by (rule sign_credential_Inr) blast
  have d: "list_all2 (\<lambda>(n, v) d. \<exists>salt. d = encodeDisclosure X salt n v) claims ds \<and>
      payload = (if claims = [] then p
       else oset (oset p ''_sd'' (JArr (map JStr (sort (map (hashDisclosure X) ds))))) ''_sd_alg'' (JStr ''sha-256''))"
    using 2(1) by (auto simp: bindM_Inr ret_Inr dest!: createDisclosures_Inr split: if_splits)
  show ?thesis
    using that [OF 1(1) 1(2) [unfolded s], of ds payload "w_clk w1 0" jwt kid] d sig j(2) by (auto simp: p_def Let_def)
qed

lemma oget_in_set: "distinct (map fst ob) \<Longrightarrow> (k, v) \<in> set ob \<longleftrightarrow> oget ob k = Some v"
  by (simp add: oget_def)

lemma oget_not_None: "oget ob k \<noteq> None \<Longrightarrow> \<exists>v. (k, v) \<in> set ob"
  by (auto simp: oget_def dest: map_of_SomeD)

lemma set_fst_oset: "set (map fst (oset ob k v)) = insert k (set (map fst ob))"
  by (simp add: oset_def dom_map_of_conv_image_fst [symmetric] update_conv')

text \<open>C30. An SD-JWT credential issued without claims kept in the clear shows only its own members:
  the claim values are in the disclosures alone, one for each described claim of the
  source under its root name and none for anything else, their digests are the sorted
  list \<open>_sd\<close>, the mandatory claims were present, and \<open>cnf\<close> holds the key the binding rules
  select from the proof.\<close>

theorem sd_jwt_selective_disclosure:
  assumes "createCredential_sd_jwt X iss conf opts w = (Inr c, w')"
    and "ic_nonDisclosableClaims opts = None"
  shows "\<exists>holder payload ds hdr sig.
    c = (let jwt = encode_json X hdr @ ''.'' @ encode_json X (JObj payload) @ ''.'' @ sig
         in if ds \<noteq> [] then jwt @ ''~'' @ js_join ''~'' ds @ ''~'' else jwt) \<and>
    holder_jwk X conf (ic_proofHeader opts) = Inr holder \<and>
    set (map fst payload) \<subseteq> {''iss'', ''vct'', ''iat'', ''sub'', ''cnf'', ''_sd'', ''_sd_alg''} \<and>
    oget payload ''iss'' = Some (JStr iss) \<and>
    (non_empty_object holder \<longrightarrow> oget payload ''cnf'' = Some (JObj [(''jwk'', holder)])) \<and>
    (ds \<noteq> [] \<longrightarrow> oget payload ''_sd'' = Some (JArr (map JStr (sort (map (hashDisclosure X) ds))))) \<and>
    (\<forall>d \<in> set ds. \<exists>salt n v. d = encodeDisclosure X salt n v \<and>
       claim_at (JObj (getOr [] (ic_claims opts))) [n] = Some v \<and>
       (\<exists>cl \<in> set (metadata_claims conf). hd (claim_path cl) = n)) \<and>
    (\<forall>cl \<in> set (metadata_claims conf).
       (claim_mandatory cl = Some True \<longrightarrow> claim_at (JObj (getOr [] (ic_claims opts))) (claim_path cl) \<noteq> None) \<and>
       (claim_at (JObj (getOr [] (ic_claims opts))) (claim_path cl) \<noteq> None \<longrightarrow>
          (\<exists>d \<in> set ds. \<exists>salt v. d = encodeDisclosure X salt (hd (claim_path cl)) v)))"
  using assms
proof (rule createCredential_sd_jwt_Inr)
  let ?src = "getOr [] (ic_claims opts)"
  fix holder claims kid now payload ds jwt
  assume h: "holder_jwk X conf (ic_proofHeader opts) = Inr holder"
    and cl: "sd_claims [] ?src (metadata_claims conf) ([], []) = Inr ([], claims)"
    and ds: "list_all2 (\<lambda>(n, v) d. \<exists>salt. d = encodeDisclosure X salt n v) claims ds"
    and p: "payload = (let p = sd_jwt_payload iss (getOr [] (cc_vct conf)) now (ic_subject opts) holder [] in
       if claims = [] then p
       else oset (oset p ''_sd'' (JArr (map JStr (sort (map (hashDisclosure X) ds))))) ''_sd_alg'' (JStr ''sha-256''))"
    and j: "\<exists>sig. jwt = encode_json X (kid_header (getOr ''ES256'' (ic_keyAlg opts)) kid ''dc+sd-jwt'') @ ''.'' @
       encode_json X (JObj payload) @ ''.'' @ sig"
    and c: "c = (if ds \<noteq> [] then jwt @ ''~'' @ js_join ''~'' ds @ ''~'' else jwt)"
  obtain sig where sig: "jwt = encode_json X (kid_header (getOr ''ES256'' (ic_keyAlg opts)) kid ''dc+sd-jwt'') @ ''.'' @
       encode_json X (JObj payload) @ ''.'' @ sig" using j by blast
  note s = sd_claims_Inr [OF cl]
  then have dist: "distinct (map fst claims)" by simp
  have keys: "set (map fst payload) \<subseteq> {''iss'', ''vct'', ''iat'', ''sub'', ''cnf'', ''_sd'', ''_sd_alg''}"
    unfolding p Let_def sd_jwt_payload_def
    by (auto simp: set_fst_oset simp del: set_map split: option.splits if_splits)
  have iss: "oget payload ''iss'' = Some (JStr iss)"
    and cnf: "non_empty_object holder \<longrightarrow> oget payload ''cnf'' = Some (JObj [(''jwk'', holder)])"
    and sd: "ds \<noteq> [] \<longrightarrow> oget payload ''_sd'' = Some (JArr (map JStr (sort (map (hashDisclosure X) ds))))"
    using ds unfolding p Let_def sd_jwt_payload_def by (auto simp: oget_append split: option.splits)
  have from_ds: "\<exists>salt n v. d = encodeDisclosure X salt n v \<and> claim_at (JObj ?src) [n] = Some v \<and>
       (\<exists>cl \<in> set (metadata_claims conf). hd (claim_path cl) = n)" if dd: "d \<in> set ds" for d
  proof -
    obtain i where i: "i < length ds" "ds ! i = d" using dd by (auto simp: in_set_conv_nth)
    obtain n v where nv: "claims ! i = (n, v)" by fastforce
    obtain salt where "d = encodeDisclosure X salt n v"
      using list_all2_nthD2 [OF ds i(1)] i(2) nv by auto
    moreover have "(n, v) \<in> set claims" using i(1) nv list_all2_lengthD [OF ds] by (metis nth_mem)
    then have "oget claims n = Some v" using dist by (simp add: oget_in_set)
    then have "\<exists>cl \<in> set (metadata_claims conf). hd (claim_path cl) = n \<and> claim_at (JObj ?src) [n] = Some v"
      using s by (metis oget_Nil option.distinct(1))
    ultimately show ?thesis by blast
  qed
  have to_ds: "\<exists>d \<in> set ds. \<exists>salt v. d = encodeDisclosure X salt n v" if nn: "oget claims n \<noteq> None" for n
  proof -
    obtain v where "(n, v) \<in> set claims" using oget_not_None [OF nn] by blast
    then obtain i where i: "i < length claims" "claims ! i = (n, v)" by (auto simp: in_set_conv_nth)
    then have "\<exists>salt. ds ! i = encodeDisclosure X salt n v" using list_all2_nthD [OF ds i(1)] by simp
    moreover have "ds ! i \<in> set ds" using i(1) list_all2_lengthD [OF ds] by (metis nth_mem)
    ultimately show ?thesis by metis
  qed
  show ?thesis
    by (rule exI [of _ holder], rule exI [of _ payload], rule exI [of _ ds],
        rule exI [of _ "kid_header (getOr ''ES256'' (ic_keyAlg opts)) kid ''dc+sd-jwt''"], rule exI [of _ sig])
      (use c sig h keys iss cnf sd from_ds to_ds s in \<open>auto simp: Let_def simp del: claim_at.simps\<close>)
qed

subsection \<open>The subject of a W3C credential\<close>

text \<open>The path of a described claim in the subject, and its value in the given claims.\<close>

definition subject_path :: "CredentialMetadataClaim \<Rightarrow> string list" where
  "subject_path cl = (case credentialSubjectPath (claim_path cl) of Inl e \<Rightarrow> [] | Inr p \<Rightarrow> p)"

definition claim_value :: "obj \<Rightarrow> CredentialMetadataClaim \<Rightarrow> jsval option" where
  "claim_value src cl = orElse (claim_at (JObj src) (claim_path cl)) (claim_at (JObj src) (subject_path cl))"

lemma credentialSubjectPath_Inr:
  "credentialSubjectPath path = Inr p \<Longrightarrow> p = path \<or> (path = ''credentialSubject'' # p \<and> p \<noteq> [])"
  by (auto simp: credentialSubjectPath_def split: list.splits if_splits)

lemma subject_claim_Inr:
  assumes "subject_claim src cl s = Inr s'"
  shows "(claim_mandatory cl = Some True \<longrightarrow> claim_value src cl \<noteq> None) \<and> subject_path cl \<noteq> [] \<and>
    s' = (case claim_value src cl of None \<Rightarrow> s | Some v \<Rightarrow> put_claim s (subject_path cl) v)"
proof -
  obtain p where p: "credentialSubjectPath (claim_path cl) = Inr p"
    using assms by (auto simp: subject_claim_def split: sum.splits)
  have sp: "subject_path cl = p" by (simp add: subject_path_def p)
  obtain safe: "safe_path (claim_path cl)"
    using assms p by (auto simp: subject_claim_def getClaimValue_Inr split: sum.splits)
  have ne: "p \<noteq> []" using credentialSubjectPath_Inr [OF p] safe by (auto simp: safe_path_def)
  have same: "length p = length (claim_path cl) \<Longrightarrow> p = claim_path cl"
    using credentialSubjectPath_Inr [OF p] by auto
  show ?thesis
    using assms p ne same sp
    by (auto simp: subject_claim_def claim_value_def getClaimValue_Inr setClaimValue_Inr
        split: sum.splits option.splits if_splits)
qed

lemma apart_sym: "apart p q = apart q p"
  by (induction p q rule: apart.induct) (auto elim: apart.elims)

fun pairwise_apart :: "CredentialMetadataClaim list \<Rightarrow> bool" where
  "pairwise_apart [] = True"
| "pairwise_apart (c # cs) = (list_all (\<lambda>c'. apart (subject_path c) (subject_path c')) cs \<and> pairwise_apart cs)"

lemma build_subject_keeps:
  assumes "build_subject src cs s = Inr s'" and "list_all (\<lambda>c. apart (subject_path c) q) cs"
  shows "claim_at (JObj s') q = claim_at (JObj s) q"
  using assms
proof (induction cs arbitrary: s)
  case (Cons c cs)
  obtain s1 where 1: "subject_claim src c s = Inr s1" "build_subject src cs s1 = Inr s'"
    using Cons.prems by (auto split: sum.splits)
  have "claim_at (JObj s1) q = claim_at (JObj s) q"
    using subject_claim_Inr [OF 1(1)] Cons.prems(2) by (auto simp: claim_at_put_apart split: option.splits)
  with Cons.IH [OF 1(2)] Cons.prems(2) show ?case by simp
qed simp

lemma build_subject_Inr:
  assumes "build_subject src cs s = Inr s'"
  shows "(\<forall>c \<in> set cs. claim_mandatory c = Some True \<longrightarrow> claim_value src c \<noteq> None) \<and>
    (pairwise_apart cs \<longrightarrow> (\<forall>c \<in> set cs. claim_at (JObj s) (subject_path c) = None) \<longrightarrow>
       (\<forall>c \<in> set cs. claim_at (JObj s') (subject_path c) = claim_value src c))"
  using assms
proof (induction cs arbitrary: s)
  case (Cons c cs)
  obtain s1 where 1: "subject_claim src c s = Inr s1" "build_subject src cs s1 = Inr s'"
    using Cons.prems by (auto split: sum.splits)
  note sc = subject_claim_Inr [OF 1(1)]
  show ?case
  proof (intro conjI impI)
    show "\<forall>c \<in> set (c # cs). claim_mandatory c = Some True \<longrightarrow> claim_value src c \<noteq> None"
      using sc Cons.IH [OF 1(2)] by simp
  next
    assume pa: "pairwise_apart (c # cs)" and none: "\<forall>c \<in> set (c # cs). claim_at (JObj s) (subject_path c) = None"
    have "claim_at (JObj s1) (subject_path c) = claim_value src c"
      using sc none by (auto simp: claim_at_put_same split: option.splits)
    moreover have "claim_at (JObj s') (subject_path c) = claim_at (JObj s1) (subject_path c)"
      using pa by (intro build_subject_keeps [OF 1(2)]) (auto simp: list_all_iff apart_sym)
    moreover have "\<forall>c' \<in> set cs. claim_at (JObj s1) (subject_path c') = None"
      using sc pa none by (auto simp: list_all_iff claim_at_put_apart split: option.splits)
    then have "\<forall>c' \<in> set cs. claim_at (JObj s') (subject_path c') = claim_value src c'"
      using Cons.IH [OF 1(2)] pa by simp
    ultimately show "\<forall>c \<in> set (c # cs). claim_at (JObj s') (subject_path c) = claim_value src c"
      by simp
  qed
qed simp

text \<open>A W3C credential is issued in the name of the issuer for the given subject; its
  mandatory claims were given, and when no described claim lies below another, its
  subject has at each described path exactly the given value, taken at the full path or
  else below \<open>credentialSubject\<close>, and nothing where none was given.\<close>

theorem jwt_vc_claims:
  assumes "createCredential_jwt X P iss conf opts w = (Inr c, w')"
  shows "\<exists>i types today cs hdr sig.
    c = encode_json X hdr @ ''.'' @
        encode_json X (JObj ([(''vc'', verifiable_credential i types iss today (ic_subject opts) cs), (''iss'', JStr iss)] @
          (case ic_subject opts of None \<Rightarrow> [] | Some s \<Rightarrow> [(''sub'', s)]))) @ ''.'' @ sig \<and>
    (\<forall>cl \<in> set (metadata_claims conf).
       claim_mandatory cl = Some True \<longrightarrow> claim_value (getOr [] (ic_claims opts)) cl \<noteq> None) \<and>
    (pairwise_apart (metadata_claims conf) \<longrightarrow>
       (\<forall>cl \<in> set (metadata_claims conf).
          claim_at (JObj cs) (subject_path cl) = claim_value (getOr [] (ic_claims opts)) cl))"
proof -
  obtain cdef cs where cd: "credential_definition conf = Some cdef"
      "build_subject (getOr [] (ic_claims opts)) (metadata_claims conf) [] = Inr cs"
    using assms by (auto simp: createCredential_jwt_def inr_simps split: option.splits if_splits)
  obtain i w1 kid w2 where r: "sign_credential X iss (getOr ''ES256'' (ic_keyAlg opts))
      (JObj ([(''vc'', verifiable_credential i (cdef_type cdef) iss (w_clk w 0) (ic_subject opts) cs), (''iss'', JStr iss)] @
          (case ic_subject opts of None \<Rightarrow> [] | Some s \<Rightarrow> [(''sub'', s)])))
      (kid_header (getOr ''ES256'' (ic_keyAlg opts)) kid ''JWT'') w2 = (Inr c, w1)"
    using assms
    by (auto simp: createCredential_jwt_def cd bindM_Inr liftE_Inr now_ms_Inr raise_Inr Let_def split: if_splits)
  have sp: "\<forall>cl \<in> set cls. subject_path cl \<noteq> []" if "build_subject src cls s = Inr s'" for src cls s s'
    using that by (induction cls arbitrary: s) (auto dest: subject_claim_Inr split: sum.splits)
  from r obtain sig where sig: "c = encode_json X (kid_header (getOr ''ES256'' (ic_keyAlg opts)) kid ''JWT'') @ ''.'' @
      encode_json X (JObj ([(''vc'', verifiable_credential i (cdef_type cdef) iss (w_clk w 0) (ic_subject opts) cs),
        (''iss'', JStr iss)] @ (case ic_subject opts of None \<Rightarrow> [] | Some s \<Rightarrow> [(''sub'', s)]))) @ ''.'' @ sig"
    by (rule sign_credential_Inr)
  show ?thesis
    by (rule exI [of _ i], rule exI [of _ "cdef_type cdef"], rule exI [of _ "w_clk w 0"], rule exI [of _ cs],
        rule exI [of _ "kid_header (getOr ''ES256'' (ic_keyAlg opts)) kid ''JWT''"], rule exI [of _ sig])
      (use sig build_subject_Inr [OF cd(2)] sp [OF cd(2)] in \<open>simp add: claim_at_empty\<close>)
qed

subsection \<open>Examples\<close>

definition demo_issuer_key :: SignatureKeyEntry where
  "demo_issuer_key = \<lparr>format = JwkFormat, declaredAlg = ''ES256'', key_kid = None,
     publicKey = Some (Jwk [(''kty'', JStr ''EC'')]), privateKey = Jwk [(''kty'', JStr ''EC''), (''d'', JStr ''1'')]\<rparr>"

definition demo_issuer_world :: world where
  "demo_issuer_world = world0\<lparr>w_issuer_keys := [''iss'' \<mapsto> [demo_issuer_key]]\<rparr>"

definition demo_claim :: "string list \<Rightarrow> CredentialMetadataClaim" where
  "demo_claim p = \<lparr>claim_path = p, claim_mandatory = Some True, claim_display = None\<rparr>"

definition demo_configuration :: "string \<Rightarrow> CredentialConfigurationSupported" where
  "demo_configuration f = \<lparr>cc_format = Format f, cc_scope = None,
     cryptographic_binding_methods_supported = Some [''jwk''], cryptographic_suites_supported = None,
     proof_types_supported = Some [(''jwt'', [''ES256''])], credential_signing_alg_values_supported = Some [''ES256''],
     credential_metadata = Some \<lparr>cm_display = None, cm_claims = Some [demo_claim [''name'']]\<rparr>,
     credential_definition = Some \<lparr>cdef_type = [''VerifiableCredential''], cdef_context = None\<rparr>,
     cc_doctype = None, cc_vct = Some ''vct''\<rparr>"

definition demo_options :: IssueCredentialCreateCredentialOptions where
  "demo_options = \<lparr>ic_claims = Some [(''name'', JStr ''A''), (''age'', JNum (Fin 7))], ic_subject = None, ic_keyAlg = None,
     ic_proofHeader = Some [(''jwk'', JObj [(''kty'', JStr ''EC'')])], ic_nonDisclosableClaims = None\<rparr>"

lemma demo_sig: "js_split (CHR ''.'') ''h.p.sig'' = [''h'', ''p'', ''sig'']"
  by code_simp

lemma demo_issuer_kid:
  "w_issuer_keys w = [''iss'' \<mapsto> [demo_issuer_key]] \<Longrightarrow>
     issuer_kid ext0 ''iss'' (demo_configuration f) ''ES256'' w = (Inr ''thumb'', w)"
  by (simp add: issuer_kid_def demo_configuration_def bindM_run liftE_run on_issuer_keys_def zoom_def key_fetch_def find_key_def
      demo_issuer_key_def import_public_def ext0_def parse_jwk_def)

lemma demo_sign:
  "w_issuer_keys w = [''iss'' \<mapsto> [demo_issuer_key]] \<Longrightarrow>
     sign_credential ext0 ''iss'' ''ES256'' p h w = (Inr ''e30.e30.sig'', w\<lparr>w_rnd := shift (w_rnd w)\<rparr>)"
  by (simp add: sign_credential_def run_simps on_issuer_keys_def issuer_key_sign_def find_key_def
      demo_issuer_key_def import_private_def ext0_def sign_with_def js_nth_def demo_sig)

lemma demo_issuer_keys: "w_issuer_keys demo_issuer_world = [''iss'' \<mapsto> [demo_issuer_key]]"
  by (simp add: demo_issuer_world_def)

lemma demo_get: "getClaimValue ob [''name''] = Inr (claim_at (JObj ob) [''name''])"
    "setClaimValue ob [''name''] v = Inr (put_claim ob [''name''] v)"
  by (simp_all add: getClaimValue_Inr setClaimValue_Inr safe_path_def forbiddenPathSegments_def)

lemma demo_sd_run:
  "\<exists>w'. createCredential_sd_jwt ext0 ''iss'' (demo_configuration ''dc+sd-jwt'') demo_options demo_issuer_world =
     (Inr ''e30.e30.sig~e30~'', w')"
proof -
  have "holder_jwk ext0 (demo_configuration ''dc+sd-jwt'') (ic_proofHeader demo_options) = Inr (JObj [(''kty'', JStr ''EC'')])"
    by (simp add: holder_jwk_def demo_configuration_def demo_options_def)
  moreover have "sd_claims [] [(''name'', JStr ''A''), (''age'', JNum (Fin 7))]
      (metadata_claims (demo_configuration ''dc+sd-jwt'')) ([], []) = Inr ([], [(''name'', JStr ''A'')])"
    by (simp add: metadata_claims_def demo_configuration_def sd_claim_def demo_claim_def demo_get oset_def)
  moreover have "cc_vct (demo_configuration f) = Some ''vct''" "cc_format (demo_configuration f) = Format f" for f
    by (simp_all add: demo_configuration_def)
  moreover have "ic_claims demo_options = Some [(''name'', JStr ''A''), (''age'', JNum (Fin 7))]"
      "ic_nonDisclosableClaims demo_options = None" "ic_keyAlg demo_options = None"
    by (simp_all add: demo_options_def)
  ultimately show ?thesis
    by (simp add: createCredential_sd_jwt_def run_simps demo_issuer_kid demo_sign demo_issuer_keys
        createDisclosures_def encodeDisclosure_def Let_def) (simp add: ext0_def)
qed

theorem sd_jwt_selective_disclosure_witness:
  "\<exists>payload. ''name'' \<notin> set (map fst payload) \<and> oget payload ''cnf'' = Some (JObj [(''jwk'', JObj [(''kty'', JStr ''EC'')])])"
proof -
  obtain w' where r: "createCredential_sd_jwt ext0 ''iss'' (demo_configuration ''dc+sd-jwt'') demo_options demo_issuer_world =
     (Inr ''e30.e30.sig~e30~'', w')" using demo_sd_run by blast
  have n: "ic_nonDisclosableClaims demo_options = None" by (simp add: demo_options_def)
  have h: "holder_jwk ext0 (demo_configuration ''dc+sd-jwt'') (ic_proofHeader demo_options) = Inr (JObj [(''kty'', JStr ''EC'')])"
    by (simp add: holder_jwk_def demo_configuration_def demo_options_def)
  obtain holder payload where "holder_jwk ext0 (demo_configuration ''dc+sd-jwt'') (ic_proofHeader demo_options) = Inr holder"
      "set (map fst payload) \<subseteq> {''iss'', ''vct'', ''iat'', ''sub'', ''cnf'', ''_sd'', ''_sd_alg''}"
      "non_empty_object holder \<longrightarrow> oget payload ''cnf'' = Some (JObj [(''jwk'', holder)])"
    using sd_jwt_selective_disclosure [OF r n] by blast
  with h show ?thesis by (intro exI [of _ payload]) (auto simp: non_empty_object_def simp del: set_map)
qed

lemma demo_jwt_run:
  "\<exists>w'. createCredential_jwt ext0 \<lparr>ip_identifier = None\<rparr> ''iss'' (demo_configuration ''jwt_vc_json'') demo_options demo_issuer_world =
     (Inr ''e30.e30.sig'', w')"
proof -
  have "build_subject [(''name'', JStr ''A''), (''age'', JNum (Fin 7))]
      (metadata_claims (demo_configuration ''jwt_vc_json'')) [] = Inr [(''name'', JStr ''A'')]"
    by (simp add: metadata_claims_def demo_configuration_def subject_claim_def demo_claim_def demo_get oset_def
        credentialSubjectPath_def)
  moreover have "credential_definition (demo_configuration f) =
      Some \<lparr>cdef_type = [''VerifiableCredential''], cdef_context = None\<rparr>" "cc_format (demo_configuration f) = Format f" for f
    by (simp_all add: demo_configuration_def)
  moreover have "ic_claims demo_options = Some [(''name'', JStr ''A''), (''age'', JNum (Fin 7))]" "ic_keyAlg demo_options = None"
    by (simp_all add: demo_options_def)
  ultimately show ?thesis
    by (simp add: createCredential_jwt_def run_simps demo_issuer_kid demo_sign demo_issuer_keys credential_id_def Let_def)
qed

theorem jwt_vc_claims_witness:
  "\<exists>cs. claim_at (JObj cs) [''name''] = Some (JStr ''A'')"
proof -
  obtain w' where r: "createCredential_jwt ext0 \<lparr>ip_identifier = None\<rparr> ''iss'' (demo_configuration ''jwt_vc_json'') demo_options
     demo_issuer_world = (Inr ''e30.e30.sig'', w')" using demo_jwt_run by blast
  have m: "metadata_claims (demo_configuration ''jwt_vc_json'') = [demo_claim [''name'']]"
    by (simp add: metadata_claims_def demo_configuration_def)
  have s: "subject_path (demo_claim [''name'']) = [''name'']"
      "claim_value (getOr [] (ic_claims demo_options)) (demo_claim [''name'']) = Some (JStr ''A'')"
    by (simp_all add: subject_path_def credentialSubjectPath_def demo_claim_def claim_value_def demo_options_def)
  from jwt_vc_claims [OF r] m s show ?thesis by auto
qed

end
