(* ===== verification/Presentation_Types.thy ===== *)
theory Presentation_Types
  imports Verifier_Extern Issue_Credential
begin

text \<open>
  The schemas with which the verifier reads presented tokens (\<open>credential.types.ts\<close>,
  \<open>presentation.types.ts\<close>, \<open>keyBindingJwt.types.ts\<close>), as functions on JSON values.
  \<open>None\<close> is a failed parse. An object schema keeps the members it knows, in its own order.
\<close>

subsection \<open>Members\<close>

text \<open>An optional member that must satisfy a check when present.\<close>

definition opt_ok :: "(jsval \<Rightarrow> bool) \<Rightarrow> obj \<Rightarrow> string \<Rightarrow> bool" where
  "opt_ok p ob k = (case oget ob k of None \<Rightarrow> True | Some v \<Rightarrow> p v)"

definition req_ok :: "(jsval \<Rightarrow> bool) \<Rightarrow> obj \<Rightarrow> string \<Rightarrow> bool" where
  "req_ok p ob k = (case oget ob k of None \<Rightarrow> False | Some v \<Rightarrow> p v)"

fun is_str :: "jsval \<Rightarrow> bool" where
  "is_str (JStr s) = True"
| "is_str v = False"

text \<open>A number schema accepts finite numbers only.\<close>

fun is_num :: "jsval \<Rightarrow> bool" where
  "is_num (JNum n) = num_finite n"
| "is_num v = False"

fun is_strs :: "jsval \<Rightarrow> bool" where
  "is_strs (JArr xs) = list_all is_str xs"
| "is_strs v = False"

definition is_url :: "ext \<Rightarrow> jsval \<Rightarrow> bool" where
  "is_url X v = (case v of JStr s \<Rightarrow> zod_url X s \<noteq> None | _ \<Rightarrow> False)"

definition keep :: "obj \<Rightarrow> string list \<Rightarrow> obj" where
  "keep ob ks = List.map_filter (\<lambda>k. map_option (\<lambda>v. (k, v)) (oget ob k)) ks"

lemma map_of_map_filter:
  "map_of (List.map_filter (\<lambda>k. map_option (\<lambda>v. (k, v)) (f k)) ks) k = (if k \<in> set ks then f k else None)"
  by (induction ks) (auto simp: List.map_filter_simps split: option.splits)

lemma oget_keep [simp]: "oget (keep ob ks) k = (if k \<in> set ks then oget ob k else None)"
  unfolding keep_def by (simp add: oget_def map_of_map_filter)

subsection \<open>Verifiable credentials (\<open>credential.types.ts\<close>)\<close>

definition vc_base_ok :: "ext \<Rightarrow> vlib \<Rightarrow> obj \<Rightarrow> bool" where
  "vc_base_ok X V ob \<longleftrightarrow>
     req_ok is_strs ob ''@context'' \<and> opt_ok (is_url X) ob ''id'' \<and> req_ok is_strs ob ''type'' \<and>
     req_ok (is_url X) ob ''issuer'' \<and>
     req_ok (\<lambda>v. case v of JStr s \<Rightarrow> zod_datetime V s | _ \<Rightarrow> False) ob ''issuanceDate''"

definition parseVerifiableCredentialBase :: "ext \<Rightarrow> vlib \<Rightarrow> jsval \<Rightarrow> bool" where
  "parseVerifiableCredentialBase X V input = (case input of JObj ob \<Rightarrow> vc_base_ok X V ob | _ \<Rightarrow> False)"

definition jwt_vc_json_ok :: "ext \<Rightarrow> obj \<Rightarrow> bool" where
  "jwt_vc_json_ok X = (\<lambda>ob. opt_ok
     (\<lambda>v. case v of JObj sub \<Rightarrow> opt_ok (is_url X) sub ''id'' | _ \<Rightarrow> False) ob ''credentialSubject'')"

subsection \<open>Payloads of presentations (\<open>presentation.types.ts\<close>)\<close>

definition jwt_base_keys :: "string list" where
  "jwt_base_keys = [''iss'', ''sub'', ''aud'', ''exp'', ''nbf'', ''iat'', ''jti'']"

definition jwt_base_ok :: "obj \<Rightarrow> bool" where
  "jwt_base_ok ob \<longleftrightarrow>
     opt_ok is_str ob ''iss'' \<and> opt_ok is_str ob ''sub'' \<and>
     opt_ok (\<lambda>v. is_str v \<or> is_strs v) ob ''aud'' \<and> opt_ok is_num ob ''exp'' \<and>
     opt_ok is_num ob ''nbf'' \<and> opt_ok is_num ob ''iat'' \<and> opt_ok is_str ob ''jti''"

definition vc_item_ok :: "ext \<Rightarrow> vlib \<Rightarrow> jsval \<Rightarrow> bool" where
  "vc_item_ok X V v =
     (case v of
        JStr s \<Rightarrow> True
      | JObj ob \<Rightarrow> vc_base_ok X V ob \<and> jwt_vc_json_ok X ob
      | _ \<Rightarrow> False)"

definition vp_ok :: "ext \<Rightarrow> vlib \<Rightarrow> obj \<Rightarrow> bool" where
  "vp_ok X V ob \<longleftrightarrow>
     opt_ok is_strs ob ''@context'' \<and> opt_ok (is_url X) ob ''id'' \<and> req_ok is_strs ob ''type'' \<and>
     req_ok (\<lambda>v. case v of JArr vcs \<Rightarrow> list_all (vc_item_ok X V) vcs | _ \<Rightarrow> False) ob ''verifiableCredential'' \<and>
     opt_ok (is_url X) ob ''holder'' \<and> opt_ok is_str ob ''nonce''"

text \<open>
  The payload of a JWT presentation. Credentials that are objects are left as they are: the
  provider refuses them afterwards.
\<close>

definition jwtVpJsonPayload :: "ext \<Rightarrow> vlib \<Rightarrow> jsval \<Rightarrow> obj option" where
  "jwtVpJsonPayload X V v =
     (case v of
        JObj ob \<Rightarrow>
          (case oget ob ''vp'' of
             Some (JObj vp) \<Rightarrow>
               if jwt_base_ok ob \<and> vp_ok X V vp \<and> req_ok is_str ob ''nonce'' then
                 Some (keep ob jwt_base_keys @
                   [(''vp'', JObj (keep vp [''@context'', ''id'', ''type'', ''verifiableCredential'', ''holder'', ''nonce'']))] @
                   keep ob [''nonce''])
               else None
           | _ \<Rightarrow> None)
      | _ \<Rightarrow> None)"

text \<open>Other claims of an SD-JWT: an object with a digest member is read as that digest alone.\<close>

fun sd_value :: "jsval \<Rightarrow> jsval" where
  "sd_value (JArr xs) = JArr (map sd_value xs)"
| "sd_value (JObj ob) =
     (case map_of ob ''...'' of
        Some (JStr s) \<Rightarrow> JObj [(''...'', JStr s)]
      | _ \<Rightarrow> JObj (map (\<lambda>(k, v). (k, sd_value v)) ob))"
| "sd_value v = v"

definition status_ok :: "ext \<Rightarrow> jsval \<Rightarrow> bool" where
  "status_ok X v =
     (case v of
        JObj st \<Rightarrow>
          opt_ok (\<lambda>e. case e of
              JObj en \<Rightarrow>
                req_ok (\<lambda>i. case i of JNum (Fin r) \<Rightarrow> r \<in> \<int> \<and> 0 \<le> r \<and> r \<le> of_int MAX_SAFE_INTEGER | _ \<Rightarrow> False) en ''idx'' \<and>
                req_ok (is_url X) en ''uri''
            | _ \<Rightarrow> False) st ''status_list''
      | _ \<Rightarrow> False)"

definition status_value :: "jsval \<Rightarrow> jsval" where
  "status_value v =
     (case vget v ''status_list'' of
        Some (JObj en) \<Rightarrow> JObj [(''status_list'', JObj (keep en [''idx'', ''uri'']))]
      | _ \<Rightarrow> JObj [])"

definition cnf_ok :: "jsval \<Rightarrow> bool" where
  "cnf_ok v =
     (case v of
        JObj c \<Rightarrow> opt_ok (\<lambda>j. case j of JObj jwk \<Rightarrow> (case parse_jwk jwk of Inl e \<Rightarrow> False | Inr k \<Rightarrow> True) | _ \<Rightarrow> False) c ''jwk''
      | _ \<Rightarrow> False)"

definition sd_jwt_keys :: "string list" where
  "sd_jwt_keys = jwt_base_keys @ [''_sd'', ''_sd_alg'', ''cnf'', ''vct'', ''vct#integrity'', ''status'']"

definition sd_member :: "string \<times> jsval \<Rightarrow> string \<times> jsval" where
  "sd_member = (\<lambda>(k, v).
     (k, if k = ''cnf'' then (case v of JObj c \<Rightarrow> JObj (keep c [''jwk'']) | _ \<Rightarrow> v)
         else if k = ''status'' then status_value v
         else if k \<in> set sd_jwt_keys then v
         else sd_value v))"

definition sdJwtPayload :: "ext \<Rightarrow> jsval \<Rightarrow> obj option" where
  "sdJwtPayload X v =
     (case v of
        JObj ob \<Rightarrow>
          if jwt_base_ok ob \<and> opt_ok is_strs ob ''_sd'' \<and> opt_ok is_str ob ''_sd_alg'' \<and> opt_ok cnf_ok ob ''cnf'' \<and>
             req_ok is_str ob ''vct'' \<and> opt_ok is_str ob ''vct#integrity'' \<and> opt_ok (status_ok X) ob ''status''
          then Some (map sd_member (keep ob sd_jwt_keys @ filter (\<lambda>(k, v). k \<notin> set sd_jwt_keys) ob))
          else None
      | _ \<Rightarrow> None)"

subsection \<open>Key binding JWTs (\<open>keyBindingJwt.types.ts\<close>)\<close>

record KbJwtJsonPayload =
  kb_iat :: jsnum
  kb_aud :: string
  kb_nonce :: string
  kb_sd_hash :: string

definition kbJwtJsonPayload :: "obj \<Rightarrow> KbJwtJsonPayload option" where
  "kbJwtJsonPayload ob =
     (case (oget ob ''iat'', oget ob ''aud'', oget ob ''nonce'', oget ob ''sd_hash'') of
        (Some (JNum n), Some (JStr a), Some (JStr c), Some (JStr h)) \<Rightarrow>
          if num_finite n then Some \<lparr>kb_iat = n, kb_aud = a, kb_nonce = c, kb_sd_hash = h\<rparr> else None
      | _ \<Rightarrow> None)"

lemma kbJwtJsonPayload_Some:
  "kbJwtJsonPayload ob = Some k \<longleftrightarrow>
     oget ob ''iat'' = Some (JNum (kb_iat k)) \<and> num_finite (kb_iat k) \<and> oget ob ''aud'' = Some (JStr (kb_aud k)) \<and>
     oget ob ''nonce'' = Some (JStr (kb_nonce k)) \<and> oget ob ''sd_hash'' = Some (JStr (kb_sd_hash k))"
  by (cases k) (auto simp: kbJwtJsonPayload_def split: option.splits jsval.splits)

subsection \<open>What the parsed payloads keep\<close>

text \<open>The parsed presentation has the audience, the nonce and the credentials of the token.\<close>

lemma jwtVpJsonPayload_Some:
  assumes "jwtVpJsonPayload X V v = Some p"
  obtains ob vp n vcs where "v = JObj ob" "oget ob ''vp'' = Some (JObj vp)" "oget ob ''nonce'' = Some (JStr n)"
    "oget vp ''verifiableCredential'' = Some (JArr vcs)" "list_all (vc_item_ok X V) vcs"
    "oget p ''aud'' = oget ob ''aud''" "oget p ''nonce'' = Some (JStr n)"
    "\<exists>vp'. oget p ''vp'' = Some (JObj vp') \<and> oget vp' ''verifiableCredential'' = Some (JArr vcs)"
proof -
  obtain ob vp where 1: "v = JObj ob" "oget ob ''vp'' = Some (JObj vp)" "vp_ok X V vp" "req_ok is_str ob ''nonce''"
    and p: "p = keep ob jwt_base_keys @
      [(''vp'', JObj (keep vp [''@context'', ''id'', ''type'', ''verifiableCredential'', ''holder'', ''nonce'']))] @
      keep ob [''nonce'']"
    using assms by (auto simp: jwtVpJsonPayload_def split: jsval.splits option.splits if_splits)
  obtain n where n: "oget ob ''nonce'' = Some (JStr n)"
    using 1(4) by (auto simp: req_ok_def split: option.splits elim: is_str.elims)
  obtain vcs where vcs: "oget vp ''verifiableCredential'' = Some (JArr vcs)" "list_all (vc_item_ok X V) vcs"
    using 1(3) by (auto simp: vp_ok_def req_ok_def split: option.splits jsval.splits)
  have ap: "oget (a @ b) k = (case oget a k of None \<Rightarrow> oget b k | Some x \<Rightarrow> Some x)" for a b :: obj and k
    by (simp add: oget_def map_add_def split: option.splits)
  show ?thesis
    by (rule that [OF 1(1,2) n vcs])
      (simp_all add: p ap n vcs(1) jwt_base_keys_def split: option.splits)
qed

text \<open>Reading a value of an SD-JWT twice gives what reading it once gives.\<close>

lemma sd_value_idem: "sd_value (sd_value v) = sd_value v"
proof (induction v rule: sd_value.induct)
  case (2 ob)
  have m: "map_of (map (\<lambda>(k, v). (k, sd_value v)) ob) ''...'' = map_option sd_value (map_of ob ''...'')"
    by (simp add: map_of_map)
  show ?case
  proof (cases "map_of ob ''...''")
    case None
    then show ?thesis using 2 m by (auto simp: comp_def)
  next
    case (Some u)
    then show ?thesis
    proof (cases "\<exists>s. u = JStr s")
      case False
      then have "\<forall>s. sd_value u \<noteq> JStr s" by (cases u) (auto split: option.splits jsval.splits)
      with Some False 2 m show ?thesis
        by (cases u; cases "sd_value u") (auto simp: comp_def split: option.splits jsval.splits)
    qed auto
  qed
qed (auto simp: comp_def)

end
