(* ===== verification/Verifier_Metadata.thy ===== *)
theory Verifier_Metadata
  imports Presentation_Types Certificates
begin

text \<open>
  The metadata of a verifier: the schema of \<open>verifier-metadata.types.ts\<close> on JSON, the
  conversion back to JSON, and the registration of a verifier with its keys
  (\<open>createVerifierMetadata\<close> of \<open>verifier.flows.ts\<close>).
\<close>

subsection \<open>The schema\<close>

definition zod_error :: exn where
  "zod_error = JsError ''ZodError''"

definition nonempty :: "(jsval \<Rightarrow> bool) \<Rightarrow> jsval \<Rightarrow> bool" where
  "nonempty p v = (case v of JArr xs \<Rightarrow> xs \<noteq> [] \<and> list_all p xs | _ \<Rightarrow> False)"

text \<open>The members of the known formats that must be non-empty arrays, with their elements.\<close>

definition format_arrays :: "(string \<times> (jsval \<Rightarrow> bool) \<times> string list) list" where
  "format_arrays =
     [(''jwt_vc_json'', is_str, [''alg_values'']),
      (''ldp_vc'', is_str, [''proof_type_values'', ''cryptosuite_values'']),
      (''mso_mdoc'', is_num, [''issuerauth_alg_values'', ''deviceauth_alg_values'']),
      (''dc+sd-jwt'', is_str, [''sd-jwt_alg_values'', ''kb-jwt_alg_values''])]"

definition format_ok :: "string \<Rightarrow> jsval \<Rightarrow> bool" where
  "format_ok k v =
     (case v of
        JObj ob \<Rightarrow>
          (case map_of format_arrays k of
             Some (p, ks) \<Rightarrow> list_all (opt_ok (nonempty p) ob) ks
           | None \<Rightarrow> list_all (\<lambda>(f, x). x \<noteq> JArr []) ob)
      | _ \<Rightarrow> False)"

definition vp_formats_ok :: "jsval \<Rightarrow> bool" where
  "vp_formats_ok v = (case v of JObj fs \<Rightarrow> fs \<noteq> [] \<and> list_all (\<lambda>(k, f). format_ok k f) fs | _ \<Rightarrow> False)"

text \<open>A parsed object has its known members first.\<close>

definition shaped :: "string list \<Rightarrow> obj \<Rightarrow> obj" where
  "shaped ks ob = keep ob ks @ filter (\<lambda>(k, v). k \<notin> set ks) ob"

definition vp_formats_value :: "jsval \<Rightarrow> obj" where
  "vp_formats_value v =
     (case v of
        JObj fs \<Rightarrow>
          map (\<lambda>(k, f). (k, case (f, map_of format_arrays k) of
                 (JObj ob, Some (p, ks)) \<Rightarrow> JObj (shaped ks ob)
               | _ \<Rightarrow> f))
            (shaped (map fst format_arrays) fs)
      | _ \<Rightarrow> [])"

definition enum_ok :: "string list \<Rightarrow> jsval \<Rightarrow> bool" where
  "enum_ok es v = list_ex (\<lambda>e. v = JStr e) es"

definition metadata_jwk_ok :: "jsval \<Rightarrow> bool" where
  "metadata_jwk_ok v =
     (case v of
        JObj ob \<Rightarrow> list_all (opt_ok is_str ob) [''e'', ''n'', ''kty'', ''x'', ''y'', ''crv'', ''alg'', ''use''] \<and>
          req_ok is_str ob ''kid''
      | _ \<Rightarrow> False)"

definition metadata_jwks_ok :: "jsval \<Rightarrow> bool" where
  "metadata_jwks_ok v = (case vget v ''keys'' of Some (JArr ks) \<Rightarrow> list_all metadata_jwk_ok ks | _ \<Rightarrow> False)"

definition metadata_ok :: "ext \<Rightarrow> obj \<Rightarrow> bool" where
  "metadata_ok X ob \<longleftrightarrow>
     list_all (opt_ok is_strs ob) [''redirect_uris'', ''contacts''] \<and>
     list_all (opt_ok is_str ob)
       [''client_name'', ''client_uri'', ''logo_uri'', ''scope'', ''software_id'', ''software_version''] \<and>
     list_all (opt_ok (is_url X) ob) [''tos_uri'', ''policy_uri'', ''jwks_uri''] \<and>
     opt_ok (enum_ok [''none'', ''client_secret_post'', ''client_secret_basic'']) ob ''token_endpoint_auth_method'' \<and>
     opt_ok (enum_ok [''authorization_code'', ''implicit'', ''password'', ''client_credentials'', ''refresh_token'',
        ''urn:ietf:params:oauth:grant-type:jwt-bearer'', ''urn:ietf:params:oauth:grant-type:saml2-bearer''])
       ob ''grant_types'' \<and>
     opt_ok (enum_ok [''code'', ''token'']) ob ''response_types'' \<and>
     opt_ok (nonempty is_str) ob ''encrypted_response_enc_values_supported'' \<and>
     req_ok vp_formats_ok ob ''vp_formats_supported''"

definition url_member :: "ext \<Rightarrow> obj \<Rightarrow> string \<Rightarrow> string option" where
  "url_member X ob k = (case oget ob k of Some (JStr s) \<Rightarrow> zod_url X s | _ \<Rightarrow> None)"

definition metadata_of :: "ext \<Rightarrow> obj \<Rightarrow> VerifierMetadata" where
  "metadata_of X ob =
     \<lparr>redirect_uris = strings_of (oget ob ''redirect_uris''),
      vm_token_endpoint_auth_method = str_of (oget ob ''token_endpoint_auth_method''),
      vm_grant_types = str_of (oget ob ''grant_types''), vm_client_name = str_of (oget ob ''client_name''),
      vm_client_uri = str_of (oget ob ''client_uri''), vm_logo_uri = str_of (oget ob ''logo_uri''),
      vm_scope = str_of (oget ob ''scope''), contacts = strings_of (oget ob ''contacts''),
      tos_uri = url_member X ob ''tos_uri'', policy_uri = url_member X ob ''policy_uri'',
      vm_jwks_uri = url_member X ob ''jwks_uri'',
      vm_jwks = (case oget ob ''jwks'' of
          Some j \<Rightarrow> (case vget j ''keys'' of Some (JArr ks) \<Rightarrow> Some ks | _ \<Rightarrow> None)
        | None \<Rightarrow> None),
      software_id = str_of (oget ob ''software_id''), software_version = str_of (oget ob ''software_version''),
      vm_response_types = str_of (oget ob ''response_types''),
      encrypted_response_enc_values_supported = strings_of (oget ob ''encrypted_response_enc_values_supported''),
      vp_formats_supported = vp_formats_value (getOr JNull (oget ob ''vp_formats_supported''))\<rparr>"

definition VerifierMetadata_parse :: "ext \<Rightarrow> obj \<Rightarrow> exn + VerifierMetadata" where
  "VerifierMetadata_parse X ob =
     (if metadata_ok X ob \<and> opt_ok metadata_jwks_ok ob ''jwks'' then Inr (metadata_of X ob) else Inl zod_error)"

text \<open>The input of a registration has no \<open>jwks\<close>; the schema drops one.\<close>

definition createVerifierMetadataInput_parse :: "ext \<Rightarrow> obj \<Rightarrow> exn + VerifierMetadata" where
  "createVerifierMetadataInput_parse X ob =
     (if metadata_ok X ob then Inr (metadata_of X (filter (\<lambda>(k, v). k \<noteq> ''jwks'') ob)) else Inl zod_error)"

subsection \<open>As JSON\<close>

definition opt_member :: "string \<Rightarrow> jsval option \<Rightarrow> obj" where
  "opt_member k v = (case v of None \<Rightarrow> [] | Some x \<Rightarrow> [(k, x)])"

definition JStrs :: "string list \<Rightarrow> jsval" where
  "JStrs xs = JArr (map JStr xs)"

definition metadata_json :: "VerifierMetadata \<Rightarrow> obj" where
  "metadata_json m =
     opt_member ''redirect_uris'' (map_option JStrs (redirect_uris m)) @
     opt_member ''token_endpoint_auth_method'' (map_option JStr (vm_token_endpoint_auth_method m)) @
     opt_member ''grant_types'' (map_option JStr (vm_grant_types m)) @
     opt_member ''client_name'' (map_option JStr (vm_client_name m)) @
     opt_member ''client_uri'' (map_option JStr (vm_client_uri m)) @
     opt_member ''logo_uri'' (map_option JStr (vm_logo_uri m)) @
     opt_member ''scope'' (map_option JStr (vm_scope m)) @
     opt_member ''contacts'' (map_option JStrs (contacts m)) @
     opt_member ''tos_uri'' (map_option JStr (tos_uri m)) @
     opt_member ''policy_uri'' (map_option JStr (policy_uri m)) @
     opt_member ''jwks_uri'' (map_option JStr (vm_jwks_uri m)) @
     opt_member ''jwks'' (map_option (\<lambda>ks. JObj [(''keys'', JArr ks)]) (vm_jwks m)) @
     opt_member ''software_id'' (map_option JStr (software_id m)) @
     opt_member ''software_version'' (map_option JStr (software_version m)) @
     opt_member ''response_types'' (map_option JStr (vm_response_types m)) @
     opt_member ''encrypted_response_enc_values_supported''
       (map_option JStrs (encrypted_response_enc_values_supported m)) @
     [(''vp_formats_supported'', JObj (vp_formats_supported m))]"

subsection \<open>PEM certificates (\<open>signature-key.types.ts\<close>)\<close>

definition PEM_LABELS :: "string list" where
  "PEM_LABELS =
     [''PUBLIC KEY'', ''PRIVATE KEY'', ''ENCRYPTED PRIVATE KEY'', ''EC PRIVATE KEY'', ''RSA PRIVATE KEY'',
      ''CERTIFICATE'', ''CERTIFICATE REQUEST'', ''X509 CRL'', ''PKCS7'', ''PKCS8'']"

definition is_nl :: "char \<Rightarrow> bool" where
  "is_nl c \<longleftrightarrow> code c = 10 \<or> code c = 13"

definition pem_char :: "char \<Rightarrow> bool" where
  "pem_char c \<longleftrightarrow> 65 \<le> code c \<and> code c \<le> 90 \<or> 97 \<le> code c \<and> code c \<le> 122 \<or> is_digit c \<or>
     c = CHR ''+'' \<or> c = CHR ''/'' \<or> c = CHR ''='' \<or> is_nl c"

fun crlf_to_lf :: "string \<Rightarrow> string" where
  "crlf_to_lf (c # d # cs) =
     (if code c = 13 \<and> code d = 10 then d # crlf_to_lf cs else c # crlf_to_lf (d # cs))"
| "crlf_to_lf cs = cs"

text \<open>
  The body is \<open>[\\r\\n]+([A-Za-z0-9+/=\\r\\n]+)[\\r\\n]+\<close>: three characters or more, all of the
  class, with a line break at either end.
\<close>

definition pem_body :: "string \<Rightarrow> bool" where
  "pem_body b \<longleftrightarrow> 3 \<le> length b \<and> list_all pem_char b \<and> is_nl (hd b) \<and> is_nl (last b)"

definition pem_ok :: "string \<Rightarrow> bool" where
  "pem_ok val =
     (let s = js_trim (crlf_to_lf val) in
      list_ex (\<lambda>label.
        let begin = ''-----BEGIN '' @ label @ ''-----''; end = ''-----END '' @ label @ ''-----''
        in prefix begin s \<and> suffix end s \<and> length begin + length end \<le> length s \<and>
           pem_body (take (length s - length begin - length end) (drop (length begin) s))) PEM_LABELS)"

definition Certificate_parse :: "string list \<Rightarrow> exn + string list" where
  "Certificate_parse cs = (if list_all pem_ok cs then Inr cs else Inl zod_error)"

subsection \<open>Registration\<close>

definition assertAsymmetricPublicJwk :: "obj \<Rightarrow> exn + unit" where
  "assertAsymmetricPublicJwk jwk =
     (if oget jwk ''kty'' = Some (JStr ''oct'') then
        Inl (err ''invalid_options'' ''publicKey must be an asymmetric public JWK.'')
      else if list_ex (ohas jwk) [''d'', ''k'', ''p'', ''q'', ''dp'', ''dq'', ''qi'', ''oth'', ''priv''] then
        Inl (err ''invalid_options'' ''publicKey must not contain private or symmetric key material.'')
      else Inr ())"

record CreateVerifierMetadataOptions =
  cv_format :: key_format
  cv_alg :: string
  cv_kid :: "string option"
  cv_encryptionKeyAlg :: "string option"
  cv_privateKey :: key_material
  cv_publicKey :: "key_material option"
  cv_certificate :: "string list option"

definition check_public_key :: "ext \<Rightarrow> key_format \<Rightarrow> key_material \<Rightarrow> string \<Rightarrow> exn + unit" where
  "check_public_key X fmt pk keyAlg =
     (case (fmt, pk) of
        (JwkFormat, Jwk jwk) \<Rightarrow>
          (case assertAsymmetricPublicJwk jwk of
             Inl e \<Rightarrow> Inl e
           | Inr _ \<Rightarrow> (case importJWK X jwk keyAlg of Inl e \<Rightarrow> Inl e | Inr k \<Rightarrow> Inr ()))
      | (JwkFormat, Pem p) \<Rightarrow> Inl (err ''invalid_options'' ''publicKey must be a JWK when format is jwk.'')
      | (PemFormat, Pem p) \<Rightarrow> (case importSPKI X p keyAlg of Inl e \<Rightarrow> Inl e | Inr k \<Rightarrow> Inr ())
      | (PemFormat, Jwk jwk) \<Rightarrow> Inl (err ''invalid_options'' ''publicKey must be a PEM string when format is pem.''))"

text \<open>
  The key pair and certificates to save; a generated key is saved at once. The entropy is
  unused when a pair is given.
\<close>

definition save_verifier_key ::
  "ext \<Rightarrow> string \<Rightarrow> string \<Rightarrow> SignatureKeyEntry option \<Rightarrow> (world, unit) M" where
  "save_verifier_key X verifierId keyAlg pair =
     bindM fresh (\<lambda>entropy. on_verifier_keys (verifier_key_save X entropy verifierId keyAlg pair))"

definition provided_keys ::
  "ext \<Rightarrow> string \<Rightarrow> CreateVerifierMetadataOptions option \<Rightarrow>
   (world, string \<times> SignatureKeyEntry option \<times> string list option) M" where
  "provided_keys X verifierId options =
     (case options of
        None \<Rightarrow> thenM (save_verifier_key X verifierId ''ES256'' None) (ret (''ES256'', None, None))
      | Some opts \<Rightarrow>
          let keyAlg = cv_alg opts;
              entry = (\<lambda>pk. \<lparr>format = cv_format opts, declaredAlg = keyAlg, key_kid = cv_kid opts,
                             publicKey = Some pk, privateKey = cv_privateKey opts\<rparr>)
          in if keyAlg = [] then
               thenM (save_verifier_key X verifierId ''ES256'' None) (ret (''ES256'', None, None))
             else case cv_publicKey opts of
               Some pk \<Rightarrow>
                 thenM (liftE (check_public_key X (cv_format opts) pk keyAlg))
                   (ret (keyAlg, Some (entry pk), None))
             | None \<Rightarrow>
                 (case cv_certificate opts of
                    None \<Rightarrow> ret (keyAlg, None, None)
                  | Some chain \<Rightarrow>
                      bindM (liftE (Certificate_parse chain)) (\<lambda>certificates.
                      bindM (certificate_validate X certificates) (\<lambda>certValid.
                      if \<not> certValid then raise ''invalid_certificate'' ''The provided certificate is not valid.''
                      else
                        let pk = certificate_getPublicKey X (hd certificates) in
                        thenM (liftE (importSPKI X pk keyAlg))
                          (ret (keyAlg, Some (entry (Pem pk)), Some certificates))))))"

text \<open>
  \<open>encrypted_response_enc_values_supported\<close> is dropped when it has the default value only.
\<close>

definition default_encryption :: "VerifierMetadata \<Rightarrow> VerifierMetadata" where
  "default_encryption m =
     (if encrypted_response_enc_values_supported m = Some [''A128GCM'']
      then m\<lparr>encrypted_response_enc_values_supported := None\<rparr> else m)"

text \<open>The encryption key is generated and read back; then everything is saved.\<close>

definition encryption_key :: "ext \<Rightarrow> string \<Rightarrow> string \<Rightarrow> (world, obj) M" where
  "encryption_key X verifierId encryptionKeyAlg =
     bindM fresh (\<lambda>entropy.
     thenM (on_enc_keys (verifier_enc_key_save X entropy verifierId encryptionKeyAlg))
     (bindM (on_enc_keys (verifier_enc_key_fetch verifierId encryptionKeyAlg)) (\<lambda>encryptionPublicJwk.
      case encryptionPublicJwk of
        None \<Rightarrow> raise ''internal_server_error'' ''Failed to generate encryption key pair.''
      | Some jwk \<Rightarrow> ret jwk)))"

definition save_registration ::
  "ext \<Rightarrow> string \<Rightarrow> string \<Rightarrow> SignatureKeyEntry option \<Rightarrow> string list option \<Rightarrow> VerifierMetadata \<Rightarrow> (world, unit) M" where
  "save_registration X verifierId keyAlg pair certificates m =
     thenM (case certificates of None \<Rightarrow> ret () | Some c \<Rightarrow> on_certificates (certificate_save verifierId c))
     (thenM (case pair of None \<Rightarrow> ret () | Some p \<Rightarrow> save_verifier_key X verifierId keyAlg (Some p))
     (on_verifier_metadata (verifier_metadata_save verifierId m)))"

definition createVerifierMetadata ::
  "ext \<Rightarrow> string \<Rightarrow> obj \<Rightarrow> CreateVerifierMetadataOptions option \<Rightarrow> (world, unit) M" where
  "createVerifierMetadata X verifierId metadata options =
     (if ohas metadata ''jwks'' then
        raise ''invalid_options'' ''jwks cannot be specified directly.''
      else bindM (liftE (createVerifierMetadataInput_parse X metadata)) (\<lambda>metadataInput.
        bindM (on_verifier_metadata (verifier_metadata_fetch verifierId)) (\<lambda>current.
        if current \<noteq> None then raise ''duplicate_verifier'' ''verifier is already registered.''
        else
          bindM (provided_keys X verifierId options) (\<lambda>(keyAlg, pair, certificates).
          bindM (encryption_key X verifierId
              (getOr ''RSA-OAEP-256'' (case options of None \<Rightarrow> None | Some v \<Rightarrow> cv_encryptionKeyAlg v))) (\<lambda>jwk.
          save_registration X verifierId keyAlg pair certificates
            ((default_encryption metadataInput)\<lparr>vm_jwks := Some [JObj jwk]\<rparr>))))))"

end
