(* ===== verification/Schemas.thy ===== *)
theory Schemas
  imports Verifier_Metadata "HOL-Library.Monad_Syntax"
begin

text \<open>
  The schemas of the four kinds of records that are registered and stored: authorization server
  metadata, OAuth policies, OAuth clients and issuer metadata (\<open>authorization-server.types.ts\<close>,
  \<open>authz-oauth-policy.types.ts\<close>, \<open>authz-oauth-client.types.ts\<close>, \<open>credential-issuer.types.ts\<close>).
  A schema reads a JSON value or fails; a record is written back as the object that zod returns.
\<close>

subsection \<open>Reading and writing\<close>

text \<open>\<open>write\<close> gives a value that \<open>read\<close> takes back, and \<open>read\<close> returns only values with \<open>ok\<close>.\<close>

definition opt_read :: "(jsval \<Rightarrow> 'a option) \<Rightarrow> jsval option \<Rightarrow> 'a option option" where
  "opt_read r v = (case v of None \<Rightarrow> Some None | Some x \<Rightarrow> map_option Some (r x))"

definition req_read :: "(jsval \<Rightarrow> 'a option) \<Rightarrow> jsval option \<Rightarrow> 'a option" where
  "req_read r v = Option.bind v r"

definition list_read :: "(jsval \<Rightarrow> 'a option) \<Rightarrow> jsval \<Rightarrow> 'a list option" where
  "list_read r v = (case v of JArr xs \<Rightarrow> those (map r xs) | _ \<Rightarrow> None)"

definition nonempty_read :: "(jsval \<Rightarrow> 'a option) \<Rightarrow> jsval \<Rightarrow> 'a list option" where
  "nonempty_read r v = do { xs \<leftarrow> list_read r v; if xs = [] then None else Some xs }"

text \<open>The members of an object that serves as a map.\<close>

definition entries_read :: "(jsval \<Rightarrow> 'a option) \<Rightarrow> jsval \<Rightarrow> (string \<times> 'a) list option" where
  "entries_read r v = (case v of JObj ob \<Rightarrow> those (map (\<lambda>(k, x). map_option (Pair k) (r x)) ob) | _ \<Rightarrow> None)"

definition list_write :: "('a \<Rightarrow> jsval) \<Rightarrow> 'a list \<Rightarrow> jsval" where
  "list_write w xs = JArr (map w xs)"

definition entries_write :: "('a \<Rightarrow> jsval) \<Rightarrow> (string \<times> 'a) list \<Rightarrow> jsval" where
  "entries_write w kvs = JObj (map (\<lambda>(k, x). (k, w x)) kvs)"

definition as_object :: "jsval \<Rightarrow> obj option" where
  "as_object v = (case v of JObj ob \<Rightarrow> Some ob | _ \<Rightarrow> None)"

definition as_string :: "jsval \<Rightarrow> string option" where
  "as_string v = (case v of JStr s \<Rightarrow> Some s | _ \<Rightarrow> None)"

definition as_boolean :: "jsval \<Rightarrow> bool option" where
  "as_boolean v = (case v of JBool b \<Rightarrow> Some b | _ \<Rightarrow> None)"

definition as_url :: "ext \<Rightarrow> jsval \<Rightarrow> string option" where
  "as_url X v = (case v of JStr s \<Rightarrow> zod_url X s | _ \<Rightarrow> None)"

definition as_enum :: "(string \<times> 'a) list \<Rightarrow> jsval \<Rightarrow> 'a option" where
  "as_enum table v = (case v of JStr s \<Rightarrow> map_of table s | _ \<Rightarrow> None)"

text \<open>The object with those members that have a value.\<close>

definition members :: "(string \<times> jsval option) list \<Rightarrow> obj" where
  "members kvs = concat (map (\<lambda>(k, v). opt_member k v) kvs)"

definition or_else :: "'a option \<Rightarrow> 'a option \<Rightarrow> 'a option" where
  "or_else v u = (case v of None \<Rightarrow> u | Some y \<Rightarrow> Some y)"

lemma or_else_simps [simp]: "or_else v None = v" "or_else None u = u" "or_else (Some y) u = Some y"
  by (cases v; simp add: or_else_def)+

lemma oget_members [simp]:
  "oget (members []) k = None"
  "oget (members ((k', v) # kvs)) k = (if k = k' then or_else v (oget (members kvs) k) else oget (members kvs) k)"
  by (auto simp: members_def opt_member_def or_else_def split: option.split)

lemma members_keys: "fst ` set (members kvs) \<subseteq> fst ` set kvs"
  by (auto simp: members_def opt_member_def split: option.splits) (metis fst_conv image_eqI)

locale codec =
  fixes read :: "jsval \<Rightarrow> 'a option" and "write" :: "'a \<Rightarrow> jsval" and ok :: "'a \<Rightarrow> bool"
  assumes read_write: "ok x \<Longrightarrow> read (write x) = Some x"
    and read_ok: "read v = Some x \<Longrightarrow> ok x"
begin

lemma opt_read_write: "pred_option ok x \<Longrightarrow> opt_read read (map_option write x) = Some x"
  by (cases x) (simp_all add: opt_read_def read_write)

lemma req_read_write: "ok x \<Longrightarrow> req_read read (Some (write x)) = Some x"
  by (simp add: req_read_def read_write)

lemma opt_read_ok: "opt_read read v = Some x \<Longrightarrow> pred_option ok x"
  by (auto simp: opt_read_def read_ok split: option.splits)

lemma req_read_ok: "req_read read v = Some x \<Longrightarrow> ok x"
  by (auto simp: req_read_def bind_eq_Some_conv read_ok)

lemma list_read_write: "list_all ok xs \<Longrightarrow> list_read read (list_write write xs) = Some xs"
  by (induction xs) (simp_all add: list_read_def list_write_def read_write)

lemma those_read_ok: "those (map read vs) = Some xs \<Longrightarrow> list_all ok xs"
  by (induction vs arbitrary: xs) (auto simp: read_ok split: option.splits)

lemma list_read_ok: "list_read read v = Some xs \<Longrightarrow> list_all ok xs"
  by (auto simp: list_read_def those_read_ok split: jsval.splits)

lemma entries_read_write: "list_all (\<lambda>e. ok (snd e)) kvs \<Longrightarrow> entries_read read (entries_write write kvs) = Some kvs"
  by (induction kvs) (auto simp: entries_read_def entries_write_def read_write)

lemma those_entries_ok: "those (map (\<lambda>(k, x). map_option (Pair k) (read x)) ob) = Some kvs \<Longrightarrow> list_all (\<lambda>e. ok (snd e)) kvs"
  by (induction ob arbitrary: kvs) (auto simp: read_ok split: option.splits prod.splits)

lemma entries_read_ok: "entries_read read v = Some kvs \<Longrightarrow> list_all (\<lambda>e. ok (snd e)) kvs"
  by (auto simp: entries_read_def those_entries_ok split: jsval.splits)

end

lemma list_codec: "codec r w p \<Longrightarrow> codec (list_read r) (list_write w) (list_all p)"
  using codec.list_read_write [of r w p] codec.list_read_ok [of r w p] by (simp add: codec_def)

lemma nonempty_codec: "codec r w p \<Longrightarrow> codec (nonempty_read r) (list_write w) (\<lambda>xs. xs \<noteq> [] \<and> list_all p xs)"
  using codec.list_read_write [of r w p] codec.list_read_ok [of r w p]
  by (auto simp: codec_def nonempty_read_def bind_eq_Some_conv split: if_splits)

lemma entries_codec: "codec r w p \<Longrightarrow> codec (entries_read r) (entries_write w) (list_all (\<lambda>e. p (snd e)))"
  using codec.entries_read_write [of r w p] codec.entries_read_ok [of r w p] by (simp add: codec_def)

definition any :: "'a \<Rightarrow> bool" where
  "any x = True"

lemma any_simps [simp]: "any x" "list_all any xs" "pred_option any v" "pred_option (list_all any) vs"
  by (simp_all add: any_def list_all_iff pred_option_def)

interpretation strings: codec as_string JStr any
  by unfold_locales (simp_all add: as_string_def any_def)

interpretation booleans: codec as_boolean JBool any
  by unfold_locales (simp_all add: as_boolean_def any_def)

text \<open>The URL schema leaves a URL that it has returned as it is.\<close>

definition url_stable :: "ext \<Rightarrow> bool" where
  "url_stable X \<longleftrightarrow> (\<forall>s u. zod_url X s = Some u \<longrightarrow> zod_url X u = Some u)"

definition url_ok :: "ext \<Rightarrow> string \<Rightarrow> bool" where
  "url_ok X u \<longleftrightarrow> zod_url X u = Some u"

lemma url_codec: "url_stable X \<Longrightarrow> codec (as_url X) JStr (url_ok X)"
  by unfold_locales (auto simp: as_url_def url_ok_def url_stable_def split: jsval.splits)

lemmas string_list_codec = list_codec [OF strings.codec_axioms]

lemmas plain_codecs = strings.opt_read_write strings.req_read_write booleans.opt_read_write booleans.req_read_write
  codec.opt_read_write [OF string_list_codec] codec.req_read_write [OF string_list_codec]
  codec.opt_read_write [OF nonempty_codec [OF strings.codec_axioms]] codec.req_read_write [OF nonempty_codec [OF strings.codec_axioms]]

lemmas plain_ok = codec.opt_read_ok [OF nonempty_codec [OF strings.codec_axioms]] codec.req_read_ok [OF nonempty_codec [OF strings.codec_axioms]]

subsection \<open>Authorization server metadata\<close>

definition AuthorizationServerMetadata_parse :: "ext \<Rightarrow> jsval \<Rightarrow> AuthorizationServerMetadata option" where
  "AuthorizationServerMetadata_parse X v = do {
     ob \<leftarrow> as_object v;
     anonymous \<leftarrow> opt_read as_boolean (oget ob ''pre-authorized_grant_anonymous_access_supported'');
     issuer \<leftarrow> req_read (as_url X) (oget ob ''issuer'');
     authorization \<leftarrow> req_read (as_url X) (oget ob ''authorization_endpoint'');
     token \<leftarrow> req_read (as_url X) (oget ob ''token_endpoint'');
     jwks \<leftarrow> opt_read (as_url X) (oget ob ''jwks_uri'');
     registration \<leftarrow> opt_read (as_url X) (oget ob ''registration_endpoint'');
     scopes \<leftarrow> opt_read (list_read as_string) (oget ob ''scopes_supported'');
     types \<leftarrow> req_read (list_read as_string) (oget ob ''response_types_supported'');
     modes \<leftarrow> opt_read (list_read as_string) (oget ob ''response_modes_supported'');
     grants \<leftarrow> opt_read (list_read as_string) (oget ob ''grant_types_supported'');
     methods \<leftarrow> opt_read (list_read as_string) (oget ob ''token_endpoint_auth_methods_supported'');
     algs \<leftarrow> opt_read (list_read as_string) (oget ob ''token_endpoint_auth_signing_alg_values_supported'');
     documentation \<leftarrow> opt_read (as_url X) (oget ob ''service_documentation'');
     locales \<leftarrow> opt_read (list_read as_string) (oget ob ''ui_locales_supported'');
     policy \<leftarrow> opt_read (as_url X) (oget ob ''op_policy_uri'');
     tos \<leftarrow> opt_read (as_url X) (oget ob ''op_tos_uri'');
     revocation \<leftarrow> opt_read (as_url X) (oget ob ''revocation_endpoint'');
     rmethods \<leftarrow> opt_read (list_read as_string) (oget ob ''revocation_endpoint_auth_methods_supported'');
     ralgs \<leftarrow> opt_read (list_read as_string) (oget ob ''revocation_endpoint_auth_signing_alg_values_supported'');
     introspection \<leftarrow> opt_read (as_url X) (oget ob ''introspection_endpoint'');
     imethods \<leftarrow> opt_read (list_read as_string) (oget ob ''introspection_endpoint_auth_methods_supported'');
     ialgs \<leftarrow> opt_read (list_read as_string) (oget ob ''introspection_endpoint_auth_signing_alg_values_supported'');
     challenges \<leftarrow> opt_read (list_read as_string) (oget ob ''code_challenge_methods_supported'');
     Some \<lparr>pre_authorized_grant_anonymous_access_supported = anonymous, as_issuer = issuer,
       authorization_endpoint = authorization, token_endpoint = token, as_jwks_uri = jwks,
       registration_endpoint = registration, scopes_supported = scopes, response_types_supported = types,
       response_modes_supported = modes, grant_types_supported = grants,
       token_endpoint_auth_methods_supported = methods,
       token_endpoint_auth_signing_alg_values_supported = algs, service_documentation = documentation,
       ui_locales_supported = locales, op_policy_uri = policy, op_tos_uri = tos, revocation_endpoint = revocation,
       revocation_endpoint_auth_methods_supported = rmethods,
       revocation_endpoint_auth_signing_alg_values_supported = ralgs, introspection_endpoint = introspection,
       introspection_endpoint_auth_methods_supported = imethods,
       introspection_endpoint_auth_signing_alg_values_supported = ialgs,
       code_challenge_methods_supported = challenges\<rparr> }"

definition authz_metadata_write :: "AuthorizationServerMetadata \<Rightarrow> obj" where
  "authz_metadata_write m = members
     [(''pre-authorized_grant_anonymous_access_supported'', map_option JBool (pre_authorized_grant_anonymous_access_supported m)),
      (''issuer'', Some (JStr (as_issuer m))),
      (''authorization_endpoint'', Some (JStr (authorization_endpoint m))),
      (''token_endpoint'', Some (JStr (token_endpoint m))),
      (''jwks_uri'', map_option JStr (as_jwks_uri m)),
      (''registration_endpoint'', map_option JStr (registration_endpoint m)),
      (''scopes_supported'', map_option (list_write JStr) (scopes_supported m)),
      (''response_types_supported'', Some (list_write JStr (response_types_supported m))),
      (''response_modes_supported'', map_option (list_write JStr) (response_modes_supported m)),
      (''grant_types_supported'', map_option (list_write JStr) (grant_types_supported m)),
      (''token_endpoint_auth_methods_supported'', map_option (list_write JStr) (token_endpoint_auth_methods_supported m)),
      (''token_endpoint_auth_signing_alg_values_supported'',
        map_option (list_write JStr) (token_endpoint_auth_signing_alg_values_supported m)),
      (''service_documentation'', map_option JStr (service_documentation m)),
      (''ui_locales_supported'', map_option (list_write JStr) (ui_locales_supported m)),
      (''op_policy_uri'', map_option JStr (op_policy_uri m)),
      (''op_tos_uri'', map_option JStr (op_tos_uri m)),
      (''revocation_endpoint'', map_option JStr (revocation_endpoint m)),
      (''revocation_endpoint_auth_methods_supported'',
        map_option (list_write JStr) (revocation_endpoint_auth_methods_supported m)),
      (''revocation_endpoint_auth_signing_alg_values_supported'',
        map_option (list_write JStr) (revocation_endpoint_auth_signing_alg_values_supported m)),
      (''introspection_endpoint'', map_option JStr (introspection_endpoint m)),
      (''introspection_endpoint_auth_methods_supported'',
        map_option (list_write JStr) (introspection_endpoint_auth_methods_supported m)),
      (''introspection_endpoint_auth_signing_alg_values_supported'',
        map_option (list_write JStr) (introspection_endpoint_auth_signing_alg_values_supported m)),
      (''code_challenge_methods_supported'', map_option (list_write JStr) (code_challenge_methods_supported m))]"

definition authz_metadata_ok :: "ext \<Rightarrow> AuthorizationServerMetadata \<Rightarrow> bool" where
  "authz_metadata_ok X m \<longleftrightarrow>
     list_all (url_ok X) [as_issuer m, authorization_endpoint m, token_endpoint m] \<and>
     list_all (pred_option (url_ok X)) [as_jwks_uri m, registration_endpoint m, service_documentation m, op_policy_uri m,
       op_tos_uri m, revocation_endpoint m, introspection_endpoint m]"

lemma authz_metadata_codec:
  assumes "url_stable X"
  shows "codec (AuthorizationServerMetadata_parse X) (\<lambda>m. JObj (authz_metadata_write m)) (authz_metadata_ok X)"
proof
  note urls = codec.opt_read_write [OF url_codec [OF assms]] codec.req_read_write [OF url_codec [OF assms]]
  fix m assume "authz_metadata_ok X m"
  then show "AuthorizationServerMetadata_parse X (JObj (authz_metadata_write m)) = Some m"
    by (simp add: AuthorizationServerMetadata_parse_def authz_metadata_write_def as_object_def authz_metadata_ok_def plain_codecs urls)
next
  fix v m assume "AuthorizationServerMetadata_parse X v = Some m"
  then show "authz_metadata_ok X m"
    by (auto simp: AuthorizationServerMetadata_parse_def bind_eq_Some_conv authz_metadata_ok_def
        dest: codec.opt_read_ok [OF url_codec [OF assms]] codec.req_read_ok [OF url_codec [OF assms]])
qed

subsection \<open>OAuth policies\<close>

definition dpop_modes :: "(string \<times> DPoPMode) list" where
  "dpop_modes = [(''off'', Off), (''optional'', Optional), (''required'', Required)]"

definition constraint_methods :: "(string \<times> SenderConstraintMethod) list" where
  "constraint_methods = [(''none'', MethodNone), (''dpop'', MethodDpop), (''mtls'', MethodMtls)]"

primrec dpop_mode_write :: "DPoPMode \<Rightarrow> jsval" where
  "dpop_mode_write Off = JStr ''off''"
| "dpop_mode_write Optional = JStr ''optional''"
| "dpop_mode_write Required = JStr ''required''"

primrec constraint_method_write :: "SenderConstraintMethod \<Rightarrow> jsval" where
  "constraint_method_write MethodNone = JStr ''none''"
| "constraint_method_write MethodDpop = JStr ''dpop''"
| "constraint_method_write MethodMtls = JStr ''mtls''"

definition DpopOptions_read :: "jsval \<Rightarrow> DpopOptions option" where
  "DpopOptions_read v = do {
     ob \<leftarrow> as_object v;
     mode \<leftarrow> opt_read (as_enum dpop_modes) (oget ob ''mode'');
     Some \<lparr>dpop_mode = mode\<rparr> }"

definition DpopOptions_write :: "DpopOptions \<Rightarrow> jsval" where
  "DpopOptions_write d = JObj (members [(''mode'', map_option dpop_mode_write (dpop_mode d))])"

definition SenderConstrainedAccessToken_read :: "jsval \<Rightarrow> SenderConstrainedAccessToken option" where
  "SenderConstrainedAccessToken_read v = do {
     ob \<leftarrow> as_object v;
     met \<leftarrow> opt_read (as_enum constraint_methods) (oget ob ''method'');
     dpop \<leftarrow> opt_read DpopOptions_read (oget ob ''dpop'');
     Some \<lparr>sc_method = met, sc_dpop = dpop\<rparr> }"

definition SenderConstrainedAccessToken_write :: "SenderConstrainedAccessToken \<Rightarrow> jsval" where
  "SenderConstrainedAccessToken_write s = JObj (members
     [(''method'', map_option constraint_method_write (sc_method s)), (''dpop'', map_option DpopOptions_write (sc_dpop s))])"

definition AuthzClientPolicy_read :: "jsval \<Rightarrow> AuthzClientPolicy option" where
  "AuthzClientPolicy_read v = do {
     ob \<leftarrow> as_object v;
     sender \<leftarrow> opt_read SenderConstrainedAccessToken_read (oget ob ''senderConstrainedAccessToken'');
     Some \<lparr>cp_senderConstrainedAccessToken = sender\<rparr> }"

definition AuthzClientPolicy_write :: "AuthzClientPolicy \<Rightarrow> jsval" where
  "AuthzClientPolicy_write p = JObj (members
     [(''senderConstrainedAccessToken'', map_option SenderConstrainedAccessToken_write (cp_senderConstrainedAccessToken p))])"

definition AuthzOAuthPolicy_parse :: "jsval \<Rightarrow> AuthzOAuthPolicy option" where
  "AuthzOAuthPolicy_parse v = do {
     ob \<leftarrow> as_object v;
     default \<leftarrow> opt_read AuthzClientPolicy_read (oget ob ''default_client'');
     anonymous \<leftarrow> opt_read AuthzClientPolicy_read (oget ob ''anonymous_client'');
     Some \<lparr>default_client = default, anonymous_client = anonymous\<rparr> }"

definition policy_write :: "AuthzOAuthPolicy \<Rightarrow> obj" where
  "policy_write p = members
     [(''default_client'', map_option AuthzClientPolicy_write (default_client p)),
      (''anonymous_client'', map_option AuthzClientPolicy_write (anonymous_client p))]"

interpretation dpop_modes: codec "as_enum dpop_modes" dpop_mode_write any
proof
  fix m show "as_enum dpop_modes (dpop_mode_write m) = Some m" by (cases m) (simp_all add: as_enum_def dpop_modes_def)
qed simp

interpretation constraint_methods: codec "as_enum constraint_methods" constraint_method_write any
proof
  fix m show "as_enum constraint_methods (constraint_method_write m) = Some m"
    by (cases m) (simp_all add: as_enum_def constraint_methods_def)
qed simp

interpretation dpop_options: codec DpopOptions_read DpopOptions_write any
  by unfold_locales (simp_all add: DpopOptions_read_def DpopOptions_write_def as_object_def dpop_modes.opt_read_write)

interpretation sender_constraints: codec SenderConstrainedAccessToken_read SenderConstrainedAccessToken_write any
  by unfold_locales (simp_all add: SenderConstrainedAccessToken_read_def SenderConstrainedAccessToken_write_def as_object_def
      constraint_methods.opt_read_write dpop_options.opt_read_write)

interpretation client_policies: codec AuthzClientPolicy_read AuthzClientPolicy_write any
  by unfold_locales (simp_all add: AuthzClientPolicy_read_def AuthzClientPolicy_write_def as_object_def sender_constraints.opt_read_write)

interpretation policies: codec AuthzOAuthPolicy_parse "\<lambda>p. JObj (policy_write p)" any
  by unfold_locales (simp_all add: AuthzOAuthPolicy_parse_def policy_write_def as_object_def client_policies.opt_read_write)

subsection \<open>OAuth clients\<close>

text \<open>A \<open>passthrough\<close> object: unknown members follow the known ones.\<close>

definition client_keys :: "string list" where
  "client_keys =
     [''client_id'', ''client_name'', ''token_endpoint_auth_method'', ''token_endpoint_auth_signing_alg'',
      ''client_assertion_audience'', ''jwks'', ''jwks_uri'', ''allowed_grant_types'', ''senderConstrainedAccessToken'',
      ''enabled'', ''comment'']"

definition unknown :: "string list \<Rightarrow> obj \<Rightarrow> obj" where
  "unknown ks ob = filter (\<lambda>(k, v). k \<notin> set ks) ob"

definition jwks_read :: "jsval \<Rightarrow> obj list option" where
  "jwks_read v = do { ob \<leftarrow> as_object v; req_read (list_read as_object) (oget ob ''keys'') }"

definition jwks_write :: "obj list \<Rightarrow> jsval" where
  "jwks_write ks = JObj [(''keys'', list_write JObj ks)]"

definition nonempty_string :: "jsval \<Rightarrow> string option" where
  "nonempty_string v = do { s \<leftarrow> as_string v; if s = [] then None else Some s }"

definition AuthzOAuthClient_parse :: "ext \<Rightarrow> jsval \<Rightarrow> AuthzOAuthClient option" where
  "AuthzOAuthClient_parse X v = do {
     ob \<leftarrow> as_object v;
     ident \<leftarrow> req_read nonempty_string (oget ob ''client_id'');
     name \<leftarrow> opt_read as_string (oget ob ''client_name'');
     auth \<leftarrow> opt_read as_string (oget ob ''token_endpoint_auth_method'');
     alg \<leftarrow> opt_read as_string (oget ob ''token_endpoint_auth_signing_alg'');
     audience \<leftarrow> opt_read as_string (oget ob ''client_assertion_audience'');
     jwks \<leftarrow> opt_read jwks_read (oget ob ''jwks'');
     uri \<leftarrow> opt_read (as_url X) (oget ob ''jwks_uri'');
     grants \<leftarrow> opt_read (list_read as_string) (oget ob ''allowed_grant_types'');
     sender \<leftarrow> opt_read SenderConstrainedAccessToken_read (oget ob ''senderConstrainedAccessToken'');
     enabled \<leftarrow> opt_read as_boolean (oget ob ''enabled'');
     remark \<leftarrow> opt_read as_string (oget ob ''comment'');
     Some \<lparr>client_id = ident, client_name = name, token_endpoint_auth_method = auth,
       token_endpoint_auth_signing_alg = alg, client_assertion_audience = audience, client_jwks = jwks,
       client_jwks_uri = uri, allowed_grant_types = grants, senderConstrainedAccessToken = sender,
       client_enabled = enabled, client_comment = remark, client_passthrough = unknown client_keys ob\<rparr> }"

definition client_write :: "AuthzOAuthClient \<Rightarrow> obj" where
  "client_write c = members
     [(''client_id'', Some (JStr (client_id c))), (''client_name'', map_option JStr (client_name c)),
      (''token_endpoint_auth_method'', map_option JStr (token_endpoint_auth_method c)),
      (''token_endpoint_auth_signing_alg'', map_option JStr (token_endpoint_auth_signing_alg c)),
      (''client_assertion_audience'', map_option JStr (client_assertion_audience c)),
      (''jwks'', map_option jwks_write (client_jwks c)), (''jwks_uri'', map_option JStr (client_jwks_uri c)),
      (''allowed_grant_types'', map_option (list_write JStr) (allowed_grant_types c)),
      (''senderConstrainedAccessToken'', map_option SenderConstrainedAccessToken_write (senderConstrainedAccessToken c)),
      (''enabled'', map_option JBool (client_enabled c)), (''comment'', map_option JStr (client_comment c))] @
     client_passthrough c"

definition client_ok :: "ext \<Rightarrow> AuthzOAuthClient \<Rightarrow> bool" where
  "client_ok X c \<longleftrightarrow>
     client_id c \<noteq> [] \<and> pred_option (url_ok X) (client_jwks_uri c) \<and>
     list_all (\<lambda>(k, v). k \<notin> set client_keys) (client_passthrough c)"

interpretation objects: codec as_object JObj any
  by unfold_locales (simp_all add: as_object_def)

interpretation jwks: codec jwks_read jwks_write any
  by unfold_locales (simp_all add: jwks_read_def jwks_write_def as_object_def codec.req_read_write [OF list_codec [OF objects.codec_axioms]])

interpretation nonempty_strings: codec nonempty_string JStr "\<lambda>s. s \<noteq> []"
  by unfold_locales (auto simp: nonempty_string_def as_string_def split: jsval.splits if_splits)

lemma unknown_members:
  assumes "set (map fst kvs) \<subseteq> set ks"
  shows "unknown ks (members kvs) = []"
proof -
  have "fst ` set (members kvs) \<subseteq> set ks" using order_trans [OF members_keys] assms by simp
  then show ?thesis by (simp add: unknown_def filter_empty_conv image_subset_iff case_prod_beta)
qed

lemma unknown_append: "unknown ks (a @ b) = unknown ks a @ unknown ks b"
  by (simp add: unknown_def)

lemma unknown_same: "list_all (\<lambda>(k, v). k \<notin> set ks) ob \<Longrightarrow> unknown ks ob = ob"
  by (simp add: unknown_def filter_id_conv list_all_iff)

lemma oget_unknown: "list_all (\<lambda>(k, v). k \<notin> set ks) ob \<Longrightarrow> k \<in> set ks \<Longrightarrow> oget ob k = None"
  by (auto simp: oget_def map_of_eq_None_iff list_all_iff)

lemma oget_append_absent: "oget b k = None \<Longrightarrow> oget (a @ b) k = oget a k"
  by (simp add: oget_append split: option.split)

lemma client_codec:
  assumes "url_stable X"
  shows "codec (AuthzOAuthClient_parse X) (\<lambda>c. JObj (client_write c)) (client_ok X)"
proof
  note urls = codec.opt_read_write [OF url_codec [OF assms]]
  fix c assume ok: "client_ok X c"
  then have absent: "oget (client_passthrough c) k = None" if "k \<in> set client_keys" for k
    using that by (auto simp: client_ok_def intro: oget_unknown)
  have rest: "unknown client_keys (client_write c) = client_passthrough c"
    using ok unfolding client_write_def unknown_append
    by (subst unknown_members) (simp_all add: client_keys_def unknown_same client_ok_def)
  show "AuthzOAuthClient_parse X (JObj (client_write c)) = Some c"
    using ok rest absent
    by (simp add: AuthzOAuthClient_parse_def as_object_def) (simp add: client_write_def oget_append_absent client_keys_def client_ok_def
        plain_codecs urls nonempty_strings.req_read_write jwks.opt_read_write sender_constraints.opt_read_write)
next
  fix v c assume "AuthzOAuthClient_parse X v = Some c"
  then show "client_ok X c"
    by (auto simp: AuthzOAuthClient_parse_def bind_eq_Some_conv client_ok_def unknown_def list_all_iff
        dest: codec.opt_read_ok [OF url_codec [OF assms]] nonempty_strings.req_read_ok)
qed

end
