(* ===== verification/Issuer_Schema.thy ===== *)
theory Issuer_Schema
  imports Schemas
begin

text \<open>
  The schema of issuer metadata (\<open>credential-issuer.types.ts\<close>): displays, claims, credential
  configurations, encryption parameters, and the refinement that locales occur once.
\<close>

subsection \<open>Displays\<close>

definition LogoDetails_read :: "ext \<Rightarrow> jsval \<Rightarrow> LogoDetails option" where
  "LogoDetails_read X v = do {
     ob \<leftarrow> as_object v;
     uri \<leftarrow> req_read (as_url X) (oget ob ''uri'');
     alt \<leftarrow> opt_read as_string (oget ob ''alt_text'');
     Some \<lparr>logo_uri = uri, alt_text = alt\<rparr> }"

definition LogoDetails_write :: "LogoDetails \<Rightarrow> jsval" where
  "LogoDetails_write l = JObj (members [(''uri'', Some (JStr (logo_uri l))), (''alt_text'', map_option JStr (alt_text l))])"

definition IssuerDisplay_read :: "ext \<Rightarrow> jsval \<Rightarrow> IssuerDisplay option" where
  "IssuerDisplay_read X v = do {
     ob \<leftarrow> as_object v;
     name \<leftarrow> opt_read as_string (oget ob ''name'');
     loc \<leftarrow> opt_read as_string (oget ob ''locale'');
     logo \<leftarrow> opt_read (LogoDetails_read X) (oget ob ''logo'');
     Some \<lparr>id_name = name, id_locale = loc, id_logo = logo\<rparr> }"

definition IssuerDisplay_write :: "IssuerDisplay \<Rightarrow> jsval" where
  "IssuerDisplay_write d = JObj (members
     [(''name'', map_option JStr (id_name d)), (''locale'', map_option JStr (id_locale d)),
      (''logo'', map_option LogoDetails_write (id_logo d))])"

text \<open>\<open>/^#[0-9a-fA-F]{6}$/\<close>.\<close>

definition hex_digit :: "char \<Rightarrow> bool" where
  "hex_digit c \<longleftrightarrow> 48 \<le> code c \<and> code c \<le> 57 \<or> 97 \<le> code c \<and> code c \<le> 102 \<or> 65 \<le> code c \<and> code c \<le> 70"

definition color_ok :: "string \<Rightarrow> bool" where
  "color_ok s \<longleftrightarrow> (case s of [] \<Rightarrow> False | c # cs \<Rightarrow> c = CHR ''#'' \<and> length cs = 6 \<and> list_all hex_digit cs)"

definition as_color :: "jsval \<Rightarrow> string option" where
  "as_color v = do { s \<leftarrow> as_string v; if color_ok s then Some s else None }"

definition background_image_read :: "ext \<Rightarrow> jsval \<Rightarrow> string option" where
  "background_image_read X v = do { ob \<leftarrow> as_object v; req_read (as_url X) (oget ob ''uri'') }"

definition background_image_write :: "string \<Rightarrow> jsval" where
  "background_image_write u = JObj [(''uri'', JStr u)]"

definition CredentialMetadataDisplay_read :: "ext \<Rightarrow> jsval \<Rightarrow> CredentialMetadataDisplay option" where
  "CredentialMetadataDisplay_read X v = do {
     ob \<leftarrow> as_object v;
     name \<leftarrow> req_read as_string (oget ob ''name'');
     loc \<leftarrow> opt_read as_string (oget ob ''locale'');
     logo \<leftarrow> opt_read (LogoDetails_read X) (oget ob ''logo'');
     description \<leftarrow> opt_read as_string (oget ob ''description'');
     background \<leftarrow> opt_read as_color (oget ob ''background_color'');
     image \<leftarrow> opt_read (background_image_read X) (oget ob ''background_image'');
     color \<leftarrow> opt_read as_color (oget ob ''text_color'');
     Some \<lparr>md_name = name, md_locale = loc, md_logo = logo, md_description = description,
       md_background_color = background, md_background_image = image, md_text_color = color\<rparr> }"

definition CredentialMetadataDisplay_write :: "CredentialMetadataDisplay \<Rightarrow> jsval" where
  "CredentialMetadataDisplay_write d = JObj (members
     [(''name'', Some (JStr (md_name d))), (''locale'', map_option JStr (md_locale d)),
      (''logo'', map_option LogoDetails_write (md_logo d)), (''description'', map_option JStr (md_description d)),
      (''background_color'', map_option JStr (md_background_color d)),
      (''background_image'', map_option background_image_write (md_background_image d)),
      (''text_color'', map_option JStr (md_text_color d))])"

definition CredentialMetadataClaimDisplay_read :: "jsval \<Rightarrow> CredentialMetadataClaimDisplay option" where
  "CredentialMetadataClaimDisplay_read v = do {
     ob \<leftarrow> as_object v;
     name \<leftarrow> opt_read as_string (oget ob ''name'');
     loc \<leftarrow> opt_read as_string (oget ob ''locale'');
     Some \<lparr>cd_name = name, cd_locale = loc\<rparr> }"

definition CredentialMetadataClaimDisplay_write :: "CredentialMetadataClaimDisplay \<Rightarrow> jsval" where
  "CredentialMetadataClaimDisplay_write d = JObj (members
     [(''name'', map_option JStr (cd_name d)), (''locale'', map_option JStr (cd_locale d))])"

definition CredentialMetadataClaim_read :: "jsval \<Rightarrow> CredentialMetadataClaim option" where
  "CredentialMetadataClaim_read v = do {
     ob \<leftarrow> as_object v;
     path \<leftarrow> req_read (nonempty_read as_string) (oget ob ''path'');
     mandatory \<leftarrow> opt_read as_boolean (oget ob ''mandatory'');
     display \<leftarrow> opt_read (nonempty_read CredentialMetadataClaimDisplay_read) (oget ob ''display'');
     Some \<lparr>claim_path = path, claim_mandatory = mandatory, claim_display = display\<rparr> }"

definition CredentialMetadataClaim_write :: "CredentialMetadataClaim \<Rightarrow> jsval" where
  "CredentialMetadataClaim_write c = JObj (members
     [(''path'', Some (list_write JStr (claim_path c))), (''mandatory'', map_option JBool (claim_mandatory c)),
      (''display'', map_option (list_write CredentialMetadataClaimDisplay_write) (claim_display c))])"

definition CredentialMetadata_read :: "ext \<Rightarrow> jsval \<Rightarrow> CredentialMetadata option" where
  "CredentialMetadata_read X v = do {
     ob \<leftarrow> as_object v;
     display \<leftarrow> opt_read (nonempty_read (CredentialMetadataDisplay_read X)) (oget ob ''display'');
     claims \<leftarrow> opt_read (nonempty_read CredentialMetadataClaim_read) (oget ob ''claims'');
     Some \<lparr>cm_display = display, cm_claims = claims\<rparr> }"

definition CredentialMetadata_write :: "CredentialMetadata \<Rightarrow> jsval" where
  "CredentialMetadata_write m = JObj (members
     [(''display'', map_option (list_write CredentialMetadataDisplay_write) (cm_display m)),
      (''claims'', map_option (list_write CredentialMetadataClaim_write) (cm_claims m))])"

text \<open>What a read display, claim or metadata satisfies.\<close>

definition logo_ok :: "ext \<Rightarrow> LogoDetails \<Rightarrow> bool" where
  "logo_ok X l \<longleftrightarrow> url_ok X (logo_uri l)"

definition issuer_display_ok :: "ext \<Rightarrow> IssuerDisplay \<Rightarrow> bool" where
  "issuer_display_ok X d \<longleftrightarrow> pred_option (logo_ok X) (id_logo d)"

definition display_ok :: "ext \<Rightarrow> CredentialMetadataDisplay \<Rightarrow> bool" where
  "display_ok X d \<longleftrightarrow>
     pred_option (logo_ok X) (md_logo d) \<and> pred_option color_ok (md_background_color d) \<and>
     pred_option (url_ok X) (md_background_image d) \<and> pred_option color_ok (md_text_color d)"

definition nonempty_all :: "('a \<Rightarrow> bool) \<Rightarrow> 'a list \<Rightarrow> bool" where
  "nonempty_all p xs \<longleftrightarrow> xs \<noteq> [] \<and> list_all p xs"

definition claim_ok :: "CredentialMetadataClaim \<Rightarrow> bool" where
  "claim_ok c \<longleftrightarrow> nonempty_all any (claim_path c) \<and> pred_option (nonempty_all any) (claim_display c)"

definition credential_metadata_ok :: "ext \<Rightarrow> CredentialMetadata \<Rightarrow> bool" where
  "credential_metadata_ok X m \<longleftrightarrow>
     pred_option (nonempty_all (display_ok X)) (cm_display m) \<and> pred_option (nonempty_all claim_ok) (cm_claims m)"

lemma nonempty_all_codec: "codec r w p \<Longrightarrow> codec (nonempty_read r) (list_write w) (nonempty_all p)"
  using nonempty_codec unfolding nonempty_all_def by blast

interpretation colors: codec as_color JStr color_ok
  by unfold_locales (auto simp: as_color_def as_string_def split: jsval.splits if_splits)

interpretation claim_displays: codec CredentialMetadataClaimDisplay_read CredentialMetadataClaimDisplay_write any
  by unfold_locales (simp_all add: CredentialMetadataClaimDisplay_read_def CredentialMetadataClaimDisplay_write_def as_object_def plain_codecs)

interpretation string_paths: codec "nonempty_read as_string" "list_write JStr" "nonempty_all any"
  by (rule nonempty_all_codec) (rule strings.codec_axioms)

interpretation claim_display_lists: codec "nonempty_read CredentialMetadataClaimDisplay_read"
    "list_write CredentialMetadataClaimDisplay_write" "nonempty_all any"
  by (rule nonempty_all_codec) (rule claim_displays.codec_axioms)

interpretation claims: codec CredentialMetadataClaim_read CredentialMetadataClaim_write claim_ok
  by unfold_locales (auto simp: CredentialMetadataClaim_read_def CredentialMetadataClaim_write_def as_object_def claim_ok_def plain_codecs
      string_paths.req_read_write claim_display_lists.opt_read_write bind_eq_Some_conv
      dest: string_paths.req_read_ok claim_display_lists.opt_read_ok)

lemma logo_codec:
  assumes "url_stable X" shows "codec (LogoDetails_read X) LogoDetails_write (logo_ok X)"
  by unfold_locales (auto simp: LogoDetails_read_def LogoDetails_write_def as_object_def logo_ok_def plain_codecs bind_eq_Some_conv
      codec.req_read_write [OF url_codec [OF assms]] dest: codec.req_read_ok [OF url_codec [OF assms]])

lemma issuer_display_codec:
  assumes "url_stable X" shows "codec (IssuerDisplay_read X) IssuerDisplay_write (issuer_display_ok X)"
  by unfold_locales (auto simp: IssuerDisplay_read_def IssuerDisplay_write_def as_object_def issuer_display_ok_def plain_codecs bind_eq_Some_conv
      codec.opt_read_write [OF logo_codec [OF assms]] dest: codec.opt_read_ok [OF logo_codec [OF assms]])

lemma background_image_codec:
  assumes "url_stable X" shows "codec (background_image_read X) background_image_write (url_ok X)"
  by unfold_locales (auto simp: background_image_read_def background_image_write_def as_object_def bind_eq_Some_conv
      codec.req_read_write [OF url_codec [OF assms]] dest: codec.req_read_ok [OF url_codec [OF assms]])

lemma display_codec:
  assumes "url_stable X" shows "codec (CredentialMetadataDisplay_read X) CredentialMetadataDisplay_write (display_ok X)"
  by unfold_locales (auto simp: CredentialMetadataDisplay_read_def CredentialMetadataDisplay_write_def as_object_def display_ok_def
      plain_codecs bind_eq_Some_conv colors.opt_read_write codec.opt_read_write [OF logo_codec [OF assms]]
      codec.opt_read_write [OF background_image_codec [OF assms]]
      dest: colors.opt_read_ok codec.opt_read_ok [OF logo_codec [OF assms]] codec.opt_read_ok [OF background_image_codec [OF assms]])

lemma credential_metadata_codec:
  assumes "url_stable X" shows "codec (CredentialMetadata_read X) CredentialMetadata_write (credential_metadata_ok X)"
proof -
  note displays = nonempty_all_codec [OF display_codec [OF assms]] and claims = nonempty_all_codec [OF claims.codec_axioms]
  show ?thesis
    by unfold_locales (auto simp: CredentialMetadata_read_def CredentialMetadata_write_def as_object_def credential_metadata_ok_def
        bind_eq_Some_conv codec.opt_read_write [OF displays] codec.opt_read_write [OF claims]
        dest: codec.opt_read_ok [OF displays] codec.opt_read_ok [OF claims])
qed

subsection \<open>Credential configurations\<close>

definition CredentialDefinition_read :: "jsval \<Rightarrow> CredentialDefinition option" where
  "CredentialDefinition_read v = do {
     ob \<leftarrow> as_object v;
     types \<leftarrow> req_read (nonempty_read as_string) (oget ob ''type'');
     ctx \<leftarrow> opt_read (list_read as_string) (oget ob ''@context'');
     Some \<lparr>cdef_type = types, cdef_context = ctx\<rparr> }"

definition CredentialDefinition_write :: "CredentialDefinition \<Rightarrow> jsval" where
  "CredentialDefinition_write d = JObj (members
     [(''type'', Some (list_write JStr (cdef_type d))), (''@context'', map_option (list_write JStr) (cdef_context d))])"

definition ProofTypeSupported_read :: "jsval \<Rightarrow> string list option" where
  "ProofTypeSupported_read v = do {
     ob \<leftarrow> as_object v; req_read (list_read as_string) (oget ob ''proof_signing_alg_values_supported'') }"

definition ProofTypeSupported_write :: "string list \<Rightarrow> jsval" where
  "ProofTypeSupported_write algs = JObj [(''proof_signing_alg_values_supported'', list_write JStr algs)]"

text \<open>\<open>z.union([z.string(), z.array(z.string())])\<close>.\<close>

definition cred_format_read :: "jsval \<Rightarrow> cred_format option" where
  "cred_format_read v =
     (case as_string v of Some s \<Rightarrow> Some (Format s) | None \<Rightarrow> map_option Formats (list_read as_string v))"

primrec cred_format_write :: "cred_format \<Rightarrow> jsval" where
  "cred_format_write (Format s) = JStr s"
| "cred_format_write (Formats fs) = list_write JStr fs"

definition CredentialConfigurationSupported_read :: "ext \<Rightarrow> jsval \<Rightarrow> CredentialConfigurationSupported option" where
  "CredentialConfigurationSupported_read X v = do {
     ob \<leftarrow> as_object v;
     form \<leftarrow> req_read cred_format_read (oget ob ''format'');
     scope \<leftarrow> opt_read as_string (oget ob ''scope'');
     binding \<leftarrow> opt_read (list_read as_string) (oget ob ''cryptographic_binding_methods_supported'');
     suites \<leftarrow> opt_read (list_read as_string) (oget ob ''cryptographic_suites_supported'');
     proofs \<leftarrow> opt_read (entries_read ProofTypeSupported_read) (oget ob ''proof_types_supported'');
     algs \<leftarrow> opt_read (list_read as_string) (oget ob ''credential_signing_alg_values_supported'');
     meta \<leftarrow> opt_read (CredentialMetadata_read X) (oget ob ''credential_metadata'');
     def \<leftarrow> opt_read CredentialDefinition_read (oget ob ''credential_definition'');
     doctype \<leftarrow> opt_read as_string (oget ob ''doctype'');
     vct \<leftarrow> opt_read as_string (oget ob ''vct'');
     Some \<lparr>cc_format = form, cc_scope = scope, cryptographic_binding_methods_supported = binding,
       cryptographic_suites_supported = suites, proof_types_supported = proofs,
       credential_signing_alg_values_supported = algs, credential_metadata = meta, credential_definition = def,
       cc_doctype = doctype, cc_vct = vct\<rparr> }"

definition CredentialConfigurationSupported_write :: "CredentialConfigurationSupported \<Rightarrow> jsval" where
  "CredentialConfigurationSupported_write c = JObj (members
     [(''format'', Some (cred_format_write (cc_format c))), (''scope'', map_option JStr (cc_scope c)),
      (''cryptographic_binding_methods_supported'', map_option (list_write JStr) (cryptographic_binding_methods_supported c)),
      (''cryptographic_suites_supported'', map_option (list_write JStr) (cryptographic_suites_supported c)),
      (''proof_types_supported'', map_option (entries_write ProofTypeSupported_write) (proof_types_supported c)),
      (''credential_signing_alg_values_supported'', map_option (list_write JStr) (credential_signing_alg_values_supported c)),
      (''credential_metadata'', map_option CredentialMetadata_write (credential_metadata c)),
      (''credential_definition'', map_option CredentialDefinition_write (credential_definition c)),
      (''doctype'', map_option JStr (cc_doctype c)), (''vct'', map_option JStr (cc_vct c))])"

definition definition_ok :: "CredentialDefinition \<Rightarrow> bool" where
  "definition_ok d \<longleftrightarrow> nonempty_all any (cdef_type d)"

definition configuration_ok :: "ext \<Rightarrow> CredentialConfigurationSupported \<Rightarrow> bool" where
  "configuration_ok X c \<longleftrightarrow>
     pred_option (credential_metadata_ok X) (credential_metadata c) \<and> pred_option definition_ok (credential_definition c)"

interpretation definitions: codec CredentialDefinition_read CredentialDefinition_write definition_ok
  by unfold_locales (auto simp: CredentialDefinition_read_def CredentialDefinition_write_def as_object_def definition_ok_def plain_codecs
      string_paths.req_read_write bind_eq_Some_conv dest: string_paths.req_read_ok)

interpretation proof_types: codec ProofTypeSupported_read ProofTypeSupported_write any
  by unfold_locales (simp_all add: ProofTypeSupported_read_def ProofTypeSupported_write_def as_object_def plain_codecs)

interpretation formats: codec cred_format_read cred_format_write any
proof
  fix f show "cred_format_read (cred_format_write f) = Some f"
    using codec.read_write [OF string_list_codec]
    by (cases f) (simp_all add: cred_format_read_def as_string_def list_write_def)
qed simp

lemma any_entries [simp]: "pred_option (list_all (\<lambda>e. True)) v"
  by (simp add: pred_option_def list_all_iff)

lemma configuration_codec:
  assumes "url_stable X"
  shows "codec (CredentialConfigurationSupported_read X) CredentialConfigurationSupported_write (configuration_ok X)"
proof -
  note meta = credential_metadata_codec [OF assms] and proofs = entries_codec [OF proof_types.codec_axioms]
  show ?thesis
    by unfold_locales (auto simp: CredentialConfigurationSupported_read_def CredentialConfigurationSupported_write_def as_object_def
        configuration_ok_def plain_codecs bind_eq_Some_conv formats.req_read_write definitions.opt_read_write
        codec.opt_read_write [OF meta] codec.opt_read_write [OF proofs]
        dest: definitions.opt_read_ok codec.opt_read_ok [OF meta])
qed

subsection \<open>Encryption and batches\<close>

text \<open>An intersection: the member of the first schema, then the others.\<close>

definition encryption_jwk_read :: "jsval \<Rightarrow> obj option" where
  "encryption_jwk_read v = do {
     ob \<leftarrow> as_object v;
     kid \<leftarrow> req_read as_string (oget ob ''kid'');
     Some ((''kid'', JStr kid) # unknown [''kid''] ob) }"

definition encryption_jwks_read :: "jsval \<Rightarrow> obj list option" where
  "encryption_jwks_read v = do { ob \<leftarrow> as_object v; req_read (nonempty_read encryption_jwk_read) (oget ob ''keys'') }"

definition CredentialRequestEncryption_read :: "jsval \<Rightarrow> CredentialRequestEncryption option" where
  "CredentialRequestEncryption_read v = do {
     ob \<leftarrow> as_object v;
     jwks \<leftarrow> req_read encryption_jwks_read (oget ob ''jwks'');
     encs \<leftarrow> req_read (nonempty_read as_string) (oget ob ''enc_values_supported'');
     zips \<leftarrow> opt_read (nonempty_read as_string) (oget ob ''zip_values_supported'');
     required \<leftarrow> req_read as_boolean (oget ob ''encryption_required'');
     Some \<lparr>req_jwks = jwks, req_enc_values_supported = encs, req_zip_values_supported = zips,
       req_encryption_required = required\<rparr> }"

definition CredentialRequestEncryption_write :: "CredentialRequestEncryption \<Rightarrow> jsval" where
  "CredentialRequestEncryption_write e = JObj (members
     [(''jwks'', Some (jwks_write (req_jwks e))), (''enc_values_supported'', Some (list_write JStr (req_enc_values_supported e))),
      (''zip_values_supported'', map_option (list_write JStr) (req_zip_values_supported e)),
      (''encryption_required'', Some (JBool (req_encryption_required e)))])"

definition CredentialResponseEncryption_read :: "jsval \<Rightarrow> CredentialResponseEncryption option" where
  "CredentialResponseEncryption_read v = do {
     ob \<leftarrow> as_object v;
     algs \<leftarrow> req_read (nonempty_read as_string) (oget ob ''alg_values_supported'');
     encs \<leftarrow> req_read (nonempty_read as_string) (oget ob ''enc_values_supported'');
     zips \<leftarrow> opt_read (nonempty_read as_string) (oget ob ''zip_values_supported'');
     required \<leftarrow> req_read as_boolean (oget ob ''encryption_required'');
     Some \<lparr>resp_alg_values_supported = algs, resp_enc_values_supported = encs, resp_zip_values_supported = zips,
       resp_encryption_required = required\<rparr> }"

definition CredentialResponseEncryption_write :: "CredentialResponseEncryption \<Rightarrow> jsval" where
  "CredentialResponseEncryption_write e = JObj (members
     [(''alg_values_supported'', Some (list_write JStr (resp_alg_values_supported e))),
      (''enc_values_supported'', Some (list_write JStr (resp_enc_values_supported e))),
      (''zip_values_supported'', map_option (list_write JStr) (resp_zip_values_supported e)),
      (''encryption_required'', Some (JBool (resp_encryption_required e)))])"

text \<open>\<open>z.number().int().min(m)\<close>: a safe integer.\<close>

fun as_integer :: "int \<Rightarrow> jsval \<Rightarrow> int option" where
  "as_integer m (JNum (Fin r)) =
     (if r = of_int \<lfloor>r\<rfloor> \<and> m \<le> \<lfloor>r\<rfloor> \<and> \<lfloor>r\<rfloor> \<le> MAX_SAFE_INTEGER then Some \<lfloor>r\<rfloor> else None)"
| "as_integer m v = None"

definition batch_size_read :: "jsval \<Rightarrow> int option" where
  "batch_size_read v = do { ob \<leftarrow> as_object v; req_read (as_integer 2) (oget ob ''batch_size'') }"

definition batch_size_write :: "int \<Rightarrow> jsval" where
  "batch_size_write n = JObj [(''batch_size'', JNum (num_int n))]"

definition batch_size_ok :: "int \<Rightarrow> bool" where
  "batch_size_ok n \<longleftrightarrow> 2 \<le> n \<and> n \<le> MAX_SAFE_INTEGER"

definition encryption_jwk_ok :: "obj \<Rightarrow> bool" where
  "encryption_jwk_ok ob \<longleftrightarrow>
     (case ob of [] \<Rightarrow> False | (k, v) # rest \<Rightarrow> k = ''kid'' \<and> as_string v \<noteq> None \<and> list_all (\<lambda>(k, v). k \<notin> set [''kid'']) rest)"

definition request_encryption_ok :: "CredentialRequestEncryption \<Rightarrow> bool" where
  "request_encryption_ok e \<longleftrightarrow>
     nonempty_all encryption_jwk_ok (req_jwks e) \<and> nonempty_all any (req_enc_values_supported e) \<and>
     pred_option (nonempty_all any) (req_zip_values_supported e)"

definition response_encryption_conforms :: "CredentialResponseEncryption \<Rightarrow> bool" where
  "response_encryption_conforms e \<longleftrightarrow>
     nonempty_all any (resp_alg_values_supported e) \<and> nonempty_all any (resp_enc_values_supported e) \<and>
     pred_option (nonempty_all any) (resp_zip_values_supported e)"

interpretation integers: codec "as_integer m" "\<lambda>n. JNum (num_int n)" "\<lambda>n. m \<le> n \<and> n \<le> MAX_SAFE_INTEGER" for m
proof
  show "m \<le> n \<and> n \<le> MAX_SAFE_INTEGER" if "as_integer m v = Some n" for v n
    using that by (cases "(m, v)" rule: as_integer.cases) (auto split: if_splits)
qed simp

interpretation batch_sizes: codec batch_size_read batch_size_write batch_size_ok
  by unfold_locales (auto simp: batch_size_read_def batch_size_write_def batch_size_ok_def as_object_def bind_eq_Some_conv
      integers.req_read_write dest: integers.req_read_ok)

interpretation encryption_jwks_items: codec encryption_jwk_read JObj encryption_jwk_ok
proof
  fix ob assume "encryption_jwk_ok ob"
  then show "encryption_jwk_read (JObj ob) = Some ob"
    by (auto simp: encryption_jwk_ok_def encryption_jwk_read_def as_object_def req_read_def unknown_def filter_id_conv list_all_iff
        as_string_def split: list.splits prod.splits jsval.splits)
next
  fix v ob assume "encryption_jwk_read v = Some ob"
  then show "encryption_jwk_ok ob"
    by (auto simp: encryption_jwk_ok_def encryption_jwk_read_def bind_eq_Some_conv unknown_def list_all_iff as_string_def)
qed

interpretation encryption_jwk_lists: codec "nonempty_read encryption_jwk_read" "list_write JObj" "nonempty_all encryption_jwk_ok"
  by (rule nonempty_all_codec) (rule encryption_jwks_items.codec_axioms)

interpretation encryption_jwks: codec encryption_jwks_read jwks_write "nonempty_all encryption_jwk_ok"
  by unfold_locales (auto simp: encryption_jwks_read_def jwks_write_def as_object_def bind_eq_Some_conv
      encryption_jwk_lists.req_read_write dest: encryption_jwk_lists.req_read_ok)

interpretation request_encryptions: codec CredentialRequestEncryption_read CredentialRequestEncryption_write request_encryption_ok
  by unfold_locales (auto simp: CredentialRequestEncryption_read_def CredentialRequestEncryption_write_def as_object_def
      request_encryption_ok_def bind_eq_Some_conv encryption_jwks.req_read_write string_paths.req_read_write string_paths.opt_read_write
      plain_codecs dest: encryption_jwks.req_read_ok string_paths.req_read_ok string_paths.opt_read_ok)

interpretation response_encryptions: codec CredentialResponseEncryption_read CredentialResponseEncryption_write response_encryption_conforms
  by unfold_locales (auto simp: CredentialResponseEncryption_read_def CredentialResponseEncryption_write_def as_object_def
      response_encryption_conforms_def bind_eq_Some_conv string_paths.req_read_write string_paths.opt_read_write
      plain_codecs dest: string_paths.req_read_ok string_paths.opt_read_ok)

subsection \<open>Issuer metadata\<close>

text \<open>\<open>validateUniqueLocaleArray\<close>: no locale, trimmed and in lower case, is seen twice.\<close>

definition locale_name :: "string \<Rightarrow> string" where
  "locale_name l = js_lower (js_trim l)"

fun unseen_locales :: "string list \<Rightarrow> string option list \<Rightarrow> bool" where
  "unseen_locales seen [] = True"
| "unseen_locales seen (None # ls) = unseen_locales seen ls"
| "unseen_locales seen (Some l # ls) =
     (locale_name l \<notin> set seen \<and> unseen_locales (locale_name l # seen) ls)"

definition validateUniqueLocaleArray :: "string option list option \<Rightarrow> bool" where
  "validateUniqueLocaleArray arr = (case arr of None \<Rightarrow> True | Some ls \<Rightarrow> unseen_locales [] ls)"

definition present_locales :: "string option list \<Rightarrow> string list" where
  "present_locales ls = map locale_name (List.map_filter id ls)"

lemma unseen_locales_iff: "unseen_locales seen ls \<longleftrightarrow> distinct (present_locales ls) \<and> set seen \<inter> set (present_locales ls) = {}"
  by (induction seen ls rule: unseen_locales.induct) (auto simp: present_locales_def List.map_filter_simps)

text \<open>The refinement of the whole schema.\<close>

definition locales_of_configuration :: "CredentialConfigurationSupported \<Rightarrow> string option list option list" where
  "locales_of_configuration c =
     (case credential_metadata c of
        None \<Rightarrow> []
      | Some m \<Rightarrow> map_option (map md_locale) (cm_display m) #
          map (\<lambda>cl. map_option (map cd_locale) (claim_display cl)) (getOr [] (cm_claims m)))"

definition locale_arrays :: "CredentialIssuerMetadata \<Rightarrow> string option list option list" where
  "locale_arrays m =
     map_option (map id_locale) (issuer_display m) #
     concat (map (\<lambda>(i, c). locales_of_configuration c) (credential_configurations_supported m))"

definition locales_refinement :: "CredentialIssuerMetadata \<Rightarrow> bool" where
  "locales_refinement m = list_all validateUniqueLocaleArray (locale_arrays m)"

definition CredentialIssuerMetadata_base :: "ext \<Rightarrow> jsval \<Rightarrow> CredentialIssuerMetadata option" where
  "CredentialIssuerMetadata_base X v = do {
     ob \<leftarrow> as_object v;
     issuer \<leftarrow> req_read (as_url X) (oget ob ''credential_issuer'');
     servers \<leftarrow> opt_read (list_read (as_url X)) (oget ob ''authorization_servers'');
     endpoint \<leftarrow> req_read (as_url X) (oget ob ''credential_endpoint'');
     nonces \<leftarrow> opt_read (as_url X) (oget ob ''nonce_endpoint'');
     deferred \<leftarrow> opt_read (as_url X) (oget ob ''deferred_credential_endpoint'');
     notification \<leftarrow> opt_read (as_url X) (oget ob ''notification_endpoint'');
     request \<leftarrow> opt_read CredentialRequestEncryption_read (oget ob ''credential_request_encryption'');
     response \<leftarrow> opt_read CredentialResponseEncryption_read (oget ob ''credential_response_encryption'');
     batch \<leftarrow> opt_read batch_size_read (oget ob ''batch_credential_issuance'');
     configurations \<leftarrow> req_read (entries_read (CredentialConfigurationSupported_read X))
       (oget ob ''credential_configurations_supported'');
     manifest \<leftarrow> opt_read (as_url X) (oget ob ''credential_manifest_uri'');
     display \<leftarrow> opt_read (list_read (IssuerDisplay_read X)) (oget ob ''display'');
     Some \<lparr>credential_issuer = issuer, authorization_servers = servers, credential_endpoint = endpoint,
       nonce_endpoint = nonces, deferred_credential_endpoint = deferred, notification_endpoint = notification,
       credential_request_encryption = request, credential_response_encryption = response, batch_size = batch,
       credential_configurations_supported = configurations, credential_manifest_uri = manifest,
       issuer_display = display\<rparr> }"

definition CredentialIssuerMetadata_parse :: "ext \<Rightarrow> jsval \<Rightarrow> CredentialIssuerMetadata option" where
  "CredentialIssuerMetadata_parse X v = do {
     m \<leftarrow> CredentialIssuerMetadata_base X v;
     if locales_refinement m then Some m else None }"

definition issuer_metadata_write :: "CredentialIssuerMetadata \<Rightarrow> obj" where
  "issuer_metadata_write m = members
     [(''credential_issuer'', Some (JStr (credential_issuer m))),
      (''authorization_servers'', map_option (list_write JStr) (authorization_servers m)),
      (''credential_endpoint'', Some (JStr (credential_endpoint m))),
      (''nonce_endpoint'', map_option JStr (nonce_endpoint m)),
      (''deferred_credential_endpoint'', map_option JStr (deferred_credential_endpoint m)),
      (''notification_endpoint'', map_option JStr (notification_endpoint m)),
      (''credential_request_encryption'', map_option CredentialRequestEncryption_write (credential_request_encryption m)),
      (''credential_response_encryption'', map_option CredentialResponseEncryption_write (credential_response_encryption m)),
      (''batch_credential_issuance'', map_option batch_size_write (batch_size m)),
      (''credential_configurations_supported'',
        Some (entries_write CredentialConfigurationSupported_write (credential_configurations_supported m))),
      (''credential_manifest_uri'', map_option JStr (credential_manifest_uri m)),
      (''display'', map_option (list_write IssuerDisplay_write) (issuer_display m))]"

definition issuer_metadata_base_ok :: "ext \<Rightarrow> CredentialIssuerMetadata \<Rightarrow> bool" where
  "issuer_metadata_base_ok X m \<longleftrightarrow>
     list_all (url_ok X) [credential_issuer m, credential_endpoint m] \<and>
     list_all (pred_option (url_ok X))
       [nonce_endpoint m, deferred_credential_endpoint m, notification_endpoint m, credential_manifest_uri m] \<and>
     pred_option (list_all (url_ok X)) (authorization_servers m) \<and>
     pred_option request_encryption_ok (credential_request_encryption m) \<and>
     pred_option response_encryption_conforms (credential_response_encryption m) \<and>
     pred_option batch_size_ok (batch_size m) \<and>
     list_all (\<lambda>e. configuration_ok X (snd e)) (credential_configurations_supported m) \<and>
     pred_option (list_all (issuer_display_ok X)) (issuer_display m)"

definition issuer_metadata_ok :: "ext \<Rightarrow> CredentialIssuerMetadata \<Rightarrow> bool" where
  "issuer_metadata_ok X m \<longleftrightarrow>
     issuer_metadata_base_ok X m \<and>
     (\<forall>ls. Some ls \<in> set (locale_arrays m) \<longrightarrow> distinct (present_locales ls))"

lemma issuer_metadata_base_codec:
  assumes "url_stable X"
  shows "codec (CredentialIssuerMetadata_base X) (\<lambda>m. JObj (issuer_metadata_write m)) (issuer_metadata_base_ok X)"
proof -
  note url = url_codec [OF assms]
  note url_list = list_codec [OF url] and displays = list_codec [OF issuer_display_codec [OF assms]]
    and configurations = entries_codec [OF configuration_codec [OF assms]]
  show ?thesis
    by unfold_locales (auto simp: CredentialIssuerMetadata_base_def issuer_metadata_write_def as_object_def issuer_metadata_base_ok_def
        bind_eq_Some_conv codec.opt_read_write [OF url] codec.req_read_write [OF url] codec.opt_read_write [OF url_list]
        codec.opt_read_write [OF displays] codec.req_read_write [OF configurations] request_encryptions.opt_read_write
        response_encryptions.opt_read_write batch_sizes.opt_read_write
        dest: codec.opt_read_ok [OF url] codec.req_read_ok [OF url] codec.opt_read_ok [OF url_list] codec.opt_read_ok [OF displays]
          codec.req_read_ok [OF configurations] request_encryptions.opt_read_ok response_encryptions.opt_read_ok batch_sizes.opt_read_ok)
qed

lemma locales_refinement_iff:
  "locales_refinement m \<longleftrightarrow> (\<forall>ls. Some ls \<in> set (locale_arrays m) \<longrightarrow> distinct (present_locales ls))"
  by (auto simp: locales_refinement_def list_all_iff validateUniqueLocaleArray_def unseen_locales_iff split: option.splits)

lemma issuer_metadata_codec:
  assumes "url_stable X"
  shows "codec (CredentialIssuerMetadata_parse X) (\<lambda>m. JObj (issuer_metadata_write m)) (issuer_metadata_ok X)"
  using codec.read_write [OF issuer_metadata_base_codec [OF assms]] codec.read_ok [OF issuer_metadata_base_codec [OF assms]]
  by unfold_locales
    (auto simp: CredentialIssuerMetadata_parse_def issuer_metadata_ok_def locales_refinement_iff bind_eq_Some_conv split: if_splits)

text \<open>C21. What the schema of issuer metadata returns conforms: every URL is one that the URL schema leaves
  as it is, arrays that must not be empty are not, colours have six hexadecimal digits, a batch
  size is at least two, and in every list of displays no locale, trimmed and in lower case,
  occurs twice. Parsing the result again returns it unchanged. The URL schema leaves a URL that it has
  returned as it is.\<close>

theorem issuer_metadata_conforms:
  assumes "url_stable X" and "CredentialIssuerMetadata_parse X v = Some m"
  shows "issuer_metadata_ok X m \<and> CredentialIssuerMetadata_parse X (JObj (issuer_metadata_write m)) = Some m"
  using codec.read_ok [OF issuer_metadata_codec [OF assms(1)] assms(2)] codec.read_write [OF issuer_metadata_codec [OF assms(1)]]
  by blast

definition sample_issuer_json :: "string list \<Rightarrow> jsval" where
  "sample_issuer_json locales = JObj
     [(''credential_issuer'', JStr ''https://issuer.example''), (''credential_endpoint'', JStr ''https://issuer.example/credentials''),
      (''batch_credential_issuance'', JObj [(''batch_size'', JNum (Fin 2))]),
      (''credential_configurations_supported'', JObj [(''degree'', JObj [(''format'', JStr ''jwt_vc_json''),
        (''credential_definition'', JObj [(''type'', JArr [JStr ''VerifiableCredential''])])])]),
      (''display'', JArr (map (\<lambda>l. JObj [(''locale'', JStr l)]) locales)), (''unknown'', JNull)]"

text \<open>Two locales are accepted, a repetition in other letters is not.\<close>

theorem issuer_metadata_conforms_witness:
  "\<exists>m. CredentialIssuerMetadata_parse ext0 (sample_issuer_json [''en'', ''ja'']) = Some m \<and> batch_size m = Some 2 \<and>
     issuer_metadata_ok ext0 m \<and> CredentialIssuerMetadata_parse ext0 (sample_issuer_json [''en'', '' EN'']) = None"
proof -
  have "map_option batch_size (CredentialIssuerMetadata_parse ext0 (sample_issuer_json [''en'', ''ja''])) = Some (Some 2)"
    by code_simp
  then obtain m where m: "CredentialIssuerMetadata_parse ext0 (sample_issuer_json [''en'', ''ja'']) = Some m" "batch_size m = Some 2"
    by auto
  have "url_stable ext0" by (simp add: url_stable_def ext0_def)
  moreover have "CredentialIssuerMetadata_parse ext0 (sample_issuer_json [''en'', '' EN'']) = None" by code_simp
  ultimately show ?thesis using m issuer_metadata_conforms [OF _ m(1)] by blast
qed

end
