(* ===== verification/Services.thy ===== *)
theory Services
  imports Interfaces
begin

text \<open>
  Operations that call a remote service: a program is a sequence of requests and readings of
  the clock, each followed by what the code does with the answer. One program run alone gives
  the operation; several programs run in any interleaving of their requests give what
  concurrent requests on several machines can do. The service itself is a parameter.
\<close>

subsection \<open>Programs\<close>

datatype ('c, 'r, 'a) program =
    Done "exn + 'a"
  | Send 'c "exn + 'r \<Rightarrow> ('c, 'r, 'a) program"
  | Clock "int \<Rightarrow> ('c, 'r, 'a) program"

primrec bindP :: "('c, 'r, 'a) program \<Rightarrow> ('a \<Rightarrow> ('c, 'r, 'b) program) \<Rightarrow> ('c, 'r, 'b) program" where
  "bindP (Done v) f = (case v of Inl e \<Rightarrow> Done (Inl e) | Inr x \<Rightarrow> f x)"
| "bindP (Send c k) f = Send c (\<lambda>r. bindP (k r) f)"
| "bindP (Clock k) f = Clock (\<lambda>t. bindP (k t) f)"

definition retP :: "'a \<Rightarrow> ('c, 'r, 'a) program" where
  "retP x = Done (Inr x)"

definition throwP :: "exn \<Rightarrow> ('c, 'r, 'a) program" where
  "throwP e = Done (Inl e)"

definition raiseP :: "error_code \<Rightarrow> string \<Rightarrow> ('c, 'r, 'a) program" where
  "raiseP c msg = throwP (err c msg)"

definition liftP :: "exn + 'a \<Rightarrow> ('c, 'r, 'a) program" where
  "liftP v = Done v"

text \<open>One request; its answer is a result, or the client library throws.\<close>

definition request :: "'c \<Rightarrow> ('c, 'r, 'r) program" where
  "request c = Send c Done"

text \<open>A request in a \<open>try\<close> block.\<close>

definition request_catch :: "'c \<Rightarrow> (exn \<Rightarrow> ('c, 'r, 'a) program) \<Rightarrow> ('r \<Rightarrow> ('c, 'r, 'a) program) \<Rightarrow> ('c, 'r, 'a) program" where
  "request_catch c h f = Send c (\<lambda>r. case r of Inl e \<Rightarrow> h e | Inr x \<Rightarrow> f x)"

definition clock :: "(int \<Rightarrow> ('c, 'r, 'a) program) \<Rightarrow> ('c, 'r, 'a) program" where
  "clock k = Clock k"

lemma bindP_simps [simp]:
  "bindP (retP x) f = f x" "bindP (throwP e) f = throwP e" "bindP (raiseP c msg) f = raiseP c msg"
  "bindP (request c) f = Send c (\<lambda>r. case r of Inl e \<Rightarrow> Done (Inl e) | Inr x \<Rightarrow> f x)"
  by (simp_all add: retP_def throwP_def raiseP_def request_def)

text \<open>The program has ended with one of the results \<open>win\<close>.\<close>

definition won :: "('a \<Rightarrow> bool) \<Rightarrow> ('c, 'r, 'a) program \<Rightarrow> bool" where
  "won win p = (case p of Done (Inr x) \<Rightarrow> win x | _ \<Rightarrow> False)"

lemma won_simps [simp]:
  "won win (Done (Inr x)) = win x" "\<not> won win (Done (Inl e))" "\<not> won win (Send c k)" "\<not> won win (Clock q)"
  "won win (retP x) = win x" "\<not> won win (throwP e)" "\<not> won win (raiseP cd msg)" "\<not> won win (request_catch c h f)"
  "\<not> won win (clock q)"
  by (simp_all add: won_def retP_def throwP_def raiseP_def request_catch_def clock_def)

subsection \<open>A program alone\<close>

type_synonym ('c, 'r, 's) service = "'c \<Rightarrow> 's \<Rightarrow> (exn + 'r) \<times> 's"

text \<open>The run at one reading of the clock.\<close>

primrec alone :: "('c, 'r, 's) service \<Rightarrow> int \<Rightarrow> ('c, 'r, 'a) program \<Rightarrow> ('s, 'a) M" where
  "alone send now (Done v) = (\<lambda>s. (v, s))"
| "alone send now (Send c k) = (\<lambda>s. case send c s of (r, s') \<Rightarrow> alone send now (k r) s')"
| "alone send now (Clock k) = alone send now (k now)"

lemma alone_simps [simp]:
  "alone send now (retP x) s = (Inr x, s)" "alone send now (throwP e) s = (Inl e, s)"
  "alone send now (raiseP c msg) s = (Inl (err c msg), s)"
  "alone send now (liftP v) s = (v, s)"
  "alone send now (clock q) s = alone send now (q now) s"
  "alone send now (request_catch c' h f) s =
     (case send c' s of (r, s') \<Rightarrow> (case r of Inl e \<Rightarrow> alone send now (h e) s' | Inr x \<Rightarrow> alone send now (f x) s'))"
  by (simp_all add: retP_def throwP_def raiseP_def liftP_def clock_def request_catch_def split: prod.split sum.split)

lemma alone_bindP:
  "alone send now (bindP p f) = bindM (alone send now p) (\<lambda>x. alone send now (f x))"
  by (induction p) (auto simp: fun_eq_iff bindM_def split: sum.splits prod.splits)

text \<open>Calls one after the other, and their answers.\<close>

primrec replies :: "('c \<Rightarrow> ('s, 'a) M) \<Rightarrow> 'c list \<Rightarrow> 's \<Rightarrow> (exn + 'a) list" where
  "replies run [] s = []"
| "replies run (c # cs) s = (case run c s of (r, s') \<Rightarrow> r # replies run cs s')"

subsection \<open>Programs together\<close>

text \<open>
  Each step answers one request of one of the programs, lets one of them read the clock
  (\<open>clk\<close> are the possible readings), or lets the service change on its own (\<open>idle\<close>). The
  trace has the requests with their answers.
\<close>

inductive together ::
  "('c, 'r, 's) service \<Rightarrow> ('s \<Rightarrow> 's \<Rightarrow> bool) \<Rightarrow> (int \<Rightarrow> bool) \<Rightarrow> 's \<times> ('c, 'r, 'a) program list \<Rightarrow>
   ('c \<times> (exn + 'r)) list \<Rightarrow> 's \<times> ('c, 'r, 'a) program list \<Rightarrow> bool"
  for send idle clk start where
  begin_together: "together send idle clk start [] start"
| answer: "together send idle clk start tr (s, ps) \<Longrightarrow> i < length ps \<Longrightarrow> ps ! i = Send c k \<Longrightarrow>
     send c s = (r, s') \<Longrightarrow> together send idle clk start (tr @ [(c, r)]) (s', ps[i := k r])"
| tick: "together send idle clk start tr (s, ps) \<Longrightarrow> i < length ps \<Longrightarrow> ps ! i = Clock k \<Longrightarrow> clk t \<Longrightarrow>
     together send idle clk start tr (s, ps[i := k t])"
| idle: "together send idle clk start tr (s, ps) \<Longrightarrow> idle s s' \<Longrightarrow> together send idle clk start tr (s', ps)"

text \<open>One interleaving, computed: which program takes the next step, and what its clock reads.\<close>

primrec schedule ::
  "('c, 'r, 's) service \<Rightarrow> (nat \<times> int) list \<Rightarrow> 's \<times> ('c, 'r, 'a) program list \<Rightarrow>
   ('c \<times> (exn + 'r)) list \<times> 's \<times> ('c, 'r, 'a) program list" where
  "schedule send [] c = ([], c)"
| "schedule send (x # xs) c =
     (case snd c ! fst x of
        Done v \<Rightarrow> schedule send xs c
      | Send cmd k \<Rightarrow>
          (case send cmd (fst c) of (r, s') \<Rightarrow>
            (case schedule send xs (s', (snd c)[fst x := k r]) of (tr, c') \<Rightarrow> ((cmd, r) # tr, c')))
      | Clock q \<Rightarrow> schedule send xs (fst c, (snd c)[fst x := q (snd x)]))"

lemma schedule_together:
  assumes "together send idle clk start tr c" and "\<forall>x \<in> set xs. fst x < length (snd c) \<and> clk (snd x)"
  shows "together send idle clk start (tr @ fst (schedule send xs c)) (snd (schedule send xs c))"
  using assms
proof (induction xs arbitrary: tr c)
  case (Cons x xs)
  obtain s ps where c: "c = (s, ps)" by fastforce
  show ?case
  proof (cases "ps ! fst x")
    case (Send cmd k)
    obtain r s' where r: "send cmd s = (r, s')" by fastforce
    have "together send idle clk start (tr @ [(cmd, r)]) (s', ps[fst x := k r])"
      using Cons.prems c Send r by (auto intro: together.answer)
    from Cons.IH [OF this] show ?thesis using Cons.prems(2) c Send r by (simp add: case_prod_beta)
  next
    case (Clock q)
    have "together send idle clk start tr (s, ps[fst x := q (snd x)])"
      using Cons.prems c Clock by (auto intro: together.tick)
    from Cons.IH [OF this] show ?thesis using Cons.prems(2) c Clock by simp
  qed (use Cons c in simp)
qed simp

lemmas schedule_run = schedule_together [OF begin_together, simplified]

definition winners :: "('a \<Rightarrow> bool) \<Rightarrow> ('c, 'r, 'a) program list \<Rightarrow> nat" where
  "winners win ps = length (filter (won win) ps)"

definition holders :: "(('c, 'r, 'a) program \<Rightarrow> bool) \<Rightarrow> ('c, 'r, 'a) program list \<Rightarrow> nat" where
  "holders holds ps = length (filter holds ps)"

lemma holders_update:
  "i < length ps \<Longrightarrow>
     holders holds (ps[i := p]) + (if holds (ps ! i) then 1 else 0) = holders holds ps + (if holds p then 1 else 0)"
proof (induction ps arbitrary: i)
  case (Cons q ps)
  then show ?case by (cases i) (auto simp: holders_def)
qed simp

lemma holders_mono:
  "\<forall>p \<in> set ps. P p \<longrightarrow> Q p \<Longrightarrow> holders P ps \<le> holders Q ps"
  by (induction ps) (auto simp: holders_def)

text \<open>
  The contract of an operation that only one caller can complete: one request takes a token
  that the service has at most once, and nothing creates the token again. \<open>holds\<close> are the
  points of a program after it has taken the token.
\<close>

locale single_winner =
  fixes send :: "('c, 'r, 's) service" and idle :: "'s \<Rightarrow> 's \<Rightarrow> bool" and clk :: "int \<Rightarrow> bool" and win :: "'a \<Rightarrow> bool"
    and token :: "'s \<Rightarrow> bool" and form :: "('c, 'r, 'a) program \<Rightarrow> bool" and holds :: "('c, 'r, 'a) program \<Rightarrow> bool"
  assumes form_send: "form (Send c k) \<Longrightarrow> send c s = (r, s') \<Longrightarrow> form (k r)"
    and token_send: "form (Send c k) \<Longrightarrow> send c s = (r, s') \<Longrightarrow> token s' \<Longrightarrow> token s"
    and holds_send: "form (Send c k) \<Longrightarrow> \<not> holds (Send c k)"
    and takes_send: "form (Send c k) \<Longrightarrow> send c s = (r, s') \<Longrightarrow> holds (k r) \<Longrightarrow> token s \<and> \<not> token s'"
    and form_clock: "form (Clock q) \<Longrightarrow> clk t \<Longrightarrow> form (q t)"
    and holds_clock: "form (Clock q) \<Longrightarrow> clk t \<Longrightarrow> holds (q t) \<Longrightarrow> holds (Clock q)"
    and token_idle: "idle s s' \<Longrightarrow> token s' \<Longrightarrow> token s"
    and won_holds: "form p \<Longrightarrow> won win p \<Longrightarrow> holds p"
begin

lemma forms_kept:
  assumes "together send idle clk (s0, ps0) tr (s, ps)" and start: "\<forall>p \<in> set ps0. form p"
  shows "\<forall>p \<in> set ps. form p"
  using assms(1)
proof (induction tr "(s, ps)" arbitrary: s ps rule: together.induct)
  case begin_together
  then show ?case using start by simp
next
  case (answer tr s ps i c k r s')
  then have "form (Send c k)" by (metis nth_mem)
  then have "form (k r)" using answer(5) by (rule form_send)
  then show ?case using answer(2) set_update_subset_insert [of ps i "k r"] by auto
next
  case (tick tr s ps i k t)
  then have "form (Clock k)" by (metis nth_mem)
  then have "form (k t)" using tick(5) by (rule form_clock)
  then show ?case using tick(2) set_update_subset_insert [of ps i "k t"] by auto
next
  case (idle tr s ps s')
  then show ?case by simp
qed

lemma at_most_one_holder:
  assumes "together send idle clk (s0, ps0) tr (s, ps)" and start: "\<forall>p \<in> set ps0. form p" and "holders holds ps0 = 0"
  shows "holders holds ps + (if token s then 1 else 0) \<le> 1"
  using assms(1)
proof (induction tr "(s, ps)" arbitrary: s ps rule: together.induct)
  case begin_together
  then show ?case using assms(3) by simp
next
  case (answer tr s ps i c k r s')
  have f: "form (Send c k)" using forms_kept [OF answer(1) start] answer(3,4) by (metis nth_mem)
  have "holders holds (ps[i := k r]) = holders holds ps + (if holds (k r) then 1 else 0)"
    using holders_update [OF answer(3), of holds "k r"] holds_send [OF f] answer(4) by simp
  then show ?case
    using answer(2) token_send [OF f answer(5)] takes_send [OF f answer(5)] by (auto split: if_splits)
next
  case (tick tr s ps i k t)
  have f: "form (Clock k)" using forms_kept [OF tick(1) start] tick(3,4) by (metis nth_mem)
  have "holders holds (ps[i := k t]) \<le> holders holds ps"
    using holders_update [OF tick(3), of holds "k t"] holds_clock [OF f tick(5)] tick(4) by (auto split: if_splits)
  then show ?case using tick(2) by simp
next
  case (idle tr s ps s')
  then show ?case using token_idle [of s s'] by (auto split: if_splits)
qed

lemma at_most_one_winner:
  assumes "together send idle clk (s0, ps0) tr (s, ps)" and start: "\<forall>p \<in> set ps0. form p" and "holders holds ps0 = 0"
  shows "winners win ps + (if token s then 1 else 0) \<le> 1"
proof -
  have "winners win ps \<le> holders holds ps"
    using forms_kept [OF assms(1) start] won_holds holders_mono [of ps "won win" holds]
    by (simp add: winners_def holders_def)
  then show ?thesis using at_most_one_holder [OF assms] by simp
qed

end

subsection \<open>Obligations\<close>

text \<open>
  Some answers open an obligation (\<open>opens\<close>) and some requests close it (\<open>closes\<close>). \<open>settles\<close>:
  whatever the answers, the program closes the obligation before it ends. \<open>tidy\<close>: the program
  settles every obligation that one of its requests opens.
\<close>

primrec settles :: "('o \<Rightarrow> 'c \<Rightarrow> exn + 'r \<Rightarrow> bool) \<Rightarrow> 'o \<Rightarrow> ('c, 'r, 'a) program \<Rightarrow> bool" where
  "settles closes ob (Done v) = False"
| "settles closes ob (Send c k) = (\<forall>r. closes ob c r \<or> settles closes ob (k r))"
| "settles closes ob (Clock q) = (\<forall>t. settles closes ob (q t))"

primrec tidy :: "('c \<Rightarrow> exn + 'r \<Rightarrow> 'o option) \<Rightarrow> ('o \<Rightarrow> 'c \<Rightarrow> exn + 'r \<Rightarrow> bool) \<Rightarrow> ('c, 'r, 'a) program \<Rightarrow> bool" where
  "tidy opens closes (Done v) = True"
| "tidy opens closes (Send c k) =
     (\<forall>r. tidy opens closes (k r) \<and> (case opens c r of Some ob \<Rightarrow> settles closes ob (k r) | None \<Rightarrow> True))"
| "tidy opens closes (Clock q) = (\<forall>t. tidy opens closes (q t))"

lemma tidy_together:
  assumes "together send idle clk (s0, ps0) tr (s, ps)" and "\<forall>p \<in> set ps0. tidy opens closes p"
  shows "(\<forall>p \<in> set ps. tidy opens closes p) \<and>
    (\<forall>c r ob. (c, r) \<in> set tr \<longrightarrow> opens c r = Some ob \<longrightarrow>
       (\<exists>c' r'. (c', r') \<in> set tr \<and> closes ob c' r') \<or> (\<exists>p \<in> set ps. settles closes ob p))"
  using assms(1)
proof (induction tr "(s, ps)" arbitrary: s ps rule: together.induct)
  case begin_together
  then show ?case using assms(2) by simp
next
  case (answer tr s ps i c k r s')
  have t: "tidy opens closes (Send c k)" using answer(2,3,4) by (metis nth_mem)
  have in_ps: "k r \<in> set (ps[i := k r])" using answer(3) by (rule set_update_memI)
  have keep: "p \<in> set (ps[i := k r])" if "p \<in> set ps" "p \<noteq> ps ! i" for p
    using that answer(3) by (metis in_set_conv_nth length_list_update nth_list_update_neq)
  have old: "(\<exists>c' r'. (c', r') \<in> set (tr @ [(c, r)]) \<and> closes ob c' r') \<or> (\<exists>p \<in> set (ps[i := k r]). settles closes ob p)"
    if p: "p \<in> set ps" "settles closes ob p" for ob p
  proof (cases "p = ps ! i")
    case True
    then have "closes ob c r \<or> settles closes ob (k r)" using p(2) answer(4) by simp
    then show ?thesis using in_ps by auto
  next
    case False
    then show ?thesis using keep p by blast
  qed
  have new: "opens c r = Some ob \<Longrightarrow> settles closes ob (k r)" for ob
    using t by (auto split: option.splits dest!: spec [of _ r])
  have "\<forall>p \<in> set (ps[i := k r]). tidy opens closes p"
    using answer(2) t set_update_subset_insert [of ps i "k r"] by auto
  moreover have "(\<exists>c' r'. (c', r') \<in> set (tr @ [(c, r)]) \<and> closes ob c' r') \<or> (\<exists>p \<in> set (ps[i := k r]). settles closes ob p)"
    if o: "(c1, r1) \<in> set (tr @ [(c, r)])" "opens c1 r1 = Some ob" for c1 r1 ob
  proof (cases "(c1, r1) \<in> set tr")
    case True
    then have "(\<exists>c' r'. (c', r') \<in> set tr \<and> closes ob c' r') \<or> (\<exists>p \<in> set ps. settles closes ob p)"
      using answer(2) o(2) by blast
    then show ?thesis using old by auto
  next
    case False
    then show ?thesis using o new in_ps by auto
  qed
  ultimately show ?case by blast
next
  case (tick tr s ps i k t)
  have t: "tidy opens closes (Clock k)" using tick(2,3,4) by (metis nth_mem)
  have in_ps: "k t \<in> set (ps[i := k t])" using tick(3) by (rule set_update_memI)
  have keep: "\<exists>p \<in> set (ps[i := k t]). settles closes ob p" if p: "p \<in> set ps" "settles closes ob p" for ob p
  proof (cases "p = ps ! i")
    case True
    then have "settles closes ob (k t)" using p(2) tick(4) by simp
    then show ?thesis using in_ps by blast
  next
    case False
    then have "p \<in> set (ps[i := k t])" using p(1) tick(3) by (metis in_set_conv_nth length_list_update nth_list_update_neq)
    then show ?thesis using p(2) by blast
  qed
  have "\<forall>p \<in> set (ps[i := k t]). tidy opens closes p"
    using tick(2) t set_update_subset_insert [of ps i "k t"] by auto
  then show ?case using tick(2) keep by blast
next
  case (idle tr s ps s')
  then show ?case by simp
qed

text \<open>When all programs have ended, every obligation of the trace is closed in it.\<close>

lemma tidy_ended:
  assumes "together send idle clk (s0, ps0) tr (s, ps)" and "\<forall>p \<in> set ps0. tidy opens closes p"
    and "\<forall>p \<in> set ps. \<exists>v. p = Done v" and "(c, r) \<in> set tr" and "opens c r = Some ob"
  shows "\<exists>c' r'. (c', r') \<in> set tr \<and> closes ob c' r'"
proof -
  have "\<not> settles closes ob p" if "p \<in> set ps" for p using assms(3) that by auto
  then show ?thesis using tidy_together [OF assms(1,2)] assms(4,5) by blast
qed

subsection \<open>Stores that answer alike\<close>

locale step_refinement =
  fixes run :: "'c \<Rightarrow> ('s, 'a) M" and spec :: "'c \<Rightarrow> ('t, 'a) M" and rel :: "'s \<Rightarrow> 't \<Rightarrow> bool" and ok :: "'c \<Rightarrow> bool"
  assumes step: "rel s t \<Longrightarrow> ok c \<Longrightarrow>
    fst (run c s) = fst (spec c t) \<and> rel (snd (run c s)) (snd (spec c t))"
begin

lemma replies_eq: "rel s t \<Longrightarrow> list_all ok cs \<Longrightarrow> replies run cs s = replies spec cs t"
proof (induction cs arbitrary: s t)
  case (Cons c cs)
  then show ?case using step [of s t c] by (simp add: case_prod_beta)
qed simp

end

end
