(* ===== verification/Dynamo_Tables.thy ===== *)
theory Dynamo_Tables
  imports Services
begin

text \<open>
  DynamoDB as the AWS providers use it: the requests they send, and what its documentation
  promises of the answers. An item is an object with the partition key \<open>id\<close>. The service
  itself stays a parameter: a function that answers requests, with the table that a state of
  the service holds.
\<close>

subsection \<open>Requests\<close>

text \<open>
  \<open>GetItem\<close> with \<open>ConsistentRead\<close>; \<open>PutItem\<close>, plain or with the condition
  \<open>attribute_not_exists(id) OR expires_at < :now\<close>; the update \<open>ADD attempts :one\<close> under
  \<open>attribute_exists(id) AND (attribute_not_exists(attempts) OR attempts < :max)\<close>, which returns
  the new item; \<open>DeleteItem\<close>, plain, under \<open>attribute_exists(id)\<close>, with the old item
  returned, or under \<open>attribute_not_exists(expires_at) OR expires_at < :now\<close>.
\<close>

datatype dynamo_command =
    GetItem string bool
  | PutItem string obj
  | PutUnlessHeld string obj int
  | CountAttempt string int
  | DeleteItem string
  | DeleteExisting string
  | TakeItem string
  | DeleteExpired string int

type_synonym dynamo_table = "string \<Rightarrow> obj option"

type_synonym 'a dynamo_program = "(dynamo_command, obj option, 'a) program"

definition conditional_failed :: exn where
  "conditional_failed = JsError ''ConditionalCheckFailedException''"

definition num_attr :: "obj \<Rightarrow> string \<Rightarrow> jsnum option" where
  "num_attr ob k = (case oget ob k of Some (JNum n) \<Rightarrow> Some n | _ \<Rightarrow> None)"

definition attr_less :: "obj \<Rightarrow> string \<Rightarrow> int \<Rightarrow> bool" where
  "attr_less ob k n = (case num_attr ob k of Some a \<Rightarrow> num_lt a (num_int n) | None \<Rightarrow> False)"

subsection \<open>The documented answers\<close>

definition guarded ::
  "bool \<Rightarrow> (exn + obj option) \<times> dynamo_table \<Rightarrow> dynamo_table \<Rightarrow> (exn + obj option) \<times> dynamo_table" where
  "guarded condition ok m = (if condition then ok else (Inl conditional_failed, m))"

definition bump :: "obj \<Rightarrow> obj" where
  "bump ob = oset ob ''attempts'' (JNum (num_add (getOr (num_int 0) (num_attr ob ''attempts'')) (num_int 1)))"

fun documented :: "dynamo_command \<Rightarrow> dynamo_table \<Rightarrow> (exn + obj option) \<times> dynamo_table" where
  "documented (GetItem k c) m = (Inr (m k), m)"
| "documented (PutItem k i) m = (Inr None, m(k \<mapsto> i))"
| "documented (PutUnlessHeld k i now) m =
     guarded (case m k of None \<Rightarrow> True | Some old \<Rightarrow> attr_less old ''expires_at'' now) (Inr None, m(k \<mapsto> i)) m"
| "documented (CountAttempt k limit) m =
     (case m k of
        None \<Rightarrow> (Inl conditional_failed, m)
      | Some i \<Rightarrow> guarded (\<not> ohas i ''attempts'' \<or> attr_less i ''attempts'' limit)
          (Inr (Some (bump i)), m(k \<mapsto> bump i)) m)"
| "documented (DeleteItem k) m = (Inr None, m(k := None))"
| "documented (DeleteExisting k) m = guarded (m k \<noteq> None) (Inr None, m(k := None)) m"
| "documented (TakeItem k) m = (Inr (m k), m(k := None))"
| "documented (DeleteExpired k now) m =
     guarded (case m k of None \<Rightarrow> True | Some i \<Rightarrow> \<not> ohas i ''expires_at'' \<or> attr_less i ''expires_at'' now)
       (Inr None, m(k := None)) m"

text \<open>
  What the providers rely on: an answer is the documented one; any other error leaves open
  whether the request took effect; a read that is not consistent may be out of date; and the
  service may drop items on its own (time to live).
\<close>

locale dynamo =
  fixes send :: "(dynamo_command, obj option, 's) service"
    and items :: "'s \<Rightarrow> dynamo_table"
    and expire :: "'s \<Rightarrow> 's \<Rightarrow> bool"
  assumes answers:
      "send c s = (r, s') \<Longrightarrow>
         (r, items s') = documented c (items s) \<or>
         (\<exists>e. r = Inl e \<and> e \<noteq> conditional_failed \<and> items s' \<in> {items s, snd (documented c (items s))}) \<or>
         (\<exists>k. c = GetItem k False \<and> items s' = items s)"
    and drops: "expire s s' \<Longrightarrow> items s' k = None \<or> items s' k = items s k"

text \<open>The service while it is available and its reads are current.\<close>

locale dynamo_available = dynamo +
  assumes available: "send c s = (r, s') \<Longrightarrow> (r, items s') = documented c (items s)"

text \<open>The documentation as a service.\<close>

interpretation table: dynamo_available documented "\<lambda>m. m" "\<lambda>m m'. \<forall>k. m' k = None \<or> m' k = m k"
  by unfold_locales auto

context dynamo_available begin

lemma sendI: "\<exists>s'. send c s = (fst (documented c (items s)), s') \<and> items s' = snd (documented c (items s))"
proof -
  obtain r s' where r: "send c s = (r, s')" by fastforce
  from available [OF r] show ?thesis using r by (metis fst_conv snd_conv)
qed

text \<open>A program alone on the service is the program alone on its table.\<close>

lemma alone_table:
  "fst (alone send now p s) = fst (alone documented now p (items s)) \<and>
   items (snd (alone send now p s)) = snd (alone documented now p (items s))"
proof (induction p arbitrary: s)
  case (Send c k)
  obtain s' where s': "send c s = (fst (documented c (items s)), s')" "items s' = snd (documented c (items s))"
    using sendI by blast
  then show ?case using Send [OF rangeI, of "fst (documented c (items s))" s'] by (simp add: case_prod_beta)
qed simp_all

lemma thenM_alone:
  assumes "fst (f s) = fst (g t)" and "items (snd (f s)) = snd (g t)"
  shows "fst (thenM f (ret x) s) = fst (thenM g (ret x) t) \<and> items (snd (thenM f (ret x) s)) = snd (thenM g (ret x) t)"
  using assms by (simp add: thenM_def bindM_def ret_def case_prod_beta split: sum.split)

lemma replies_on_items:
  assumes "\<And>q s. fst (f q s) = fst (g q (items s)) \<and> items (snd (f q s)) = snd (g q (items s))"
  shows "replies f qs s = replies g qs (items s)"
proof (induction qs arbitrary: s)
  case (Cons q qs)
  then show ?case using assms [of q s] by (simp add: case_prod_beta)
qed simp

end

end
