(* ===== verification/Verify_Jwt_Vp.thy ===== *)
theory Verify_Jwt_Vp
  imports Presentation_Types Credential_Proof
begin

text \<open>
  Verification of JWT presentations: the signature check
  (\<open>jwt-signature.provider.ts\<close>), the check of one credential against the keys its issuer
  publishes (\<open>verify-credential-jwt-vc-json.provider.ts\<close>), holder binding
  (\<open>holder-binding.provider.ts\<close>) and the presentation itself
  (\<open>verify-presentation-jwt-vp-json.provider.ts\<close>).
\<close>

subsection \<open>Signatures\<close>

text \<open>The names of the errors of jsonwebtoken that are \<open>JsonWebTokenError\<close>s.\<close>

definition is_jwt_error :: "exn \<Rightarrow> bool" where
  "is_jwt_error e = (e \<in> {JsError ''JsonWebTokenError'', JsError ''TokenExpiredError'', JsError ''NotBeforeError''})"

definition jwk_to_pem :: "ext \<Rightarrow> vlib \<Rightarrow> jsval \<Rightarrow> exn + string" where
  "jwk_to_pem X V jwk = (case createPublicKey V jwk of Inl e \<Rightarrow> Inl e | Inr key \<Rightarrow> export_spki X key)"

definition jwtSignature_verify :: "ext \<Rightarrow> vlib \<Rightarrow> string \<Rightarrow> obj \<Rightarrow> (world, bool) M" where
  "jwtSignature_verify X V token pk =
     bindM (liftE (jwk_to_pem X V (JObj pk))) (\<lambda>pemKey.
     bindM now_ms (\<lambda>now.
     case jwt_verify V now token (PemKey pemKey) False of
       Inl e \<Rightarrow>
         if is_jwt_error e then raise ''invalid_jwt'' ''Invalid signature detected.''
         else raise ''internal_server_error'' ''Unexpected error''
     | Inr payload \<Rightarrow> ret True))"

subsection \<open>One credential\<close>

definition invalid_vc :: exn where
  "invalid_vc = err ''invalid_credential'' ''VC JWT is not valid''"

text \<open>The part after the first dot, as base64url and JSON.\<close>

definition vc_payload :: "ext \<Rightarrow> string \<Rightarrow> exn + obj" where
  "vc_payload X vc =
     (case decode_json X (getOr [] (js_nth (js_split (CHR ''.'') vc) 1)) of
        Some (JObj raw) \<Rightarrow> Inr raw
      | _ \<Rightarrow> Inl invalid_vc)"

definition credential_part :: "obj \<Rightarrow> jsval" where
  "credential_part decoded = (if truthy (oget decoded ''vc'') then getOr JNull (oget decoded ''vc'') else JObj decoded)"

definition vc_issuer :: "ext \<Rightarrow> vlib \<Rightarrow> obj \<Rightarrow> string option" where
  "vc_issuer X V decoded =
     (let credential = credential_part decoded in
      if parseVerifiableCredentialBase X V credential then str_of (vget credential ''issuer'') else None)"

definition drop_slashes :: "string \<Rightarrow> string" where
  "drop_slashes s = dropWhile (\<lambda>c. c = CHR ''/'') s"

definition well_known :: string where
  "well_known = ''.well-known/jwt-vc-issuer''"

definition resolve_or_throw :: "vlib \<Rightarrow> string \<Rightarrow> string \<Rightarrow> exn + string" where
  "resolve_or_throw V rel base = (case url_resolve V rel base of None \<Rightarrow> Inl (JsError ''TypeError'') | Some u \<Rightarrow> Inr u)"

definition issuer_metadata_url :: "ext \<Rightarrow> vlib \<Rightarrow> url \<Rightarrow> exn + string" where
  "issuer_metadata_url X V issUri =
     (if url_pathname issUri \<noteq> ''/'' then
        resolve_or_throw V (well_known @ ''/'' @ drop_slashes (url_pathname issUri)) (url_string X issUri)
      else resolve_or_throw V well_known (url_string X issUri))"

text \<open>A GET request that must answer with JSON; the errors carry the code \<open>c\<close>.\<close>

definition fetch_json :: "vlib \<Rightarrow> error_code \<Rightarrow> string \<Rightarrow> (world, jsval) M" where
  "fetch_json V c u =
     bindM (fetch_url V u) (\<lambda>response.
     if \<not> http_ok response then raise c ''Failed to fetch''
     else case http_json response of
            None \<Rightarrow> raise c ''is not valid JSON''
          | Some v \<Rightarrow> ret v)"

text \<open>The key set the metadata refers to or contains; \<open>c\<close> is the provider's error code.\<close>

definition issuer_jwks :: "vlib \<Rightarrow> error_code \<Rightarrow> jsval \<Rightarrow> (world, jsval) M" where
  "issuer_jwks V c metadata =
     (if opt_str (str_of (vget metadata ''jwks_uri'')) then
        fetch_json V c (getOr [] (str_of (vget metadata ''jwks_uri'')))
      else case vget metadata ''jwks'' of
             Some v \<Rightarrow> if is_object v then ret v else raise c ''No JWKS or JWKS URI found in issuer metadata''
           | None \<Rightarrow> raise c ''No JWKS or JWKS URI found in issuer metadata'')"

text \<open>
  \<open>jwks.keys[0]\<close>: an array's own \<open>keys\<close> is a function, which has no member 0.
\<close>

definition first_key :: "jsval \<Rightarrow> exn + jsval option" where
  "first_key jwks =
     (case jwks of
        JArr xs \<Rightarrow> Inr None
      | _ \<Rightarrow>
          (case js_prop jwks ''keys'' of
             Inl e \<Rightarrow> Inl e
           | Inr (Some (JArr ks)) \<Rightarrow> Inr (js_nth ks 0)
           | Inr (Some (JStr s)) \<Rightarrow> Inr (map_option (\<lambda>c. JStr [c]) (js_nth s 0))
           | Inr (Some (JObj ob)) \<Rightarrow> Inr (oget ob ''0'')
           | Inr (Some JNull) \<Rightarrow> Inl (JsError ''TypeError'')
           | Inr (Some v) \<Rightarrow> Inr None
           | Inr None \<Rightarrow> Inl (JsError ''TypeError'')))"

definition vc_allowed_alg :: "string list option \<Rightarrow> obj \<Rightarrow> bool" where
  "vc_allowed_alg allowedAlgs h =
     (case allowedAlgs of
        None \<Rightarrow> True
      | Some algs \<Rightarrow> truthy (oget h ''alg'') \<and> list_ex (\<lambda>a. oget h ''alg'' = Some (JStr a)) algs)"

definition verifyCredential :: "ext \<Rightarrow> vlib \<Rightarrow> string \<Rightarrow> string list option \<Rightarrow> (world, bool) M" where
  "verifyCredential X V vc allowedAlgs =
     (case jwt_decode V vc of
        Inl e \<Rightarrow> throw invalid_vc
      | Inr None \<Rightarrow> throw invalid_vc
      | Inr (Some decodedJwtVc) \<Rightarrow>
          if \<not> vc_allowed_alg allowedAlgs (dj_header decodedJwtVc) then
            raise ''verifier_vp_formats_not_supported'' ''VC algorithm is not in jwt_vc_json alg_values.''
          else bindM (liftE (vc_payload X vc)) (\<lambda>decoded.
            case (if opt_str (vc_issuer X V decoded) then vc_issuer X V decoded else None) of
              None \<Rightarrow> throw invalid_vc
            | Some iss \<Rightarrow>
                (case url_parse X iss of
                   None \<Rightarrow> throw (JsError ''TypeError'')
                 | Some issUri \<Rightarrow>
                     if url_hostname issUri \<noteq> ''localhost'' \<and> url_protocol issUri \<noteq> ''https:'' then
                       raise ''invalid_credential'' ''Issuer URI must use https scheme''
                     else bindM (liftE (issuer_metadata_url X V issUri)) (\<lambda>metadataUrl.
                       bindM (fetch_json V ''invalid_credential'' metadataUrl) (\<lambda>metadata.
                       bindM (liftE (js_prop metadata ''issuer'')) (\<lambda>issuer.
                       if issuer \<noteq> Some (JStr iss) then
                         raise ''invalid_credential'' ''Issuer in metadata does not match VC issuer''
                       else bindM (issuer_jwks V ''jwks_not_found'' metadata) (\<lambda>jwks.
                         bindM (liftE (first_key jwks)) (\<lambda>publicJwk.
                         if \<not> truthy publicJwk then raise ''jwks_not_found'' ''Empty JWKS keys''
                         else bindM now_ms (\<lambda>now.
                           case (case createPublicKey V (getOr JNull publicJwk) of
                                   Inl e \<Rightarrow> Inl e
                                 | Inr k \<Rightarrow> jwt_verify V now vc (KeyObject k) True) of
                             Inl e \<Rightarrow> throw (rethrow ''invalid_credential'' e)
                           | Inr p \<Rightarrow> ret True)))))))))"

subsection \<open>Holder binding\<close>

text \<open>The DID in the subject of a credential.\<close>

definition subject_did :: "jsval \<Rightarrow> exn + string" where
  "subject_did vc =
     (case vget vc ''credentialSubject'' of
        None \<Rightarrow> Inl (err ''invalid_credential'' ''Missing credentialSubject in VC'')
      | Some sub \<Rightarrow>
          if \<not> truthy (Some sub) then Inl (err ''invalid_credential'' ''Missing credentialSubject in VC'')
          else if \<not> truthy (vget sub ''id'') then Inl (err ''invalid_credential'' ''Missing credentialSubject.id in VC'')
          else (case vget sub ''id'' of Some (JStr s) \<Rightarrow> Inr s | _ \<Rightarrow> Inl (JsError ''TypeError'')))"

text \<open>The method part of a DID; the provider that resolves it is the one for \<open>did:key\<close>.\<close>

definition did_method :: "string \<Rightarrow> exn + string" where
  "did_method did =
     (let didSplit = js_split (CHR '':'') did in
      if length didSplit < 3 \<or> didSplit ! 0 \<noteq> ''did'' then Inl (err ''invalid_proof'' ''Invalid DID format'')
      else Inr (didSplit ! 1))"

definition resolve_did :: "ext \<Rightarrow> string \<Rightarrow> exn + DidDocument option" where
  "resolve_did X did =
     (case did_method did of
        Inl e \<Rightarrow> Inl e
      | Inr m \<Rightarrow>
          (case selectProvider did_canHandle [''key''] m of
             Inl e \<Rightarrow> Inl e
           | Inr p \<Rightarrow> resolveDid X did))"

text \<open>Whether one of the methods has the given key; a method without a key is an error.\<close>

fun binds :: "ext \<Rightarrow> vlib \<Rightarrow> obj \<Rightarrow> VerificationMethod list \<Rightarrow> exn + bool" where
  "binds X V pk [] = Inr False"
| "binds X V pk (vm # vms) =
     (case publicKeyJwk vm of
        None \<Rightarrow> Inl (err ''invalid_credential'' ''Missing publicKeyJwk in DID'')
      | Some jwk \<Rightarrow>
          (case jwk_to_pem X V (JObj jwk) of
             Inl e \<Rightarrow> Inl e
           | Inr subPubKey \<Rightarrow>
               (case jwk_to_pem X V (JObj pk) of
                  Inl e \<Rightarrow> Inl e
                | Inr pubKeyBase64 \<Rightarrow> if pubKeyBase64 = subPubKey then Inr True else binds X V pk vms)))"

definition holder_of :: "ext \<Rightarrow> vlib \<Rightarrow> obj \<Rightarrow> jsval \<Rightarrow> exn + unit" where
  "holder_of X V pk vc =
     (case subject_did vc of
        Inl e \<Rightarrow> Inl e
      | Inr did \<Rightarrow>
          (case resolve_did X did of
             Inl e \<Rightarrow> Inl e
           | Inr didDoc \<Rightarrow>
               (case (case didDoc of None \<Rightarrow> None | Some d \<Rightarrow> verificationMethod d) of
                  None \<Rightarrow> Inl (err ''invalid_credential'' ''Cannot resolve DID'')
                | Some vms \<Rightarrow>
                    (case binds X V pk vms of
                       Inl e \<Rightarrow> Inl e
                     | Inr success \<Rightarrow>
                         if success then Inr ()
                         else Inl (err ''invalid_credential'' ''Binding verification failed for VC'')))))"

fun holderBinding_verify :: "ext \<Rightarrow> vlib \<Rightarrow> jsval list \<Rightarrow> obj \<Rightarrow> exn + bool" where
  "holderBinding_verify X V [] pk = Inr True"
| "holderBinding_verify X V (vc # vcs) pk =
     (case holder_of X V pk vc of Inl e \<Rightarrow> Inl e | Inr u \<Rightarrow> holderBinding_verify X V vcs pk)"

subsection \<open>The presentation\<close>

record JwtVpOptions =
  jo_expectedAud :: string
  jo_expectedNonce :: "string option"
  jo_allowedAlgs :: "string list option"

definition aud_matches :: "jsval option \<Rightarrow> string \<Rightarrow> bool" where
  "aud_matches aud expectedAud =
     (case aud of
        Some (JStr s) \<Rightarrow> s = expectedAud
      | Some (JArr xs) \<Rightarrow> list_ex (\<lambda>a. a = JStr expectedAud) xs
      | _ \<Rightarrow> False)"

text \<open>
  The credentials of the presentation that look like credentials, with their tokens. A
  payload that is \<open>null\<close> makes the property read throw.
\<close>

definition presented_vc :: "ext \<Rightarrow> vlib \<Rightarrow> jsval \<Rightarrow> exn + (jsval \<times> string) option" where
  "presented_vc X V vc =
     (case vc of
        JStr s \<Rightarrow>
          (let parts = js_split (CHR ''.'') s in
           if length parts \<noteq> 3 \<or> parts ! 1 = [] then Inl (err ''invalid_credential'' ''VC JWT format is invalid.'')
           else case decode_json X (parts ! 1) of
                  None \<Rightarrow> Inl (err ''invalid_credential'' ''VC JWT payload is not valid JSON.'')
                | Some decoded \<Rightarrow>
                    (case js_prop decoded ''vc'' of
                       Inl e \<Rightarrow> Inl e
                     | Inr v \<Rightarrow>
                         let credential = (if truthy v then getOr JNull v else decoded)
                         in Inr (if parseVerifiableCredentialBase X V credential then Some (credential, s) else None)))
      | _ \<Rightarrow> Inl (err ''illegal_argument'' ''VC represented as object is not supported.''))"

fun presented_vcs :: "ext \<Rightarrow> vlib \<Rightarrow> jsval list \<Rightarrow> exn + (jsval \<times> string) list" where
  "presented_vcs X V [] = Inr []"
| "presented_vcs X V (vc # vcs) =
     (case presented_vc X V vc of
        Inl e \<Rightarrow> Inl e
      | Inr c \<Rightarrow>
          (case presented_vcs X V vcs of
             Inl e \<Rightarrow> Inl e
           | Inr cs \<Rightarrow> Inr ((case c of None \<Rightarrow> [] | Some x \<Rightarrow> [x]) @ cs)))"

text \<open>The checks on the token itself, up to its credentials.\<close>

definition vp_checks ::
  "ext \<Rightarrow> vlib \<Rightarrow> JwtVpOptions \<Rightarrow> decoded_jwt \<Rightarrow> exn + (obj \<times> (jsval \<times> string) list)" where
  "vp_checks X V opts decodedVp =
     (if \<not> vc_allowed_alg (jo_allowedAlgs opts) (dj_header decodedVp) then
        Inl (err ''verifier_vp_formats_not_supported'' ''Algorithm is not in jwt_vc_json alg_values.'')
      else case (case dj_payload decodedVp of JStr s \<Rightarrow> json_text V s | v \<Rightarrow> Some v) of
        None \<Rightarrow> Inl (err ''invalid_vp_token'' ''VP token payload is not valid JSON.'')
      | Some rawPayload \<Rightarrow>
          (case jwtVpJsonPayload X V rawPayload of
             None \<Rightarrow> Inl (err ''invalid_vp_token'' ''VP token payload does not match expected schema'')
           | Some vpPayload \<Rightarrow>
               if \<not> aud_matches (oget vpPayload ''aud'') (jo_expectedAud opts) then
                 Inl (err ''invalid_vp_token'' ''VP token aud does not match expected client_id.'')
               else if jo_expectedNonce opts \<noteq> None \<and>
                   oget vpPayload ''nonce'' \<noteq> map_option JStr (jo_expectedNonce opts) then
                 Inl (err ''invalid_nonce'' ''nonce does not match.'')
               else
                 (case vget (getOr JNull (oget vpPayload ''vp'')) ''verifiableCredential'' of
                    Some (JArr vcs) \<Rightarrow>
                      (case presented_vcs X V vcs of
                         Inl e \<Rightarrow> Inl e
                       | Inr credentials \<Rightarrow>
                           if credentials = [] then Inl (err ''invalid_credential'' ''No credentials is included'')
                           else Inr (vpPayload, credentials))
                  | _ \<Rightarrow> Inl (err ''invalid_credential'' ''No credentials is included''))))"

text \<open>The key the presentation must be signed with: that of the DID in its header.\<close>

definition vp_key :: "ext \<Rightarrow> obj \<Rightarrow> exn + obj" where
  "vp_key X h =
     (if \<not> truthy (oget h ''kid'') then Inl (err ''invalid_vp_token'' ''Missing key id in the header'')
      else case oget h ''kid'' of
        Some (JStr kid) \<Rightarrow>
          (case resolve_did X kid of
             Inl e \<Rightarrow> Inl e
           | Inr didDoc \<Rightarrow>
               (case (case didDoc of None \<Rightarrow> None | Some d \<Rightarrow> verificationMethod d) of
                  None \<Rightarrow> Inl (err ''invalid_vp_token'' ''Cannot resolve DID'')
                | Some vms \<Rightarrow>
                    (case find (\<lambda>it. js_starts_with (method_id it) kid) vms of
                       None \<Rightarrow> Inl (err ''invalid_vp_token'' ''Cannot find verification method'')
                     | Some vm \<Rightarrow>
                         (case publicKeyJwk vm of
                            None \<Rightarrow> Inl (err ''invalid_vp_token'' ''Cannot find verification method'')
                          | Some jwk \<Rightarrow> Inr jwk))))
      | _ \<Rightarrow> Inl (JsError ''TypeError''))"

definition check_credential :: "ext \<Rightarrow> vlib \<Rightarrow> string list option \<Rightarrow> string \<Rightarrow> (world, unit) M" where
  "check_credential X V allowedAlgs vcJwt =
     bindM (verifyCredential X V vcJwt allowedAlgs) (\<lambda>vcValid.
     if \<not> vcValid then raise ''invalid_credential'' ''One or more credentials are not valid.'' else ret ())"

definition verify_jwt_vp :: "ext \<Rightarrow> vlib \<Rightarrow> string \<Rightarrow> JwtVpOptions \<Rightarrow> (world, obj) M" where
  "verify_jwt_vp X V vp opts =
     bindM (liftE (jwt_decode V vp)) (\<lambda>decoded.
     case decoded of
       None \<Rightarrow> raise ''invalid_vp_token'' ''Invalid vp_token''
     | Some decodedVp \<Rightarrow>
         bindM (liftE (vp_checks X V opts decodedVp)) (\<lambda>(vpPayload, credentials).
         thenM (forM credentials (\<lambda>c. check_credential X V (jo_allowedAlgs opts) (snd c)))
         (bindM (liftE (vp_key X (dj_header decodedVp))) (\<lambda>pk.
          bindM (jwtSignature_verify X V vp pk) (\<lambda>jwtValid.
          if \<not> jwtValid then raise ''invalid_proof'' ''jwt is not valid.''
          else bindM (liftE (holderBinding_verify X V (map fst credentials) pk)) (\<lambda>holderBindingValid.
            if \<not> holderBindingValid then raise ''holder_binding_failed'' ''Holder binding verification failed.''
            else ret vpPayload))))))"

end
