(* ===== verification/Verify_Sd_Jwt.thy ===== *)
theory Verify_Sd_Jwt
  imports Verify_Jwt_Vp
begin

text \<open>
  Verification of SD-JWT presentations (\<open>verify-presentation-dc-sd-jwt.provider.ts\<close>): the
  checks on the headers, the issuer's key from its metadata or its certificate, the
  key-binding JWT, and the claims. The SD-JWT packages themselves are parameters.
\<close>

definition DEFAULT_KB_JWT_MAX_TOKEN_AGE_SECONDS :: jsnum where
  "DEFAULT_KB_JWT_MAX_TOKEN_AGE_SECONDS = Fin 300"

definition DEFAULT_KB_JWT_CLOCK_TOLERANCE_SECONDS :: jsnum where
  "DEFAULT_KB_JWT_CLOCK_TOLERANCE_SECONDS = Fin 60"

record SdJwtFactoryOptions =
  sf_maxTokenAgeSeconds :: "jsnum option"
  sf_clockToleranceSeconds :: "jsnum option"

definition sd_maxTokenAge :: "SdJwtFactoryOptions \<Rightarrow> jsnum" where
  "sd_maxTokenAge F = getOr DEFAULT_KB_JWT_MAX_TOKEN_AGE_SECONDS (sf_maxTokenAgeSeconds F)"

definition sd_clockTolerance :: "SdJwtFactoryOptions \<Rightarrow> jsnum" where
  "sd_clockTolerance F = getOr DEFAULT_KB_JWT_CLOCK_TOLERANCE_SECONDS (sf_clockToleranceSeconds F)"

record SdJwtOptions =
  so_specifiedDisclosures :: "string list option"
  so_isKbJwt :: "bool option"
  so_expectedAud :: "string option"
  so_expectedNonce :: "string option"
  so_expectedTransactionDataHashes :: "string list option"
  so_allowedSdJwtAlgs :: "string list option"
  so_allowedKbJwtAlgs :: "string list option"

definition bad_sd_jwt :: exn where
  "bad_sd_jwt = err ''invalid_sd_jwt'' ''SD-JWT is not valid''"

definition bad_alg :: exn where
  "bad_alg = err ''verifier_vp_formats_not_supported'' ''algorithm is not supported''"

subsection \<open>Headers\<close>

definition alg_check :: "exn \<Rightarrow> string list option \<Rightarrow> jsval option \<Rightarrow> exn + unit" where
  "alg_check prohibited allowed v =
     (case str_of v of
        None \<Rightarrow> Inl prohibited
      | Some alg \<Rightarrow>
          if alg = [] \<or> isProhibitedAlg alg then Inl prohibited
          else if (case allowed of None \<Rightarrow> False | Some as \<Rightarrow> alg \<notin> set as) then Inl bad_alg
          else if alg \<noteq> ''ES256'' then Inl bad_alg
          else Inr ())"

definition sd_header_check :: "SdJwtOptions \<Rightarrow> obj \<Rightarrow> exn + unit" where
  "sd_header_check opts h =
     (if str_of (oget h ''typ'') \<noteq> Some ''dc+sd-jwt'' then Inl bad_sd_jwt
      else alg_check bad_alg (so_allowedSdJwtAlgs opts) (oget h ''alg''))"

text \<open>
  The key-binding JWT at the end of a presentation that does not end in a tilde; its header
  is the text before the first dot, decoded from base64url and read as JSON.
\<close>

definition kb_header_check :: "ext \<Rightarrow> SdJwtOptions \<Rightarrow> string \<Rightarrow> exn + unit" where
  "kb_header_check X opts vp =
     (if js_ends_with vp ''~'' then Inr ()
      else let kbJwtStr = last (js_split (CHR ''~'') vp) in
        if kbJwtStr = [] then Inr ()
        else case decode_json X (hd (js_split (CHR ''.'') kbJwtStr)) of
          None \<Rightarrow> Inl bad_sd_jwt
        | Some kbHeader \<Rightarrow>
            (case js_prop kbHeader ''typ'' of
               Inl e \<Rightarrow> Inl e
             | Inr typ \<Rightarrow>
                 if typ \<noteq> Some (JStr ''kb+jwt'') then Inl bad_sd_jwt
                 else alg_check bad_sd_jwt (so_allowedKbJwtAlgs opts) (vget kbHeader ''alg'')))"

subsection \<open>The issuer's key\<close>

definition trim_slashes :: "string \<Rightarrow> string" where
  "trim_slashes s = rev (drop_slashes (rev s))"

definition sd_metadata_url :: "vlib \<Rightarrow> url \<Rightarrow> exn + string" where
  "sd_metadata_url V issUri =
     (let pathname = trim_slashes (url_pathname issUri) in
      if pathname = [] \<or> pathname = ''/'' then resolve_or_throw V well_known (url_origin V issUri)
      else resolve_or_throw V (well_known @ ''/'' @ drop_slashes pathname) (url_origin V issUri))"

text \<open>\<open>jwks.keys.find\<close>: a missing or other \<open>keys\<close>, and a key that is \<open>null\<close>, throw.\<close>

fun find_kid :: "string \<Rightarrow> jsval list \<Rightarrow> exn + jsval option" where
  "find_kid kid [] = Inr None"
| "find_kid kid (k # ks) =
     (case js_prop k ''kid'' of
        Inl e \<Rightarrow> Inl e
      | Inr v \<Rightarrow> if v = Some (JStr kid) then Inr (Some k) else find_kid kid ks)"

definition jwks_find :: "jsval \<Rightarrow> string \<Rightarrow> exn + jsval option" where
  "jwks_find jwks kid =
     (case vget jwks ''keys'' of
        Some (JArr ks) \<Rightarrow> find_kid kid ks
      | _ \<Rightarrow> Inl (JsError ''TypeError''))"

definition sd_issuer_key :: "ext \<Rightarrow> vlib \<Rightarrow> obj \<Rightarrow> string \<Rightarrow> (world, jsval) M" where
  "sd_issuer_key X V h iss =
     (case url_parse X iss of
        None \<Rightarrow> throw (JsError ''TypeError'')
      | Some issUri \<Rightarrow>
          if url_hostname issUri \<noteq> ''localhost'' \<and> url_protocol issUri \<noteq> ''https:'' then throw bad_sd_jwt
          else bindM (liftE (sd_metadata_url V issUri)) (\<lambda>metadataUrl.
            bindM (fetch_json V ''invalid_sd_jwt'' metadataUrl) (\<lambda>metadata.
            bindM (liftE (js_prop metadata ''issuer'')) (\<lambda>issuer.
            if issuer \<noteq> Some (JStr iss) then throw bad_sd_jwt
            else bindM (issuer_jwks V ''invalid_sd_jwt'' metadata) (\<lambda>jwks.
              case oget h ''kid'' of
                Some (JStr kid) \<Rightarrow>
                  if kid = [] then throw bad_sd_jwt
                  else bindM (liftE (jwks_find jwks kid)) (\<lambda>jwkFound.
                    case jwkFound of
                      None \<Rightarrow> throw bad_sd_jwt
                    | Some k \<Rightarrow> if truthy (Some k) then ret k else throw bad_sd_jwt)
              | _ \<Rightarrow> throw bad_sd_jwt)))))"

text \<open>
  The leaf of \<open>x5c\<close>, as PEM or base64; the chain is not validated. An element that is no
  string has no certificate.
\<close>

definition x5c_key :: "ext \<Rightarrow> vlib \<Rightarrow> jsval list \<Rightarrow> exn + jsval" where
  "x5c_key X V x5c =
     (case x5c of
        JStr leafCert # rest \<Rightarrow>
          (case (if js_includes leafCert ''BEGIN CERTIFICATE'' then x509_parse X leafCert
                 else x509_parse_der V leafCert) of
             Inl e \<Rightarrow> Inl bad_sd_jwt
           | Inr cert \<Rightarrow> Inr (JObj (exportJWK X (x_publicKey cert))))
      | _ \<Rightarrow> Inl bad_sd_jwt)"

definition sd_public_jwk :: "ext \<Rightarrow> vlib \<Rightarrow> decoded_jwt \<Rightarrow> (world, jsval) M" where
  "sd_public_jwk X V decodedSdJwt =
     (let h = dj_header decodedSdJwt; iss = str_of (vget (dj_payload decodedSdJwt) ''iss'') in
      if \<not> truthy (oget h ''x5c'') \<and> opt_str iss then sd_issuer_key X V h (getOr [] iss)
      else case oget h ''x5c'' of
             Some (JArr x5c) \<Rightarrow> if x5c \<noteq> [] then liftE (x5c_key X V x5c) else throw bad_sd_jwt
           | _ \<Rightarrow> throw bad_sd_jwt)"

subsection \<open>Key binding\<close>

text \<open>The key of the \<open>cnf\<close> claim.\<close>

definition cnf_key :: "decoded_jwt \<Rightarrow> exn + jsval" where
  "cnf_key decodedSdJwt =
     (case vget (dj_payload decodedSdJwt) ''cnf'' of
        None \<Rightarrow> Inl bad_sd_jwt
      | Some cnf \<Rightarrow>
          if truthy (Some cnf) \<and> truthy (vget cnf ''jwk'') then Inr (getOr JNull (vget cnf ''jwk''))
          else Inl bad_sd_jwt)"

definition kb_verifier :: "vlib \<Rightarrow> bool \<Rightarrow> decoded_jwt \<Rightarrow> exn + jsval option" where
  "kb_verifier V isKbJwt decodedSdJwt =
     (if \<not> isKbJwt then Inr None
      else case cnf_key decodedSdJwt of
        Inl e \<Rightarrow> Inl e
      | Inr k \<Rightarrow> (case getVerifier V k of Inl e \<Rightarrow> Inl e | Inr v \<Rightarrow> Inr (Some v)))"

text \<open>The time window of the key-binding JWT, in seconds.\<close>

definition kb_fresh :: "SdJwtFactoryOptions \<Rightarrow> int \<Rightarrow> jsnum \<Rightarrow> bool" where
  "kb_fresh F now iat =
     (let nowSeconds = num_int (now div 1000) in
      \<not> num_lt (num_add nowSeconds (sd_clockTolerance F)) iat \<and>
      \<not> num_lt (num_add (sd_maxTokenAge F) (sd_clockTolerance F)) (num_add nowSeconds (num_scale (- 1) iat)))"

definition kb_payload_check ::
  "ext \<Rightarrow> vlib \<Rightarrow> SdJwtFactoryOptions \<Rightarrow> SdJwtOptions \<Rightarrow> string \<Rightarrow> (world, string) M" where
  "kb_payload_check X V F opts vp =
     (case sd_kb_jwt V vp of
        None \<Rightarrow> throw bad_sd_jwt
      | Some kbJwt \<Rightarrow>
          if kbJwt = [] then throw bad_sd_jwt
          else bindM (liftE (decodeJwt X kbJwt)) (\<lambda>rawKbPayload.
            case kbJwtJsonPayload rawKbPayload of
              None \<Rightarrow> throw bad_sd_jwt
            | Some kb \<Rightarrow>
                bindM now_ms (\<lambda>now.
                if \<not> kb_fresh F now (kb_iat kb) then throw bad_sd_jwt
                else if Some (kb_aud kb) \<noteq> so_expectedAud opts then throw bad_sd_jwt
                else if so_expectedNonce opts \<noteq> None \<and> Some (kb_nonce kb) \<noteq> so_expectedNonce opts then
                  raise ''invalid_nonce'' ''nonce does not match.''
                else ret (kb_nonce kb))))"

subsection \<open>The provider\<close>

definition verify_sd_jwt ::
  "ext \<Rightarrow> vlib \<Rightarrow> SdJwtFactoryOptions \<Rightarrow> string \<Rightarrow> SdJwtOptions \<Rightarrow> (world, obj) M" where
  "verify_sd_jwt X V F vp opts =
     (let isKbJwt = getOr False (so_isKbJwt opts) in
      if isKbJwt \<and> js_ends_with vp ''~'' then throw bad_sd_jwt
      else bindM (liftE (sd_decode V vp)) (\<lambda>decodedSdJwt.
        thenM (liftE (sd_header_check opts (dj_header decodedSdJwt)))
        (thenM (liftE (kb_header_check X opts vp))
        (bindM (sd_public_jwk X V decodedSdJwt) (\<lambda>publicJwk.
        bindM (liftE (getVerifier V publicJwk)) (\<lambda>verifier.
        bindM (liftE (kb_verifier V isKbJwt decodedSdJwt)) (\<lambda>kbVerifier.
        bindM now_ms (\<lambda>t1.
        case sd_validate V t1 verifier kbVerifier vp of
          Inl e \<Rightarrow> throw (rethrow ''invalid_sd_jwt'' e)
        | Inr _ \<Rightarrow>
            bindM (if isKbJwt then bindM (kb_payload_check X V F opts vp) (\<lambda>n. ret (Some n)) else ret None) (\<lambda>n.
            bindM now_ms (\<lambda>t2.
            case sd_verify V t2 verifier kbVerifier vp (getOr [] (so_specifiedDisclosures opts)) n of
              Inl e \<Rightarrow> throw (rethrow ''invalid_sd_jwt'' e)
            | Inr claims \<Rightarrow>
                (case sdJwtPayload X claims of
                   None \<Rightarrow> throw bad_sd_jwt
                 | Some p \<Rightarrow> ret p)))))))))))"

end
