(* ===== verification/Headers.thy ===== *)
theory Headers
  imports Types
begin

text \<open>
  The parsers of the \<open>Authorization\<close> and \<open>DPoP\<close> request headers
  (\<open>authorization-header.ts\<close>, \<open>dpop-proof.ts\<close>). An absent and a null header are both
  \<open>None\<close>.
\<close>

subsection \<open>Authorization header\<close>

datatype AuthorizationScheme = Bearer | Dpop

datatype HeaderReason = HdrMissing | HdrMalformed | HdrUnsupportedScheme

datatype AuthorizationHeaderParseResult =
    HdrOk AuthorizationScheme string
  | HdrBad HeaderReason "string option"

definition supportedAuthorizationSchemes :: "(string \<times> AuthorizationScheme) list" where
  "supportedAuthorizationSchemes = [(''bearer'', Bearer), (''dpop'', Dpop)]"

text \<open>The groups of \<open>/^(\S+)\s+(\S+)$/\<close>, when it matches.\<close>

definition match_authorization :: "string \<Rightarrow> (string \<times> string) option" where
  "match_authorization s =
     (let scheme = takeWhile (\<lambda>c. \<not> is_ws c) s;
          rest = dropWhile (\<lambda>c. \<not> is_ws c) s;
          token = dropWhile is_ws rest
      in if scheme \<noteq> [] \<and> rest \<noteq> [] \<and> token \<noteq> [] \<and> list_all (\<lambda>c. \<not> is_ws c) token
         then Some (scheme, token) else None)"

definition parseAuthorizationHeader :: "string option \<Rightarrow> AuthorizationHeaderParseResult" where
  "parseAuthorizationHeader headerValue =
     (let trimmed = map_option js_trim headerValue in
      if \<not> opt_str trimmed then HdrBad HdrMissing None
      else case match_authorization (getOr [] trimmed) of
             None \<Rightarrow> HdrBad HdrMalformed None
           | Some (scheme, token) \<Rightarrow>
               let normalizedToken = js_trim token in
               if normalizedToken = [] then HdrBad HdrMalformed None
               else case map_of supportedAuthorizationSchemes (js_lower scheme) of
                      None \<Rightarrow> HdrBad HdrUnsupportedScheme (Some scheme)
                    | Some sch \<Rightarrow> HdrOk sch normalizedToken)"

subsection \<open>DPoP header\<close>

definition b64url_char :: "char \<Rightarrow> bool" where
  "b64url_char c \<longleftrightarrow> 65 \<le> code c \<and> code c \<le> 90 \<or> 97 \<le> code c \<and> code c \<le> 122 \<or>
     48 \<le> code c \<and> code c \<le> 57 \<or> code c = 95 \<or> code c = 45"

text \<open>\<open>/^[A-Za-z0-9_-]+\.[A-Za-z0-9_-]+\.[A-Za-z0-9_-]+$/\<close>.\<close>

definition compactJwtPattern :: "string \<Rightarrow> bool" where
  "compactJwtPattern s =
     (let parts = js_split (CHR ''.'') s
      in length parts = 3 \<and> list_all (\<lambda>p. p \<noteq> [] \<and> list_all b64url_char p) parts)"

definition parseDpopHeader :: "string option \<Rightarrow> ParsedDpopHeader" where
  "parseDpopHeader headerValue =
     (let trimmed = map_option js_trim headerValue in
      if \<not> opt_str trimmed then DpopBad DpopMissing
      else if js_includes (getOr [] trimmed) '','' then DpopBad DpopDuplicate
      else if \<not> compactJwtPattern (getOr [] trimmed) then DpopBad DpopMalformed
      else DpopOk (getOr [] trimmed))"

subsection \<open>Facts\<close>

lemma b64url_not_ws: "b64url_char c \<Longrightarrow> \<not> is_ws c"
  by (auto simp: b64url_char_def is_ws_def)

lemma b64url_not_comma: "b64url_char c \<Longrightarrow> c \<noteq> CHR '',''"
  by (auto simp: b64url_char_def code_def)

lemma compact_no_ws:
  assumes "compactJwtPattern s"
  shows "\<forall>c \<in> set s. b64url_char c \<or> c = CHR ''.''"
proof
  fix c assume "c \<in> set s"
  then have "c = CHR ''.'' \<or> (\<exists>p \<in> set (js_split (CHR ''.'') s). c \<in> set p)" by (rule js_split_set)
  then show "b64url_char c \<or> c = CHR ''.''"
    using assms by (auto simp: compactJwtPattern_def Let_def list_all_iff)
qed

lemma is_ws_dot: "\<not> is_ws (CHR ''.'')"
  by (simp add: is_ws_def code_def)

lemma sublist_single: "sublist [c] s \<longleftrightarrow> c \<in> set s"
  by (auto simp: sublist_def in_set_conv_decomp)

lemma takeWhile_all_append:
  "list_all P s \<Longrightarrow> \<not> P c \<Longrightarrow> takeWhile P (s @ c # t) = s \<and> dropWhile P (s @ c # t) = c # t"
  by (induction s) auto

text \<open>A header of a scheme, white space and a token without white space is split as written.\<close>

lemma match_authorization_ok:
  assumes "scheme \<noteq> []" "list_all (\<lambda>c. \<not> is_ws c) scheme"
    and "sp \<noteq> []" "list_all is_ws sp"
    and "token \<noteq> []" "list_all (\<lambda>c. \<not> is_ws c) token"
  shows "match_authorization (scheme @ sp @ token) = Some (scheme, token)"
proof -
  obtain c sp' where sp: "sp = c # sp'" using assms(3) by (cases sp) auto
  have c: "is_ws c" and sp': "list_all is_ws sp'" using assms(4) by (auto simp: sp)
  have 1: "takeWhile (\<lambda>c. \<not> is_ws c) (scheme @ c # sp' @ token) = scheme"
      "dropWhile (\<lambda>c. \<not> is_ws c) (scheme @ c # sp' @ token) = c # sp' @ token"
    using takeWhile_all_append [OF assms(2), of c "sp' @ token"] c by auto
  have 2: "dropWhile is_ws (c # sp' @ token) = token"
    using c sp' assms(5,6) by (cases token) (auto simp: dropWhile_append list_all_iff)
  have "match_authorization (scheme @ c # sp' @ token) = Some (scheme, token)"
    unfolding match_authorization_def Let_def 1 2 using assms(1,5,6) by simp
  then show ?thesis by (simp add: sp)
qed

lemma list_all_takeWhile: "list_all P (takeWhile P s)"
  by (induction s) auto

lemma match_authorization_Some:
  "match_authorization s = Some (scheme, token) \<Longrightarrow>
     scheme \<noteq> [] \<and> token \<noteq> [] \<and> list_all (\<lambda>c. \<not> is_ws c) scheme \<and> list_all (\<lambda>c. \<not> is_ws c) token"
  using list_all_takeWhile [of "\<lambda>c. \<not> is_ws c" s]
  by (auto simp only: match_authorization_def Let_def option.inject prod.inject split: if_splits)

lemma js_trim_all: "list_all (\<lambda>c. \<not> is_ws c) s \<Longrightarrow> js_trim s = s"
  by (simp add: js_trim_no_ws list_all_iff)

end
