(* ===== verification/Authz_Client.thy ===== *)
theory Authz_Client
  imports World Headers
begin

text \<open>
  Clients of the token endpoint (\<open>authz.flows.ts\<close>, lines 21 to 536 and
  \<open>resolveTokenRequestClientPolicy\<close>): identification of the client, \<open>private_key_jwt\<close>
  authentication with its replay guard, and the DPoP mode of a request. A token request is
  the object of its form fields. The \<open>log\<close> field of a refusal is not modelled; its
  \<open>error_description\<close> is.
\<close>

subsection \<open>Form values\<close>

definition CLIENT_ASSERTION_TYPE_JWT_BEARER :: string where
  "CLIENT_ASSERTION_TYPE_JWT_BEARER = ''urn:ietf:params:oauth:client-assertion-type:jwt-bearer''"

definition DEFAULT_DPOP_MODE :: DPoPMode where
  "DEFAULT_DPOP_MODE = Off"

definition MIN_CLIENT_ASSERTION_JTI_TTL_MS :: jsnum where
  "MIN_CLIENT_ASSERTION_JTI_TTL_MS = Fin 1"

definition CLIENT_ASSERTION_CLOCK_TOLERANCE_SECONDS :: int where
  "CLIENT_ASSERTION_CLOCK_TOLERANCE_SECONDS = 10"

fun hasValue :: "jsval option \<Rightarrow> bool" where
  "hasValue (Some (JStr s)) = (js_trim s \<noteq> [])"
| "hasValue v = False"

fun getStringValue :: "jsval option \<Rightarrow> string option" where
  "getStringValue (Some (JStr s)) = (if js_trim s \<noteq> [] then Some (js_trim s) else None)"
| "getStringValue v = None"

lemma hasValue_getStringValue: "hasValue v \<longleftrightarrow> getStringValue v \<noteq> None"
  by (cases v rule: hasValue.cases) auto

lemma getStringValue_ne: "getStringValue v = Some s \<Longrightarrow> s \<noteq> []"
  by (cases v rule: hasValue.cases) (auto split: if_splits)

definition parseCompactJwt :: "ext \<Rightarrow> string \<Rightarrow> (jsval \<times> jsval) option" where
  "parseCompactJwt X jwt =
     (case js_split (CHR ''.'') jwt of
        [headerPart, payloadPart, signaturePart] \<Rightarrow>
          if headerPart = [] \<or> payloadPart = [] \<or> signaturePart = [] then None
          else (case (decode_json X headerPart, decode_json X payloadPart) of
                  (Some header, Some payload) \<Rightarrow>
                    if \<not> truthy (Some header) \<or> \<not> is_object header \<or>
                       \<not> truthy (Some payload) \<or> \<not> is_object payload then None
                    else Some (header, payload)
                | _ \<Rightarrow> None)
      | _ \<Rightarrow> None)"

definition extractClientIdFromClientAssertion :: "ext \<Rightarrow> jsval option \<Rightarrow> string option" where
  "extractClientIdFromClientAssertion X clientAssertion =
     (case getStringValue clientAssertion of
        None \<Rightarrow> None
      | Some assertion \<Rightarrow>
          let payload = js_nth (js_split (CHR ''.'') assertion) 1 in
          if \<not> opt_str payload then None
          else (case decode_json X (getOr [] payload) of
                  None \<Rightarrow> None
                | Some claims \<Rightarrow>
                    if \<not> truthy (Some claims) \<or> \<not> is_object claims then None
                    else let issuerClientId = getStringValue (vget claims ''iss'');
                             subjectClientId = getStringValue (vget claims ''sub'')
                         in if issuerClientId \<noteq> None \<and> subjectClientId \<noteq> None \<and>
                               issuerClientId \<noteq> subjectClientId then None
                            else orElse issuerClientId subjectClientId))"

definition getTokenRequestClientId :: "ext \<Rightarrow> obj \<Rightarrow> string option" where
  "getTokenRequestClientId X requestData =
     (case getStringValue (oget requestData ''client_id'') of
        Some c \<Rightarrow> Some c
      | None \<Rightarrow> extractClientIdFromClientAssertion X (oget requestData ''client_assertion''))"

definition hasPrivateKeyJwtAssertion :: "obj \<Rightarrow> bool" where
  "hasPrivateKeyJwtAssertion requestData \<longleftrightarrow>
     getStringValue (oget requestData ''client_assertion_type'') = Some CLIENT_ASSERTION_TYPE_JWT_BEARER \<and>
     hasValue (oget requestData ''client_assertion'')"

definition missingPrivateKeyJwtAssertionDescription :: "obj \<Rightarrow> string" where
  "missingPrivateKeyJwtAssertionDescription requestData =
     (if getStringValue (oget requestData ''client_assertion_type'') \<noteq> Some CLIENT_ASSERTION_TYPE_JWT_BEARER
      then ''client_assertion_type must be urn:ietf:params:oauth:client-assertion-type:jwt-bearer''
      else ''client_assertion is required for private_key_jwt client authentication.'')"

definition getTokenEndpointAuthMethod :: "AuthzOAuthClient \<Rightarrow> string" where
  "getTokenEndpointAuthMethod client = getOr ''none'' (token_endpoint_auth_method client)"

definition isPreAuthorizedCodeTokenRequest :: "obj \<Rightarrow> bool" where
  "isPreAuthorizedCodeTokenRequest requestData \<longleftrightarrow>
     getStringValue (oget requestData ''grant_type'') = Some GrantType_PreAuthorizedCode"

text \<open>\<open>getStringValue\<close> of an optional string field of a registration.\<close>

definition string_setting :: "string option \<Rightarrow> string option" where
  "string_setting v = getStringValue (map_option JStr v)"

definition getExpectedClientAssertionAudiences ::
  "AuthzOAuthClient \<Rightarrow> AuthorizationServerMetadata option \<Rightarrow> string \<Rightarrow> string list" where
  "getExpectedClientAssertionAudiences client metadata authz =
     (case string_setting (client_assertion_audience client) of
        Some configuredAudience \<Rightarrow> [configuredAudience]
      | None \<Rightarrow>
          (case metadata of
             Some m \<Rightarrow> if token_endpoint m \<noteq> [] then [token_endpoint m, authz] else [authz]
           | None \<Rightarrow> [authz]))"

text \<open>The message of a caught exception, and the description derived from it.\<close>

fun exn_message :: "exn \<Rightarrow> string" where
  "exn_message (VcknotsError c m) = m"
| "exn_message (JsError m) = m"

definition clientAssertionVerificationDescription ::
  "AuthzOAuthClient \<Rightarrow> string list \<Rightarrow> string \<Rightarrow> string" where
  "clientAssertionVerificationDescription client expectedAudiences cause =
     (if \<not> js_includes cause [CHR 0x22, CHR ''a'', CHR ''u'', CHR ''d'', CHR 0x22] \<and>
         \<not> js_includes (js_lower cause) ''audience''
      then ''client_assertion verification failed.''
      else case string_setting (client_assertion_audience client) of
             Some configured \<Rightarrow>
               ''client_assertion aud claim does not match registered client_assertion_audience setting ('' @
               configured @ '').''
           | None \<Rightarrow> ''client_assertion aud claim does not match expected audience ('' @
               js_join '', '' expectedAudiences @ '').'')"

definition selectClientAssertionJwk :: "AuthzOAuthClient \<Rightarrow> jsval \<Rightarrow> obj option" where
  "selectClientAssertionJwk client protectedHeader =
     (let keys = getOr [] (client_jwks client) in
      if keys = [] then None
      else case getStringValue (vget protectedHeader ''kid'') of
             Some kid \<Rightarrow> find (\<lambda>key. getStringValue (oget key ''kid'') = Some kid) keys
           | None \<Rightarrow> if length keys = 1 then Some (hd keys) else None)"

subsection \<open>Private-key JWT client authentication\<close>

datatype PrivateKeyJwtClientAuthVerification = PkjOk string jsnum | PkjBad string

text \<open>The checks of the claims at the second \<open>now\<close>: the jti and exp to go on with.\<close>

definition pkj_claims :: "string \<Rightarrow> int \<Rightarrow> jsval \<Rightarrow> string + (string \<times> jsnum)" where
  "pkj_claims clientId now payload =
     (if getStringValue (vget payload ''iss'') \<noteq> Some clientId \<or>
         getStringValue (vget payload ''sub'') \<noteq> Some clientId
      then Inl ''client_assertion iss and sub must match the registered client_id.''
      else case vget payload ''exp'' of
        Some (JNum expiry) \<Rightarrow>
          (case vget payload ''iat'' of
             Some (JNum iat) \<Rightarrow>
               if num_lt (num_int (now + CLIENT_ASSERTION_CLOCK_TOLERANCE_SECONDS)) iat
               then Inl ''client_assertion iat claim is too far in the future.''
               else if (case vget payload ''nbf'' of
                          Some (JNum nbf) \<Rightarrow>
                            num_lt (num_int (now + CLIENT_ASSERTION_CLOCK_TOLERANCE_SECONDS)) nbf
                        | _ \<Rightarrow> False)
               then Inl ''client_assertion nbf claim is too far in the future.''
               else (case getStringValue (vget payload ''jti'') of
                       None \<Rightarrow> Inl ''client_assertion jti claim is required.''
                     | Some jti \<Rightarrow> Inr (jti, expiry))
           | _ \<Rightarrow> Inl ''client_assertion iat claim is required.'')
      | _ \<Rightarrow> Inl ''client_assertion exp claim is required.'')"

text \<open>The checks of the algorithm against the server's metadata and the registration.\<close>

definition pkj_alg ::
  "AuthzOAuthClient \<Rightarrow> AuthorizationServerMetadata option \<Rightarrow> jsval \<Rightarrow> string + string" where
  "pkj_alg client metadata header =
     (let supportedAuthMethods =
            (case metadata of None \<Rightarrow> None | Some m \<Rightarrow> token_endpoint_auth_methods_supported m);
          supportedAlgs =
            (case metadata of None \<Rightarrow> None
             | Some m \<Rightarrow> token_endpoint_auth_signing_alg_values_supported m);
          expectedAlg = string_setting (token_endpoint_auth_signing_alg client)
      in case getStringValue (vget header ''alg'') of
           None \<Rightarrow> Inl ''client_assertion alg must be an asymmetric signing algorithm.''
         | Some alg \<Rightarrow>
             if js_lower alg = ''none'' \<or> starts_hs alg then
               Inl ''client_assertion alg must be an asymmetric signing algorithm.''
             else if ''private_key_jwt'' \<notin> set (getOr [] supportedAuthMethods) then
               Inl ''metadata must include private_key_jwt in token_endpoint_auth_methods_supported''
             else if getOr [] supportedAlgs = [] then
               Inl ''metadata must include token_endpoint_auth_signing_alg_values_supported''
             else if alg \<notin> set (getOr [] supportedAlgs) then
               Inl ''client_assertion alg is not supported by the authorization server metadata.''
             else if expectedAlg \<noteq> None \<and> expectedAlg \<noteq> Some alg then
               Inl ''client_assertion alg does not match the registered client algorithm.''
             else Inr alg)"

text \<open>The selection of the key and the check of its own algorithm.\<close>

definition pkj_key :: "AuthzOAuthClient \<Rightarrow> jsval \<Rightarrow> string \<Rightarrow> string + obj" where
  "pkj_key client header alg =
     (case selectClientAssertionJwk client header of
        None \<Rightarrow> Inl ''Registered OAuth client public key was not found.''
      | Some jwk \<Rightarrow>
          (case getStringValue (oget jwk ''alg'') of
             Some jwkAlg \<Rightarrow>
               if jwkAlg \<noteq> alg then
                 Inl ''Registered client public key alg does not match client_assertion header alg.''
               else Inr jwk
           | None \<Rightarrow> Inr jwk))"

definition pkj_verify_options :: "AuthzOAuthClient \<Rightarrow> string list \<Rightarrow> verify_options" where
  "pkj_verify_options client audiences = no_verify_options
     \<lparr>vo_issuer := Some (client_id client), vo_subject := Some (client_id client),
      vo_audience := Some audiences,
      vo_clockTolerance := Some (num_int CLIENT_ASSERTION_CLOCK_TOLERANCE_SECONDS)\<rparr>"

text \<open>\<open>importJWK\<close> and \<open>jwtVerify\<close>, inside the \<open>try\<close>.\<close>

definition pkj_signature ::
  "ext \<Rightarrow> AuthzOAuthClient \<Rightarrow> string list \<Rightarrow> string \<Rightarrow> string \<Rightarrow> obj \<Rightarrow> int \<Rightarrow> exn + obj" where
  "pkj_signature X client audiences clientAssertion alg jwk now =
     (case importJWK X jwk alg of
        Inl e \<Rightarrow> Inl e
      | Inr key \<Rightarrow> jwtVerify X now clientAssertion key (pkj_verify_options client audiences))"

definition verifyPrivateKeyJwtClientAuthentication ::
  "ext \<Rightarrow> string \<Rightarrow> AuthorizationServerMetadata option \<Rightarrow> obj \<Rightarrow> AuthzOAuthClient \<Rightarrow>
   (world, PrivateKeyJwtClientAuthVerification) M" where
  "verifyPrivateKeyJwtClientAuthentication X authz metadata requestData client =
     (if \<not> hasPrivateKeyJwtAssertion requestData then
        ret (PkjBad (missingPrivateKeyJwtAssertionDescription requestData))
      else case getStringValue (oget requestData ''client_assertion'') of
        None \<Rightarrow> ret (PkjBad ''client_assertion is required for private_key_jwt client authentication.'')
      | Some clientAssertion \<Rightarrow>
          (case parseCompactJwt X clientAssertion of
             None \<Rightarrow> ret (PkjBad ''client_assertion must be a compact JWT.'')
           | Some (header, payload) \<Rightarrow>
               bindM now_ms (\<lambda>now1.
               case pkj_claims (client_id client) (now1 div 1000) payload of
                 Inl d \<Rightarrow> ret (PkjBad d)
               | Inr (jti, expiry) \<Rightarrow>
                   (case pkj_alg client metadata header of
                      Inl d \<Rightarrow> ret (PkjBad d)
                    | Inr alg \<Rightarrow>
                        (case pkj_key client header alg of
                           Inl d \<Rightarrow> ret (PkjBad d)
                         | Inr jwk \<Rightarrow>
                             bindM now_ms (\<lambda>now2.
                             let audiences = getExpectedClientAssertionAudiences client metadata authz in
                             case pkj_signature X client audiences clientAssertion alg jwk now2 of
                               Inr p \<Rightarrow> ret (PkjOk jti expiry)
                             | Inl e \<Rightarrow> ret (PkjBad
                                 (clientAssertionVerificationDescription client audiences (exn_message e)))))))))"

subsection \<open>Resolution of the client of a token request\<close>

datatype AuthzOAuthPolicyClientKind = AnonymousClient | DefaultClient

definition resolveTokenRequestPolicyClient :: "obj \<Rightarrow> AuthzOAuthPolicyClientKind" where
  "resolveTokenRequestPolicyClient requestData =
     (if hasValue (oget requestData ''client_id'') \<or> hasValue (oget requestData ''client_assertion'')
      then DefaultClient else AnonymousClient)"

datatype TokenRequestPolicyClientContextResolution =
    CtxOk AuthzOAuthPolicyClientKind "string option" "AuthzClientPolicy option"
  | CtxBad string "string option"

definition resolveTokenRequestPolicyClientContext ::
  "ext \<Rightarrow> obj \<Rightarrow> AuthzOAuthClient option \<Rightarrow> TokenRequestPolicyClientContextResolution" where
  "resolveTokenRequestPolicyClientContext X requestData client =
     (case getTokenRequestClientId X requestData of
        None \<Rightarrow>
          if hasValue (oget requestData ''client_assertion'') then
            CtxBad ''client_assertion must contain iss or sub client identifier.'' None
          else CtxOk AnonymousClient None None
      | Some clientId \<Rightarrow>
          (case client of
             None \<Rightarrow> CtxBad ''Registered OAuth client was not found.'' (Some clientId)
           | Some c \<Rightarrow>
               let tokenEndpointAuthMethod = getTokenEndpointAuthMethod c;
                   ok = CtxOk DefaultClient (Some clientId)
                     (map_option (\<lambda>sc. \<lparr>cp_senderConstrainedAccessToken = Some sc\<rparr>)
                       (senderConstrainedAccessToken c))
               in if tokenEndpointAuthMethod = ''private_key_jwt'' then
                    (if \<not> hasPrivateKeyJwtAssertion requestData then
                       CtxBad (missingPrivateKeyJwtAssertionDescription requestData) (Some clientId)
                     else ok)
                  else if tokenEndpointAuthMethod \<noteq> ''none'' then
                    CtxBad (tokenEndpointAuthMethod @ '' client authentication is not implemented yet.'')
                      (Some clientId)
                  else ok))"

subsection \<open>DPoP mode\<close>

definition policy_slice :: "AuthzOAuthPolicy \<Rightarrow> AuthzOAuthPolicyClientKind \<Rightarrow> AuthzClientPolicy option" where
  "policy_slice policy kind =
     (case kind of AnonymousClient \<Rightarrow> anonymous_client policy | DefaultClient \<Rightarrow> default_client policy)"

text \<open>\<open>x?.senderConstrainedAccessToken\<close>.\<close>

definition sender_constraint :: "AuthzClientPolicy option \<Rightarrow> SenderConstrainedAccessToken option" where
  "sender_constraint p = (case p of None \<Rightarrow> None | Some c \<Rightarrow> cp_senderConstrainedAccessToken c)"

definition dpop_mode_of :: "SenderConstrainedAccessToken option \<Rightarrow> DPoPMode" where
  "dpop_mode_of senderConstraint =
     (case senderConstraint of
        None \<Rightarrow> DEFAULT_DPOP_MODE
      | Some sc \<Rightarrow>
          if sc_method sc = Some MethodNone \<or> sc_method sc = Some MethodMtls then DEFAULT_DPOP_MODE
          else (case sc_dpop sc of
                  None \<Rightarrow> DEFAULT_DPOP_MODE
                | Some d \<Rightarrow> getOr DEFAULT_DPOP_MODE (dpop_mode d)))"

text \<open>The exported function, on any flow with \<open>findAuthzOAuthPolicy\<close>.\<close>

definition resolveAuthzPolicyDpopMode ::
  "(string \<Rightarrow> ('w, AuthzOAuthPolicy option) M) \<Rightarrow> string \<Rightarrow> AuthzOAuthPolicyClientKind \<Rightarrow>
   AuthzClientPolicy option \<Rightarrow> ('w, DPoPMode) M" where
  "resolveAuthzPolicyDpopMode findAuthzOAuthPolicy authz clientKind clientPolicy =
     bindM (findAuthzOAuthPolicy authz) (\<lambda>policy.
       let fromPolicy = (case policy of None \<Rightarrow> None | Some p \<Rightarrow> sender_constraint (policy_slice p clientKind))
       in ret (dpop_mode_of (orElse (sender_constraint clientPolicy) fromPolicy)))"

definition findAuthzOAuthPolicy :: "string \<Rightarrow> (world, AuthzOAuthPolicy option) M" where
  "findAuthzOAuthPolicy issuer = on_policies (authz_policy_fetch issuer)"

definition resolveAuthzPolicyDpopModeForIssuer ::
  "string \<Rightarrow> AuthzOAuthPolicyClientKind \<Rightarrow> AuthzClientPolicy option \<Rightarrow> (world, DPoPMode) M" where
  "resolveAuthzPolicyDpopModeForIssuer authz clientKind clientPolicy =
     bindM (on_policies (authz_policy_fetch authz)) (\<lambda>policy.
       let senderConstraint =
             orElse (case clientPolicy of None \<Rightarrow> None | Some c \<Rightarrow> cp_senderConstrainedAccessToken c)
               (case policy of
                  None \<Rightarrow> None
                | Some p \<Rightarrow>
                    (case (case clientKind of AnonymousClient \<Rightarrow> anonymous_client p
                           | DefaultClient \<Rightarrow> default_client p) of
                       None \<Rightarrow> None
                     | Some c \<Rightarrow> cp_senderConstrainedAccessToken c))
       in case senderConstraint of
            None \<Rightarrow> ret DEFAULT_DPOP_MODE
          | Some sc \<Rightarrow>
              if sc_method sc = Some MethodNone \<or> sc_method sc = Some MethodMtls then ret DEFAULT_DPOP_MODE
              else ret (case sc_dpop sc of
                          None \<Rightarrow> DEFAULT_DPOP_MODE
                        | Some d \<Rightarrow> getOr DEFAULT_DPOP_MODE (dpop_mode d)))"

subsection \<open>The client policy of a token request\<close>

datatype TokenRequestPolicyClientResolution =
    ResOk AuthzOAuthPolicyClientKind DPoPMode "string option" "AuthzClientPolicy option"
  | ResBad string "string option"

text \<open>
  The authentication of a registered client that uses \<open>private_key_jwt\<close>: the refusal, if
  any. The time to live of the jti is what is left until \<open>exp\<close>.
\<close>

definition authenticate_client ::
  "ext \<Rightarrow> string \<Rightarrow> AuthorizationServerMetadata option \<Rightarrow> obj \<Rightarrow> AuthzOAuthClient \<Rightarrow>
   (world, string option) M" where
  "authenticate_client X authz metadata requestData client =
     bindM (verifyPrivateKeyJwtClientAuthentication X authz metadata requestData client) (\<lambda>verification.
       case verification of
         PkjBad d \<Rightarrow> ret (Some d)
       | PkjOk jti expiry \<Rightarrow>
           bindM now_ms (\<lambda>now.
           let ttlMs = num_add (num_scale 1000 expiry) (num_int (- now)) in
           if num_lt ttlMs MIN_CLIENT_ASSERTION_JTI_TTL_MS then
             ret (Some ''client_assertion has expired.'')
           else bindM (timed (\<lambda>t. on_oauth_jtis (oauth_saveIfAbsent t (client_id client) jti (Some ttlMs))))
             (\<lambda>isNewJti. ret (if isNewJti then None
                              else Some ''client_assertion jti has already been used.''))))"

definition resolveTokenRequestClientPolicy ::
  "ext \<Rightarrow> string \<Rightarrow> obj \<Rightarrow> (world, TokenRequestPolicyClientResolution) M" where
  "resolveTokenRequestClientPolicy X authz requestData =
     bindM (case getTokenRequestClientId X requestData of
              None \<Rightarrow> ret None
            | Some clientId \<Rightarrow> on_clients (oauth_client_fetch authz clientId)) (\<lambda>oauthClient.
     case resolveTokenRequestPolicyClientContext X requestData oauthClient of
       CtxBad d c \<Rightarrow> ret (ResBad d c)
     | CtxOk clientKind clientId clientPolicy \<Rightarrow>
         let anonymousCode = (clientKind = AnonymousClient \<and> isPreAuthorizedCodeTokenRequest requestData);
             usesPkj = (case oauthClient of None \<Rightarrow> False
                        | Some c \<Rightarrow> getTokenEndpointAuthMethod c = ''private_key_jwt'')
         in bindM (if anonymousCode \<or> usesPkj then on_authz_metadata (authz_metadata_fetch authz) else ret None)
           (\<lambda>metadata.
            if anonymousCode \<and>
               (case metadata of None \<Rightarrow> True
                | Some m \<Rightarrow> pre_authorized_grant_anonymous_access_supported m \<noteq> Some True)
            then ret (ResBad ''anonymous pre-authorized code token requests are not supported'' None)
            else bindM (case oauthClient of
                          Some c \<Rightarrow> if usesPkj then authenticate_client X authz metadata requestData c else ret None
                        | None \<Rightarrow> ret None)
              (\<lambda>refusal.
               case refusal of
                 Some d \<Rightarrow> ret (ResBad d (map_option client_id oauthClient))
               | None \<Rightarrow>
                   bindM (resolveAuthzPolicyDpopModeForIssuer authz clientKind clientPolicy)
                     (\<lambda>dpopMode. ret (ResOk clientKind dpopMode clientId clientPolicy)))))"

subsection \<open>What an accepted client assertion satisfies\<close>

text \<open>The identifier and the expiry an assertion is remembered by.\<close>

definition assertion_claims :: "ext \<Rightarrow> obj \<Rightarrow> (string \<times> jsnum) option" where
  "assertion_claims X requestData =
     (case getStringValue (oget requestData ''client_assertion'') of
        None \<Rightarrow> None
      | Some a \<Rightarrow>
          (case parseCompactJwt X a of
             None \<Rightarrow> None
           | Some (h, p) \<Rightarrow>
               (case (getStringValue (vget p ''jti''), vget p ''exp'') of
                  (Some j, Some (JNum e)) \<Rightarrow> Some (j, e)
                | _ \<Rightarrow> None)))"

lemma pkj_claims_Inr:
  "pkj_claims c now p = Inr (jti, e) \<Longrightarrow>
     getStringValue (vget p ''iss'') = Some c \<and> getStringValue (vget p ''sub'') = Some c \<and>
     vget p ''exp'' = Some (JNum e) \<and> getStringValue (vget p ''jti'') = Some jti"
  by (auto simp: pkj_claims_def split: if_splits option.splits jsval.splits)

lemma pkj_alg_Inr:
  "pkj_alg client metadata h = Inr alg \<Longrightarrow>
     getStringValue (vget h ''alg'') = Some alg \<and> js_lower alg \<noteq> ''none'' \<and> \<not> starts_hs alg \<and>
     (\<exists>m. metadata = Some m \<and>
        ''private_key_jwt'' \<in> set (getOr [] (token_endpoint_auth_methods_supported m)) \<and>
        alg \<in> set (getOr [] (token_endpoint_auth_signing_alg_values_supported m)))"
  by (auto simp: pkj_alg_def Let_def split: if_splits option.splits)

lemma selectClientAssertionJwk_registered:
  "selectClientAssertionJwk client h = Some jwk \<Longrightarrow> jwk \<in> set (getOr [] (client_jwks client))"
  by (auto simp: selectClientAssertionJwk_def Let_def find_Some_iff split: if_splits option.splits)

lemma pkj_key_Inr: "pkj_key client h alg = Inr jwk \<Longrightarrow> selectClientAssertionJwk client h = Some jwk"
  by (auto simp: pkj_key_def split: if_splits option.splits)

lemma pkj_signature_Inr:
  "pkj_signature X client auds a alg jwk now = Inr p \<Longrightarrow>
     \<exists>key. importJWK X jwk alg = Inr key \<and>
       jwtVerify X now a key (pkj_verify_options client auds) = Inr p"
  by (auto simp: pkj_signature_def split: sum.splits)

lemma verify_pkj_ok:
  assumes "verifyPrivateKeyJwtClientAuthentication X authz md rd client w = (Inr (PkjOk jti e), w')"
  obtains a h p alg jwk key q where
    "getStringValue (oget rd ''client_assertion'') = Some a" "parseCompactJwt X a = Some (h, p)"
    "pkj_claims (client_id client) (w_clk w 0 div 1000) p = Inr (jti, e)"
    "pkj_alg client md h = Inr alg" "selectClientAssertionJwk client h = Some jwk"
    "importJWK X jwk alg = Inr key"
    "jwtVerify X (w_clk w 1) a key
       (pkj_verify_options client (getExpectedClientAssertionAudiences client md authz)) = Inr q"
    "w' = w\<lparr>w_clk := shift (shift (w_clk w))\<rparr>"
  using assms
  by (auto simp: verifyPrivateKeyJwtClientAuthentication_def run_simps Let_def shift_def
      dest!: pkj_key_Inr pkj_signature_Inr
      split: if_splits option.splits sum.splits prod.splits)

lemma verify_pkj_claims:
  "verifyPrivateKeyJwtClientAuthentication X authz md rd client w = (Inr (PkjOk jti e), w') \<Longrightarrow>
     assertion_claims X rd = Some (jti, e)"
  by (erule verify_pkj_ok) (auto simp: assertion_claims_def dest!: pkj_claims_Inr)

lemma authenticate_client_verified:
  assumes "authenticate_client X authz md rd client w = (Inr None, w')"
  obtains jti e w1 where
    "verifyPrivateKeyJwtClientAuthentication X authz md rd client w = (Inr (PkjOk jti e), w1)"
proof -
  obtain v w1 where v: "verifyPrivateKeyJwtClientAuthentication X authz md rd client w = (Inr v, w1)"
    using assms by (auto simp: authenticate_client_def inr_simps)
  with assms that show ?thesis by (cases v) (auto simp: authenticate_client_def run_simps)
qed

text \<open>An accepted assertion was recorded, at the fourth reading of the clock.\<close>

lemma authenticate_client_None:
  assumes "authenticate_client X authz md rd client w = (Inr None, w')"
  obtains jti e ttl where "assertion_claims X rd = Some (jti, e)"
    "ttl = num_add (num_scale 1000 e) (num_int (- w_clk w 2))" "\<not> num_lt ttl (Fin 1)"
    "fst (jti_admit (w_clk w 3) (oauth_jti_key (client_id client) jti) ttl (w_oauth_jtis w))"
    "w_oauth_jtis w' = snd (jti_admit (w_clk w 3) (oauth_jti_key (client_id client) jti) ttl (w_oauth_jtis w))"
proof -
  obtain v w1 where v: "verifyPrivateKeyJwtClientAuthentication X authz md rd client w = (Inr v, w1)"
    using assms by (auto simp: authenticate_client_def inr_simps)
  show ?thesis
  proof (cases v)
    case (PkjBad d)
    then show ?thesis using assms by (simp add: authenticate_client_def run_simps v)
  next
    case (PkjOk jti e)
    note v = v [unfolded PkjOk]
    have w1: "w1 = w\<lparr>w_clk := shift (shift (w_clk w))\<rparr>" using v by (rule verify_pkj_ok)
    show ?thesis
      using assms verify_pkj_claims [OF v]
      by (intro that [of jti e "num_add (num_scale 1000 e) (num_int (- w_clk w 2))"])
        (auto simp: authenticate_client_def run_simps v w1 Let_def shift_def on_oauth_jtis_def
          oauth_saveIfAbsent_admit MIN_CLIENT_ASSERTION_JTI_TTL_MS_def numeral_2_eq_2 numeral_3_eq_3
          split: if_splits)
  qed
qed

subsection \<open>What the authentication writes\<close>

lemma preserves_pkj_case [preserves_intros]:
  "(\<And>j e. preserves p (f j e)) \<Longrightarrow> (\<And>d. preserves p (g d)) \<Longrightarrow>
     preserves p (case v of PkjOk j e \<Rightarrow> f j e | PkjBad d \<Rightarrow> g d)"
  by (cases v) simp_all

lemma preserves_ctx_case [preserves_intros]:
  "(\<And>k c q. preserves p (f k c q)) \<Longrightarrow> (\<And>d c. preserves p (g d c)) \<Longrightarrow>
     preserves p (case v of CtxOk k c q \<Rightarrow> f k c q | CtxBad d c \<Rightarrow> g d c)"
  by (cases v) simp_all

lemma preserves_authenticate_client [preserves_intros]:
  "(\<And>w c. p (w\<lparr>w_clk := c\<rparr>) = p w) \<Longrightarrow> (\<And>s w. p (w_oauth_jtis_update (\<lambda>_. s) w) = p w) \<Longrightarrow>
     preserves p (authenticate_client X authz md rd c)"
  unfolding authenticate_client_def verifyPrivateKeyJwtClientAuthentication_def
  by (intro preserves_intros)

lemma preserves_dpopMode [preserves_intros]:
  "(\<And>s w. p (w_policies_update (\<lambda>_. s) w) = p w) \<Longrightarrow>
     preserves p (resolveAuthzPolicyDpopModeForIssuer authz k cp)"
  unfolding resolveAuthzPolicyDpopModeForIssuer_def by (intro preserves_intros)

text \<open>The mode as a function of the stored policy: the client's own constraint wins.\<close>

definition effective_mode ::
  "AuthzOAuthPolicy option \<Rightarrow> AuthzOAuthPolicyClientKind \<Rightarrow> AuthzClientPolicy option \<Rightarrow> DPoPMode" where
  "effective_mode policy kind clientPolicy =
     dpop_mode_of (orElse (sender_constraint clientPolicy)
       (case policy of None \<Rightarrow> None | Some p \<Rightarrow> sender_constraint (policy_slice p kind)))"

lemma dpopMode_run:
  "resolveAuthzPolicyDpopModeForIssuer authz kind cp w = (Inr (effective_mode (w_policies w authz) kind cp), w)"
  by (simp add: resolveAuthzPolicyDpopModeForIssuer_def run_simps on_policies_def authz_policy_fetch_def
      effective_mode_def dpop_mode_of_def sender_constraint_def policy_slice_def Let_def
      split: option.split AuthzOAuthPolicyClientKind.split)

lemma exported_dpopMode_run:
  "resolveAuthzPolicyDpopMode findAuthzOAuthPolicy authz kind cp w =
     (Inr (effective_mode (w_policies w authz) kind cp), w)"
  by (simp add: resolveAuthzPolicyDpopMode_def findAuthzOAuthPolicy_def run_simps on_policies_def
      authz_policy_fetch_def effective_mode_def Let_def)

subsection \<open>Properties\<close>

text \<open>C11. A client assertion that authenticated a client cannot authenticate it again. Whatever
  other assertions are recorded before it expires, presenting the same jti and exp for the
  same client a second time is refused, before the expiry because the jti is still held and
  after it because no time to live is left; the one condition is that the clock does not
  pass the expiry between the two readings made for one request.\<close>

theorem client_assertion_no_replay:
  assumes first: "authenticate_client X authz md rd c w = (Inr None, w1)"
    and same: "assertion_claims X rd = Some (jti, Fin r)" "assertion_claims X' rd' = Some (jti, Fin r)"
      "client_id c' = client_id c"
    and clock: "w_clk w 2 \<le> w_clk w 3"
    and between: "w_oauth_jtis w2 = jti.run qs (w_oauth_jtis w1)"
      "\<forall>(now, k, ttl) \<in> set qs. of_int now \<le> 1000 * r"
    and readings: "of_int (w_clk w2 3) \<le> 1000 * r \<or> 1000 * r \<le> of_int (w_clk w2 2)"
  shows "fst (authenticate_client X' authz' md' rd' c' w2) \<noteq> Inr None"
proof
  let ?k = "oauth_jti_key (client_id c) jti"
  assume "fst (authenticate_client X' authz' md' rd' c' w2) = Inr None"
  then obtain w3 where again: "authenticate_client X' authz' md' rd' c' w2 = (Inr None, w3)"
    by (metis prod.collapse)
  let ?e = "Fin (of_int (w_clk w 3) + (1000 * r - of_int (w_clk w 2)))"
  have "w_oauth_jtis w1 ?k = Some ?e"
    using first same(1) by (elim authenticate_client_None) (auto dest: jti.admit_records)
  moreover have "\<not> lapsed now ?e" if "of_int now \<le> 1000 * r" for now
    using that clock by (simp add: lapsed_def)
  ultimately have held: "w_oauth_jtis w2 ?k = Some ?e"
    unfolding between(1) using between(2) by (intro jti.held_run) fastforce+
  obtain ttl where ttl: "ttl = Fin (1000 * r - of_int (w_clk w2 2))" "\<not> num_lt ttl (Fin 1)"
      "fst (jti_admit (w_clk w2 3) ?k ttl (w_oauth_jtis w2))"
    using again same(2,3) by (elim authenticate_client_None) auto
  then have "lapsed (w_clk w2 3) ?e" using held by (simp add: jti.admit_result)
  then have "1000 * r < of_int (w_clk w2 3)" using clock by (simp add: lapsed_def)
  with readings ttl(1,2) show False by simp
qed

text \<open>An example: one registered client and one assertion that expires at second 100.\<close>

definition ext_assertion :: ext where
  "ext_assertion = ext0\<lparr>decode_json := (\<lambda>s.
     if s = ''H'' then Some (JObj [(''alg'', JStr ''ES256'')])
     else if s = ''P'' then Some (JObj [(''iss'', JStr ''c''), (''sub'', JStr ''c''), (''exp'', JNum (Fin 100)),
       (''iat'', JNum (Fin 0)), (''jti'', JStr ''j'')])
     else None)\<rparr>"

definition demo_client :: AuthzOAuthClient where
  "demo_client = \<lparr>client_id = ''c'', client_name = None, token_endpoint_auth_method = Some ''private_key_jwt'',
     token_endpoint_auth_signing_alg = None, client_assertion_audience = None, client_jwks = Some [[]],
     client_jwks_uri = None, allowed_grant_types = None, senderConstrainedAccessToken = None,
     client_enabled = None, client_comment = None, client_passthrough = []\<rparr>"

definition demo_metadata :: AuthorizationServerMetadata where
  "demo_metadata = \<lparr>pre_authorized_grant_anonymous_access_supported = None, as_issuer = ''as'',
     authorization_endpoint = ''a'', token_endpoint = ''t'', as_jwks_uri = None, registration_endpoint = None,
     scopes_supported = None, response_types_supported = [], response_modes_supported = None,
     grant_types_supported = None, token_endpoint_auth_methods_supported = Some [''private_key_jwt''],
     token_endpoint_auth_signing_alg_values_supported = Some [''ES256''], service_documentation = None,
     ui_locales_supported = None, op_policy_uri = None, op_tos_uri = None, revocation_endpoint = None,
     revocation_endpoint_auth_methods_supported = None,
     revocation_endpoint_auth_signing_alg_values_supported = None, introspection_endpoint = None,
     introspection_endpoint_auth_methods_supported = None,
     introspection_endpoint_auth_signing_alg_values_supported = None,
     code_challenge_methods_supported = None\<rparr>"

definition demo_request :: obj where
  "demo_request = [(''client_assertion_type'', JStr CLIENT_ASSERTION_TYPE_JWT_BEARER),
     (''client_assertion'', JStr ''H.P.S'')]"

lemma demo_strings:
  "js_trim ''H.P.S'' = ''H.P.S''" "js_trim CLIENT_ASSERTION_TYPE_JWT_BEARER = CLIENT_ASSERTION_TYPE_JWT_BEARER"
  "CLIENT_ASSERTION_TYPE_JWT_BEARER \<noteq> []" "js_trim ''c'' = ''c''" "js_trim ''j'' = ''j''"
  "js_trim ''ES256'' = ''ES256''" "js_lower ''ES256'' \<noteq> ''none''" "\<not> starts_hs ''ES256''"
  by code_simp+

lemma demo_authenticate:
  "authenticate_client ext_assertion ''as'' (Some demo_metadata) demo_request demo_client world0 =
     (Inr None, world0\<lparr>w_clk := shift (shift (shift (shift (w_clk world0)))),
        w_oauth_jtis := snd (jti_admit 3000 (oauth_jti_key ''c'' ''j'') (Fin 98000) (\<lambda>_. None))\<rparr>)"
  by (simp add: authenticate_client_def verifyPrivateKeyJwtClientAuthentication_def hasPrivateKeyJwtAssertion_def
      demo_request_def demo_strings parseCompactJwt_def ext_assertion_def ext0_def run_simps pkj_claims_def
      demo_client_def CLIENT_ASSERTION_CLOCK_TOLERANCE_SECONDS_def pkj_alg_def demo_metadata_def string_setting_def
      pkj_key_def selectClientAssertionJwk_def pkj_signature_def Let_def world0_def shift_def
      MIN_CLIENT_ASSERTION_JTI_TTL_MS_def on_oauth_jtis_def oauth_saveIfAbsent_admit jti_admit_def cleanupExpired_def)

lemma demo_assertion: "assertion_claims ext_assertion demo_request = Some (''j'', Fin 100)"
  by (simp add: assertion_claims_def demo_request_def demo_strings parseCompactJwt_def ext_assertion_def)

lemma demo_authenticate_snd:
  "snd (authenticate_client ext_assertion ''as'' (Some demo_metadata) demo_request demo_client world0) =
     world0\<lparr>w_clk := shift (shift (shift (shift (w_clk world0)))),
        w_oauth_jtis := snd (jti_admit 3000 (oauth_jti_key ''c'' ''j'') (Fin 98000) (\<lambda>_. None))\<rparr>"
  by (simp add: demo_authenticate)

theorem client_assertion_no_replay_witness:
  "fst (authenticate_client ext_assertion ''as'' (Some demo_metadata) demo_request demo_client
     (snd (authenticate_client ext_assertion ''as'' (Some demo_metadata) demo_request demo_client world0))) \<noteq> Inr None"
  unfolding demo_authenticate_snd
  by (rule client_assertion_no_replay [where qs = "[]", OF demo_authenticate demo_assertion demo_assertion refl])
    (simp_all add: world0_def shift_def)

text \<open>C34. A registered client that must authenticate with \<open>private_key_jwt\<close> is only accepted
  with an assertion issued by and about itself, signed with an asymmetric algorithm that the
  server's metadata advertises, whose signature verified under one of the client's
  registered keys with the expected audience.\<close>

theorem private_key_jwt_authenticates:
  assumes "resolveTokenRequestClientPolicy X authz rd w = (Inr (ResOk kind mode cid pol), w')"
    and "getTokenRequestClientId X rd = Some c"
    and "oauth_client_lookup (w_clients w) (oauth_client_key authz c) = Some client"
    and "getTokenEndpointAuthMethod client = ''private_key_jwt''"
  shows "\<exists>a h p alg jwk key now q md.
    getStringValue (oget rd ''client_assertion'') = Some a \<and> parseCompactJwt X a = Some (h, p) \<and>
    getStringValue (vget p ''iss'') = Some (client_id client) \<and>
    getStringValue (vget p ''sub'') = Some (client_id client) \<and>
    getStringValue (vget h ''alg'') = Some alg \<and> js_lower alg \<noteq> ''none'' \<and> \<not> starts_hs alg \<and>
    w_authz_metadata w authz = Some md \<and>
    alg \<in> set (getOr [] (token_endpoint_auth_signing_alg_values_supported md)) \<and>
    jwk \<in> set (getOr [] (client_jwks client)) \<and> importJWK X jwk alg = Inr key \<and>
    jwtVerify X now a key (pkj_verify_options client
      (getExpectedClientAssertionAudiences client (Some md) authz)) = Inr q"
proof -
  have fetch: "on_clients (oauth_client_fetch authz c) w = (Inr (Some client), w)"
    by (simp add: on_clients_def run_simps oauth_client_fetch_def assms(3))
  have md: "on_authz_metadata (authz_metadata_fetch authz) w = (Inr (w_authz_metadata w authz), w)"
    by (simp add: on_authz_metadata_def run_simps authz_metadata_fetch_def)
  obtain w1 where "authenticate_client X authz (w_authz_metadata w authz) rd client w = (Inr None, w1)"
    using assms(1,2,4) fetch
    by (auto simp: resolveTokenRequestClientPolicy_def bindM_run md Let_def ret_run
        split: TokenRequestPolicyClientContextResolution.splits if_splits option.splits sum.splits prod.splits)
  then obtain jti e w2 where
    v: "verifyPrivateKeyJwtClientAuthentication X authz (w_authz_metadata w authz) rd client w = (Inr (PkjOk jti e), w2)"
    by (rule authenticate_client_verified)
  from v show ?thesis
  proof (rule verify_pkj_ok)
    fix a h p alg jwk key q
    assume s: "getStringValue (oget rd ''client_assertion'') = Some a" "parseCompactJwt X a = Some (h, p)"
      and cl: "pkj_claims (client_id client) (w_clk w 0 div 1000) p = Inr (jti, e)"
      and al: "pkj_alg client (w_authz_metadata w authz) h = Inr alg"
      and k: "selectClientAssertionJwk client h = Some jwk" "importJWK X jwk alg = Inr key"
      and j: "jwtVerify X (w_clk w 1) a key (pkj_verify_options client
        (getExpectedClientAssertionAudiences client (w_authz_metadata w authz) authz)) = Inr q"
    obtain m where "w_authz_metadata w authz = Some m" using pkj_alg_Inr [OF al] by blast
    with s k j pkj_claims_Inr [OF cl] pkj_alg_Inr [OF al] selectClientAssertionJwk_registered [OF k(1)]
    show ?thesis
      by (intro exI [of _ a] exI [of _ h] exI [of _ p] exI [of _ alg] exI [of _ jwk] exI [of _ key]
          exI [of _ "w_clk w 1"] exI [of _ q] exI [of _ m]) simp
  qed
qed

definition demo_clients_world :: world where
  "demo_clients_world = world0\<lparr>w_clients := [oauth_client_key ''as'' ''c'' \<mapsto> demo_client],
     w_authz_metadata := [''as'' \<mapsto> demo_metadata]\<rparr>"

lemma demo_authenticate_clients:
  "\<exists>w'. authenticate_client ext_assertion ''as'' (Some demo_metadata) demo_request demo_client demo_clients_world = (Inr None, w')"
  by (simp add: authenticate_client_def verifyPrivateKeyJwtClientAuthentication_def hasPrivateKeyJwtAssertion_def
      demo_request_def demo_strings parseCompactJwt_def ext_assertion_def ext0_def run_simps pkj_claims_def
      demo_client_def CLIENT_ASSERTION_CLOCK_TOLERANCE_SECONDS_def pkj_alg_def demo_metadata_def string_setting_def
      pkj_key_def selectClientAssertionJwk_def pkj_signature_def Let_def world0_def shift_def demo_clients_world_def
      MIN_CLIENT_ASSERTION_JTI_TTL_MS_def on_oauth_jtis_def oauth_saveIfAbsent_admit jti_admit_def cleanupExpired_def)

lemma demo_split: "js_split (CHR ''.'') ''H.P.S'' = [''H'', ''P'', ''S'']"
  by code_simp

lemma demo_client_id: "getTokenRequestClientId ext_assertion demo_request = Some ''c''"
  by (simp add: getTokenRequestClientId_def demo_request_def extractClientIdFromClientAssertion_def demo_strings
      ext_assertion_def js_nth_def demo_split)

lemma demo_resolve:
  "\<exists>mode cid pol w'. resolveTokenRequestClientPolicy ext_assertion ''as'' demo_request demo_clients_world =
     (Inr (ResOk DefaultClient mode cid pol), w')"
proof -
  obtain w' where "authenticate_client ext_assertion ''as'' (Some demo_metadata) demo_request demo_client demo_clients_world
      = (Inr None, w')" using demo_authenticate_clients by blast
  moreover have "hasPrivateKeyJwtAssertion demo_request"
    by (simp add: hasPrivateKeyJwtAssertion_def demo_request_def demo_strings)
  moreover have "on_clients (oauth_client_fetch ''as'' ''c'') demo_clients_world = (Inr (Some demo_client), demo_clients_world)"
    "on_authz_metadata (authz_metadata_fetch ''as'') demo_clients_world = (Inr (Some demo_metadata), demo_clients_world)"
    by (simp_all add: on_clients_def on_authz_metadata_def run_simps authz_metadata_fetch_def oauth_client_fetch_def
        oauth_client_lookup_def demo_clients_world_def demo_client_def)
  moreover have "getTokenEndpointAuthMethod demo_client = ''private_key_jwt''"
    by (simp_all add: demo_client_def getTokenEndpointAuthMethod_def)
  ultimately show ?thesis
    by (simp add: resolveTokenRequestClientPolicy_def demo_client_id run_simps
        resolveTokenRequestPolicyClientContext_def Let_def dpopMode_run)
qed

theorem private_key_jwt_authenticates_witness:
  "\<exists>a h p. getStringValue (oget demo_request ''client_assertion'') = Some a \<and>
     parseCompactJwt ext_assertion a = Some (h, p) \<and> getStringValue (vget p ''sub'') = Some ''c''"
proof -
  obtain mode cid pol w' where r: "resolveTokenRequestClientPolicy ext_assertion ''as'' demo_request demo_clients_world =
     (Inr (ResOk DefaultClient mode cid pol), w')" using demo_resolve by blast
  have l: "oauth_client_lookup (w_clients demo_clients_world) (oauth_client_key ''as'' ''c'') = Some demo_client"
    by (simp add: oauth_client_lookup_def demo_clients_world_def demo_client_def)
  have m: "getTokenEndpointAuthMethod demo_client = ''private_key_jwt''" "client_id demo_client = ''c''"
    by (simp_all add: demo_client_def getTokenEndpointAuthMethod_def)
  from private_key_jwt_authenticates [OF r demo_client_id l m(1)] m(2) show ?thesis by auto
qed

end
