(* ===== verification/Dpop.thy ===== *)
theory Dpop
  imports World Headers
begin

text \<open>
  Verification of DPoP proofs (\<open>providers/dpop-proof.provider.ts\<close>): header, signature,
  claims, request and access-token binding, in the order of the source.
\<close>

definition DPOP_PROOF_TYP :: string where
  "DPOP_PROOF_TYP = ''dpop+jwt''"

definition DEFAULT_DPOP_PROOF_MAX_TOKEN_AGE_SECONDS :: jsnum where
  "DEFAULT_DPOP_PROOF_MAX_TOKEN_AGE_SECONDS = Fin 300"

definition DEFAULT_DPOP_PROOF_CLOCK_TOLERANCE_SECONDS :: jsnum where
  "DEFAULT_DPOP_PROOF_CLOCK_TOLERANCE_SECONDS = Fin 60"

record DPoPProofFactoryOptions =
  maxTokenAgeSeconds :: "jsnum option"
  clockToleranceSeconds :: "jsnum option"

definition default_dpop_options :: DPoPProofFactoryOptions where
  "default_dpop_options = \<lparr>maxTokenAgeSeconds = None, clockToleranceSeconds = None\<rparr>"

definition dpop_maxTokenAge :: "DPoPProofFactoryOptions \<Rightarrow> jsnum" where
  "dpop_maxTokenAge D = getOr DEFAULT_DPOP_PROOF_MAX_TOKEN_AGE_SECONDS (maxTokenAgeSeconds D)"

definition dpop_clockTolerance :: "DPoPProofFactoryOptions \<Rightarrow> jsnum" where
  "dpop_clockTolerance D = getOr DEFAULT_DPOP_PROOF_CLOCK_TOLERANCE_SECONDS (clockToleranceSeconds D)"

definition proofJtiTtlMs :: "DPoPProofFactoryOptions \<Rightarrow> jsnum" where
  "proofJtiTtlMs D = num_scale 1000 (num_add (dpop_maxTokenAge D) (dpop_clockTolerance D))"

definition bad_proof :: "string \<Rightarrow> exn" where
  "bad_proof msg = err ''invalid_dpop_proof'' msg"

definition normalizeHtu :: "ext \<Rightarrow> string \<Rightarrow> exn + string" where
  "normalizeHtu X value =
     (case url_parse X value of
        None \<Rightarrow> Inl (bad_proof ''htu claim must be a valid absolute URI'')
      | Some u0 \<Rightarrow>
          let u1 = u0\<lparr>url_search := [], url_hash := []\<rparr>;
              u2 = (if url_protocol u1 = ''https:'' \<and> url_port u1 = ''443'' \<or>
                       url_protocol u1 = ''http:'' \<and> url_port u1 = ''80''
                    then u1\<lparr>url_port := []\<rparr> else u1)
          in Inr (url_string X u2))"

text \<open>
  The schema \<open>dpopProofPayloadSchema\<close> on a JSON object: required strings are not empty, an
  optional field is absent or well typed, a number is finite.
\<close>

definition req_str :: "obj \<Rightarrow> string \<Rightarrow> string option" where
  "req_str ob k = (case oget ob k of Some (JStr s) \<Rightarrow> if s = [] then None else Some s | _ \<Rightarrow> None)"

definition opt_field :: "(string \<Rightarrow> bool) \<Rightarrow> obj \<Rightarrow> string \<Rightarrow> string option option" where
  "opt_field P ob k =
     (case oget ob k of
        None \<Rightarrow> Some None
      | Some (JStr s) \<Rightarrow> if P s then Some (Some s) else None
      | Some v \<Rightarrow> None)"

definition req_num :: "obj \<Rightarrow> string \<Rightarrow> jsnum option" where
  "req_num ob k = (case oget ob k of Some (JNum n) \<Rightarrow> if num_finite n then Some n else None | _ \<Rightarrow> None)"

definition parseDpopProofPayload :: "obj \<Rightarrow> exn + DPoPProofPayload" where
  "parseDpopProofPayload ob =
     (case (req_str ob ''jti'', req_num ob ''iat'', req_str ob ''htm'', req_str ob ''htu'',
            opt_field (\<lambda>_. True) ob ''nonce'', opt_field (\<lambda>s. s \<noteq> []) ob ''ath'') of
        (Some jti, Some iat, Some m, Some u, Some n, Some ath) \<Rightarrow>
          Inr \<lparr>pp_jti = jti, pp_iat = iat, pp_htm = m, pp_htu = u, pp_nonce = n, pp_ath = ath\<rparr>
      | _ \<Rightarrow> Inl (bad_proof ''payload claims are invalid''))"

text \<open>\<open>toUpperCase\<close>; the characters whose upper case is not one code unit below 256 stay.\<close>

definition upper_char :: "char \<Rightarrow> char" where
  "upper_char c =
     (if 97 \<le> code c \<and> code c \<le> 122 \<or> 224 \<le> code c \<and> code c \<le> 254 \<and> code c \<noteq> 247
      then char_of (code c - 32) else c)"

definition js_upper :: "string \<Rightarrow> string" where
  "js_upper s = map upper_char s"

text \<open>The header checks before the signature: the algorithm and the public JWK.\<close>

definition dpop_header_checks :: "obj \<Rightarrow> exn + (string \<times> obj)" where
  "dpop_header_checks proofHeader =
     (case oget proofHeader ''alg'' of
        Some (JStr proofAlg) \<Rightarrow>
          if isProhibitedAlg proofAlg then Inl (bad_proof ''alg must be an asymmetric signature algorithm'')
          else if oget proofHeader ''typ'' \<noteq> Some (JStr DPOP_PROOF_TYP) then Inl (bad_proof ''typ must be dpop+jwt'')
          else (case oget proofHeader ''jwk'' of
                  Some (JObj jwk) \<Rightarrow>
                    if ohas jwk ''d'' then Inl (bad_proof ''jwk must not contain a private key'')
                    else Inr (proofAlg, jwk)
                | _ \<Rightarrow> Inl (bad_proof ''header must contain a public JWK''))
      | _ \<Rightarrow> Inl (bad_proof ''alg must be an asymmetric signature algorithm''))"

text \<open>The checks of the verified claims against the request.\<close>

definition dpop_claim_checks ::
  "ext \<Rightarrow> DPoPProofVerifyContext \<Rightarrow> DPoPProofPayload \<Rightarrow> exn + unit" where
  "dpop_claim_checks X ctx payload =
     (if pp_htm payload \<noteq> js_upper (htm ctx) then
        Inl (bad_proof ''htm claim does not match the HTTP method'')
      else case normalizeHtu X (pp_htu payload) of
        Inl e \<Rightarrow> Inl e
      | Inr claimed \<Rightarrow>
          (case normalizeHtu X (htu ctx) of
             Inl e \<Rightarrow> Inl e
           | Inr expected \<Rightarrow>
               if claimed \<noteq> expected then Inl (bad_proof ''htu claim does not match the target URI'')
               else (case ctx_accessToken ctx of
                  None \<Rightarrow>
                    if ctx_nonce ctx \<noteq> None \<and> pp_nonce payload \<noteq> ctx_nonce ctx
                    then Inl (bad_proof ''nonce claim does not match the expected nonce'') else Inr ()
                | Some tok \<Rightarrow>
                    if \<not> opt_str (pp_ath payload) then Inl (bad_proof ''ath claim is required'')
                    else if pp_ath payload \<noteq> Some (calculateAccessTokenHash X tok)
                    then Inl (bad_proof ''ath claim does not match the access token'')
                    else if ctx_nonce ctx \<noteq> None \<and> pp_nonce payload \<noteq> ctx_nonce ctx
                    then Inl (bad_proof ''nonce claim does not match the expected nonce'') else Inr ())))"

definition dpop_verify_options :: "DPoPProofFactoryOptions \<Rightarrow> string \<Rightarrow> verify_options" where
  "dpop_verify_options D proofAlg = no_verify_options
     \<lparr>vo_algorithms := Some [proofAlg], vo_typ := Some DPOP_PROOF_TYP,
      vo_maxTokenAge := Some (dpop_maxTokenAge D), vo_clockTolerance := Some (dpop_clockTolerance D)\<rparr>"

text \<open>What is verified at the time \<open>now\<close>; the only effect is the reading of the clock.\<close>

definition verify_proof_at ::
  "ext \<Rightarrow> DPoPProofFactoryOptions \<Rightarrow> int \<Rightarrow> string \<Rightarrow> DPoPProofVerifyContext \<Rightarrow> exn + VerifiedDpopProof" where
  "verify_proof_at X D now proofJwt ctx =
     (case decodeProtectedHeader X proofJwt of
        Inl e \<Rightarrow> Inl e
      | Inr proofHeader \<Rightarrow>
          (case dpop_header_checks proofHeader of
             Inl e \<Rightarrow> Inl e
           | Inr (proofAlg, jwk) \<Rightarrow>
               (case importJWK X jwk proofAlg of
                  Inl e \<Rightarrow> Inl (bad_proof ''Failed to import DPoP proof JWK'')
                | Inr key \<Rightarrow>
                    (case jwtVerify X now proofJwt key (dpop_verify_options D proofAlg) of
                       Inl e \<Rightarrow> Inl (bad_proof ''DPoP proof JWT verification failed'')
                     | Inr claims \<Rightarrow>
                         (case parseDpopProofPayload claims of
                            Inl e \<Rightarrow> Inl e
                          | Inr payload \<Rightarrow>
                              (case dpop_claim_checks X ctx payload of
                                 Inl e \<Rightarrow> Inl e
                               | Inr u \<Rightarrow>
                                   (case calculateJwkThumbprint X jwk of
                                      Inl e \<Rightarrow> Inl e
                                    | Inr thumb \<Rightarrow>
                                        Inr \<lparr>jwkThumbprint = thumb, vp_jti = pp_jti payload,
                                             vp_iat = pp_iat payload, vp_nonce = pp_nonce payload\<rparr>)))))))"

definition verifyProof ::
  "ext \<Rightarrow> DPoPProofFactoryOptions \<Rightarrow> string \<Rightarrow> DPoPProofVerifyContext \<Rightarrow> (world, VerifiedDpopProof) M" where
  "verifyProof X D proofJwt ctx = timed (\<lambda>now. liftE (verify_proof_at X D now proofJwt ctx))"

subsection \<open>What an accepted proof satisfies\<close>

lemma dpop_header_checks_Inr:
  "dpop_header_checks h = Inr (proofAlg, jwk) \<longleftrightarrow>
     oget h ''alg'' = Some (JStr proofAlg) \<and> \<not> isProhibitedAlg proofAlg \<and>
     oget h ''typ'' = Some (JStr DPOP_PROOF_TYP) \<and> oget h ''jwk'' = Some (JObj jwk) \<and> \<not> ohas jwk ''d''"
  by (auto simp: dpop_header_checks_def split: option.splits jsval.splits if_splits)

lemma dpop_claim_checks_Inr:
  "dpop_claim_checks X ctx p = Inr u \<Longrightarrow>
     pp_htm p = js_upper (htm ctx) \<and>
     (\<exists>v. normalizeHtu X (pp_htu p) = Inr v \<and> normalizeHtu X (htu ctx) = Inr v) \<and>
     (\<forall>tok. ctx_accessToken ctx = Some tok \<longrightarrow> pp_ath p = Some (calculateAccessTokenHash X tok)) \<and>
     (ctx_nonce ctx \<noteq> None \<longrightarrow> pp_nonce p = ctx_nonce ctx)"
  by (auto simp: dpop_claim_checks_def split: if_splits sum.splits option.splits)

lemma parseDpopProofPayload_Inr:
  "parseDpopProofPayload ob = Inr p \<Longrightarrow>
     oget ob ''jti'' = Some (JStr (pp_jti p)) \<and> pp_jti p \<noteq> [] \<and> oget ob ''iat'' = Some (JNum (pp_iat p)) \<and>
     num_finite (pp_iat p)"
  by (auto simp: parseDpopProofPayload_def req_str_def req_num_def
      split: option.splits jsval.splits if_splits)

lemma verify_proof_at_Inr:
  assumes "verify_proof_at X D now jwt ctx = Inr v"
  obtains h proofAlg jwk key claims p where
    "decodeProtectedHeader X jwt = Inr h" "dpop_header_checks h = Inr (proofAlg, jwk)"
    "importJWK X jwk proofAlg = Inr key"
    "jwtVerify X now jwt key (dpop_verify_options D proofAlg) = Inr claims"
    "parseDpopProofPayload claims = Inr p" "dpop_claim_checks X ctx p = Inr ()"
    "calculateJwkThumbprint X jwk = Inr (jwkThumbprint v)"
    "vp_jti v = pp_jti p" "vp_iat v = pp_iat p" "vp_nonce v = pp_nonce p"
  using assms by (auto simp: verify_proof_at_def split: sum.splits prod.splits)

lemma preserves_verifyProof [preserves_intros]:
  "(\<And>w c. p (w\<lparr>w_clk := c\<rparr>) = p w) \<Longrightarrow> preserves p (verifyProof X D jwt ctx)"
  unfolding verifyProof_def by (intro preserves_intros)

lemma verifyProof_Inr:
  "verifyProof X D jwt ctx w = (Inr v, w') \<longleftrightarrow>
     verify_proof_at X D (w_clk w 0) jwt ctx = Inr v \<and> w' = w\<lparr>w_clk := shift (w_clk w)\<rparr>"
  by (auto simp: verifyProof_def run_simps)

end
