(* ===== verification/Authz_Flow.thy ===== *)
theory Authz_Flow
  imports Authz_Client Dpop
begin

text \<open>
  The authorization server (\<open>initializeAuthzFlow\<close> of \<open>authz.flows.ts\<close>): registration,
  access token issuance with optional DPoP, access token verification, and the
  authorization of the credential endpoint. \<open>D\<close> are the options of the DPoP provider.
  \<open>NonceRequired\<close> stands for the truthiness of the optional flag.
\<close>

subsection \<open>Metadata, policies and clients\<close>

definition findAuthzServerMetadata :: "string \<Rightarrow> (world, AuthorizationServerMetadata option) M" where
  "findAuthzServerMetadata issuer = on_authz_metadata (authz_metadata_fetch issuer)"

definition createAuthzServerMetadata ::
  "ext \<Rightarrow> AuthorizationServerMetadata \<Rightarrow> string option \<Rightarrow> (world, unit) M" where
  "createAuthzServerMetadata X metadata alg =
     (let privateKeyAlg = getOr ''ES256'' alg in
      bindM (on_authz_metadata (authz_metadata_fetch (as_issuer metadata))) (\<lambda>current.
      if current \<noteq> None then raise ''duplicate_authz_server'' ''issuer is already registered.''
      else bindM fresh (\<lambda>entropy.
        thenM (on_authz_keys (authz_key_save X entropy (as_issuer metadata) privateKeyAlg None))
          (on_authz_metadata (authz_metadata_save metadata)))))"

definition createAuthzOAuthPolicy :: "string \<Rightarrow> AuthzOAuthPolicy \<Rightarrow> (world, unit) M" where
  "createAuthzOAuthPolicy issuer policy = on_policies (authz_policy_save issuer policy)"

definition findAuthzOAuthClient :: "string \<Rightarrow> string \<Rightarrow> (world, AuthzOAuthClient option) M" where
  "findAuthzOAuthClient issuer clientId = on_clients (oauth_client_fetch issuer clientId)"

definition createAuthzOAuthClient :: "string \<Rightarrow> AuthzOAuthClient \<Rightarrow> (world, unit) M" where
  "createAuthzOAuthClient issuer client = on_clients (oauth_client_save issuer client)"

subsection \<open>Nonces\<close>

definition DEFAULT_NONCE_EXPIRES_IN_MS :: jsnum where
  "DEFAULT_NONCE_EXPIRES_IN_MS = Fin (60 * 5 * 1000)"

definition nonce_generate :: "jsnum option \<Rightarrow> (world, nonce_rec) M" where
  "nonce_generate ttl = bindM fresh (\<lambda>uuid.
     ret \<lparr>nonce = strip_dashes uuid, nonce_expires_in = Some (getOr DEFAULT_NONCE_EXPIRES_IN_MS ttl)\<rparr>)"

text \<open>The object built by \<open>Nonce({ nonce })\<close> for a lookup.\<close>

definition lookup_nonce :: "string \<Rightarrow> nonce_rec" where
  "lookup_nonce n = \<lparr>nonce = n, nonce_expires_in = None\<rparr>"

definition createDpopNonceChallenge :: "jsnum option \<Rightarrow> (world, string) M" where
  "createDpopNonceChallenge ttlMs =
     bindM (nonce_generate ttlMs) (\<lambda>n.
     thenM (timed (\<lambda>now. on_nonces (nonce_save now n))) (ret (nonce n)))"

subsection \<open>Access tokens\<close>

text \<open>
  The decoding of the first two parts; a part that is not JSON is the \<open>catch\<close> branch. The
  claims of \<open>null\<close> cannot be read: that is a \<open>TypeError\<close>.
\<close>

definition decode_access_token :: "ext \<Rightarrow> string \<Rightarrow> exn + (jsval \<times> jsval)" where
  "decode_access_token X accessToken =
     (let parts = js_split (CHR ''.'') accessToken in
      if \<not> (opt_str (js_nth parts 0) \<and> opt_str (js_nth parts 1) \<and> opt_str (js_nth parts 2))
      then Inl (err ''invalid_access_token'' ''Access token is not a valid JWT.'')
      else case (decode_json X (parts ! 0), decode_json X (parts ! 1)) of
             (Some h, Some p) \<Rightarrow> Inr (h, p)
           | _ \<Rightarrow> Inl (err ''invalid_access_token'' ''Access token is not a valid JWT.''))"

definition js_read :: "jsval \<Rightarrow> string \<Rightarrow> exn + jsval option" where
  "js_read v k = (if v = JNull then Inl (JsError ''TypeError'') else Inr (vget v k))"

text \<open>\<open>decodedHeader.alg ?? options?.alg ?? 'ES256'\<close>.\<close>

definition token_alg :: "jsval option \<Rightarrow> string option \<Rightarrow> jsval" where
  "token_alg headerAlg alg =
     (case headerAlg of
        Some v \<Rightarrow> if v = JNull then JStr (getOr ''ES256'' alg) else v
      | None \<Rightarrow> JStr (getOr ''ES256'' alg))"

definition verifyAccessTokenPayload ::
  "ext \<Rightarrow> string \<Rightarrow> string \<Rightarrow> string option \<Rightarrow> (world, jsval) M" where
  "verifyAccessTokenPayload X authz accessToken alg =
     bindM (liftE (decode_access_token X accessToken)) (\<lambda>(decodedHeader, decodedPayload).
     bindM (liftE (js_read decodedPayload ''iss'')) (\<lambda>iss.
     bindM (liftE (parse_url_value X iss)) (\<lambda>authzIssuer.
     if authzIssuer \<noteq> authz then
       raise ''invalid_access_token'' ''Access token issuer does not match the expected issuer''
     else bindM (liftE (js_read decodedHeader ''alg'')) (\<lambda>headerAlg.
       bindM (on_authz_keys (key_fetch X authzIssuer (token_alg headerAlg alg))) (\<lambda>publicKey.
       case publicKey of
         None \<Rightarrow> raise ''authz_issuer_key_not_found'' ''Authorization server key not found.''
       | Some key \<Rightarrow>
           bindM now_ms (\<lambda>now.
           case jwtVerify X now accessToken key (no_verify_options\<lparr>vo_issuer := str_of iss\<rparr>) of
             Inl e \<Rightarrow> raise ''invalid_access_token'' ''Access token verification failed.''
           | Inr p \<Rightarrow> ret decodedPayload))))))"

definition verifyAccessToken :: "ext \<Rightarrow> string \<Rightarrow> string \<Rightarrow> string option \<Rightarrow> (world, bool) M" where
  "verifyAccessToken X authz accessToken alg =
     thenM (verifyAccessTokenPayload X authz accessToken alg) (ret True)"

definition getCnfJkt :: "jsval \<Rightarrow> string option" where
  "getCnfJkt payload =
     (case vget payload ''cnf'' of
        Some (JObj cnf) \<Rightarrow>
          (case oget cnf ''jkt'' of
             Some (JStr jkt) \<Rightarrow> if js_trim jkt \<noteq> [] then Some jkt else None
           | _ \<Rightarrow> None)
      | _ \<Rightarrow> None)"

definition getAccessTokenClientId :: "jsval \<Rightarrow> string option" where
  "getAccessTokenClientId payload = getStringValue (vget payload ''client_id'')"

record DPoPProofContext =
  proofJwt :: string
  dp_htm :: string
  dp_htu :: string
  nonceRequired :: bool

text \<open>The nonce of a verified proof is required and consumed.\<close>

definition consume_dpop_nonce :: "string \<Rightarrow> VerifiedDpopProof \<Rightarrow> (world, unit) M" where
  "consume_dpop_nonce msg v =
     (if \<not> opt_str (vp_nonce v) then raise ''use_dpop_nonce'' msg
      else bindM (timed (\<lambda>now. on_nonces (nonce_consume now (lookup_nonce (getOr [] (vp_nonce v))))))
        (\<lambda>consumed. if \<not> consumed then raise ''use_dpop_nonce'' msg else ret ()))"

definition guard_dpop_jti :: "DPoPProofFactoryOptions \<Rightarrow> VerifiedDpopProof \<Rightarrow> (world, unit) M" where
  "guard_dpop_jti D v =
     bindM (timed (\<lambda>now. on_dpop_jtis
       (dpop_saveIfAbsent now (jwkThumbprint v) (vp_jti v) (Some (proofJtiTtlMs D))))) (\<lambda>isNewJti.
     if \<not> isNewJti then raise ''invalid_dpop_proof'' ''DPoP proof JWT jti has already been used.''
     else ret ())"

definition verifyDpopBoundAccessToken ::
  "ext \<Rightarrow> DPoPProofFactoryOptions \<Rightarrow> string \<Rightarrow> string \<Rightarrow> string option \<Rightarrow> DPoPProofContext \<Rightarrow>
   (world, jsval) M" where
  "verifyDpopBoundAccessToken X D authz accessToken alg dp =
     bindM (verifyAccessTokenPayload X authz accessToken alg) (\<lambda>payload.
     case getCnfJkt payload of
       None \<Rightarrow> raise ''invalid_access_token'' ''DPoP-bound access token must contain cnf.jkt.''
     | Some accessTokenJkt \<Rightarrow>
         bindM (verifyProof X D (proofJwt dp)
           \<lparr>htm = dp_htm dp, htu = dp_htu dp, ctx_nonce = None, ctx_accessToken = Some accessToken\<rparr>)
           (\<lambda>v.
            thenM (whenM (nonceRequired dp)
              (consume_dpop_nonce ''Credential issuer requires nonce in DPoP proof.'' v))
            (if jwkThumbprint v \<noteq> accessTokenJkt then
               raise ''invalid_dpop_proof'' ''DPoP proof public key does not match access token cnf.jkt.''
             else thenM (guard_dpop_jti D v) (ret payload))))"

subsection \<open>The credential endpoint\<close>

record CredentialEndpointAuthorizationOptions =
  ep_alg :: "string option"
  authorizationHeader :: "string option"
  dpopHeader :: "string option"
  ep_htm :: string
  ep_htu :: string
  ep_nonceRequired :: bool

datatype tokenType = TokenBearer | TokenDpop

record CredentialEndpointAuthorizationContext =
  allowedCredentialConfigurationKey :: string
  ac_clientId :: "string option"
  ac_tokenType :: tokenType

text \<open>The part for the DPoP scheme.\<close>

definition authorize_dpop ::
  "ext \<Rightarrow> DPoPProofFactoryOptions \<Rightarrow> string \<Rightarrow> CredentialEndpointAuthorizationOptions \<Rightarrow> string \<Rightarrow>
   string option \<Rightarrow> (world, CredentialEndpointAuthorizationContext) M" where
  "authorize_dpop X D authz opts token clientId =
     (case parseDpopHeader (dpopHeader opts) of
        DpopBad DpopMissing \<Rightarrow> raise ''invalid_dpop_proof'' ''DPoP proof JWT is required.''
      | DpopBad DpopDuplicate \<Rightarrow> raise ''invalid_dpop_proof'' ''DPoP header must appear exactly once.''
      | DpopBad DpopMalformed \<Rightarrow> raise ''invalid_dpop_proof'' ''DPoP header must contain a compact JWT.''
      | DpopOk jwt \<Rightarrow>
          thenM (verifyDpopBoundAccessToken X D authz token (ep_alg opts)
              \<lparr>proofJwt = jwt, dp_htm = ep_htm opts, dp_htu = ep_htu opts, nonceRequired = ep_nonceRequired opts\<rparr>)
            (ret \<lparr>allowedCredentialConfigurationKey = calculateAccessTokenHash X token,
                  ac_clientId = clientId, ac_tokenType = TokenDpop\<rparr>))"

definition authorizeCredentialEndpointAccess ::
  "ext \<Rightarrow> DPoPProofFactoryOptions \<Rightarrow> string \<Rightarrow> CredentialEndpointAuthorizationOptions \<Rightarrow>
   (world, CredentialEndpointAuthorizationContext) M" where
  "authorizeCredentialEndpointAccess X D authz opts =
     (case parseAuthorizationHeader (authorizationHeader opts) of
        HdrBad HdrMissing _ \<Rightarrow> raise ''invalid_access_token'' ''Access token is required.''
      | HdrBad reason _ \<Rightarrow>
          raise ''invalid_access_token'' ''Authorization header must use Bearer or DPoP scheme.''
      | HdrOk scheme token \<Rightarrow>
          bindM (verifyAccessTokenPayload X authz token (ep_alg opts)) (\<lambda>accessTokenPayload.
          let accessTokenClientId = getAccessTokenClientId accessTokenPayload in
          bindM (case accessTokenClientId of
                   None \<Rightarrow> ret None
                 | Some c \<Rightarrow> on_clients (oauth_client_fetch authz c)) (\<lambda>oauthClient.
          if accessTokenClientId \<noteq> None \<and> oauthClient = None then
            raise ''invalid_access_token'' ''Access token client_id is not registered.''
          else
            let clientKind = (if accessTokenClientId \<noteq> None then DefaultClient else AnonymousClient);
                clientPolicy = (case oauthClient of None \<Rightarrow> None
                  | Some c \<Rightarrow> map_option (\<lambda>sc. \<lparr>cp_senderConstrainedAccessToken = Some sc\<rparr>)
                      (senderConstrainedAccessToken c))
            in bindM (resolveAuthzPolicyDpopModeForIssuer authz clientKind clientPolicy) (\<lambda>dpopMode.
               if dpopMode = Off \<and> (scheme = Dpop \<or> opt_str (dpopHeader opts)) then
                 raise ''invalid_access_token'' ''DPoP access tokens are not supported by this credential endpoint.''
               else if scheme = Dpop then authorize_dpop X D authz opts token accessTokenClientId
               else if dpopMode = Required then
                 raise ''invalid_access_token'' ''DPoP access token is required.''
               else if getCnfJkt accessTokenPayload \<noteq> None then
                 raise ''invalid_access_token'' ''DPoP-bound access token must be presented with DPoP scheme.''
               else ret \<lparr>allowedCredentialConfigurationKey = calculateAccessTokenHash X token,
                         ac_clientId = accessTokenClientId, ac_tokenType = TokenBearer\<rparr>))))"

subsection \<open>Token issuance\<close>

record TokenRequestOptions =
  ttlSec :: "jsnum option"
  tok_alg :: "string option"
  tok_clientId :: "string option"
  dpopProof :: "DPoPProofContext option"

definition no_token_options :: TokenRequestOptions where
  "no_token_options = \<lparr>ttlSec = None, tok_alg = None, tok_clientId = None, dpopProof = None\<rparr>"

text \<open>\<open>access-token.provider.ts\<close>.\<close>

definition createTokenPayload ::
  "int \<Rightarrow> string \<Rightarrow> string \<Rightarrow> jsnum option \<Rightarrow> string option \<Rightarrow> string option \<Rightarrow> jsval" where
  "createTokenPayload now authz pacode ttl clientId jkt =
     (let timeStamp = now div 1000 in
      JObj ([(''iss'', JStr authz), (''sub'', JStr pacode),
             (''exp'', JNum (num_add (num_int timeStamp) (getOr (Fin 86400) ttl))),
             (''iat'', JNum (num_int timeStamp))] @
            (if opt_str clientId then [(''client_id'', JStr (getOr [] clientId))] else []) @
            (case jkt of None \<Rightarrow> [] | Some j \<Rightarrow> [(''cnf'', JObj [(''jkt'', JStr j)])])))"

definition jwt_header :: "string \<Rightarrow> jsval" where
  "jwt_header alg = JObj [(''alg'', JStr alg), (''typ'', JStr ''JWT'')]"

text \<open>Proof, nonce and jti at the token endpoint.\<close>

definition token_dpop ::
  "ext \<Rightarrow> DPoPProofFactoryOptions \<Rightarrow> DPoPProofContext option \<Rightarrow> (world, VerifiedDpopProof option) M" where
  "token_dpop X D dp =
     (case dp of
        None \<Rightarrow> ret None
      | Some d \<Rightarrow>
          bindM (verifyProof X D (proofJwt d)
            \<lparr>htm = dp_htm d, htu = dp_htu d, ctx_nonce = None, ctx_accessToken = None\<rparr>) (\<lambda>v.
          thenM (whenM (nonceRequired d)
            (consume_dpop_nonce ''Authorization server requires nonce in DPoP proof.'' v))
          (thenM (guard_dpop_jti D v) (ret (Some v)))))"

text \<open>Signing and recording the token for the consumed identifiers.\<close>

definition mint_token ::
  "ext \<Rightarrow> string \<Rightarrow> string \<Rightarrow> string list \<Rightarrow> TokenRequestOptions \<Rightarrow> VerifiedDpopProof option \<Rightarrow>
   (world, TokenResponse) M" where
  "mint_token X authz pacode ids opts v =
     (let keyAlg = getOr ''ES256'' (tok_alg opts);
          jwtHeader = jwt_header keyAlg;
          encode = encode_json X
      in bindM now_ms (\<lambda>now.
         let jwtPayload = createTokenPayload now authz pacode (ttlSec opts) (tok_clientId opts)
               (map_option jwkThumbprint v) in
         bindM fresh (\<lambda>entropy.
         bindM (on_authz_keys (authz_key_sign X entropy authz keyAlg jwtPayload jwtHeader)) (\<lambda>signature.
         if \<not> opt_str signature then raise ''internal_server_error'' ''Cannot sign access token.''
         else
           let accessToken = encode jwtHeader @ ''.'' @ encode jwtPayload @ ''.'' @ getOr [] signature;
               accessTokenHash = calculateAccessTokenHash X accessToken
           in thenM (timed (\<lambda>t. on_allowed
                (allowed_save t accessTokenHash ids (Some (getOr (Fin 86400) (ttlSec opts))))))
              (ret \<lparr>access_token = accessToken,
                    token_type = (if v \<noteq> None then ''DPoP'' else ''bearer''),
                    expires_in = getOr (Fin 86400) (ttlSec opts)\<rparr>)))))"

text \<open>
  The in-memory code store returns the identifiers or throws; the guard on an absent result
  is for other stores.
\<close>

definition createAccessToken ::
  "ext \<Rightarrow> DPoPProofFactoryOptions \<Rightarrow> int \<Rightarrow> string \<Rightarrow> TokenRequest \<Rightarrow> TokenRequestOptions \<Rightarrow>
   (world, TokenResponse) M" where
  "createAccessToken X D limit authz tokenRequest opts =
     (case tokenRequest of
        TokenRequestPreAuthorizedCode pacode tx \<Rightarrow>
          bindM (token_dpop X D (dpopProof opts)) (\<lambda>v.
          bindM (timed (\<lambda>now. on_pac (pac_consume limit now pacode tx))) (\<lambda>ids.
          mint_token X authz pacode ids opts v))
      | TokenRequestAuthorizationCode c r cv \<Rightarrow>
          raise ''unsupported_grant_type'' ''Authorization code flow is not supported.''
      | TokenRequestOther g \<Rightarrow> raise ''invalid_request'' ''Unsupported grant type'')"

subsection \<open>What the steps of token issuance change\<close>

lemma preserves_consume_dpop_nonce [preserves_intros]:
  "(\<And>w c. p (w\<lparr>w_clk := c\<rparr>) = p w) \<Longrightarrow> (\<And>s w. p (w_nonces_update (\<lambda>_. s) w) = p w) \<Longrightarrow>
     preserves p (consume_dpop_nonce msg v)"
  unfolding consume_dpop_nonce_def by (intro preserves_intros)

lemma preserves_guard_dpop_jti [preserves_intros]:
  "(\<And>w c. p (w\<lparr>w_clk := c\<rparr>) = p w) \<Longrightarrow> (\<And>s w. p (w_dpop_jtis_update (\<lambda>_. s) w) = p w) \<Longrightarrow>
     preserves p (guard_dpop_jti D v)"
  unfolding guard_dpop_jti_def by (intro preserves_intros)

lemma preserves_token_dpop [preserves_intros]:
  "(\<And>w c. p (w\<lparr>w_clk := c\<rparr>) = p w) \<Longrightarrow> (\<And>s w. p (w_nonces_update (\<lambda>_. s) w) = p w) \<Longrightarrow>
     (\<And>s w. p (w_dpop_jtis_update (\<lambda>_. s) w) = p w) \<Longrightarrow> preserves p (token_dpop X D dp)"
  unfolding token_dpop_def by (intro preserves_intros)

lemma preserves_mint_token [preserves_intros]:
  "(\<And>w c. p (w\<lparr>w_clk := c\<rparr>) = p w) \<Longrightarrow> (\<And>w c. p (w\<lparr>w_rnd := c\<rparr>) = p w) \<Longrightarrow>
     (\<And>s w. p (w_authz_keys_update (\<lambda>_. s) w) = p w) \<Longrightarrow>
     (\<And>s w. p (w_allowed_update (\<lambda>_. s) w) = p w) \<Longrightarrow> preserves p (mint_token X authz c ids opts v)"
  unfolding mint_token_def by (intro preserves_intros)

lemma preserves_verifyAccessTokenPayload [preserves_intros]:
  "(\<And>w c. p (w\<lparr>w_clk := c\<rparr>) = p w) \<Longrightarrow> (\<And>s w. p (w_authz_keys_update (\<lambda>_. s) w) = p w) \<Longrightarrow>
     preserves p (verifyAccessTokenPayload X authz tok alg)"
  unfolding verifyAccessTokenPayload_def by (intro preserves_intros)

lemma preserves_verifyDpopBoundAccessToken [preserves_intros]:
  "(\<And>w c. p (w\<lparr>w_clk := c\<rparr>) = p w) \<Longrightarrow> (\<And>s w. p (w_authz_keys_update (\<lambda>_. s) w) = p w) \<Longrightarrow>
     (\<And>s w. p (w_nonces_update (\<lambda>_. s) w) = p w) \<Longrightarrow> (\<And>s w. p (w_dpop_jtis_update (\<lambda>_. s) w) = p w) \<Longrightarrow>
     preserves p (verifyDpopBoundAccessToken X D authz tok alg dp)"
  unfolding verifyDpopBoundAccessToken_def by (intro preserves_intros)

lemma createAccessToken_pac_cases:
  assumes "createAccessToken X D limit authz (TokenRequestPreAuthorizedCode c tx) opts w = (r, w')"
  shows "(\<exists>now. w_pac w' = snd (pac_consume limit now c tx (w_pac w)) \<and>
            (\<forall>t. r = Inr t \<longrightarrow> (\<exists>ids. fst (pac_consume limit now c tx (w_pac w)) = Inr ids)))
         \<or> (w_pac w' = w_pac w \<and> (\<exists>e. r = Inl e))"
proof -
  have P: "preserves w_pac (token_dpop X D (dpopProof opts))"
    by (intro preserves_intros) simp_all
  have Q: "preserves w_pac (mint_token X authz c ids opts v)" for ids v
    by (intro preserves_intros) simp_all
  obtain r1 w1 where t: "token_dpop X D (dpopProof opts) w = (r1, w1)" by fastforce
  have w1: "w_pac w1 = w_pac w" using P t by (rule preservesD)
  show ?thesis
  proof (cases r1)
    case (Inl e)
    then show ?thesis using assms w1 by (auto simp: createAccessToken_def run_simps t)
  next
    case (Inr v)
    obtain r2 s where p: "pac_consume limit (w_clk w1 0) c tx (w_pac w) = (r2, s)" by fastforce
    show ?thesis
    proof (cases r2)
      case (Inl e)
      then show ?thesis using assms Inr p w1
        by (intro disjI1 exI [of _ "w_clk w1 0"])
          (auto simp: createAccessToken_def run_simps t on_pac_def)
    next
      case r2: (Inr ids)
      have "mint_token X authz c ids opts v (w1\<lparr>w_clk := shift (w_clk w1), w_pac := s\<rparr>) = (r, w')"
        using assms Inr r2 p w1 by (simp add: createAccessToken_def run_simps t on_pac_def)
      then have "w_pac w' = s" by (drule_tac preservesD [OF Q]) simp
      with p r2 show ?thesis by (intro disjI1 exI [of _ "w_clk w1 0"]) simp
    qed
  qed
qed

lemma createAccessToken_other:
  assumes "createAccessToken X D limit authz req opts w = (r, w')"
    and "\<And>c tx. req \<noteq> TokenRequestPreAuthorizedCode c tx"
  shows "w' = w \<and> (\<exists>e. r = Inl e)"
  using assms by (cases req) (auto simp: createAccessToken_def run_simps)

subsection \<open>Histories of the authorization server\<close>

text \<open>The requests the server answers between two offers.\<close>

datatype authz_op =
    OpToken TokenRequest TokenRequestOptions
  | OpChallenge "jsnum option"
  | OpClient obj
  | OpAccess CredentialEndpointAuthorizationOptions

definition authz_exec ::
  "ext \<Rightarrow> DPoPProofFactoryOptions \<Rightarrow> int \<Rightarrow> string \<Rightarrow> authz_op \<Rightarrow> world \<Rightarrow> world" where
  "authz_exec X D limit authz q w =
     (case q of
        OpToken req opts \<Rightarrow> snd (createAccessToken X D limit authz req opts w)
      | OpChallenge ttl \<Rightarrow> snd (createDpopNonceChallenge ttl w)
      | OpClient rd \<Rightarrow> snd (resolveTokenRequestClientPolicy X authz rd w)
      | OpAccess opts \<Rightarrow> snd (authorizeCredentialEndpointAccess X D authz opts w))"

text \<open>The operation issues an access token for the code.\<close>

definition authz_takes ::
  "ext \<Rightarrow> DPoPProofFactoryOptions \<Rightarrow> int \<Rightarrow> string \<Rightarrow> authz_op \<Rightarrow> world \<Rightarrow> string \<Rightarrow> bool" where
  "authz_takes X D limit authz q w c =
     (case q of
        OpToken (TokenRequestPreAuthorizedCode c' tx) opts \<Rightarrow>
          c' = c \<and> (case fst (createAccessToken X D limit authz (TokenRequestPreAuthorizedCode c' tx) opts w)
                   of Inl e \<Rightarrow> False | Inr t \<Rightarrow> True)
      | _ \<Rightarrow> False)"

definition code_live :: "world \<Rightarrow> string \<Rightarrow> bool" where
  "code_live w c = pac_live (w_pac w) c"

lemma preserves_resolveTokenRequestClientPolicy:
  "preserves w_pac (resolveTokenRequestClientPolicy X authz rd)"
  unfolding resolveTokenRequestClientPolicy_def
  by (intro preserves_intros) simp_all

lemma preserves_createDpopNonceChallenge: "preserves w_pac (createDpopNonceChallenge ttl)"
  unfolding createDpopNonceChallenge_def nonce_generate_def by (intro preserves_intros) simp_all

lemma preserves_authorize_dpop:
  "preserves w_pac (authorize_dpop X D authz opts tok c)"
  unfolding authorize_dpop_def
  by (cases "parseDpopHeader (dpopHeader opts)")
    (auto intro!: preserves_intros split: DpopHeaderReason.split)

lemma preserves_authorizeCredentialEndpointAccess:
  "preserves w_pac (authorizeCredentialEndpointAccess X D authz opts)"
  unfolding authorizeCredentialEndpointAccess_def
  by (cases "parseAuthorizationHeader (authorizationHeader opts)")
    (auto intro!: preserves_intros preserves_authorize_dpop split: HeaderReason.split)

lemma authz_exec_pac:
  assumes "\<And>c' tx opts. q \<noteq> OpToken (TokenRequestPreAuthorizedCode c' tx) opts"
  shows "w_pac (authz_exec X D limit authz q w) = w_pac w"
proof (cases q)
  case (OpToken req opts)
  obtain r w' where "createAccessToken X D limit authz req opts w = (r, w')" by fastforce
  moreover from this have "w' = w" using assms OpToken
    by (intro createAccessToken_other [THEN conjunct1]) auto
  ultimately show ?thesis by (simp add: authz_exec_def OpToken)
next
  case (OpChallenge ttl)
  then show ?thesis
    using preserves_createDpopNonceChallenge by (simp add: authz_exec_def preserves_def)
next
  case (OpClient rd)
  then show ?thesis
    using preserves_resolveTokenRequestClientPolicy by (simp add: authz_exec_def preserves_def)
next
  case (OpAccess opts)
  then show ?thesis
    using preserves_authorizeCredentialEndpointAccess by (simp add: authz_exec_def preserves_def)
qed

lemma authz_exec_token_pac:
  "w_pac (authz_exec X D limit authz (OpToken (TokenRequestPreAuthorizedCode c tx) opts) w) = w_pac w \<or>
   (\<exists>now. w_pac (authz_exec X D limit authz (OpToken (TokenRequestPreAuthorizedCode c tx) opts) w) =
      snd (pac_consume limit now c tx (w_pac w)))"
proof -
  obtain r w' where r: "createAccessToken X D limit authz (TokenRequestPreAuthorizedCode c tx) opts w = (r, w')"
    by fastforce
  from createAccessToken_pac_cases [OF r] show ?thesis by (auto simp: authz_exec_def r)
qed

lemma authz_takes_pac:
  assumes "authz_takes X D limit authz q w c"
  obtains tx opts now ids where "q = OpToken (TokenRequestPreAuthorizedCode c tx) opts"
    "fst (pac_consume limit now c tx (w_pac w)) = Inr ids"
    "w_pac (authz_exec X D limit authz q w) = snd (pac_consume limit now c tx (w_pac w))"
proof -
  obtain tx opts t where q: "q = OpToken (TokenRequestPreAuthorizedCode c tx) opts"
      "fst (createAccessToken X D limit authz (TokenRequestPreAuthorizedCode c tx) opts w) = Inr t"
    using assms by (auto simp: authz_takes_def split: authz_op.splits TokenRequest.splits sum.splits)
  obtain w' where r: "createAccessToken X D limit authz (TokenRequestPreAuthorizedCode c tx) opts w = (Inr t, w')"
    using q(2) by (metis prod.collapse)
  from createAccessToken_pac_cases [OF r] q(1) show ?thesis
    by (auto simp: authz_exec_def r intro: that)
qed

interpretation token: single_use "authz_exec X D limit authz" code_live
  "authz_takes X D limit authz" "\<lambda>q c. False"
proof unfold_locales
  fix q w c assume "authz_takes X D limit authz q w c"
  then show "code_live w c"
    by (elim authz_takes_pac) (auto simp: code_live_def pac_live_def pac_consume_Inr_iff)
next
  fix q w c assume "authz_takes X D limit authz q w c"
  then show "\<not> code_live (authz_exec X D limit authz q w) c"
    by (elim authz_takes_pac) (auto simp: code_live_def pac_live_def pac_consume_Inr_deletes)
next
  fix q w c assume dead: "\<not> code_live w c"
  show "\<not> code_live (authz_exec X D limit authz q w) c"
  proof (cases "\<exists>c' tx opts. q = OpToken (TokenRequestPreAuthorizedCode c' tx) opts")
    case True
    then obtain c' tx opts where q: "q = OpToken (TokenRequestPreAuthorizedCode c' tx) opts" by blast
    from authz_exec_token_pac [of X D limit authz c' tx opts w] dead show ?thesis
      by (cases "c' = c") (auto simp: q code_live_def pac_live_def pac_consume_absent pac_consume_other)
  next
    case False
    then show ?thesis using dead by (simp add: code_live_def authz_exec_pac)
  qed
qed

subsection \<open>Properties\<close>

text \<open>The number of successful token requests for the code in a sequence of requests.\<close>

fun tokens_issued ::
  "ext \<Rightarrow> DPoPProofFactoryOptions \<Rightarrow> int \<Rightarrow> string \<Rightarrow> string \<Rightarrow> authz_op list \<Rightarrow> world \<Rightarrow> nat" where
  "tokens_issued X D limit authz c [] w = 0"
| "tokens_issued X D limit authz c (q # qs) w =
     (if authz_takes X D limit authz q w c then 1 else 0) +
     tokens_issued X D limit authz c qs (authz_exec X D limit authz q w)"

lemma tokens_issued_taken: "tokens_issued X D limit authz c qs w = token.taken X D limit authz c qs w"
  by (induction qs arbitrary: w) simp_all

text \<open>C10. At most one access token is ever issued for a pre-authorized code: in any sequence of
  token requests, nonce challenges, client resolutions and accesses to the credential
  endpoint, with any proofs, transaction codes and clock readings, at most one request for
  the code succeeds.\<close>

theorem one_token_per_code:
  "tokens_issued X D limit authz c qs w \<le> 1"
  unfolding tokens_issued_taken by (rule token.taken_at_most_once) simp

end
