(* ===== verification/Verifier_Flow.thy ===== *)
theory Verifier_Flow
  imports Verify_Sd_Jwt Verifier_Metadata Authz_Flow
begin

text \<open>
  The verifier (\<open>initializeVerifierFlow\<close> of \<open>verifier.flows.ts\<close>) with the providers for
  queries, transaction data, identifiers and signed requests: authorization requests by
  value and by reference, the request object that a wallet fetches, transactions, and the
  verification of a response. Registration is in the theory Verifier\_Metadata.
\<close>

subsection \<open>Queries (\<open>dcql.provider.ts\<close>, \<open>dcql.type.ts\<close>)\<close>

definition META_KEYS_BY_FORMAT :: "(string \<times> string list) list" where
  "META_KEYS_BY_FORMAT =
     [(''mso_mdoc'', [''doctype_value'']), (''dc+sd-jwt'', [''vct_values'']),
      (''ldp_vc'', [''type_values'']), (''jwt_vc_json'', [''type_values''])]"

fun object_keys :: "jsval \<Rightarrow> string list" where
  "object_keys (JObj ob) = map fst ob"
| "object_keys (JArr xs) = map show_nat [0..<length xs]"
| "object_keys v = []"

definition meta_keys_ok :: "jsval \<Rightarrow> bool" where
  "meta_keys_ok cred =
     (case vget cred ''meta'' of
        None \<Rightarrow> True
      | Some meta \<Rightarrow>
          if \<not> is_object meta then True
          else case (case vget cred ''format'' of Some (JStr f) \<Rightarrow> map_of META_KEYS_BY_FORMAT f | _ \<Rightarrow> None) of
            None \<Rightarrow> True
          | Some allowed \<Rightarrow> list_all (\<lambda>k. k \<in> set allowed) (object_keys meta))"

text \<open>What cannot be iterated over throws; the characters of a string are no objects.\<close>

definition validateMetaKeysByFormat :: "jsval \<Rightarrow> exn + unit" where
  "validateMetaKeysByFormat credentials =
     (case credentials of
        JArr cs \<Rightarrow>
          if list_all meta_keys_ok cs then Inr ()
          else Inl (err ''invalid_request'' ''meta contains invalid keys'')
      | JStr s \<Rightarrow> Inr ()
      | _ \<Rightarrow> Inl (JsError ''TypeError''))"

text \<open>\<open>Dcql.schema\<close>: the value is parsed and validated again and then passed on as it is.\<close>

definition Dcql_check :: "vlib \<Rightarrow> DcqlQuery \<Rightarrow> exn + DcqlQuery" where
  "Dcql_check V q = (case dcql_parse V (Some (dq_json q)) of Inl e \<Rightarrow> Inl zod_error | Inr q' \<Rightarrow> Inr q)"

definition dcql_generate :: "vlib \<Rightarrow> obj \<Rightarrow> exn + DcqlQuery" where
  "dcql_generate V query =
     (let bad = err ''invalid_request'' ''invalid dcql query'' in
      case dcql_parse V (oget query ''dcql_query'') of
        Inl e \<Rightarrow> Inl bad
      | Inr parsed \<Rightarrow>
          let credentials = vget (getOr JNull (oget query ''dcql_query'')) ''credentials'' in
          (case (if truthy credentials then validateMetaKeysByFormat (getOr JNull credentials) else Inr ()) of
             Inl e \<Rightarrow> Inl bad
           | Inr _ \<Rightarrow> (case Dcql_check V parsed of Inl e \<Rightarrow> Inl bad | Inr q \<Rightarrow> Inr q)))"

subsection \<open>Identifiers\<close>

definition ClientIdPrefix :: "string list" where
  "ClientIdPrefix = [''redirect_uri'', ''openid_federation'', ''decentralized_identifier'', ''verifier_attestation'',
     ''x509_san_dns'', ''x509_hash'', ''origin'']"

text \<open>A known prefix, a colon, and at least one character, none of them a line break.\<close>

definition ClientIdentifier_parse :: "string \<Rightarrow> exn + string" where
  "ClientIdentifier_parse v =
     (if list_ex (\<lambda>p. js_starts_with v (p @ '':'') \<and> length p + 1 < length v \<and>
           list_all (\<lambda>c. \<not> is_nl c) (drop (length p + 1) v)) ClientIdPrefix
      then Inr v else Inl zod_error)"

definition uuid_id :: "(world, string) M" where
  "uuid_id = bindM fresh (\<lambda>uuid. ret (strip_dashes uuid))"

definition transactionData_generate ::
  "ext \<Rightarrow> string \<Rightarrow> string list \<Rightarrow> string list option \<Rightarrow> string" where
  "transactionData_generate X typ credential_ids algs =
     encode_json X (JObj [(''type'', JStr typ), (''credential_ids'', JStrs credential_ids),
       (''transaction_data_hashes_alg'', JStrs (getOr [''sha256''] algs))])"

text \<open>\<open>encodeURIComponent\<close>, through UTF-8.\<close>

definition hex_upper :: "nat \<Rightarrow> char" where
  "hex_upper n = (if n < 10 then char_of (48 + n) else char_of (55 + n))"

definition percent :: "nat \<Rightarrow> string" where
  "percent b = [CHR ''%'', hex_upper (b div 16), hex_upper (b mod 16)]"

definition uri_unreserved :: "char \<Rightarrow> bool" where
  "uri_unreserved c \<longleftrightarrow> 65 \<le> code c \<and> code c \<le> 90 \<or> 97 \<le> code c \<and> code c \<le> 122 \<or> is_digit c \<or>
     c \<in> {CHR ''-'', CHR ''_'', CHR ''.'', CHR ''!'', CHR ''~'', CHR ''*'', CHR 0x27, CHR ''('', CHR '')''}"

definition encodeURIComponent :: "string \<Rightarrow> string" where
  "encodeURIComponent s = concat (map (\<lambda>c.
     if uri_unreserved c then [c]
     else if code c < 128 then percent (code c)
     else percent (192 + code c div 64) @ percent (128 + code c mod 64)) s)"

subsection \<open>Request objects\<close>

definition response_modes :: "string list" where
  "response_modes = [''direct_post'', ''query'', ''fragment'', ''dc_api.jwt'', ''dc_api'']"

text \<open>\<open>RequestObject(...)\<close> and the inline \<open>AuthorizationRequest(...)\<close>: the schema runs once more.\<close>

definition RequestObject_parse :: "ext \<Rightarrow> vlib \<Rightarrow> RequestObject \<Rightarrow> exn + RequestObject" where
  "RequestObject_parse X V r =
     (if ro_response_mode r \<notin> set response_modes then Inl zod_error
      else case (case ro_response_uri r of None \<Rightarrow> Some None | Some u \<Rightarrow> map_option Some (zod_url X u)) of
        None \<Rightarrow> Inl zod_error
      | Some uri \<Rightarrow>
          (case (case ro_client_metadata r of
                   None \<Rightarrow> Inr None
                 | Some m \<Rightarrow> (case VerifierMetadata_parse X (metadata_json m) of Inl e \<Rightarrow> Inl e | Inr m' \<Rightarrow> Inr (Some m'))) of
             Inl e \<Rightarrow> Inl e
           | Inr md \<Rightarrow>
               (case Dcql_check V (ro_dcql_query r) of
                  Inl e \<Rightarrow> Inl e
                | Inr q \<Rightarrow> Inr (r\<lparr>ro_response_uri := uri, ro_client_metadata := md, ro_dcql_query := q\<rparr>))))"

definition request_object_json :: "RequestObject \<Rightarrow> obj" where
  "request_object_json r =
     [(''response_type'', JStr (ro_response_type r)), (''client_id'', JStr (ro_client_id r))] @
     opt_member ''state'' (map_option JStr (ro_state r)) @
     opt_member ''scope'' (map_option JStr (ro_scope r)) @
     opt_member ''client_metadata'' (map_option (\<lambda>m. JObj (metadata_json m)) (ro_client_metadata r)) @
     opt_member ''transaction_data'' (map_option JStrs (ro_transaction_data r)) @
     [(''nonce'', JStr (ro_nonce r)), (''response_mode'', JStr (ro_response_mode r))] @
     opt_member ''response_uri'' (map_option JStr (ro_response_uri r)) @
     opt_member ''iss'' (map_option JStr (ro_iss r)) @
     opt_member ''aud'' (map_option JStr (ro_aud r)) @
     [(''dcql_query'', dq_json (ro_dcql_query r))]"

subsection \<open>Signed requests (\<open>authorization-request-jar-*.provider.ts\<close>)\<close>

text \<open>The providers are named by the client id prefix they handle; later ones come first.\<close>

definition jar_providers :: "string list" where
  "jar_providers = [''x509_san_dns'', ''redirect_uri'']"

definition jar_canHandle :: "string \<Rightarrow> string \<Rightarrow> bool" where
  "jar_canHandle p clientIdPrefix = (clientIdPrefix = p)"

definition jar_payload :: "RequestObject \<Rightarrow> string option \<Rightarrow> int \<Rightarrow> obj" where
  "jar_payload requestObject wallet_nonce now =
     (let p = oset (request_object_json requestObject) ''iat'' (JNum (num_int (now div 1000)))
      in if opt_str wallet_nonce then oset p ''wallet_nonce'' (JStr (getOr [] wallet_nonce)) else p)"

definition jar_kid_generate ::
  "ext \<Rightarrow> string \<Rightarrow> RequestObject \<Rightarrow> string \<Rightarrow> string option \<Rightarrow> (world, obj \<times> obj) M" where
  "jar_kid_generate X verifierId requestObject alg wallet_nonce =
     bindM (on_verifier_keys (key_fetch X verifierId (JStr alg))) (\<lambda>verifierPubKey.
     case verifierPubKey of
       None \<Rightarrow> raise ''authz_verifier_key_not_found'' ''Verifier key not found.''
     | Some key \<Rightarrow>
         bindM (liftE (calculateJwkThumbprint X (exportJWK X key))) (\<lambda>publicKeyId.
         bindM now_ms (\<lambda>now.
         ret ([(''alg'', JStr alg), (''typ'', JStr ''oauth-authz-req+jwt''), (''kid'', JStr publicKeyId)],
              jar_payload requestObject wallet_nonce now))))"

definition jar_x5c_generate ::
  "string \<Rightarrow> RequestObject \<Rightarrow> string \<Rightarrow> string option \<Rightarrow> (world, obj \<times> obj) M" where
  "jar_x5c_generate verifierId requestObject alg wallet_nonce =
     bindM (on_certificates (certificate_fetch verifierId)) (\<lambda>certificate.
     if certificate = [] then raise ''certificate_not_found'' ''Verifier certificate not found.''
     else bindM now_ms (\<lambda>now.
       ret ([(''alg'', JStr alg), (''typ'', JStr ''oauth-authz-req+jwt''), (''x5c'', JStrs certificate)],
            jar_payload requestObject wallet_nonce now)))"

subsection \<open>Authorization requests\<close>

record CreateAuthzRequestOptions =
  ar_state :: "string option"
  ar_scope :: "string option"
  ar_response_uri :: "string option"
  ar_base_url :: "string option"
  ar_request_uri :: "string option"
  ar_transaction_data :: "(string \<times> string list option) option"

record CreateAuthzRequestResponse =
  cr_request :: AuthorizationRequest
  cr_transactionId :: string

definition client_id_prefix :: "string \<Rightarrow> string" where
  "client_id_prefix clientId = hd (js_split (CHR '':'') clientId)"

text \<open>Every format must be one of the verifier's; the ids of the SD-JWT queries.\<close>

fun requested_sd_ids :: "string list \<Rightarrow> DcqlCredential list \<Rightarrow> exn + string list" where
  "requested_sd_ids vpFormats [] = Inr []"
| "requested_sd_ids vpFormats (c # cs) =
     (if dc_format c \<notin> set vpFormats then
        Inl (err ''verifier_vp_formats_not_supported'' ''The vp_format is not supported by the verifier.'')
      else case requested_sd_ids vpFormats cs of
        Inl e \<Rightarrow> Inl e
      | Inr ids \<Rightarrow> Inr (if dc_format c = ''dc+sd-jwt'' then dc_id c # ids else ids))"

text \<open>The hash algorithms of the caller's transaction data are not passed on.\<close>

definition request_transaction_data ::
  "ext \<Rightarrow> CreateAuthzRequestOptions \<Rightarrow> string list \<Rightarrow> string list" where
  "request_transaction_data X options credentialIds =
     (case ar_transaction_data options of
        Some (typ, algs) \<Rightarrow> if credentialIds \<noteq> [] then [transactionData_generate X typ credentialIds None] else []
      | None \<Rightarrow> [])"

definition TransactionRecord_parse :: "ext \<Rightarrow> vlib \<Rightarrow> TransactionRecord \<Rightarrow> exn + TransactionRecord" where
  "TransactionRecord_parse X V r =
     (case (Dcql_check V (tr_dcqlQuery r), ClientIdentifier_parse (tr_clientId r), zod_url X (tr_verifierId r)) of
        (Inr q, Inr c, Some v) \<Rightarrow> Inr (r\<lparr>tr_dcqlQuery := q, tr_clientId := c, tr_verifierId := v\<rparr>)
      | _ \<Rightarrow> Inl zod_error)"

text \<open>The transaction and the nonce of a request, for both ways of delivering it.\<close>

definition open_transaction ::
  "ext \<Rightarrow> vlib \<Rightarrow> string \<Rightarrow> string \<Rightarrow> DcqlQuery \<Rightarrow> string option \<Rightarrow> (world, string \<times> string) M" where
  "open_transaction X V verifierId clientId query state =
     bindM uuid_id (\<lambda>transactionId.
     bindM (nonce_generate None) (\<lambda>n.
     thenM (timed (\<lambda>now. on_nonces (nonce_save now n)))
     (bindM (liftE (TransactionRecord_parse X V
        \<lparr>tr_dcqlQuery = query, tr_clientId = clientId, tr_verifierId = verifierId, tr_state = state,
         tr_nonce = nonce n\<rparr>)) (\<lambda>r.
      thenM (timed (\<lambda>now. on_transactions (transaction_save None now transactionId r)))
      (ret (transactionId, nonce n))))))"

definition or_default :: "string \<Rightarrow> string" where
  "or_default response_mode = (if response_mode = [] then ''direct_post'' else response_mode)"

text \<open>
  Delivery by reference: the request object is stored under a fresh id, and the wallet gets
  the address it can fetch it from.
\<close>

definition request_uri_of :: "CreateAuthzRequestOptions \<Rightarrow> string \<Rightarrow> string" where
  "request_uri_of options requestObjectId =
     (if opt_str (ar_request_uri options)
      then getOr [] (ar_request_uri options) @ ''/'' @ encodeURIComponent requestObjectId
      else getOr [] (ar_base_url options) @ ''/request.jwt/'' @ encodeURIComponent requestObjectId)"

definition store_request_object ::
  "ext \<Rightarrow> vlib \<Rightarrow> RequestObject \<Rightarrow> CreateAuthzRequestOptions \<Rightarrow> string \<Rightarrow> (world, string) M" where
  "store_request_object X V draft options n =
     bindM uuid_id (\<lambda>requestObjectId.
     bindM (liftE (RequestObject_parse X V
        (draft\<lparr>ro_scope := ar_scope options, ro_iss := Some (ro_client_id draft),
           ro_aud := Some ''https://self-issued.me/v2'', ro_nonce := n\<rparr>))) (\<lambda>requestObject.
     thenM (on_request_objects (request_object_save requestObjectId requestObject))
       (case zod_url X (request_uri_of options requestObjectId) of None \<Rightarrow> throw zod_error | Some u \<Rightarrow> ret u)))"

definition request_by_reference ::
  "ext \<Rightarrow> vlib \<Rightarrow> string \<Rightarrow> RequestObject \<Rightarrow> CreateAuthzRequestOptions \<Rightarrow> (world, CreateAuthzRequestResponse) M" where
  "request_by_reference X V verifierId draft options =
     bindM (liftE (selectProvider jar_canHandle jar_providers (client_id_prefix (ro_client_id draft)))) (\<lambda>p.
     if \<not> opt_str (ar_base_url options) then
       raise ''invalid_request'' ''base_url is required when is_request_uri is true''
     else
       bindM (open_transaction X V verifierId (ro_client_id draft) (ro_dcql_query draft) (ro_state draft))
         (\<lambda>(transactionId, n).
       bindM (store_request_object X V draft options n) (\<lambda>u.
       ret \<lparr>cr_request = RequestUriFlow (ro_client_id draft) u, cr_transactionId = transactionId\<rparr>)))"

definition request_by_value ::
  "ext \<Rightarrow> vlib \<Rightarrow> string \<Rightarrow> RequestObject \<Rightarrow> (world, CreateAuthzRequestResponse) M" where
  "request_by_value X V verifierId draft =
     bindM (open_transaction X V verifierId (ro_client_id draft) (ro_dcql_query draft) (ro_state draft))
       (\<lambda>(transactionId, n).
     bindM (liftE (RequestObject_parse X V (draft\<lparr>ro_nonce := n\<rparr>))) (\<lambda>r.
     ret \<lparr>cr_request = InlineDcqlFlow r, cr_transactionId = transactionId\<rparr>))"

text \<open>The members that both ways of delivery share; the nonce is filled in later.\<close>

definition request_draft ::
  "string \<Rightarrow> string \<Rightarrow> string \<Rightarrow> string \<Rightarrow> VerifierMetadata \<Rightarrow> DcqlQuery \<Rightarrow> string list \<Rightarrow>
   CreateAuthzRequestOptions \<Rightarrow> RequestObject" where
  "request_draft verifierId response_type clientId response_mode metadata query transaction_data options =
     \<lparr>ro_response_type = response_type, ro_client_id = clientId, ro_state = ar_state options, ro_scope = None,
      ro_client_metadata = Some metadata,
      ro_transaction_data = (if transaction_data \<noteq> [] then Some transaction_data else None),
      ro_nonce = [], ro_response_mode = or_default response_mode,
      ro_response_uri = Some (getOr (verifierId @ ''/post'') (ar_response_uri options)),
      ro_iss = None, ro_aud = None, ro_dcql_query = query\<rparr>"

definition certificate_guard :: "string \<Rightarrow> string \<Rightarrow> bool \<Rightarrow> (world, unit) M" where
  "certificate_guard verifierId clientId isRequestUri =
     (if client_id_prefix clientId \<noteq> ''x509_san_dns'' then ret ()
      else if \<not> isRequestUri then raise ''invalid_request'' ''prefix requires request_uri''
      else bindM (on_certificates (certificate_fetch verifierId)) (\<lambda>certificate.
        if certificate = [] then raise ''certificate_not_found'' ''verifier certificate is not found.'' else ret ()))"

definition createAuthzRequest ::
  "ext \<Rightarrow> vlib \<Rightarrow> string \<Rightarrow> string \<Rightarrow> string \<Rightarrow> string \<Rightarrow> obj \<Rightarrow> bool \<Rightarrow> CreateAuthzRequestOptions \<Rightarrow>
   (world, CreateAuthzRequestResponse) M" where
  "createAuthzRequest X V verifierId response_type clientId response_mode query isRequestUri options =
     thenM (certificate_guard verifierId clientId isRequestUri)
     (bindM (on_verifier_metadata (verifier_metadata_fetch verifierId)) (\<lambda>fetched.
      case fetched of
        None \<Rightarrow> raise ''verifier_not_found'' ''verifier_not_found''
      | Some metadata \<Rightarrow>
          bindM (liftE (dcql_generate V query)) (\<lambda>parsedQuery.
          bindM (liftE (requested_sd_ids (map fst (vp_formats_supported metadata)) (dq_credentials parsedQuery)))
            (\<lambda>credentialIds.
          let draft = request_draft verifierId response_type clientId response_mode metadata parsedQuery
                (request_transaction_data X options credentialIds) options
          in if isRequestUri then request_by_reference X V verifierId draft options
             else request_by_value X V verifierId draft))))"

definition findVerifierCertificate :: "string \<Rightarrow> (world, string list) M" where
  "findVerifierCertificate i = on_certificates (certificate_fetch i)"

definition findVerifierMetadata :: "string \<Rightarrow> (world, VerifierMetadata option) M" where
  "findVerifierMetadata verifierId = on_verifier_metadata (verifier_metadata_fetch verifierId)"

subsection \<open>The request object a wallet fetches\<close>

definition jar_generate ::
  "ext \<Rightarrow> string \<Rightarrow> string \<Rightarrow> RequestObject \<Rightarrow> string \<Rightarrow> string option \<Rightarrow> (world, obj \<times> obj) M" where
  "jar_generate X p verifierId requestObject alg wallet_nonce =
     (if p = ''x509_san_dns'' then jar_x5c_generate verifierId requestObject alg wallet_nonce
      else jar_kid_generate X verifierId requestObject alg wallet_nonce)"

text \<open>The signed request: header, payload and signature of the verifier's key for the algorithm.\<close>

definition signed_request :: "ext \<Rightarrow> string \<Rightarrow> RequestObject \<Rightarrow> string \<Rightarrow> (world, string) M" where
  "signed_request X verifierId requestObject keyAlg =
     bindM (liftE (selectProvider jar_canHandle jar_providers (client_id_prefix (ro_client_id requestObject))))
       (\<lambda>p.
     bindM (jar_generate X p verifierId requestObject keyAlg None) (\<lambda>(h, payload).
     bindM fresh (\<lambda>entropy.
     bindM (on_verifier_keys (verifier_key_sign X entropy verifierId keyAlg (JObj payload) (JObj h)))
       (\<lambda>signature.
     if \<not> opt_str signature then raise ''authz_verifier_key_not_found'' ''Verifier signing key is not found.''
     else ret (encode_json X (JObj h) @ ''.'' @ encode_json X (JObj payload) @ ''.'' @ getOr [] signature)))))"

definition findRequestObject :: "ext \<Rightarrow> string \<Rightarrow> string \<Rightarrow> string option \<Rightarrow> (world, string) M" where
  "findRequestObject X verifierId objectId alg =
     bindM (on_verifier_metadata (verifier_metadata_fetch verifierId)) (\<lambda>metadata.
     if metadata = None then raise ''verifier_not_found'' ''verifier_not_found''
     else bindM (on_request_objects (request_object_fetch objectId)) (\<lambda>fetched.
       case fetched of
         None \<Rightarrow> raise ''request_object_not_found'' ''Request object is not found.''
       | Some requestObject \<Rightarrow>
           bindM (signed_request X verifierId requestObject (getOr ''ES256'' alg)) (\<lambda>jwt.
           thenM (on_request_objects (request_object_delete objectId)) (ret jwt))))"

subsection \<open>Transactions\<close>

record TransactionView =
  tv_clientId :: string
  tv_state :: "string option"
  tv_dcqlQuery :: DcqlQuery
  tv_expiresAt :: jsnum

definition getTransaction :: "string \<Rightarrow> (world, TransactionView) M" where
  "getTransaction transactionId =
     bindM (timed (\<lambda>now. on_transactions (transaction_fetch now transactionId))) (\<lambda>fetched.
     case fetched of
       None \<Rightarrow> raise ''transaction_id_not_found'' ''transaction_id is unknown or already removed''
     | Some t \<Rightarrow> ret \<lparr>tv_clientId = tx_clientId t, tv_state = tx_state t, tv_dcqlQuery = tx_dcqlQuery t,
                    tv_expiresAt = transaction_data_expires_at t\<rparr>)"

definition deleteTransaction :: "string \<Rightarrow> (world, unit) M" where
  "deleteTransaction transactionId = on_transactions (transaction_delete transactionId)"

subsection \<open>Verification of a response\<close>

record VerifyPresentationOptions =
  vq_isKbJwt :: "bool option"
  vq_expectedTransactionDataHashes :: "string list option"

text \<open>The claims of the query whose path has only strings, in dot notation.\<close>

definition specified_disclosures :: "DcqlCredential option \<Rightarrow> string list" where
  "specified_disclosures q =
     map (\<lambda>path. js_join ''.'' (map (\<lambda>k. getOr [] (str_of (Some k))) path))
       (filter (list_all is_str) (case q of None \<Rightarrow> [] | Some c \<Rightarrow> getOr [] (dc_claims c)))"

datatype verify_options_for = ForSdJwt SdJwtOptions | ForJwtVp JwtVpOptions

definition vp_options ::
  "Transaction \<Rightarrow> obj \<Rightarrow> VerifyPresentationOptions option \<Rightarrow> string \<Rightarrow> string \<Rightarrow> verify_options_for" where
  "vp_options t vpFormatsSupported options credentialQueryId fmt =
     (let credentialQuery = find (\<lambda>c. dc_id c = credentialQueryId) (dq_credentials (tx_dcqlQuery t));
          sdJwtFormats = getOr JNull (oget vpFormatsSupported ''dc+sd-jwt'')
      in if fmt = ''dc+sd-jwt'' then
           ForSdJwt \<lparr>so_specifiedDisclosures = Some (specified_disclosures credentialQuery),
             so_isKbJwt = (if (case options of None \<Rightarrow> None | Some v \<Rightarrow> vq_isKbJwt v) = Some True then Some True else None),
             so_expectedAud = Some (tx_clientId t), so_expectedNonce = Some (tx_nonce t),
             so_expectedTransactionDataHashes =
               (case options of None \<Rightarrow> None | Some v \<Rightarrow> vq_expectedTransactionDataHashes v),
             so_allowedSdJwtAlgs = strings_of (vget sdJwtFormats ''sd-jwt_alg_values''),
             so_allowedKbJwtAlgs = strings_of (vget sdJwtFormats ''kb-jwt_alg_values'')\<rparr>
         else
           ForJwtVp \<lparr>jo_expectedAud = tx_clientId t, jo_expectedNonce = Some (tx_nonce t),
             jo_allowedAlgs =
               strings_of (vget (getOr JNull (oget vpFormatsSupported ''jwt_vc_json'')) ''alg_values'')\<rparr>)"

text \<open>The two providers, each of which refuses the options of the other.\<close>

definition vp_providers :: "string list" where
  "vp_providers = [''dc+sd-jwt'', ''jwt_vp_json'']"

definition vp_canHandle :: "string \<Rightarrow> string \<Rightarrow> bool" where
  "vp_canHandle p fmt = (fmt = p)"

definition provider_verify ::
  "ext \<Rightarrow> vlib \<Rightarrow> SdJwtFactoryOptions \<Rightarrow> string \<Rightarrow> verify_options_for \<Rightarrow> string \<Rightarrow> (world, obj) M" where
  "provider_verify X V F p opts vp =
     (case opts of
        ForSdJwt so \<Rightarrow>
          if p = ''dc+sd-jwt'' then verify_sd_jwt X V F vp so else raise ''illegal_argument'' ''dc+sd-jwt is not supported.''
      | ForJwtVp jo \<Rightarrow>
          if p = ''jwt_vp_json'' then verify_jwt_vp X V vp jo else raise ''illegal_argument'' ''jwt_vp_json is not supported.'')"

definition verify_vp ::
  "ext \<Rightarrow> vlib \<Rightarrow> SdJwtFactoryOptions \<Rightarrow> string \<Rightarrow> verify_options_for \<Rightarrow> VerifiablePresentation \<Rightarrow> (world, obj) M" where
  "verify_vp X V F p opts vp =
     (case vp of
        VpString s \<Rightarrow> provider_verify X V F p opts s
      | VpObject ob \<Rightarrow> raise ''unsupported_vp_token'' ''Non-string VP format is not supported.'')"

text \<open>A query id that occurs twice in the query has the format of its last occurrence.\<close>

definition query_format :: "DcqlQuery \<Rightarrow> string \<Rightarrow> string option" where
  "query_format q = map_of (rev (map (\<lambda>c. (dc_id c, dc_format c)) (dq_credentials q)))"

definition verify_entry ::
  "ext \<Rightarrow> vlib \<Rightarrow> SdJwtFactoryOptions \<Rightarrow> Transaction \<Rightarrow> obj \<Rightarrow> VerifyPresentationOptions option \<Rightarrow>
   string \<times> VerifiablePresentation list \<Rightarrow> (world, string \<times> obj list) M" where
  "verify_entry X V F t vpFormatsSupported options = (\<lambda>(credentialQueryId, vpArray).
     case query_format (tx_dcqlQuery t) credentialQueryId of
       None \<Rightarrow> raise ''illegal_argument'' ''Unknown credential query id''
     | Some fmt \<Rightarrow>
         if fmt = [] then raise ''illegal_argument'' ''Unknown credential query id''
         else if vpArray = [] then raise ''invalid_vp_token'' ''must have at least one presentation.''
         else bindM (liftE (selectProvider vp_canHandle vp_providers
                (if fmt = ''jwt_vc_json'' then ''jwt_vp_json'' else fmt))) (\<lambda>p.
           bindM (mapM (verify_vp X V F p (vp_options t vpFormatsSupported options credentialQueryId fmt)) vpArray)
             (\<lambda>payloads. ret (credentialQueryId, payloads))))"

text \<open>Which queries had to be answered: all of them, or one option of every required set.\<close>

definition required_presented :: "DcqlQuery \<Rightarrow> string list \<Rightarrow> bool" where
  "required_presented q presentedIds =
     (case dq_credential_sets q of
        None \<Rightarrow> list_all (\<lambda>c. dc_id c \<in> set presentedIds) (dq_credentials q)
      | Some sets \<Rightarrow>
          list_all (\<lambda>s. set_required s = Some False \<or>
            list_ex (list_all (\<lambda>i. i \<in> set presentedIds)) (set_options s)) sets)"

definition spend_nonce :: "string \<Rightarrow> (world, unit) M" where
  "spend_nonce expectedNonce =
     bindM (timed (\<lambda>now. on_nonces (nonce_validate now (lookup_nonce expectedNonce)))) (\<lambda>nonceValid.
     if \<not> nonceValid then raise ''invalid_nonce'' ''nonce is not valid.''
     else thenM (on_nonces (nonce_revoke (lookup_nonce expectedNonce))) (ret ()))"

definition verifyPresentations ::
  "ext \<Rightarrow> vlib \<Rightarrow> SdJwtFactoryOptions \<Rightarrow> AuthorizationResponse \<Rightarrow> string \<Rightarrow> VerifyPresentationOptions option \<Rightarrow>
   (world, (string \<times> obj list) list) M" where
  "verifyPresentations X V F response transactionId options =
     (if transactionId = [] then raise ''illegal_argument'' ''transaction_id is required.''
      else bindM (timed (\<lambda>now. on_transactions (transaction_fetch now transactionId))) (\<lambda>fetched.
        case fetched of
          None \<Rightarrow> raise ''transaction_id_not_found'' ''Transaction is not found.''
        | Some t \<Rightarrow>
            bindM (on_verifier_metadata (verifier_metadata_fetch (tx_verifierId t))) (\<lambda>md.
            case md of
              None \<Rightarrow> raise ''verifier_not_found'' ''verifier is not found.''
            | Some metadata \<Rightarrow>
                if tx_state t \<noteq> None \<and> resp_state response \<noteq> tx_state t then
                  raise ''invalid_request'' ''unknown or expired state.''
                else bindM (mapM (verify_entry X V F t (vp_formats_supported metadata) options) (vp_token response))
                  (\<lambda>results.
                  if \<not> required_presented (tx_dcqlQuery t) (map fst results) then
                    raise ''invalid_vp_token'' ''a required credential was not presented''
                  else
                    thenM (spend_nonce (tx_nonce t))
                    (thenM (on_transactions (transaction_delete transactionId)) (ret results))))))"

end
