(* ===== verification/Verifier_Safety.thy ===== *)
theory Verifier_Safety
  imports Verifier_Flow
begin

text \<open>
  What a verified presentation proves: the keys behind a verified \<open>jwt_vp_json\<close> or
  \<open>dc+sd-jwt\<close> presentation, the transaction that a response is bound to, and the transaction's
  single acceptance.
\<close>

subsection \<open>What an accepted JWT presentation implies\<close>

text \<open>The key set of an issuer's metadata: fetched from its URI or contained.\<close>

definition key_set_of :: "vlib \<Rightarrow> jsval \<Rightarrow> jsval \<Rightarrow> bool" where
  "key_set_of V metadata jwks \<longleftrightarrow>
     (\<exists>u choice r. vget metadata ''jwks_uri'' = Some (JStr u) \<and> http_fetch V choice u = Inr r \<and> http_ok r \<and>
        http_json r = Some jwks) \<or>
     vget metadata ''jwks'' = Some jwks"

text \<open>
  \<open>vouched\<close>: the issuer the credential names published, under its own HTTPS address, metadata
  with its name, and the credential verifies under the first key of its key set.
\<close>

definition vouched :: "ext \<Rightarrow> vlib \<Rightarrow> string \<Rightarrow> bool" where
  "vouched X V vc \<longleftrightarrow>
     (\<exists>decoded iss u metadataUrl choice r metadata jwks jwk key now p.
        vc_payload X vc = Inr decoded \<and> vc_issuer X V decoded = Some iss \<and> url_parse X iss = Some u \<and>
        (url_hostname u = ''localhost'' \<or> url_protocol u = ''https:'') \<and>
        issuer_metadata_url X V u = Inr metadataUrl \<and>
        http_fetch V choice metadataUrl = Inr r \<and> http_ok r \<and> http_json r = Some metadata \<and>
        vget metadata ''issuer'' = Some (JStr iss) \<and> key_set_of V metadata jwks \<and>
        first_key jwks = Inr (Some jwk) \<and> createPublicKey V jwk = Inr key \<and>
        jwt_verify V now vc (KeyObject key) True = Inr p)"

lemma sum_Inr:
  "(case v of Inl e \<Rightarrow> f e | Inr x \<Rightarrow> g x) w = (Inr y, w2) \<longleftrightarrow>
     (case v of Inl e \<Rightarrow> f e w = (Inr y, w2) | Inr x \<Rightarrow> g x w = (Inr y, w2))"
  by (cases v) simp_all

lemma sum_throw_Inr:
  "(case v of Inl e \<Rightarrow> throw (h e) | Inr x \<Rightarrow> g x) w = (Inr y, w2) \<longleftrightarrow>
     (\<exists>x. v = Inr x \<and> g x w = (Inr y, w2))"
  by (cases v) (simp_all add: throw_Inr)

lemma option_throw_Inr:
  "(case v of None \<Rightarrow> throw e | Some x \<Rightarrow> g x) w = (Inr y, w2) \<longleftrightarrow>
     (\<exists>x. v = Some x \<and> g x w = (Inr y, w2))"
  by (cases v) (simp_all add: throw_Inr)

lemma fetch_json_Inr:
  assumes "fetch_json V c u w = (Inr v, w')"
  shows "\<exists>choice r. http_fetch V choice u = Inr r \<and> http_ok r \<and> http_json r = Some v"
  using assms
  by (auto simp: fetch_json_def fetch_url_def bindM_Inr liftE_Inr fresh_Inr if_Inr raise_Inr ret_Inr
      split: option.splits if_splits)

lemma issuer_jwks_Inr:
  assumes "issuer_jwks V c metadata w = (Inr jwks, w')"
  shows "key_set_of V metadata jwks"
proof (cases "opt_str (str_of (vget metadata ''jwks_uri''))")
  case True
  then obtain u where u: "vget metadata ''jwks_uri'' = Some (JStr u)"
    by (cases "str_of (vget metadata ''jwks_uri'')") (auto simp: opt_str_def)
  have "fetch_json V c u w = (Inr jwks, w')" using assms True u by (simp add: issuer_jwks_def)
  from fetch_json_Inr [OF this] u show ?thesis by (auto simp: key_set_of_def)
next
  case False
  then show ?thesis
    using assms by (auto simp: issuer_jwks_def key_set_of_def ret_Inr raise_Inr split: option.splits if_splits)
qed

lemma verifyCredential_Inr:
  assumes "verifyCredential X V vc algs w = (Inr b, w')"
  shows "b \<and> vouched X V vc \<and> (\<exists>dec. jwt_decode V vc = Inr (Some dec) \<and> vc_allowed_alg algs (dj_header dec))"
proof -
  obtain dec where dec: "jwt_decode V vc = Inr (Some dec)" "vc_allowed_alg algs (dj_header dec)"
    using assms by (auto simp: verifyCredential_def throw_Inr raise_Inr split: sum.splits option.splits if_splits)
  obtain decoded iss where vi: "vc_payload X vc = Inr decoded" "vc_issuer X V decoded = Some iss"
    using assms dec
    by (auto simp: verifyCredential_def bindM_Inr liftE_Inr throw_Inr split: option.splits if_splits)
  then obtain u url w1 metadata w2 jwks w3 jwk where r:
    "url_parse X iss = Some u" "url_hostname u = ''localhost'' \<or> url_protocol u = ''https:''"
    "issuer_metadata_url X V u = Inr url" "fetch_json V ''invalid_credential'' url w1 = (Inr metadata, w2)"
    "vget metadata ''issuer'' = Some (JStr iss)" "issuer_jwks V ''jwks_not_found'' metadata w2 = (Inr jwks, w3)"
    "first_key jwks = Inr jwk" "truthy jwk"
    and run: "(case (case createPublicKey V (getOr JNull jwk) of Inl e \<Rightarrow> Inl e
        | Inr k \<Rightarrow> jwt_verify V (w_clk w3 0) vc (KeyObject k) True) of
      Inl e \<Rightarrow> throw (rethrow ''invalid_credential'' e) | Inr p \<Rightarrow> ret True)
        (w3\<lparr>w_clk := shift (w_clk w3)\<rparr>) = (Inr b, w')"
    using assms dec
    by (auto simp: verifyCredential_def bindM_Inr liftE_Inr throw_Inr raise_Inr now_ms_Inr js_prop_Inr
        split: option.splits if_splits)
  obtain j where j: "jwk = Some j" using r(8) by (cases jwk) auto
  obtain k p where k: "createPublicKey V j = Inr k" "jwt_verify V (w_clk w3 0) vc (KeyObject k) True = Inr p" "b"
    using run j by (auto simp: throw_Inr ret_Inr split: sum.splits)
  show ?thesis
    using vi r(1-3,5,7) fetch_json_Inr [OF r(4)] issuer_jwks_Inr [OF r(6)] j k dec
    unfolding vouched_def by blast
qed

text \<open>\<open>bound_to\<close>: the subject of the credential is a DID with the given key among its methods.\<close>

definition bound_to :: "ext \<Rightarrow> vlib \<Rightarrow> obj \<Rightarrow> jsval \<Rightarrow> bool" where
  "bound_to X V pk vc \<longleftrightarrow>
     (\<exists>did doc vms vm jwk pem. subject_did vc = Inr did \<and> resolve_did X did = Inr (Some doc) \<and>
        verificationMethod doc = Some vms \<and> vm \<in> set vms \<and> publicKeyJwk vm = Some jwk \<and>
        jwk_to_pem X V (JObj jwk) = Inr pem \<and> jwk_to_pem X V (JObj pk) = Inr pem)"

lemma binds_True:
  "binds X V pk vms = Inr True \<Longrightarrow>
     \<exists>vm \<in> set vms. \<exists>jwk pem. publicKeyJwk vm = Some jwk \<and> jwk_to_pem X V (JObj jwk) = Inr pem \<and>
       jwk_to_pem X V (JObj pk) = Inr pem"
  by (induction vms) (auto split: option.splits sum.splits if_splits)

lemma holder_of_Inr: "holder_of X V pk vc = Inr u \<Longrightarrow> bound_to X V pk vc"
  by (auto simp: holder_of_def bound_to_def split: sum.splits option.splits if_splits dest!: binds_True)

lemma holderBinding_Inr:
  "holderBinding_verify X V vcs pk = Inr b \<Longrightarrow> b \<and> (\<forall>vc \<in> set vcs. bound_to X V pk vc)"
  by (induction vcs) (auto split: sum.splits dest: holder_of_Inr)

lemma check_credential_Inr:
  "check_credential X V algs vc w = (Inr u, w') \<Longrightarrow> vouched X V vc"
  by (auto simp: check_credential_def bindM_Inr dest: verifyCredential_Inr)

lemma forM_Inr: "forM xs f w = (Inr u, w') \<Longrightarrow> x \<in> set xs \<Longrightarrow> \<exists>w1 w2 v. f x w1 = (Inr v, w2)"
  by (induction xs arbitrary: w) (auto simp: thenM_Inr)

lemma jwtSignature_Inr:
  assumes "jwtSignature_verify X V token pk w = (Inr b, w')"
  shows "b \<and> (\<exists>pem now p. jwk_to_pem X V (JObj pk) = Inr pem \<and> jwt_verify V now token (PemKey pem) False = Inr p)"
proof -
  obtain pem where pem: "jwk_to_pem X V (JObj pk) = Inr pem"
    using assms by (auto simp: jwtSignature_verify_def bindM_Inr liftE_Inr)
  then show ?thesis
    using assms
    by (cases "jwt_verify V (w_clk w 0) token (PemKey pem) False")
      (auto simp: jwtSignature_verify_def run_simps split: if_splits)
qed

lemma vp_checks_Inr:
  assumes "vp_checks X V opts dec = Inr (p, creds)"
  shows "vc_allowed_alg (jo_allowedAlgs opts) (dj_header dec) \<and> aud_matches (oget p ''aud'') (jo_expectedAud opts) \<and>
    (\<forall>n. jo_expectedNonce opts = Some n \<longrightarrow> oget p ''nonce'' = Some (JStr n)) \<and> creds \<noteq> [] \<and>
    (\<exists>vp vcs. oget p ''vp'' = Some (JObj vp) \<and> oget vp ''verifiableCredential'' = Some (JArr vcs) \<and>
      presented_vcs X V vcs = Inr creds)"
proof -
  obtain raw where raw: "jwtVpJsonPayload X V raw = Some p"
    using assms by (auto simp: vp_checks_def split: if_splits option.splits jsval.splits sum.splits)
  obtain vp' vcs where vp: "oget p ''vp'' = Some (JObj vp')" "oget vp' ''verifiableCredential'' = Some (JArr vcs)"
    using raw by (rule jwtVpJsonPayload_Some) blast
  show ?thesis
    using assms vp
    by (auto simp: vp_checks_def split: if_splits option.splits jsval.splits sum.splits)
qed

text \<open>C37. An accepted JWT presentation was signed by the key of the DID in its header, is addressed to
  the verifier and carries the expected nonce; every credential that was read from it is
  vouched for by the issuer it names, and its subject has the key that signed the
  presentation.\<close>

theorem jwt_vp_sound:
  assumes "verify_jwt_vp X V vp opts w = (Inr p, w')"
  shows "\<exists>dec jwk pem now r vpo vcs creds.
    jwt_decode V vp = Inr (Some dec) \<and> vc_allowed_alg (jo_allowedAlgs opts) (dj_header dec) \<and>
    aud_matches (oget p ''aud'') (jo_expectedAud opts) \<and>
    (\<forall>n. jo_expectedNonce opts = Some n \<longrightarrow> oget p ''nonce'' = Some (JStr n)) \<and>
    vp_key X (dj_header dec) = Inr jwk \<and> jwk_to_pem X V (JObj jwk) = Inr pem \<and>
    jwt_verify V now vp (PemKey pem) False = Inr r \<and>
    oget p ''vp'' = Some (JObj vpo) \<and> oget vpo ''verifiableCredential'' = Some (JArr vcs) \<and>
    presented_vcs X V vcs = Inr creds \<and> creds \<noteq> [] \<and>
    (\<forall>(c, token) \<in> set creds. vouched X V token \<and> bound_to X V jwk c)"
proof -
  obtain dec creds w1 jwk w2 b where r:
    "jwt_decode V vp = Inr (Some dec)" "vp_checks X V opts dec = Inr (p, creds)"
    "forM creds (\<lambda>c. check_credential X V (jo_allowedAlgs opts) (snd c)) w = (Inr (), w1)"
    "vp_key X (dj_header dec) = Inr jwk" "jwtSignature_verify X V vp jwk w1 = (Inr b, w2)"
    "\<exists>b'. holderBinding_verify X V (map fst creds) jwk = Inr b'"
    using assms
    by (auto simp: verify_jwt_vp_def bindM_Inr thenM_Inr liftE_Inr raise_Inr ret_Inr split: option.splits if_splits)
      blast
  have v: "vouched X V (snd c)" if "c \<in> set creds" for c
    using forM_Inr [OF r(3) that] check_credential_Inr by blast
  obtain b' where "holderBinding_verify X V (map fst creds) jwk = Inr b'" using r(6) by blast
  then have h: "bound_to X V jwk (fst c)" if "c \<in> set creds" for c
    using holderBinding_Inr that by fastforce
  obtain pem now pl where s: "jwk_to_pem X V (JObj jwk) = Inr pem" "jwt_verify V now vp (PemKey pem) False = Inr pl"
    using jwtSignature_Inr [OF r(5)] by blast
  obtain vpo vcs where c: "vc_allowed_alg (jo_allowedAlgs opts) (dj_header dec)"
    "aud_matches (oget p ''aud'') (jo_expectedAud opts)"
    "\<forall>n. jo_expectedNonce opts = Some n \<longrightarrow> oget p ''nonce'' = Some (JStr n)" "creds \<noteq> []"
    "oget p ''vp'' = Some (JObj vpo)" "oget vpo ''verifiableCredential'' = Some (JArr vcs)"
    "presented_vcs X V vcs = Inr creds"
    using vp_checks_Inr [OF r(2)] by blast
  have "\<forall>(c, token) \<in> set creds. vouched X V token \<and> bound_to X V jwk c" using v h by fastforce
  with r(1,4) s c show ?thesis by blast
qed

subsection \<open>What an accepted SD-JWT presentation implies\<close>

text \<open>The key of the issuer: by \<open>kid\<close> from its published metadata, or from the leaf of \<open>x5c\<close>.\<close>

definition sd_key_of :: "ext \<Rightarrow> vlib \<Rightarrow> decoded_jwt \<Rightarrow> jsval \<Rightarrow> bool" where
  "sd_key_of X V dec key \<longleftrightarrow>
     (\<exists>iss u metadataUrl choice r metadata jwks kid.
        \<not> truthy (oget (dj_header dec) ''x5c'') \<and> vget (dj_payload dec) ''iss'' = Some (JStr iss) \<and>
        url_parse X iss = Some u \<and> (url_hostname u = ''localhost'' \<or> url_protocol u = ''https:'') \<and>
        sd_metadata_url V u = Inr metadataUrl \<and>
        http_fetch V choice metadataUrl = Inr r \<and> http_ok r \<and> http_json r = Some metadata \<and>
        vget metadata ''issuer'' = Some (JStr iss) \<and> key_set_of V metadata jwks \<and>
        oget (dj_header dec) ''kid'' = Some (JStr kid) \<and> jwks_find jwks kid = Inr (Some key)) \<or>
     (\<exists>x5c. oget (dj_header dec) ''x5c'' = Some (JArr x5c) \<and> x5c \<noteq> [] \<and> x5c_key X V x5c = Inr key)"

lemma alg_check_Inr:
  "alg_check e allowed v = Inr u \<longleftrightarrow>
     v = Some (JStr ''ES256'') \<and> (\<forall>as. allowed = Some as \<longrightarrow> ''ES256'' \<in> set as)"
proof -
  have "\<not> isProhibitedAlg ''ES256''" by code_simp
  then show ?thesis by (auto simp: alg_check_def split: option.splits if_splits)
qed

lemma sd_issuer_key_Inr:
  assumes "sd_issuer_key X V h iss w = (Inr key, w')"
  shows "\<exists>u metadataUrl choice r metadata jwks kid.
    url_parse X iss = Some u \<and> (url_hostname u = ''localhost'' \<or> url_protocol u = ''https:'') \<and>
    sd_metadata_url V u = Inr metadataUrl \<and>
    http_fetch V choice metadataUrl = Inr r \<and> http_ok r \<and> http_json r = Some metadata \<and>
    vget metadata ''issuer'' = Some (JStr iss) \<and> key_set_of V metadata jwks \<and>
    oget h ''kid'' = Some (JStr kid) \<and> jwks_find jwks kid = Inr (Some key)"
proof -
  let ?pick = "\<lambda>jwks. case oget h ''kid'' of
      Some (JStr kid) \<Rightarrow>
        if kid = [] then throw bad_sd_jwt
        else bindM (liftE (jwks_find jwks kid)) (\<lambda>jwkFound.
          case jwkFound of
            None \<Rightarrow> throw bad_sd_jwt
          | Some k \<Rightarrow> if truthy (Some k) then ret k else throw bad_sd_jwt)
    | _ \<Rightarrow> throw bad_sd_jwt"
  obtain u url metadata w1 w2 jwks w3 where r:
    "url_parse X iss = Some u" "url_hostname u = ''localhost'' \<or> url_protocol u = ''https:''"
    "sd_metadata_url V u = Inr url" "fetch_json V ''invalid_sd_jwt'' url w1 = (Inr metadata, w2)"
    "vget metadata ''issuer'' = Some (JStr iss)" "issuer_jwks V ''invalid_sd_jwt'' metadata w2 = (Inr jwks, w3)"
    and pick: "?pick jwks w3 = (Inr key, w')"
    using assms by (auto simp: sd_issuer_key_def option_throw_Inr bindM_Inr liftE_Inr throw_Inr js_prop_Inr if_Inr
        split: if_splits)
  obtain kid where k: "oget h ''kid'' = Some (JStr kid)"
    using pick by (cases "oget h ''kid''"; cases "the (oget h ''kid'')") (auto simp: throw_Inr)
  then have f: "jwks_find jwks kid = Inr (Some key)"
    using pick by (auto simp: bindM_Inr liftE_Inr option_throw_Inr if_Inr throw_Inr ret_Inr split: if_splits)
  show ?thesis using r(1-3,5) k f fetch_json_Inr [OF r(4)] issuer_jwks_Inr [OF r(6)] by blast
qed

lemma sd_public_jwk_Inr:
  assumes "sd_public_jwk X V dec w = (Inr key, w')"
  shows "sd_key_of X V dec key"
proof (cases "\<not> truthy (oget (dj_header dec) ''x5c'') \<and> opt_str (str_of (vget (dj_payload dec) ''iss''))")
  case True
  then obtain iss where iss: "vget (dj_payload dec) ''iss'' = Some (JStr iss)"
    by (cases "str_of (vget (dj_payload dec) ''iss'')") auto
  have "sd_issuer_key X V (dj_header dec) iss w = (Inr key, w')"
    using assms True iss by (simp add: sd_public_jwk_def)
  from sd_issuer_key_Inr [OF this] True iss show ?thesis unfolding sd_key_of_def by blast
next
  case False
  then show ?thesis
    using assms
    by (auto simp: sd_public_jwk_def Let_def sd_key_of_def liftE_Inr throw_Inr
        split: option.splits jsval.splits if_splits)
qed

lemma kb_payload_check_Inr:
  assumes "kb_payload_check X V F opts vp w = (Inr n, w')"
  shows "\<exists>kbJwt raw k. sd_kb_jwt V vp = Some kbJwt \<and> kbJwt \<noteq> [] \<and> decodeJwt X kbJwt = Inr raw \<and>
    kbJwtJsonPayload raw = Some k \<and> kb_fresh F (w_clk w 0) (kb_iat k) \<and> so_expectedAud opts = Some (kb_aud k) \<and>
    (so_expectedNonce opts = None \<or> so_expectedNonce opts = Some (kb_nonce k)) \<and> n = kb_nonce k"
  using assms
  by (auto simp: kb_payload_check_def bindM_Inr liftE_Inr throw_Inr raise_Inr ret_Inr now_ms_Inr
      split: option.splits if_splits)

text \<open>\<open>holder_proved\<close>: the key binding of a presentation, and the nonce it hands to the verification.\<close>

definition holder_proved ::
  "ext \<Rightarrow> vlib \<Rightarrow> SdJwtFactoryOptions \<Rightarrow> SdJwtOptions \<Rightarrow> string \<Rightarrow> decoded_jwt \<Rightarrow> jsval option \<Rightarrow> string option \<Rightarrow> bool" where
  "holder_proved X V F opts vp dec kb n \<longleftrightarrow>
     (\<exists>cnf kbv kbJwt raw k now. cnf_key dec = Inr cnf \<and> getVerifier V cnf = Inr kbv \<and> kb = Some kbv \<and>
        sd_kb_jwt V vp = Some kbJwt \<and> decodeJwt X kbJwt = Inr raw \<and> kbJwtJsonPayload raw = Some k \<and>
        kb_fresh F now (kb_iat k) \<and> so_expectedAud opts = Some (kb_aud k) \<and>
        (so_expectedNonce opts = None \<or> so_expectedNonce opts = Some (kb_nonce k)) \<and> n = Some (kb_nonce k))"

lemma verify_sd_jwt_Inr:
  assumes "verify_sd_jwt X V F vp opts w = (Inr p, w')"
  shows "\<exists>dec key verifier kb n t1 t2 claims.
    sd_decode V vp = Inr dec \<and> sd_header_check opts (dj_header dec) = Inr () \<and> kb_header_check X opts vp = Inr () \<and>
    sd_key_of X V dec key \<and> getVerifier V key = Inr verifier \<and>
    (if so_isKbJwt opts = Some True then holder_proved X V F opts vp dec kb n else kb = None \<and> n = None) \<and>
    sd_validate V t1 verifier kb vp = Inr () \<and>
    sd_verify V t2 verifier kb vp (getOr [] (so_specifiedDisclosures opts)) n = Inr claims \<and>
    sdJwtPayload X claims = Some p"
proof -
  let ?isKb = "getOr False (so_isKbJwt opts)"
  let ?nonce = "if ?isKb then bindM (kb_payload_check X V F opts vp) (\<lambda>n. ret (Some n)) else ret None"
  obtain dec w1 key w2 verifier kb where d:
    "sd_decode V vp = Inr dec" "sd_header_check opts (dj_header dec) = Inr ()" "kb_header_check X opts vp = Inr ()"
    "sd_public_jwk X V dec w1 = (Inr key, w2)" "getVerifier V key = Inr verifier"
    "kb_verifier V ?isKb dec = Inr kb"
    and run: "(case sd_validate V (w_clk w2 0) verifier kb vp of
        Inl e \<Rightarrow> throw (rethrow ''invalid_sd_jwt'' e)
      | Inr _ \<Rightarrow> bindM ?nonce (\<lambda>n. bindM now_ms (\<lambda>t2.
          case sd_verify V t2 verifier kb vp (getOr [] (so_specifiedDisclosures opts)) n of
            Inl e \<Rightarrow> throw (rethrow ''invalid_sd_jwt'' e)
          | Inr claims \<Rightarrow> (case sdJwtPayload X claims of None \<Rightarrow> throw bad_sd_jwt | Some p \<Rightarrow> ret p))))
        (w2\<lparr>w_clk := shift (w_clk w2)\<rparr>) = (Inr p, w')"
    using assms
    by (auto simp: verify_sd_jwt_def Let_def bindM_Inr thenM_Inr liftE_Inr throw_Inr now_ms_Inr split: if_splits)
  obtain n w3 w4 claims where n: "sd_validate V (w_clk w2 0) verifier kb vp = Inr ()" "?nonce w3 = (Inr n, w4)"
      "sd_verify V (w_clk w4 0) verifier kb vp (getOr [] (so_specifiedDisclosures opts)) n = Inr claims"
      "sdJwtPayload X claims = Some p"
    using run by (auto simp: sum_throw_Inr option_throw_Inr bindM_Inr now_ms_Inr ret_Inr)
  have "if so_isKbJwt opts = Some True then holder_proved X V F opts vp dec kb n else kb = None \<and> n = None"
  proof (cases "?isKb")
    case True
    then have t: "so_isKbJwt opts = Some True" by (cases "so_isKbJwt opts") auto
    obtain cnf kbv where c: "cnf_key dec = Inr cnf" "getVerifier V cnf = Inr kbv" "kb = Some kbv"
      using d(6) True by (auto simp: kb_verifier_def split: sum.splits)
    obtain n0 where "kb_payload_check X V F opts vp w3 = (Inr n0, w4)" "n = Some n0"
      using n(2) True by (auto simp: bindM_Inr ret_Inr)
    from kb_payload_check_Inr [OF this(1)] this(2) c t show ?thesis unfolding holder_proved_def by auto
  next
    case False
    then show ?thesis using d(6) n(2) by (auto simp: kb_verifier_def ret_Inr)
  qed
  with d(1-3,5) sd_public_jwk_Inr [OF d(4)] n(1,3,4) show ?thesis by blast
qed


text \<open>With the default options a key-binding JWT is accepted from a minute before its time until six
  minutes after it, and for no other time.\<close>

theorem kb_window:
  "kb_fresh \<lparr>sf_maxTokenAgeSeconds = None, sf_clockToleranceSeconds = None\<rparr> now (Fin iat) \<longleftrightarrow>
     of_int (now div 1000) - 360 \<le> iat \<and> iat \<le> of_int (now div 1000) + 60"
  by (auto simp: kb_fresh_def sd_maxTokenAge_def sd_clockTolerance_def DEFAULT_KB_JWT_MAX_TOKEN_AGE_SECONDS_def
      DEFAULT_KB_JWT_CLOCK_TOLERANCE_SECONDS_def)

text \<open>Without key binding the verification does not look at the audience, the nonce and the hashes.\<close>

lemma verify_sd_jwt_unbound:
  assumes "so_isKbJwt opts \<noteq> Some True"
  shows "verify_sd_jwt X V F vp (opts\<lparr>so_expectedAud := a, so_expectedNonce := n, so_expectedTransactionDataHashes := h\<rparr>) =
    verify_sd_jwt X V F vp opts"
proof -
  have "getOr False (so_isKbJwt opts) = False" using assms by (cases "so_isKbJwt opts") auto
  then show ?thesis
    by (simp add: verify_sd_jwt_def sd_header_check_def kb_header_check_def
        cong: if_cong sum.case_cong option.case_cong)
qed

text \<open>A presentation of an SD-JWT that is verified without asking for key binding is not bound to the
  transaction: it is accepted, with the same result, for every client and nonce.\<close>

theorem sd_jwt_not_bound_to_transaction:
  assumes "query_format (tx_dcqlQuery t) qid = Some ''dc+sd-jwt''"
    and "\<And>v. options = Some v \<Longrightarrow> vq_isKbJwt v \<noteq> Some True"
  shows "verify_entry X V F (t\<lparr>tx_clientId := c, tx_nonce := n, tx_state := s\<rparr>) fmts options (qid, vps) =
    verify_entry X V F t fmts options (qid, vps)"
proof -
  let ?t = "t\<lparr>tx_clientId := c, tx_nonce := n, tx_state := s\<rparr>"
  obtain so so' where o1: "vp_options t fmts options qid ''dc+sd-jwt'' = ForSdJwt so"
      and o2: "vp_options ?t fmts options qid ''dc+sd-jwt'' = ForSdJwt so'"
      and eq: "so' = so\<lparr>so_expectedAud := Some c, so_expectedNonce := Some n,
                     so_expectedTransactionDataHashes := so_expectedTransactionDataHashes so\<rparr>"
      and nk: "so_isKbJwt so \<noteq> Some True"
    using assms(2) by (cases options) (auto simp: vp_options_def Let_def)
  have u: "verify_sd_jwt X V F vp so' = verify_sd_jwt X V F vp so" for vp
    unfolding eq by (rule verify_sd_jwt_unbound [OF nk])
  have p: "provider_verify X V F p (ForSdJwt so') = provider_verify X V F p (ForSdJwt so)" for p
    by (rule ext) (simp add: provider_verify_def u)
  have "verify_vp X V F p (ForSdJwt so') = verify_vp X V F p (ForSdJwt so)" for p
    by (rule ext) (simp add: verify_vp_def p split: VerifiablePresentation.splits)
  then show ?thesis using assms(1) by (simp add: verify_entry_def o1 o2)
qed

subsection \<open>The verification of a response\<close>

lemma mapM_Inr:
  "mapM f xs w = (Inr ys, w') \<Longrightarrow> list_all2 (\<lambda>x y. \<exists>w1 w2. f x w1 = (Inr y, w2)) xs ys"
  by (induction xs arbitrary: w ys) (auto simp: bindM_Inr ret_Inr)

lemma preserves_jsval [preserves_intros]:
  "preserves p a \<Longrightarrow> (\<And>x. preserves p (b x)) \<Longrightarrow> (\<And>x. preserves p (c x)) \<Longrightarrow> (\<And>x. preserves p (d x)) \<Longrightarrow>
   (\<And>x. preserves p (e x)) \<Longrightarrow> (\<And>x. preserves p (f x)) \<Longrightarrow>
   preserves p (case v of JNull \<Rightarrow> a | JBool x \<Rightarrow> b x | JNum x \<Rightarrow> c x | JStr x \<Rightarrow> d x | JArr x \<Rightarrow> e x | JObj x \<Rightarrow> f x)"
  by (cases v) simp_all

text \<open>The verification of tokens reads the clock and the network and writes no store.\<close>

locale token_reader =
  fixes p :: "world \<Rightarrow> 's"
  assumes clk: "p (w\<lparr>w_clk := c\<rparr>) = p w" and rnd: "p (w\<lparr>w_rnd := r\<rparr>) = p w"
begin

lemma pure_fetch_json: "preserves p (fetch_json V c u)"
  unfolding fetch_json_def by (intro preserves_intros rnd)

lemma pure_issuer_jwks: "preserves p (issuer_jwks V c m)"
  unfolding issuer_jwks_def by (intro preserves_intros pure_fetch_json)

lemma pure_verifyCredential: "preserves p (verifyCredential X V vc algs)"
  unfolding verifyCredential_def by (intro preserves_intros pure_fetch_json pure_issuer_jwks clk)

lemma pure_jwtSignature: "preserves p (jwtSignature_verify X V token pk)"
  unfolding jwtSignature_verify_def by (intro preserves_intros clk)

lemma pure_verify_jwt_vp: "preserves p (verify_jwt_vp X V vp opts)"
  unfolding verify_jwt_vp_def check_credential_def
  by (intro preserves_intros pure_verifyCredential pure_jwtSignature)

lemma pure_sd_public_jwk: "preserves p (sd_public_jwk X V dec)"
  unfolding sd_public_jwk_def sd_issuer_key_def by (intro preserves_intros pure_fetch_json pure_issuer_jwks)

lemma pure_verify_sd_jwt: "preserves p (verify_sd_jwt X V F vp opts)"
  unfolding verify_sd_jwt_def kb_payload_check_def by (intro preserves_intros pure_sd_public_jwk clk)

lemma pure_verify_vp: "preserves p (verify_vp X V F k opts vp)"
proof -
  have "preserves p (provider_verify X V F k opts s)" for s
    by (cases opts) (simp_all add: provider_verify_def preserves_raise pure_verify_sd_jwt pure_verify_jwt_vp)
  then show ?thesis by (cases vp) (simp_all add: verify_vp_def preserves_raise)
qed

lemma pure_verify_entry: "preserves p (verify_entry X V F t fmts options e)"
  unfolding verify_entry_def by (intro preserves_intros pure_verify_vp)

end

interpretation stored: token_reader "\<lambda>w. (w_nonces w, w_transactions w)"
  by unfold_locales simp_all

text \<open>The JWT presentations are bound to the transaction.\<close>

definition bound_payload :: "Transaction \<Rightarrow> obj \<Rightarrow> bool" where
  "bound_payload t payload \<longleftrightarrow>
     aud_matches (oget payload ''aud'') (tx_clientId t) \<and> oget payload ''nonce'' = Some (JStr (tx_nonce t))"

text \<open>
  \<open>answers\<close>: the presentations of one entry of the response belong to a query of the
  transaction and each was verified by the provider of its format.
\<close>

definition answers ::
  "ext \<Rightarrow> vlib \<Rightarrow> SdJwtFactoryOptions \<Rightarrow> Transaction \<Rightarrow> obj \<Rightarrow> VerifyPresentationOptions option \<Rightarrow>
   string \<times> VerifiablePresentation list \<Rightarrow> string \<times> obj list \<Rightarrow> bool" where
  "answers X V F t fmts options e r \<longleftrightarrow>
     fst r = fst e \<and> snd e \<noteq> [] \<and>
     (\<exists>fmt. query_format (tx_dcqlQuery t) (fst e) = Some fmt \<and>
        list_all2 (\<lambda>vp payload. \<exists>s w1 w2. vp = VpString s \<and>
          (case vp_options t fmts options (fst e) fmt of
             ForSdJwt so \<Rightarrow> fmt = ''dc+sd-jwt'' \<and> verify_sd_jwt X V F s so w1 = (Inr payload, w2)
           | ForJwtVp jo \<Rightarrow> fmt \<noteq> ''dc+sd-jwt'' \<and> verify_jwt_vp X V s jo w1 = (Inr payload, w2) \<and> bound_payload t payload))
          (snd e) (snd r))"

lemma verify_jwt_vp_bound:
  assumes "verify_jwt_vp X V vp opts w = (Inr p, w')"
  shows "aud_matches (oget p ''aud'') (jo_expectedAud opts) \<and>
    (\<forall>n. jo_expectedNonce opts = Some n \<longrightarrow> oget p ''nonce'' = Some (JStr n))"
proof -
  obtain dec creds where "vp_checks X V opts dec = Inr (p, creds)"
    using assms
    by (auto simp: verify_jwt_vp_def bindM_Inr thenM_Inr liftE_Inr raise_Inr ret_Inr split: option.splits if_splits)
  from vp_checks_Inr [OF this] show ?thesis by blast
qed

lemma verify_vp_Inr:
  assumes "verify_vp X V F k opts vp w1 = (Inr payload, w2)"
  obtains s where "vp = VpString s" "provider_verify X V F k opts s w1 = (Inr payload, w2)"
  using assms by (cases vp) (auto simp: verify_vp_def raise_Inr)

lemma verify_entry_Inr:
  assumes "verify_entry X V F t fmts options e w = (Inr r, w')"
  shows "answers X V F t fmts options e r"
proof -
  obtain qid vps where e: "e = (qid, vps)" by (cases e)
  obtain fmt k payloads where r: "query_format (tx_dcqlQuery t) qid = Some fmt" "vps \<noteq> []"
      "mapM (verify_vp X V F k (vp_options t fmts options qid fmt)) vps w = (Inr payloads, w')"
      "r = (qid, payloads)"
    using assms
    by (auto simp: verify_entry_def e raise_Inr bindM_Inr liftE_Inr ret_Inr split: option.splits if_splits)
  let ?P = "\<lambda>vp payload. \<exists>s w1 w2. vp = VpString s \<and>
      (case vp_options t fmts options qid fmt of
         ForSdJwt so \<Rightarrow> fmt = ''dc+sd-jwt'' \<and> verify_sd_jwt X V F s so w1 = (Inr payload, w2)
       | ForJwtVp jo \<Rightarrow> fmt \<noteq> ''dc+sd-jwt'' \<and> verify_jwt_vp X V s jo w1 = (Inr payload, w2) \<and> bound_payload t payload)"
  have one: "?P vp payload"
    if "verify_vp X V F k (vp_options t fmts options qid fmt) vp w1 = (Inr payload, w2)" for vp payload w1 w2
    using that
  proof (rule verify_vp_Inr)
    fix s
    assume s: "vp = VpString s" "provider_verify X V F k (vp_options t fmts options qid fmt) s w1 = (Inr payload, w2)"
    show ?thesis
    proof (cases "fmt = ''dc+sd-jwt''")
      case True
      then obtain so where so: "vp_options t fmts options qid fmt = ForSdJwt so"
        by (simp add: vp_options_def Let_def)
      then show ?thesis using s True by (auto simp: provider_verify_def raise_Inr split: if_splits)
    next
      case False
      then obtain jo where jo: "vp_options t fmts options qid fmt = ForJwtVp jo"
          "jo_expectedAud jo = tx_clientId t" "jo_expectedNonce jo = Some (tx_nonce t)"
        by (simp add: vp_options_def Let_def)
      then have v: "verify_jwt_vp X V s jo w1 = (Inr payload, w2)"
        using s by (auto simp: provider_verify_def raise_Inr split: if_splits)
      from verify_jwt_vp_bound [OF this] have "bound_payload t payload" by (simp add: bound_payload_def jo)
      with s(1) jo(1) False v show ?thesis by auto
    qed
  qed
  have "list_all2 ?P vps payloads"
    using mapM_Inr [OF r(3)] by (rule list_all2_mono) (blast intro: one)
  then show ?thesis
    unfolding answers_def e r(4) fst_conv snd_conv using r(1,2) by blast
qed

lemma spend_nonce_Inr:
  assumes "spend_nonce n w = (Inr u, w')"
  shows "nonce_valid (w_clk w 0) (w_nonces w) n \<and>
    w' = w\<lparr>w_clk := shift (w_clk w), w_nonces := (w_nonces w)(n := None)\<rparr>"
  using assms
  by (auto simp: spend_nonce_def run_simps on_nonces_def lookup_nonce_def nonce_validate_result nonce_validate_state
      nonce_revoke_run split: if_splits)

text \<open>
  \<open>fetched\<close>: the state after the look-up of a live transaction and the verification of the
  presentations; only the clock and the randomness have moved on.
\<close>

lemma verifyPresentations_run:
  assumes "w_transactions w tid = Some t" and "\<not> num_lt (transaction_data_expires_at t) (num_int (w_clk w 0))"
    and "tid \<noteq> []"
  obtains (early) "\<exists>e. fst (verifyPresentations X V F resp tid options w) = Inl e"
      "w_nonces (snd (verifyPresentations X V F resp tid options w)) = w_nonces w"
      "w_transactions (snd (verifyPresentations X V F resp tid options w)) = w_transactions w"
  | (late) metadata results w1 where "w_verifier_metadata w (tx_verifierId t) = Some metadata"
      "tx_state t \<noteq> None \<longrightarrow> resp_state resp = tx_state t"
      "list_all2 (answers X V F t (vp_formats_supported metadata) options) (vp_token resp) results"
      "required_presented (tx_dcqlQuery t) (map fst results)"
      "w_nonces w1 = w_nonces w" "w_transactions w1 = w_transactions w"
      "verifyPresentations X V F resp tid options w =
         thenM (spend_nonce (tx_nonce t)) (thenM (on_transactions (transaction_delete tid)) (ret results)) w1"
proof -
  let ?w = "w\<lparr>w_clk := shift (w_clk w)\<rparr>"
  have f: "timed (\<lambda>now. on_transactions (transaction_fetch now tid)) w = (Inr (Some t), ?w)"
    using assms(1,2) by (simp add: run_simps on_transactions_def transaction_fetch_def)
  show ?thesis
  proof (cases "w_verifier_metadata w (tx_verifierId t)")
    case None
    show ?thesis
      by (rule early) (use assms(3) f [unfolded timed_run] None in
        \<open>simp_all add: verifyPresentations_def run_simps on_verifier_metadata_def verifier_metadata_fetch_def\<close>)
  next
    case (Some metadata)
    let ?m = "mapM (verify_entry X V F t (vp_formats_supported metadata) options) (vp_token resp)"
    obtain r w1 where m: "?m ?w = (r, w1)" by fastforce
    have pure: "w_nonces w1 = w_nonces w" "w_transactions w1 = w_transactions w"
      using preservesD [OF preserves_mapM [OF stored.pure_verify_entry] m] by simp_all
    show ?thesis
    proof (cases "tx_state t \<noteq> None \<and> resp_state resp \<noteq> tx_state t")
      case True
      show ?thesis
        by (rule early) (use assms(3) f [unfolded timed_run] Some True in
          \<open>simp_all add: verifyPresentations_def run_simps on_verifier_metadata_def verifier_metadata_fetch_def\<close>)
    next
      case False
      show ?thesis
      proof (cases r)
        case (Inl e)
        show ?thesis
          by (rule early) (use assms(3) f [unfolded timed_run] Some False m Inl pure in
            \<open>simp_all add: verifyPresentations_def run_simps on_verifier_metadata_def verifier_metadata_fetch_def\<close>)
      next
        case (Inr results)
        show ?thesis
        proof (cases "required_presented (tx_dcqlQuery t) (map fst results)")
          case no: False
          show ?thesis
            by (rule early) (use assms(3) f [unfolded timed_run] Some False m Inr no pure in
              \<open>simp_all add: verifyPresentations_def run_simps on_verifier_metadata_def verifier_metadata_fetch_def\<close>)
        next
          case yes: True
          have ans: "list_all2 (answers X V F t (vp_formats_supported metadata) options) (vp_token resp) results"
            using mapM_Inr [OF m [unfolded Inr]] by (rule list_all2_mono) (blast intro: verify_entry_Inr)
          show ?thesis
            by (rule late [OF Some _ ans yes pure]) (use assms(3) f [unfolded timed_run] False m Inr yes Some in
              \<open>auto simp: verifyPresentations_def timed_run bindM_run [where m = "timed f" for f]
                bindM_run [where m = "zoom g q m" for g q m] bindM_run [where m = "mapM f xs" for f xs]
                on_verifier_metadata_def zoom_run verifier_metadata_fetch_def\<close>)
        qed
      qed
    qed
  qed
qed

lemma verifyPresentations_grounds:
  assumes "verifyPresentations X V F resp tid options w = (Inr results, w')"
  shows "\<exists>t metadata now.
    w_transactions w tid = Some t \<and> \<not> num_lt (transaction_data_expires_at t) (num_int (w_clk w 0)) \<and>
    w_verifier_metadata w (tx_verifierId t) = Some metadata \<and>
    (tx_state t \<noteq> None \<longrightarrow> resp_state resp = tx_state t) \<and>
    list_all2 (answers X V F t (vp_formats_supported metadata) options) (vp_token resp) results \<and>
    required_presented (tx_dcqlQuery t) (map fst results) \<and>
    nonce_valid now (w_nonces w) (tx_nonce t) \<and>
    w_nonces w' = (w_nonces w)(tx_nonce t := None) \<and> w_transactions w' = (w_transactions w)(tid := None)"
proof -
  have tid: "tid \<noteq> []" using assms by (auto simp: verifyPresentations_def raise_Inr split: if_splits)
  obtain t where t: "w_transactions w tid = Some t" "\<not> num_lt (transaction_data_expires_at t) (num_int (w_clk w 0))"
    using assms tid
    by (auto simp: verifyPresentations_def run_simps on_transactions_def transaction_fetch_def
        split: option.splits if_splits)
  show ?thesis
    using t tid
  proof (cases rule: verifyPresentations_run [where X = X and V = V and F = F and resp = resp and options = options])
    case early
    then show ?thesis using assms by auto
  next
    case (late metadata rs w1)
    obtain u w2 where sp: "spend_nonce (tx_nonce t) w1 = (Inr u, w2)"
        and rest: "thenM (on_transactions (transaction_delete tid)) (ret rs) w2 = (Inr results, w')"
      using assms late(7) by (auto simp: thenM_Inr)
    have w': "rs = results" "w_nonces w' = w_nonces w2" "w_transactions w' = (w_transactions w2)(tid := None)"
      using rest by (auto simp: thenM_Inr on_transactions_def zoom_Inr transaction_delete_def ret_Inr)
    from spend_nonce_Inr [OF sp]
    have n: "nonce_valid (w_clk w1 0) (w_nonces w) (tx_nonce t)" "w_nonces w2 = (w_nonces w)(tx_nonce t := None)"
      "w_transactions w2 = w_transactions w"
      by (simp_all add: late(5,6))
    show ?thesis
      using t late(1-4) n w' by (intro exI [of _ t] exI [of _ metadata] exI [of _ "w_clk w1 0"]) simp
  qed
qed

text \<open>C35. An accepted response belongs to a stored transaction that has not expired and has its state;
  every query of the transaction that must be answered is answered, each presentation was
  verified by the provider of the queried format, the JWT ones for the transaction's
  client and nonce; the nonce was valid, and both nonce and transaction are spent.\<close>

theorem verify_presentations_sound:
  assumes "verifyPresentations X V F resp tid options w = (Inr results, w')"
  shows "\<exists>t metadata now.
    w_transactions w tid = Some t \<and> \<not> num_lt (transaction_data_expires_at t) (num_int (w_clk w 0)) \<and>
    w_verifier_metadata w (tx_verifierId t) = Some metadata \<and>
    (tx_state t \<noteq> None \<longrightarrow> resp_state resp = tx_state t) \<and>
    list_all2 (answers X V F t (vp_formats_supported metadata) options) (vp_token resp) results \<and>
    required_presented (tx_dcqlQuery t) (map fst results) \<and>
    nonce_valid now (w_nonces w) (tx_nonce t) \<and>
    w_nonces w' = (w_nonces w)(tx_nonce t := None) \<and> w_transactions w' = (w_transactions w)(tid := None)"
  using assms by (rule verifyPresentations_grounds)

text \<open>A refused response costs the wallet nothing: while its transaction is live it stays stored, and
  the nonces stay as they are, unless the nonce of the transaction was itself invalid and
  is dropped.\<close>

theorem refused_response_can_be_retried:
  assumes "w_transactions w tid = Some t" and "\<not> num_lt (transaction_data_expires_at t) (num_int (w_clk w 0))"
    and "fst (verifyPresentations X V F resp tid options w) = Inl e"
  shows "w_transactions (snd (verifyPresentations X V F resp tid options w)) = w_transactions w \<and>
    (w_nonces (snd (verifyPresentations X V F resp tid options w)) = w_nonces w \<or>
     (\<exists>now. \<not> nonce_valid now (w_nonces w) (tx_nonce t) \<and>
        w_nonces (snd (verifyPresentations X V F resp tid options w)) = (w_nonces w)(tx_nonce t := None)))"
proof (cases "tid = []")
  case True
  then show ?thesis by (simp add: verifyPresentations_def run_simps)
next
  case False
  show ?thesis
    using assms(1,2) False
  proof (cases rule: verifyPresentations_run [where X = X and V = V and F = F and resp = resp and options = options])
    case early
    then show ?thesis by simp
  next
    case (late metadata rs w1)
    show ?thesis
    proof (cases "nonce_valid (w_clk w1 0) (w_nonces w1) (tx_nonce t)")
      case True
      then have "fst (verifyPresentations X V F resp tid options w) = Inr rs"
        unfolding late(7)
        by (simp add: spend_nonce_def run_simps on_nonces_def lookup_nonce_def nonce_validate_result nonce_validate_state
            nonce_revoke_run on_transactions_def transaction_delete_def)
      with assms(3) show ?thesis by simp
    next
      case nv: False
      then have "verifyPresentations X V F resp tid options w =
          (Inl (err ''invalid_nonce'' ''nonce is not valid.''),
           w1\<lparr>w_clk := shift (w_clk w1), w_nonces := (w_nonces w1)(tx_nonce t := None)\<rparr>)"
        unfolding late(7)
        by (simp add: spend_nonce_def run_simps on_nonces_def lookup_nonce_def nonce_validate_result nonce_validate_state)
      then show ?thesis using nv late(5,6) by auto
    qed
  qed
qed

subsection \<open>A transaction is used at most once\<close>

text \<open>The calls on existing transactions, in any order and number.\<close>

datatype verifier_call =
    CallVerify AuthorizationResponse string "VerifyPresentationOptions option"
  | CallGetTransaction string
  | CallDeleteTransaction string
  | CallFindRequestObject string string "string option"

text \<open>How many responses for one transaction are accepted.\<close>

fun accepted_for ::
  "ext \<Rightarrow> vlib \<Rightarrow> SdJwtFactoryOptions \<Rightarrow> string \<Rightarrow> verifier_call list \<Rightarrow> world \<Rightarrow> nat" where
  "accepted_for X V F tid [] w = 0"
| "accepted_for X V F tid (CallVerify resp i options # cs) w =
     (case verifyPresentations X V F resp i options w of
        (Inl e, w') \<Rightarrow> accepted_for X V F tid cs w'
      | (Inr r, w') \<Rightarrow> (if i = tid then 1 else 0) + accepted_for X V F tid cs w')"
| "accepted_for X V F tid (CallGetTransaction i # cs) w = accepted_for X V F tid cs (snd (getTransaction i w))"
| "accepted_for X V F tid (CallDeleteTransaction i # cs) w = accepted_for X V F tid cs (snd (deleteTransaction i w))"
| "accepted_for X V F tid (CallFindRequestObject v i alg # cs) w =
     accepted_for X V F tid cs (snd (findRequestObject X v i alg w))"

definition gone :: "string \<Rightarrow> world \<Rightarrow> bool" where
  "gone tid w \<longleftrightarrow> w_transactions w tid = None"

lemma gone_rest: "preserves w_transactions m \<Longrightarrow> keeps (gone tid) m"
  by (simp add: preserves_def keeps_def gone_def)

lemma gone_fetch: "keeps (gone tid) (timed (\<lambda>now. on_transactions (transaction_fetch now i)))"
  by (auto simp: keeps_def gone_def run_simps on_transactions_def transaction_fetch_def split: option.splits)

lemma gone_delete: "keeps (gone tid) (on_transactions (transaction_delete i))"
  by (simp add: keeps_def gone_def run_simps on_transactions_def transaction_delete_def)

lemma gone_entry: "keeps (gone tid) (verify_entry X V F t fmts options e)"
  by (rule gone_rest, rule token_reader.pure_verify_entry) (unfold_locales; simp)

lemma gone_spend: "keeps (gone tid) (spend_nonce n)"
  unfolding spend_nonce_def by (rule gone_rest, intro preserves_intros; simp)

lemma gone_metadata: "keeps (gone tid) (on_verifier_metadata m)"
  by (rule gone_rest, intro preserves_intros; simp)

lemma gone_verify: "keeps (gone tid) (verifyPresentations X V F resp i options)"
  unfolding verifyPresentations_def
  by (intro keeps_intros gone_fetch gone_delete gone_entry gone_spend gone_metadata)

lemma gone_get: "keeps (gone tid) (getTransaction i)"
  unfolding getTransaction_def by (intro keeps_intros gone_fetch)

lemma preserves_findRequestObject:
  "preserves w_transactions (findRequestObject X v i alg)"
  unfolding findRequestObject_def signed_request_def jar_generate_def jar_kid_generate_def jar_x5c_generate_def
  by (intro preserves_intros; simp)+

lemma gone_refuses:
  "gone tid w \<Longrightarrow> \<exists>e. fst (verifyPresentations X V F resp tid options w) = Inl e"
  by (simp add: gone_def verifyPresentations_def run_simps on_transactions_def transaction_fetch_def)

lemma verify_spends:
  assumes "verifyPresentations X V F resp tid options w = (Inr rs, w')"
  shows "gone tid w'"
proof -
  obtain w1 where "on_transactions (transaction_delete tid) w1 = (Inr (), w')"
    using assms
    by (auto simp: verifyPresentations_def bindM_Inr thenM_Inr raise_Inr ret_Inr split: option.splits if_splits)
  then show ?thesis by (auto simp: on_transactions_def zoom_Inr transaction_delete_def gone_def)
qed

lemma gone_none: "gone tid w \<Longrightarrow> accepted_for X V F tid cs w = 0"
proof (induction X V F tid cs w rule: accepted_for.induct)
  case (2 X V F tid resp i options cs w)
  have g: "gone tid (snd (verifyPresentations X V F resp i options w))" using 2(3) by (rule keepsD [OF gone_verify])
  show ?case
  proof (cases "verifyPresentations X V F resp i options w")
    case (Pair r w')
    then show ?thesis
      using 2 g gone_refuses [OF 2(3), of X V F resp options] by (cases r) auto
  qed
next
  case (3 X V F tid i cs w)
  then show ?case using keepsD [OF gone_get] by simp
next
  case (4 X V F tid i cs w)
  then show ?case using keepsD [OF gone_delete] by (simp add: deleteTransaction_def)
next
  case (5 X V F tid v i alg cs w)
  then show ?case using keepsD [OF gone_rest [OF preserves_findRequestObject]] by simp
qed simp

text \<open>C36. In any sequence of calls on existing transactions, at most one response is accepted for each.\<close>

theorem transaction_accepted_once: "accepted_for X V F tid cs w \<le> 1"
proof (induction X V F tid cs w rule: accepted_for.induct)
  case (2 X V F tid resp i options cs w)
  show ?case
  proof (cases "verifyPresentations X V F resp i options w")
    case (Pair r w')
    show ?thesis
    proof (cases r)
      case (Inr rs)
      show ?thesis
      proof (cases "i = tid")
        case True
        have "verifyPresentations X V F resp tid options w = (Inr rs, w')" using Pair Inr True by simp
        from gone_none [OF verify_spends [OF this]] show ?thesis using Pair Inr by simp
      next
        case False
        then show ?thesis using 2(2) [OF Pair [symmetric]] Inr Pair by simp
      qed
    qed (use 2(1) Pair in simp)
  qed
qed simp_all

end
