(* ===== verification/Verifier_Requests.thy ===== *)
theory Verifier_Requests
  imports Verifier_Safety
begin

text \<open>
  The requests of a verifier: the transaction that a request opens, the single retrieval of a
  request object, and the metadata that a registration stores.
\<close>

subsection \<open>Requests\<close>

lemma oget_opt_member [simp]: "oget (opt_member k v) k' = (if k' = k then v else None)"
  by (simp add: opt_member_def split: option.splits)

text \<open>The request object as JSON has the client, the nonce and the response mode of the request.\<close>

lemma request_object_json_members:
  "oget (request_object_json r) ''nonce'' = Some (JStr (ro_nonce r))"
  "oget (request_object_json r) ''client_id'' = Some (JStr (ro_client_id r))"
  "oget (request_object_json r) ''response_mode'' = Some (JStr (ro_response_mode r))"
  "oget (request_object_json r) ''state'' = map_option JStr (ro_state r)"
  by (simp_all add: request_object_json_def oget_append split: option.splits)

lemma jar_payload_members:
  "oget (jar_payload r None now) ''nonce'' = Some (JStr (ro_nonce r))"
  "oget (jar_payload r None now) ''client_id'' = Some (JStr (ro_client_id r))"
  "oget (jar_payload r None now) ''iat'' = Some (JNum (num_int (now div 1000)))"
  "oget (jar_payload r None now) ''state'' = map_option JStr (ro_state r)"
  by (simp_all add: jar_payload_def Let_def request_object_json_members)

lemma jar_generate_Inr:
  assumes "jar_generate X p v r alg None w = (Inr (h, payload), w')"
  shows "(\<exists>now. payload = jar_payload r None now) \<and> oget h ''typ'' = Some (JStr ''oauth-authz-req+jwt'') \<and>
    oget h ''alg'' = Some (JStr alg) \<and>
    (if p = ''x509_san_dns'' then \<exists>cs. cs \<noteq> [] \<and> oget h ''x5c'' = Some (JStrs cs) \<and>
        cs = map strip_pem (getOr [] (w_certificates w v))
     else \<exists>key kid. fst (key_fetch X v (JStr alg) (w_verifier_keys w)) = Inr (Some key) \<and>
        calculateJwkThumbprint X (exportJWK X key) = Inr kid \<and> oget h ''kid'' = Some (JStr kid))"
proof (cases "p = ''x509_san_dns''")
  case True
  then show ?thesis
    using assms
    by (auto simp: jar_generate_def jar_x5c_generate_def bindM_Inr raise_Inr ret_Inr now_ms_Inr on_certificates_def
        zoom_Inr certificate_fetch_def split: if_splits)
next
  case False
  then show ?thesis
    using assms
    by (auto simp: jar_generate_def jar_kid_generate_def bindM_Inr raise_Inr ret_Inr now_ms_Inr liftE_Inr
        on_verifier_keys_def zoom_Inr split: option.splits)
qed

lemma preserves_signed_request: "preserves w_request_objects (signed_request X v r alg)"
  unfolding signed_request_def jar_generate_def jar_kid_generate_def jar_x5c_generate_def
  by (intro preserves_intros; simp)+

text \<open>\<open>is_request_jwt\<close>: what the JWT of a request object is made of.\<close>

definition is_request_jwt :: "ext \<Rightarrow> world \<Rightarrow> string \<Rightarrow> RequestObject \<Rightarrow> string \<Rightarrow> string \<Rightarrow> bool" where
  "is_request_jwt X w v ro alg jwt \<longleftrightarrow>
     (\<exists>h payload sig. jwt = encode_json X (JObj h) @ ''.'' @ encode_json X (JObj payload) @ ''.'' @ sig \<and> sig \<noteq> [] \<and>
        oget h ''typ'' = Some (JStr ''oauth-authz-req+jwt'') \<and> oget h ''alg'' = Some (JStr alg) \<and>
        oget payload ''client_id'' = Some (JStr (ro_client_id ro)) \<and> oget payload ''nonce'' = Some (JStr (ro_nonce ro)) \<and>
        oget payload ''state'' = map_option JStr (ro_state ro) \<and>
        (if client_id_prefix (ro_client_id ro) = ''x509_san_dns''
         then oget h ''x5c'' = Some (JStrs (map strip_pem (getOr [] (w_certificates w v))))
         else client_id_prefix (ro_client_id ro) = ''redirect_uri'' \<and> oget h ''kid'' \<noteq> None))"

lemma signed_request_Inr:
  assumes "signed_request X v ro alg w = (Inr jwt, w')"
  shows "is_request_jwt X w v ro alg jwt"
proof -
  obtain p h payload w1 osig where s:
    "selectProvider jar_canHandle jar_providers (client_id_prefix (ro_client_id ro)) = Inr p"
    "jar_generate X p v ro alg None w = (Inr (h, payload), w1)" "opt_str osig"
    "jwt = encode_json X (JObj h) @ ''.'' @ encode_json X (JObj payload) @ ''.'' @ getOr [] osig"
    using assms by (auto simp: signed_request_def bindM_Inr liftE_Inr raise_Inr ret_Inr split: if_splits)
  have p: "p = client_id_prefix (ro_client_id ro)" "p = ''x509_san_dns'' \<or> p = ''redirect_uri''"
    using selectProvider_Inr [OF s(1)] by (auto simp: jar_canHandle_def jar_providers_def)
  obtain now where pl: "payload = jar_payload ro None now" using jar_generate_Inr [OF s(2)] by blast
  show ?thesis
    unfolding is_request_jwt_def
    by (intro exI [of _ h] exI [of _ payload] exI [of _ "getOr [] osig"])
      (use jar_generate_Inr [OF s(2)] s(3,4) p in \<open>auto simp: pl jar_payload_members opt_str_def split: if_splits\<close>)
qed

text \<open>\<open>keeps_error I m\<close>: a property of the state that a run which throws leaves true.\<close>

definition keeps_error :: "('w \<Rightarrow> bool) \<Rightarrow> ('w, 'a) M \<Rightarrow> bool" where
  "keeps_error I m \<longleftrightarrow> (\<forall>w e w'. I w \<longrightarrow> m w = (Inl e, w') \<longrightarrow> I w')"

named_theorems keeps_error_intros \<open>rules for what an error leaves true\<close>

lemma keeps_error_keeps: "keeps I m \<Longrightarrow> keeps_error I m"
  by (auto simp: keeps_def keeps_error_def)

lemma keeps_error_bindM [keeps_error_intros]:
  "keeps I m \<Longrightarrow> (\<And>x. keeps_error I (f x)) \<Longrightarrow> keeps_error I (bindM m f)"
  by (fastforce simp: keeps_def keeps_error_def bindM_def split: prod.splits sum.splits)

lemma keeps_error_raise [keeps_error_intros]: "keeps_error I (raise c msg)"
  by (simp add: keeps_error_def raise_run)

lemma keeps_error_if [keeps_error_intros]:
  "keeps_error I m \<Longrightarrow> keeps_error I n \<Longrightarrow> keeps_error I (if b then m else n)"
  by simp

lemma keeps_error_option [keeps_error_intros]:
  "keeps_error I m \<Longrightarrow> (\<And>x. keeps_error I (f x)) \<Longrightarrow> keeps_error I (case v of None \<Rightarrow> m | Some x \<Rightarrow> f x)"
  by (cases v) simp_all

lemma findRequestObject_error:
  assumes "findRequestObject X v oid alg w = (Inl e, w')"
  shows "w_request_objects w' = w_request_objects w"
proof -
  let ?I = "\<lambda>u. w_request_objects u = w_request_objects w"
  have k: "keeps ?I m" if "preserves w_request_objects m" for m :: "(world, 'a) M"
    using that by (simp add: preserves_keeps)
  have del: "keeps_error ?I (thenM (on_request_objects (request_object_delete oid)) (ret y))" for y :: string
    by (simp add: keeps_error_def run_simps on_request_objects_def request_object_delete_def)
  have fetch: "keeps ?I (on_request_objects (request_object_fetch oid))"
    by (simp add: keeps_def run_simps on_request_objects_def request_object_fetch_def)
  have md: "keeps ?I (on_verifier_metadata (verifier_metadata_fetch v))"
    by (rule k, intro preserves_intros) simp
  have "keeps_error ?I (findRequestObject X v oid alg)"
    unfolding findRequestObject_def
    by (intro keeps_error_intros del fetch md k [OF preserves_signed_request])
  then show ?thesis unfolding keeps_error_def using assms by blast
qed


text \<open>The state after a transaction has been opened.\<close>

definition opened :: "string \<Rightarrow> string \<Rightarrow> Transaction \<Rightarrow> world \<Rightarrow> world" where
  "opened tid n t w = w\<lparr>
     w_nonces := (w_nonces w)(n \<mapsto> \<lparr>ns_nonce = \<lparr>nonce = n, nonce_expires_in = Some DEFAULT_NONCE_EXPIRES_IN_MS\<rparr>,
       ns_expires_at = num_int (w_clk w 0 + 300000)\<rparr>),
     w_transactions := (w_transactions w)(tid \<mapsto> t), w_clk := shift (shift (w_clk w)), w_rnd := shift (shift (w_rnd w))\<rparr>"

lemma Dcql_check_Inr: "Dcql_check V q = Inr q' \<Longrightarrow> q' = q"
  by (auto simp: Dcql_check_def split: sum.splits)

lemma ClientIdentifier_parse_Inr: "ClientIdentifier_parse c = Inr c' \<Longrightarrow> c' = c"
  by (auto simp: ClientIdentifier_parse_def split: if_splits)

lemma TransactionRecord_parse_Inr:
  assumes "TransactionRecord_parse X V r = Inr r'"
  shows "tr_dcqlQuery r' = tr_dcqlQuery r \<and> tr_clientId r' = tr_clientId r \<and>
    zod_url X (tr_verifierId r) = Some (tr_verifierId r') \<and> tr_state r' = tr_state r \<and> tr_nonce r' = tr_nonce r"
  using assms
  by (auto simp: TransactionRecord_parse_def split: sum.splits option.splits
      dest!: Dcql_check_Inr ClientIdentifier_parse_Inr)

lemma open_transaction_Inr:
  assumes "open_transaction X V v c q s w = (Inr (tid, n), w')"
  shows "\<exists>t. w' = opened tid n t w \<and> tx_clientId t = c \<and> zod_url X v = Some (tx_verifierId t) \<and> tx_state t = s \<and>
    tx_nonce t = n \<and> tx_dcqlQuery t = q \<and> transaction_data_expires_at t = num_int (w_clk w 1 + 300000)"
proof -
  let ?tid = "strip_dashes (w_rnd w 0)" and ?n = "strip_dashes (w_rnd w 1)"
  obtain r where r: "TransactionRecord_parse X V
      \<lparr>tr_dcqlQuery = q, tr_clientId = c, tr_verifierId = v, tr_state = s, tr_nonce = ?n\<rparr> = Inr r"
      "tid = ?tid" "n = ?n"
    and w': "w' = opened ?tid ?n \<lparr>transaction_id = ?tid, tx_dcqlQuery = tr_dcqlQuery r,
       transaction_data_expires_at = num_int (w_clk w 1 + 300000), tx_clientId = tr_clientId r,
       tx_verifierId = tr_verifierId r, tx_state = tr_state r, tx_nonce = tr_nonce r\<rparr> w"
    using assms
    by (cases "TransactionRecord_parse X V
        \<lparr>tr_dcqlQuery = q, tr_clientId = c, tr_verifierId = v, tr_state = s, tr_nonce = ?n\<rparr>")
      (auto simp: open_transaction_def uuid_id_def nonce_generate_def run_simps on_nonces_def nonce_save_def
        on_transactions_def transaction_save_def shift_def opened_def DEFAULT_NONCE_EXPIRES_IN_MS_def
        DEFAULT_TRANSACTION_EXPIRE_IN_MS_def)
  show ?thesis
    using TransactionRecord_parse_Inr [OF r(1)] unfolding r(2,3) w'
    by (intro exI [of _ "\<lparr>transaction_id = ?tid, tx_dcqlQuery = tr_dcqlQuery r,
       transaction_data_expires_at = num_int (w_clk w 1 + 300000), tx_clientId = tr_clientId r,
       tx_verifierId = tr_verifierId r, tx_state = tr_state r, tx_nonce = tr_nonce r\<rparr>"]) simp
qed

lemma RequestObject_parse_Inr:
  assumes "RequestObject_parse X V r = Inr r'"
  shows "ro_client_id r' = ro_client_id r \<and> ro_nonce r' = ro_nonce r \<and> ro_state r' = ro_state r \<and>
    ro_dcql_query r' = ro_dcql_query r \<and> ro_response_mode r' = ro_response_mode r \<and>
    ro_response_mode r \<in> set response_modes"
  using assms
  by (auto simp: RequestObject_parse_def split: if_splits option.splits sum.splits dest!: Dcql_check_Inr)

lemma store_request_object_Inr:
  assumes "store_request_object X V draft opts n w = (Inr u, w')"
  shows "\<exists>oid ro. ro_client_id ro = ro_client_id draft \<and> ro_nonce ro = n \<and> ro_state ro = ro_state draft \<and>
    ro_dcql_query ro = ro_dcql_query draft \<and>
    w' = w\<lparr>w_rnd := shift (w_rnd w), w_request_objects := (w_request_objects w)(oid \<mapsto> ro)\<rparr>"
proof -
  let ?d = "draft\<lparr>ro_scope := ar_scope opts, ro_iss := Some (ro_client_id draft),
           ro_aud := Some ''https://self-issued.me/v2'', ro_nonce := n\<rparr>"
  obtain ro where ro: "RequestObject_parse X V ?d = Inr ro"
    using assms by (auto simp: store_request_object_def bindM_Inr liftE_Inr)
  then have "w' = w\<lparr>w_rnd := shift (w_rnd w), w_request_objects := (w_request_objects w)(strip_dashes (w_rnd w 0) \<mapsto> ro)\<rparr>"
    using assms
    by (auto simp: store_request_object_def uuid_id_def bindM_Inr liftE_Inr thenM_Inr ret_Inr fresh_Inr
        option_throw_Inr on_request_objects_def zoom_Inr request_object_save_def)
  with RequestObject_parse_Inr [OF ro] show ?thesis by auto
qed

text \<open>Both ways of delivery open a transaction and put its nonce into the request.\<close>

lemma request_by_reference_Inr:
  assumes "request_by_reference X V v draft opts w = (Inr r, w')"
  shows "\<exists>n ro oid u w1.
    open_transaction X V v (ro_client_id draft) (ro_dcql_query draft) (ro_state draft) w = (Inr (cr_transactionId r, n), w1) \<and>
    cr_request r = RequestUriFlow (ro_client_id draft) u \<and> ro_client_id ro = ro_client_id draft \<and> ro_nonce ro = n \<and>
    ro_state ro = ro_state draft \<and> ro_dcql_query ro = ro_dcql_query draft \<and>
    w' = w1\<lparr>w_rnd := shift (w_rnd w1), w_request_objects := (w_request_objects w1)(oid \<mapsto> ro)\<rparr>"
proof -
  obtain tid n w1 u where "open_transaction X V v (ro_client_id draft) (ro_dcql_query draft) (ro_state draft) w =
        (Inr (tid, n), w1)" "store_request_object X V draft opts n w1 = (Inr u, w')"
      "r = \<lparr>cr_request = RequestUriFlow (ro_client_id draft) u, cr_transactionId = tid\<rparr>"
    using assms by (auto simp: request_by_reference_def bindM_Inr liftE_Inr raise_Inr ret_Inr split: if_splits)
  then show ?thesis using store_request_object_Inr by fastforce
qed

lemma request_by_value_Inr:
  assumes "request_by_value X V v draft w = (Inr r, w')"
  shows "\<exists>n ro. open_transaction X V v (ro_client_id draft) (ro_dcql_query draft) (ro_state draft) w =
      (Inr (cr_transactionId r, n), w') \<and>
    cr_request r = InlineDcqlFlow ro \<and> ro_client_id ro = ro_client_id draft \<and> ro_nonce ro = n \<and>
    ro_state ro = ro_state draft \<and> ro_dcql_query ro = ro_dcql_query draft"
proof -
  obtain tid n ro where "open_transaction X V v (ro_client_id draft) (ro_dcql_query draft) (ro_state draft) w =
        (Inr (tid, n), w')"
      "RequestObject_parse X V (draft\<lparr>ro_nonce := n\<rparr>) = Inr ro" "r = \<lparr>cr_request = InlineDcqlFlow ro, cr_transactionId = tid\<rparr>"
    using assms by (auto simp: request_by_value_def bindM_Inr liftE_Inr ret_Inr)
  then show ?thesis using RequestObject_parse_Inr by fastforce
qed

lemma requested_sd_ids_Inr:
  "requested_sd_ids fs cs = Inr ids \<Longrightarrow> \<forall>c \<in> set cs. dc_format c \<in> set fs"
  by (induction cs arbitrary: ids) (auto split: if_splits sum.splits)

lemma certificate_guard_Inr: "certificate_guard v c b w = (Inr u, w') \<Longrightarrow> w' = w"
  by (auto simp: certificate_guard_def raise_Inr ret_Inr bindM_Inr on_certificates_def zoom_Inr certificate_fetch_def
      split: if_splits)

lemma createAuthzRequest_opens:
  assumes "createAuthzRequest X V v rt c rm query byref opts w = (Inr r, w')"
  shows "\<exists>metadata t ro.
    w_verifier_metadata w v = Some metadata \<and> w_transactions w' (cr_transactionId r) = Some t \<and>
    tx_clientId t = c \<and> tx_state t = ar_state opts \<and>
    (\<forall>q \<in> set (dq_credentials (tx_dcqlQuery t)). dc_format q \<in> set (map fst (vp_formats_supported metadata))) \<and>
    transaction_data_expires_at t = num_int (w_clk w 1 + 300000) \<and>
    (\<forall>now \<le> w_clk w 0 + 300000. nonce_valid now (w_nonces w') (tx_nonce t)) \<and>
    ro_nonce ro = tx_nonce t \<and> ro_client_id ro = c \<and> ro_state ro = ar_state opts \<and> ro_dcql_query ro = tx_dcqlQuery t \<and>
    (if byref then \<exists>oid u. cr_request r = RequestUriFlow c u \<and> w_request_objects w' oid = Some ro
     else cr_request r = InlineDcqlFlow ro)"
proof -
  obtain metadata q ids where m: "w_verifier_metadata w v = Some metadata" "dcql_generate V query = Inr q"
      "requested_sd_ids (map fst (vp_formats_supported metadata)) (dq_credentials q) = Inr ids"
    and run: "(let draft = request_draft v rt c rm metadata q (request_transaction_data X opts ids) opts
       in if byref then request_by_reference X V v draft opts else request_by_value X V v draft) w = (Inr r, w')"
    using assms
    by (auto simp: createAuthzRequest_def thenM_Inr bindM_Inr liftE_Inr raise_Inr on_verifier_metadata_def zoom_Inr
        verifier_metadata_fetch_def Let_def split: option.splits dest!: certificate_guard_Inr)
  define draft where "draft = request_draft v rt c rm metadata q (request_transaction_data X opts ids) opts"
  have d: "ro_client_id draft = c" "ro_state draft = ar_state opts" "ro_dcql_query draft = q"
    by (simp_all add: draft_def request_draft_def)
  obtain n ro w1 where o1: "open_transaction X V v c q (ar_state opts) w = (Inr (cr_transactionId r, n), w1)"
      "ro_nonce ro = n" "ro_client_id ro = c" "ro_state ro = ar_state opts" "ro_dcql_query ro = q"
      "w_transactions w' = w_transactions w1" "w_nonces w' = w_nonces w1"
      "if byref then \<exists>oid u. cr_request r = RequestUriFlow c u \<and> w_request_objects w' oid = Some ro
       else cr_request r = InlineDcqlFlow ro"
  proof (cases byref)
    case True
    then have "request_by_reference X V v draft opts w = (Inr r, w')" using run by (simp add: draft_def)
    from request_by_reference_Inr [OF this] show ?thesis using that True by (fastforce simp: d)
  next
    case False
    then have "request_by_value X V v draft w = (Inr r, w')" using run by (simp add: draft_def)
    from request_by_value_Inr [OF this] show ?thesis using that False by (auto simp: d)
  qed
  obtain t where t: "w1 = opened (cr_transactionId r) n t w" "tx_clientId t = c" "tx_state t = ar_state opts"
      "tx_nonce t = n" "tx_dcqlQuery t = q" "transaction_data_expires_at t = num_int (w_clk w 1 + 300000)"
    using open_transaction_Inr [OF o1(1)] by blast
  have "\<forall>now \<le> w_clk w 0 + 300000. nonce_valid now (w_nonces w') n"
    by (simp add: o1(7) t(1) opened_def nonce_valid_def)
  moreover have "w_transactions w' (cr_transactionId r) = Some t" by (simp add: o1(6) t(1) opened_def)
  ultimately show ?thesis using m(1) o1(2-5,8) t(2-6) requested_sd_ids_Inr [OF m(3)] by auto
qed

text \<open>An authorization request opens a transaction for its client, state and query and a nonce, both
  valid for five minutes, and carries that nonce; it asks only for formats the verifier
  supports, and when it is sent by reference its request object is stored.\<close>

theorem authz_request_opens_transaction:
  assumes "createAuthzRequest X V v rt c rm query byref opts w = (Inr r, w')"
  shows "\<exists>metadata t ro.
    w_verifier_metadata w v = Some metadata \<and> w_transactions w' (cr_transactionId r) = Some t \<and>
    tx_clientId t = c \<and> tx_state t = ar_state opts \<and>
    (\<forall>q \<in> set (dq_credentials (tx_dcqlQuery t)). dc_format q \<in> set (map fst (vp_formats_supported metadata))) \<and>
    transaction_data_expires_at t = num_int (w_clk w 1 + 300000) \<and>
    (\<forall>now \<le> w_clk w 0 + 300000. nonce_valid now (w_nonces w') (tx_nonce t)) \<and>
    ro_nonce ro = tx_nonce t \<and> ro_client_id ro = c \<and> ro_state ro = ar_state opts \<and> ro_dcql_query ro = tx_dcqlQuery t \<and>
    (if byref then \<exists>oid u. cr_request r = RequestUriFlow c u \<and> w_request_objects w' oid = Some ro
     else cr_request r = InlineDcqlFlow ro)"
  using assms by (rule createAuthzRequest_opens)

subsection \<open>Stored metadata satisfies its schema\<close>

lemma map_of_filter_key: "map_of (filter (\<lambda>(k, v). P k) ob) k = (if P k then map_of ob k else None)"
  by (induction ob) auto

lemma oget_shaped [simp]: "oget (shaped ks ob) k = oget ob k"
  by (simp add: shaped_def oget_append split: option.splits) (simp add: oget_def map_of_filter_key)

lemma keep_cong: "(\<And>k. k \<in> set ks \<Longrightarrow> oget a k = oget b k) \<Longrightarrow> keep a ks = keep b ks"
  by (induction ks) (auto simp: keep_def List.map_filter_simps split: option.splits)

lemma fst_keep: "kv \<in> set (keep ob ks) \<Longrightarrow> fst kv \<in> set ks"
  by (induction ks) (auto simp: keep_def List.map_filter_simps split: option.splits)

lemma filter_keep: "filter (\<lambda>(k, v). k \<notin> set ks) (keep ob ks) = []"
  by (auto simp: filter_empty_conv dest: fst_keep)

lemma shaped_idem [simp]: "shaped ks (shaped ks ob) = shaped ks ob"
proof -
  have "keep (shaped ks ob) ks = keep ob ks" by (rule keep_cong) simp
  moreover have "filter (\<lambda>(k, v). k \<notin> set ks) (shaped ks ob) = filter (\<lambda>(k, v). k \<notin> set ks) ob"
    by (simp add: shaped_def filter_keep)
  ultimately show ?thesis by (simp add: shaped_def)
qed

text \<open>A change of the values commutes with the order of the members.\<close>

lemma oget_map_values: "oget (map (\<lambda>(k, v). (k, g k v)) ob) k = map_option (g k) (oget ob k)"
  by (induction ob) (auto simp: oget_def)

lemma keep_map_values:
  "keep (map (\<lambda>(k, v). (k, g k v)) ob) ks = map (\<lambda>(k, v). (k, g k v)) (keep ob ks)"
  by (induction ks) (auto simp: keep_def List.map_filter_simps oget_map_values split: option.splits)

lemma shaped_map_values:
  "shaped ks (map (\<lambda>(k, v). (k, g k v)) ob) = map (\<lambda>(k, v). (k, g k v)) (shaped ks ob)"
proof -
  have "filter (\<lambda>(k, v). k \<notin> set ks) (map (\<lambda>(k, v). (k, g k v)) ob) =
      map (\<lambda>(k, v). (k, g k v)) (filter (\<lambda>(k, v). k \<notin> set ks) ob)"
    by (induction ob) auto
  then show ?thesis by (simp add: shaped_def keep_map_values)
qed

definition format_value :: "string \<Rightarrow> jsval \<Rightarrow> jsval" where
  "format_value k f = (case (f, map_of format_arrays k) of
     (JObj ob, Some (p, ks)) \<Rightarrow> JObj (shaped ks ob) | _ \<Rightarrow> f)"

lemma vp_formats_value_eq:
  "vp_formats_value (JObj fs) = map (\<lambda>(k, f). (k, format_value k f)) (shaped (map fst format_arrays) fs)"
  by (simp add: vp_formats_value_def format_value_def)

lemma format_value_idem: "format_value k (format_value k f) = format_value k f"
  by (auto simp: format_value_def split: jsval.splits option.splits)

lemma vp_formats_value_idem: "vp_formats_value (JObj (vp_formats_value (JObj fs))) = vp_formats_value (JObj fs)"
  unfolding vp_formats_value_eq
  by (simp only: shaped_map_values shaped_idem map_map) (simp add: format_value_idem case_prod_unfold comp_def)

lemma opt_ok_shaped: "opt_ok p (shaped ks ob) k = opt_ok p ob k"
  by (simp add: opt_ok_def)

lemma format_ok_value: "format_ok k f \<Longrightarrow> format_ok k (format_value k f)"
  by (auto simp: format_ok_def format_value_def opt_ok_shaped list_all_iff split: jsval.splits option.splits)

lemma set_shaped: "set (shaped ks ob) \<subseteq> set ob"
proof -
  have "set (keep ob ks) \<subseteq> set ob"
    by (induction ks) (auto simp: keep_def List.map_filter_simps oget_def dest: map_of_SomeD split: option.splits)
  then show ?thesis by (auto simp: shaped_def)
qed

lemma shaped_ne: "ob \<noteq> [] \<Longrightarrow> shaped ks ob \<noteq> []"
proof
  assume ob: "ob \<noteq> []" and e: "shaped ks ob = []"
  obtain k v r where r: "ob = (k, v) # r" using ob by (cases ob) auto
  then have "oget (shaped ks ob) k = Some v" by simp
  then show False by (simp add: e)
qed

lemma vp_formats_ok_value: "vp_formats_ok (JObj fs) \<Longrightarrow> vp_formats_ok (JObj (vp_formats_value (JObj fs)))"
  using shaped_ne [of fs "map fst format_arrays"]
  by (auto simp: vp_formats_ok_def vp_formats_value_eq list_all_iff intro!: format_ok_value
      dest!: set_mp [OF set_shaped])

lemma strings_of_JStrs [simp]: "strings_of (Some (JStrs xs)) = Some xs"
  by (simp add: strings_of_def JStrs_def list_all_iff comp_def)

lemma strings_of_None [simp]: "strings_of None = None"
  by (simp add: strings_of_def)

lemma is_strs_JStrs [simp]: "is_strs (JStrs xs)"
  by (simp add: JStrs_def list_all_iff)

lemma JStrs_ne: "JStrs xs = JArr ys \<Longrightarrow> ys = [] \<longleftrightarrow> xs = []"
  by (auto simp: JStrs_def)

lemma opt_ok_None [simp]: "oget ob k = None \<Longrightarrow> opt_ok p ob k"
  by (simp add: opt_ok_def)

text \<open>The members of the JSON form.\<close>

lemma metadata_json_members:
  "oget (metadata_json m) ''redirect_uris'' = map_option JStrs (redirect_uris m)"
  "oget (metadata_json m) ''token_endpoint_auth_method'' = map_option JStr (vm_token_endpoint_auth_method m)"
  "oget (metadata_json m) ''grant_types'' = map_option JStr (vm_grant_types m)"
  "oget (metadata_json m) ''client_name'' = map_option JStr (vm_client_name m)"
  "oget (metadata_json m) ''client_uri'' = map_option JStr (vm_client_uri m)"
  "oget (metadata_json m) ''logo_uri'' = map_option JStr (vm_logo_uri m)"
  "oget (metadata_json m) ''scope'' = map_option JStr (vm_scope m)"
  "oget (metadata_json m) ''contacts'' = map_option JStrs (contacts m)"
  "oget (metadata_json m) ''tos_uri'' = map_option JStr (tos_uri m)"
  "oget (metadata_json m) ''policy_uri'' = map_option JStr (policy_uri m)"
  "oget (metadata_json m) ''jwks_uri'' = map_option JStr (vm_jwks_uri m)"
  "oget (metadata_json m) ''jwks'' = map_option (\<lambda>ks. JObj [(''keys'', JArr ks)]) (vm_jwks m)"
  "oget (metadata_json m) ''software_id'' = map_option JStr (software_id m)"
  "oget (metadata_json m) ''software_version'' = map_option JStr (software_version m)"
  "oget (metadata_json m) ''response_types'' = map_option JStr (vm_response_types m)"
  "oget (metadata_json m) ''encrypted_response_enc_values_supported'' =
     map_option JStrs (encrypted_response_enc_values_supported m)"
  "oget (metadata_json m) ''vp_formats_supported'' = Some (JObj (vp_formats_supported m))"
  by (simp_all add: metadata_json_def oget_append option.case_eq_if)

lemma str_of_map [simp]: "str_of (map_option JStr s) = s"
  by (cases s) simp_all

lemma strings_of_map [simp]: "strings_of (map_option JStrs s) = s"
  by (cases s) simp_all

text \<open>The checks of the schema, on the fields of a record.\<close>

definition metadata_wf :: "ext \<Rightarrow> VerifierMetadata \<Rightarrow> bool" where
  "metadata_wf X m \<longleftrightarrow>
     (\<forall>u \<in> {tos_uri m, policy_uri m, vm_jwks_uri m}. \<forall>s. u = Some s \<longrightarrow> zod_url X s = Some s) \<and>
     (\<forall>s. vm_token_endpoint_auth_method m = Some s \<longrightarrow>
        enum_ok [''none'', ''client_secret_post'', ''client_secret_basic''] (JStr s)) \<and>
     (\<forall>s. vm_grant_types m = Some s \<longrightarrow>
        enum_ok [''authorization_code'', ''implicit'', ''password'', ''client_credentials'', ''refresh_token'',
        ''urn:ietf:params:oauth:grant-type:jwt-bearer'', ''urn:ietf:params:oauth:grant-type:saml2-bearer''] (JStr s)) \<and>
     (\<forall>s. vm_response_types m = Some s \<longrightarrow> enum_ok [''code'', ''token''] (JStr s)) \<and>
     encrypted_response_enc_values_supported m \<noteq> Some [] \<and>
     vp_formats_ok (JObj (vp_formats_supported m)) \<and> vp_formats_value (JObj (vp_formats_supported m)) = vp_formats_supported m \<and>
     (\<forall>ks. vm_jwks m = Some ks \<longrightarrow> list_all metadata_jwk_ok ks)"

lemma opt_ok_map: "oget ob k = map_option c s \<Longrightarrow> opt_ok p ob k \<longleftrightarrow> (\<forall>x. s = Some x \<longrightarrow> p (c x))"
  by (cases s) (simp_all add: opt_ok_def)

lemma metadata_wf_parse:
  assumes "metadata_wf X m"
  shows "VerifierMetadata_parse X (metadata_json m) = Inr m"
proof -
  have n: "nonempty is_str (JStrs xs) \<longleftrightarrow> xs \<noteq> []" for xs
    by (auto simp: nonempty_def JStrs_def list_all_iff)
  have ok: "metadata_ok X (metadata_json m) \<and> opt_ok metadata_jwks_ok (metadata_json m) ''jwks''"
    using assms
    by (simp add: metadata_ok_def metadata_wf_def opt_ok_map [OF metadata_json_members(1)]
        opt_ok_map [OF metadata_json_members(2)] opt_ok_map [OF metadata_json_members(3)]
        opt_ok_map [OF metadata_json_members(4)] opt_ok_map [OF metadata_json_members(5)]
        opt_ok_map [OF metadata_json_members(6)] opt_ok_map [OF metadata_json_members(7)]
        opt_ok_map [OF metadata_json_members(8)] opt_ok_map [OF metadata_json_members(9)]
        opt_ok_map [OF metadata_json_members(10)] opt_ok_map [OF metadata_json_members(11)]
        opt_ok_map [OF metadata_json_members(12)] opt_ok_map [OF metadata_json_members(13)]
        opt_ok_map [OF metadata_json_members(14)] opt_ok_map [OF metadata_json_members(15)]
        opt_ok_map [OF metadata_json_members(16)] req_ok_def metadata_json_members(17) n is_url_def metadata_jwks_ok_def)
      blast
  have u: "url_member X (metadata_json m) k = f"
    if "oget (metadata_json m) k = map_option JStr f" "\<forall>s. f = Some s \<longrightarrow> zod_url X s = Some s" for k f
    using that by (cases f) (simp_all add: url_member_def)
  have j: "(case oget (metadata_json m) ''jwks'' of
      Some j \<Rightarrow> (case vget j ''keys'' of Some (JArr ks) \<Rightarrow> Some ks | _ \<Rightarrow> None) | None \<Rightarrow> None) = vm_jwks m"
    by (cases "vm_jwks m") (simp_all add: metadata_json_members)
  have "metadata_of X (metadata_json m) = m"
    using assms u [OF metadata_json_members(9)] u [OF metadata_json_members(10)] u [OF metadata_json_members(11)]
    by (simp add: metadata_of_def j) (simp add: metadata_json_members metadata_wf_def)
  with ok show ?thesis by (simp add: VerifierMetadata_parse_def)
qed

lemma str_enum: "opt_ok (enum_ok es) ob k \<Longrightarrow> str_of (oget ob k) = Some s \<Longrightarrow> enum_ok es (JStr s)"
  by (simp add: opt_ok_def)

lemma strings_ne:
  "opt_ok (nonempty is_str) ob k \<Longrightarrow> strings_of (oget ob k) \<noteq> Some []"
  by (auto simp: opt_ok_def nonempty_def strings_of_def split: option.splits jsval.splits)

lemma url_member_idem:
  "(\<And>s u. zod_url X s = Some u \<Longrightarrow> zod_url X u = Some u) \<Longrightarrow> url_member X ob k = Some u \<Longrightarrow> zod_url X u = Some u"
  by (auto simp: url_member_def split: option.splits jsval.splits)

text \<open>Without the member \<open>jwks\<close>, the other members are read as before.\<close>

lemma oget_without: "k \<noteq> k' \<Longrightarrow> oget (filter (\<lambda>(k, v). k \<noteq> k') ob) k = oget ob k"
  by (simp add: oget_def map_of_filter_key)

lemma metadata_of_without:
  "metadata_of X (filter (\<lambda>(k, v). k \<noteq> ''jwks'') ob) = (metadata_of X ob)\<lparr>vm_jwks := None\<rparr>"
proof -
  have "oget (filter (\<lambda>(k, v). k \<noteq> ''jwks'') ob) ''jwks'' = None"
    by (simp add: oget_def map_of_filter_key)
  then show ?thesis by (simp add: metadata_of_def url_member_def oget_without)
qed

lemma input_parse_wf:
  assumes "createVerifierMetadataInput_parse X ob = Inr m"
    and "\<And>s u. zod_url X s = Some u \<Longrightarrow> zod_url X u = Some u"
  shows "metadata_wf X m"
proof -
  have ok: "metadata_ok X ob" and m: "m = (metadata_of X ob)\<lparr>vm_jwks := None\<rparr>"
    using assms(1) by (simp_all add: createVerifierMetadataInput_parse_def metadata_of_without split: if_splits)
  obtain fs where fs: "oget ob ''vp_formats_supported'' = Some (JObj fs)" "vp_formats_ok (JObj fs)"
    using ok by (auto simp: metadata_ok_def req_ok_def vp_formats_ok_def split: option.splits jsval.splits)
  have "vp_formats_ok (JObj (vp_formats_value (JObj fs)))" by (rule vp_formats_ok_value [OF fs(2)])
  moreover have "vp_formats_value (JObj (vp_formats_value (JObj fs))) = vp_formats_value (JObj fs)"
    by (rule vp_formats_value_idem)
  moreover have u: "zod_url X u = Some u" if "url_member X ob k = Some u" for k u
    using url_member_idem [of X ob k u] that assms(2) by blast
  ultimately show ?thesis
    using ok unfolding metadata_wf_def m
    by (simp add: metadata_of_def fs(1) metadata_ok_def)
      (metis str_enum str_of_Some strings_ne u)
qed

end
