(* ===== verification/Dynamo_Stores.thy ===== *)
theory Dynamo_Stores
  imports Dynamo_Tables Nonce_Store Jti_Stores Stores Verifier_Requests
begin

text \<open>
  The other DynamoDB stores with a life time (\<open>aws/src/providers/dynamodb-*.provider.ts\<close>):
  nonces, used JWT identifiers, allowed credential configurations, request objects and
  transactions, and the store of verifier metadata. \<open>sha\<close> and \<open>md5\<close> are SHA-256 and MD5 in
  hexadecimal, parameters.
\<close>

subsection \<open>Life times\<close>

text \<open>\<open>Math.ceil(expires_at / 1000)\<close>.\<close>

fun ceil_sec :: "jsnum \<Rightarrow> jsnum" where
  "ceil_sec (Fin a) = Fin (of_int \<lceil>a / 1000\<rceil>)"
| "ceil_sec x = x"

text \<open>\<open>typeof expires_at !== 'number' || Date.now() > expires_at\<close>.\<close>

definition if_expired :: "obj \<Rightarrow> 'a dynamo_program \<Rightarrow> 'a dynamo_program \<Rightarrow> 'a dynamo_program" where
  "if_expired item yes no =
     (case num_attr item ''expires_at'' of
        None \<Rightarrow> yes
      | Some e \<Rightarrow> clock (\<lambda>now. if num_lt e (num_int now) then yes else no))"

subsection \<open>Nonces\<close>

definition nonce_json :: "nonce_rec \<Rightarrow> jsval" where
  "nonce_json n = JObj ((''nonce'', JStr (nonce n)) # opt_member ''nonce_expires_in'' (map_option JNum (nonce_expires_in n)))"

definition dynamo_nonce_item :: "nonce_rec \<Rightarrow> jsnum \<Rightarrow> obj" where
  "dynamo_nonce_item n expires_at =
     [(''id'', JStr (nonce n)), (''nonce'', nonce_json n), (''expires_at'', JNum expires_at), (''ttl'', JNum (ceil_sec expires_at))]"

definition dynamo_nonce_save :: "nonce_rec \<Rightarrow> unit dynamo_program" where
  "dynamo_nonce_save n =
     (case nonce_expires_in n of
        None \<Rightarrow> throwP (JsError ''nonce_expires_in is required when saving nonce'')
      | Some ttlMs \<Rightarrow>
          if \<not> num_finite ttlMs then throwP (JsError ''nonce_expires_in must be a finite number when saving nonce'')
          else clock (\<lambda>now.
            request_catch (PutItem (nonce n) (dynamo_nonce_item n (num_add (num_int now) ttlMs))) throwP (\<lambda>_. retP ())))"

definition dynamo_nonce_validate :: "nonce_rec \<Rightarrow> bool dynamo_program" where
  "dynamo_nonce_validate n =
     request_catch (GetItem (nonce n) False) throwP (\<lambda>found.
       case found of
         None \<Rightarrow> retP False
       | Some item \<Rightarrow>
           if_expired item (request_catch (DeleteItem (nonce n)) throwP (\<lambda>_. retP False)) (retP True))"

definition dynamo_nonce_revoke :: "nonce_rec \<Rightarrow> bool dynamo_program" where
  "dynamo_nonce_revoke n = request_catch (TakeItem (nonce n)) throwP (\<lambda>attributes. retP (attributes \<noteq> None))"

definition dynamo_nonce_consume :: "nonce_rec \<Rightarrow> bool dynamo_program" where
  "dynamo_nonce_consume n =
     request_catch (TakeItem (nonce n)) throwP (\<lambda>attributes.
       case attributes of None \<Rightarrow> retP False | Some item \<Rightarrow> if_expired item (retP False) (retP True))"

subsection \<open>JWT identifiers\<close>

text \<open>The part that both stores share; the two differ in the key, the default life time and the item.\<close>

definition dynamo_use ::
  "string \<Rightarrow> jsnum \<Rightarrow> string \<Rightarrow> obj \<Rightarrow> bool dynamo_program" where
  "dynamo_use message ttlMs key extra =
     (if \<not> num_finite ttlMs then throwP (JsError message)
      else clock (\<lambda>now.
        let expires_at = num_add (num_int now) ttlMs in
        request_catch
          (PutUnlessHeld key ((''id'', JStr key) # extra @
            [(''expires_at'', JNum expires_at), (''created_at'', JNum (num_int now)), (''ttl'', JNum (ceil_sec expires_at))]) now)
          (\<lambda>e. if e = conditional_failed then retP False else throwP e)
          (\<lambda>_. retP True)))"

definition dynamo_dpop_saveIfAbsent ::
  "(string \<Rightarrow> string) \<Rightarrow> jsnum option \<Rightarrow> string \<Rightarrow> string \<Rightarrow> jsnum option \<Rightarrow> bool dynamo_program" where
  "dynamo_dpop_saveIfAbsent sha expiresIn thumbprint jti ttlMs =
     dynamo_use ''ttlMs must be a finite number when saving DPoP proof jti''
       (getOr (getOr DEFAULT_DPOP_PROOF_JTI_TTL_MS expiresIn) ttlMs)
       (sha (dpop_jti_key thumbprint jti))
       [(''jwk_thumbprint'', JStr thumbprint), (''jti'', JStr jti)]"

definition dynamo_oauth_saveIfAbsent ::
  "(string \<Rightarrow> string) \<Rightarrow> jsnum option \<Rightarrow> string \<Rightarrow> string \<Rightarrow> jsnum option \<Rightarrow> bool dynamo_program" where
  "dynamo_oauth_saveIfAbsent sha expiresIn clientId jti ttlMs =
     dynamo_use ''ttlMs must be a finite number when saving OAuth client assertion jti''
       (getOr (getOr DEFAULT_OAUTH_CLIENT_ASSERTION_JTI_TTL_MS expiresIn) ttlMs)
       (sha (oauth_jti_key clientId jti))
       [(''client_id'', JStr clientId), (''jti'', JStr jti)]"

subsection \<open>Allowed credential configurations\<close>

definition dynamo_allowed_save ::
  "jsnum option \<Rightarrow> string \<Rightarrow> string list \<Rightarrow> jsnum option \<Rightarrow> unit dynamo_program" where
  "dynamo_allowed_save expiresIn accessTokenHash ids ttl =
     clock (\<lambda>now.
       let expires_at = now + ttl_sec (Some (getOr (getOr (Fin 300) expiresIn) ttl)) * 1000 in
       request_catch
         (PutItem accessTokenHash
            [(''id'', JStr accessTokenHash), (''credential_configuration_ids'', JStrs ids),
             (''expires_at'', JNum (num_int expires_at)), (''ttl'', JNum (ceil_sec (num_int expires_at))),
             (''created_at'', JNum (num_int now))])
         throwP (\<lambda>_. retP ()))"

definition dynamo_allowed_delete :: "string \<Rightarrow> unit dynamo_program" where
  "dynamo_allowed_delete accessTokenHash = request_catch (DeleteItem accessTokenHash) throwP (\<lambda>_. retP ())"

definition dynamo_allowed_fetch :: "string \<Rightarrow> jsval option dynamo_program" where
  "dynamo_allowed_fetch accessTokenHash =
     request_catch (GetItem accessTokenHash True) throwP (\<lambda>found.
       case found of
         None \<Rightarrow> retP None
       | Some item \<Rightarrow>
           if_expired item
             (request_catch (DeleteItem accessTokenHash) throwP (\<lambda>_. retP None))
             (retP (oget item ''credential_configuration_ids'')))"

subsection \<open>Request objects\<close>

definition dynamo_life :: "jsnum option \<Rightarrow> jsnum" where
  "dynamo_life expiresIn = (let e = getOr (Fin 300000) expiresIn in if num_finite e then e else Fin 300000)"

definition dynamo_request_save :: "jsnum option \<Rightarrow> string \<Rightarrow> jsval \<Rightarrow> unit dynamo_program" where
  "dynamo_request_save expiresIn k requestObject =
     clock (\<lambda>now.
       let expires_at = num_add (num_int now) (dynamo_life expiresIn) in
       request_catch
         (PutItem k [(''id'', JStr k), (''requestObject'', requestObject), (''expires_at'', JNum expires_at),
            (''ttl'', JNum (ceil_sec expires_at))])
         throwP (\<lambda>_. retP ()))"

definition dynamo_request_fetch :: "string \<Rightarrow> jsval option dynamo_program" where
  "dynamo_request_fetch k =
     request_catch (GetItem k False) throwP (\<lambda>found.
       case found of
         None \<Rightarrow> retP None
       | Some item \<Rightarrow> if_expired item (retP None) (retP (oget item ''requestObject'')))"

definition dynamo_request_delete :: "string \<Rightarrow> unit dynamo_program" where
  "dynamo_request_delete k = request_catch (DeleteItem k) throwP (\<lambda>_. retP ())"

subsection \<open>Transactions\<close>

definition dynamo_transaction_item :: "string \<Rightarrow> TransactionRecord \<Rightarrow> jsnum \<Rightarrow> obj" where
  "dynamo_transaction_item transactionId r expires_at =
     [(''id'', JStr transactionId), (''dcqlQuery'', JObj [(''dcql_query'', dq_json (tr_dcqlQuery r))]),
      (''clientId'', JStr (tr_clientId r)), (''verifierId'', JStr (tr_verifierId r))] @
     opt_member ''state'' (map_option JStr (tr_state r)) @
     [(''nonce'', JStr (tr_nonce r)), (''expires_at'', JNum expires_at), (''ttl'', JNum (ceil_sec expires_at))]"

definition dynamo_transaction_save :: "jsnum option \<Rightarrow> string \<Rightarrow> TransactionRecord \<Rightarrow> unit dynamo_program" where
  "dynamo_transaction_save expiresIn transactionId r =
     clock (\<lambda>now.
       request_catch
         (PutItem transactionId (dynamo_transaction_item transactionId r (num_add (num_int now) (dynamo_life expiresIn))))
         throwP (\<lambda>_. retP ()))"

text \<open>The schema of a transaction on the members of an item; the query is read by the DCQL library.\<close>

definition transaction_of_item :: "ext \<Rightarrow> vlib \<Rightarrow> string \<Rightarrow> jsnum \<Rightarrow> obj \<Rightarrow> exn + Transaction" where
  "transaction_of_item X V transactionId expires_at item =
     (case (oget item ''dcqlQuery'', str_of (oget item ''clientId''), str_of (oget item ''verifierId''),
            str_of (oget item ''nonce'')) of
        (Some (JObj q), Some c, Some v, Some n) \<Rightarrow>
          (case (dcql_parse V (oget q ''dcql_query''), ClientIdentifier_parse c, zod_url X v) of
             (Inr query, Inr c', Some v') \<Rightarrow>
               if opt_ok is_str item ''state'' then
                 Inr \<lparr>transaction_id = transactionId,
                      tx_dcqlQuery = query\<lparr>dq_json := getOr JNull (oget q ''dcql_query'')\<rparr>,
                      transaction_data_expires_at = expires_at, tx_clientId = c', tx_verifierId = v',
                      tx_state = str_of (oget item ''state''), tx_nonce = n\<rparr>
               else Inl zod_error
           | _ \<Rightarrow> Inl zod_error)
      | _ \<Rightarrow> Inl zod_error)"

text \<open>The delete is conditional on the item still being expired; its failure is ignored.\<close>

definition dynamo_transaction_drop :: "string \<Rightarrow> Transaction option dynamo_program" where
  "dynamo_transaction_drop transactionId =
     clock (\<lambda>now. request_catch (DeleteExpired transactionId now) (\<lambda>e. retP None) (\<lambda>_. retP None))"

definition dynamo_transaction_fetch :: "ext \<Rightarrow> vlib \<Rightarrow> string \<Rightarrow> Transaction option dynamo_program" where
  "dynamo_transaction_fetch X V transactionId =
     request_catch (GetItem transactionId True) throwP (\<lambda>found.
       case found of
         None \<Rightarrow> retP None
       | Some item \<Rightarrow>
           if_expired item (dynamo_transaction_drop transactionId)
             (case transaction_of_item X V transactionId (getOr NaN (num_attr item ''expires_at'')) item of
                Inl e \<Rightarrow> throwP e
              | Inr t \<Rightarrow> retP (Some t)))"

definition dynamo_transaction_delete :: "string \<Rightarrow> unit dynamo_program" where
  "dynamo_transaction_delete transactionId = request_catch (DeleteItem transactionId) throwP (\<lambda>_. retP ())"

subsection \<open>Verifier metadata\<close>

definition dynamo_verifier_metadata_save :: "(string \<Rightarrow> string) \<Rightarrow> string \<Rightarrow> VerifierMetadata \<Rightarrow> unit dynamo_program" where
  "dynamo_verifier_metadata_save md5 verifier metadata =
     request_catch (PutItem (md5 verifier) ((''id'', JStr (md5 verifier)) # metadata_json metadata)) throwP (\<lambda>_. retP ())"

definition dynamo_verifier_metadata_fetch ::
  "ext \<Rightarrow> (string \<Rightarrow> string) \<Rightarrow> string \<Rightarrow> VerifierMetadata option dynamo_program" where
  "dynamo_verifier_metadata_fetch X md5 verifier =
     request_catch (GetItem (md5 verifier) False) throwP (\<lambda>found.
       case found of
         None \<Rightarrow> retP None
       | Some item \<Rightarrow>
           (case VerifierMetadata_parse X (filter (\<lambda>(k, v). k \<noteq> ''id'') item) of
              Inl e \<Rightarrow> throwP e
            | Inr metadata \<Rightarrow> retP (Some metadata)))"

end
