(* ===== verification/Verifier_Registration.thy ===== *)
theory Verifier_Registration
  imports Verifier_Requests
begin

text \<open>
  The registration of a verifier: what the metadata store may hold, and which keys a
  registration leaves behind.
\<close>

subsection \<open>Every stored metadata record satisfies the schema\<close>

definition metadata_valid :: "ext \<Rightarrow> world \<Rightarrow> bool" where
  "metadata_valid X w \<longleftrightarrow>
     (\<forall>v m. w_verifier_metadata w v = Some m \<longrightarrow> VerifierMetadata_parse X (metadata_json m) = Inr m)"

text \<open>The algorithms that a registration uses.\<close>

definition signing_alg :: "CreateVerifierMetadataOptions option \<Rightarrow> string" where
  "signing_alg options = (case options of None \<Rightarrow> ''ES256'' | Some v \<Rightarrow> if cv_alg v = [] then ''ES256'' else cv_alg v)"

definition encryption_alg :: "CreateVerifierMetadataOptions option \<Rightarrow> string" where
  "encryption_alg options = getOr ''RSA-OAEP-256'' (case options of None \<Rightarrow> None | Some v \<Rightarrow> cv_encryptionKeyAlg v)"

definition public_jwk :: "obj \<Rightarrow> bool" where
  "public_jwk jwk \<longleftrightarrow>
     oget jwk ''kty'' \<noteq> Some (JStr ''oct'') \<and>
     (\<forall>k \<in> {''d'', ''k'', ''p'', ''q'', ''dp'', ''dq'', ''qi'', ''oth'', ''priv''}. \<not> ohas jwk k)"

lemma assert_public: "assertAsymmetricPublicJwk jwk = Inr u \<longleftrightarrow> public_jwk jwk"
  by (simp add: assertAsymmetricPublicJwk_def public_jwk_def)

subsection \<open>The steps of a registration\<close>

lemma save_verifier_key_Inr:
  assumes "save_verifier_key X v a pair w = (Inr u, w')"
  shows "(\<exists>e entry. pair_to_save a pair (default_generated (\<lambda>alg. verifier_key_generate X alg e) a) = Inr entry \<and>
      find_key (w_verifier_keys w') v (JStr a) = Some entry) \<and>
    (\<forall>v'. v' \<noteq> v \<longrightarrow> w_verifier_keys w' v' = w_verifier_keys w v')"
proof -
  let ?g = "default_generated (\<lambda>alg. verifier_key_generate X alg (w_rnd w 0)) a"
  obtain entry where e: "pair_to_save a pair ?g = Inr entry"
    "w_verifier_keys w' = snd (key_save v a pair ?g (w_verifier_keys w))"
    using assms
    by (cases "pair_to_save a pair ?g")
      (auto simp: save_verifier_key_def run_simps on_verifier_keys_def verifier_key_save_def key_save_def Let_def)
  have "w_verifier_keys w' v' = w_verifier_keys w v'" if "v' \<noteq> v" for v'
    using that e by (simp add: key_save_def)
  then show ?thesis using e find_key_save_same [OF e(1)] by metis
qed

lemma preserves_save_verifier_key [preserves_intros]:
  "(\<And>w c. p (w\<lparr>w_rnd := c\<rparr>) = p w) \<Longrightarrow> (\<And>s w. p (w_verifier_keys_update (\<lambda>_. s) w) = p w) \<Longrightarrow>
     preserves p (save_verifier_key X v a pair)"
  unfolding save_verifier_key_def by (intro preserves_intros)

lemma preserves_provided_keys [preserves_intros]:
  "(\<And>w c. p (w\<lparr>w_clk := c\<rparr>) = p w) \<Longrightarrow> (\<And>w c. p (w\<lparr>w_rnd := c\<rparr>) = p w) \<Longrightarrow>
     (\<And>s w. p (w_verifier_keys_update (\<lambda>_. s) w) = p w) \<Longrightarrow> preserves p (provided_keys X v options)"
  unfolding provided_keys_def by (intro preserves_intros)

text \<open>The encryption key that a registration publishes.\<close>

definition enc_jwk :: "ext \<Rightarrow> string \<Rightarrow> string \<Rightarrow> string \<Rightarrow> obj" where
  "enc_jwk X a e kid =
     oset (oset (oset (fst (generateKeyPair X a e)) ''alg'' (JStr a)) ''kid'' (JStr kid)) ''use'' (JStr ''enc'')"

lemma enc_key_saved:
  assumes "verifier_enc_key_save X e v a st = (Inr u, st')" and "verifier_enc_key_fetch v a st' = (Inr pk, st'')"
  shows "st'' = st' \<and> (\<exists>kid entry. pk = Some (enc_jwk X a e kid) \<and> entry \<in> set (getOr [] (st' v)) \<and>
      enc_declaredAlg entry = a \<and> enc_publicKey entry = enc_jwk X a e kid) \<and>
    (\<forall>v'. v' \<noteq> v \<longrightarrow> st' v' = st v')"
proof -
  obtain pub priv where g: "generateKeyPair X a e = (pub, priv)" by fastforce
  obtain kid where k: "a = ''RSA-OAEP-256''" "calculateJwkThumbprint X pub = Inr kid"
    "st' = st(v \<mapsto> filter (\<lambda>c. enc_declaredAlg c \<noteq> a) (getOr [] (st v)) @
       [\<lparr>enc_publicKey = enc_jwk X a e kid, enc_privateKey = oset priv ''alg'' (JStr a), enc_declaredAlg = a\<rparr>])"
    using assms(1) g
    by (cases "calculateJwkThumbprint X pub")
      (auto simp: verifier_enc_key_save_def verifier_enc_key_generate_def selectProvider_def key_generator_canHandle_def
        enc_jwk_def Let_def split: if_splits)
  have pk: "pk = Some (enc_jwk X a e kid)" "st'' = st'"
    using assms(2) by (simp_all add: k(3) verifier_enc_key_fetch_def find_append find_filter_disjoint)
  then show ?thesis
    by (intro conjI exI [of _ kid] exI [of _ "\<lparr>enc_publicKey = enc_jwk X a e kid,
        enc_privateKey = oset priv ''alg'' (JStr a), enc_declaredAlg = a\<rparr>"]) (simp_all add: k(3))
qed


text \<open>The keys that the caller gives are checked before anything of the caller's is saved.\<close>

lemma check_public_key_Inr:
  "check_public_key X fmt (Jwk jwk) a = Inr u \<Longrightarrow> public_jwk jwk"
  by (auto simp: check_public_key_def split: key_format.splits sum.splits dest: assert_public [THEN iffD1])

lemma provided_keys_Inr:
  assumes "provided_keys X v options w = (Inr (a, pair, certs), w')"
  shows "a = signing_alg options \<and>
    (pair = None \<longrightarrow>
       (\<exists>entry. find_key (w_verifier_keys w') v (JStr a) = Some entry \<and> declaredAlg entry = a) \<or>
       (\<exists>opts. options = Some opts \<and> cv_publicKey opts = None \<and> cv_certificate opts = None \<and> w' = w)) \<and>
    (\<forall>p. pair = Some p \<longrightarrow> declaredAlg p = a \<and> (\<forall>jwk. publicKey p = Some (Jwk jwk) \<longrightarrow> public_jwk jwk)) \<and>
    (\<forall>v'. v' \<noteq> v \<longrightarrow> w_verifier_keys w' v' = w_verifier_keys w v')"
proof -
  have gen: ?thesis
    if s: "save_verifier_key X v ''ES256'' None w = (Inr u, w')" and a: "a = ''ES256''" "pair = None" "signing_alg options = ''ES256''" for u
  proof -
    obtain e entry where "pair_to_save ''ES256'' None e = Inr entry"
      "find_key (w_verifier_keys w') v (JStr ''ES256'') = Some entry"
      using save_verifier_key_Inr [OF s] by blast
    then show ?thesis using a save_verifier_key_Inr [OF s] pair_to_save_alg by auto
  qed
  show ?thesis
  proof (cases options)
    case None
    then show ?thesis using assms gen by (auto simp: provided_keys_def thenM_Inr ret_Inr signing_alg_def)
  next
    case (Some opts)
    show ?thesis
    proof (cases "cv_alg opts = []")
      case True
      then show ?thesis using assms gen Some by (auto simp: provided_keys_def thenM_Inr ret_Inr signing_alg_def)
    next
      case False
      have same: "w_verifier_keys w' = w_verifier_keys w"
        using assms False Some preserves_certificate_validate [of w_verifier_keys X, THEN preservesD]
        by (auto simp: provided_keys_def thenM_Inr bindM_Inr ret_Inr liftE_Inr raise_Inr Let_def
            split: option.splits if_splits)
      show ?thesis
        using assms False Some same
        by (auto simp: provided_keys_def thenM_Inr bindM_Inr ret_Inr liftE_Inr raise_Inr Let_def signing_alg_def
            dest: check_public_key_Inr split: option.splits if_splits)
    qed
  qed
qed

text \<open>The metadata that is stored: the input, with the default encryption dropped and the generated key.\<close>

definition stored_metadata :: "VerifierMetadata \<Rightarrow> obj \<Rightarrow> VerifierMetadata" where
  "stored_metadata m jwk = (default_encryption m)\<lparr>vm_jwks := Some [JObj jwk]\<rparr>"

lemma encryption_key_Inr:
  assumes "encryption_key X v a w = (Inr jwk, w')"
  shows "\<exists>e kid. jwk = enc_jwk X a e kid \<and>
    (\<exists>entry \<in> set (getOr [] (w_enc_keys w' v)). enc_declaredAlg entry = a \<and> enc_publicKey entry = jwk) \<and>
    (\<forall>v'. v' \<noteq> v \<longrightarrow> w_enc_keys w' v' = w_enc_keys w v')"
proof -
  obtain st st' where s: "verifier_enc_key_save X (w_rnd w 0) v a (w_enc_keys w) = (Inr (), st)"
    "verifier_enc_key_fetch v a st = (Inr (Some jwk), st')" "w_enc_keys w' = st'"
    using assms
    by (auto simp: encryption_key_def bindM_Inr thenM_Inr fresh_Inr on_enc_keys_def zoom_Inr raise_Inr ret_Inr
        split: option.splits)
  from enc_key_saved [OF s(1,2)] s(3) show ?thesis by auto
qed

lemma preserves_encryption_key [preserves_intros]:
  "(\<And>w c. p (w\<lparr>w_rnd := c\<rparr>) = p w) \<Longrightarrow> (\<And>s w. p (w_enc_keys_update (\<lambda>_. s) w) = p w) \<Longrightarrow>
     preserves p (encryption_key X v a)"
  unfolding encryption_key_def by (intro preserves_intros)

lemma save_registration_Inr:
  assumes "save_registration X v a pair certs m w = (Inr u, w')"
  shows "w_verifier_metadata w' = (w_verifier_metadata w)(v \<mapsto> m) \<and> w_enc_keys w' = w_enc_keys w \<and>
    (\<forall>v'. v' \<noteq> v \<longrightarrow> w_verifier_keys w' v' = w_verifier_keys w v') \<and>
    (pair = None \<longrightarrow> w_verifier_keys w' = w_verifier_keys w) \<and>
    (\<forall>p. pair = Some p \<longrightarrow> find_key (w_verifier_keys w') v (JStr a) = Some p)"
proof -
  obtain w1 w2 where
    c: "(case certs of None \<Rightarrow> ret () | Some c \<Rightarrow> on_certificates (certificate_save v c)) w = (Inr (), w1)"
    and p: "(case pair of None \<Rightarrow> ret () | Some p \<Rightarrow> save_verifier_key X v a (Some p)) w1 = (Inr (), w2)"
    and s: "on_verifier_metadata (verifier_metadata_save v m) w2 = (Inr u, w')"
    using assms by (auto simp: save_registration_def thenM_Inr)
  have c: "w_verifier_metadata w1 = w_verifier_metadata w" "w_enc_keys w1 = w_enc_keys w" "w_verifier_keys w1 = w_verifier_keys w"
    using c by (auto simp: on_certificates_def zoom_Inr ret_Inr split: option.splits)
  have s: "w_verifier_metadata w' = (w_verifier_metadata w2)(v \<mapsto> m)" "w_enc_keys w' = w_enc_keys w2"
    "w_verifier_keys w' = w_verifier_keys w2"
    using s by (auto simp: on_verifier_metadata_def zoom_Inr verifier_metadata_save_def)
  show ?thesis
  proof (cases pair)
    case None
    then show ?thesis using c p s by (simp add: ret_Inr)
  next
    case (Some q)
    then have q: "save_verifier_key X v a (Some q) w1 = (Inr (), w2)" using p by simp
    have "w_enc_keys w2 = w_enc_keys w1" "w_verifier_metadata w2 = w_verifier_metadata w1"
      using preservesD [OF preserves_save_verifier_key q, of w_enc_keys]
        preservesD [OF preserves_save_verifier_key q, of w_verifier_metadata] by simp_all
    moreover have "\<exists>g. pair_to_save a (Some q) g = Inr r \<Longrightarrow> r = q" for r
      by (auto simp: pair_to_save_def split: if_splits)
    ultimately show ?thesis using Some c s save_verifier_key_Inr [OF q] by auto
  qed
qed

lemma createVerifierMetadata_Inr:
  assumes "createVerifierMetadata X v ob options w = (Inr u, w')"
  shows "\<exists>m a pair certs w1 jwk w2.
    createVerifierMetadataInput_parse X ob = Inr m \<and> w_verifier_metadata w v = None \<and>
    provided_keys X v options w = (Inr (a, pair, certs), w1) \<and>
    encryption_key X v (encryption_alg options) w1 = (Inr jwk, w2) \<and>
    save_registration X v a pair certs (stored_metadata m jwk) w2 = (Inr (), w')"
  using assms
  by (auto simp: createVerifierMetadata_def bindM_Inr liftE_Inr raise_Inr if_Inr encryption_alg_def stored_metadata_def
      on_verifier_metadata_def zoom_Inr verifier_metadata_fetch_def split: if_splits)

lemma createVerifierMetadata_error:
  assumes "createVerifierMetadata X v ob options w = (Inl e, w')"
  shows "w_verifier_metadata w' = w_verifier_metadata w"
proof -
  let ?I = "\<lambda>u. w_verifier_metadata u = w_verifier_metadata w"
  have k: "keeps ?I m" if "preserves w_verifier_metadata m" for m :: "(world, 'a) M"
    using that by (simp add: preserves_keeps)
  have fetch: "keeps ?I (on_verifier_metadata (verifier_metadata_fetch v))"
    by (simp add: keeps_def run_simps on_verifier_metadata_def verifier_metadata_fetch_def)
  have last: "keeps_error ?I (on_verifier_metadata (verifier_metadata_save v m))" for m
    by (simp add: keeps_error_def run_simps on_verifier_metadata_def verifier_metadata_save_def)
  have save: "keeps_error ?I (save_registration X v a pair certs m)" for a pair certs m
    unfolding save_registration_def thenM_def
    by (intro keeps_error_bindM last k preserves_intros; simp)
  have "keeps_error ?I (createVerifierMetadata X v ob options)"
    unfolding createVerifierMetadata_def case_prod_beta
    by (intro keeps_error_intros fetch save k preserves_intros; simp)
  then show ?thesis unfolding keeps_error_def using assms by blast
qed


subsection \<open>The properties\<close>

text \<open>What the key generator returns is a public JWK: the members of the schema are strings.\<close>

definition generates_jwks :: "ext \<Rightarrow> bool" where
  "generates_jwks X \<longleftrightarrow>
     (\<forall>a e. list_all (opt_ok is_str (fst (generateKeyPair X a e))) [''e'', ''n'', ''kty'', ''x'', ''y'', ''crv''])"

lemma enc_jwk_ok:
  assumes "generates_jwks X"
  shows "metadata_jwk_ok (JObj (enc_jwk X a e kid))"
  using assms
  by (simp add: metadata_jwk_ok_def enc_jwk_def generates_jwks_def opt_ok_def req_ok_def)

lemma stored_metadata_wf:
  "metadata_wf X m \<Longrightarrow> metadata_jwk_ok (JObj jwk) \<Longrightarrow> metadata_wf X (stored_metadata m jwk)"
  by (simp add: metadata_wf_def stored_metadata_def default_encryption_def)

text \<open>C40. A registration, whatever its outcome, leaves only metadata in the store that the schema accepts
  and reads back as the same record: the store never holds an invalid verifier. The URL
  schema is assumed to leave a URL that it has returned as it is.\<close>

theorem registered_metadata_valid:
  assumes "metadata_valid X w" and "generates_jwks X"
    and "\<And>s u. zod_url X s = Some u \<Longrightarrow> zod_url X u = Some u"
  shows "metadata_valid X (snd (createVerifierMetadata X v ob options w))"
proof (cases "createVerifierMetadata X v ob options w")
  case (Pair r w')
  show ?thesis
  proof (cases r)
    case (Inl e)
    then show ?thesis using createVerifierMetadata_error Pair assms(1) by (simp add: metadata_valid_def)
  next
    case (Inr u)
    then obtain m a pair certs w1 jwk w2 where r: "createVerifierMetadataInput_parse X ob = Inr m"
      "provided_keys X v options w = (Inr (a, pair, certs), w1)"
      "encryption_key X v (encryption_alg options) w1 = (Inr jwk, w2)"
      "save_registration X v a pair certs (stored_metadata m jwk) w2 = (Inr (), w')"
      using createVerifierMetadata_Inr [OF Pair [unfolded Inr]] by blast
    have "metadata_wf X m" using input_parse_wf [OF r(1)] assms(3) by blast
    then have "metadata_wf X (stored_metadata m jwk)"
      using encryption_key_Inr [OF r(3)] enc_jwk_ok [OF assms(2)] by (metis stored_metadata_wf)
    then have "VerifierMetadata_parse X (metadata_json (stored_metadata m jwk)) = Inr (stored_metadata m jwk)"
      by (rule metadata_wf_parse)
    moreover have "w_verifier_metadata w2 = w_verifier_metadata w"
      using preservesD [OF preserves_provided_keys r(2), of w_verifier_metadata]
        preservesD [OF preserves_encryption_key r(3), of w_verifier_metadata] by simp
    ultimately show ?thesis
      using save_registration_Inr [OF r(4)] assms(1) Pair by (simp add: metadata_valid_def)
  qed
qed

text \<open>A registration that returns is the first of its verifier. It stores the parsed metadata with one
  key, marked for encryption, whose private half is in the verifier's key store; a signing
  key for the chosen algorithm is then found under the verifier, unless the caller named an
  algorithm without any key; a JWK the caller gave has no private members. No key of
  another verifier changes.\<close>

theorem verifier_registered:
  assumes "createVerifierMetadata X v ob options w = (Inr u, w')"
  shows "w_verifier_metadata w v = None \<and>
    (\<exists>m jwk. createVerifierMetadataInput_parse X ob = Inr m \<and>
       w_verifier_metadata w' = (w_verifier_metadata w)(v \<mapsto> (default_encryption m)\<lparr>vm_jwks := Some [JObj jwk]\<rparr>) \<and>
       oget jwk ''use'' = Some (JStr ''enc'') \<and> oget jwk ''alg'' = Some (JStr (encryption_alg options)) \<and>
       (\<exists>entry \<in> set (getOr [] (w_enc_keys w' v)).
          enc_declaredAlg entry = encryption_alg options \<and> enc_publicKey entry = jwk)) \<and>
    ((\<exists>entry. find_key (w_verifier_keys w') v (JStr (signing_alg options)) = Some entry \<and>
        (\<forall>opts jwk. options = Some opts \<and> cv_alg opts \<noteq> [] \<and> publicKey entry = Some (Jwk jwk) \<longrightarrow> public_jwk jwk)) \<or>
     (\<exists>opts. options = Some opts \<and> cv_publicKey opts = None \<and> cv_certificate opts = None)) \<and>
    (\<forall>v'. v' \<noteq> v \<longrightarrow> w_verifier_keys w' v' = w_verifier_keys w v' \<and> w_enc_keys w' v' = w_enc_keys w v')"
proof -
  obtain m a pair certs w1 jwk w2 where r: "createVerifierMetadataInput_parse X ob = Inr m" "w_verifier_metadata w v = None"
    "provided_keys X v options w = (Inr (a, pair, certs), w1)"
    "encryption_key X v (encryption_alg options) w1 = (Inr jwk, w2)"
    "save_registration X v a pair certs (stored_metadata m jwk) w2 = (Inr (), w')"
    using createVerifierMetadata_Inr [OF assms] by blast
  have same: "w_verifier_metadata w2 = w_verifier_metadata w" "w_enc_keys w1 = w_enc_keys w" "w_verifier_keys w2 = w_verifier_keys w1"
    using preservesD [OF preserves_provided_keys r(3), of w_verifier_metadata] preservesD [OF preserves_provided_keys r(3), of w_enc_keys]
      preservesD [OF preserves_encryption_key r(4), of w_verifier_metadata] preservesD [OF preserves_encryption_key r(4), of w_verifier_keys]
    by simp_all
  note s = save_registration_Inr [OF r(5)] and p = provided_keys_Inr [OF r(3)] and e = encryption_key_Inr [OF r(4)]
  have jwk: "oget jwk ''use'' = Some (JStr ''enc'')" "oget jwk ''alg'' = Some (JStr (encryption_alg options))"
    using e by (auto simp: enc_jwk_def)
  have key: "(\<exists>entry. find_key (w_verifier_keys w') v (JStr (signing_alg options)) = Some entry \<and>
        (\<forall>opts jwk. options = Some opts \<and> cv_alg opts \<noteq> [] \<and> publicKey entry = Some (Jwk jwk) \<longrightarrow> public_jwk jwk)) \<or>
     (\<exists>opts. options = Some opts \<and> cv_publicKey opts = None \<and> cv_certificate opts = None)"
  proof (cases pair)
    case (Some q)
    then show ?thesis using s p by auto
  next
    case None
    have "\<not> (options = Some opts \<and> cv_alg opts \<noteq> [])" if "cv_publicKey opts \<noteq> None \<or> cv_certificate opts \<noteq> None" for opts
      using r(3) None that
      by (auto simp: provided_keys_def thenM_Inr bindM_Inr ret_Inr raise_Inr liftE_Inr Let_def split: option.splits if_splits)
    then show ?thesis using s p same None by (metis option.distinct(1))
  qed
  have keys: "\<exists>entry \<in> set (getOr [] (w_enc_keys w' v)). enc_declaredAlg entry = encryption_alg options \<and> enc_publicKey entry = jwk"
    using s e by auto
  have others: "\<forall>v'. v' \<noteq> v \<longrightarrow> w_verifier_keys w' v' = w_verifier_keys w v' \<and> w_enc_keys w' v' = w_enc_keys w v'"
    using s e p same by auto
  have "w_verifier_metadata w' = (w_verifier_metadata w)(v \<mapsto> (default_encryption m)\<lparr>vm_jwks := Some [JObj jwk]\<rparr>)"
    using s same by (simp add: stored_metadata_def)
  with r(1) jwk keys have "\<exists>m jwk. createVerifierMetadataInput_parse X ob = Inr m \<and>
       w_verifier_metadata w' = (w_verifier_metadata w)(v \<mapsto> (default_encryption m)\<lparr>vm_jwks := Some [JObj jwk]\<rparr>) \<and>
       oget jwk ''use'' = Some (JStr ''enc'') \<and> oget jwk ''alg'' = Some (JStr (encryption_alg options)) \<and>
       (\<exists>entry \<in> set (getOr [] (w_enc_keys w' v)).
          enc_declaredAlg entry = encryption_alg options \<and> enc_publicKey entry = jwk)" by blast
  with r(2) key others show ?thesis by (intro conjI)
qed

end
