(* ===== verification/Verifier_Examples.thy ===== *)
theory Verifier_Examples
  imports Verifier_Registration
begin

text \<open>
  A verifier, a wallet and an issuer as concrete values: a registration, a request, a JWT
  presentation and an SD-JWT presentation that are accepted, and the properties of the
  verifier applied to them.
\<close>

subsection \<open>A verifier, a wallet and an issuer\<close>

definition sample_jwk :: obj where
  "sample_jwk = [(''kty'', JStr ''EC'')]"

definition sample_vc :: jsval where
  "sample_vc = JObj [(''@context'', JArr [JStr ''c'']), (''type'', JArr [JStr ''VerifiableCredential'']),
     (''issuer'', JStr ''https://i''), (''issuanceDate'', JStr ''2025''),
     (''credentialSubject'', JObj [(''id'', JStr ''did:key:z'')])]"

definition sample_ext :: ext where
  "sample_ext = ext0\<lparr>
     decode_json := (\<lambda>s. if s = ''good'' then Some (JObj [(''vc'', sample_vc)])
       else if s = ''junk'' then Some (JObj [(''vc'', JObj [])])
       else if s = ''kb'' then Some (JObj [(''typ'', JStr ''kb+jwt''), (''alg'', JStr ''ES256'')])
       else None),
     decodeJwt := (\<lambda>t. Inr [(''iat'', JNum (Fin 1)), (''aud'', JStr ''redirect_uri:c''), (''nonce'', JStr ''n1''),
       (''sd_hash'', JStr ''h'')]),
     resolveDid := (\<lambda>d. Inr (Some \<lparr>did_id = d, verificationMethod =
       Some [\<lparr>method_id = ''did:key:z#z'', publicKeyJwk = Some sample_jwk\<rparr>]\<rparr>))\<rparr>"

definition sample_vp :: "jsval list \<Rightarrow> decoded_jwt" where
  "sample_vp vcs = \<lparr>dj_header = [(''alg'', JStr ''ES256''), (''kid'', JStr ''did:key:z'')],
     dj_payload = JObj [(''aud'', JStr ''redirect_uri:c''), (''nonce'', JStr ''n1''),
       (''vp'', JObj [(''type'', JArr [JStr ''VerifiablePresentation'']), (''verifiableCredential'', JArr vcs)])]\<rparr>"

definition sample_query :: DcqlQuery where
  "sample_query = \<lparr>dq_credentials = [\<lparr>dc_id = ''q1'', dc_format = ''jwt_vc_json'', dc_claims = None\<rparr>],
     dq_credential_sets = None, dq_json = JObj [(''credentials'', JArr [])]\<rparr>"

definition sample_lib :: "jsval list \<Rightarrow> vlib" where
  "sample_lib vcs = vlib0\<lparr>jwt_decode := (\<lambda>t. Inr (Some (sample_vp vcs))), dcql_parse := (\<lambda>q. Inr sample_query),
     http_fetch := (\<lambda>c u. Inr \<lparr>http_ok = True, http_json = Some (JObj [(''issuer'', JStr ''https://i''),
       (''jwks'', JObj [(''keys'', JArr [JObj (sample_jwk @ [(''kid'', JStr ''k'')])])])])\<rparr>),
     sd_decode := (\<lambda>s. Inr \<lparr>dj_header = [(''typ'', JStr ''dc+sd-jwt''), (''alg'', JStr ''ES256''), (''kid'', JStr ''k'')],
       dj_payload = JObj [(''iss'', JStr ''https://i''), (''cnf'', JObj [(''jwk'', JObj sample_jwk)])]\<rparr>),
     sd_kb_jwt := (\<lambda>s. Some ''kb.p.s''),
     sd_verify := (\<lambda>now k kb s cs n. Inr (JObj [(''vct'', JStr ''v'')]))\<rparr>"

definition sample_options :: JwtVpOptions where
  "sample_options = \<lparr>jo_expectedAud = ''redirect_uri:c'', jo_expectedNonce = Some ''n1'', jo_allowedAlgs = Some [''ES256'']\<rparr>"

definition sample_sd_options :: SdJwtOptions where
  "sample_sd_options = \<lparr>so_specifiedDisclosures = None, so_isKbJwt = Some True, so_expectedAud = Some ''redirect_uri:c'',
     so_expectedNonce = Some ''n1'', so_expectedTransactionDataHashes = None, so_allowedSdJwtAlgs = None,
     so_allowedKbJwtAlgs = None\<rparr>"

definition sample_window :: SdJwtFactoryOptions where
  "sample_window = \<lparr>sf_maxTokenAgeSeconds = None, sf_clockToleranceSeconds = None\<rparr>"

definition sample_tokens :: "jsval list" where
  "sample_tokens = [JStr ''h.good.s'', JStr ''h.junk.s'']"

definition sample_metadata :: obj where
  "sample_metadata = [(''client_name'', JStr ''v''),
     (''vp_formats_supported'', JObj [(''jwt_vc_json'', JObj [(''alg_values'', JArr [JStr ''ES256''])])])]"

text \<open>The verifier after its registration and after a request, by reference.\<close>

definition sample_registered :: world where
  "sample_registered = snd (createVerifierMetadata sample_ext ''v'' sample_metadata None world0)"

definition sample_request_options :: CreateAuthzRequestOptions where
  "sample_request_options = \<lparr>ar_state = Some ''s1'', ar_scope = None, ar_response_uri = None,
     ar_base_url = Some ''https://v'', ar_request_uri = None, ar_transaction_data = None\<rparr>"

definition sample_request :: "world \<Rightarrow> (exn + CreateAuthzRequestResponse) \<times> world" where
  "sample_request = createAuthzRequest sample_ext (sample_lib sample_tokens) ''v'' ''vp_token'' ''redirect_uri:c'' ''direct_post''
     [(''dcql_query'', JObj [])] True sample_request_options"

lemma sample_jwt_vp_run:
  "returns (\<lambda>p. oget p ''vp'' = Some (JObj [(''type'', JArr [JStr ''VerifiablePresentation'']),
       (''verifiableCredential'', JArr sample_tokens)]))
     (verify_jwt_vp sample_ext (sample_lib sample_tokens) ''vp'' sample_options world0)"
  by code_simp

lemma sample_sd_jwt_run:
  "returns (\<lambda>p. p = [(''vct'', JStr ''v'')])
     (verify_sd_jwt sample_ext (sample_lib []) sample_window ''x~kb.p.s'' sample_sd_options world0)"
  by code_simp

lemma sample_registration_run:
  "returns (\<lambda>u. True) (createVerifierMetadata sample_ext ''v'' sample_metadata None world0)"
  by code_simp

lemma sample_request_run:
  "returns (\<lambda>r. cr_request r \<noteq> InlineDcqlFlow ro) (sample_request sample_registered)"
proof -
  have "returns (\<lambda>r. case cr_request r of RequestUriFlow c u \<Rightarrow> True | _ \<Rightarrow> False) (sample_request sample_registered)"
    by code_simp
  then show ?thesis
    by (auto simp: returns_def split: sum.splits AuthorizationRequest.splits)
qed

definition sample_world :: world where
  "sample_world = sample_registered\<lparr>
     w_transactions := [''t1'' \<mapsto> \<lparr>transaction_id = ''t1'', tx_dcqlQuery = sample_query,
       transaction_data_expires_at = Fin 300000, tx_clientId = ''redirect_uri:c'', tx_verifierId = ''v'',
       tx_state = Some ''s1'', tx_nonce = ''n1''\<rparr>],
     w_nonces := [''n1'' \<mapsto> \<lparr>ns_nonce = \<lparr>nonce = ''n1'', nonce_expires_in = Some (Fin 300000)\<rparr>,
       ns_expires_at = Fin 300000\<rparr>]\<rparr>"

definition sample_response :: "string \<Rightarrow> AuthorizationResponse" where
  "sample_response s = \<lparr>vp_token = [(''q1'', [VpString ''vp''])], resp_state = Some s\<rparr>"

lemma sample_verify_run:
  "returns (\<lambda>r. map fst r = [''q1''])
     (verifyPresentations sample_ext (sample_lib sample_tokens) sample_window (sample_response ''s1'') ''t1'' None sample_world)"
  by code_simp

lemma sample_refused_run:
  "(case fst (verifyPresentations sample_ext (sample_lib sample_tokens) sample_window (sample_response ''s2'') ''t1'' None
       sample_world) of Inl e \<Rightarrow> True | Inr r \<Rightarrow> False)"
  by code_simp

subsection \<open>The properties at these values\<close>

theorem jwt_vp_sound_witness:
  "\<exists>p w'. verify_jwt_vp sample_ext (sample_lib sample_tokens) ''vp'' sample_options world0 = (Inr p, w') \<and>
     (\<exists>jwk. vp_key sample_ext (dj_header (sample_vp sample_tokens)) = Inr jwk) \<and> oget p ''nonce'' = Some (JStr ''n1'')"
proof -
  obtain p w' where r: "verify_jwt_vp sample_ext (sample_lib sample_tokens) ''vp'' sample_options world0 = (Inr p, w')"
    using sample_jwt_vp_run by (rule returnsE) blast
  from jwt_vp_sound [OF r] show ?thesis using r by (auto simp: sample_options_def sample_lib_def)
qed


text \<open>Without key binding, the same SD-JWT answers the transaction of another client.\<close>

theorem sd_jwt_not_bound_to_transaction_witness:
  "verify_entry ext0 vlib0 sample_window \<lparr>transaction_id = ''t'', tx_dcqlQuery = \<lparr>dq_credentials =
       [\<lparr>dc_id = ''q1'', dc_format = ''dc+sd-jwt'', dc_claims = None\<rparr>], dq_credential_sets = None, dq_json = JNull\<rparr>,
     transaction_data_expires_at = Fin 300000, tx_clientId = ''c1'', tx_verifierId = ''v'', tx_state = None,
     tx_nonce = ''n1''\<rparr> [] None (''q1'', [VpString ''x~'']) =
   verify_entry ext0 vlib0 sample_window \<lparr>transaction_id = ''t'', tx_dcqlQuery = \<lparr>dq_credentials =
       [\<lparr>dc_id = ''q1'', dc_format = ''dc+sd-jwt'', dc_claims = None\<rparr>], dq_credential_sets = None, dq_json = JNull\<rparr>,
     transaction_data_expires_at = Fin 300000, tx_clientId = ''c2'', tx_verifierId = ''v'', tx_state = None,
     tx_nonce = ''n2''\<rparr> [] None (''q1'', [VpString ''x~''])"
  using sd_jwt_not_bound_to_transaction [where qid = "''q1''" and options = None and c = "''c1''" and n = "''n1''" and s = None
    and fmts = "[]" and vps = "[VpString ''x~'']" and X = ext0 and V = vlib0 and F = sample_window and
    t = "\<lparr>transaction_id = ''t'', tx_dcqlQuery = \<lparr>dq_credentials =
       [\<lparr>dc_id = ''q1'', dc_format = ''dc+sd-jwt'', dc_claims = None\<rparr>], dq_credential_sets = None, dq_json = JNull\<rparr>,
     transaction_data_expires_at = Fin 300000, tx_clientId = ''c2'', tx_verifierId = ''v'', tx_state = None,
     tx_nonce = ''n2''\<rparr>"]
  by (simp add: query_format_def)

theorem verify_presentations_sound_witness:
  "\<exists>r w'. verifyPresentations sample_ext (sample_lib sample_tokens) sample_window (sample_response ''s1'') ''t1'' None
       sample_world = (Inr r, w') \<and> required_presented sample_query (map fst r) \<and>
     w_transactions w' ''t1'' = None \<and> w_nonces w' ''n1'' = None"
proof -
  obtain r w' where r: "verifyPresentations sample_ext (sample_lib sample_tokens) sample_window (sample_response ''s1'')
      ''t1'' None sample_world = (Inr r, w')"
    using sample_verify_run by (rule returnsE) blast
  from verify_presentations_sound [OF r] show ?thesis using r by (auto simp: sample_world_def)
qed

theorem refused_response_can_be_retried_witness:
  "w_transactions (snd (verifyPresentations sample_ext (sample_lib sample_tokens) sample_window (sample_response ''s2'') ''t1''
     None sample_world)) = w_transactions sample_world"
proof -
  obtain e where e: "fst (verifyPresentations sample_ext (sample_lib sample_tokens) sample_window (sample_response ''s2'') ''t1''
     None sample_world) = Inl e"
    using sample_refused_run by (auto split: sum.splits)
  have live: "\<not> num_lt (transaction_data_expires_at (the (w_transactions sample_world ''t1''))) (num_int (w_clk sample_world 0))"
    by code_simp
  show ?thesis
    by (rule refused_response_can_be_retried [THEN conjunct1, OF _ live e]) (simp add: sample_world_def)
qed

theorem authz_request_opens_transaction_witness:
  "\<exists>r w' t. sample_request sample_registered = (Inr r, w') \<and> w_transactions w' (cr_transactionId r) = Some t \<and>
     tx_clientId t = ''redirect_uri:c'' \<and> tx_state t = Some ''s1''"
proof -
  obtain r w' where r: "sample_request sample_registered = (Inr r, w')"
    using sample_request_run by (rule returnsE) blast
  from authz_request_opens_transaction [OF r [unfolded sample_request_def]] show ?thesis
    using r by (auto simp: sample_request_options_def)
qed

theorem registered_metadata_valid_witness:
  "metadata_valid sample_ext (snd (createVerifierMetadata sample_ext ''v'' sample_metadata None world0))"
proof (rule registered_metadata_valid)
  show "metadata_valid sample_ext world0" by (simp add: metadata_valid_def world0_def)
  show "generates_jwks sample_ext" by (simp add: generates_jwks_def sample_ext_def ext0_def opt_ok_def)
qed (simp add: sample_ext_def ext0_def)

theorem verifier_registered_witness:
  "\<exists>w'. createVerifierMetadata sample_ext ''v'' sample_metadata None world0 = (Inr (), w') \<and>
     (\<exists>entry. find_key (w_verifier_keys w') ''v'' (JStr ''ES256'') = Some entry) \<and> w_verifier_metadata w' ''v'' \<noteq> None"
proof -
  obtain w' where r: "createVerifierMetadata sample_ext ''v'' sample_metadata None world0 = (Inr (), w')"
    using sample_registration_run by (rule returnsE) auto
  from verifier_registered [OF r] show ?thesis using r by (auto simp: signing_alg_def)
qed

text \<open>A credential whose payload does not look like a credential is skipped, not refused: the payload
  that an accepted presentation returns can list a token that no issuer vouches for.\<close>

theorem unverified_credential_returned:
  "\<exists>X V vp opts w p w' vpo vcs token. verify_jwt_vp X V vp opts w = (Inr p, w') \<and>
     oget p ''vp'' = Some (JObj vpo) \<and> oget vpo ''verifiableCredential'' = Some (JArr vcs) \<and>
     JStr token \<in> set vcs \<and> \<not> vouched X V token"
proof -
  obtain p w' where r: "verify_jwt_vp sample_ext (sample_lib sample_tokens) ''vp'' sample_options world0 = (Inr p, w')"
    "oget p ''vp'' = Some (JObj [(''type'', JArr [JStr ''VerifiablePresentation'']), (''verifiableCredential'', JArr sample_tokens)])"
    using sample_jwt_vp_run by (rule returnsE) blast
  have "(case vc_payload sample_ext ''h.junk.s'' of Inl e \<Rightarrow> False | Inr d \<Rightarrow> vc_issuer sample_ext (sample_lib sample_tokens) d = None)"
    by code_simp
  then have "\<not> vouched sample_ext (sample_lib sample_tokens) ''h.junk.s''" by (auto simp: vouched_def split: sum.splits)
  moreover have "JStr ''h.junk.s'' \<in> set sample_tokens" by (simp add: sample_tokens_def)
  ultimately show ?thesis using r by (fastforce simp: oget_def)
qed

end
