(* ===== verification/Dynamo_Store_Refinement.thy ===== *)
theory Dynamo_Store_Refinement
  imports Dynamo_Stores Verifier_Examples
begin

text \<open>
  The DynamoDB stores of nonces, allowed credential configurations, transactions and verifier
  metadata against the in-memory stores.
\<close>

subsection \<open>The stores answer as the in-memory stores\<close>

definition similar :: "(obj \<Rightarrow> 'e \<Rightarrow> bool) \<Rightarrow> dynamo_table \<Rightarrow> (string \<Rightarrow> 'e option) \<Rightarrow> bool" where
  "similar R m st \<longleftrightarrow> (\<forall>k. rel_option R (m k) (st k))"

lemma similar_update: "similar R m st \<Longrightarrow> rel_option R i e \<Longrightarrow> similar R (m(k := i)) (st(k := e))"
  by (simp add: similar_def)

lemma similar_gone: "similar R m st \<Longrightarrow> st k = None \<Longrightarrow> similar R (m(k := None)) st"
  by (simp add: similar_def)

lemma similar_cases:
  assumes "similar R m st"
  obtains "m k = None" "st k = None" | i e where "m k = Some i" "st k = Some e" "R i e"
  using assms by (metis similar_def option.rel_cases)

lemma similar_empty: "similar R (\<lambda>k. None) (\<lambda>k. None)"
  by (simp add: similar_def)

text \<open>Nonces.\<close>

datatype nonce_call = SaveNonce int nonce_rec | ValidateNonce int nonce_rec | RevokeNonce nonce_rec | ConsumeNonce int nonce_rec

fun nonce_on_dynamo :: "(dynamo_command, obj option, 's) service \<Rightarrow> nonce_call \<Rightarrow> ('s, bool) M" where
  "nonce_on_dynamo send (SaveNonce now n) = thenM (alone send now (dynamo_nonce_save n)) (ret True)"
| "nonce_on_dynamo send (ValidateNonce now n) = alone send now (dynamo_nonce_validate n)"
| "nonce_on_dynamo send (RevokeNonce n) = alone send 0 (dynamo_nonce_revoke n)"
| "nonce_on_dynamo send (ConsumeNonce now n) = alone send now (dynamo_nonce_consume n)"

fun nonce_in_memory :: "nonce_call \<Rightarrow> (nonce_store, bool) M" where
  "nonce_in_memory (SaveNonce now n) = thenM (nonce_save now n) (ret True)"
| "nonce_in_memory (ValidateNonce now n) = nonce_validate now n"
| "nonce_in_memory (RevokeNonce n) = nonce_revoke n"
| "nonce_in_memory (ConsumeNonce now n) = nonce_consume now n"

fun finite_life :: "nonce_call \<Rightarrow> bool" where
  "finite_life (SaveNonce now n) = (case nonce_expires_in n of Some ttl \<Rightarrow> num_finite ttl | None \<Rightarrow> True)"
| "finite_life q = True"

definition nonce_item :: "obj \<Rightarrow> NonceState \<Rightarrow> bool" where
  "nonce_item i e \<longleftrightarrow> num_attr i ''expires_at'' = Some (ns_expires_at e)"

interpretation nonce_table: step_refinement "nonce_on_dynamo documented" nonce_in_memory "similar nonce_item" finite_life
proof
  fix m st q
  assume r: "similar nonce_item m st" and ok: "finite_life q"
  show "fst (nonce_on_dynamo documented q m) = fst (nonce_in_memory q st) \<and>
    similar nonce_item (snd (nonce_on_dynamo documented q m)) (snd (nonce_in_memory q st))"
  proof (cases q)
    case (SaveNonce now n)
    then show ?thesis
      using r ok by (auto simp: dynamo_nonce_save_def nonce_save_def run_simps nonce_item_def dynamo_nonce_item_def num_attr_def
          intro: similar_update split: option.splits)
  next
    case (ValidateNonce now n)
    from r show ?thesis
      by (cases rule: similar_cases [where k = "nonce n"])
        (auto simp: ValidateNonce dynamo_nonce_validate_def nonce_validate_def getValidNonceState_def run_simps if_expired_def nonce_item_def
          r intro: similar_update similar_gone)
  next
    case (RevokeNonce n)
    from r show ?thesis
      by (cases rule: similar_cases [where k = "nonce n"])
        (auto simp: RevokeNonce dynamo_nonce_revoke_def nonce_revoke_def r intro: similar_update similar_gone)
  next
    case (ConsumeNonce now n)
    from r show ?thesis
      by (cases rule: similar_cases [where k = "nonce n"])
        (auto simp: ConsumeNonce dynamo_nonce_consume_def nonce_consume_def nonce_revoke_def getValidNonceState_def run_simps if_expired_def nonce_item_def
          r intro: similar_update similar_gone)
  qed
qed

text \<open>Allowed credential configurations, with the default life time.\<close>

datatype allowed_call = SaveAllowed int string "string list" "jsnum option" | FetchAllowed int string | DeleteAllowed string

fun allowed_on_dynamo :: "(dynamo_command, obj option, 's) service \<Rightarrow> allowed_call \<Rightarrow> ('s, jsval option) M" where
  "allowed_on_dynamo send (SaveAllowed now h ids ttl) = thenM (alone send now (dynamo_allowed_save None h ids ttl)) (ret None)"
| "allowed_on_dynamo send (FetchAllowed now h) = alone send now (dynamo_allowed_fetch h)"
| "allowed_on_dynamo send (DeleteAllowed h) = thenM (alone send 0 (dynamo_allowed_delete h)) (ret None)"

fun allowed_in_memory :: "allowed_call \<Rightarrow> (allowed_store, jsval option) M" where
  "allowed_in_memory (SaveAllowed now h ids ttl) = thenM (allowed_save now h ids ttl) (ret None)"
| "allowed_in_memory (FetchAllowed now h) = bindM (allowed_fetch now h) (\<lambda>ids. ret (map_option JStrs ids))"
| "allowed_in_memory (DeleteAllowed h) = thenM (allowed_delete h) (ret None)"

fun after_epoch :: "allowed_call \<Rightarrow> bool" where
  "after_epoch (SaveAllowed now h ids ttl) = (0 \<le> now)"
| "after_epoch q = True"

definition allowed_item :: "obj \<Rightarrow> AllowedEntry \<Rightarrow> bool" where
  "allowed_item i e \<longleftrightarrow> num_attr i ''expires_at'' = Some (num_int (allowed_expires_at e)) \<and> allowed_expires_at e \<noteq> 0 \<and>
     oget i ''credential_configuration_ids'' = Some (JStrs (allowed_ids e))"

lemma ttl_sec_default: "ttl_sec (Some (getOr (Fin 300) ttl)) = ttl_sec ttl"
  by (cases ttl) (simp_all add: ttl_sec_def)

interpretation allowed_table: step_refinement "allowed_on_dynamo documented" allowed_in_memory "similar allowed_item" after_epoch
proof
  fix m st q
  assume r: "similar allowed_item m st" and ok: "after_epoch q"
  show "fst (allowed_on_dynamo documented q m) = fst (allowed_in_memory q st) \<and>
    similar allowed_item (snd (allowed_on_dynamo documented q m)) (snd (allowed_in_memory q st))"
  proof (cases q)
    case (SaveAllowed now h ids ttl)
    then show ?thesis
      using r ok ttl_sec_pos [of ttl]
      by (auto simp: dynamo_allowed_save_def allowed_save_def run_simps allowed_item_def num_attr_def Let_def ttl_sec_default
          intro!: similar_update)
  next
    case (FetchAllowed now h)
    from r show ?thesis
      by (cases rule: similar_cases [where k = h])
        (auto simp: FetchAllowed dynamo_allowed_fetch_def allowed_fetch_def run_simps if_expired_def allowed_item_def r intro: similar_update similar_gone)
  next
    case (DeleteAllowed h)
    then show ?thesis
      using r by (auto simp: dynamo_allowed_delete_def allowed_delete_def run_simps intro: similar_update similar_gone)
  qed
qed

text \<open>Transactions that the verifier opened: the query is one the DCQL library reads back.\<close>

datatype transaction_call = SaveTransaction int string TransactionRecord | FetchTransaction int string | DeleteTransaction string

fun transaction_on_dynamo ::
  "ext \<Rightarrow> vlib \<Rightarrow> (dynamo_command, obj option, 's) service \<Rightarrow> jsnum option \<Rightarrow> transaction_call \<Rightarrow> ('s, Transaction option) M" where
  "transaction_on_dynamo X V send life (SaveTransaction now k r) =
     thenM (alone send now (dynamo_transaction_save life k r)) (ret None)"
| "transaction_on_dynamo X V send life (FetchTransaction now k) = alone send now (dynamo_transaction_fetch X V k)"
| "transaction_on_dynamo X V send life (DeleteTransaction k) = thenM (alone send 0 (dynamo_transaction_delete k)) (ret None)"

fun transaction_in_memory :: "jsnum option \<Rightarrow> transaction_call \<Rightarrow> (transaction_store, Transaction option) M" where
  "transaction_in_memory life (SaveTransaction now k r) = thenM (transaction_save life now k r) (ret None)"
| "transaction_in_memory life (FetchTransaction now k) = transaction_fetch now k"
| "transaction_in_memory life (DeleteTransaction k) = thenM (transaction_delete k) (ret None)"

definition readable :: "ext \<Rightarrow> vlib \<Rightarrow> TransactionRecord \<Rightarrow> bool" where
  "readable X V r \<longleftrightarrow>
     dcql_parse V (Some (dq_json (tr_dcqlQuery r))) = Inr (tr_dcqlQuery r) \<and>
     TransactionRecord_parse X V r = Inr r"

fun readable_call :: "ext \<Rightarrow> vlib \<Rightarrow> transaction_call \<Rightarrow> bool" where
  "readable_call X V (SaveTransaction now k r) = readable X V r"
| "readable_call X V q = True"

definition transaction_item :: "ext \<Rightarrow> vlib \<Rightarrow> string \<Rightarrow> obj \<Rightarrow> Transaction \<Rightarrow> bool" where
  "transaction_item X V k i t \<longleftrightarrow>
     num_attr i ''expires_at'' = Some (transaction_data_expires_at t) \<and>
     transaction_of_item X V k (transaction_data_expires_at t) i = Inr t"

definition transactions_similar :: "ext \<Rightarrow> vlib \<Rightarrow> dynamo_table \<Rightarrow> transaction_store \<Rightarrow> bool" where
  "transactions_similar X V m st \<longleftrightarrow> (\<forall>k. rel_option (transaction_item X V k) (m k) (st k))"

lemma transaction_item_saved:
  assumes "readable X V r"
  shows "transaction_item X V k (dynamo_transaction_item k r x)
    \<lparr>transaction_id = k, tx_dcqlQuery = tr_dcqlQuery r, transaction_data_expires_at = x, tx_clientId = tr_clientId r,
     tx_verifierId = tr_verifierId r, tx_state = tr_state r, tx_nonce = tr_nonce r\<rparr>"
  using assms
  by (cases "tr_state r"; cases r; cases "tr_dcqlQuery r")
    (auto simp: transaction_item_def transaction_of_item_def dynamo_transaction_item_def num_attr_def readable_def TransactionRecord_parse_def
      Dcql_check_def opt_member_def opt_ok_def split: sum.splits option.splits)

lemma dynamo_life_finite: "(case life of Some x \<Rightarrow> num_finite x | None \<Rightarrow> True) \<Longrightarrow>
    dynamo_life life = getOr DEFAULT_TRANSACTION_EXPIRE_IN_MS life"
  by (cases life) (simp_all add: dynamo_life_def DEFAULT_TRANSACTION_EXPIRE_IN_MS_def)

definition transactions_ready :: "ext \<Rightarrow> vlib \<Rightarrow> jsnum option \<Rightarrow> dynamo_table \<Rightarrow> transaction_store \<Rightarrow> bool" where
  "transactions_ready X V life m st \<longleftrightarrow>
     transactions_similar X V m st \<and> (case life of Some x \<Rightarrow> num_finite x | None \<Rightarrow> True)"

lemma attr_expired: "num_attr i ''expires_at'' = Some x \<Longrightarrow> num_lt x (num_int now) \<Longrightarrow>
    \<not> ohas i ''expires_at'' \<or> attr_less i ''expires_at'' now"
  by (simp add: attr_less_def)

interpretation transaction_table: step_refinement "transaction_on_dynamo X V documented life" "transaction_in_memory life"
  "transactions_ready X V life" "readable_call X V" for X V life
proof
  fix m st q
  assume "transactions_ready X V life m st" and ok: "readable_call X V q"
  then have r: "transactions_similar X V m st" and life: "case life of Some x \<Rightarrow> num_finite x | None \<Rightarrow> True"
    by (simp_all add: transactions_ready_def)
  have upd: "transactions_similar X V (m(k := i)) (st(k := e))" if "rel_option (transaction_item X V k) i e" for k i e
    using r that by (simp add: transactions_similar_def)
  show "fst (transaction_on_dynamo X V documented life q m) = fst (transaction_in_memory life q st) \<and>
    transactions_ready X V life (snd (transaction_on_dynamo X V documented life q m)) (snd (transaction_in_memory life q st))"
  proof (cases q)
    case (SaveTransaction now k t)
    then show ?thesis
      using ok life dynamo_life_finite [OF life]
      by (auto simp: dynamo_transaction_save_def transaction_save_def run_simps transactions_ready_def
          intro!: upd transaction_item_saved)
  next
    case (FetchTransaction now k)
    show ?thesis
    proof (cases "m k")
      case None
      then have "st k = None" using r by (metis transactions_similar_def rel_option_None1)
      then show ?thesis
        using None r life by (simp add: FetchTransaction dynamo_transaction_fetch_def transaction_fetch_def transactions_ready_def)
    next
      case (Some i)
      then obtain t where t: "st k = Some t" "transaction_item X V k i t"
        using r by (metis transactions_similar_def option_rel_Some1)
      then show ?thesis
        using Some r life upd [of k None None]
        by (auto simp: FetchTransaction dynamo_transaction_fetch_def transaction_fetch_def transactions_ready_def if_expired_def
            transaction_item_def dynamo_transaction_drop_def guarded_def attr_less_def)
    qed
  next
    case (DeleteTransaction k)
    then show ?thesis
      using life by (auto simp: dynamo_transaction_delete_def transaction_delete_def run_simps transactions_ready_def intro: upd)
  qed
qed

context dynamo_available begin

lemma on_table:
  "fst (nonce_on_dynamo send q s) = fst (nonce_on_dynamo documented q (items s)) \<and>
     items (snd (nonce_on_dynamo send q s)) = snd (nonce_on_dynamo documented q (items s))"
  "fst (allowed_on_dynamo send a s) = fst (allowed_on_dynamo documented a (items s)) \<and>
     items (snd (allowed_on_dynamo send a s)) = snd (allowed_on_dynamo documented a (items s))"
  "fst (transaction_on_dynamo X V send life c s) = fst (transaction_on_dynamo X V documented life c (items s)) \<and>
     items (snd (transaction_on_dynamo X V send life c s)) = snd (transaction_on_dynamo X V documented life c (items s))"
  subgoal by (cases q) (simp_all add: alone_table thenM_alone)
  subgoal by (cases a) (simp_all add: alone_table thenM_alone)
  subgoal by (cases c) (simp_all add: alone_table thenM_alone)
  done

lemma stores_on_table:
  "replies (nonce_on_dynamo send) ns s = replies (nonce_on_dynamo documented) ns (items s)"
  "replies (allowed_on_dynamo send) as s = replies (allowed_on_dynamo documented) as (items s)"
  "replies (transaction_on_dynamo X V send life) ts s = replies (transaction_on_dynamo X V documented life) ts (items s)"
  by (rule replies_on_items, rule on_table)+

end

text \<open>C17. On available DynamoDB tables, starting empty, the stores of nonces, of allowed credential
  configurations and of transactions give, to any sequence of calls, exactly the answers of the
  in-memory stores. Life times are finite, clock readings are not before the epoch, and saved
  transactions are ones the schemas accept as they are.\<close>

theorem dynamo_stores_refine:
  assumes "dynamo_available send items expire" and "items s = (\<lambda>k. None)"
    and "list_all finite_life ns" and "list_all after_epoch as" and "list_all (readable_call X V) ts"
    and "case life of Some x \<Rightarrow> num_finite x | None \<Rightarrow> True"
  shows "replies (nonce_on_dynamo send) ns s = replies nonce_in_memory ns (\<lambda>k. None) \<and>
    replies (allowed_on_dynamo send) as s = replies allowed_in_memory as (\<lambda>k. None) \<and>
    replies (transaction_on_dynamo X V send life) ts s = replies (transaction_in_memory life) ts (\<lambda>k. None)"
proof -
  have "transactions_ready X V life (\<lambda>k. None) (\<lambda>k. None)"
    using assms(6) by (simp add: transactions_ready_def transactions_similar_def)
  note replies = nonce_table.replies_eq [OF similar_empty assms(3)] allowed_table.replies_eq [OF similar_empty assms(4)]
    transaction_table.replies_eq [OF this assms(5)]
  show ?thesis
    using dynamo_available.stores_on_table [OF assms(1)] assms(2) replies by metis
qed

text \<open>The metadata of a verifier come back as they were saved.\<close>

lemma dynamo_verifier_metadata_roundtrip:
  assumes "metadata_wf X m"
  shows "fst (alone documented now (dynamo_verifier_metadata_fetch X md5 v)
    (snd (alone documented now (dynamo_verifier_metadata_save md5 v m) t))) = Inr (Some m)"
proof -
  have "filter (\<lambda>(k, x). k \<noteq> ''id'') (metadata_json m) = metadata_json m"
    by (auto simp: metadata_json_def opt_member_def split: option.splits)
  then show ?thesis
    using metadata_wf_parse [OF assms]
    by (simp add: dynamo_verifier_metadata_fetch_def dynamo_verifier_metadata_save_def)
qed

definition sample_record :: TransactionRecord where
  "sample_record = \<lparr>tr_dcqlQuery = sample_query, tr_clientId = ''redirect_uri:https://v.example'', tr_verifierId = ''https://v.example'',
     tr_state = None, tr_nonce = ''n1''\<rparr>"

definition sample_nonce :: nonce_rec where
  "sample_nonce = \<lparr>nonce = ''n1'', nonce_expires_in = Some (Fin 1000)\<rparr>"

theorem dynamo_stores_refine_witness:
  "replies (nonce_on_dynamo documented) [SaveNonce 0 sample_nonce, ConsumeNonce 1000 sample_nonce, ConsumeNonce 1000 sample_nonce] (\<lambda>k. None)
     = [Inr True, Inr True, Inr False] \<and>
   replies (allowed_on_dynamo documented) [SaveAllowed 0 ''h'' [''degree''] None, FetchAllowed 300000 ''h'', FetchAllowed 300001 ''h''] (\<lambda>k. None)
     = [Inr None, Inr (Some (JStrs [''degree''])), Inr None] \<and>
   map (map_sum id (map_option tx_nonce)) (replies (transaction_on_dynamo sample_ext (sample_lib []) documented None)
       [SaveTransaction 0 ''t1'' sample_record, FetchTransaction 300000 ''t1'', FetchTransaction 300001 ''t1''] (\<lambda>k. None))
     = [Inr None, Inr (Some ''n1''), Inr None]" (is "replies _ ?ns _ = _ \<and> replies _ ?as _ = _ \<and> map _ (replies _ ?ts _) = _")
proof -
  have "readable sample_ext (sample_lib []) sample_record" by code_simp
  then have "replies (nonce_on_dynamo documented) ?ns (\<lambda>k. None) = replies nonce_in_memory ?ns (\<lambda>k. None) \<and>
    replies (allowed_on_dynamo documented) ?as (\<lambda>k. None) = replies allowed_in_memory ?as (\<lambda>k. None) \<and>
    replies (transaction_on_dynamo sample_ext (sample_lib []) documented None) ?ts (\<lambda>k. None) =
      replies (transaction_in_memory None) ?ts (\<lambda>k. None)"
    by (intro dynamo_stores_refine [OF table.dynamo_available_axioms]) (simp_all add: sample_nonce_def)
  then show ?thesis by (simp only:) code_simp
qed

end
