(* ===== verification/Conversations.thy ===== *)
theory Conversations
  imports Services
begin

text \<open>
  Programs that handle the errors of their parts, and the conversations of a program with
  its services: the requests and answers of one run, whatever the services answer.
\<close>

subsection \<open>Handling errors\<close>

primrec endP :: "('c, 'r, 'a) program \<Rightarrow> (exn + 'a \<Rightarrow> ('c, 'r, 'b) program) \<Rightarrow> ('c, 'r, 'b) program" where
  "endP (Done v) f = f v"
| "endP (Send c k) f = Send c (\<lambda>r. endP (k r) f)"
| "endP (Clock k) f = Clock (\<lambda>t. endP (k t) f)"

definition catchP :: "('c, 'r, 'a) program \<Rightarrow> (exn \<Rightarrow> ('c, 'r, 'a) program) \<Rightarrow> ('c, 'r, 'a) program" where
  "catchP p h = endP p (\<lambda>v. case v of Inl e \<Rightarrow> h e | Inr x \<Rightarrow> Done (Inr x))"

lemma alone_endP:
  "alone send now (endP p f) s = (case alone send now p s of (v, s') \<Rightarrow> alone send now (f v) s')"
  by (induction p arbitrary: s) (auto split: prod.splits)

lemma alone_catchP:
  "alone send now (catchP p h) = catchM (alone send now p) (\<lambda>e. alone send now (h e))"
  by (rule ext) (simp add: catchP_def alone_endP catchM_def split: prod.split sum.split)

lemma alone_request [simp]: "alone send now (request c) s = send c s"
  by (simp add: request_def split: prod.split)

lemma alone_bind_request:
  "alone send now (bindP (request c) f) s =
     (case send c s of (r, s') \<Rightarrow> (case r of Inl e \<Rightarrow> (Inl e, s') | Inr a \<Rightarrow> alone send now (f a) s'))"
  by (simp add: alone_bindP bindM_def request_def split: prod.split sum.split)

lemma bindP_endP: "bindP p f = endP p (\<lambda>v. case v of Inl e \<Rightarrow> Done (Inl e) | Inr x \<Rightarrow> f x)"
  by (induction p) simp_all

lemma request_catch_endP:
  "request_catch c h f = endP (request c) (\<lambda>v. case v of Inl e \<Rightarrow> h e | Inr x \<Rightarrow> f x)"
  by (simp add: request_catch_def request_def)

subsection \<open>Conversations\<close>

primrec conversation :: "('c, 'r, 'a) program \<Rightarrow> ('c \<times> (exn + 'r)) list \<Rightarrow> exn + 'a \<Rightarrow> bool" where
  "conversation (Done v) tr u = (tr = [] \<and> u = v)"
| "conversation (Send c k) tr u = (\<exists>r tr'. tr = (c, r) # tr' \<and> conversation (k r) tr' u)"
| "conversation (Clock q) tr u = (\<exists>t. conversation (q t) tr u)"

lemma conversation_ends [simp]:
  "conversation (retP x) tr u \<longleftrightarrow> tr = [] \<and> u = Inr x" "conversation (throwP e) tr u \<longleftrightarrow> tr = [] \<and> u = Inl e"
  "conversation (raiseP c msg) tr u \<longleftrightarrow> tr = [] \<and> u = Inl (err c msg)" "conversation (liftP v) tr u \<longleftrightarrow> tr = [] \<and> u = v"
  "conversation (clock q) tr u \<longleftrightarrow> (\<exists>t. conversation (q t) tr u)"
  by (auto simp: retP_def throwP_def raiseP_def liftP_def clock_def)

lemma conversation_request [simp]: "conversation (request c) tr u \<longleftrightarrow> tr = [(c, u)]"
  by (auto simp: request_def)

lemma conversation_endP:
  "conversation (endP p f) tr u \<longleftrightarrow> (\<exists>tr1 tr2 v. tr = tr1 @ tr2 \<and> conversation p tr1 v \<and> conversation (f v) tr2 u)"
proof (induction p arbitrary: tr)
  case (Send c k)
  show ?case
  proof
    assume "conversation (endP (Send c k) f) tr u"
    then obtain r tr' where "tr = (c, r) # tr'" "conversation (endP (k r) f) tr' u" by auto
    then show "\<exists>tr1 tr2 v. tr = tr1 @ tr2 \<and> conversation (Send c k) tr1 v \<and> conversation (f v) tr2 u"
      using Send.IH [of "k r" tr'] by (fastforce intro: exI [of _ "(c, r) # _"])
  next
    assume "\<exists>tr1 tr2 v. tr = tr1 @ tr2 \<and> conversation (Send c k) tr1 v \<and> conversation (f v) tr2 u"
    then show "conversation (endP (Send c k) f) tr u" using Send.IH by fastforce
  qed
qed auto

lemma conversation_bindP:
  "conversation (bindP p f) tr u \<longleftrightarrow>
     (\<exists>e. u = Inl e \<and> conversation p tr (Inl e)) \<or>
     (\<exists>tr1 tr2 x. tr = tr1 @ tr2 \<and> conversation p tr1 (Inr x) \<and> conversation (f x) tr2 u)"
  unfolding bindP_endP conversation_endP split_sum_ex by auto

lemma conversation_catchP:
  "conversation (catchP p h) tr u \<longleftrightarrow>
     (\<exists>tr1 tr2 e. tr = tr1 @ tr2 \<and> conversation p tr1 (Inl e) \<and> conversation (h e) tr2 u) \<or>
     (\<exists>x. u = Inr x \<and> conversation p tr (Inr x))"
  unfolding catchP_def conversation_endP split_sum_ex by auto

lemma conversation_request_catch:
  "conversation (request_catch c h f) tr u \<longleftrightarrow>
     (\<exists>r tr'. tr = (c, r) # tr' \<and> (case r of Inl e \<Rightarrow> conversation (h e) tr' u | Inr a \<Rightarrow> conversation (f a) tr' u))"
  unfolding request_catch_def conversation.simps split_sum_ex by auto

text \<open>The run alone is one of the conversations.\<close>

lemma alone_conversation: "\<exists>tr. conversation p tr (fst (alone send now p s))"
proof (induction p arbitrary: s)
  case (Send c k)
  obtain r s' where r: "send c s = (r, s')" by fastforce
  obtain tr where "conversation (k r) tr (fst (alone send now (k r) s'))" using Send by blast
  then show ?case using r by auto
next
  case (Clock q)
  then show ?case by auto blast
qed simp

end
