(* ===== verification/Dynamo_Codes.thy ===== *)
theory Dynamo_Codes
  imports Dynamo_Tables Pac_Store
begin

text \<open>
  The DynamoDB store of pre-authorized codes
  (\<open>aws/src/providers/dynamodb-pre-authorized-code-store.provider.ts\<close>, \<open>hash.utils.ts\<close>).
  \<open>hmac\<close> is HMAC-SHA-256 under the configured pepper and \<open>num_text\<close> is
  \<open>Number.prototype.toString\<close>; both are parameters. A transaction code is stored as its hash.
\<close>

subsection \<open>Operations\<close>

record tx_hashing =
  hmac :: "string \<Rightarrow> string"
  num_text :: "jsnum \<Rightarrow> string"

definition hashTxCode :: "tx_hashing \<Rightarrow> tx_code \<Rightarrow> string" where
  "hashTxCode H t = hmac H (case t of TxStr s \<Rightarrow> s | TxNum n \<Rightarrow> num_text H n)"

text \<open>The default time to live, in seconds, from the option in milliseconds.\<close>

definition dynamo_default_ttl :: "jsnum option \<Rightarrow> int" where
  "dynamo_default_ttl expiresIn =
     (case getOr (Fin 300000) expiresIn of Fin a \<Rightarrow> max 1 \<lfloor>a / 1000\<rfloor> | _ \<Rightarrow> 300)"

definition dynamo_ttl_sec :: "int \<Rightarrow> jsnum option \<Rightarrow> int" where
  "dynamo_ttl_sec default_ttl ttlSec =
     (let raw = getOr (num_int default_ttl) ttlSec; cand = floor_or 0 raw
      in if num_finite raw \<and> 0 < cand then cand else default_ttl)"

definition json_strings :: "string list \<Rightarrow> jsval" where
  "json_strings xs = JArr (map JStr xs)"

definition mode_name :: "tx_mode \<Rightarrow> string" where
  "mode_name mode = (case mode of Numeric \<Rightarrow> ''numeric'' | Text \<Rightarrow> ''text'')"

text \<open>\<open>ttl\<close> is in seconds, rounded up.\<close>

definition dynamo_code_item :: "string \<Rightarrow> string list \<Rightarrow> tx_mode \<Rightarrow> int \<Rightarrow> string option \<Rightarrow> obj" where
  "dynamo_code_item c ids mode expires_at h =
     [(''id'', JStr c), (''credential_configuration_ids'', json_strings ids),
      (''tx_code_input_mode'', JStr (mode_name mode)), (''expires_at'', JNum (num_int expires_at)),
      (''ttl'', JNum (num_int (- ((- expires_at) div 1000))))] @
     (case h of None \<Rightarrow> [] | Some x \<Rightarrow> [(''tx_code_hash'', JStr x)])"

text \<open>The hash to store, if there is a transaction code.\<close>

definition stored_hash :: "tx_hashing \<Rightarrow> tx_mode \<Rightarrow> tx_code option \<Rightarrow> exn + string option" where
  "stored_hash H mode tx =
     (case tx of
        None \<Rightarrow> Inr None
      | Some t \<Rightarrow>
          if mode \<noteq> Text then
            (case toDigitString t of
               None \<Rightarrow> Inl (err ''invalid_tx_code'' ''tx_code must be a non-negative integer'')
             | Some canonical \<Rightarrow> Inr (Some (hashTxCode H (TxStr canonical))))
          else Inr (Some (hashTxCode H t)))"

definition dynamo_code_save ::
  "tx_hashing \<Rightarrow> int \<Rightarrow> string \<Rightarrow> string list \<Rightarrow> tx_code option \<Rightarrow> pac_save_options \<Rightarrow> unit dynamo_program" where
  "dynamo_code_save H default_ttl c ids tx opts =
     (let mode = getOr Numeric (so_mode opts) in
      clock (\<lambda>now.
        let expires_at = now + dynamo_ttl_sec default_ttl (so_ttlSec opts) * 1000
        in case stored_hash H mode tx of
             Inl e \<Rightarrow> throwP e
           | Inr h \<Rightarrow> request_catch (PutItem c (dynamo_code_item c ids mode expires_at h)) throwP (\<lambda>_. retP ())))"

definition dynamo_lockout :: "int \<Rightarrow> string \<Rightarrow> obj \<Rightarrow> 'a dynamo_program \<Rightarrow> 'a dynamo_program" where
  "dynamo_lockout limit c item next =
     (if num_le (num_int limit) (getOr (num_int 0) (num_attr item ''attempts'')) then
        request_catch (DeleteItem c) throwP (\<lambda>_. raiseP ''invalid_grant'' LOCKED_MESSAGE)
      else next)"

definition dynamo_expired :: "string \<Rightarrow> 'a dynamo_program" where
  "dynamo_expired c = request_catch (DeleteItem c) throwP (\<lambda>_. raiseP ''invalid_grant'' ''Pre-authorized code has expired'')"

text \<open>The conditional delete at the end, and the ids of the item: \<open>null\<close> when it has none.\<close>

definition dynamo_take :: "string \<Rightarrow> obj \<Rightarrow> jsval option dynamo_program" where
  "dynamo_take c item =
     request_catch (DeleteExisting c)
       (\<lambda>e. if e = conditional_failed
            then raiseP ''invalid_grant'' ''Pre-authorized code has already been consumed'' else throwP e)
       (\<lambda>_. retP (oget item ''credential_configuration_ids''))"

definition is_text_mode :: "obj \<Rightarrow> bool" where
  "is_text_mode item = (oget item ''tx_code_input_mode'' = Some (JStr ''text''))"

definition dynamo_compare ::
  "tx_hashing \<Rightarrow> int \<Rightarrow> string \<Rightarrow> tx_code option \<Rightarrow> obj \<Rightarrow> jsval option dynamo_program" where
  "dynamo_compare H limit c tx item =
     (let fail = (\<lambda>code msg. dynamo_lockout limit c item (raiseP code msg));
          hash = oget item ''tx_code_hash'' in
      if truthy hash then
        (case tx of
           None \<Rightarrow> fail ''invalid_request'' ''tx_code is required for this pre-authorized code''
         | Some t \<Rightarrow>
             if \<not> is_text_mode item then
               (case toDigitString t of
                  None \<Rightarrow> fail ''invalid_grant'' ''Invalid tx_code provided''
                | Some actual \<Rightarrow>
                    if hash \<noteq> Some (JStr (hashTxCode H (TxStr actual)))
                    then fail ''invalid_grant'' ''Invalid tx_code provided'' else dynamo_take c item)
             else
               (case t of
                  TxNum n \<Rightarrow> fail ''invalid_grant'' ''Invalid tx_code provided''
                | TxStr s \<Rightarrow>
                    if hash \<noteq> Some (JStr (hashTxCode H t))
                    then fail ''invalid_grant'' ''Invalid tx_code provided'' else dynamo_take c item))
      else if tx \<noteq> None then
        fail ''invalid_request'' ''tx_code should not be provided for this pre-authorized code''
      else dynamo_take c item)"

text \<open>After the gate: the expiry is checked before the transaction code.\<close>

definition dynamo_admitted ::
  "tx_hashing \<Rightarrow> int \<Rightarrow> string \<Rightarrow> tx_code option \<Rightarrow> obj \<Rightarrow> jsval option dynamo_program" where
  "dynamo_admitted H limit c tx item =
     (case num_attr item ''expires_at'' of
        None \<Rightarrow> dynamo_expired c
      | Some e \<Rightarrow> clock (\<lambda>now. if num_lt e (num_int now) then dynamo_expired c else dynamo_compare H limit c tx item))"

definition dynamo_code_consume ::
  "tx_hashing \<Rightarrow> int \<Rightarrow> string \<Rightarrow> tx_code option \<Rightarrow> jsval option dynamo_program" where
  "dynamo_code_consume H limit c tx =
     request_catch (CountAttempt c limit)
       (\<lambda>e. if e = conditional_failed then raiseP ''invalid_grant'' LOCKED_MESSAGE else throwP e)
       (\<lambda>attributes. case attributes of None \<Rightarrow> throwP (JsError ''TypeError'') | Some item \<Rightarrow> dynamo_admitted H limit c tx item)"

subsection \<open>One caller gets the code\<close>

text \<open>The points that a \<open>consume\<close> of the code \<open>c\<close> goes through.\<close>

definition consuming :: "tx_hashing \<Rightarrow> int \<Rightarrow> string \<Rightarrow> jsval option dynamo_program \<Rightarrow> bool" where
  "consuming H limit c p \<longleftrightarrow>
     (\<exists>tx. p = dynamo_code_consume H limit c tx) \<or> (\<exists>tx item. p = dynamo_admitted H limit c tx item) \<or>
     (\<exists>tx item. p = dynamo_compare H limit c tx item) \<or> (\<exists>item. p = dynamo_take c item) \<or>
     (\<exists>v. p = Done v) \<or>
     (\<exists>e. p = request_catch (DeleteItem c) throwP (\<lambda>_. throwP e))"

lemma dynamo_expired_eq: "dynamo_expired c = request_catch (DeleteItem c) throwP
    (\<lambda>_. throwP (err ''invalid_grant'' ''Pre-authorized code has expired''))"
  by (simp add: dynamo_expired_def raiseP_def)

lemma consuming_lockout:
  "consuming H limit c (dynamo_lockout limit c item (raiseP cd msg))"
  by (auto simp: dynamo_lockout_def consuming_def raiseP_def throwP_def)

text \<open>Comparing the transaction code leads to the final delete or to a failure.\<close>

lemma dynamo_compare_cases:
  "dynamo_compare H limit c tx item = dynamo_take c item \<or>
   (\<exists>cd msg. dynamo_compare H limit c tx item = dynamo_lockout limit c item (raiseP cd msg))"
  by (auto simp: dynamo_compare_def Let_def split: option.splits tx_code.splits)

lemma consume_sends:
  assumes "consuming H limit c (Send cmd k)"
  shows "(cmd = CountAttempt c limit \<and> (\<forall>e. \<exists>e'. k (Inl e) = Done (Inl e')) \<and> (\<exists>e. k (Inr None) = Done (Inl e)) \<and>
      (\<exists>tx. \<forall>item. k (Inr (Some item)) = dynamo_admitted H limit c tx item)) \<or>
    (cmd = DeleteExisting c \<and> (\<forall>e. \<exists>e'. k (Inl e) = Done (Inl e')) \<and> (\<exists>v. \<forall>x. k (Inr x) = Done (Inr v))) \<or>
    (cmd = DeleteItem c \<and> (\<forall>r. \<exists>e. k r = Done (Inl e)))"
proof -
  let ?D = "\<lambda>cmd k. cmd = DeleteItem c \<and> (\<forall>r. \<exists>e. (k :: _ \<Rightarrow> jsval option dynamo_program) r = Done (Inl e))"
  let ?T = "\<lambda>cmd k. cmd = DeleteExisting c \<and> (\<forall>e. \<exists>e'. k (Inl e) = Done (Inl e')) \<and>
      (\<exists>v. \<forall>x. (k :: _ \<Rightarrow> jsval option dynamo_program) (Inr x) = Done (Inr v))"
  have catch: "?D cmd k" if "Send cmd k = request_catch (DeleteItem c) throwP (\<lambda>_. throwP e)" for e
    using that by (auto simp: request_catch_def throwP_def split: sum.splits)
  have take: "?T cmd k" if "Send cmd k = dynamo_take c item" for item
    using that by (auto simp: dynamo_take_def request_catch_def throwP_def raiseP_def retP_def)
  have lock: "?D cmd k" if "Send cmd k = dynamo_lockout limit c item (raiseP cd msg)" for item cd msg
    using that catch by (auto simp: dynamo_lockout_def raiseP_def throwP_def split: if_splits)
  have adm: "?D cmd k" if "Send cmd k = dynamo_admitted H limit c tx item" for tx item
    using that catch by (auto simp: dynamo_admitted_def dynamo_expired_eq clock_def split: option.splits)
  consider (consume) tx where "Send cmd k = dynamo_code_consume H limit c tx"
    | (admitted) tx item where "Send cmd k = dynamo_admitted H limit c tx item"
    | (compare) tx item where "Send cmd k = dynamo_compare H limit c tx item"
    | (take) item where "Send cmd k = dynamo_take c item"
    | (fail) e where "Send cmd k = request_catch (DeleteItem c) throwP (\<lambda>_. throwP e)"
    using assms by (auto simp: consuming_def)
  then show ?thesis
  proof cases
    case (consume tx)
    then show ?thesis
      by (auto simp: dynamo_code_consume_def request_catch_def throwP_def raiseP_def)
  next
    case (compare tx item)
    from dynamo_compare_cases [of H limit c tx item] show ?thesis
      using compare take lock by metis
  qed (use take catch adm in blast)+
qed

lemma consume_clock:
  assumes "consuming H limit c (Clock q)"
  shows "q t = dynamo_expired c \<or> (\<exists>tx item. q t = dynamo_compare H limit c tx item)"
proof -
  have "Clock q \<noteq> dynamo_compare H limit c tx item" for tx item
    using dynamo_compare_cases [of H limit c tx item]
    by (auto simp: dynamo_take_def dynamo_lockout_def request_catch_def raiseP_def throwP_def split: if_splits)
  then obtain tx item where "Clock q = dynamo_admitted H limit c tx item"
    using assms by (auto simp: consuming_def dynamo_code_consume_def dynamo_take_def request_catch_def)
  then obtain e where "q = (\<lambda>now. if num_lt e (num_int now) then dynamo_expired c else dynamo_compare H limit c tx item)"
    by (auto simp: dynamo_admitted_def dynamo_expired_def request_catch_def clock_def split: option.splits)
  then show ?thesis by auto
qed

lemma consuming_Done: "consuming H limit c (Done v)"
  by (simp add: consuming_def)

lemma consuming_expired: "consuming H limit c (dynamo_expired c)"
  unfolding consuming_def dynamo_expired_eq by blast

lemma dynamo_compare_not_won: "\<not> won win (dynamo_compare H limit c tx item)"
  using dynamo_compare_cases [of H limit c tx item]
  by (auto simp: dynamo_take_def dynamo_lockout_def split: if_splits)

lemma dynamo_admitted_not_won: "\<not> won win (dynamo_admitted H limit c tx item)"
  by (simp add: dynamo_admitted_def dynamo_expired_def clock_def split: option.split)

lemma consume_sends_form:
  assumes "consuming H limit c (Send cmd k)"
  shows "consuming H limit c (k r)"
  using consume_sends [OF assms]
proof (elim disjE conjE exE)
  fix tx e assume a: "\<forall>e. \<exists>e'. k (Inl e) = Done (Inl e')" "k (Inr None) = Done (Inl e)"
    "\<forall>item. k (Inr (Some item)) = dynamo_admitted H limit c tx item"
  show ?thesis
  proof (cases r)
    case (Inl e)
    then show ?thesis using a(1) consuming_Done by metis
  next
    case (Inr x)
    then show ?thesis using a(2,3) consuming_Done by (cases x) (auto simp: consuming_def)
  qed
next
  fix v assume a: "\<forall>e. \<exists>e'. k (Inl e) = Done (Inl e')" "\<forall>x. k (Inr x) = Done (Inr v)"
  then show ?thesis using consuming_Done by (cases r) metis+
next
  assume "\<forall>r. \<exists>e. k r = Done (Inl e)"
  then show ?thesis using consuming_Done by metis
qed

sublocale dynamo \<subseteq> codes: single_winner send expire "\<lambda>t. True" "\<lambda>x. True" "\<lambda>s. items s c \<noteq> None" "consuming H limit c" "won (\<lambda>_. True)" for H limit c
proof unfold_locales
  fix cmd k s r s'
  assume f: "consuming H limit c (Send cmd k)" and sd: "send cmd s = (r, s')"
  show "consuming H limit c (k r)" using f by (rule consume_sends_form)
  have cmd: "cmd = CountAttempt c limit \<or> cmd = DeleteExisting c \<or> cmd = DeleteItem c"
    using consume_sends [OF f] by blast
  show "items s c \<noteq> None" if t: "items s' c \<noteq> None"
  proof (rule ccontr)
    assume "\<not> items s c \<noteq> None"
    then have "snd (documented cmd (items s)) c = None" using cmd by (auto simp: guarded_def)
    then show False using answers [OF sd] t cmd \<open>\<not> items s c \<noteq> None\<close> by (metis dynamo_command.distinct insertE singletonD snd_conv)
  qed
  show "items s c \<noteq> None \<and> \<not> items s' c \<noteq> None" if w: "won (\<lambda>_. True) (k r)"
  proof -
    have d: "cmd = DeleteExisting c \<and> (\<exists>x. r = Inr x)"
      using consume_sends [OF f]
    proof (elim disjE conjE exE)
      fix tx e assume a: "\<forall>e. \<exists>e'. k (Inl e) = Done (Inl e')" "k (Inr None) = Done (Inl e)"
        "\<forall>item. k (Inr (Some item)) = dynamo_admitted H limit c tx item"
      have "\<not> won (\<lambda>_. True) (k r)"
      proof (cases r)
        case (Inl e)
        then obtain e' where "k r = Done (Inl e')" using a(1) by blast
        then show ?thesis by simp
      next
        case (Inr x)
        then show ?thesis using a(2,3) dynamo_admitted_not_won by (cases x) auto
      qed
      then show ?thesis using w by simp
    next
      assume "cmd = DeleteExisting c" "\<forall>e. \<exists>e'. k (Inl e) = Done (Inl e')"
      then show ?thesis using w by (cases r) (auto elim!: allE [where x = "projl r"])
    next
      assume "\<forall>r. \<exists>e. k r = Done (Inl e)"
      then obtain e where "k r = Done (Inl e)" by blast
      then show ?thesis using w by simp
    qed
    then show ?thesis using answers [OF sd] by (auto simp: guarded_def split: if_splits)
  qed
next
  fix q t assume f: "consuming H limit c (Clock q)"
  show "consuming H limit c (q t)"
    using consume_clock [OF f, of t]
  proof (elim disjE exE)
    assume "q t = dynamo_expired c"
    then show ?thesis using consuming_expired by simp
  next
    fix tx item assume "q t = dynamo_compare H limit c tx item"
    then show ?thesis unfolding consuming_def by blast
  qed
  show "won (\<lambda>_. True) (Clock q)" if "won (\<lambda>_. True) (q t)"
    using that consume_clock [OF f, of t] dynamo_compare_not_won by (auto simp: dynamo_expired_def)
next
  fix s s' assume "expire s s'" "items s' c \<noteq> None"
  then show "items s c \<noteq> None" using drops [of s s' c] by metis
qed simp_all

subsection \<open>The number of guesses\<close>

text \<open>
  A transaction code is compared only after a \<open>CountAttempt\<close> that succeeded; \<open>admitted\<close> counts
  these in a trace.
\<close>

definition admits :: "string \<Rightarrow> dynamo_command \<times> (exn + obj option) \<Rightarrow> bool" where
  "admits c e = (case e of (CountAttempt c' limit, Inr item) \<Rightarrow> c' = c | _ \<Rightarrow> False)"

definition admitted :: "string \<Rightarrow> (dynamo_command \<times> (exn + obj option)) list \<Rightarrow> nat" where
  "admitted c tr = length (filter (admits c) tr)"

definition attempts_at_least :: "nat \<Rightarrow> obj \<Rightarrow> bool" where
  "attempts_at_least n item \<longleftrightarrow>
     (if ohas item ''attempts'' then \<exists>a. num_attr item ''attempts'' = Some (Fin a) \<and> of_nat n \<le> a else n = 0)"

lemma admitted_snoc: "admitted c (tr @ [e]) = admitted c tr + (if admits c e then 1 else 0)"
  by (simp add: admitted_def)

lemma attempts_bump:
  "attempts_at_least n item \<Longrightarrow> attempts_at_least (Suc n) (bump item)"
  by (auto simp: attempts_at_least_def bump_def num_attr_def ohas_def split: if_splits option.splits jsval.splits)

lemma attempts_mono: "attempts_at_least (Suc n) item \<Longrightarrow> attempts_at_least n item"
  by (auto simp: attempts_at_least_def split: if_splits)

lemma attempts_gate:
  "attempts_at_least n item \<Longrightarrow> \<not> ohas item ''attempts'' \<or> attr_less item ''attempts'' limit \<Longrightarrow> 1 \<le> limit \<Longrightarrow>
     int (Suc n) \<le> limit"
  by (auto simp: attempts_at_least_def attr_less_def split: if_splits)

context dynamo begin

lemma gate_answer:
  assumes "send (CountAttempt c limit) s = (Inr x, s')"
  shows "\<exists>i. items s c = Some i \<and> (\<not> ohas i ''attempts'' \<or> attr_less i ''attempts'' limit) \<and> items s' c = Some (bump i)"
  using answers [OF assms] by (auto simp: guarded_def split: option.splits if_splits)

text \<open>A request of \<open>consume\<close> keeps the counter or raises it, or the item goes.\<close>

lemma counter_kept:
  assumes "send cmd s = (r, s')" and "cmd = CountAttempt c limit \<or> cmd = DeleteExisting c \<or> cmd = DeleteItem c"
    and "\<And>i. items s c = Some i \<Longrightarrow> attempts_at_least n i" and "items s' c = Some i"
  shows "attempts_at_least n i"
proof -
  have a: "items s' = items s \<or> items s' = snd (documented cmd (items s))"
    using answers [OF assms(1)] assms(2) by (auto dest: arg_cong [where f = snd])
  have b: "attempts_at_least n (bump i)" if "items s c = Some i" for i
    using assms(3) [OF that] attempts_bump attempts_mono by blast
  show ?thesis
    using a assms(2-4) b by (auto simp: guarded_def split: option.splits if_splits)
qed

lemma one_winner:
  assumes "together send expire (\<lambda>t. True) (s0, ps0) tr (s, ps)" and "\<forall>p \<in> set ps0. consuming H limit c p"
    and "winners (\<lambda>_. True) ps0 = 0"
  shows "winners (\<lambda>_. True) ps + (if items s c \<noteq> None then 1 else 0) \<le> 1"
  using codes.at_most_one_winner [OF assms(1,2)] assms(3) by (simp add: winners_def holders_def)

lemma guesses_bounded:
  assumes "together send expire (\<lambda>t. True) (s0, ps0) tr (s, ps)" and start: "\<forall>p \<in> set ps0. consuming H limit c p"
    and item: "items s0 c = Some i0" "\<not> ohas i0 ''attempts''" and "1 \<le> limit"
  shows "int (admitted c tr) \<le> limit \<and> (\<forall>i. items s c = Some i \<longrightarrow> attempts_at_least (admitted c tr) i)"
  using assms(1)
proof (induction tr "(s, ps)" arbitrary: s ps rule: together.induct)
  case begin_together
  then show ?case using item \<open>1 \<le> limit\<close> by (simp add: admitted_def attempts_at_least_def)
next
  case (answer tr s ps j cmd k r s')
  have f: "consuming H limit c (Send cmd k)"
    using codes.forms_kept [OF answer(1) start] answer(3,4) by (metis nth_mem)
  have cmd: "cmd = CountAttempt c limit \<or> cmd = DeleteExisting c \<or> cmd = DeleteItem c"
    using consume_sends [OF f] by blast
  show ?case
  proof (cases "admits c (cmd, r)")
    case False
    then show ?thesis using counter_kept [OF answer(5) cmd] answer(2) by (auto simp: admitted_snoc)
  next
    case True
    then obtain x where x: "cmd = CountAttempt c limit" "r = Inr x" using cmd by (auto simp: admits_def split: sum.splits)
    then obtain i where "items s c = Some i" "\<not> ohas i ''attempts'' \<or> attr_less i ''attempts'' limit" "items s' c = Some (bump i)"
      using gate_answer answer(5) by blast
    then show ?thesis
      using True answer(2) attempts_bump attempts_gate [OF _ _ \<open>1 \<le> limit\<close>] by (auto simp: admitted_snoc)
  qed
next
  case (idle tr s ps s')
  then show ?case using drops [of s s' c] by auto
qed simp

end


definition sample_hashing :: tx_hashing where
  "sample_hashing = \<lparr>hmac = (\<lambda>s. CHR ''h'' # s), num_text = (\<lambda>n. [])\<rparr>"

definition sample_code_item :: obj where
  "sample_code_item = dynamo_code_item ''c1'' [''degree''] Numeric 9000 (Some (hashTxCode sample_hashing (TxStr ''42'')))"

definition sample_codes :: "string \<Rightarrow> obj option" where
  "sample_codes = [''c1'' \<mapsto> sample_code_item]"


end
