(* ===== verification/Firestore_Stores.thy ===== *)
theory Firestore_Stores
  imports Conversations Dynamo_Codes Dynamo_Stores
begin

text \<open>
  The stores on Cloud Firestore (\<open>google-cloud/src/providers/firestore-*.provider.ts\<close>) as
  programs of requests: reads, writes and deletions of one document, and transactions on one
  document. The body of a transaction is a function of the document: it throws, or it gives
  a write and a result. Time stamps are the milliseconds that they stand for.
\<close>

subsection \<open>Requests\<close>

datatype fs_write = KeepDoc | WriteDoc obj | MergeIntoDoc obj | RemoveDoc

datatype fs_result = FsDoc "obj option" | FsFlag bool | FsDone

datatype fs_command =
    DocGet string
  | DocSet string obj
  | DocMerge string obj
  | DocDelete string
  | Transact string "obj option \<Rightarrow> exn + fs_write \<times> fs_result"

type_synonym 'a fs_program = "(fs_command, fs_result, 'a) program"

text \<open>The client library: \<open>firestore.doc\<close>, which refuses some paths, and the milliseconds that a
  time stamp keeps of \<open>Timestamp.fromMillis\<close>; and \<open>JSON.stringify\<close> and \<open>JSON.parse\<close>.\<close>

record fs_lib =
  fs_doc :: "string \<Rightarrow> exn + string"
  fromMillis :: "jsnum \<Rightarrow> exn + jsnum"
  stringify :: "jsval \<Rightarrow> string"
  parse_text :: "string \<Rightarrow> exn + jsval"

text \<open>\<open>options?.namespace?.replace(/\//g, '') || 'vcknots'\<close>.\<close>

definition fs_namespace :: "string option \<Rightarrow> string" where
  "fs_namespace option =
     (let ns = (case option of Some s \<Rightarrow> filter (\<lambda>c. c \<noteq> CHR ''/'') s | None \<Rightarrow> [])
      in if ns = [] then ''vcknots'' else ns)"

definition at_doc :: "fs_lib \<Rightarrow> string \<Rightarrow> (string \<Rightarrow> 'a fs_program) \<Rightarrow> 'a fs_program" where
  "at_doc F path f = bindP (liftP (fs_doc F path)) f"

definition at_time :: "fs_lib \<Rightarrow> jsnum \<Rightarrow> (jsnum \<Rightarrow> 'a fs_program) \<Rightarrow> 'a fs_program" where
  "at_time F ms f = bindP (liftP (fromMillis F ms)) f"

definition doc_of :: "fs_result \<Rightarrow> obj option" where
  "doc_of r = (case r of FsDoc d \<Rightarrow> d | _ \<Rightarrow> None)"

definition flag_of :: "fs_result \<Rightarrow> bool" where
  "flag_of r = (case r of FsFlag b \<Rightarrow> b | _ \<Rightarrow> False)"

definition get_doc :: "string \<Rightarrow> (obj option \<Rightarrow> 'a fs_program) \<Rightarrow> 'a fs_program" where
  "get_doc d f = bindP (request (DocGet d)) (\<lambda>r. f (doc_of r))"

definition set_doc :: "string \<Rightarrow> obj \<Rightarrow> unit fs_program" where
  "set_doc d i = bindP (request (DocSet d i)) (\<lambda>_. retP ())"

definition merge_doc :: "string \<Rightarrow> obj \<Rightarrow> unit fs_program" where
  "merge_doc d i = bindP (request (DocMerge d i)) (\<lambda>_. retP ())"

definition delete_doc :: "string \<Rightarrow> 'a fs_program \<Rightarrow> 'a fs_program" where
  "delete_doc d rest = bindP (request (DocDelete d)) (\<lambda>_. rest)"

text \<open>\<open>if (!doc.exists) return false; transaction.delete(docRef); return true\<close>.\<close>

definition remove_existing :: "obj option \<Rightarrow> exn + fs_write \<times> fs_result" where
  "remove_existing doc = Inr (if doc = None then (KeepDoc, FsFlag False) else (RemoveDoc, FsFlag True))"

subsection \<open>Pre-authorized codes\<close>

definition code_doc :: "fs_lib \<Rightarrow> string \<Rightarrow> string \<Rightarrow> (string \<Rightarrow> 'a fs_program) \<Rightarrow> 'a fs_program" where
  "code_doc F ns c f = at_doc F (ns @ ''/v1/preCodes/'' @ c) f"

definition fs_code_data :: "string \<Rightarrow> string list \<Rightarrow> tx_mode \<Rightarrow> jsnum \<Rightarrow> string option \<Rightarrow> obj" where
  "fs_code_data c ids mode expires_at h =
     [(''code'', JStr c), (''credential_configuration_ids'', json_strings ids),
      (''tx_code_input_mode'', JStr (mode_name mode)), (''expires_at'', JNum expires_at)] @
     (case h of None \<Rightarrow> [] | Some x \<Rightarrow> [(''tx_code_hash'', JStr x)])"

definition fs_code_save ::
  "fs_lib \<Rightarrow> tx_hashing \<Rightarrow> string \<Rightarrow> string \<Rightarrow> string list \<Rightarrow> tx_code option \<Rightarrow> pac_save_options \<Rightarrow> unit fs_program" where
  "fs_code_save F H ns c ids tx opts =
     (let mode = getOr Numeric (so_mode opts) in
      clock (\<lambda>now. at_time F (num_int (now + ttl_sec (so_ttlSec opts) * 1000)) (\<lambda>expires_at.
        code_doc F ns c (\<lambda>d.
          bindP (liftP (stored_hash H mode tx)) (\<lambda>h. set_doc d (fs_code_data c ids mode expires_at h))))))"

text \<open>The first transaction counts the attempt.\<close>

definition count_attempt :: "int \<Rightarrow> obj option \<Rightarrow> exn + fs_write \<times> fs_result" where
  "count_attempt limit doc =
     (case doc of
        None \<Rightarrow> Inl (err ''invalid_grant'' LOCKED_MESSAGE)
      | Some data \<Rightarrow>
          let currentAttempts = getOr (num_int 0) (num_attr data ''attempts'') in
          if num_le (num_int limit) currentAttempts then Inl (err ''invalid_grant'' LOCKED_MESSAGE)
          else let attempts = JNum (num_add currentAttempts (num_int 1)) in
            Inr (MergeIntoDoc [(''attempts'', attempts)], FsDoc (Some (oset data ''attempts'' attempts))))"

definition fs_lockout :: "int \<Rightarrow> string \<Rightarrow> obj \<Rightarrow> 'a fs_program \<Rightarrow> 'a fs_program" where
  "fs_lockout limit d item rest =
     (if num_le (num_int limit) (getOr (num_int 0) (num_attr item ''attempts'')) then
        delete_doc d (raiseP ''invalid_grant'' LOCKED_MESSAGE)
      else rest)"

definition fs_take :: "string \<Rightarrow> obj \<Rightarrow> jsval option fs_program" where
  "fs_take d item =
     bindP (request (Transact d remove_existing)) (\<lambda>deleted.
       if \<not> flag_of deleted then raiseP ''invalid_grant'' ''Pre-authorized code has already been consumed''
       else retP (oget item ''credential_configuration_ids''))"

definition fs_compare :: "tx_hashing \<Rightarrow> int \<Rightarrow> string \<Rightarrow> tx_code option \<Rightarrow> obj \<Rightarrow> jsval option fs_program" where
  "fs_compare H limit d tx item =
     (let fail = (\<lambda>code msg. fs_lockout limit d item (raiseP code msg));
          hash = oget item ''tx_code_hash'' in
      if truthy hash then
        (case tx of
           None \<Rightarrow> fail ''invalid_request'' ''tx_code is required for this pre-authorized code''
         | Some t \<Rightarrow>
             if \<not> is_text_mode item then
               (case toDigitString t of
                  None \<Rightarrow> fail ''invalid_grant'' ''Invalid tx_code provided''
                | Some actual \<Rightarrow>
                    if hash \<noteq> Some (JStr (hashTxCode H (TxStr actual)))
                    then fail ''invalid_grant'' ''Invalid tx_code provided'' else fs_take d item)
             else
               (case t of
                  TxNum n \<Rightarrow> fail ''invalid_grant'' ''Invalid tx_code provided''
                | TxStr s \<Rightarrow>
                    if hash \<noteq> Some (JStr (hashTxCode H t))
                    then fail ''invalid_grant'' ''Invalid tx_code provided'' else fs_take d item))
      else if tx \<noteq> None then
        fail ''invalid_request'' ''tx_code should not be provided for this pre-authorized code''
      else fs_take d item)"

text \<open>A code is expired at the instant of its expiry already.\<close>

definition fs_admitted :: "tx_hashing \<Rightarrow> int \<Rightarrow> string \<Rightarrow> tx_code option \<Rightarrow> obj \<Rightarrow> jsval option fs_program" where
  "fs_admitted H limit d tx item =
     (case num_attr item ''expires_at'' of
        None \<Rightarrow> throwP (JsError ''TypeError'')
      | Some e \<Rightarrow> clock (\<lambda>now.
          if num_le e (num_int now) then
            delete_doc d (raiseP ''invalid_grant'' ''Pre-authorized code has expired'')
          else fs_compare H limit d tx item))"

definition fs_consume_at :: "tx_hashing \<Rightarrow> int \<Rightarrow> tx_code option \<Rightarrow> string \<Rightarrow> jsval option fs_program" where
  "fs_consume_at H limit tx d =
     bindP (request (Transact d (count_attempt limit))) (\<lambda>r.
       case doc_of r of None \<Rightarrow> throwP (JsError ''TypeError'') | Some item \<Rightarrow> fs_admitted H limit d tx item)"

definition fs_code_consume ::
  "fs_lib \<Rightarrow> tx_hashing \<Rightarrow> int \<Rightarrow> string \<Rightarrow> string \<Rightarrow> tx_code option \<Rightarrow> jsval option fs_program" where
  "fs_code_consume F H limit ns c tx = code_doc F ns c (fs_consume_at H limit tx)"

subsection \<open>Nonces\<close>

definition nonce_doc :: "fs_lib \<Rightarrow> string \<Rightarrow> nonce_rec \<Rightarrow> (string \<Rightarrow> 'a fs_program) \<Rightarrow> 'a fs_program" where
  "nonce_doc F ns n f = at_doc F (ns @ ''/v1/nonces/'' @ nonce n) f"

text \<open>\<open>!expires_at || new Date().getTime() > expires_at.toMillis()\<close>.\<close>

definition fs_expired :: "int \<Rightarrow> obj \<Rightarrow> bool" where
  "fs_expired now item = (case num_attr item ''expires_at'' of None \<Rightarrow> True | Some e \<Rightarrow> num_lt e (num_int now))"

definition fs_nonce_save :: "fs_lib \<Rightarrow> string \<Rightarrow> nonce_rec \<Rightarrow> unit fs_program" where
  "fs_nonce_save F ns n =
     (case nonce_expires_in n of
        None \<Rightarrow> throwP (JsError ''nonce_expires_in is required when saving nonce'')
      | Some ttlMs \<Rightarrow> clock (\<lambda>now. at_time F (num_add (num_int now) ttlMs) (\<lambda>expires_at.
          nonce_doc F ns n (\<lambda>d. set_doc d [(''nonce'', nonce_json n), (''expires_at'', JNum expires_at)]))))"

definition fs_nonce_validate :: "fs_lib \<Rightarrow> string \<Rightarrow> nonce_rec \<Rightarrow> bool fs_program" where
  "fs_nonce_validate F ns n =
     nonce_doc F ns n (\<lambda>d. get_doc d (\<lambda>found.
       case found of
         None \<Rightarrow> retP False
       | Some item \<Rightarrow> clock (\<lambda>now. if fs_expired now item then delete_doc d (retP False) else retP True)))"

definition fs_nonce_revoke :: "fs_lib \<Rightarrow> string \<Rightarrow> nonce_rec \<Rightarrow> bool fs_program" where
  "fs_nonce_revoke F ns n =
     nonce_doc F ns n (\<lambda>d. bindP (request (Transact d remove_existing)) (\<lambda>r. retP (flag_of r)))"

text \<open>The clock is read in the body of the transaction.\<close>

definition take_live :: "int \<Rightarrow> obj option \<Rightarrow> exn + fs_write \<times> fs_result" where
  "take_live now doc =
     (case doc of
        None \<Rightarrow> Inr (KeepDoc, FsFlag False)
      | Some item \<Rightarrow> Inr (RemoveDoc, FsFlag (\<not> fs_expired now item)))"

definition fs_nonce_consume :: "fs_lib \<Rightarrow> string \<Rightarrow> nonce_rec \<Rightarrow> bool fs_program" where
  "fs_nonce_consume F ns n =
     nonce_doc F ns n (\<lambda>d. clock (\<lambda>now. bindP (request (Transact d (take_live now))) (\<lambda>r. retP (flag_of r))))"

subsection \<open>JWT identifiers\<close>

text \<open>The part that both stores share.\<close>

definition use_once :: "fs_lib \<Rightarrow> int \<Rightarrow> jsnum \<Rightarrow> obj \<Rightarrow> obj option \<Rightarrow> exn + fs_write \<times> fs_result" where
  "use_once F now ttlMs extra doc =
     (let held = (case doc of
            Some item \<Rightarrow> (case num_attr item ''expires_at'' of Some e \<Rightarrow> num_le (num_int now) e | None \<Rightarrow> False)
          | None \<Rightarrow> False) in
      if held then Inr (KeepDoc, FsFlag False)
      else case fromMillis F (num_add (num_int now) ttlMs) of
        Inl e \<Rightarrow> Inl e
      | Inr expires_at \<Rightarrow>
          (case fromMillis F (num_int now) of
             Inl e \<Rightarrow> Inl e
           | Inr created_at \<Rightarrow>
               Inr (WriteDoc (extra @ [(''expires_at'', JNum expires_at), (''created_at'', JNum created_at)]), FsFlag True)))"

definition fs_use :: "fs_lib \<Rightarrow> string \<Rightarrow> jsnum \<Rightarrow> obj \<Rightarrow> bool fs_program" where
  "fs_use F path ttlMs extra =
     clock (\<lambda>now. at_doc F path (\<lambda>d.
       bindP (request (Transact d (use_once F now ttlMs extra))) (\<lambda>r. retP (flag_of r))))"

definition fs_dpop_saveIfAbsent ::
  "fs_lib \<Rightarrow> (string \<Rightarrow> string) \<Rightarrow> string \<Rightarrow> jsnum option \<Rightarrow> string \<Rightarrow> string \<Rightarrow> jsnum option \<Rightarrow> bool fs_program" where
  "fs_dpop_saveIfAbsent F sha ns expiresIn thumbprint jti ttlMs =
     fs_use F (ns @ ''/v1/dpopProofJtis/'' @ sha (dpop_jti_key thumbprint jti))
       (getOr (getOr DEFAULT_DPOP_PROOF_JTI_TTL_MS expiresIn) ttlMs)
       [(''jwk_thumbprint'', JStr thumbprint), (''jti'', JStr jti)]"

definition fs_oauth_saveIfAbsent ::
  "fs_lib \<Rightarrow> (string \<Rightarrow> string) \<Rightarrow> string \<Rightarrow> jsnum option \<Rightarrow> string \<Rightarrow> string \<Rightarrow> jsnum option \<Rightarrow> bool fs_program" where
  "fs_oauth_saveIfAbsent F sha ns expiresIn clientId jti ttlMs =
     fs_use F (ns @ ''/v1/oauthClientAssertionJtis/'' @ sha (oauth_jti_key clientId jti))
       (getOr (getOr DEFAULT_OAUTH_CLIENT_ASSERTION_JTI_TTL_MS expiresIn) ttlMs)
       [(''client_id'', JStr clientId), (''jti'', JStr jti)]"

subsection \<open>Allowed credential configurations\<close>

definition allowed_doc :: "fs_lib \<Rightarrow> string \<Rightarrow> string \<Rightarrow> (string \<Rightarrow> 'a fs_program) \<Rightarrow> 'a fs_program" where
  "allowed_doc F ns h f = at_doc F (ns @ ''/v1/allowedCredentialConfigurations/'' @ h) f"

definition fs_allowed_save ::
  "fs_lib \<Rightarrow> string \<Rightarrow> jsnum option \<Rightarrow> string \<Rightarrow> string list \<Rightarrow> jsnum option \<Rightarrow> unit fs_program" where
  "fs_allowed_save F ns expiresIn accessTokenHash ids ttl =
     clock (\<lambda>now. allowed_doc F ns accessTokenHash (\<lambda>d.
       at_time F (num_int (now + ttl_sec (Some (getOr (getOr (Fin 300) expiresIn) ttl)) * 1000)) (\<lambda>expires_at.
       at_time F (num_int now) (\<lambda>created_at.
         set_doc d [(''credential_configuration_ids'', JStrs ids), (''expires_at'', JNum expires_at),
           (''created_at'', JNum created_at)]))))"

text \<open>A document without a time of expiry is read with an error.\<close>

definition fs_allowed_fetch :: "fs_lib \<Rightarrow> string \<Rightarrow> string \<Rightarrow> jsval option fs_program" where
  "fs_allowed_fetch F ns accessTokenHash =
     allowed_doc F ns accessTokenHash (\<lambda>d. get_doc d (\<lambda>found.
       case found of
         None \<Rightarrow> retP None
       | Some item \<Rightarrow>
           (case num_attr item ''expires_at'' of
              None \<Rightarrow> throwP (JsError ''TypeError'')
            | Some e \<Rightarrow> clock (\<lambda>now. if num_lt e (num_int now) then delete_doc d (retP None)
                else retP (oget item ''credential_configuration_ids'')))))"

definition fs_allowed_delete :: "fs_lib \<Rightarrow> string \<Rightarrow> string \<Rightarrow> unit fs_program" where
  "fs_allowed_delete F ns accessTokenHash = allowed_doc F ns accessTokenHash (\<lambda>d. delete_doc d (retP ()))"

subsection \<open>Request objects\<close>

definition request_doc :: "fs_lib \<Rightarrow> string \<Rightarrow> string \<Rightarrow> (string \<Rightarrow> 'a fs_program) \<Rightarrow> 'a fs_program" where
  "request_doc F ns k f = at_doc F (ns @ ''/v1/requestObjects/'' @ k) f"

definition serialize_request :: "fs_lib \<Rightarrow> obj \<Rightarrow> obj" where
  "serialize_request F requestObject =
     filter (\<lambda>(k, v). k \<noteq> ''dcql_query'') requestObject @
     opt_member ''dcql_query'' (map_option (\<lambda>q. JStr (stringify F q)) (oget requestObject ''dcql_query''))"

definition deserialize_request :: "fs_lib \<Rightarrow> obj \<Rightarrow> exn + obj" where
  "deserialize_request F raw =
     (case oget raw ''dcql_query'' of
        Some (JStr q) \<Rightarrow> map_sum id (oset raw ''dcql_query'') (parse_text F q)
      | _ \<Rightarrow> Inl (JsError ''SyntaxError''))"

definition fs_request_save :: "fs_lib \<Rightarrow> string \<Rightarrow> jsnum option \<Rightarrow> string \<Rightarrow> obj \<Rightarrow> unit fs_program" where
  "fs_request_save F ns expiresIn k requestObject =
     clock (\<lambda>now. at_time F (num_add (num_int now) (getOr (Fin 300000) expiresIn)) (\<lambda>expires_at.
       request_doc F ns k (\<lambda>d.
         set_doc d [(''requestObject'', JObj (serialize_request F requestObject)), (''expires_at'', JNum expires_at)])))"

definition fs_request_fetch :: "fs_lib \<Rightarrow> string \<Rightarrow> string \<Rightarrow> obj option fs_program" where
  "fs_request_fetch F ns k =
     request_doc F ns k (\<lambda>d. get_doc d (\<lambda>found.
       case found of
         None \<Rightarrow> retP None
       | Some item \<Rightarrow>
           (case num_attr item ''expires_at'' of
              None \<Rightarrow> throwP (JsError ''TypeError'')
            | Some e \<Rightarrow> clock (\<lambda>now. if num_lt e (num_int now) then delete_doc d (retP None)
                else case oget item ''requestObject'' of
                  Some (JObj raw) \<Rightarrow> bindP (liftP (deserialize_request F raw)) (\<lambda>ob. retP (Some ob))
                | _ \<Rightarrow> throwP (JsError ''TypeError'')))))"

definition fs_request_delete :: "fs_lib \<Rightarrow> string \<Rightarrow> string \<Rightarrow> unit fs_program" where
  "fs_request_delete F ns k = request_doc F ns k (\<lambda>d. delete_doc d (retP ()))"

subsection \<open>Transactions\<close>

text \<open>\<open>/^[A-Za-z0-9_-]+$/\<close>.\<close>

definition safe_char :: "char \<Rightarrow> bool" where
  "safe_char c \<longleftrightarrow> 65 \<le> code c \<and> code c \<le> 90 \<or> 97 \<le> code c \<and> code c \<le> 122 \<or> 48 \<le> code c \<and> code c \<le> 57 \<or>
     c = CHR ''_'' \<or> c = CHR ''-''"

definition ensureSafeTransactionId :: "string \<Rightarrow> exn + string" where
  "ensureSafeTransactionId transactionId =
     (if transactionId \<noteq> [] \<and> list_all safe_char transactionId then Inr transactionId
      else Inl (JsError ''Invalid transaction ID''))"

definition transaction_doc :: "fs_lib \<Rightarrow> string \<Rightarrow> string \<Rightarrow> (string \<Rightarrow> 'a fs_program) \<Rightarrow> 'a fs_program" where
  "transaction_doc F ns k f = at_doc F (ns @ ''/v1/verifierTransactions/'' @ k) f"

definition fs_transaction_data :: "fs_lib \<Rightarrow> string \<Rightarrow> TransactionRecord \<Rightarrow> jsnum \<Rightarrow> obj" where
  "fs_transaction_data F transactionId r expires_at =
     [(''transaction_id'', JStr transactionId), (''transaction_data_expires_at'', JNum expires_at),
      (''dcqlQuery'', JStr (stringify F (JObj [(''dcql_query'', dq_json (tr_dcqlQuery r))]))),
      (''clientId'', JStr (tr_clientId r)), (''verifierId'', JStr (tr_verifierId r))] @
     opt_member ''state'' (map_option JStr (tr_state r)) @ [(''nonce'', JStr (tr_nonce r))]"

definition fs_transaction_save :: "fs_lib \<Rightarrow> string \<Rightarrow> jsnum option \<Rightarrow> string \<Rightarrow> TransactionRecord \<Rightarrow> unit fs_program" where
  "fs_transaction_save F ns expire_in transactionId r =
     bindP (liftP (ensureSafeTransactionId transactionId)) (\<lambda>safe.
     clock (\<lambda>now. at_time F (num_add (num_int now) (getOr DEFAULT_TRANSACTION_EXPIRE_IN_MS expire_in)) (\<lambda>expires_at.
       transaction_doc F ns safe (\<lambda>d. set_doc d (fs_transaction_data F transactionId r expires_at)))))"

text \<open>The document with its query parsed, as the schema of transactions sees it.\<close>

definition fs_transaction_of :: "ext \<Rightarrow> vlib \<Rightarrow> fs_lib \<Rightarrow> string \<Rightarrow> jsnum \<Rightarrow> obj \<Rightarrow> exn + Transaction" where
  "fs_transaction_of X V F transactionId expires_at data =
     (case oget data ''dcqlQuery'' of
        Some (JStr q) \<Rightarrow>
          (case parse_text F q of
             Inl e \<Rightarrow> Inl e
           | Inr query \<Rightarrow> transaction_of_item X V transactionId expires_at (oset data ''dcqlQuery'' query))
      | _ \<Rightarrow> Inl (JsError ''SyntaxError''))"

definition fs_transaction_fetch :: "ext \<Rightarrow> vlib \<Rightarrow> fs_lib \<Rightarrow> string \<Rightarrow> string \<Rightarrow> Transaction option fs_program" where
  "fs_transaction_fetch X V F ns transactionId =
     bindP (liftP (ensureSafeTransactionId transactionId)) (\<lambda>safe.
     transaction_doc F ns safe (\<lambda>d. get_doc d (\<lambda>found.
       case found of
         None \<Rightarrow> retP None
       | Some data \<Rightarrow>
           (case num_attr data ''transaction_data_expires_at'' of
              None \<Rightarrow> throwP (JsError ''TypeError'')
            | Some e \<Rightarrow> clock (\<lambda>now. if num_lt e (num_int now) then delete_doc d (retP None)
                else bindP (liftP (fs_transaction_of X V F transactionId e data)) (\<lambda>t. retP (Some t)))))))"

definition fs_transaction_delete :: "fs_lib \<Rightarrow> string \<Rightarrow> string \<Rightarrow> unit fs_program" where
  "fs_transaction_delete F ns transactionId =
     bindP (liftP (ensureSafeTransactionId transactionId)) (\<lambda>safe.
       transaction_doc F ns safe (\<lambda>d. delete_doc d (retP ())))"

subsection \<open>Verifier metadata\<close>

definition fs_verifier_metadata_save :: "fs_lib \<Rightarrow> (string \<Rightarrow> string) \<Rightarrow> string \<Rightarrow> string \<Rightarrow> VerifierMetadata \<Rightarrow> unit fs_program" where
  "fs_verifier_metadata_save F md5 ns verifier metadata =
     at_doc F (ns @ ''/v1/verifiers/'' @ md5 verifier) (\<lambda>d. merge_doc d (metadata_json metadata))"

definition fs_verifier_metadata_fetch ::
  "ext \<Rightarrow> fs_lib \<Rightarrow> (string \<Rightarrow> string) \<Rightarrow> string \<Rightarrow> string \<Rightarrow> VerifierMetadata option fs_program" where
  "fs_verifier_metadata_fetch X F md5 ns verifier =
     at_doc F (ns @ ''/v1/verifiers/'' @ md5 verifier) (\<lambda>d. get_doc d (\<lambda>found.
       case found of
         None \<Rightarrow> retP None
       | Some data \<Rightarrow> bindP (liftP (VerifierMetadata_parse X data)) (\<lambda>m. retP (Some m))))"

end
