(* ===== verification/Firestore_Codes.thy ===== *)
theory Firestore_Codes
  imports Firestore_Stores
begin

text \<open>
  Cloud Firestore as documented, and concurrent uses of its stores: a transaction on a document
  is atomic, so one of several requests for a code gets it, the guesses at its transaction
  code are counted, and an identifier is used once while it is retained.
\<close>

subsection \<open>Firestore as documented\<close>

type_synonym fs_docs = "string \<Rightarrow> obj option"

text \<open>A merge goes into maps; an empty map replaces the old one.\<close>

fun deep_merge :: "obj \<Rightarrow> obj \<Rightarrow> obj" and merge_value :: "jsval option \<Rightarrow> jsval \<Rightarrow> jsval" where
  "deep_merge old [] = old"
| "deep_merge old ((k, v) # new) = deep_merge (oset old k (merge_value (oget old k) v)) new"
| "merge_value (Some (JObj old)) (JObj (x # new)) = JObj (deep_merge old (x # new))"
| "merge_value old v = v"

fun fs_effect :: "fs_write \<Rightarrow> obj option \<Rightarrow> obj option" where
  "fs_effect KeepDoc doc = doc"
| "fs_effect (WriteDoc i) doc = Some i"
| "fs_effect (MergeIntoDoc i) doc = Some (deep_merge (getOr [] doc) i)"
| "fs_effect RemoveDoc doc = None"

fun fs_documented :: "fs_command \<Rightarrow> fs_docs \<Rightarrow> (exn + fs_result) \<times> fs_docs" where
  "fs_documented (DocGet d) m = (Inr (FsDoc (m d)), m)"
| "fs_documented (DocSet d i) m = (Inr FsDone, m(d \<mapsto> i))"
| "fs_documented (DocMerge d i) m = (Inr FsDone, m(d := fs_effect (MergeIntoDoc i) (m d)))"
| "fs_documented (DocDelete d) m = (Inr FsDone, m(d := None))"
| "fs_documented (Transact d f) m =
     (case f (m d) of
        Inl e \<Rightarrow> (Inl e, m)
      | Inr (w, r) \<Rightarrow> (Inr r, m(d := fs_effect w (m d))))"

text \<open>
  What the stores rely on: an answer is the documented one; any other error leaves open whether
  the request took effect; documents may go on their own (a policy for their time to live).
\<close>

locale firestore =
  fixes send :: "(fs_command, fs_result, 's) service" and docs :: "'s \<Rightarrow> fs_docs" and expire :: "'s \<Rightarrow> 's \<Rightarrow> bool"
  assumes answers: "send c s = (r, s') \<Longrightarrow>
       (r, docs s') = fs_documented c (docs s) \<or>
       (\<exists>e. r = Inl e \<and> docs s' \<in> {docs s, snd (fs_documented c (docs s))})"
    and drops: "expire s s' \<Longrightarrow> docs s' k = None \<or> docs s' k = docs s k"

locale firestore_available = firestore +
  assumes available: "send c s = (r, s') \<Longrightarrow> (r, docs s') = fs_documented c (docs s)"

interpretation collection: firestore_available fs_documented "\<lambda>m. m" "\<lambda>m m'. \<forall>k. m' k = None \<or> m' k = m k"
  by unfold_locales auto

context firestore_available begin

lemma doc_sendI: "\<exists>s'. send c s = (fst (fs_documented c (docs s)), s') \<and> docs s' = snd (fs_documented c (docs s))"
proof -
  obtain r s' where r: "send c s = (r, s')" by fastforce
  from available [OF r] show ?thesis using r by (metis fst_conv snd_conv)
qed

lemma alone_docs:
  "fst (alone send now p s) = fst (alone fs_documented now p (docs s)) \<and>
   docs (snd (alone send now p s)) = snd (alone fs_documented now p (docs s))"
proof (induction p arbitrary: s)
  case (Send c k)
  obtain s' where s': "send c s = (fst (fs_documented c (docs s)), s')" "docs s' = snd (fs_documented c (docs s))"
    using doc_sendI by blast
  then show ?case using Send [OF rangeI, of "fst (fs_documented c (docs s))" s'] by (simp add: case_prod_beta)
qed simp_all

end

subsection \<open>One caller gets a code\<close>

text \<open>The points of a \<open>consume\<close> of the document \<open>d\<close>, after the path was built.\<close>

definition fs_consuming :: "tx_hashing \<Rightarrow> int \<Rightarrow> string \<Rightarrow> jsval option fs_program \<Rightarrow> bool" where
  "fs_consuming H limit d p \<longleftrightarrow>
     (\<exists>tx. p = fs_consume_at H limit tx d) \<or> (\<exists>tx item. p = fs_admitted H limit d tx item) \<or>
     (\<exists>tx item. p = fs_compare H limit d tx item) \<or> (\<exists>item. p = fs_take d item) \<or>
     (\<exists>v. p = Done v) \<or> (\<exists>e. p = delete_doc d (throwP e))"

lemma bind_request_Send: "bindP (request c) f = Send c (\<lambda>r. case r of Inl e \<Rightarrow> Done (Inl e) | Inr x \<Rightarrow> f x)"
  by (simp add: request_def)

lemma fs_compare_cases:
  "fs_compare H limit d tx item = fs_take d item \<or>
   (\<exists>cd msg. fs_compare H limit d tx item = fs_lockout limit d item (raiseP cd msg))"
  by (auto simp: fs_compare_def Let_def split: option.splits tx_code.splits)

lemma fs_consume_sends:
  assumes "fs_consuming H limit d (Send cmd k)"
  shows "(cmd = Transact d (count_attempt limit) \<and> (\<forall>e. k (Inl e) = Done (Inl e)) \<and>
      (\<exists>tx. \<forall>x. k (Inr x) = (case doc_of x of None \<Rightarrow> throwP (JsError ''TypeError'') | Some item \<Rightarrow> fs_admitted H limit d tx item))) \<or>
    (cmd = Transact d remove_existing \<and> (\<forall>e. k (Inl e) = Done (Inl e)) \<and>
      (\<exists>item. \<forall>x. k (Inr x) = (if \<not> flag_of x then raiseP ''invalid_grant'' ''Pre-authorized code has already been consumed''
         else retP (oget item ''credential_configuration_ids'')))) \<or>
    (cmd = DocDelete d \<and> (\<forall>r. \<exists>e. k r = Done (Inl e)))"
proof -
  let ?D = "\<lambda>cmd k. cmd = DocDelete d \<and> (\<forall>r. \<exists>e. (k :: _ \<Rightarrow> jsval option fs_program) r = Done (Inl e))"
  have del: "?D cmd k" if "Send cmd k = delete_doc d (throwP e)" for e
    using that by (auto simp: delete_doc_def bind_request_Send throwP_def split: sum.splits)
  have lock: "?D cmd k" if "Send cmd k = fs_lockout limit d item (raiseP cd msg)" for item cd msg
    using that del by (auto simp: fs_lockout_def raiseP_def throwP_def split: if_splits)
  have adm: "?D cmd k" if "Send cmd k = fs_admitted H limit d tx item" for tx item
    using that by (auto simp: fs_admitted_def clock_def throwP_def split: option.splits)
  have taken: "cmd = Transact d remove_existing \<and> (\<forall>e. k (Inl e) = Done (Inl e)) \<and>
      (\<exists>item. \<forall>x. k (Inr x) = (if \<not> flag_of x then raiseP ''invalid_grant'' ''Pre-authorized code has already been consumed''
         else retP (oget item ''credential_configuration_ids'')))" if "Send cmd k = fs_take d item" for item
    using that by (auto simp: fs_take_def bind_request_Send)
  consider (consume) tx where "Send cmd k = fs_consume_at H limit tx d"
    | (admitted) tx item where "Send cmd k = fs_admitted H limit d tx item"
    | (compare) tx item where "Send cmd k = fs_compare H limit d tx item"
    | (take) item where "Send cmd k = fs_take d item"
    | (fail) e where "Send cmd k = delete_doc d (throwP e)"
    using assms by (auto simp: fs_consuming_def)
  then show ?thesis
  proof cases
    case (consume tx)
    then show ?thesis by (auto simp: fs_consume_at_def bind_request_Send)
  next
    case (compare tx item)
    from fs_compare_cases [of H limit d tx item] show ?thesis
    proof (elim disjE exE)
      assume "fs_compare H limit d tx item = fs_take d item"
      then show ?thesis using taken [of item] compare by (intro disjI2 [OF disjI1]) simp
    next
      fix cd msg assume "fs_compare H limit d tx item = fs_lockout limit d item (raiseP cd msg)"
      then show ?thesis using lock [of item cd msg] compare by (intro disjI2 [OF disjI2]) simp
    qed
  next
    case (take item)
    from taken [OF this] show ?thesis by (rule disjI2 [OF disjI1])
  next
    case (admitted tx item)
    from adm [OF this] show ?thesis by (rule disjI2 [OF disjI2])
  next
    case (fail e)
    from del [OF this] show ?thesis by (rule disjI2 [OF disjI2])
  qed
qed

lemma fs_consume_clock:
  assumes "fs_consuming H limit d (Clock q)"
  shows "(\<exists>e. q t = delete_doc d (throwP e)) \<or> (\<exists>tx item. q t = fs_compare H limit d tx item)"
proof -
  have "Clock q \<noteq> fs_compare H limit d tx item" for tx item
    using fs_compare_cases [of H limit d tx item]
    by (auto simp: fs_take_def fs_lockout_def delete_doc_def bind_request_Send raiseP_def throwP_def split: if_splits)
  then obtain tx item where "Clock q = fs_admitted H limit d tx item"
    using assms by (auto simp: fs_consuming_def fs_consume_at_def fs_take_def delete_doc_def bind_request_Send)
  then obtain e where "q = (\<lambda>now. if num_le e (num_int now) then delete_doc d (raiseP ''invalid_grant'' ''Pre-authorized code has expired'')
      else fs_compare H limit d tx item)"
    by (auto simp: fs_admitted_def clock_def throwP_def split: option.splits)
  then show ?thesis by (auto simp: raiseP_def)
qed

lemma fs_consuming_kept:
  assumes "fs_consuming H limit d (Send cmd k)"
  shows "fs_consuming H limit d (k r)"
proof -
  have ends: "fs_consuming H limit d (throwP e)" "fs_consuming H limit d (raiseP cd msg)" "fs_consuming H limit d (retP v)"
      "fs_consuming H limit d (Done u)" "fs_consuming H limit d (fs_admitted H limit d tx item)" for e cd msg v u tx item
    by (auto simp: fs_consuming_def throwP_def raiseP_def retP_def)
  show ?thesis
    using fs_consume_sends [OF assms]
  proof (elim disjE conjE exE)
    assume "\<forall>r. \<exists>e. k r = Done (Inl e)"
    then show ?thesis using ends by metis
  qed (cases r; simp add: ends split: option.split)+
qed

lemma fs_not_won:
  "\<not> won win (fs_compare H limit d tx item)" "\<not> won win (fs_admitted H limit d tx item)" "\<not> won win (delete_doc d q)"
  "\<not> won win (fs_consume_at H limit tx d)"
  using fs_compare_cases [of H limit d tx item]
  by (auto simp: fs_take_def fs_lockout_def fs_admitted_def delete_doc_def fs_consume_at_def bind_request_Send split: if_splits option.splits)

sublocale firestore \<subseteq> codes: single_winner send expire "\<lambda>t. True" "\<lambda>x. True" "\<lambda>s. docs s d \<noteq> None" "fs_consuming H limit d"
  "won (\<lambda>_. True)" for H limit d
proof unfold_locales
  fix cmd k s r s'
  assume f: "fs_consuming H limit d (Send cmd k)" and sd: "send cmd s = (r, s')"
  show "fs_consuming H limit d (k r)" using f by (rule fs_consuming_kept)
  have cmd: "cmd = Transact d (count_attempt limit) \<or> cmd = Transact d remove_existing \<or> cmd = DocDelete d"
    using fs_consume_sends [OF f] by blast
  show "docs s d \<noteq> None" if t: "docs s' d \<noteq> None"
  proof (rule ccontr)
    assume n: "\<not> docs s d \<noteq> None"
    then have "snd (fs_documented cmd (docs s)) d = None"
      using cmd by (auto simp: count_attempt_def remove_existing_def)
    then show False using answers [OF sd] t n by (metis insertE singletonD snd_conv)
  qed
  show "docs s d \<noteq> None \<and> \<not> docs s' d \<noteq> None" if w: "won (\<lambda>_. True) (k r)"
  proof -
    have "cmd = Transact d remove_existing \<and> (\<exists>x. r = Inr x \<and> flag_of x)"
      using fs_consume_sends [OF f]
    proof (elim disjE conjE exE)
      fix tx assume "\<forall>e. k (Inl e) = Done (Inl e)"
        "\<forall>x. k (Inr x) = (case doc_of x of None \<Rightarrow> throwP (JsError ''TypeError'') | Some item \<Rightarrow> fs_admitted H limit d tx item)"
      then have "\<not> won (\<lambda>_. True) (k r)" by (cases r) (simp_all add: fs_not_won split: option.split)
      then show ?thesis using w by simp
    next
      fix item assume "cmd = Transact d remove_existing" "\<forall>e. k (Inl e) = Done (Inl e)"
        "\<forall>x. k (Inr x) = (if \<not> flag_of x then raiseP ''invalid_grant'' ''Pre-authorized code has already been consumed''
           else retP (oget item ''credential_configuration_ids''))"
      then show ?thesis using w by (cases r) (auto split: if_splits)
    next
      assume "\<forall>r. \<exists>e. k r = Done (Inl e)"
      then obtain e where "k r = Done (Inl e)" by blast
      then show ?thesis using w by simp
    qed
    then show ?thesis using answers [OF sd] by (auto simp: remove_existing_def flag_of_def split: if_splits)
  qed
next
  fix q t assume f: "fs_consuming H limit d (Clock q)"
  show "fs_consuming H limit d (q t)" using fs_consume_clock [OF f, of t] unfolding fs_consuming_def by blast
  show "won (\<lambda>_. True) (Clock q)" if "won (\<lambda>_. True) (q t)"
    using that fs_consume_clock [OF f, of t] fs_not_won by metis
next
  fix s s' assume "expire s s'" "docs s' d \<noteq> None"
  then show "docs s d \<noteq> None" using drops [of s s' d] by metis
qed simp_all

subsection \<open>The number of guesses\<close>

text \<open>A transaction code is compared only after a transaction that counted the attempt.\<close>

definition fs_admits :: "string \<Rightarrow> fs_command \<times> (exn + fs_result) \<Rightarrow> bool" where
  "fs_admits d e = (case e of (Transact d' f, Inr (FsDoc x)) \<Rightarrow> d' = d | _ \<Rightarrow> False)"

definition fs_guesses :: "string \<Rightarrow> (fs_command \<times> (exn + fs_result)) list \<Rightarrow> nat" where
  "fs_guesses d tr = length (filter (fs_admits d) tr)"

lemma fs_guesses_snoc: "fs_guesses d (tr @ [e]) = fs_guesses d tr + (if fs_admits d e then 1 else 0)"
  by (simp add: fs_guesses_def)

definition counted_to :: "nat \<Rightarrow> obj \<Rightarrow> bool" where
  "counted_to n item \<longleftrightarrow> (\<exists>a. getOr (num_int 0) (num_attr item ''attempts'') = Fin a \<and> of_nat n \<le> a)"

lemma merge_attempts:
  "num_attr (deep_merge item [(''attempts'', JNum a)]) ''attempts'' = Some a"
  by (simp add: num_attr_def)

context firestore begin

lemma fs_gate:
  assumes "send (Transact d (count_attempt limit)) s = (Inr x, s')" and "docs s d = Some i" and "counted_to n i"
  shows "int (Suc n) \<le> limit \<and> (\<exists>i'. docs s' d = Some i' \<and> counted_to (Suc n) i')"
proof -
  obtain a where a: "getOr (num_int 0) (num_attr i ''attempts'') = Fin a" "of_nat n \<le> a" using assms(3) by (auto simp: counted_to_def)
  have "(Inr x, docs s') = fs_documented (Transact d (count_attempt limit)) (docs s)" using answers [OF assms(1)] by auto
  then have lt: "a < of_int limit" and d: "docs s' d = Some (deep_merge i [(''attempts'', JNum (Fin (a + 1)))])"
    using assms(2) a(1) by (auto simp: count_attempt_def Let_def split: if_splits)
  have "rat_of_int (int n) < rat_of_int limit" using a(2) lt by simp
  then have "int (Suc n) \<le> limit" by (simp only: of_int_less_iff)
  moreover have "counted_to (Suc n) (deep_merge i [(''attempts'', JNum (Fin (a + 1)))])"
    unfolding counted_to_def merge_attempts using a(2) by simp
  ultimately show ?thesis using d by blast
qed

lemma fs_counter_kept:
  assumes "send cmd s = (r, s')" and "cmd = Transact d (count_attempt limit) \<or> cmd = Transact d remove_existing \<or> cmd = DocDelete d"
    and "\<And>i. docs s d = Some i \<Longrightarrow> counted_to n i" and "docs s' d = Some i"
  shows "counted_to n i"
proof -
  have a: "docs s' = docs s \<or> docs s' = snd (fs_documented cmd (docs s))"
    using answers [OF assms(1)] by (auto dest: arg_cong [where f = snd])
  have b: "counted_to n (deep_merge i [(''attempts'', JNum (num_add (getOr (num_int 0) (num_attr i ''attempts'')) (num_int 1)))])"
    if i: "docs s d = Some i" for i
  proof -
    obtain x where "getOr (num_int 0) (num_attr i ''attempts'') = Fin x" "of_nat n \<le> x" using assms(3) [OF i] by (auto simp: counted_to_def)
    then show ?thesis unfolding counted_to_def merge_attempts by simp
  qed
  show ?thesis
    using a assms(2-4) b
    by (auto simp: count_attempt_def remove_existing_def Let_def simp del: deep_merge.simps split: option.splits if_splits)
qed

lemma fs_one_winner:
  assumes "together send expire (\<lambda>t. True) (s0, ps0) tr (s, ps)" and "\<forall>p \<in> set ps0. fs_consuming H limit d p"
    and "holders (won (\<lambda>_. True)) ps0 = 0"
  shows "winners (\<lambda>_. True) ps + (if docs s d \<noteq> None then 1 else 0) \<le> 1"
  by (rule codes.at_most_one_winner [OF assms])

lemma fs_guesses_bounded:
  assumes "together send expire (\<lambda>t. True) (s0, ps0) tr (s, ps)" and start: "\<forall>p \<in> set ps0. fs_consuming H limit d p"
    and item: "docs s0 d = Some i0" "num_attr i0 ''attempts'' = None" and "1 \<le> limit"
  shows "int (fs_guesses d tr) \<le> limit \<and> (\<forall>i. docs s d = Some i \<longrightarrow> counted_to (fs_guesses d tr) i)"
  using assms(1)
proof (induction tr "(s, ps)" arbitrary: s ps rule: together.induct)
  case begin_together
  then show ?case using item \<open>1 \<le> limit\<close> by (simp add: fs_guesses_def counted_to_def)
next
  case (answer tr s ps j cmd k r s')
  have f: "fs_consuming H limit d (Send cmd k)"
    using codes.forms_kept [OF answer(1) start] answer(3,4) by (metis nth_mem)
  have cmd: "cmd = Transact d (count_attempt limit) \<or> cmd = Transact d remove_existing \<or> cmd = DocDelete d"
    using fs_consume_sends [OF f] by blast
  show ?case
  proof (cases "fs_admits d (cmd, r)")
    case False
    then show ?thesis using fs_counter_kept [OF answer(5) cmd] answer(2) by (auto simp: fs_guesses_snoc)
  next
    case True
    then obtain x where x: "r = Inr (FsDoc x)" by (auto simp: fs_admits_def split: fs_command.splits sum.splits fs_result.splits)
    have doc: "(r, docs s') = fs_documented cmd (docs s)" using answers [OF answer(5)] x by auto
    have c: "cmd = Transact d (count_attempt limit)"
      using cmd True doc x by (auto simp: fs_admits_def remove_existing_def split: if_splits)
    then obtain i where "docs s d = Some i" using doc x by (cases "docs s d") (auto simp: count_attempt_def)
    then show ?thesis
      using fs_gate [of d limit s "FsDoc x" s' i "fs_guesses d tr"] answer(2,5) c x True by (auto simp: fs_guesses_snoc)
  qed
next
  case (idle tr s ps s')
  then show ?case using drops [of s s' d] by auto
qed simp

end


definition plain_fs :: fs_lib where
  "plain_fs = \<lparr>fs_doc = Inr, fromMillis = Inr, stringify = (\<lambda>v. ''{}''), parse_text = (\<lambda>s. Inr JNull)\<rparr>"

definition sample_code_data :: obj where
  "sample_code_data = fs_code_data ''c1'' [''degree''] Numeric (num_int 9000) (Some (hashTxCode sample_hashing (TxStr ''42'')))"


end
