(* ===== verification/Firestore_Uses.thy ===== *)
theory Firestore_Uses
  imports Firestore_Codes Dynamo_Store_Refinement
begin

text \<open>
  The Firestore stores of used JWT identifiers under concurrent requests, and the stores of
  nonces, allowed configurations and transactions against the in-memory ones.
\<close>

subsection \<open>Paths of documents\<close>

definition in_collection :: "string \<Rightarrow> string \<Rightarrow> string \<Rightarrow> string" where
  "in_collection ns coll k = ns @ ''/v1/'' @ coll @ ''/'' @ k"

lemma in_collection_inject [simp]: "in_collection ns coll k = in_collection ns coll k' \<longleftrightarrow> k = k'"
  by (simp add: in_collection_def)

text \<open>The documented limits on identifiers, and paths that the library takes.\<close>

definition document_id :: "string \<Rightarrow> bool" where
  "document_id k \<longleftrightarrow>
     k \<noteq> [] \<and> CHR ''/'' \<notin> set k \<and> k \<notin> {''.'', ''..''} \<and> \<not> (take 2 k = ''__'' \<and> take 2 (rev k) = ''__'')"

definition takes_ids :: "fs_lib \<Rightarrow> string \<Rightarrow> bool" where
  "takes_ids F ns \<longleftrightarrow>
     (\<forall>coll k. document_id coll \<and> document_id k \<longrightarrow> fs_doc F (in_collection ns coll k) = Inr (in_collection ns coll k))"

lemma at_doc_id:
  "takes_ids F ns \<Longrightarrow> document_id coll \<Longrightarrow> document_id k \<Longrightarrow> at_doc F (in_collection ns coll k) f = f (in_collection ns coll k)"
  by (simp add: takes_ids_def at_doc_def liftP_def)

lemma collections:
  "document_id ''preCodes''" "document_id ''nonces''" "document_id ''allowedCredentialConfigurations''"
  "document_id ''dpopProofJtis''" "document_id ''oauthClientAssertionJtis''" "document_id ''verifierTransactions''"
  "document_id ''verifiers''" "document_id ''requestObjects''"
  by (simp_all add: document_id_def)

lemma collection_paths:
  "code_doc F ns c f = at_doc F (in_collection ns ''preCodes'' c) f"
  "nonce_doc F ns n g = at_doc F (in_collection ns ''nonces'' (nonce n)) g"
  "allowed_doc F ns h g = at_doc F (in_collection ns ''allowedCredentialConfigurations'' h) g"
  "transaction_doc F ns k q = at_doc F (in_collection ns ''verifierTransactions'' k) q"
  by (simp_all add: code_doc_def nonce_doc_def allowed_doc_def transaction_doc_def in_collection_def)

lemma jti_paths:
  "fs_dpop_saveIfAbsent F sha ns expiresIn client jti (Some ttl) =
     fs_use F (in_collection ns ''dpopProofJtis'' (sha (dpop_jti_key client jti))) ttl
       [(''jwk_thumbprint'', JStr client), (''jti'', JStr jti)]"
  "fs_oauth_saveIfAbsent F sha ns expiresIn client jti (Some ttl) =
     fs_use F (in_collection ns ''oauthClientAssertionJtis'' (sha (oauth_jti_key client jti))) ttl
       [(''client_id'', JStr client), (''jti'', JStr jti)]"
  by (simp_all add: fs_dpop_saveIfAbsent_def fs_oauth_saveIfAbsent_def in_collection_def)

subsection \<open>An identifier is used once\<close>

definition unexpired :: "int \<Rightarrow> obj \<Rightarrow> bool" where
  "unexpired t i = (case num_attr i ''expires_at'' of Some e \<Rightarrow> num_le (num_int t) e | None \<Rightarrow> False)"

definition alive_at :: "fs_docs \<Rightarrow> string \<Rightarrow> int \<Rightarrow> bool" where
  "alive_at m d t = (case m d of Some i \<Rightarrow> unexpired t i | None \<Rightarrow> False)"

lemma unexpired_before: "unexpired until i \<Longrightarrow> now \<le> until \<Longrightarrow> unexpired now i"
proof -
  have "num_le (num_int until) e \<Longrightarrow> now \<le> until \<Longrightarrow> num_le (num_int now) e" for e
    by (cases e) (auto simp: num_le_def)
  then show "unexpired until i \<Longrightarrow> now \<le> until \<Longrightarrow> unexpired now i" by (auto simp: unexpired_def split: option.splits)
qed

text \<open>Documents stay until they expire, up to the instant \<open>until\<close>.\<close>

locale firestore_retains = firestore +
  fixes until :: int
  assumes retains: "expire s s' \<Longrightarrow> alive_at (docs s) d until \<Longrightarrow> docs s' d = docs s d"

text \<open>Time stamps keep whole milliseconds.\<close>

definition whole_millis :: "fs_lib \<Rightarrow> bool" where
  "whole_millis F \<longleftrightarrow> (\<forall>x. fromMillis F (num_int x) = Inr (num_int x))"

definition use_request :: "fs_lib \<Rightarrow> int \<Rightarrow> int \<Rightarrow> obj \<Rightarrow> string \<Rightarrow> bool fs_program" where
  "use_request F now ttl extra d = bindP (request (Transact d (use_once F now (num_int ttl) extra))) (\<lambda>r. retP (flag_of r))"

definition fs_using :: "fs_lib \<Rightarrow> string \<Rightarrow> int \<Rightarrow> int \<Rightarrow> string \<Rightarrow> bool fs_program \<Rightarrow> bool" where
  "fs_using F path since until d p \<longleftrightarrow>
     whole_millis F \<and> fs_doc F path = Inr d \<and>
     ((\<exists>ttl extra. p = fs_use F path (num_int ttl) extra \<and> until - since \<le> ttl \<and> oget extra ''expires_at'' = None) \<or>
      (\<exists>now ttl extra. p = use_request F now ttl extra d \<and> until \<le> now + ttl \<and> now \<le> until \<and> oget extra ''expires_at'' = None) \<or>
      (\<exists>v. p = Done v))"

lemma fs_use_Clock:
  assumes "whole_millis F" and "fs_doc F path = Inr d"
  shows "fs_use F path (num_int ttl) extra = Clock (\<lambda>now. use_request F now ttl extra d)"
  using assms by (simp add: fs_use_def clock_def at_doc_def liftP_def use_request_def)

text \<open>A retained identifier is refused; a new one is recorded for its life time.\<close>

lemma use_once_alive: "unexpired until i \<Longrightarrow> now \<le> until \<Longrightarrow> use_once F now ttl extra (Some i) = Inr (KeepDoc, FsFlag False)"
  using unexpired_before by (fastforce simp: use_once_def unexpired_def split: option.splits)

lemma use_once_records:
  assumes "whole_millis F" and "oget extra ''expires_at'' = None" and "until \<le> now + ttl"
    and "use_once F now (num_int ttl) extra doc = Inr (w, r)" and "flag_of r"
  shows "\<exists>i. w = WriteDoc i \<and> unexpired until i"
proof -
  let ?held = "case doc of Some item \<Rightarrow> (case num_attr item ''expires_at'' of Some e \<Rightarrow> num_le (num_int now) e | None \<Rightarrow> False) | None \<Rightarrow> False"
  have t: "fromMillis F (num_add (num_int now) (num_int ttl)) = Inr (num_int (now + ttl))" "fromMillis F (num_int now) = Inr (num_int now)"
    using assms(1) by (simp_all add: whole_millis_def flip: of_int_add)
  have "\<not> ?held" using assms(4,5) by (auto simp: use_once_def flag_of_def)
  then have "w = WriteDoc (extra @ [(''expires_at'', JNum (num_int (now + ttl))), (''created_at'', JNum (num_int now))])"
    using assms(4) t unfolding use_once_def Let_def by (simp del: num_add.simps)
  moreover have "unexpired until (extra @ [(''expires_at'', JNum (num_int (now + ttl))), (''created_at'', JNum (num_int now))])"
    using assms(2,3) by (simp add: unexpired_def num_attr_def oget_append)
  ultimately show ?thesis by blast
qed

lemma fs_using_Send:
  assumes "fs_using F path since until d (Send c k)"
  obtains now ttl extra where "whole_millis F" "c = Transact d (use_once F now (num_int ttl) extra)" "until \<le> now + ttl" "now \<le> until"
    "oget extra ''expires_at'' = None" "\<And>e. k (Inl e) = Done (Inl e)" "\<And>x. k (Inr x) = Done (Inr (flag_of x))"
  using assms fs_use_Clock by (auto simp: fs_using_def use_request_def bind_request_Send retP_def)

lemma fs_using_Done: "fs_using F path since until d (Send c k) \<Longrightarrow> fs_using F path since until d (Done v)"
  by (simp add: fs_using_def)

sublocale firestore_retains \<subseteq> uses: single_winner send expire "\<lambda>t. since \<le> t \<and> t \<le> until" id
  "\<lambda>s. \<not> alive_at (docs s) d until" "fs_using F path since until d" "won id" for F path since d
proof unfold_locales
  fix c k s r s'
  assume f: "fs_using F path since until d (Send c k)" and sd: "send c s = (r, s')"
  obtain now ttl extra where c: "whole_millis F" "c = Transact d (use_once F now (num_int ttl) extra)" "until \<le> now + ttl" "now \<le> until"
      "oget extra ''expires_at'' = None" and k: "\<And>e. k (Inl e) = Done (Inl e)" "\<And>x. k (Inr x) = Done (Inr (flag_of x))"
    using fs_using_Send [OF f] by metis
  show "fs_using F path since until d (k r)" using k fs_using_Done [OF f] by (cases r) simp_all
  have kept: "snd (fs_documented c (docs s)) d = docs s d" if "alive_at (docs s) d until"
    using that c(2,4) use_once_alive by (auto simp: alive_at_def split: option.splits)
  show "\<not> alive_at (docs s) d until" if "\<not> alive_at (docs s') d until"
    using that kept answers [OF sd] unfolding alive_at_def by (metis insertE singletonD snd_conv)
  show "\<not> alive_at (docs s) d until \<and> \<not> \<not> alive_at (docs s') d until" if w: "won id (k r)"
  proof -
    obtain x where x: "r = Inr x" "flag_of x" using w k by (cases r) auto
    then have doc: "(Inr x, docs s') = fs_documented c (docs s)" using answers [OF sd] by auto
    then obtain wr where u: "use_once F now (num_int ttl) extra (docs s d) = Inr (wr, x)" "docs s' = (docs s)(d := fs_effect wr (docs s d))"
      using c(2) by (auto split: sum.splits prod.splits)
    have "\<not> alive_at (docs s) d until"
      using u(1) x(2) use_once_alive [OF _ c(4)] by (auto simp: alive_at_def flag_of_def split: option.splits)
    then show ?thesis using use_once_records [OF c(1,5,3) u(1) x(2)] u(2) by (auto simp: alive_at_def)
  qed
next
  fix q t assume f: "fs_using F path since until d (Clock q)" and t: "since \<le> t \<and> t \<le> until"
  then obtain ttl extra where q: "whole_millis F" "fs_doc F path = Inr d" "Clock q = fs_use F path (num_int ttl) extra"
      "until - since \<le> ttl" "oget extra ''expires_at'' = None"
    by (auto simp: fs_using_def use_request_def bind_request_Send)
  then have e: "q t = use_request F t ttl extra d" by (simp add: fs_use_Clock)
  show "fs_using F path since until d (q t)"
    unfolding fs_using_def e using q t by (intro conjI disjI2 [OF disjI1] exI [of _ t] exI [of _ ttl] exI [of _ extra]) auto
  show "won id (Clock q)" if "won id (q t)"
    using that by (simp add: e use_request_def bind_request_Send)
next
  fix s s' assume "expire s s'" "\<not> alive_at (docs s') d until"
  then show "\<not> alive_at (docs s) d until" using retains by (auto simp: alive_at_def)
qed simp_all

context firestore_retains begin

lemma identifier_used_once:
  assumes "whole_millis F" and "fs_doc F path = Inr d" and "oget extra ''expires_at'' = None"
    and "\<forall>ttl \<in> set ttls. until - since \<le> ttl"
    and "together send expire (\<lambda>t. since \<le> t \<and> t \<le> until) (s0, map (\<lambda>ttl. fs_use F path (num_int ttl) extra) ttls) tr (s, ps)"
  shows "winners id ps \<le> 1"
proof -
  let ?ps0 = "map (\<lambda>ttl. fs_use F path (num_int ttl) extra) ttls"
  have "fs_using F path since until d (fs_use F path (num_int ttl) extra)" if "ttl \<in> set ttls" for ttl
    unfolding fs_using_def using assms(1-4) that by blast
  then have "\<forall>p \<in> set ?ps0. fs_using F path since until d p" by auto
  moreover have "holders (won id) ?ps0 = 0"
    using assms(1,2) by (auto simp: holders_def filter_empty_conv fs_use_Clock)
  ultimately show ?thesis by (rule order_trans [OF le_add1 uses.at_most_one_winner [OF assms(5)]])
qed

end

text \<open>Between the instants \<open>since\<close> and \<open>until\<close>, any number of concurrent requests use the same
  DPoP proof identifier, or the same client assertion identifier, against the Firestore
  store, with requests that fail in between; the life time they ask for covers the whole
  interval. Then at most one of them is told that the identifier is new.\<close>

theorem firestore_jti_no_replay:
  assumes "firestore_retains send docs expire until" and "whole_millis F" and "takes_ids F ns"
    and "document_id (sha (dpop_jti_key client jti))" and "document_id (sha (oauth_jti_key client jti))"
    and "\<forall>ttl \<in> set ttls. until - since \<le> ttl"
    and "use \<in> {fs_dpop_saveIfAbsent F sha ns expiresIn client jti, fs_oauth_saveIfAbsent F sha ns expiresIn client jti}"
    and "together send expire (\<lambda>t. since \<le> t \<and> t \<le> until) (s0, map (\<lambda>ttl. use (Some (num_int ttl))) ttls) tr (s, ps)"
  shows "winners id ps \<le> 1"
proof -
  obtain path extra where path: "fs_doc F path = Inr path" "oget extra ''expires_at'' = None"
      "\<And>ttl. use (Some (num_int ttl)) = fs_use F path (num_int ttl) extra"
    using assms(7)
  proof (elim insertE emptyE)
    assume "use = fs_dpop_saveIfAbsent F sha ns expiresIn client jti"
    from this [THEN fun_cong, of "Some (num_int _)", unfolded jti_paths] show thesis
      using assms(3,4) by (intro that) (simp_all add: takes_ids_def collections)
  next
    assume "use = fs_oauth_saveIfAbsent F sha ns expiresIn client jti"
    from this [THEN fun_cong, of "Some (num_int _)", unfolded jti_paths] show thesis
      using assms(3,5) by (intro that) (simp_all add: takes_ids_def collections)
  qed
  show ?thesis
    by (rule firestore_retains.identifier_used_once [OF assms(1,2) path(1,2) assms(6)]) (use assms(8) in \<open>simp only: path(3)\<close>)
qed

text \<open>The documented collection, where documents go once they have expired.\<close>

definition fs_ttl_drops :: "int \<Rightarrow> fs_docs \<Rightarrow> fs_docs \<Rightarrow> bool" where
  "fs_ttl_drops until m m' \<longleftrightarrow> (\<forall>k. m' k = m k \<or> m' k = None \<and> \<not> alive_at m k until)"

interpretation expiring_docs: firestore_retains fs_documented "\<lambda>m. m" "fs_ttl_drops until" until for until
  by unfold_locales (auto simp: fs_ttl_drops_def)

theorem firestore_jti_no_replay_witness:
  "\<exists>tr s ps. together fs_documented (fs_ttl_drops 9000) (\<lambda>t. 1000 \<le> t \<and> t \<le> 9000)
      ((\<lambda>k. None), map (\<lambda>ttl. fs_dpop_saveIfAbsent plain_fs (\<lambda>s. s) ''ns'' None ''thumb'' ''j1'' (Some (num_int ttl))) [8000, 9000]) tr (s, ps) \<and>
     winners id ps = 1 \<and> winners id ps \<le> 1"
proof -
  let ?start = "((\<lambda>k. None) :: fs_docs,
    map (\<lambda>ttl. fs_dpop_saveIfAbsent plain_fs (\<lambda>s. s) ''ns'' None ''thumb'' ''j1'' (Some (num_int ttl))) [8000, 9000])"
  let ?out = "schedule fs_documented [(0, 1000), (1, 1000), (0, 1000), (1, 9000)] ?start"
  have run: "together fs_documented (fs_ttl_drops 9000) (\<lambda>t. 1000 \<le> t \<and> t \<le> 9000) ?start (fst ?out) (fst (snd ?out), snd (snd ?out))"
    using schedule_run [of "[(0, 1000), (1, 1000), (0, 1000), (1, 9000)]" ?start "\<lambda>t. 1000 \<le> t \<and> t \<le> 9000" fs_documented] by simp
  have "winners id (snd (snd ?out)) = 1" by code_simp
  moreover have "document_id (dpop_jti_key ''thumb'' ''j1'')" "document_id (oauth_jti_key ''thumb'' ''j1'')" by code_simp+
  then have "winners id (snd (snd ?out)) \<le> 1"
    by (intro firestore_jti_no_replay [OF expiring_docs.firestore_retains_axioms _ _ _ _ _ insertI1 run])
      (simp_all add: whole_millis_def plain_fs_def takes_ids_def)
  ultimately show ?thesis using run by blast
qed

end
