(* ===== verification/Dynamo_Refinement.thy ===== *)
theory Dynamo_Refinement
  imports Dynamo_Codes
begin

text \<open>
  The DynamoDB store of pre-authorized codes against the in-memory store: an item represents
  an entry, one call keeps the representation and gives the same answer, and therefore any
  sequence of calls does.
\<close>

subsection \<open>The in-memory store is its specification\<close>

text \<open>An item stands for an entry of the in-memory store; its transaction code is hashed.\<close>

definition collision_free :: "tx_hashing \<Rightarrow> bool" where
  "collision_free H \<longleftrightarrow> inj (hmac H) \<and> (\<forall>s. hmac H s \<noteq> [])"

definition item_of :: "tx_hashing \<Rightarrow> obj \<Rightarrow> pac_entry \<Rightarrow> bool" where
  "item_of H i e \<longleftrightarrow>
     oget i ''credential_configuration_ids'' = Some (json_strings (pe_ids e)) \<and>
     (\<exists>m. pe_mode e = Some m \<and> oget i ''tx_code_input_mode'' = Some (JStr (mode_name m))) \<and>
     (\<exists>x. x \<noteq> 0 \<and> pe_expires_at e = Some x \<and> oget i ''expires_at'' = Some (JNum (num_int x))) \<and>
     oget i ''attempts'' = map_option (\<lambda>a. JNum (num_int a)) (pe_attempts e) \<and>
     (case pe_tx_code e of
        None \<Rightarrow> oget i ''tx_code_hash'' = None
      | Some t \<Rightarrow>
          (\<exists>s. t = TxStr s \<and> oget i ''tx_code_hash'' = Some (JStr (hmac H s)) \<and>
            (pe_mode e \<noteq> Some Text \<longrightarrow> toDigitString t = Some s)))"

definition represents :: "tx_hashing \<Rightarrow> dynamo_table \<Rightarrow> pac_store \<Rightarrow> bool" where
  "represents H m codes \<longleftrightarrow> (\<forall>c. rel_option (item_of H) (m c) (codes c))"

lemma represents_update:
  "represents H m codes \<Longrightarrow> rel_option (item_of H) i e \<Longrightarrow> represents H (m(c := i)) (codes(c := e))"
  by (simp add: represents_def)

lemma item_of_bump:
  assumes "item_of H i e" shows "item_of H (bump i) (counted e)"
proof -
  have "getOr (num_int 0) (num_attr i ''attempts'') = num_int (getOr 0 (pe_attempts e))"
    using assms by (cases "pe_attempts e") (auto simp: item_of_def num_attr_def)
  then show ?thesis
    using assms by (auto simp: item_of_def bump_def split: option.splits)
qed

lemma item_of_gate:
  assumes "item_of H i e"
  shows "(\<not> ohas i ''attempts'' \<or> attr_less i ''attempts'' limit) \<longleftrightarrow> (pe_attempts e = None \<or> getOr 0 (pe_attempts e) < limit)"
  using assms by (cases "pe_attempts e") (auto simp: item_of_def attr_less_def num_attr_def ohas_def)

lemma item_of_exhausted:
  assumes "item_of H i e"
  shows "num_le (num_int limit) (getOr (num_int 0) (num_attr i ''attempts'')) \<longleftrightarrow> limit \<le> getOr 0 (pe_attempts e)"
  using assms by (cases "pe_attempts e") (auto simp: item_of_def num_attr_def)

lemma item_of_expired:
  assumes "item_of H i e"
  shows "\<exists>x. num_attr i ''expires_at'' = Some x \<and> (num_lt x (num_int now) \<longleftrightarrow> pac_expired now e)"
  using assms by (auto simp: item_of_def num_attr_def pac_expired_def)

text \<open>The in-memory \<open>consume\<close> after its gate.\<close>

definition pac_fail :: "int \<Rightarrow> string \<Rightarrow> pac_entry \<Rightarrow> error_code \<Rightarrow> string \<Rightarrow> (pac_store, string list) M" where
  "pac_fail limit c item cd msg = thenM (lockoutIfExhausted limit c item) (raise cd msg)"

definition pac_take :: "string \<Rightarrow> pac_entry \<Rightarrow> (pac_store, string list) M" where
  "pac_take c item = thenM (pac_delete c) (ret (pe_ids item))"

definition pac_admitted :: "int \<Rightarrow> int \<Rightarrow> string \<Rightarrow> tx_code option \<Rightarrow> pac_entry \<Rightarrow> (pac_store, string list) M" where
  "pac_admitted limit now c tx item =
     (if pac_expired now item then thenM (pac_delete c) (raise ''invalid_grant'' ''Pre-authorized code has expired'')
      else case (pe_tx_code item, tx) of
          (Some expected, None) \<Rightarrow> pac_fail limit c item ''invalid_request'' ''tx_code is required for this pre-authorized code''
        | (Some expected, Some actual) \<Rightarrow>
            if tx_matches (pe_mode item) expected actual then pac_take c item
            else pac_fail limit c item ''invalid_grant'' ''Invalid tx_code provided''
        | (None, Some actual) \<Rightarrow>
            pac_fail limit c item ''invalid_request'' ''tx_code should not be provided for this pre-authorized code''
        | (None, None) \<Rightarrow> pac_take c item)"

lemma pac_consume_admitted:
  "codes c = Some e \<Longrightarrow> getOr 0 (pe_attempts e) < limit \<Longrightarrow>
     pac_consume limit now c tx codes = pac_admitted limit now c tx (counted e) (codes(c \<mapsto> counted e))"
  by (auto simp: pac_consume_def counted_def [symmetric] Let_def pac_admitted_def pac_fail_def pac_take_def
      lockoutIfExhausted_def pac_delete_def run_simps split: option.splits)

text \<open>Results and tables agree.\<close>

definition agrees ::
  "tx_hashing \<Rightarrow> (exn + jsval option) \<times> dynamo_table \<Rightarrow> (exn + string list) \<times> pac_store \<Rightarrow> bool" where
  "agrees H r q \<longleftrightarrow>
     fst r = map_sum (\<lambda>e. e) (\<lambda>ids. Some (json_strings ids)) (fst q) \<and> represents H (snd r) (snd q)"

lemma take_agrees:
  assumes "represents H m codes" and "m c = Some i" and "item_of H i e"
  shows "agrees H (alone documented now (dynamo_take c i) m) (pac_take c e codes)"
  using assms(2,3) represents_update [OF assms(1), of None None c]
  by (simp add: agrees_def dynamo_take_def pac_take_def pac_delete_def guarded_def run_simps item_of_def)

lemma fail_agrees:
  assumes "represents H m codes" and "item_of H i e"
  shows "agrees H (alone documented now (dynamo_lockout limit c i (raiseP cd msg)) m) (pac_fail limit c e cd msg codes)"
  using assms represents_update [OF assms(1), of None None c]
  by (simp add: agrees_def dynamo_lockout_def item_of_exhausted [OF assms(2), simplified] pac_fail_def lockoutIfExhausted_def
      pac_delete_def run_simps)

lemma hash_matches:
  assumes "item_of H i e" and "collision_free H" and "pe_tx_code e = Some t"
  shows "\<exists>h. oget i ''tx_code_hash'' = Some (JStr h) \<and> h \<noteq> [] \<and>
    (is_text_mode i \<longleftrightarrow> pe_mode e = Some Text) \<and>
    (pe_mode e \<noteq> Some Text \<longrightarrow> tx_matches (pe_mode e) t actual =
       (case toDigitString actual of None \<Rightarrow> False | Some a \<Rightarrow> h = hashTxCode H (TxStr a))) \<and>
    (pe_mode e = Some Text \<longrightarrow> tx_matches (pe_mode e) t actual =
       (case actual of TxNum n \<Rightarrow> False | TxStr s \<Rightarrow> h = hashTxCode H actual))"
proof -
  obtain s where s: "t = TxStr s" "oget i ''tx_code_hash'' = Some (JStr (hmac H s))" "pe_mode e \<noteq> Some Text \<longrightarrow> toDigitString t = Some s"
    using assms(1,3) by (auto simp: item_of_def)
  have inj: "hmac H a = hmac H b \<longleftrightarrow> a = b" "hmac H a \<noteq> []" for a b
    using assms(2) by (auto simp: collision_free_def dest: injD)
  obtain mode where mode: "pe_mode e = Some mode" "oget i ''tx_code_input_mode'' = Some (JStr (mode_name mode))"
    using assms(1) by (auto simp: item_of_def)
  have "is_text_mode i \<longleftrightarrow> pe_mode e = Some Text"
    using mode by (cases mode) (simp_all add: is_text_mode_def mode_name_def)
  then show ?thesis
    using s inj by (auto simp: tx_matches_def hashTxCode_def split: option.splits tx_code.splits)
qed

lemma compare_agrees:
  assumes "represents H m codes" and "m c = Some i" and "item_of H i e" and "collision_free H" and "\<not> pac_expired now e"
  shows "agrees H (alone documented now (dynamo_compare H limit c tx i) m) (pac_admitted limit now c tx e codes)"
proof -
  note take = take_agrees [OF assms(1-3)] and fail = fail_agrees [OF assms(1,3)]
  show ?thesis
  proof (cases "pe_tx_code e")
    case None
    then have "oget i ''tx_code_hash'' = None" using assms(3) by (simp add: item_of_def)
    then show ?thesis
      using take fail None assms(5) by (cases tx) (simp_all add: dynamo_compare_def pac_admitted_def Let_def)
  next
    case (Some t)
    show ?thesis
    proof (cases tx)
      case None
      obtain h where "oget i ''tx_code_hash'' = Some (JStr h)" "h \<noteq> []" using hash_matches [OF assms(3,4) Some] by blast
      then show ?thesis
        using fail None Some assms(5) by (simp add: dynamo_compare_def pac_admitted_def Let_def)
    next
      case (Some actual)
      obtain h where h: "oget i ''tx_code_hash'' = Some (JStr h)" "h \<noteq> []" "is_text_mode i \<longleftrightarrow> pe_mode e = Some Text"
        "pe_mode e \<noteq> Some Text \<longrightarrow> tx_matches (pe_mode e) t actual =
           (case toDigitString actual of None \<Rightarrow> False | Some a \<Rightarrow> h = hashTxCode H (TxStr a))"
        "pe_mode e = Some Text \<longrightarrow> tx_matches (pe_mode e) t actual =
           (case actual of TxNum n \<Rightarrow> False | TxStr s \<Rightarrow> h = hashTxCode H actual)"
        using hash_matches [OF assms(3,4) \<open>pe_tx_code e = Some t\<close>] by blast
      show ?thesis
        using take fail Some \<open>pe_tx_code e = Some t\<close> assms(5) h
        by (cases "pe_mode e = Some Text") (simp_all add: dynamo_compare_def pac_admitted_def Let_def split: option.split tx_code.split)
    qed
  qed
qed

lemma admitted_agrees:
  assumes "represents H m codes" and "m c = Some i" and "item_of H i e" and "collision_free H"
  shows "agrees H (alone documented now (dynamo_admitted H limit c tx i) m) (pac_admitted limit now c tx e codes)"
proof -
  obtain x where x: "num_attr i ''expires_at'' = Some x" "num_lt x (num_int now) \<longleftrightarrow> pac_expired now e"
    using item_of_expired [OF assms(3)] by blast
  show ?thesis
  proof (cases "pac_expired now e")
    case True
    then show ?thesis
      using x represents_update [OF assms(1), of None None c]
      by (simp add: dynamo_admitted_def dynamo_expired_def pac_admitted_def agrees_def pac_delete_def run_simps)
  next
    case False
    then show ?thesis using x compare_agrees [OF assms] by (simp add: dynamo_admitted_def)
  qed
qed

lemma consume_agrees:
  assumes "represents H m codes" and "collision_free H" and "1 \<le> limit"
  shows "agrees H (alone documented now (dynamo_code_consume H limit c tx) m) (pac_consume limit now c tx codes)"
proof (cases "codes c")
  case None
  then have "m c = None" using assms(1) by (metis represents_def rel_option_None2)
  then show ?thesis
    using None assms(1) by (simp add: dynamo_code_consume_def agrees_def pac_consume_absent)
next
  case (Some e)
  then obtain i where i: "m c = Some i" "item_of H i e"
    using assms(1) by (metis represents_def option_rel_Some2)
  show ?thesis
  proof (cases "getOr 0 (pe_attempts e) < limit")
    case False
    then have "\<not> (\<not> ohas i ''attempts'' \<or> attr_less i ''attempts'' limit)"
      using item_of_gate [OF i(2)] assms(3) by (cases "pe_attempts e") auto
    then show ?thesis
      using i False Some assms(1)
      by (simp add: dynamo_code_consume_def agrees_def guarded_def pac_consume_locked)
  next
    case True
    then have g: "\<not> ohas i ''attempts'' \<or> attr_less i ''attempts'' limit"
      using item_of_gate [OF i(2)] by auto
    have "represents H (m(c \<mapsto> bump i)) (codes(c \<mapsto> counted e))"
      using represents_update [OF assms(1)] item_of_bump [OF i(2)] by simp
    from admitted_agrees [OF this _ item_of_bump [OF i(2)] assms(2)] show ?thesis
      using i(1) g by (simp add: dynamo_code_consume_def guarded_def pac_consume_admitted [where codes = codes and c = c, OF Some True])
  qed
qed

subsection \<open>The DynamoDB store refines the in-memory store\<close>

text \<open>Saving, with the default time to live.\<close>

lemma default_ttl_agrees: "dynamo_ttl_sec (dynamo_default_ttl None) = ttl_sec"
  by (simp add: fun_eq_iff dynamo_ttl_sec_def ttl_sec_def dynamo_default_ttl_def)

definition keeps_text :: "tx_code option \<Rightarrow> pac_save_options \<Rightarrow> bool" where
  "keeps_text tx opts = (case tx of Some (TxNum n) \<Rightarrow> so_mode opts \<noteq> Some Text | _ \<Rightarrow> True)"

lemma item_of_saved:
  assumes "x \<noteq> 0" and "case tx of None \<Rightarrow> h = None | Some t \<Rightarrow>
      \<exists>s. t = TxStr s \<and> h = Some (hmac H s) \<and> (mode \<noteq> Text \<longrightarrow> toDigitString t = Some s)"
  shows "item_of H (dynamo_code_item c ids mode x h)
    \<lparr>pe_ids = ids, pe_tx_code = tx, pe_mode = Some mode, pe_expires_at = Some x, pe_attempts = None\<rparr>"
  using assms by (cases tx) (auto simp: item_of_def dynamo_code_item_def oget_def)

lemma toDigitString_shape: "toDigitString t = Some s \<Longrightarrow> s \<noteq> [] \<and> list_all is_digit s"
  by (cases t rule: toDigitString.cases) (auto split: if_splits simp: show_nat_digits list_all_iff)

lemma save_agrees:
  assumes "represents H m codes" and "keeps_text tx opts" and "0 \<le> now"
  shows "fst (alone documented now (dynamo_code_save H (dynamo_default_ttl None) c ids tx opts) m) = fst (pac_save now c ids tx opts codes)"
    and "represents H (snd (alone documented now (dynamo_code_save H (dynamo_default_ttl None) c ids tx opts) m)) (snd (pac_save now c ids tx opts codes))"
proof -
  have x: "now + ttl_sec (so_ttlSec opts) * 1000 \<noteq> 0"
    using assms(3) ttl_sec_pos [of "so_ttlSec opts"] by simp
  show "fst (alone documented now (dynamo_code_save H (dynamo_default_ttl None) c ids tx opts) m) = fst (pac_save now c ids tx opts codes)"
    by (simp add: dynamo_code_save_def pac_save_def Let_def stored_hash_def run_simps split: option.split)
  show "represents H (snd (alone documented now (dynamo_code_save H (dynamo_default_ttl None) c ids tx opts) m)) (snd (pac_save now c ids tx opts codes))"
    using assms(1,2)
    apply (cases "getOr Numeric (so_mode opts)"; cases tx)
    apply (auto simp: dynamo_code_save_def pac_save_def Let_def stored_hash_def run_simps default_ttl_agrees hashTxCode_def keeps_text_def
        getOr_def intro!: represents_update item_of_saved x split: option.split option.splits tx_code.splits)
    apply (drule toDigitString_shape; simp)+
    done
qed

text \<open>Calls one after the other, each at a reading of the clock.\<close>

datatype code_call =
    SaveCode int string "string list" "tx_code option" pac_save_options
  | ConsumeCode int string "tx_code option"

fun call_on_dynamo :: "(dynamo_command, obj option, 's) service \<Rightarrow> tx_hashing \<Rightarrow> int \<Rightarrow> code_call \<Rightarrow> ('s, jsval option) M" where
  "call_on_dynamo send H limit (SaveCode now c ids tx opts) =
     thenM (alone send now (dynamo_code_save H (dynamo_default_ttl None) c ids tx opts)) (ret None)"
| "call_on_dynamo send H limit (ConsumeCode now c tx) = alone send now (dynamo_code_consume H limit c tx)"

fun call_in_memory :: "int \<Rightarrow> code_call \<Rightarrow> (pac_store, jsval option) M" where
  "call_in_memory limit (SaveCode now c ids tx opts) = thenM (pac_save now c ids tx opts) (ret None)"
| "call_in_memory limit (ConsumeCode now c tx) =
     bindM (pac_consume limit now c tx) (\<lambda>ids. ret (Some (json_strings ids)))"

fun plain_call :: "code_call \<Rightarrow> bool" where
  "plain_call (SaveCode now c ids tx opts) = (0 \<le> now \<and> keeps_text tx opts)"
| "plain_call (ConsumeCode now c tx) = True"

lemma call_agrees:
  assumes "represents H m codes" and "collision_free H" and "1 \<le> limit" and "plain_call call"
  shows "fst (call_on_dynamo documented H limit call m) = fst (call_in_memory limit call codes) \<and>
    represents H (snd (call_on_dynamo documented H limit call m)) (snd (call_in_memory limit call codes))"
proof (cases call)
  case (SaveCode now c ids tx opts)
  then show ?thesis
    using save_agrees [OF assms(1), of tx opts now c ids] assms(4)
    by (simp add: thenM_def bindM_def ret_def case_prod_beta split: sum.split)
next
  case (ConsumeCode now c tx)
  then show ?thesis
    using consume_agrees [OF assms(1-3), of now c tx]
    by (simp add: agrees_def bindM_def ret_def case_prod_beta split: sum.split)
qed

definition code_ready :: "tx_hashing \<Rightarrow> int \<Rightarrow> dynamo_table \<Rightarrow> pac_store \<Rightarrow> bool" where
  "code_ready H limit m codes \<longleftrightarrow> represents H m codes \<and> collision_free H \<and> 1 \<le> limit"

interpretation code_store: step_refinement "call_on_dynamo documented H limit" "call_in_memory limit" "code_ready H limit" plain_call
  for H limit
  by unfold_locales (auto simp: code_ready_def dest: call_agrees)

context dynamo_available begin

lemma call_on_table:
  "fst (call_on_dynamo send H limit call s) = fst (call_on_dynamo documented H limit call (items s)) \<and>
   items (snd (call_on_dynamo send H limit call s)) = snd (call_on_dynamo documented H limit call (items s))"
  by (cases call) (simp_all add: alone_table thenM_alone)

lemma replies_on_table:
  "replies (call_on_dynamo send H limit) calls s = replies (call_on_dynamo documented H limit) calls (items s)"
  by (rule replies_on_items, rule call_on_table)

end

text \<open>C15. On a DynamoDB table that is available, the calls to the store give, one after the
  other, exactly the answers of the in-memory store from the same starting point: the same
  credential configurations, the same errors, the same lockout and expiry. The transaction
  codes are hashed without collisions, and a code in text mode is a string.\<close>

theorem dynamo_codes_refine:
  assumes "dynamo_available send items expire" and "collision_free H" and "1 \<le> limit"
    and "list_all plain_call calls" and "items s = (\<lambda>c. None)"
  shows "replies (call_on_dynamo send H limit) calls s = replies (call_in_memory limit) calls (\<lambda>c. None)"
proof -
  have "code_ready H limit (items s) (\<lambda>c. None)" using assms by (simp add: code_ready_def represents_def)
  from code_store.replies_eq [OF this assms(4)] show ?thesis
    using dynamo_available.replies_on_table [OF assms(1)] by metis
qed

theorem dynamo_codes_refine_witness:
  "replies (call_on_dynamo documented sample_hashing 1)
     [SaveCode 5000 ''c1'' [''degree''] (Some (TxStr ''42'')) \<lparr>so_ttlSec = None, so_mode = None\<rparr>,
      ConsumeCode 6000 ''c1'' (Some (TxStr ''42'')), ConsumeCode 6000 ''c1'' None] (\<lambda>c. None) =
   [Inr None, Inr (Some (json_strings [''degree''])), Inl (err ''invalid_grant'' LOCKED_MESSAGE)]"
  (is "replies _ ?calls _ = _")
proof -
  have "collision_free sample_hashing" by (auto simp: collision_free_def sample_hashing_def inj_def)
  then have "replies (call_on_dynamo documented sample_hashing 1) ?calls (\<lambda>c. None) = replies (call_in_memory 1) ?calls (\<lambda>c. None)"
    by (intro dynamo_codes_refine [OF table.dynamo_available_axioms]) (simp_all add: keeps_text_def)
  also have "\<dots> = [Inr None, Inr (Some (json_strings [''degree''])), Inl (err ''invalid_grant'' LOCKED_MESSAGE)]"
    by code_simp
  finally show ?thesis .
qed

end
