(* ===== verification/Firestore_Refinement.thy ===== *)
theory Firestore_Refinement
  imports Firestore_Uses Dynamo_Refinement
begin

text \<open>
  The Firestore stores against the in-memory ones. The store of codes differs in one instant: a code
  is expired when its time of expiry is reached, so it answers like an in-memory store that
  read the clock one millisecond earlier when it saved the code.
\<close>

subsection \<open>Codes\<close>

abbreviation code_path :: "string \<Rightarrow> string \<Rightarrow> string" where
  "code_path ns c \<equiv> in_collection ns ''preCodes'' c"

text \<open>A document stands for an entry that expires one millisecond before it.\<close>

definition one_earlier :: "obj \<Rightarrow> int \<Rightarrow> obj" where
  "one_earlier i x = oset i ''expires_at'' (JNum (num_int x))"

definition fs_item :: "tx_hashing \<Rightarrow> obj \<Rightarrow> pac_entry \<Rightarrow> bool" where
  "fs_item H i e \<longleftrightarrow> (\<exists>x. num_attr i ''expires_at'' = Some (num_int (x + 1)) \<and> item_of H (one_earlier i x) e)"

definition codes_match :: "tx_hashing \<Rightarrow> string \<Rightarrow> fs_docs \<Rightarrow> pac_store \<Rightarrow> bool" where
  "codes_match H ns m codes \<longleftrightarrow> (\<forall>c. rel_option (fs_item H) (m (code_path ns c)) (codes c))"

lemma codes_match_at: "codes_match H ns m codes \<Longrightarrow> rel_option (fs_item H) (m (code_path ns c)) (codes c)"
  by (simp add: codes_match_def)

lemma codes_match_update:
  "codes_match H ns m codes \<Longrightarrow> rel_option (fs_item H) i e \<Longrightarrow> codes_match H ns (m(code_path ns c := i)) (codes(c := e))"
  by (simp add: codes_match_def)

lemma fs_itemE:
  assumes "fs_item H i e"
  obtains x where "num_attr i ''expires_at'' = Some (num_int (x + 1))" "item_of H (one_earlier i x) e"
    "pe_expires_at e = Some x" "x \<noteq> 0"
proof -
  obtain x where x: "num_attr i ''expires_at'' = Some (num_int (x + 1))" "item_of H (one_earlier i x) e"
    using assms by (auto simp: fs_item_def)
  then have "pe_expires_at e = Some x" "x \<noteq> 0" by (auto simp: item_of_def one_earlier_def)
  then show thesis using that x by blast
qed

lemma one_earlier_simps [simp]:
  "num_attr (one_earlier i x) ''attempts'' = num_attr i ''attempts''" "is_text_mode (one_earlier i x) = is_text_mode i"
  "oget (one_earlier i x) ''tx_code_hash'' = oget i ''tx_code_hash''"
  "oget (one_earlier i x) ''credential_configuration_ids'' = oget i ''credential_configuration_ids''"
  by (simp_all add: one_earlier_def num_attr_def is_text_mode_def)

definition fs_agrees :: "tx_hashing \<Rightarrow> string \<Rightarrow> (exn + jsval option) \<times> fs_docs \<Rightarrow> (exn + string list) \<times> pac_store \<Rightarrow> bool" where
  "fs_agrees H ns r q \<longleftrightarrow>
     fst r = map_sum (\<lambda>e. e) (\<lambda>ids. Some (json_strings ids)) (fst q) \<and> codes_match H ns (snd r) (snd q)"

lemma fs_take_agrees:
  assumes "codes_match H ns m codes" and "m (code_path ns c) \<noteq> None" and "fs_item H i e"
  shows "fs_agrees H ns (alone fs_documented now (fs_take (code_path ns c) i) m) (pac_take c e codes)"
proof -
  have "oget i ''credential_configuration_ids'' = Some (json_strings (pe_ids e))"
    using assms(3) by (auto simp: fs_item_def item_of_def)
  then show ?thesis
    using assms(2) codes_match_update [OF assms(1), of None None c]
    by (simp add: fs_agrees_def fs_take_def pac_take_def pac_delete_def alone_bind_request remove_existing_def flag_of_def run_simps)
qed

lemma fs_fail_agrees:
  assumes "codes_match H ns m codes" and "fs_item H i e"
  shows "fs_agrees H ns (alone fs_documented now (fs_lockout limit (code_path ns c) i (raiseP cd msg)) m) (pac_fail limit c e cd msg codes)"
proof -
  obtain x where "item_of H (one_earlier i x) e" using assms(2) by (rule fs_itemE)
  from item_of_exhausted [OF this, of limit] show ?thesis
    using codes_match_update [OF assms(1), of None None c] assms(1)
    by (simp add: fs_agrees_def fs_lockout_def delete_doc_def alone_bind_request pac_fail_def lockoutIfExhausted_def pac_delete_def run_simps)
qed

lemma fs_compare_agrees:
  assumes "codes_match H ns m codes" and "m (code_path ns c) \<noteq> None" and "fs_item H i e" and "collision_free H" and "\<not> pac_expired now e"
  shows "fs_agrees H ns (alone fs_documented now (fs_compare H limit (code_path ns c) tx i) m) (pac_admitted limit now c tx e codes)"
proof -
  note take = fs_take_agrees [OF assms(1-3)] and fail = fs_fail_agrees [OF assms(1,3)]
  obtain x where item: "item_of H (one_earlier i x) e" using assms(3) by (rule fs_itemE)
  show ?thesis
  proof (cases "pe_tx_code e")
    case None
    then have "oget i ''tx_code_hash'' = None" using item by (simp add: item_of_def)
    then show ?thesis
      using take fail None assms(5) by (cases tx) (simp_all add: fs_compare_def pac_admitted_def Let_def)
  next
    case (Some t)
    note code = this
    show ?thesis
    proof (cases tx)
      case None
      obtain h where "oget i ''tx_code_hash'' = Some (JStr h)" "h \<noteq> []" using hash_matches [OF item assms(4) code] by auto
      then show ?thesis using fail None code assms(5) by (simp add: fs_compare_def pac_admitted_def Let_def)
    next
      case (Some actual)
      obtain h where h: "oget i ''tx_code_hash'' = Some (JStr h)" "h \<noteq> []" "is_text_mode i \<longleftrightarrow> pe_mode e = Some Text"
        "pe_mode e \<noteq> Some Text \<longrightarrow> tx_matches (pe_mode e) t actual =
           (case toDigitString actual of None \<Rightarrow> False | Some a \<Rightarrow> h = hashTxCode H (TxStr a))"
        "pe_mode e = Some Text \<longrightarrow> tx_matches (pe_mode e) t actual =
           (case actual of TxNum n \<Rightarrow> False | TxStr s \<Rightarrow> h = hashTxCode H actual)"
        using hash_matches [OF item assms(4) code, of actual] by auto
      show ?thesis
        using take fail Some code assms(5) h
        by (cases "pe_mode e = Some Text") (simp_all add: fs_compare_def pac_admitted_def Let_def split: option.split tx_code.split)
    qed
  qed
qed

lemma fs_admitted_agrees:
  assumes "codes_match H ns m codes" and "m (code_path ns c) \<noteq> None" and "fs_item H i e" and "collision_free H"
  shows "fs_agrees H ns (alone fs_documented now (fs_admitted H limit (code_path ns c) tx i) m) (pac_admitted limit now c tx e codes)"
proof -
  obtain x where x: "num_attr i ''expires_at'' = Some (num_int (x + 1))" "pe_expires_at e = Some x" "x \<noteq> 0"
    using assms(3) by (rule fs_itemE)
  have expired: "num_le (num_int (x + 1)) (num_int now) \<longleftrightarrow> pac_expired now e"
  proof -
    have "(of_int (x + 1) \<le> (of_int now :: rat)) \<longleftrightarrow> x < now" by (simp only: of_int_le_iff) auto
    then show ?thesis using x(2,3) by (simp add: pac_expired_def del: of_int_add)
  qed
  show ?thesis
  proof (cases "pac_expired now e")
    case True
    then show ?thesis
      using x(1) expired codes_match_update [OF assms(1), of None None c]
      by (simp add: fs_admitted_def delete_doc_def alone_bind_request pac_admitted_def fs_agrees_def pac_delete_def run_simps del: of_int_add)
  next
    case False
    then show ?thesis using x(1) expired fs_compare_agrees [OF assms False] by (simp add: fs_admitted_def del: of_int_add)
  qed
qed

lemma fs_item_counted:
  assumes "fs_item H i e" and "a = num_add (getOr (num_int 0) (num_attr i ''attempts'')) (num_int 1)"
  shows "fs_item H (oset i ''attempts'' (JNum a)) (counted e)"
proof -
  obtain x where x: "num_attr i ''expires_at'' = Some (num_int (x + 1))" "item_of H (one_earlier i x) e" using assms(1) by (rule fs_itemE)
  have "getOr (num_int 0) (num_attr i ''attempts'') = num_int (getOr 0 (pe_attempts e))"
    using x(2) by (cases "pe_attempts e") (auto simp: item_of_def num_attr_def one_earlier_def)
  then have "item_of H (one_earlier (oset i ''attempts'' (JNum a)) x) (counted e)"
    using x(2) assms(2) by (auto simp: item_of_def one_earlier_def split: option.splits)
  moreover have "num_attr (oset i ''attempts'' (JNum a)) ''expires_at'' = Some (num_int (x + 1))" using x(1) by (simp add: num_attr_def)
  ultimately show ?thesis unfolding fs_item_def by blast
qed

lemma fs_consume_agrees:
  assumes "codes_match H ns m codes" and "collision_free H"
  shows "fs_agrees H ns (alone fs_documented now (fs_consume_at H limit tx (code_path ns c)) m) (pac_consume limit now c tx codes)"
proof (cases "codes c")
  case None
  then have "m (code_path ns c) = None" using codes_match_at [OF assms(1), of c] by simp
  then show ?thesis
    using None assms(1) by (simp add: fs_consume_at_def alone_bind_request count_attempt_def fs_agrees_def pac_consume_absent)
next
  case (Some e)
  then obtain i where i: "m (code_path ns c) = Some i" "fs_item H i e"
    using codes_match_at [OF assms(1), of c] by (auto simp: option_rel_Some2)
  obtain x where "item_of H (one_earlier i x) e" using i(2) by (rule fs_itemE)
  note gate = item_of_exhausted [OF this, of limit, unfolded one_earlier_simps]
  show ?thesis
  proof (cases "getOr 0 (pe_attempts e) < limit")
    case False
    then show ?thesis
      using i gate Some assms(1)
      by (simp add: fs_consume_at_def alone_bind_request count_attempt_def fs_agrees_def pac_consume_locked)
  next
    case True
    define a where "a = num_add (getOr (num_int 0) (num_attr i ''attempts'')) (num_int 1)"
    have item: "fs_item H (oset i ''attempts'' (JNum a)) (counted e)" using i(2) a_def by (rule fs_item_counted)
    have "codes_match H ns (m(code_path ns c \<mapsto> oset i ''attempts'' (JNum a))) (codes(c \<mapsto> counted e))"
      using codes_match_update [OF assms(1)] item by simp
    from fs_admitted_agrees [OF this _ item assms(2), of c now limit tx] show ?thesis
      using i(1) gate True
      by (simp add: fs_consume_at_def alone_bind_request count_attempt_def doc_of_def Let_def a_def
          pac_consume_admitted [where codes = codes and c = c, OF Some True])
  qed
qed

text \<open>Saving: the time of expiry is the one of an in-memory store that reads the clock one
  millisecond earlier.\<close>

lemma fs_item_saved:
  assumes "x \<noteq> 0" and "case tx of None \<Rightarrow> h = None | Some t \<Rightarrow>
      \<exists>s. t = TxStr s \<and> h = Some (hmac H s) \<and> (mode \<noteq> Text \<longrightarrow> toDigitString t = Some s)"
  shows "fs_item H (fs_code_data c ids mode (num_int (x + 1)) h)
    \<lparr>pe_ids = ids, pe_tx_code = tx, pe_mode = Some mode, pe_expires_at = Some x, pe_attempts = None\<rparr>"
proof -
  have "item_of H (one_earlier (fs_code_data c ids mode (num_int (x + 1)) h) x)
    \<lparr>pe_ids = ids, pe_tx_code = tx, pe_mode = Some mode, pe_expires_at = Some x, pe_attempts = None\<rparr>"
    using assms by (cases tx) (auto simp: item_of_def fs_code_data_def one_earlier_def)
  moreover have "num_attr (fs_code_data c ids mode (num_int (x + 1)) h) ''expires_at'' = Some (num_int (x + 1))"
    by (simp add: fs_code_data_def num_attr_def)
  ultimately show ?thesis unfolding fs_item_def by blast
qed

lemma fs_code_save_path:
  assumes "takes_ids F ns" and "document_id c" and "whole_millis F"
  shows "fs_code_save F H ns c ids tx opts = clock (\<lambda>now.
     bindP (liftP (stored_hash H (getOr Numeric (so_mode opts)) tx)) (\<lambda>h.
       set_doc (code_path ns c) (fs_code_data c ids (getOr Numeric (so_mode opts)) (num_int (now + ttl_sec (so_ttlSec opts) * 1000)) h)))"
  using assms(3) unfolding fs_code_save_def collection_paths at_doc_id [OF assms(1) collections(1) assms(2)]
  by (simp add: at_time_def whole_millis_def liftP_def Let_def del: of_int_add of_int_mult)

lemma fs_save_agrees:
  assumes "codes_match H ns m codes" and "keeps_text tx opts" and "0 \<le> now"
    and "takes_ids F ns" and "document_id c" and "whole_millis F"
  shows "fst (alone fs_documented now (fs_code_save F H ns c ids tx opts) m) = fst (pac_save (now - 1) c ids tx opts codes)"
    and "codes_match H ns (snd (alone fs_documented now (fs_code_save F H ns c ids tx opts) m)) (snd (pac_save (now - 1) c ids tx opts codes))"
proof -
  note path = fs_code_save_path [OF assms(4-6)]
  define x where "x = now - 1 + ttl_sec (so_ttlSec opts) * 1000"
  then have x: "now + ttl_sec (so_ttlSec opts) * 1000 = x + 1" "x \<noteq> 0"
    using assms(3) ttl_sec_pos [of "so_ttlSec opts"] by simp_all
  show "fst (alone fs_documented now (fs_code_save F H ns c ids tx opts) m) = fst (pac_save (now - 1) c ids tx opts codes)"
    by (simp add: path alone_bindP set_doc_def alone_bind_request pac_save_def Let_def stored_hash_def run_simps split: option.split)
  show "codes_match H ns (snd (alone fs_documented now (fs_code_save F H ns c ids tx opts) m)) (snd (pac_save (now - 1) c ids tx opts codes))"
    using assms(1,2)
    apply (cases "getOr Numeric (so_mode opts)"; cases tx)
    apply (auto simp: path alone_bindP set_doc_def alone_bind_request pac_save_def Let_def stored_hash_def run_simps hashTxCode_def keeps_text_def x
        getOr_def simp del: of_int_add simp flip: x_def
        intro!: codes_match_update fs_item_saved split: option.split option.splits tx_code.splits)
    apply (drule toDigitString_shape; simp)+
    done
qed

text \<open>Calls one after the other.\<close>

fun call_on_firestore ::
  "(fs_command, fs_result, 's) service \<Rightarrow> fs_lib \<Rightarrow> tx_hashing \<Rightarrow> int \<Rightarrow> string \<Rightarrow> code_call \<Rightarrow> ('s, jsval option) M" where
  "call_on_firestore send F H limit ns (SaveCode now c ids tx opts) =
     thenM (alone send now (fs_code_save F H ns c ids tx opts)) (ret None)"
| "call_on_firestore send F H limit ns (ConsumeCode now c tx) = alone send now (fs_code_consume F H limit ns c tx)"

text \<open>The same calls, with codes saved one millisecond earlier.\<close>

fun saved_earlier :: "code_call \<Rightarrow> code_call" where
  "saved_earlier (SaveCode now c ids tx opts) = SaveCode (now - 1) c ids tx opts"
| "saved_earlier (ConsumeCode now c tx) = ConsumeCode now c tx"

fun code_of_call :: "code_call \<Rightarrow> string" where
  "code_of_call (SaveCode now c ids tx opts) = c"
| "code_of_call (ConsumeCode now c tx) = c"

definition documented_call :: "code_call \<Rightarrow> bool" where
  "documented_call call \<longleftrightarrow> plain_call call \<and> document_id (code_of_call call)"

definition fs_ready :: "fs_lib \<Rightarrow> string \<Rightarrow> bool" where
  "fs_ready F ns \<longleftrightarrow> takes_ids F ns \<and> whole_millis F"

lemma fs_call_agrees:
  assumes "codes_match H ns m codes" and "collision_free H" and "fs_ready F ns" and "documented_call call"
  shows "fst (call_on_firestore fs_documented F H limit ns call m) = fst (call_in_memory limit (saved_earlier call) codes) \<and>
    codes_match H ns (snd (call_on_firestore fs_documented F H limit ns call m)) (snd (call_in_memory limit (saved_earlier call) codes))"
proof (cases call)
  case (SaveCode now c ids tx opts)
  then show ?thesis
    using fs_save_agrees [OF assms(1), of tx opts now F c ids] assms(3,4)
    by (simp add: fs_ready_def documented_call_def thenM_def bindM_def ret_def case_prod_beta split: sum.split)
next
  case (ConsumeCode now c tx)
  then have "fs_code_consume F H limit ns c tx = fs_consume_at H limit tx (code_path ns c)"
    using assms(3,4) by (simp add: fs_code_consume_def collection_paths at_doc_id collections fs_ready_def documented_call_def)
  then show ?thesis
    using fs_consume_agrees [OF assms(1,2), of now limit tx c] ConsumeCode
    by (simp add: fs_agrees_def bindM_def ret_def case_prod_beta split: sum.split)
qed

definition fs_code_ready :: "tx_hashing \<Rightarrow> fs_lib \<Rightarrow> string \<Rightarrow> fs_docs \<Rightarrow> pac_store \<Rightarrow> bool" where
  "fs_code_ready H F ns m codes \<longleftrightarrow> codes_match H ns m codes \<and> collision_free H \<and> fs_ready F ns"

interpretation fs_codes: step_refinement "call_on_firestore fs_documented F H limit ns" "\<lambda>call. call_in_memory limit (saved_earlier call)"
  "fs_code_ready H F ns" documented_call for F H limit ns
  by unfold_locales (auto simp: fs_code_ready_def dest: fs_call_agrees)

context firestore_available begin

lemma thenM_docs:
  assumes "fst (f s) = fst (g t)" and "docs (snd (f s)) = snd (g t)"
  shows "fst (thenM f (ret x) s) = fst (thenM g (ret x) t) \<and> docs (snd (thenM f (ret x) s)) = snd (thenM g (ret x) t)"
  using assms by (simp add: thenM_def bindM_def ret_def case_prod_beta split: sum.split)

lemma replies_on_docs:
  assumes "\<And>q s. fst (f q s) = fst (g q (docs s)) \<and> docs (snd (f q s)) = snd (g q (docs s))"
  shows "replies f qs s = replies g qs (docs s)"
proof (induction qs arbitrary: s)
  case (Cons q qs)
  then show ?case using assms [of q s] by (simp add: case_prod_beta)
qed simp

lemma call_on_docs:
  "fst (call_on_firestore send F H limit ns call s) = fst (call_on_firestore fs_documented F H limit ns call (docs s)) \<and>
   docs (snd (call_on_firestore send F H limit ns call s)) = snd (call_on_firestore fs_documented F H limit ns call (docs s))"
  by (cases call) (simp_all add: alone_docs thenM_docs)

lemma codes_on_docs:
  "replies (call_on_firestore send F H limit ns) calls s = replies (call_on_firestore fs_documented F H limit ns) calls (docs s)"
  by (rule replies_on_docs, rule call_on_docs)

end

text \<open>C19. On available Firestore documents, starting without codes, the calls to the store of codes
  give, one after the other, exactly the answers of the in-memory store that reads the clock one
  millisecond earlier when it saves: the same credential configurations, the same errors, the
  same lockout, and expiry one millisecond before the in-memory store. The codes are
  identifiers that Firestore takes, transaction codes are hashed without collisions, and a
  code in text mode is a string.\<close>

theorem firestore_codes_refine:
  assumes "firestore_available send docs expire" and "collision_free H" and "fs_ready F ns"
    and "list_all documented_call calls" and "docs s = (\<lambda>d. None)"
  shows "replies (call_on_firestore send F H limit ns) calls s =
    replies (\<lambda>call. call_in_memory limit (saved_earlier call)) calls (\<lambda>c. None)"
proof -
  have "fs_code_ready H F ns (docs s) (\<lambda>c. None)" using assms by (simp add: fs_code_ready_def codes_match_def)
  from fs_codes.replies_eq [OF this assms(4)] show ?thesis
    using firestore_available.codes_on_docs [OF assms(1)] by metis
qed

theorem firestore_codes_refine_witness:
  "replies (call_on_firestore fs_documented plain_fs sample_hashing 2 ''vcknots'')
     [SaveCode 5000 ''c1'' [''degree''] (Some (TxStr ''42'')) \<lparr>so_ttlSec = Some (Fin 60), so_mode = None\<rparr>,
      ConsumeCode 6000 ''c1'' (Some (TxStr ''43'')), ConsumeCode 64999 ''c1'' (Some (TxStr ''42'')),
      SaveCode 5000 ''c2'' [''degree''] None \<lparr>so_ttlSec = Some (Fin 60), so_mode = None\<rparr>, ConsumeCode 65000 ''c2'' None] (\<lambda>c. None) =
   [Inr None, Inl (err ''invalid_grant'' ''Invalid tx_code provided''), Inr (Some (json_strings [''degree''])),
    Inr None, Inl (err ''invalid_grant'' ''Pre-authorized code has expired'')]"
  (is "replies _ ?calls _ = _")
proof -
  have "collision_free sample_hashing" by (auto simp: collision_free_def sample_hashing_def inj_def)
  then have "replies (call_on_firestore fs_documented plain_fs sample_hashing 2 ''vcknots'') ?calls (\<lambda>c. None) =
      replies (\<lambda>call. call_in_memory 2 (saved_earlier call)) ?calls (\<lambda>c. None)"
    by (intro firestore_codes_refine [OF collection.firestore_available_axioms])
      (simp_all add: keeps_text_def fs_ready_def takes_ids_def whole_millis_def plain_fs_def documented_call_def document_id_def)
  also have "\<dots> = [Inr None, Inl (err ''invalid_grant'' ''Invalid tx_code provided''), Inr (Some (json_strings [''degree''])),
    Inr None, Inl (err ''invalid_grant'' ''Pre-authorized code has expired'')]"
    by code_simp
  finally show ?thesis .
qed

end
