(* ===== verification/Firestore_Store_Refinement.thy ===== *)
theory Firestore_Store_Refinement
  imports Firestore_Refinement Dynamo_Store_Refinement
begin

text \<open>
  The Firestore stores of nonces, allowed credential configurations and transactions against the
  in-memory stores; and what a merge does to the metadata of a verifier.
\<close>

subsection \<open>One collection of documents\<close>

definition documents :: "string \<Rightarrow> string \<Rightarrow> fs_docs \<Rightarrow> string \<Rightarrow> obj option" where
  "documents ns coll m = (\<lambda>k. m (in_collection ns coll k))"

lemma documents_simps [simp]:
  "documents ns coll (m(in_collection ns coll k := i)) = (documents ns coll m)(k := i)"
  "documents ns coll (\<lambda>d. None) = (\<lambda>k. None)"
  by (auto simp: documents_def)

lemma documents_at: "m (in_collection ns coll k) = documents ns coll m k"
  by (simp add: documents_def)

lemma at_time_int: "whole_millis F \<Longrightarrow> at_time F (num_int x) f = f (num_int x)"
  by (simp add: at_time_def whole_millis_def liftP_def)

lemma alone_doc_simps [simp]:
  "alone fs_documented now (get_doc d f) m = alone fs_documented now (f (m d)) m"
  "alone fs_documented now (set_doc d i) m = (Inr (), m(d \<mapsto> i))"
  "alone fs_documented now (delete_doc d p) m = alone fs_documented now p (m(d := None))"
  by (simp_all add: get_doc_def set_doc_def delete_doc_def alone_bind_request doc_of_def)

subsection \<open>Nonces\<close>

fun nonce_on_firestore :: "(fs_command, fs_result, 's) service \<Rightarrow> fs_lib \<Rightarrow> string \<Rightarrow> nonce_call \<Rightarrow> ('s, bool) M" where
  "nonce_on_firestore send F ns (SaveNonce now n) = thenM (alone send now (fs_nonce_save F ns n)) (ret True)"
| "nonce_on_firestore send F ns (ValidateNonce now n) = alone send now (fs_nonce_validate F ns n)"
| "nonce_on_firestore send F ns (RevokeNonce n) = alone send 0 (fs_nonce_revoke F ns n)"
| "nonce_on_firestore send F ns (ConsumeNonce now n) = alone send now (fs_nonce_consume F ns n)"

fun nonce_documented :: "nonce_call \<Rightarrow> bool" where
  "nonce_documented (SaveNonce now n) \<longleftrightarrow> document_id (nonce n) \<and> (case nonce_expires_in n of Some ttl \<Rightarrow> \<exists>x. ttl = num_int x | None \<Rightarrow> True)"
| "nonce_documented (ValidateNonce now n) \<longleftrightarrow> document_id (nonce n)"
| "nonce_documented (RevokeNonce n) \<longleftrightarrow> document_id (nonce n)"
| "nonce_documented (ConsumeNonce now n) \<longleftrightarrow> document_id (nonce n)"

definition nonces_ready :: "fs_lib \<Rightarrow> string \<Rightarrow> fs_docs \<Rightarrow> nonce_store \<Rightarrow> bool" where
  "nonces_ready F ns m st \<longleftrightarrow> fs_ready F ns \<and> similar nonce_item (documents ns ''nonces'' m) st"

lemma fs_nonce_paths:
  assumes "fs_ready F ns" and "document_id (nonce n)"
  shows "nonce_doc F ns n f = f (in_collection ns ''nonces'' (nonce n))"
  using assms by (simp add: collection_paths at_doc_id collections fs_ready_def)

lemma fs_nonce_save_run:
  assumes "fs_ready F ns" and "document_id (nonce n)" and "nonce_expires_in n = Some (num_int x)"
  shows "alone fs_documented now (fs_nonce_save F ns n) m =
    (Inr (), m(in_collection ns ''nonces'' (nonce n) \<mapsto> [(''nonce'', nonce_json n), (''expires_at'', JNum (num_int (now + x)))]))"
  using assms by (simp add: fs_nonce_save_def fs_nonce_paths at_time_int fs_ready_def flip: of_int_add)

interpretation fs_nonces: step_refinement "nonce_on_firestore fs_documented F ns" nonce_in_memory "nonces_ready F ns" nonce_documented for F ns
proof
  fix m st q
  assume "nonces_ready F ns m st" and ok: "nonce_documented q"
  then have f: "fs_ready F ns" and r: "similar nonce_item (documents ns ''nonces'' m) st" by (simp_all add: nonces_ready_def)
  note run = nonces_ready_def f fs_nonce_paths [OF f] nonce_item_def run_simps alone_bind_request documents_at
  show "fst (nonce_on_firestore fs_documented F ns q m) = fst (nonce_in_memory q st) \<and>
    nonces_ready F ns (snd (nonce_on_firestore fs_documented F ns q m)) (snd (nonce_in_memory q st))"
  proof (cases q)
    case (SaveNonce now n)
    show ?thesis
    proof (cases "nonce_expires_in n")
      case None
      then show ?thesis using r by (simp add: SaveNonce fs_nonce_save_def nonce_save_def run)
    next
      case (Some ttl)
      then obtain x where x: "nonce_expires_in n = Some (num_int x)" using ok SaveNonce by auto
      show ?thesis
        using r ok by (simp add: SaveNonce fs_nonce_save_run [OF f _ x] nonce_save_run [OF x] run num_attr_def similar_update)
    qed
  next
    case (ValidateNonce now n)
    from r show ?thesis
      by (cases rule: similar_cases [where k = "nonce n"])
        (use ok r in \<open>auto simp: ValidateNonce fs_nonce_validate_def nonce_validate_def getValidNonceState_def fs_expired_def run
          intro: similar_update similar_gone\<close>)
  next
    case (RevokeNonce n)
    from r show ?thesis
      by (cases rule: similar_cases [where k = "nonce n"])
        (use ok r in \<open>auto simp: RevokeNonce fs_nonce_revoke_def nonce_revoke_def remove_existing_def flag_of_def run
          intro: similar_update similar_gone\<close>)
  next
    case (ConsumeNonce now n)
    from r show ?thesis
      by (cases rule: similar_cases [where k = "nonce n"])
        (use ok r in \<open>auto simp: ConsumeNonce fs_nonce_consume_def nonce_consume_def nonce_revoke_def getValidNonceState_def take_live_def
          fs_expired_def flag_of_def run intro: similar_update similar_gone\<close>)
  qed
qed

subsection \<open>Allowed credential configurations\<close>

fun allowed_on_firestore :: "(fs_command, fs_result, 's) service \<Rightarrow> fs_lib \<Rightarrow> string \<Rightarrow> allowed_call \<Rightarrow> ('s, jsval option) M" where
  "allowed_on_firestore send F ns (SaveAllowed now h ids ttl) = thenM (alone send now (fs_allowed_save F ns None h ids ttl)) (ret None)"
| "allowed_on_firestore send F ns (FetchAllowed now h) = alone send now (fs_allowed_fetch F ns h)"
| "allowed_on_firestore send F ns (DeleteAllowed h) = thenM (alone send 0 (fs_allowed_delete F ns h)) (ret None)"

fun allowed_documented :: "allowed_call \<Rightarrow> bool" where
  "allowed_documented (SaveAllowed now h ids ttl) \<longleftrightarrow> document_id h \<and> 0 \<le> now"
| "allowed_documented (FetchAllowed now h) \<longleftrightarrow> document_id h"
| "allowed_documented (DeleteAllowed h) \<longleftrightarrow> document_id h"

definition allowed_ready :: "fs_lib \<Rightarrow> string \<Rightarrow> fs_docs \<Rightarrow> allowed_store \<Rightarrow> bool" where
  "allowed_ready F ns m st \<longleftrightarrow> fs_ready F ns \<and> similar allowed_item (documents ns ''allowedCredentialConfigurations'' m) st"

lemma fs_allowed_paths:
  assumes "fs_ready F ns" and "document_id h"
  shows "allowed_doc F ns h f = f (in_collection ns ''allowedCredentialConfigurations'' h)"
  using assms by (simp add: collection_paths at_doc_id collections fs_ready_def)

lemma fs_allowed_save_run:
  assumes "fs_ready F ns" and "document_id h"
  shows "alone fs_documented now (fs_allowed_save F ns None h ids ttl) m =
    (Inr (), m(in_collection ns ''allowedCredentialConfigurations'' h \<mapsto>
      [(''credential_configuration_ids'', JStrs ids), (''expires_at'', JNum (num_int (now + ttl_sec ttl * 1000))),
       (''created_at'', JNum (num_int now))]))"
  using assms(1) unfolding fs_allowed_save_def fs_allowed_paths [OF assms]
  by (simp add: at_time_int fs_ready_def ttl_sec_default del: of_int_add of_int_mult)

interpretation fs_allowed: step_refinement "allowed_on_firestore fs_documented F ns" allowed_in_memory "allowed_ready F ns" allowed_documented
  for F ns
proof
  fix m st q
  assume "allowed_ready F ns m st" and ok: "allowed_documented q"
  then have f: "fs_ready F ns" and r: "similar allowed_item (documents ns ''allowedCredentialConfigurations'' m) st"
    by (simp_all add: allowed_ready_def)
  note run = allowed_ready_def f fs_allowed_paths [OF f] allowed_item_def run_simps documents_at
  show "fst (allowed_on_firestore fs_documented F ns q m) = fst (allowed_in_memory q st) \<and>
    allowed_ready F ns (snd (allowed_on_firestore fs_documented F ns q m)) (snd (allowed_in_memory q st))"
  proof (cases q)
    case (SaveAllowed now h ids ttl)
    have "now + ttl_sec ttl * 1000 \<noteq> 0" using ok SaveAllowed ttl_sec_pos [of ttl] by simp
    then show ?thesis
      using r ok by (simp add: SaveAllowed fs_allowed_save_run [OF f] allowed_save_def run num_attr_def similar_update)
  next
    case (FetchAllowed now h)
    from r show ?thesis
      by (cases rule: similar_cases [where k = h])
        (use ok r in \<open>auto simp: FetchAllowed fs_allowed_fetch_def allowed_fetch_def run intro: similar_update similar_gone\<close>)
  next
    case (DeleteAllowed h)
    then show ?thesis
      using r ok by (auto simp: fs_allowed_delete_def allowed_delete_def run intro: similar_update)
  qed
qed

subsection \<open>Transactions\<close>

fun transaction_on_firestore ::
  "ext \<Rightarrow> vlib \<Rightarrow> (fs_command, fs_result, 's) service \<Rightarrow> fs_lib \<Rightarrow> string \<Rightarrow> jsnum option \<Rightarrow> transaction_call \<Rightarrow> ('s, Transaction option) M" where
  "transaction_on_firestore X V send F ns life (SaveTransaction now k r) =
     thenM (alone send now (fs_transaction_save F ns life k r)) (ret None)"
| "transaction_on_firestore X V send F ns life (FetchTransaction now k) = alone send now (fs_transaction_fetch X V F ns k)"
| "transaction_on_firestore X V send F ns life (DeleteTransaction k) = thenM (alone send 0 (fs_transaction_delete F ns k)) (ret None)"

text \<open>An identifier that both the store and Firestore accept; a query whose text is read back.\<close>

definition safe_id :: "string \<Rightarrow> bool" where
  "safe_id k \<longleftrightarrow> document_id k \<and> list_all safe_char k"

definition text_roundtrip :: "fs_lib \<Rightarrow> TransactionRecord \<Rightarrow> bool" where
  "text_roundtrip F r \<longleftrightarrow>
     (let query = JObj [(''dcql_query'', dq_json (tr_dcqlQuery r))] in parse_text F (stringify F query) = Inr query)"

fun transaction_documented :: "ext \<Rightarrow> vlib \<Rightarrow> fs_lib \<Rightarrow> transaction_call \<Rightarrow> bool" where
  "transaction_documented X V F (SaveTransaction now k r) \<longleftrightarrow> safe_id k \<and> readable X V r \<and> text_roundtrip F r"
| "transaction_documented X V F (FetchTransaction now k) \<longleftrightarrow> safe_id k"
| "transaction_documented X V F (DeleteTransaction k) \<longleftrightarrow> safe_id k"

definition fs_transaction_item :: "ext \<Rightarrow> vlib \<Rightarrow> fs_lib \<Rightarrow> string \<Rightarrow> obj \<Rightarrow> Transaction \<Rightarrow> bool" where
  "fs_transaction_item X V F k i t \<longleftrightarrow>
     num_attr i ''transaction_data_expires_at'' = Some (transaction_data_expires_at t) \<and>
     fs_transaction_of X V F k (transaction_data_expires_at t) i = Inr t"

definition fs_transactions_ready :: "ext \<Rightarrow> vlib \<Rightarrow> fs_lib \<Rightarrow> string \<Rightarrow> int \<Rightarrow> fs_docs \<Rightarrow> transaction_store \<Rightarrow> bool" where
  "fs_transactions_ready X V F ns life m st \<longleftrightarrow>
     fs_ready F ns \<and> (\<forall>k. rel_option (fs_transaction_item X V F k) (documents ns ''verifierTransactions'' m k) (st k))"

lemma safe_transaction:
  assumes "fs_ready F ns" and "safe_id k"
  shows "ensureSafeTransactionId k = Inr k" "transaction_doc F ns k f = f (in_collection ns ''verifierTransactions'' k)"
  using assms by (simp_all add: ensureSafeTransactionId_def safe_id_def collection_paths at_doc_id collections fs_ready_def document_id_def)

lemma fs_transaction_item_saved:
  assumes "readable X V r" and "text_roundtrip F r"
  shows "fs_transaction_item X V F k (fs_transaction_data F k r x)
    \<lparr>transaction_id = k, tx_dcqlQuery = tr_dcqlQuery r, transaction_data_expires_at = x, tx_clientId = tr_clientId r,
     tx_verifierId = tr_verifierId r, tx_state = tr_state r, tx_nonce = tr_nonce r\<rparr>"
  using assms
  by (cases "tr_state r"; cases r; cases "tr_dcqlQuery r")
    (auto simp: fs_transaction_item_def fs_transaction_of_def transaction_of_item_def fs_transaction_data_def num_attr_def readable_def
      text_roundtrip_def TransactionRecord_parse_def Dcql_check_def opt_member_def opt_ok_def Let_def split: sum.splits option.splits)

lemma fs_transaction_save_run:
  assumes "fs_ready F ns" and "safe_id k"
  shows "alone fs_documented now (fs_transaction_save F ns (Some (num_int life)) k r) m =
    (Inr (), m(in_collection ns ''verifierTransactions'' k \<mapsto> fs_transaction_data F k r (num_int (now + life))))"
  using assms(1) unfolding fs_transaction_save_def safe_transaction [OF assms]
  by (simp add: at_time_int fs_ready_def liftP_def safe_transaction [OF assms] flip: of_int_add)

interpretation fs_transactions: step_refinement "transaction_on_firestore X V fs_documented F ns (Some (num_int life))"
  "transaction_in_memory (Some (num_int life))" "fs_transactions_ready X V F ns life" "transaction_documented X V F" for X V F ns life
proof
  fix m st q
  assume "fs_transactions_ready X V F ns life m st" and ok: "transaction_documented X V F q"
  then have f: "fs_ready F ns" and r: "\<And>k. rel_option (fs_transaction_item X V F k) (documents ns ''verifierTransactions'' m k) (st k)"
    by (simp_all add: fs_transactions_ready_def)
  note run = fs_transactions_ready_def f safe_transaction [OF f] run_simps documents_at liftP_def
  show "fst (transaction_on_firestore X V fs_documented F ns (Some (num_int life)) q m) = fst (transaction_in_memory (Some (num_int life)) q st) \<and>
    fs_transactions_ready X V F ns life (snd (transaction_on_firestore X V fs_documented F ns (Some (num_int life)) q m))
      (snd (transaction_in_memory (Some (num_int life)) q st))"
  proof (cases q)
    case (SaveTransaction now k t)
    then show ?thesis
      using r ok fs_transaction_item_saved [of X V t F k "num_int (now + life)"]
      by (simp add: fs_transaction_save_run [OF f] transaction_save_def run)
  next
    case (FetchTransaction now k)
    show ?thesis
    proof (cases "documents ns ''verifierTransactions'' m k")
      case None
      then have "st k = None" using r [of k] by simp
      then show ?thesis using None r ok by (simp add: FetchTransaction fs_transaction_fetch_def transaction_fetch_def run)
    next
      case (Some i)
      then obtain t where t: "st k = Some t" "fs_transaction_item X V F k i t" using r [of k] by (auto simp: option_rel_Some1)
      then show ?thesis
        using Some r ok by (simp add: FetchTransaction fs_transaction_fetch_def transaction_fetch_def run fs_transaction_item_def)
    qed
  next
    case (DeleteTransaction k)
    then show ?thesis using r ok by (simp add: fs_transaction_delete_def transaction_delete_def run)
  qed
qed

subsection \<open>The stores answer as the in-memory stores\<close>

context firestore_available begin

lemma stores_on_docs:
  "replies (nonce_on_firestore send F ns) qs s = replies (nonce_on_firestore fs_documented F ns) qs (docs s)"
  "replies (allowed_on_firestore send F ns) as s = replies (allowed_on_firestore fs_documented F ns) as (docs s)"
  "replies (transaction_on_firestore X V send F ns life) ts s = replies (transaction_on_firestore X V fs_documented F ns life) ts (docs s)"
proof -
  have "fst (nonce_on_firestore send F ns q s) = fst (nonce_on_firestore fs_documented F ns q (docs s)) \<and>
      docs (snd (nonce_on_firestore send F ns q s)) = snd (nonce_on_firestore fs_documented F ns q (docs s))" for q s
    by (cases q) (simp_all add: alone_docs thenM_docs)
  then show "replies (nonce_on_firestore send F ns) qs s = replies (nonce_on_firestore fs_documented F ns) qs (docs s)"
    by (rule replies_on_docs)
  have "fst (allowed_on_firestore send F ns q s) = fst (allowed_on_firestore fs_documented F ns q (docs s)) \<and>
      docs (snd (allowed_on_firestore send F ns q s)) = snd (allowed_on_firestore fs_documented F ns q (docs s))" for q s
    by (cases q) (simp_all add: alone_docs thenM_docs)
  then show "replies (allowed_on_firestore send F ns) as s = replies (allowed_on_firestore fs_documented F ns) as (docs s)"
    by (rule replies_on_docs)
  have "fst (transaction_on_firestore X V send F ns life q s) = fst (transaction_on_firestore X V fs_documented F ns life q (docs s)) \<and>
      docs (snd (transaction_on_firestore X V send F ns life q s)) = snd (transaction_on_firestore X V fs_documented F ns life q (docs s))" for q s
    by (cases q) (simp_all add: alone_docs thenM_docs)
  then show "replies (transaction_on_firestore X V send F ns life) ts s = replies (transaction_on_firestore X V fs_documented F ns life) ts (docs s)"
    by (rule replies_on_docs)
qed

end

text \<open>C20. On available Firestore documents, starting empty, the stores of nonces, of allowed credential
  configurations and of transactions give, to any sequence of calls, exactly the answers of the
  in-memory stores. Keys are identifiers that the stores and Firestore take, life times are whole
  milliseconds, clock readings are not before the epoch, and saved transactions are ones the schemas accept
  as they are, with queries that their text gives back.\<close>

theorem firestore_stores_refine:
  assumes "firestore_available send docs expire" and "docs s = (\<lambda>d. None)" and "fs_ready F ns"
    and "list_all nonce_documented qs" and "list_all allowed_documented as" and "list_all (transaction_documented X V F) ts"
  shows "replies (nonce_on_firestore send F ns) qs s = replies nonce_in_memory qs (\<lambda>k. None) \<and>
    replies (allowed_on_firestore send F ns) as s = replies allowed_in_memory as (\<lambda>k. None) \<and>
    replies (transaction_on_firestore X V send F ns (Some (num_int life))) ts s =
      replies (transaction_in_memory (Some (num_int life))) ts (\<lambda>k. None)"
proof -
  have "nonces_ready F ns (docs s) (\<lambda>k. None)" "allowed_ready F ns (docs s) (\<lambda>k. None)"
    "fs_transactions_ready X V F ns life (docs s) (\<lambda>k. None)"
    using assms(2,3) by (simp_all add: nonces_ready_def allowed_ready_def fs_transactions_ready_def similar_empty)
  then show ?thesis
    by (simp add: firestore_available.stores_on_docs [OF assms(1)] fs_nonces.replies_eq [OF _ assms(4)]
        fs_allowed.replies_eq [OF _ assms(5)] fs_transactions.replies_eq [OF _ assms(6)] del: replies.simps)
qed

text \<open>A client library that reads the text of one query.\<close>

definition query_fs :: fs_lib where
  "query_fs = plain_fs\<lparr>parse_text := (\<lambda>t. Inr (JObj [(''dcql_query'', dq_json (tr_dcqlQuery sample_record))]))\<rparr>"

theorem firestore_stores_refine_witness:
  "replies (nonce_on_firestore fs_documented query_fs ''vcknots'')
     [SaveNonce 0 sample_nonce, ConsumeNonce 1000 sample_nonce, ConsumeNonce 1000 sample_nonce] (\<lambda>k. None)
     = [Inr True, Inr True, Inr False] \<and>
   replies (allowed_on_firestore fs_documented query_fs ''vcknots'')
     [SaveAllowed 0 ''h'' [''degree''] None, FetchAllowed 300000 ''h'', FetchAllowed 300001 ''h''] (\<lambda>k. None)
     = [Inr None, Inr (Some (JStrs [''degree''])), Inr None] \<and>
   map (map_sum id (map_option tx_nonce)) (replies (transaction_on_firestore sample_ext (sample_lib []) fs_documented query_fs ''vcknots'' (Some (num_int 1000)))
       [SaveTransaction 0 ''t1'' sample_record, FetchTransaction 1000 ''t1'', FetchTransaction 1001 ''t1''] (\<lambda>k. None))
     = [Inr None, Inr (Some ''n1''), Inr None]" (is "replies _ ?ns _ = _ \<and> replies _ ?as _ = _ \<and> map _ (replies _ ?ts _) = _")
proof -
  have "transaction_documented sample_ext (sample_lib []) query_fs (SaveTransaction 0 ''t1'' sample_record)"
    "transaction_documented sample_ext (sample_lib []) query_fs (FetchTransaction t ''t1'')" for t
    by code_simp+
  then have "replies (nonce_on_firestore fs_documented query_fs ''vcknots'') ?ns (\<lambda>k. None) = replies nonce_in_memory ?ns (\<lambda>k. None) \<and>
    replies (allowed_on_firestore fs_documented query_fs ''vcknots'') ?as (\<lambda>k. None) = replies allowed_in_memory ?as (\<lambda>k. None) \<and>
    replies (transaction_on_firestore sample_ext (sample_lib []) fs_documented query_fs ''vcknots'' (Some (num_int 1000))) ?ts (\<lambda>k. None) =
      replies (transaction_in_memory (Some (num_int 1000))) ?ts (\<lambda>k. None)"
    by (intro firestore_stores_refine [OF collection.firestore_available_axioms])
      (simp_all add: sample_nonce_def fs_ready_def takes_ids_def whole_millis_def plain_fs_def query_fs_def document_id_def)
  then show ?thesis by (simp only:) code_simp
qed

subsection \<open>A merge keeps what the new metadata lack\<close>

lemma deep_merge_lookup: "k \<notin> fst ` set new \<Longrightarrow> oget (deep_merge old new) k = oget old k"
  by (induction new arbitrary: old) auto

lemma merged_metadata_keeps_member:
  assumes "oget old k = Some v" and "k \<notin> fst ` set (metadata_json m)"
    and "takes_ids F ns" and "document_id (md5 verifier)"
    and "docs0 (in_collection ns ''verifiers'' (md5 verifier)) = Some old"
  shows "\<exists>i. snd (alone fs_documented now (fs_verifier_metadata_save F md5 ns verifier m) docs0)
      (in_collection ns ''verifiers'' (md5 verifier)) = Some i \<and> oget i k = Some v"
proof -
  have "fs_verifier_metadata_save F md5 ns verifier m = merge_doc (in_collection ns ''verifiers'' (md5 verifier)) (metadata_json m)"
    using at_doc_id [OF assms(3) collections(7) assms(4)] unfolding fs_verifier_metadata_save_def in_collection_def by simp
  then show ?thesis using assms(1,2,5) by (simp add: merge_doc_def alone_bind_request deep_merge_lookup)
qed

end
