(* ===== verification/Cloud_Records.thy ===== *)
theory Cloud_Records
  imports Issuer_Schema Dynamo_Store_Refinement Firestore_Store_Refinement
begin

text \<open>
  The stores of registered records (authorization server metadata, OAuth policies and clients,
  issuer metadata) on DynamoDB and on Firestore
  (\<open>aws/src/providers/dynamodb-*.provider.ts\<close>, \<open>google-cloud/src/providers/firestore-*.provider.ts\<close>).
  A record is written as the object of its schema and parsed when it is read.
\<close>

subsection \<open>DynamoDB\<close>

text \<open>The partition key is the member \<open>id\<close> of the item, and must be a string.\<close>

definition put_item :: "obj \<Rightarrow> unit dynamo_program" where
  "put_item i =
     (case oget i ''id'' of
        Some (JStr k) \<Rightarrow> request_catch (PutItem k i) throwP (\<lambda>_. retP ())
      | _ \<Rightarrow> throwP (JsError ''ValidationException''))"

definition get_record :: "string \<Rightarrow> (obj \<Rightarrow> 'a option) \<Rightarrow> 'a option dynamo_program" where
  "get_record k parse =
     request_catch (GetItem k False) throwP (\<lambda>found.
       case found of
         None \<Rightarrow> retP None
       | Some i \<Rightarrow> (case parse i of None \<Rightarrow> throwP zod_error | Some r \<Rightarrow> retP (Some r)))"

definition dynamo_authz_metadata_fetch :: "ext \<Rightarrow> (string \<Rightarrow> string) \<Rightarrow> string \<Rightarrow> AuthorizationServerMetadata option dynamo_program" where
  "dynamo_authz_metadata_fetch X md5 issuer =
     get_record (md5 issuer) (\<lambda>i. AuthorizationServerMetadata_parse X (JObj (unknown [''id''] i)))"

definition dynamo_authz_metadata_save :: "(string \<Rightarrow> string) \<Rightarrow> AuthorizationServerMetadata \<Rightarrow> unit dynamo_program" where
  "dynamo_authz_metadata_save md5 metadata =
     put_item ((''id'', JStr (md5 (as_issuer metadata))) # authz_metadata_write metadata)"

definition dynamo_policy_fetch :: "(string \<Rightarrow> string) \<Rightarrow> string \<Rightarrow> AuthzOAuthPolicy option dynamo_program" where
  "dynamo_policy_fetch md5 issuer =
     get_record (md5 issuer) (\<lambda>i. AuthzOAuthPolicy_parse (JObj (unknown [''id'', ''issuer''] i)))"

definition dynamo_policy_save :: "(string \<Rightarrow> string) \<Rightarrow> string \<Rightarrow> AuthzOAuthPolicy \<Rightarrow> unit dynamo_program" where
  "dynamo_policy_save md5 issuer policy =
     put_item ([(''id'', JStr (md5 issuer)), (''issuer'', JStr issuer)] @ policy_write policy)"

definition dynamo_issuer_metadata_fetch :: "ext \<Rightarrow> (string \<Rightarrow> string) \<Rightarrow> string \<Rightarrow> CredentialIssuerMetadata option dynamo_program" where
  "dynamo_issuer_metadata_fetch X md5 issuer =
     get_record (md5 issuer) (\<lambda>i. CredentialIssuerMetadata_parse X (JObj (unknown [''id''] i)))"

definition dynamo_issuer_metadata_save :: "(string \<Rightarrow> string) \<Rightarrow> CredentialIssuerMetadata \<Rightarrow> unit dynamo_program" where
  "dynamo_issuer_metadata_save md5 metadata =
     put_item ((''id'', JStr (md5 (credential_issuer metadata))) # issuer_metadata_write metadata)"

definition buildId :: "(string \<Rightarrow> string) \<Rightarrow> string \<Rightarrow> string \<Rightarrow> string" where
  "buildId md5 issuer clientId = md5 issuer @ ''#'' @ clientId"

definition visible_client :: "AuthzOAuthClient option \<Rightarrow> AuthzOAuthClient option" where
  "visible_client c =
     (case c of Some client \<Rightarrow> if client_enabled client = Some False then None else Some client | None \<Rightarrow> None)"

definition dynamo_client_fetch :: "ext \<Rightarrow> (string \<Rightarrow> string) \<Rightarrow> string \<Rightarrow> string \<Rightarrow> AuthzOAuthClient option dynamo_program" where
  "dynamo_client_fetch X md5 issuer clientId =
     bindP (get_record (buildId md5 issuer clientId) (\<lambda>i. AuthzOAuthClient_parse X (JObj (unknown [''id'', ''issuer''] i))))
       (\<lambda>c. retP (visible_client c))"

text \<open>\<open>{ id, issuer, ...oauthClient }\<close>: a member of the client replaces one of the same name.\<close>

definition dynamo_client_save :: "(string \<Rightarrow> string) \<Rightarrow> string \<Rightarrow> AuthzOAuthClient \<Rightarrow> unit dynamo_program" where
  "dynamo_client_save md5 issuer client =
     put_item (omerge [(''id'', JStr (buildId md5 issuer (client_id client))), (''issuer'', JStr issuer)] (client_write client))"

subsection \<open>Firestore\<close>

definition get_record_doc :: "string \<Rightarrow> (obj \<Rightarrow> 'a option) \<Rightarrow> 'a option fs_program" where
  "get_record_doc d parse =
     get_doc d (\<lambda>found.
       case found of
         None \<Rightarrow> retP None
       | Some i \<Rightarrow> (case parse i of None \<Rightarrow> throwP zod_error | Some r \<Rightarrow> retP (Some r)))"

definition fs_authz_metadata_fetch ::
  "ext \<Rightarrow> fs_lib \<Rightarrow> (string \<Rightarrow> string) \<Rightarrow> string \<Rightarrow> string \<Rightarrow> AuthorizationServerMetadata option fs_program" where
  "fs_authz_metadata_fetch X F md5 ns issuer =
     at_doc F (ns @ ''/v1/authServers/'' @ md5 issuer) (\<lambda>d. get_record_doc d (\<lambda>i. AuthorizationServerMetadata_parse X (JObj i)))"

definition fs_authz_metadata_save :: "fs_lib \<Rightarrow> (string \<Rightarrow> string) \<Rightarrow> string \<Rightarrow> AuthorizationServerMetadata \<Rightarrow> unit fs_program" where
  "fs_authz_metadata_save F md5 ns metadata =
     at_doc F (ns @ ''/v1/authServers/'' @ md5 (as_issuer metadata)) (\<lambda>d. merge_doc d (authz_metadata_write metadata))"

definition fs_policy_fetch :: "fs_lib \<Rightarrow> (string \<Rightarrow> string) \<Rightarrow> string \<Rightarrow> string \<Rightarrow> AuthzOAuthPolicy option fs_program" where
  "fs_policy_fetch F md5 ns issuer =
     at_doc F (ns @ ''/v1/authzOAuthPolicies/'' @ md5 issuer)
       (\<lambda>d. get_record_doc d (\<lambda>i. AuthzOAuthPolicy_parse (JObj (unknown [''issuer''] i))))"

definition fs_policy_save :: "fs_lib \<Rightarrow> (string \<Rightarrow> string) \<Rightarrow> string \<Rightarrow> string \<Rightarrow> AuthzOAuthPolicy \<Rightarrow> unit fs_program" where
  "fs_policy_save F md5 ns issuer policy =
     at_doc F (ns @ ''/v1/authzOAuthPolicies/'' @ md5 issuer)
       (\<lambda>d. merge_doc d ((''issuer'', JStr issuer) # policy_write policy))"

definition fs_issuer_metadata_fetch ::
  "ext \<Rightarrow> fs_lib \<Rightarrow> (string \<Rightarrow> string) \<Rightarrow> string \<Rightarrow> string \<Rightarrow> CredentialIssuerMetadata option fs_program" where
  "fs_issuer_metadata_fetch X F md5 ns issuer =
     at_doc F (ns @ ''/v1/issuers/'' @ md5 issuer) (\<lambda>d. get_record_doc d (\<lambda>i. CredentialIssuerMetadata_parse X (JObj i)))"

definition fs_issuer_metadata_save :: "fs_lib \<Rightarrow> (string \<Rightarrow> string) \<Rightarrow> string \<Rightarrow> CredentialIssuerMetadata \<Rightarrow> unit fs_program" where
  "fs_issuer_metadata_save F md5 ns metadata =
     at_doc F (ns @ ''/v1/issuers/'' @ md5 (credential_issuer metadata)) (\<lambda>d. merge_doc d (issuer_metadata_write metadata))"

definition client_path :: "(string \<Rightarrow> string) \<Rightarrow> string \<Rightarrow> string \<Rightarrow> string \<Rightarrow> string" where
  "client_path sha ns issuer clientId = ns @ ''/v1/authzOAuthClients/'' @ sha issuer @ ''/clients/'' @ sha clientId"

definition fs_client_fetch ::
  "ext \<Rightarrow> fs_lib \<Rightarrow> (string \<Rightarrow> string) \<Rightarrow> string \<Rightarrow> string \<Rightarrow> string \<Rightarrow> AuthzOAuthClient option fs_program" where
  "fs_client_fetch X F sha ns issuer clientId =
     at_doc F (client_path sha ns issuer clientId) (\<lambda>d.
       bindP (get_record_doc d (\<lambda>i. AuthzOAuthClient_parse X (JObj (unknown [''issuer''] i)))) (\<lambda>c. retP (visible_client c)))"

definition fs_client_save :: "fs_lib \<Rightarrow> (string \<Rightarrow> string) \<Rightarrow> string \<Rightarrow> string \<Rightarrow> AuthzOAuthClient \<Rightarrow> unit fs_program" where
  "fs_client_save F sha ns issuer client =
     at_doc F (client_path sha ns issuer (client_id client))
       (\<lambda>d. merge_doc d (omerge [(''issuer'', JStr issuer)] (client_write client)))"

subsection \<open>The DynamoDB stores answer as the in-memory stores\<close>

datatype ('v, 'k) record_call = SaveRecord 'v | FetchRecord 'k

fun run_record :: "('v \<Rightarrow> ('s, unit) M) \<Rightarrow> ('k \<Rightarrow> ('s, 'a option) M) \<Rightarrow> ('v, 'k) record_call \<Rightarrow> ('s, 'a option) M" where
  "run_record save fetch (SaveRecord v) = thenM (save v) (ret None)"
| "run_record save fetch (FetchRecord k) = fetch k"

text \<open>A store in memory under keys of its own.\<close>

definition memory_save :: "('v \<Rightarrow> 'm) \<Rightarrow> ('v \<Rightarrow> 'a) \<Rightarrow> 'v \<Rightarrow> ('m \<Rightarrow> 'a option, unit) M" where
  "memory_save key record_of v st = (Inr (), st(key v \<mapsto> record_of v))"

definition memory_fetch :: "('k \<Rightarrow> 'm) \<Rightarrow> ('a option \<Rightarrow> 'a option) \<Rightarrow> 'k \<Rightarrow> ('m \<Rightarrow> 'a option, 'a option) M" where
  "memory_fetch key view k st = (Inr (view (st (key k))), st)"

fun record_ok :: "('v \<Rightarrow> bool) \<Rightarrow> ('v \<Rightarrow> 'k) \<Rightarrow> 'k set \<Rightarrow> ('v, 'k) record_call \<Rightarrow> bool" where
  "record_ok fits key K (SaveRecord v) \<longleftrightarrow> fits v \<and> key v \<in> K"
| "record_ok fits key K (FetchRecord k) \<longleftrightarrow> k \<in> K"

text \<open>
  One store against another: a record saved is read back by the parser of the first, and both
  index it alike on the keys in use.
\<close>

definition kept :: "'k set \<Rightarrow> ('k \<Rightarrow> string) \<Rightarrow> ('k \<Rightarrow> 'm) \<Rightarrow> (obj \<Rightarrow> 'a option) \<Rightarrow> dynamo_table \<Rightarrow> ('m \<Rightarrow> 'a option) \<Rightarrow> bool" where
  "kept K dkey mkey parse m st \<longleftrightarrow> (\<forall>k \<in> K. map_option parse (m (dkey k)) = map_option Some (st (mkey k)))"

lemma kept_update:
  assumes "kept K dkey mkey parse m st" and "inj_on dkey K" and "inj_on mkey K" and "k \<in> K" and "parse i = Some r"
  shows "kept K dkey mkey parse (m(dkey k \<mapsto> i)) (st(mkey k \<mapsto> r))"
  using assms by (auto simp: kept_def inj_on_eq_iff)

lemma kept_empty: "kept K dkey mkey parse (\<lambda>k. None) (\<lambda>k. None)"
  by (simp add: kept_def)

lemma get_record_kept:
  assumes "kept K dkey mkey parse m st" and "k \<in> K"
  shows "alone documented now (get_record (dkey k) parse) m = (Inr (st (mkey k)), m)"
proof -
  have "map_option parse (m (dkey k)) = map_option Some (st (mkey k))" using assms by (simp add: kept_def)
  then show ?thesis by (cases "m (dkey k)"; cases "st (mkey k)") (simp_all add: get_record_def)
qed

lemma put_item_run: "oget i ''id'' = Some (JStr k) \<Longrightarrow> alone documented now (put_item i) m = (Inr (), m(k \<mapsto> i))"
  by (simp add: put_item_def)

locale record_store =
  fixes saving :: "'v \<Rightarrow> unit dynamo_program" and fetching :: "'k \<Rightarrow> 'a option dynamo_program"
    and key :: "'v \<Rightarrow> 'k" and record_of :: "'v \<Rightarrow> 'a" and item :: "'v \<Rightarrow> obj" and fits :: "'v \<Rightarrow> bool"
    and dkey :: "'k \<Rightarrow> string" and mkey :: "'k \<Rightarrow> 'm" and parse :: "obj \<Rightarrow> 'a option" and view :: "'a option \<Rightarrow> 'a option"
  assumes saved: "fits v \<Longrightarrow> alone documented now (saving v) m = (Inr (), m(dkey (key v) \<mapsto> item v))"
    and fetched: "kept K dkey mkey parse m st \<Longrightarrow> k \<in> K \<Longrightarrow> alone documented now (fetching k) m = (Inr (view (st (mkey k))), m)"
    and parsed: "fits v \<Longrightarrow> parse (item v) = Some (record_of v)"
begin

lemma replies_agree:
  assumes "inj_on dkey K" and "inj_on mkey K" and "list_all (record_ok fits key K) calls" and "kept K dkey mkey parse m st"
  shows "replies (run_record (\<lambda>v. alone documented now (saving v)) (\<lambda>k. alone documented now (fetching k))) calls m =
    replies (run_record (memory_save (\<lambda>v. mkey (key v)) record_of) (memory_fetch mkey view)) calls st"
  using assms(3,4)
proof (induction calls arbitrary: m st)
  case (Cons c calls)
  show ?case
  proof (cases c)
    case (SaveRecord v)
    then have "kept K dkey mkey parse (m(dkey (key v) \<mapsto> item v)) (st(mkey (key v) \<mapsto> record_of v))"
      using Cons.prems assms(1,2) by (intro kept_update) (simp_all add: parsed)
    from Cons.IH [OF _ this] show ?thesis
      using Cons.prems SaveRecord by (simp add: saved memory_save_def thenM_def bindM_def ret_def del: fun_upd_apply)
  next
    case (FetchRecord k)
    then show ?thesis using Cons by (simp add: fetched memory_fetch_def)
  qed
qed simp

end

subsection \<open>The four stores\<close>

lemma unknown_Cons: "unknown ks ((k, v) # ob) = (if k \<in> set ks then unknown ks ob else (k, v) # unknown ks ob)"
  by (simp add: unknown_def)

lemma unknown_members_same:
  assumes "set (map fst kvs) \<inter> set ks = {}"
  shows "unknown ks (members kvs) = members kvs"
proof -
  have "fst x \<notin> set ks" if "x \<in> set (members kvs)" for x
    using that assms members_keys [of kvs] by (metis disjoint_iff imageI set_map subsetD)
  then show ?thesis by (simp add: unknown_def filter_id_conv case_prod_beta)
qed

definition authz_metadata_fits :: "ext \<Rightarrow> AuthorizationServerMetadata \<Rightarrow> bool" where
  "authz_metadata_fits X m \<longleftrightarrow> url_stable X \<and> authz_metadata_ok X m"

definition issuer_metadata_fits :: "ext \<Rightarrow> CredentialIssuerMetadata \<Rightarrow> bool" where
  "issuer_metadata_fits X m \<longleftrightarrow> url_stable X \<and> issuer_metadata_ok X m"

interpretation metadata_store: record_store "dynamo_authz_metadata_save md5" "dynamo_authz_metadata_fetch X md5" as_issuer "\<lambda>m. m"
  "\<lambda>m. (''id'', JStr (md5 (as_issuer m))) # authz_metadata_write m" "authz_metadata_fits X" md5 "\<lambda>i. i"
  "\<lambda>i. AuthorizationServerMetadata_parse X (JObj (unknown [''id''] i))" "\<lambda>r. r" for X md5
proof
  fix m assume "authz_metadata_fits X m"
  moreover have "unknown [''id''] ((''id'', JStr (md5 (as_issuer m))) # authz_metadata_write m) = authz_metadata_write m"
    unfolding authz_metadata_write_def unknown_Cons by (simp add: unknown_members_same)
  ultimately show "AuthorizationServerMetadata_parse X (JObj (unknown [''id''] ((''id'', JStr (md5 (as_issuer m))) # authz_metadata_write m))) = Some m"
    using codec.read_write [OF authz_metadata_codec] by (simp add: authz_metadata_fits_def)
qed (simp_all add: dynamo_authz_metadata_save_def dynamo_authz_metadata_fetch_def put_item_run get_record_kept)

interpretation issuer_store: record_store "dynamo_issuer_metadata_save md5" "dynamo_issuer_metadata_fetch X md5" credential_issuer "\<lambda>m. m"
  "\<lambda>m. (''id'', JStr (md5 (credential_issuer m))) # issuer_metadata_write m" "issuer_metadata_fits X" md5 "\<lambda>i. i"
  "\<lambda>i. CredentialIssuerMetadata_parse X (JObj (unknown [''id''] i))" "\<lambda>r. r" for X md5
proof
  fix m assume "issuer_metadata_fits X m"
  moreover have "unknown [''id''] ((''id'', JStr (md5 (credential_issuer m))) # issuer_metadata_write m) = issuer_metadata_write m"
    unfolding issuer_metadata_write_def unknown_Cons by (simp add: unknown_members_same)
  ultimately show "CredentialIssuerMetadata_parse X (JObj (unknown [''id''] ((''id'', JStr (md5 (credential_issuer m))) # issuer_metadata_write m))) = Some m"
    using codec.read_write [OF issuer_metadata_codec] by (simp add: issuer_metadata_fits_def)
qed (simp_all add: dynamo_issuer_metadata_save_def dynamo_issuer_metadata_fetch_def put_item_run get_record_kept)

interpretation policy_store: record_store "\<lambda>(i, p). dynamo_policy_save md5 i p" "dynamo_policy_fetch md5" fst snd
  "\<lambda>(i, p). [(''id'', JStr (md5 i)), (''issuer'', JStr i)] @ policy_write p" "\<lambda>v. True" md5 "\<lambda>i. i"
  "\<lambda>i. AuthzOAuthPolicy_parse (JObj (unknown [''id'', ''issuer''] i))" "\<lambda>r. r" for md5
proof
  fix v :: "string \<times> AuthzOAuthPolicy"
  obtain i p where v: "v = (i, p)" by fastforce
  have "unknown [''id'', ''issuer''] ([(''id'', JStr (md5 i)), (''issuer'', JStr i)] @ policy_write p) = policy_write p"
    unfolding policy_write_def by (simp add: unknown_Cons unknown_members_same)
  then show "AuthzOAuthPolicy_parse (JObj (unknown [''id'', ''issuer'']
      (case v of (i, p) \<Rightarrow> [(''id'', JStr (md5 i)), (''issuer'', JStr i)] @ policy_write p))) = Some (snd v)"
    using policies.read_write by (simp add: v)
qed (auto simp: dynamo_policy_save_def dynamo_policy_fetch_def put_item_run get_record_kept split: prod.split)

text \<open>Clients: members that are unknown to the schema must not take the names the store adds.\<close>

definition client_fits :: "ext \<Rightarrow> string \<times> AuthzOAuthClient \<Rightarrow> bool" where
  "client_fits X v \<longleftrightarrow>
     url_stable X \<and> client_ok X (snd v) \<and> distinct (map fst (client_passthrough (snd v))) \<and>
     list_all (\<lambda>(k, x). k \<noteq> ''id'' \<and> k \<noteq> ''issuer'') (client_passthrough (snd v))"

lemma oset_absent: "k \<notin> fst ` set ob \<Longrightarrow> oset ob k v = ob @ [(k, v)]"
  unfolding oset_def by (induction ob) auto

lemma omerge_disjoint:
  "distinct (map fst b) \<Longrightarrow> fst ` set a \<inter> fst ` set b = {} \<Longrightarrow> omerge a b = a @ b"
proof (induction b arbitrary: a)
  case (Cons x b)
  obtain k v where x: "x = (k, v)" by fastforce
  have "oset a k v = a @ [(k, v)]" using Cons.prems(2) by (intro oset_absent) (auto simp: x)
  moreover have "omerge (a @ [(k, v)]) b = (a @ [(k, v)]) @ b"
    using Cons.prems by (intro Cons.IH) (auto simp: x)
  ultimately show ?case by (simp add: x omerge_Cons)
qed simp

lemma distinct_members: "distinct (map fst kvs) \<Longrightarrow> distinct (map fst (members kvs))"
proof (induction kvs)
  case (Cons x kvs)
  obtain k v where x: "x = (k, v)" by fastforce
  have "members (x # kvs) = opt_member k v @ members kvs" by (simp add: members_def x)
  then show ?case using Cons members_keys [of kvs] by (auto simp: x opt_member_def split: option.split)
qed (simp add: members_def)

lemma client_write_split:
  obtains kvs where "client_write c = members kvs @ client_passthrough c" "distinct (map fst kvs)" "set (map fst kvs) = set client_keys"
  by (rule that [OF client_write_def]) (simp_all add: client_keys_def)

lemma client_item:
  assumes "client_fits X (i, c)"
  shows "omerge [(''id'', JStr k), (''issuer'', JStr i)] (client_write c) = [(''id'', JStr k), (''issuer'', JStr i)] @ client_write c"
    and "unknown [''id'', ''issuer''] (client_write c) = client_write c"
    and "distinct (map fst (client_write c))" and "''issuer'' \<notin> fst ` set (client_write c)"
proof -
  obtain kvs where w: "client_write c = members kvs @ client_passthrough c" "distinct (map fst kvs)" "set (map fst kvs) = set client_keys"
    by (rule client_write_split)
  have sub: "fst ` set (members kvs) \<subseteq> set client_keys" using members_keys [of kvs] w(3) by simp
  have rest: "fst ` set (client_passthrough c) \<inter> set client_keys = {}" "''id'' \<notin> fst ` set (client_passthrough c)"
      "''issuer'' \<notin> fst ` set (client_passthrough c)" "distinct (map fst (client_passthrough c))"
    using assms by (auto simp: client_fits_def client_ok_def list_all_iff)
  have ids: "''id'' \<notin> set client_keys" "''issuer'' \<notin> set client_keys" by (simp_all add: client_keys_def)
  show distinct: "distinct (map fst (client_write c))"
    using w(1) distinct_members [OF w(2)] rest(1,4) sub by (auto simp: distinct_append)
  have absent: "''id'' \<notin> fst ` set (client_write c)" "''issuer'' \<notin> fst ` set (client_write c)"
    using w(1) sub ids rest(2,3) by auto
  then show "''issuer'' \<notin> fst ` set (client_write c)" by blast
  show "omerge [(''id'', JStr k), (''issuer'', JStr i)] (client_write c) = [(''id'', JStr k), (''issuer'', JStr i)] @ client_write c"
    using distinct absent by (intro omerge_disjoint) auto
  show "unknown [''id'', ''issuer''] (client_write c) = client_write c"
    using absent by (force simp: unknown_def filter_id_conv)
qed

lemma dynamo_client_fetch_run:
  assumes "kept K (\<lambda>(i, c). buildId md5 i c) mkey (\<lambda>i. AuthzOAuthClient_parse X (JObj (unknown [''id'', ''issuer''] i))) m st" and "(i, c) \<in> K"
  shows "alone documented now (dynamo_client_fetch X md5 i c) m = (Inr (visible_client (st (mkey (i, c)))), m)"
  using get_record_kept [OF assms] by (simp add: dynamo_client_fetch_def alone_bindP bindM_def)

interpretation client_store: record_store "\<lambda>(i, c). dynamo_client_save md5 i c" "\<lambda>(i, c). dynamo_client_fetch X md5 i c"
  "\<lambda>(i, c). (i, client_id c)" snd
  "\<lambda>(i, c). omerge [(''id'', JStr (buildId md5 i (client_id c))), (''issuer'', JStr i)] (client_write c)"
  "client_fits X" "\<lambda>(i, c). buildId md5 i c" "\<lambda>(i, c). oauth_client_key i c"
  "\<lambda>i. AuthzOAuthClient_parse X (JObj (unknown [''id'', ''issuer''] i))" visible_client for X md5
proof
  fix v m now assume fits: "client_fits X v"
  obtain i c where v: "v = (i, c)" by fastforce
  show "alone documented now (case v of (i, c) \<Rightarrow> dynamo_client_save md5 i c) m =
      (Inr (), m((case case v of (i, c) \<Rightarrow> (i, client_id c) of (i, c) \<Rightarrow> buildId md5 i c) \<mapsto>
        (case v of (i, c) \<Rightarrow> omerge [(''id'', JStr (buildId md5 i (client_id c))), (''issuer'', JStr i)] (client_write c))))"
    using client_item(1) [OF fits [unfolded v]] by (simp add: v dynamo_client_save_def put_item_run)
  have "unknown [''id'', ''issuer''] ([(''id'', JStr (buildId md5 i (client_id c))), (''issuer'', JStr i)] @ client_write c) = client_write c"
    using client_item(2) [OF fits [unfolded v]] by (simp add: unknown_Cons)
  moreover have "AuthzOAuthClient_parse X (JObj (client_write c)) = Some c"
    using codec.read_write [OF client_codec, of X c] fits by (simp add: client_fits_def v)
  ultimately show "AuthzOAuthClient_parse X (JObj (unknown [''id'', ''issuer''] (case v of (i, c) \<Rightarrow>
      omerge [(''id'', JStr (buildId md5 i (client_id c))), (''issuer'', JStr i)] (client_write c)))) = Some (snd v)"
    using client_item(1) [OF fits [unfolded v]] by (simp add: v)
qed (auto simp: dynamo_client_fetch_run split: prod.split)

lemma separated_eq: "x \<notin> set a \<Longrightarrow> x \<notin> set b \<Longrightarrow> a @ x # c = b @ x # d \<longleftrightarrow> a = b \<and> c = d"
proof (induction a arbitrary: b)
  case Nil
  then show ?case by (cases b) auto
next
  case (Cons y a)
  then show ?case by (cases b) auto
qed

lemma buildId_inj: "\<forall>i. CHR ''#'' \<notin> set (md5 i) \<Longrightarrow> inj_on md5 I \<Longrightarrow> inj_on (\<lambda>(i, c). buildId md5 i c) (I \<times> UNIV)"
  by (auto simp: inj_on_def buildId_def separated_eq)

lemma oauth_client_key_inj: "\<forall>i \<in> I. char_of (10 :: nat) \<notin> set i \<Longrightarrow> inj_on (\<lambda>(i, c). oauth_client_key i c) (I \<times> UNIV)"
  by (auto simp: inj_on_def oauth_client_key_def separated_eq)

lemma in_memory_records:
  "authz_metadata_save = memory_save as_issuer (\<lambda>m. m)" "authz_metadata_fetch = memory_fetch (\<lambda>k. k) (\<lambda>r. r)"
  "issuer_metadata_save = memory_save credential_issuer (\<lambda>m. m)" "issuer_metadata_fetch = memory_fetch (\<lambda>k. k) (\<lambda>r. r)"
  "(\<lambda>(i, p). authz_policy_save i p) = memory_save fst snd" "authz_policy_fetch = memory_fetch (\<lambda>k. k) (\<lambda>r. r)"
  "(\<lambda>(i, c). oauth_client_save i c) = memory_save (\<lambda>v. case (case v of (i, c) \<Rightarrow> (i, client_id c)) of (i, c) \<Rightarrow> oauth_client_key i c) snd"
  "(\<lambda>(i, c). oauth_client_fetch i c) = memory_fetch (\<lambda>(i, c). oauth_client_key i c) visible_client"
  by (auto simp: fun_eq_iff memory_save_def memory_fetch_def authz_metadata_save_def authz_metadata_fetch_def issuer_metadata_save_def
      issuer_metadata_fetch_def authz_policy_save_def authz_policy_fetch_def oauth_client_save_def oauth_client_fetch_def
      oauth_client_lookup_def visible_client_def split: option.splits)

context dynamo_available begin

lemma records_on_table:
  "replies (run_record (\<lambda>v. alone send now (sv v)) (\<lambda>k. alone send now (f k))) cs s =
   replies (run_record (\<lambda>v. alone documented now (sv v)) (\<lambda>k. alone documented now (f k))) cs (items s)"
proof (rule replies_on_items)
  fix c s
  show "fst (run_record (\<lambda>v. alone send now (sv v)) (\<lambda>k. alone send now (f k)) c s) =
      fst (run_record (\<lambda>v. alone documented now (sv v)) (\<lambda>k. alone documented now (f k)) c (items s)) \<and>
    items (snd (run_record (\<lambda>v. alone send now (sv v)) (\<lambda>k. alone send now (f k)) c s)) =
      snd (run_record (\<lambda>v. alone documented now (sv v)) (\<lambda>k. alone documented now (f k)) c (items s))"
    by (cases c) (simp_all add: alone_table thenM_alone)
qed

end

text \<open>C22. On available DynamoDB tables, starting empty, the stores of authorization server metadata, OAuth
  policies, OAuth clients and issuer metadata give, to any sequence of saves and reads, exactly the
  answers of the in-memory stores: what was saved last, and no client that is not enabled. The records
  conform to their schemas, MD5 does not collide on the issuers in use and gives no \<open>#\<close>, an issuer
  has no line feed, and no client has unknown members called \<open>id\<close> or \<open>issuer\<close>.\<close>

theorem dynamo_records_refine:
  assumes "dynamo_available send items expire" and "items s = (\<lambda>k. None)"
    and "inj_on md5 I" and "\<forall>i. CHR ''#'' \<notin> set (md5 i)" and "\<forall>i \<in> I. char_of (10 :: nat) \<notin> set i"
    and "list_all (record_ok (authz_metadata_fits X) as_issuer I) ms" and "list_all (record_ok (\<lambda>v. True) fst I) ps"
    and "list_all (record_ok (client_fits X) (\<lambda>(i, c). (i, client_id c)) (I \<times> UNIV)) cs"
    and "list_all (record_ok (issuer_metadata_fits X) credential_issuer I) is"
  shows "replies (run_record (\<lambda>m. alone send now (dynamo_authz_metadata_save md5 m)) (\<lambda>i. alone send now (dynamo_authz_metadata_fetch X md5 i))) ms s =
      replies (run_record authz_metadata_save authz_metadata_fetch) ms (\<lambda>k. None) \<and>
    replies (run_record (\<lambda>v. alone send now (case v of (i, p) \<Rightarrow> dynamo_policy_save md5 i p)) (\<lambda>i. alone send now (dynamo_policy_fetch md5 i))) ps s =
      replies (run_record (\<lambda>(i, p). authz_policy_save i p) authz_policy_fetch) ps (\<lambda>k. None) \<and>
    replies (run_record (\<lambda>v. alone send now (case v of (i, c) \<Rightarrow> dynamo_client_save md5 i c))
        (\<lambda>k. alone send now (case k of (i, c) \<Rightarrow> dynamo_client_fetch X md5 i c))) cs s =
      replies (run_record (\<lambda>(i, c). oauth_client_save i c) (\<lambda>(i, c). oauth_client_fetch i c)) cs (\<lambda>k. None) \<and>
    replies (run_record (\<lambda>m. alone send now (dynamo_issuer_metadata_save md5 m)) (\<lambda>i. alone send now (dynamo_issuer_metadata_fetch X md5 i))) is s =
      replies (run_record issuer_metadata_save issuer_metadata_fetch) is (\<lambda>k. None)"
  unfolding dynamo_available.records_on_table [OF assms(1)] assms(2) in_memory_records
  using metadata_store.replies_agree [OF assms(3) inj_on_id2 assms(6) kept_empty]
    policy_store.replies_agree [OF assms(3) inj_on_id2 assms(7) kept_empty]
    client_store.replies_agree [OF buildId_inj [OF assms(4,3)] oauth_client_key_inj [OF assms(5)] assms(8) kept_empty]
    issuer_store.replies_agree [OF assms(3) inj_on_id2 assms(9) kept_empty]
  by blast

theorem dynamo_records_refine_witness:
  "replies (run_record (\<lambda>m. alone documented 0 (dynamo_authz_metadata_save (\<lambda>i. ''h'') m))
       (\<lambda>i. alone documented 0 (dynamo_authz_metadata_fetch ext0 (\<lambda>i. ''h'') i)))
     [SaveRecord demo_metadata, FetchRecord ''as''] (\<lambda>k. None) = [Inr None, Inr (Some demo_metadata)] \<and>
   replies (run_record (\<lambda>v. alone documented 0 (case v of (i, c) \<Rightarrow> dynamo_client_save (\<lambda>i. ''h'') i c))
       (\<lambda>k. alone documented 0 (case k of (i, c) \<Rightarrow> dynamo_client_fetch ext0 (\<lambda>i. ''h'') i c)))
     [SaveRecord (''as'', demo_client), FetchRecord (''as'', ''c''),
      SaveRecord (''as'', demo_client\<lparr>client_enabled := Some False\<rparr>), FetchRecord (''as'', ''c'')] (\<lambda>k. None) =
     [Inr None, Inr (Some demo_client), Inr None, Inr None]"
  (is "replies ?rm ?ms ?e = _ \<and> replies ?rc ?cs _ = _")
proof -
  let ?md5 = "\<lambda>i. ''h''"
  have nl: "char_of (10 :: nat) \<notin> set ''as''" by code_simp
  have "replies ?rm ?ms ?e = replies (run_record authz_metadata_save authz_metadata_fetch) ?ms (\<lambda>k. None) \<and>
    replies (run_record (\<lambda>v. alone documented 0 (case v of (i, p) \<Rightarrow> dynamo_policy_save ?md5 i p))
      (\<lambda>i. alone documented 0 (dynamo_policy_fetch ?md5 i))) [] ?e =
      replies (run_record (\<lambda>(i, p). authz_policy_save i p) authz_policy_fetch) [] (\<lambda>k. None) \<and>
    replies ?rc ?cs ?e = replies (run_record (\<lambda>(i, c). oauth_client_save i c) (\<lambda>(i, c). oauth_client_fetch i c)) ?cs (\<lambda>k. None) \<and>
    replies (run_record (\<lambda>m. alone documented 0 (dynamo_issuer_metadata_save ?md5 m))
      (\<lambda>i. alone documented 0 (dynamo_issuer_metadata_fetch ext0 ?md5 i))) [] ?e =
      replies (run_record issuer_metadata_save issuer_metadata_fetch) [] (\<lambda>k. None)"
    by (rule dynamo_records_refine [OF table.dynamo_available_axioms, where I = "{''as''}"])
      (use nl in \<open>simp_all add: authz_metadata_fits_def authz_metadata_ok_def url_stable_def url_ok_def ext0_def demo_metadata_def
        client_fits_def client_ok_def demo_client_def\<close>)
  then have eq: "replies ?rm ?ms ?e = replies (run_record authz_metadata_save authz_metadata_fetch) ?ms (\<lambda>k. None)"
    "replies ?rc ?cs ?e = replies (run_record (\<lambda>(i, c). oauth_client_save i c) (\<lambda>(i, c). oauth_client_fetch i c)) ?cs (\<lambda>k. None)"
    by blast+
  show ?thesis
    unfolding eq by (simp add: authz_metadata_save_def authz_metadata_fetch_def oauth_client_save_def oauth_client_fetch_def
        oauth_client_lookup_def oauth_client_key_def demo_metadata_def demo_client_def run_simps)
qed

text \<open>A client with an unknown member \<open>id\<close> is stored under that name: its key is not found.\<close>

lemma client_id_member_lost:
  assumes "oget (omerge [(''id'', JStr (buildId md5 issuer (client_id c))), (''issuer'', JStr issuer)] (client_write c)) ''id'' = Some (JStr other)"
    and "other \<noteq> buildId md5 issuer (client_id c)" and "m (buildId md5 issuer (client_id c)) = None"
  shows "fst (alone documented now (dynamo_client_fetch X md5 issuer (client_id c))
    (snd (alone documented now (dynamo_client_save md5 issuer c) m))) = Inr None"
  using assms by (simp add: dynamo_client_save_def dynamo_client_fetch_def put_item_run get_record_def visible_client_def alone_bindP bindM_def)

subsection \<open>Firestore: a first save, and what a merge keeps\<close>

lemma deep_merge_fresh: "distinct (map fst new) \<Longrightarrow> fst ` set old \<inter> fst ` set new = {} \<Longrightarrow> deep_merge old new = old @ new"
proof (induction new arbitrary: old)
  case (Cons x new)
  obtain k v where x: "x = (k, v)" by fastforce
  have "k \<notin> fst ` set old" using Cons.prems(2) by (auto simp: x)
  then have "oget old k = None" by (simp add: oget_def map_of_eq_None_iff)
  then have "oset old k (merge_value (oget old k) v) = old @ [(k, v)]" using \<open>k \<notin> fst ` set old\<close> by (simp add: oset_absent)
  moreover have "deep_merge (old @ [(k, v)]) new = (old @ [(k, v)]) @ new" using Cons.prems by (intro Cons.IH) (auto simp: x)
  ultimately show ?case by (simp add: x)
qed simp

text \<open>The document after saves, and what a read makes of it.\<close>

lemma merge_doc_run: "alone fs_documented now (merge_doc d i) m = (Inr (), m(d \<mapsto> deep_merge (getOr [] (m d)) i))"
  by (simp add: merge_doc_def alone_bind_request)

lemma get_record_doc_run:
  "m d = Some i \<Longrightarrow> parse i = Some r \<Longrightarrow> alone fs_documented now (get_record_doc d parse) m = (Inr (Some r), m)"
  by (simp add: get_record_doc_def)

lemma fs_policy_saves:
  assumes "fs_doc F (ns @ ''/v1/authzOAuthPolicies/'' @ md5 issuer) = Inr d"
  shows "fs_policy_save F md5 ns issuer p = merge_doc d ((''issuer'', JStr issuer) # policy_write p)"
    and "fs_policy_fetch F md5 ns issuer = get_record_doc d (\<lambda>i. AuthzOAuthPolicy_parse (JObj (unknown [''issuer''] i)))"
  using assms by (simp_all add: fs_policy_save_def fs_policy_fetch_def at_doc_def liftP_def)

lemma oget_unknown_other: "k \<notin> set ks \<Longrightarrow> oget (unknown ks ob) k = oget ob k"
  unfolding unknown_def oget_def by (induction ob) auto

lemma policy_write_keys: "fst ` set (policy_write p) \<subseteq> {''default_client'', ''anonymous_client''}"
  using members_keys unfolding policy_write_def by (rule order_trans) auto

lemma policy_write_distinct: "distinct (map fst (policy_write p))"
  unfolding policy_write_def by (rule distinct_members) simp

text \<open>A policy saved without a default client keeps the default client of the policy before it.\<close>

lemma firestore_policy_merged:
  assumes "fs_doc F (ns @ ''/v1/authzOAuthPolicies/'' @ md5 issuer) = Inr d" and "m0 d = None"
    and "anonymous_client p = None" and "default_client q = None" and "anonymous_client q = None"
    and "snd (alone fs_documented now (fs_policy_save F md5 ns issuer p) m0) = m1"
    and "snd (alone fs_documented now (fs_policy_save F md5 ns issuer q) m1) = m2"
  shows "fst (alone fs_documented now (fs_policy_fetch F md5 ns issuer) m2) = Inr (Some p)"
proof -
  note saves = fs_policy_saves [where F = F and ns = ns and ?md5.0 = md5 and issuer = issuer, OF assms(1)]
  let ?i = "(''issuer'', JStr issuer) # policy_write p"
  have "deep_merge [] ?i = [] @ ?i"
    using policy_write_keys [of p] policy_write_distinct [of p] by (intro deep_merge_fresh) auto
  then have m1: "m1 d = Some ?i" using assms(2,6) by (auto simp: saves merge_doc_run simp del: deep_merge.simps)
  have q: "policy_write q = []" using assms(4,5) by (simp add: policy_write_def members_def opt_member_def)
  have "m2 d = Some ?i" using assms(7) m1 by (auto simp: saves merge_doc_run q oset_def)
  moreover have "unknown [''issuer''] ?i = policy_write p"
    unfolding policy_write_def unknown_Cons by (simp add: unknown_members_same)
  moreover have "AuthzOAuthPolicy_parse (JObj (policy_write p)) = Some p" using policies.read_write by simp
  ultimately show ?thesis by (simp add: saves get_record_doc_run)
qed

end
