(* ===== verification/Kms_Keys.thy ===== *)
theory Kms_Keys
  imports Services Key_Stores
begin

text \<open>
  The signature key stores on AWS KMS (\<open>aws/src/providers/kms-signature-key-store.factory.ts\<close>,
  \<open>kms-provider.utils.ts\<close>, \<open>kms-*-signature-key-store.provider.ts\<close>): operations as programs of
  requests to KMS. node:crypto is a parameter.
\<close>

subsection \<open>Requests and answers\<close>

datatype kms_command =
    DescribeKey string
  | CreateKey string bool string
  | CreateAlias string string
  | UpdateAlias string string
  | ScheduleKeyDeletion string
  | GetParametersForImport string
  | ImportKeyMaterial string string string
  | GetPublicKey string
  | SignDigest string string string

text \<open>The members of the answers that the store reads.\<close>

record key_metadata =
  km_KeyId :: "string option"
  km_KeyState :: string
  km_KeySpec :: string

record kms_answer =
  ka_KeyMetadata :: "key_metadata option"
  ka_PublicKey :: "string option"
  ka_ImportToken :: "string option"
  ka_Signature :: "string option"

type_synonym 'a kms_program = "(kms_command, kms_answer, 'a) program"

record kms_config =
  subject :: string
  aliasPrefix :: string
  tagKey :: string
  keyNotFoundError :: error_code

text \<open>MD5, node:crypto's keys and hashes, and the signature conversion of ecdsa-sig-formatter.\<close>

record kms_lib =
  md5_hex :: "string \<Rightarrow> string"
  pkcs8_der :: "key_material \<Rightarrow> exn + string"
  wrap_for_import :: "string \<Rightarrow> string \<Rightarrow> exn + string"
  spki_pem :: "string \<Rightarrow> exn + string"
  digest :: "string \<Rightarrow> string \<Rightarrow> string"
  der_to_jose :: "string \<Rightarrow> string \<Rightarrow> exn + string"
  base64url :: "string \<Rightarrow> string"

definition kms_error :: "exn \<Rightarrow> string \<Rightarrow> bool" where
  "kms_error e name = (e = JsError name)"

subsection \<open>Algorithms\<close>

definition joseAlgorithmToKeySpec :: "string \<Rightarrow> string option" where
  "joseAlgorithmToKeySpec alg =
     (if alg = ''ES256'' then Some ''ECC_NIST_P256''
      else if alg = ''ES384'' then Some ''ECC_NIST_P384''
      else if alg = ''RS256'' then Some ''RSA_2048''
      else if alg = ''RS512'' then Some ''RSA_4096''
      else if alg = ''PS256'' then Some ''RSA_2048''
      else if alg = ''PS512'' then Some ''RSA_4096''
      else None)"

definition joseAlgorithmToSigningAlgorithm :: "string \<Rightarrow> string option" where
  "joseAlgorithmToSigningAlgorithm alg =
     (if alg = ''ES256'' then Some ''ECDSA_SHA_256''
      else if alg = ''ES384'' then Some ''ECDSA_SHA_384''
      else if alg = ''RS256'' then Some ''RSASSA_PKCS1_V1_5_SHA_256''
      else if alg = ''RS512'' then Some ''RSASSA_PKCS1_V1_5_SHA_512''
      else if alg = ''PS256'' then Some ''RSASSA_PSS_SHA_256''
      else if alg = ''PS512'' then Some ''RSASSA_PSS_SHA_512''
      else None)"

definition keySpecMatchesAlgorithm :: "string \<Rightarrow> string \<Rightarrow> bool" where
  "keySpecMatchesAlgorithm keySpec alg = (joseAlgorithmToKeySpec alg = Some keySpec)"

definition digestAlgorithm :: "string \<Rightarrow> string option" where
  "digestAlgorithm alg =
     (if alg = ''ES256'' \<or> alg = ''RS256'' \<or> alg = ''PS256'' then Some ''sha256''
      else if alg = ''ES384'' then Some ''sha384''
      else if alg = ''RS512'' \<or> alg = ''PS512'' then Some ''sha512''
      else None)"

definition keyAlias :: "kms_lib \<Rightarrow> kms_config \<Rightarrow> string \<Rightarrow> string \<Rightarrow> exn + string" where
  "keyAlias L cfg who alg =
     (if js_trim alg = [] then Inl (err ''internal_server_error'' ''key algorithm is required to build a KMS key alias'')
      else Inr (aliasPrefix cfg @ md5_hex L who @ ''-'' @ alg))"

subsection \<open>Saving\<close>

text \<open>Failures of the clean-up are logged only.\<close>

definition discardOrphanKey :: "string \<Rightarrow> 'a kms_program \<Rightarrow> 'a kms_program" where
  "discardOrphanKey k next = request_catch (ScheduleKeyDeletion k) (\<lambda>e. next) (\<lambda>_. next)"

definition describeKey :: "string \<Rightarrow> (key_metadata option \<Rightarrow> 'a kms_program) \<Rightarrow> (exn \<Rightarrow> 'a kms_program) \<Rightarrow> 'a kms_program" where
  "describeKey alias f h =
     request_catch (DescribeKey alias)
       (\<lambda>e. if kms_error e ''NotFoundException'' then f None else h e)
       (\<lambda>a. f (ka_KeyMetadata a))"

text \<open>A new key, as the continuation sees it; an empty id counts as missing.\<close>

definition createKey :: "string \<Rightarrow> bool \<Rightarrow> string \<Rightarrow> (string \<Rightarrow> 'a kms_program) \<Rightarrow> 'a kms_program" where
  "createKey spec external tag f =
     request_catch (CreateKey spec external tag) throwP (\<lambda>created.
       case Option.bind (ka_KeyMetadata created) km_KeyId of
         None \<Rightarrow> raiseP ''internal_server_error'' ''KMS CreateKey response is missing KeyId''
       | Some k \<Rightarrow>
           if k = [] then raiseP ''internal_server_error'' ''KMS CreateKey response is missing KeyId'' else f k)"

definition save_generated :: "kms_config \<Rightarrow> string \<Rightarrow> string \<Rightarrow> unit kms_program" where
  "save_generated cfg keySpec alias =
     describeKey alias
       (\<lambda>existing. case existing of
          Some m \<Rightarrow>
            if km_KeyState m \<noteq> ''Enabled'' then raiseP ''internal_server_error'' ''KMS key for the alias is not usable''
            else retP ()
        | None \<Rightarrow>
            createKey keySpec False (tagKey cfg) (\<lambda>k.
              request_catch (CreateAlias alias k)
                (\<lambda>e. discardOrphanKey k (if kms_error e ''AlreadyExistsException'' then retP () else throwP e))
                (\<lambda>_. retP ())))
       throwP"

text \<open>The import of the caller's key material; every failure discards the new key.\<close>

definition import_material :: "kms_lib \<Rightarrow> key_material \<Rightarrow> string \<Rightarrow> unit kms_program \<Rightarrow> unit kms_program" where
  "import_material L private k next =
     (let fail = (\<lambda>e. discardOrphanKey k (throwP e)) in
      request_catch (GetParametersForImport k) fail (\<lambda>params.
        case (ka_PublicKey params, ka_ImportToken params) of
          (Some wrapping, Some token) \<Rightarrow>
            (case pkcs8_der L private of
               Inl e \<Rightarrow> fail e
             | Inr der \<Rightarrow>
                 (case wrap_for_import L der wrapping of
                    Inl e \<Rightarrow> fail e
                  | Inr wrapped \<Rightarrow> request_catch (ImportKeyMaterial k token wrapped) fail (\<lambda>_. next)))
        | _ \<Rightarrow> fail (err ''internal_server_error''
            ''KMS GetParametersForImport response is missing wrapping key or import token'')))"

definition point_alias :: "string \<Rightarrow> string \<Rightarrow> unit kms_program" where
  "point_alias alias k =
     request_catch (CreateAlias alias k)
       (\<lambda>e. if kms_error e ''AlreadyExistsException'' then
              request_catch (UpdateAlias alias k) (\<lambda>e'. discardOrphanKey k (throwP e')) (\<lambda>_. retP ())
            else discardOrphanKey k (throwP e))
       (\<lambda>_. retP ())"

definition kms_save ::
  "kms_lib \<Rightarrow> kms_config \<Rightarrow> string \<Rightarrow> string \<Rightarrow> SignatureKeyEntry option \<Rightarrow> unit kms_program" where
  "kms_save L cfg who keyAlg pair =
     (let alg = (case pair of Some p \<Rightarrow> declaredAlg p | None \<Rightarrow> keyAlg) in
      if alg \<noteq> keyAlg then
        raiseP ''illegal_argument'' ''The provided key pair algorithm does not match the requested key algorithm''
      else case joseAlgorithmToKeySpec alg of
        None \<Rightarrow> raiseP ''internal_server_error'' ''Unsupported key algorithm''
      | Some keySpec \<Rightarrow>
          if pair \<noteq> None \<and> (js_starts_with alg ''RS'' \<or> js_starts_with alg ''PS'') then
            raiseP ''internal_server_error'' ''Import requires RSA_AES wrapping, which is not implemented''
          else (case keyAlias L cfg who alg of
            Inl e \<Rightarrow> throwP e
          | Inr alias \<Rightarrow>
              (case pair of
                 None \<Rightarrow> save_generated cfg keySpec alias
               | Some p \<Rightarrow>
                   createKey keySpec True (tagKey cfg) (\<lambda>k.
                     import_material L (privateKey p) k (point_alias alias k)))))"

subsection \<open>Fetching and signing\<close>

definition fetch_public ::
  "ext \<Rightarrow> kms_lib \<Rightarrow> string \<Rightarrow> string \<Rightarrow> crypto_key option kms_program" where
  "fetch_public X L alias keyAlg =
     request_catch (GetPublicKey alias)
       (\<lambda>e. if kms_error e ''NotFoundException'' then retP None else throwP e)
       (\<lambda>a. case ka_PublicKey a of
              None \<Rightarrow> retP None
            | Some der \<Rightarrow>
                (case spki_pem L der of
                   Inl e \<Rightarrow> throwP e
                 | Inr pem \<Rightarrow> (case importSPKI X pem keyAlg of Inl e \<Rightarrow> throwP e | Inr key \<Rightarrow> retP (Some key))))"

definition kms_fetch ::
  "ext \<Rightarrow> kms_lib \<Rightarrow> kms_config \<Rightarrow> string \<Rightarrow> string \<Rightarrow> crypto_key option kms_program" where
  "kms_fetch X L cfg who keyAlg =
     (case keyAlias L cfg who keyAlg of
        Inl e \<Rightarrow> throwP e
      | Inr alias \<Rightarrow>
          describeKey alias
            (\<lambda>metadata. case metadata of
               None \<Rightarrow> retP None
             | Some m \<Rightarrow>
                 if km_KeyState m \<noteq> ''Enabled'' then retP None
                 else if \<not> keySpecMatchesAlgorithm (km_KeySpec m) keyAlg then retP None
                 else fetch_public X L alias keyAlg)
            throwP)"

text \<open>The catch of \<open>sign\<close>: an error of the library passes, any other becomes an internal error.\<close>

definition sign_error :: "exn \<Rightarrow> exn" where
  "sign_error e = (case e of JsError _ \<Rightarrow> err ''internal_server_error'' ''sign error'' | _ \<Rightarrow> e)"

definition sign_digest :: "kms_lib \<Rightarrow> kms_config \<Rightarrow> string \<Rightarrow> string \<Rightarrow> string \<Rightarrow> string \<Rightarrow> string kms_program" where
  "sign_digest L cfg alias keyAlg hashed signingAlgorithm =
     request_catch (SignDigest alias hashed signingAlgorithm)
       (\<lambda>e. if kms_error e ''NotFoundException''
            then raiseP (keyNotFoundError cfg) ''private key not found.'' else throwP (sign_error e))
       (\<lambda>a. case ka_Signature a of
              None \<Rightarrow> raiseP ''internal_server_error'' ''KMS signature is missing''
            | Some s \<Rightarrow>
                if js_starts_with keyAlg ''ES'' then
                  (case der_to_jose L s keyAlg of Inl e \<Rightarrow> throwP (sign_error e) | Inr j \<Rightarrow> retP j)
                else retP (base64url L s))"

definition kms_sign ::
  "ext \<Rightarrow> kms_lib \<Rightarrow> kms_config \<Rightarrow> string \<Rightarrow> string \<Rightarrow> obj \<Rightarrow> obj \<Rightarrow> string kms_program" where
  "kms_sign X L cfg who keyAlg jwtPayload jwtHeader =
     (case keyAlias L cfg who keyAlg of
        Inl e \<Rightarrow> throwP (sign_error e)
      | Inr alias \<Rightarrow>
          describeKey alias
            (\<lambda>metadata.
               if metadata = None then raiseP (keyNotFoundError cfg) ''private key not found.''
               else if oget jwtHeader ''alg'' \<noteq> Some (JStr keyAlg) then
                 raiseP ''illegal_argument'' ''JWT header algorithm mismatch''
               else (case (joseAlgorithmToSigningAlgorithm keyAlg, digestAlgorithm keyAlg) of
                 (Some signingAlgorithm, Some digestAlg) \<Rightarrow>
                   sign_digest L cfg alias keyAlg
                     (digest L digestAlg (encode_json X (JObj jwtHeader) @ ''.'' @ encode_json X (JObj jwtPayload)))
                     signingAlgorithm
               | _ \<Rightarrow> raiseP ''internal_server_error'' ''Unsupported key algorithm''))
            (\<lambda>e. throwP (sign_error e)))"

subsection \<open>The three stores\<close>

definition kms_authz_config :: kms_config where
  "kms_authz_config = \<lparr>subject = ''authorization server'', aliasPrefix = ''alias/vcknots/authz/'',
     tagKey = ''vcknots:authz-signature-key'', keyNotFoundError = ''authz_issuer_key_not_found''\<rparr>"

definition kms_issuer_config :: kms_config where
  "kms_issuer_config = \<lparr>subject = ''issuer'', aliasPrefix = ''alias/vcknots/issuers/'',
     tagKey = ''vcknots:issuer-signature-key'', keyNotFoundError = ''authz_issuer_key_not_found''\<rparr>"

definition kms_verifier_config :: kms_config where
  "kms_verifier_config = \<lparr>subject = ''verifier'', aliasPrefix = ''alias/vcknots/verifiers/'',
     tagKey = ''vcknots:verifier-signature-key'', keyNotFoundError = ''authz_verifier_key_not_found''\<rparr>"

subsection \<open>No key is left behind\<close>

fun created_key :: "kms_command \<Rightarrow> exn + kms_answer \<Rightarrow> string option" where
  "created_key (CreateKey spec ext tag) (Inr a) =
     (case Option.bind (ka_KeyMetadata a) km_KeyId of Some k \<Rightarrow> (if k = [] then None else Some k) | None \<Rightarrow> None)"
| "created_key c r = None"

text \<open>An alias points to the key, or its deletion was requested.\<close>

fun accounted :: "string \<Rightarrow> kms_command \<Rightarrow> exn + kms_answer \<Rightarrow> bool" where
  "accounted k (CreateAlias alias k') (Inr a) = (k' = k)"
| "accounted k (UpdateAlias alias k') (Inr a) = (k' = k)"
| "accounted k (ScheduleKeyDeletion k') r = (k' = k)"
| "accounted k c r = False"

abbreviation keeps_account :: "'a kms_program \<Rightarrow> bool" where
  "keeps_account p \<equiv> tidy created_key accounted p"

lemma settles_discard: "settles accounted k (discardOrphanKey k q)"
  by (simp add: discardOrphanKey_def request_catch_def)

lemma tidy_discard: "keeps_account q \<Longrightarrow> keeps_account (discardOrphanKey k q)"
  by (simp add: discardOrphanKey_def request_catch_def split: sum.split)

lemma tidy_ends [simp]: "keeps_account (throwP e)" "keeps_account (raiseP cd msg)" "keeps_account (retP x)"
  by (simp_all add: throwP_def raiseP_def retP_def)

lemma tidy_request:
  assumes "\<And>e. keeps_account (h e)" and "\<And>a. keeps_account (f a)" and "\<And>r. created_key c r = None"
  shows "keeps_account (request_catch c h f)"
  using assms by (simp add: request_catch_def split: sum.split)

lemma tidy_createKey:
  assumes "\<And>k. keeps_account (f k)" and "\<And>k. settles accounted k (f k)"
  shows "keeps_account (createKey spec external tag f)"
  using assms by (auto simp: createKey_def request_catch_def raiseP_def throwP_def split: sum.split option.split)

lemma settles_alias:
  assumes "\<And>e. settles accounted k (h e)"
  shows "settles accounted k (request_catch (CreateAlias alias k) h f)"
  using assms by (auto simp: request_catch_def split: sum.split)

lemma settles_import: "settles accounted k q \<Longrightarrow> settles accounted k (import_material L private k q)"
  by (auto simp: import_material_def Let_def request_catch_def discardOrphanKey_def split: sum.split option.split)

lemma tidy_import: "keeps_account q \<Longrightarrow> keeps_account (import_material L private k q)"
  by (auto simp: import_material_def Let_def intro!: tidy_request tidy_discard split: sum.split option.split)

lemma settles_point: "settles accounted k (point_alias alias k)"
  unfolding point_alias_def
  by (rule settles_alias) (auto simp: request_catch_def discardOrphanKey_def split: sum.split)

lemma tidy_point: "keeps_account (point_alias alias k)"
  unfolding point_alias_def by (auto intro!: tidy_request tidy_discard)

lemma kms_save_tidy: "keeps_account (kms_save L cfg who alg pair)"
proof -
  have "keeps_account (save_generated cfg spec al)" for spec al
    by (auto simp: save_generated_def describeKey_def intro!: tidy_request tidy_createKey tidy_discard settles_alias settles_discard
        split: option.split)
  then show ?thesis
    by (auto simp: kms_save_def Let_def intro!: tidy_createKey tidy_import tidy_point settles_import settles_point split: option.split sum.split)
qed

text \<open>C27. Whatever AWS KMS answers, and however the requests of concurrent \<open>save\<close> calls mix (with
  and without a key to import): when the calls have ended, each key that they created was
  either given an alias by a successful request, or its deletion was requested.\<close>

theorem kms_no_orphan_keys:
  assumes "together send idle clk (s0, map (\<lambda>(who, alg, pair). kms_save L cfg who alg pair) calls) tr (s, ps)"
    and "\<forall>p \<in> set ps. \<exists>v. p = Done v" and "(c, r) \<in> set tr" and "created_key c r = Some k"
  shows "\<exists>c' r'. (c', r') \<in> set tr \<and> accounted k c' r'"
  using assms(2-4) by (intro tidy_ended [OF assms(1), where opens = created_key]) (auto simp: kms_save_tidy)

end
