(* ===== verification/Gcp_Kms.thy ===== *)
theory Gcp_Kms
  imports Conversations Kms_Keys
begin

text \<open>
  Requests to Google Cloud KMS and the helpers of its key stores
  (\<open>google-cloud/src/providers/kms-provider.utils.ts\<close>, \<open>kms-provider.helpers.ts\<close>): key rings,
  import jobs and crypto keys are created on demand. A program waits by a request \<open>Wait\<close> to
  the runtime; \<open>JoinCreation\<close> and \<open>LeaveCreation\<close> read and write the map \<open>inFlightImportJobs\<close>
  of the process. The names of resources are built by the client library.
\<close>

subsection \<open>Numbers in strings\<close>

text \<open>\<open>Number(s)\<close> for a string.\<close>

definition digit_value :: "char \<Rightarrow> nat option" where
  "digit_value c =
     (if 48 \<le> code c \<and> code c \<le> 57 then Some (code c - 48)
      else if 65 \<le> code c \<and> code c \<le> 70 then Some (code c - 55)
      else if 97 \<le> code c \<and> code c \<le> 102 then Some (code c - 87)
      else None)"

definition is_digit :: "nat \<Rightarrow> char \<Rightarrow> bool" where
  "is_digit base c = (case digit_value c of Some d \<Rightarrow> d < base | None \<Rightarrow> False)"

definition digits_value :: "nat \<Rightarrow> string \<Rightarrow> nat" where
  "digits_value base s = foldl (\<lambda>n c. n * base + the (digit_value c)) 0 s"

text \<open>A numeral of the base: at least one digit, and nothing else.\<close>

definition numeral_value :: "nat \<Rightarrow> string \<Rightarrow> jsnum" where
  "numeral_value base s =
     (if s \<noteq> [] \<and> list_all (is_digit base) s then Fin (of_nat (digits_value base s)) else NaN)"

definition unsigned_exponent :: "rat \<Rightarrow> string \<Rightarrow> jsnum" where
  "unsigned_exponent m e =
     (let (negative, ds) = (case e of [] \<Rightarrow> (False, e)
          | c # cs \<Rightarrow> if c = CHR ''-'' then (True, cs) else if c = CHR ''+'' then (False, cs) else (False, e));
          p = 10 ^ digits_value 10 ds
      in if ds = [] \<or> \<not> list_all (is_digit 10) ds then NaN
         else Fin (if negative then m / p else m * p))"

definition decimal_value :: "string \<Rightarrow> jsnum" where
  "decimal_value s =
     (let whole = takeWhile (is_digit 10) s;
          r1 = dropWhile (is_digit 10) s;
          point = (r1 \<noteq> [] \<and> hd r1 = CHR ''.'');
          frac = (if point then takeWhile (is_digit 10) (tl r1) else []);
          r2 = (if point then dropWhile (is_digit 10) (tl r1) else r1);
          m = of_nat (digits_value 10 (whole @ frac)) / 10 ^ length frac
      in if whole = [] \<and> frac = [] then NaN
         else if r2 = [] then Fin m
         else if hd r2 = CHR ''e'' \<or> hd r2 = CHR ''E'' then unsigned_exponent m (tl r2)
         else NaN)"

definition js_Number :: "string \<Rightarrow> jsnum" where
  "js_Number s =
     (let t = js_trim s; prefix = js_lower (take 2 t) in
      if t = [] then Fin 0
      else if prefix = ''0x'' then numeral_value 16 (drop 2 t)
      else if prefix = ''0o'' then numeral_value 8 (drop 2 t)
      else if prefix = ''0b'' then numeral_value 2 (drop 2 t)
      else if t = ''Infinity'' \<or> t = ''+Infinity'' then PInf
      else if t = ''-Infinity'' then NInf
      else if hd t = CHR ''-'' then num_scale (-1) (decimal_value (tl t))
      else if hd t = CHR ''+'' then decimal_value (tl t)
      else decimal_value t)"

subsection \<open>Requests and answers\<close>

datatype gcp_command =
    GetKeyRing string
  | CreateKeyRing string string
  | GetImportJob string
  | CreateImportJob string string
  | ListImportJobs string
  | GetCryptoKey string
  | CreateCryptoKey string string string bool string
  | ImportCryptoKeyVersion string string string string
  | ListCryptoKeyVersions string
  | GetVersionKey string
  | AsymmetricSign string string string int
  | Wait int
  | JoinCreation string
  | LeaveCreation string

text \<open>The members that the code reads; \<open>null\<close> and \<open>undefined\<close> are the same to it. A CRC is the
  number that \<open>Number\<close> reads from it.\<close>

record import_job =
  ij_name :: "string option"
  ij_state :: "string option"
  ij_pem :: "string option"

record public_key =
  pk_name :: "string option"
  pk_pem :: "string option"
  pk_crc :: "jsnum option"
  pk_algorithm :: "string option"

record signed =
  sg_name :: "string option"
  sg_verifiedDigestCrc32c :: bool
  sg_signature :: "string option"
  sg_crc :: "jsnum option"

record gcp_answer =
  ga_job :: import_job
  ga_jobs :: "import_job list"
  ga_creation :: "(exn + import_job) option"
  ga_versions :: "string option list"
  ga_public :: public_key
  ga_signed :: signed

type_synonym 'a gcp_program = "(gcp_command, gcp_answer, 'a) program"

text \<open>What the packages add to the library of the AWS stores: hashes as base64url, base64url of
  the JSON text, CRC32C, the order of \<open>localeCompare\<close>, and the names of resources.\<close>

record gcp_lib = kms_lib +
  md5_url :: "string \<Rightarrow> string"
  sha256_url :: "string \<Rightarrow> string"
  crc32c :: "string \<Rightarrow> int"
  localeCompare :: "string \<Rightarrow> string \<Rightarrow> int"
  locationPath :: "string \<Rightarrow> string \<Rightarrow> string"
  keyRingPath :: "string \<Rightarrow> string \<Rightarrow> string \<Rightarrow> string"
  importJobPath :: "string \<Rightarrow> string \<Rightarrow> string \<Rightarrow> string \<Rightarrow> string"
  cryptoKeyPath :: "string \<Rightarrow> string \<Rightarrow> string \<Rightarrow> string \<Rightarrow> string"

record gcp_options =
  projectId :: string
  locationId :: string
  keyRingId :: string
  baseImportJobId :: string
  importJobPollIntervalMs :: int
  importJobMaxRetries :: nat

text \<open>The gRPC status of an error of the client library; the library's own errors have none.\<close>

definition KMS_NOT_FOUND :: int where
  "KMS_NOT_FOUND = 5"

definition KMS_ALREADY_EXISTS :: int where
  "KMS_ALREADY_EXISTS = 6"

definition grpcCode :: "exn \<Rightarrow> int option" where
  "grpcCode e =
     (case e of
        JsError name \<Rightarrow>
          if name = ''NOT_FOUND'' then Some 5 else if name = ''ALREADY_EXISTS'' then Some 6 else None
      | VcknotsError c msg \<Rightarrow> None)"

lemma grpcCode_simps [simp]:
  "grpcCode (err c msg) = None" "grpcCode (JsError ''NOT_FOUND'') = Some KMS_NOT_FOUND"
  "grpcCode (JsError ''ALREADY_EXISTS'') = Some KMS_ALREADY_EXISTS"
  by (simp_all add: grpcCode_def err_def KMS_NOT_FOUND_def KMS_ALREADY_EXISTS_def)

lemma kms_codes_differ [simp]: "KMS_NOT_FOUND \<noteq> KMS_ALREADY_EXISTS" "KMS_ALREADY_EXISTS \<noteq> KMS_NOT_FOUND"
  by (simp_all add: KMS_NOT_FOUND_def KMS_ALREADY_EXISTS_def)

subsection \<open>Algorithms and versions\<close>

definition kmsAlgorithmToJoseAlgorithm :: "string option \<Rightarrow> string option" where
  "kmsAlgorithmToJoseAlgorithm kmsAlgorithm =
     (let algorithm = (case kmsAlgorithm of Some a \<Rightarrow> a | None \<Rightarrow> []) in
      if algorithm = ''EC_SIGN_P256_SHA256'' then Some ''ES256''
      else if algorithm = ''EC_SIGN_P384_SHA384'' then Some ''ES384''
      else if algorithm \<in> {''RSA_SIGN_PKCS1_2048_SHA256'', ''RSA_SIGN_PKCS1_3072_SHA256'',
          ''RSA_SIGN_PKCS1_4096_SHA256''} then Some ''RS256''
      else if algorithm = ''RSA_SIGN_PKCS1_4096_SHA512'' then Some ''RS512''
      else if algorithm \<in> {''RSA_SIGN_PSS_2048_SHA256'', ''RSA_SIGN_PSS_3072_SHA256'',
          ''RSA_SIGN_PSS_4096_SHA256''} then Some ''PS256''
      else if algorithm = ''RSA_SIGN_PSS_4096_SHA512'' then Some ''PS512''
      else if algorithm \<in> {''RSA_DECRYPT_OAEP_2048_SHA256'', ''RSA_DECRYPT_OAEP_3072_SHA256'',
          ''RSA_DECRYPT_OAEP_4096_SHA256''} then Some ''RSA-OAEP-256''
      else None)"

definition joseAlgorithmToKmsAlgorithm :: "string \<Rightarrow> string option" where
  "joseAlgorithmToKmsAlgorithm alg =
     (if alg = ''ES256'' then Some ''EC_SIGN_P256_SHA256''
      else if alg = ''ES384'' then Some ''EC_SIGN_P384_SHA384''
      else if alg = ''RS256'' then Some ''RSA_SIGN_PKCS1_2048_SHA256''
      else if alg = ''RS512'' then Some ''RSA_SIGN_PKCS1_4096_SHA512''
      else if alg = ''PS256'' then Some ''RSA_SIGN_PSS_2048_SHA256''
      else if alg = ''PS512'' then Some ''RSA_SIGN_PSS_4096_SHA512''
      else if alg = ''RSA-OAEP-256'' then Some ''RSA_DECRYPT_OAEP_3072_SHA256''
      else None)"

definition digestFieldName :: "string \<Rightarrow> string option" where
  "digestFieldName alg =
     (if alg \<in> {''ES256'', ''RS256'', ''PS256''} then Some ''sha256''
      else if alg = ''ES384'' then Some ''sha384''
      else if alg \<in> {''RS512'', ''PS512''} then Some ''sha512''
      else None)"

text \<open>The number at the end of a version's name.\<close>

definition version_number :: "string \<Rightarrow> jsnum" where
  "version_number name = js_Number (List.last (js_split (CHR ''/'') name))"

definition later_version :: "gcp_lib \<Rightarrow> string option \<Rightarrow> string option \<Rightarrow> string option" where
  "later_version L latest current =
     (if \<not> opt_str current then latest
      else if \<not> opt_str latest then current
      else let c = the current; l = the latest; currentVersion = version_number c; latestVersion = version_number l in
        if currentVersion = NaN \<or> latestVersion = NaN then (if localeCompare L c l > 0 then current else latest)
        else if num_lt latestVersion currentVersion then current else latest)"

definition latestEnabledVersion :: "gcp_lib \<Rightarrow> string option list \<Rightarrow> string option" where
  "latestEnabledVersion L versions = foldl (later_version L) None versions"

subsection \<open>Key rings and import jobs\<close>

definition unless_code :: "int \<Rightarrow> 'a gcp_program \<Rightarrow> exn \<Rightarrow> 'a gcp_program" where
  "unless_code c p e = (if grpcCode e = Some c then p else throwP e)"

definition ensureKeyRing :: "gcp_lib \<Rightarrow> gcp_options \<Rightarrow> string gcp_program" where
  "ensureKeyRing L opts =
     (let keyRingName = keyRingPath L (projectId opts) (locationId opts) (keyRingId opts) in
      request_catch (GetKeyRing keyRingName)
        (unless_code KMS_NOT_FOUND
           (request_catch (CreateKeyRing (locationPath L (projectId opts) (locationId opts)) (keyRingId opts))
              (unless_code KMS_ALREADY_EXISTS (retP keyRingName))
              (\<lambda>_. retP keyRingName)))
        (\<lambda>_. retP keyRingName))"

text \<open>The rounds of \<open>waitForImportJob\<close> that are left.\<close>

primrec waitForImportJob :: "int \<Rightarrow> string \<Rightarrow> nat \<Rightarrow> import_job option gcp_program" where
  "waitForImportJob pollIntervalMs importJobName 0 =
     raiseP ''internal_server_error'' ''Import job did not become ACTIVE''"
| "waitForImportJob pollIntervalMs importJobName (Suc rounds) =
     bindP (request (GetImportJob importJobName)) (\<lambda>a.
       if ij_state (ga_job a) = Some ''ACTIVE'' then retP (Some (ga_job a))
       else if ij_state (ga_job a) = Some ''EXPIRED'' then retP None
       else bindP (request (Wait pollIntervalMs)) (\<lambda>_. waitForImportJob pollIntervalMs importJobName rounds))"

definition wait_for_job :: "gcp_options \<Rightarrow> string \<Rightarrow> import_job option gcp_program" where
  "wait_for_job opts importJobName =
     waitForImportJob (importJobPollIntervalMs opts) importJobName (importJobMaxRetries opts)"

text \<open>The wait is returned, not awaited: its errors are not those of the \<open>try\<close> block.\<close>

definition loadImportJob :: "gcp_options \<Rightarrow> string \<Rightarrow> import_job option gcp_program" where
  "loadImportJob opts importJobName =
     request_catch (GetImportJob importJobName)
       (unless_code KMS_NOT_FOUND (retP None))
       (\<lambda>a. if ij_state (ga_job a) = Some ''ACTIVE'' then retP (Some (ga_job a))
            else if ij_state (ga_job a) = Some ''PENDING_GENERATION'' then wait_for_job opts importJobName
            else retP None)"

definition job_path :: "gcp_lib \<Rightarrow> gcp_options \<Rightarrow> string \<Rightarrow> string" where
  "job_path L opts importJobId = importJobPath L (projectId opts) (locationId opts) (keyRingId opts) importJobId"

definition createImportJob :: "gcp_lib \<Rightarrow> gcp_options \<Rightarrow> string \<Rightarrow> string \<Rightarrow> import_job gcp_program" where
  "createImportJob L opts keyRingName importJobId =
     bindP (request (CreateImportJob keyRingName importJobId)) (\<lambda>_.
     bindP (wait_for_job opts (job_path L opts importJobId)) (\<lambda>createdJob.
       case createdJob of
         None \<Rightarrow> raiseP ''internal_server_error'' ''Import job expired before becoming ACTIVE''
       | Some job \<Rightarrow> retP job))"

text \<open>\<open>sort\<close> with a comparator: stable.\<close>

primrec sort_insert :: "('a \<Rightarrow> 'a \<Rightarrow> int) \<Rightarrow> 'a \<Rightarrow> 'a list \<Rightarrow> 'a list" where
  "sort_insert cmp x [] = [x]"
| "sort_insert cmp x (y # ys) = (if cmp x y \<le> 0 then x # y # ys else y # sort_insert cmp x ys)"

definition js_sort :: "('a \<Rightarrow> 'a \<Rightarrow> int) \<Rightarrow> 'a list \<Rightarrow> 'a list" where
  "js_sort cmp xs = foldr (sort_insert cmp) xs []"

lemma length_sort_insert [simp]: "length (sort_insert cmp x ys) = Suc (length ys)"
  by (induction ys) auto

lemma length_js_sort [simp]: "length (js_sort cmp xs) = length xs"
  by (induction xs) (auto simp: js_sort_def)

lemma set_sort_insert [simp]: "set (sort_insert cmp x ys) = insert x (set ys)"
  by (induction ys) auto

lemma set_js_sort [simp]: "set (js_sort cmp xs) = set xs"
  by (induction xs) (auto simp: js_sort_def)

definition matching_jobs :: "gcp_lib \<Rightarrow> gcp_options \<Rightarrow> string \<Rightarrow> import_job list \<Rightarrow> import_job list" where
  "matching_jobs L opts keyRingName jobs =
     js_sort (\<lambda>a b. localeCompare L (case ij_name b of Some n \<Rightarrow> n | None \<Rightarrow> []) (case ij_name a of Some n \<Rightarrow> n | None \<Rightarrow> []))
       (filter (\<lambda>job. case ij_name job of
            Some n \<Rightarrow> js_starts_with n (keyRingName @ ''/importJobs/'' @ baseImportJobId opts)
          | None \<Rightarrow> False) jobs)"

text \<open>The first job of the list that can be used.\<close>

primrec reusable_job :: "gcp_options \<Rightarrow> string \<Rightarrow> import_job list \<Rightarrow> import_job option gcp_program" where
  "reusable_job opts canonical [] = retP None"
| "reusable_job opts canonical (job # jobs) =
     (if \<not> opt_str (ij_name job) \<or> ij_name job = Some canonical then reusable_job opts canonical jobs
      else bindP (loadImportJob opts (the (ij_name job))) (\<lambda>found.
        case found of Some j \<Rightarrow> retP (Some j) | None \<Rightarrow> reusable_job opts canonical jobs))"

text \<open>A reading of the clock in a string template; it is not negative.\<close>

fun decimal :: "nat \<Rightarrow> string" where
  "decimal n = (if n < 10 then [char_of (48 + n)] else decimal (n div 10) @ [char_of (48 + n mod 10)])"

declare decimal.simps [simp del]

text \<open>The creation of a job under a new name, which other calls of the process join.\<close>

definition replacement_creation :: "gcp_lib \<Rightarrow> gcp_options \<Rightarrow> string \<Rightarrow> string \<Rightarrow> int \<Rightarrow> import_job gcp_program" where
  "replacement_creation L opts keyRingName canonical now =
     catchP (createImportJob L opts keyRingName (baseImportJobId opts @ ''-'' @ decimal (nat now)))
       (\<lambda>e. unless_code KMS_ALREADY_EXISTS
          (bindP (loadImportJob opts canonical) (\<lambda>fallbackJob.
             case fallbackJob of Some j \<Rightarrow> retP j | None \<Rightarrow> throwP e)) e)"

definition replacement_job :: "gcp_lib \<Rightarrow> gcp_options \<Rightarrow> string \<Rightarrow> string \<Rightarrow> import_job gcp_program" where
  "replacement_job L opts keyRingName canonical =
     bindP (request (JoinCreation canonical)) (\<lambda>a.
       case ga_creation a of
         Some existingImportJob \<Rightarrow> liftP existingImportJob
       | None \<Rightarrow>
           clock (\<lambda>now. endP (replacement_creation L opts keyRingName canonical now)
             (\<lambda>v. Send (LeaveCreation canonical) (\<lambda>_. liftP v))))"

definition ensureImportJob :: "gcp_lib \<Rightarrow> gcp_options \<Rightarrow> string \<Rightarrow> import_job gcp_program" where
  "ensureImportJob L opts keyRingName =
     (let canonical = job_path L opts (baseImportJobId opts) in
      bindP (loadImportJob opts canonical) (\<lambda>canonicalJob.
        case canonicalJob of
          Some j \<Rightarrow> retP j
        | None \<Rightarrow>
            bindP (request (ListImportJobs keyRingName)) (\<lambda>listed.
            bindP (reusable_job opts canonical (matching_jobs L opts keyRingName (ga_jobs listed))) (\<lambda>reusableJob.
              case reusableJob of
                Some j \<Rightarrow> retP j
              | None \<Rightarrow>
                  catchP (createImportJob L opts keyRingName (baseImportJobId opts))
                    (unless_code KMS_ALREADY_EXISTS
                      (bindP (loadImportJob opts canonical) (\<lambda>reloadedCanonicalJob.
                        case reloadedCanonicalJob of
                          Some j \<Rightarrow> retP j
                        | None \<Rightarrow> replacement_job L opts keyRingName canonical)))))))"

subsection \<open>Crypto keys\<close>

definition ensureCryptoKey ::
  "gcp_lib \<Rightarrow> gcp_options \<Rightarrow> string \<Rightarrow> string \<Rightarrow> string \<Rightarrow> bool \<Rightarrow> string \<Rightarrow> string gcp_program" where
  "ensureCryptoKey L opts keyRingName keyId kmsAlgorithm importOnly purpose =
     (let cryptoKeyName = cryptoKeyPath L (projectId opts) (locationId opts) (keyRingId opts) keyId in
      request_catch (GetCryptoKey cryptoKeyName)
        (unless_code KMS_NOT_FOUND
          (request_catch (CreateCryptoKey keyRingName keyId purpose importOnly kmsAlgorithm)
             (unless_code KMS_ALREADY_EXISTS (retP cryptoKeyName))
             (\<lambda>_. retP cryptoKeyName)))
        (\<lambda>_. retP cryptoKeyName))"

end
