(* ===== verification/Gcp_Keys.thy ===== *)
theory Gcp_Keys
  imports Gcp_Kms
begin

text \<open>
  The signature and encryption key stores on Google Cloud KMS
  (\<open>google-cloud/src/providers/kms-*-key-store.provider.ts\<close>): saving a key creates or imports
  it, fetching and signing use the latest enabled version and check names and checksums.
  What is written to the console is not modelled.
\<close>

subsection \<open>Options\<close>

text \<open>Options given by the caller and by the environment.\<close>

record gcp_settings =
  opt_projectId :: "string option"
  env_GOOGLE_CLOUD_PROJECT_ID :: "string option"
  opt_locationId :: "string option"
  env_GOOGLE_CLOUD_LOCATION :: "string option"

definition gcp_store_options :: "string \<Rightarrow> string \<Rightarrow> gcp_settings \<Rightarrow> exn + gcp_options" where
  "gcp_store_options ring job st =
     (let project = (case opt_projectId st of Some p \<Rightarrow> Some p | None \<Rightarrow> env_GOOGLE_CLOUD_PROJECT_ID st);
          location = (case opt_locationId st of Some l \<Rightarrow> l | None \<Rightarrow>
            (case env_GOOGLE_CLOUD_LOCATION st of Some l \<Rightarrow> l | None \<Rightarrow> ''global''))
      in if \<not> opt_str project then Inl (err ''internal_server_error'' ''Missing projectId'')
         else Inr \<lparr>projectId = the project, locationId = location, keyRingId = ring, baseImportJobId = job,
           importJobPollIntervalMs = 3000, importJobMaxRetries = 60\<rparr>)"

definition gcp_issuer_options :: "gcp_settings \<Rightarrow> exn + gcp_options" where
  "gcp_issuer_options = gcp_store_options ''issuers'' ''vcknots-issuer-import-job''"

definition gcp_authz_options :: "gcp_settings \<Rightarrow> exn + gcp_options" where
  "gcp_authz_options = gcp_store_options ''authServers'' ''vcknots-authz-import-job''"

definition gcp_verifier_options :: "gcp_settings \<Rightarrow> exn + gcp_options" where
  "gcp_verifier_options = gcp_store_options ''verifiers'' ''vcknots-verifier-import-job''"

definition gcp_encryption_options :: "gcp_settings \<Rightarrow> exn + gcp_options" where
  "gcp_encryption_options = gcp_store_options ''verifiers'' ''vcknots-verifier-encryption-import-job''"

text \<open>The ids of keys.\<close>

definition issuerKeyId :: "gcp_lib \<Rightarrow> string \<Rightarrow> string \<Rightarrow> exn + string" where
  "issuerKeyId L issuer alg =
     (if js_trim alg = [] then Inl (err ''internal_server_error'' ''Issuer key algorithm is required to build a KMS key id'')
      else Inr (md5_url L issuer @ ''-'' @ alg))"

definition authzKeyId :: "gcp_lib \<Rightarrow> string \<Rightarrow> string \<Rightarrow> string" where
  "authzKeyId L authz alg = md5_url L authz @ ''-'' @ (if alg = [] then ''es256'' else alg)"

definition verifierKeyId :: "gcp_lib \<Rightarrow> string \<Rightarrow> string \<Rightarrow> string" where
  "verifierKeyId L verifier alg = md5_url L verifier @ ''-'' @ (if alg = [] then ''es256'' else alg)"

definition verifierEncryptionKeyId :: "gcp_lib \<Rightarrow> string \<Rightarrow> string \<Rightarrow> string" where
  "verifierEncryptionKeyId L verifier alg = sha256_url L verifier @ ''-enc-'' @ alg"

definition key_path :: "gcp_lib \<Rightarrow> gcp_options \<Rightarrow> string \<Rightarrow> string" where
  "key_path L opts keyId = cryptoKeyPath L (projectId opts) (locationId opts) (keyRingId opts) keyId"

subsection \<open>Saving\<close>

text \<open>The parts that the three signature stores repeat.\<close>

definition pair_mismatch :: "SignatureKeyEntry option \<Rightarrow> string \<Rightarrow> bool" where
  "pair_mismatch pair keyAlg = (case pair of Some p \<Rightarrow> declaredAlg p \<noteq> keyAlg | None \<Rightarrow> False)"

definition is_rsa :: "string \<Rightarrow> bool" where
  "is_rsa alg = (js_starts_with alg ''RS'' \<or> js_starts_with alg ''PS'')"

definition usable_import_job :: "import_job \<Rightarrow> (string \<Rightarrow> string \<Rightarrow> 'a gcp_program) \<Rightarrow> 'a gcp_program" where
  "usable_import_job job f =
     (if opt_str (ij_name job) \<and> opt_str (ij_pem job) then f (the (ij_name job)) (the (ij_pem job))
      else raiseP ''internal_server_error'' ''Import job is missing name or wrapping public key'')"

definition import_pair ::
  "gcp_lib \<Rightarrow> gcp_options \<Rightarrow> string \<Rightarrow> string \<Rightarrow> string \<Rightarrow> SignatureKeyEntry \<Rightarrow> string \<Rightarrow> string \<Rightarrow> unit gcp_program" where
  "import_pair L opts keyRingName keyId kmsAlgorithm pair importJobName wrappingPublicKeyPem =
     bindP (liftP (pkcs8_der (kms_lib.truncate L) (privateKey pair))) (\<lambda>privateKeyDer.
     bindP (liftP (wrap_for_import (kms_lib.truncate L) privateKeyDer wrappingPublicKeyPem)) (\<lambda>wrappedKey.
     bindP (ensureCryptoKey L opts keyRingName keyId kmsAlgorithm True ''ASYMMETRIC_SIGN'') (\<lambda>cryptoKeyName.
     bindP (request (ImportCryptoKeyVersion cryptoKeyName kmsAlgorithm importJobName wrappedKey)) (\<lambda>_. retP ()))))"

definition create_pair :: "gcp_lib \<Rightarrow> gcp_options \<Rightarrow> string \<Rightarrow> string \<Rightarrow> string \<Rightarrow> unit gcp_program" where
  "create_pair L opts keyRingName keyId kmsAlgorithm =
     bindP (ensureCryptoKey L opts keyRingName keyId kmsAlgorithm False ''ASYMMETRIC_SIGN'') (\<lambda>_. retP ())"

definition gcp_issuer_save ::
  "gcp_lib \<Rightarrow> gcp_options \<Rightarrow> string \<Rightarrow> string \<Rightarrow> SignatureKeyEntry option \<Rightarrow> unit gcp_program" where
  "gcp_issuer_save L opts issuer keyAlg pair =
     (let alg = (case pair of Some p \<Rightarrow> declaredAlg p | None \<Rightarrow> keyAlg) in
      if pair_mismatch pair keyAlg then
        raiseP ''illegal_argument'' ''The provided key pair algorithm does not match the requested key algorithm''
      else case joseAlgorithmToKmsAlgorithm alg of
        None \<Rightarrow> raiseP ''internal_server_error'' ''Unsupported issuer key algorithm''
      | Some kmsAlgorithm \<Rightarrow>
          if pair \<noteq> None \<and> is_rsa alg then
            raiseP ''internal_server_error'' ''Import requires RSA_AES wrapping, which is not implemented''
          else bindP (ensureKeyRing L opts) (\<lambda>keyRingName.
            bindP (liftP (issuerKeyId L issuer alg)) (\<lambda>keyId.
              case pair of
                None \<Rightarrow> create_pair L opts keyRingName keyId kmsAlgorithm
              | Some p \<Rightarrow>
                  bindP (ensureImportJob L opts keyRingName) (\<lambda>importJob.
                    usable_import_job importJob (import_pair L opts keyRingName keyId kmsAlgorithm p)))))"

definition gcp_authz_save ::
  "gcp_lib \<Rightarrow> gcp_options \<Rightarrow> string \<Rightarrow> string \<Rightarrow> SignatureKeyEntry option \<Rightarrow> unit gcp_program" where
  "gcp_authz_save L opts authz keyAlg pair =
     (let alg = (case pair of Some p \<Rightarrow> declaredAlg p | None \<Rightarrow> keyAlg) in
      if pair_mismatch pair keyAlg then
        raiseP ''illegal_argument'' ''The provided key pair algorithm does not match the requested key algorithm''
      else case joseAlgorithmToKmsAlgorithm alg of
        None \<Rightarrow> raiseP ''internal_server_error'' ''Unsupported authorization server key algorithm''
      | Some kmsAlgorithm \<Rightarrow>
          if pair \<noteq> None \<and> is_rsa alg then
            raiseP ''internal_server_error'' ''Import requires RSA_AES wrapping, which is not implemented''
          else (let keyId = authzKeyId L authz alg in
            bindP (ensureKeyRing L opts) (\<lambda>keyRingName.
              case pair of
                None \<Rightarrow> create_pair L opts keyRingName keyId kmsAlgorithm
              | Some p \<Rightarrow>
                  bindP (ensureImportJob L opts keyRingName) (\<lambda>importJob.
                    usable_import_job importJob (import_pair L opts keyRingName keyId kmsAlgorithm p)))))"

text \<open>The store of the verifier refuses RSA only after it has an import job.\<close>

definition gcp_verifier_save ::
  "gcp_lib \<Rightarrow> gcp_options \<Rightarrow> string \<Rightarrow> string \<Rightarrow> SignatureKeyEntry option \<Rightarrow> unit gcp_program" where
  "gcp_verifier_save L opts verifier keyAlg pair =
     (let alg = (case pair of Some p \<Rightarrow> declaredAlg p | None \<Rightarrow> keyAlg) in
      if pair_mismatch pair keyAlg then
        raiseP ''illegal_argument'' ''The provided key pair algorithm does not match the requested key algorithm''
      else case joseAlgorithmToKmsAlgorithm alg of
        None \<Rightarrow> raiseP ''internal_server_error'' ''Unsupported verifier key algorithm''
      | Some kmsAlgorithm \<Rightarrow>
          bindP (ensureKeyRing L opts) (\<lambda>keyRingName.
            let keyId = verifierKeyId L verifier alg in
            case pair of
              None \<Rightarrow> create_pair L opts keyRingName keyId kmsAlgorithm
            | Some p \<Rightarrow>
                bindP (ensureImportJob L opts keyRingName) (\<lambda>importJob.
                  usable_import_job importJob (\<lambda>importJobName wrappingPublicKeyPem.
                    if is_rsa alg then
                      raiseP ''internal_server_error'' ''Import requires RSA_AES wrapping, which is not implemented''
                    else import_pair L opts keyRingName keyId kmsAlgorithm p importJobName wrappingPublicKeyPem))))"

definition gcp_encryption_save :: "gcp_lib \<Rightarrow> gcp_options \<Rightarrow> string \<Rightarrow> string \<Rightarrow> unit gcp_program" where
  "gcp_encryption_save L opts verifier keyAlg =
     (case joseAlgorithmToKmsAlgorithm keyAlg of
        None \<Rightarrow> raiseP ''internal_server_error'' ''Unsupported verifier encryption key algorithm''
      | Some kmsAlgorithm \<Rightarrow>
          bindP (ensureKeyRing L opts) (\<lambda>keyRingName.
          bindP (ensureCryptoKey L opts keyRingName (verifierEncryptionKeyId L verifier keyAlg) kmsAlgorithm False ''ASYMMETRIC_DECRYPT'')
            (\<lambda>_. retP ())))"

subsection \<open>Fetching\<close>

text \<open>The latest enabled version of a key: none when the key is unknown, or has no such version.\<close>

definition enabled_version ::
  "gcp_lib \<Rightarrow> string \<Rightarrow> 'a gcp_program \<Rightarrow> 'a gcp_program \<Rightarrow> (string \<Rightarrow> 'a gcp_program) \<Rightarrow> 'a gcp_program" where
  "enabled_version L cryptoKeyName unknown none f =
     request_catch (ListCryptoKeyVersions cryptoKeyName) (unless_code KMS_NOT_FOUND unknown)
       (\<lambda>a. case latestEnabledVersion L (ga_versions a) of
              None \<Rightarrow> none
            | Some versionName \<Rightarrow> f versionName)"

text \<open>The checks of a public key, and the PEM text to import.\<close>

definition checked_pem :: "gcp_lib \<Rightarrow> string \<Rightarrow> string \<Rightarrow> public_key \<Rightarrow> string option" where
  "checked_pem L keyAlg versionName pk =
     (case (pk_pem pk, pk_crc pk) of
        (Some pem, Some crc) \<Rightarrow>
          if \<not> opt_str (pk_name pk) \<or> pem = [] then None
          else if pk_name pk \<noteq> Some versionName then None
          else if \<not> num_eq (num_int (crc32c L pem)) crc then None
          else if kmsAlgorithmToJoseAlgorithm (pk_algorithm pk) \<noteq> Some keyAlg then None
          else Some pem
      | _ \<Rightarrow> None)"

definition imported_key :: "ext \<Rightarrow> gcp_lib \<Rightarrow> string \<Rightarrow> string \<Rightarrow> public_key \<Rightarrow> crypto_key option gcp_program" where
  "imported_key X L keyAlg versionName pk =
     (case checked_pem L keyAlg versionName pk of
        None \<Rightarrow> retP None
      | Some pem \<Rightarrow> bindP (liftP (importSPKI X pem keyAlg)) (\<lambda>key. retP (Some key)))"

definition gcp_issuer_fetch :: "ext \<Rightarrow> gcp_lib \<Rightarrow> gcp_options \<Rightarrow> string \<Rightarrow> string \<Rightarrow> crypto_key option gcp_program" where
  "gcp_issuer_fetch X L opts issuer keyAlg =
     bindP (liftP (issuerKeyId L issuer keyAlg)) (\<lambda>keyId.
       enabled_version L (key_path L opts keyId) (retP None) (retP None) (\<lambda>versionName.
         request_catch (GetVersionKey versionName) (unless_code KMS_NOT_FOUND (retP None))
           (\<lambda>a. imported_key X L keyAlg versionName (ga_public a))))"

definition gcp_authz_fetch :: "ext \<Rightarrow> gcp_lib \<Rightarrow> gcp_options \<Rightarrow> string \<Rightarrow> string \<Rightarrow> crypto_key option gcp_program" where
  "gcp_authz_fetch X L opts authz keyAlg =
     enabled_version L (key_path L opts (authzKeyId L authz keyAlg)) (retP None) (retP None) (\<lambda>versionName.
       request_catch (GetVersionKey versionName) (unless_code KMS_NOT_FOUND (retP None))
         (\<lambda>a. imported_key X L keyAlg versionName (ga_public a)))"

definition gcp_verifier_fetch :: "ext \<Rightarrow> gcp_lib \<Rightarrow> gcp_options \<Rightarrow> string \<Rightarrow> string \<Rightarrow> crypto_key option gcp_program" where
  "gcp_verifier_fetch X L opts verifier keyAlg =
     enabled_version L (key_path L opts (verifierKeyId L verifier keyAlg)) (retP None) (retP None) (\<lambda>versionName.
       bindP (request (GetVersionKey versionName)) (\<lambda>a. imported_key X L keyAlg versionName (ga_public a)))"

definition gcp_encryption_fetch :: "ext \<Rightarrow> gcp_lib \<Rightarrow> gcp_options \<Rightarrow> string \<Rightarrow> string \<Rightarrow> obj option gcp_program" where
  "gcp_encryption_fetch X L opts verifier keyAlg =
     enabled_version L (key_path L opts (verifierEncryptionKeyId L verifier keyAlg)) (retP None) (retP None) (\<lambda>versionName.
       bindP (request (GetVersionKey versionName)) (\<lambda>a.
         case checked_pem L keyAlg versionName (ga_public a) of
           None \<Rightarrow> retP None
         | Some pem \<Rightarrow>
             bindP (liftP (importSPKI X pem keyAlg)) (\<lambda>cryptoKey.
             let publicJwk = exportJWK X cryptoKey in
             bindP (liftP (calculateJwkThumbprint X publicJwk)) (\<lambda>kid.
               retP (Some (omerge publicJwk [(''alg'', JStr keyAlg), (''kid'', JStr kid), (''use'', JStr ''enc'')]))))))"

subsection \<open>Signing\<close>

text \<open>The checks of a signature, and its form in a JWS.\<close>

definition checked_signature :: "gcp_lib \<Rightarrow> string \<Rightarrow> string \<Rightarrow> signed \<Rightarrow> exn + string" where
  "checked_signature L keyAlg versionName sg =
     (if sg_name sg \<noteq> Some versionName then Inl (err ''internal_server_error'' ''KMS key version mismatch'')
      else if \<not> sg_verifiedDigestCrc32c sg then
        Inl (err ''internal_server_error'' ''KMS digest CRC32C verification failed'')
      else case (sg_signature sg, sg_crc sg) of
        (Some signature, Some crc) \<Rightarrow>
          if \<not> num_eq (num_int (crc32c L signature)) crc then
            Inl (err ''internal_server_error'' ''KMS signature CRC32C verification failed'')
          else if js_starts_with keyAlg ''ES'' then der_to_jose (kms_lib.truncate L) signature keyAlg
          else Inr (base64url (kms_lib.truncate L) signature)
      | _ \<Rightarrow> Inl (err ''internal_server_error'' ''KMS signature is missing''))"

definition sign_with_version ::
  "ext \<Rightarrow> gcp_lib \<Rightarrow> error_code \<Rightarrow> string \<Rightarrow> obj \<Rightarrow> obj \<Rightarrow> string \<Rightarrow> string gcp_program" where
  "sign_with_version X L keyNotFound keyAlg jwtPayload jwtHeader versionName =
     (case digestFieldName keyAlg of
        None \<Rightarrow> raiseP ''internal_server_error'' ''Unsupported key algorithm''
      | Some digestField \<Rightarrow>
          let hashed = digest (kms_lib.truncate L) digestField
                (encode_json X (JObj jwtHeader) @ ''.'' @ encode_json X (JObj jwtPayload)) in
          request_catch (AsymmetricSign versionName digestField hashed (crc32c L hashed))
            (unless_code KMS_NOT_FOUND (raiseP keyNotFound ''private key not found.''))
            (\<lambda>a. liftP (checked_signature L keyAlg versionName (ga_signed a))))"

definition gcp_issuer_sign :: "ext \<Rightarrow> gcp_lib \<Rightarrow> gcp_options \<Rightarrow> string \<Rightarrow> string \<Rightarrow> obj \<Rightarrow> obj \<Rightarrow> string gcp_program" where
  "gcp_issuer_sign X L opts issuer keyAlg jwtPayload jwtHeader =
     catchP
       (bindP (liftP (issuerKeyId L issuer keyAlg)) (\<lambda>keyId.
          enabled_version L (key_path L opts keyId)
            (raiseP ''authz_issuer_key_not_found'' ''Issuer private key not found.'')
            (raiseP ''authz_issuer_key_not_found'' ''Issuer private key not found.'')
            (\<lambda>versionName.
              if oget jwtHeader ''alg'' \<noteq> Some (JStr keyAlg) then
                raiseP ''illegal_argument'' ''JWT header algorithm mismatch''
              else sign_with_version X L ''authz_issuer_key_not_found'' keyAlg jwtPayload jwtHeader versionName)))
       (\<lambda>e. throwP (sign_error e))"

definition gcp_authz_sign ::
  "ext \<Rightarrow> gcp_lib \<Rightarrow> gcp_options \<Rightarrow> string \<Rightarrow> string \<Rightarrow> obj \<Rightarrow> obj \<Rightarrow> string option gcp_program" where
  "gcp_authz_sign X L opts authz keyAlg jwtPayload jwtHeader =
     catchP
       (enabled_version L (key_path L opts (authzKeyId L authz keyAlg)) (retP None)
          (raiseP ''authz_issuer_key_not_found'' ''Authorization server private key not found.'')
          (\<lambda>versionName.
            if oget jwtHeader ''alg'' \<noteq> Some (JStr keyAlg) then
              raiseP ''authz_issuer_key_not_found'' ''Authorization server private key algorithm mismatch''
            else bindP (sign_with_version X L ''authz_issuer_key_not_found'' keyAlg jwtPayload jwtHeader versionName)
              (\<lambda>s. retP (Some s))))
       (\<lambda>e. throwP (sign_error e))"

definition gcp_verifier_sign ::
  "ext \<Rightarrow> gcp_lib \<Rightarrow> gcp_options \<Rightarrow> string \<Rightarrow> string \<Rightarrow> obj \<Rightarrow> obj \<Rightarrow> string option gcp_program" where
  "gcp_verifier_sign X L opts verifier keyAlg jwtPayload jwtHeader =
     catchP
       (enabled_version L (key_path L opts (verifierKeyId L verifier keyAlg)) (retP None)
          (raiseP ''authz_verifier_key_not_found'' ''Verifier private key not found.'')
          (\<lambda>versionName.
            if oget jwtHeader ''alg'' \<noteq> Some (JStr keyAlg) then
              raiseP ''authz_verifier_key_not_found'' ''Verifier private key algorithm mismatch''
            else bindP (sign_with_version X L ''authz_verifier_key_not_found'' keyAlg jwtPayload jwtHeader versionName)
              (\<lambda>s. retP (Some s))))
       (\<lambda>e. throwP (sign_error e))"

end
