(* ===== verification/Gcp_Bounds.thy ===== *)
theory Gcp_Bounds
  imports Gcp_Keys
begin

text \<open>
  How long the operations of the key stores on Google Cloud KMS can take, and what a signature
  rests on, whatever the service answers and whatever other callers do between the requests.
\<close>

subsection \<open>Requests and waiting\<close>

fun wait_time :: "gcp_command \<Rightarrow> int" where
  "wait_time (Wait ms) = ms"
| "wait_time c = 0"

definition waited :: "(gcp_command \<times> (exn + gcp_answer)) list \<Rightarrow> int" where
  "waited tr = (\<Sum>(c, r) \<leftarrow> tr. wait_time c)"

text \<open>At most \<open>n\<close> requests, and at most \<open>w\<close> milliseconds of waiting.\<close>

definition within_cost :: "nat \<Rightarrow> int \<Rightarrow> (gcp_command \<times> (exn + gcp_answer)) list \<Rightarrow> bool" where
  "within_cost n w tr \<longleftrightarrow> length tr \<le> n \<and> waited tr \<le> w"

lemma within_cost_Nil: "0 \<le> w \<Longrightarrow> within_cost n w []"
  by (simp add: within_cost_def waited_def)

lemma within_cost_Cons:
  "within_cost n w tr \<Longrightarrow> within_cost (Suc n) (w + wait_time c) ((c, r) # tr)"
  by (simp add: within_cost_def waited_def)

lemma within_cost_append:
  "within_cost n1 w1 tr1 \<Longrightarrow> within_cost n2 w2 tr2 \<Longrightarrow> within_cost (n1 + n2) (w1 + w2) (tr1 @ tr2)"
  by (simp add: within_cost_def waited_def)

lemma within_cost_mono: "within_cost n1 w1 tr \<Longrightarrow> n1 \<le> n2 \<Longrightarrow> w1 \<le> w2 \<Longrightarrow> within_cost n2 w2 tr"
  by (simp add: within_cost_def)

text \<open>A program that keeps within a cost in every conversation that satisfies \<open>A\<close>, a condition on
  each request with its answer.\<close>

definition costs ::
  "(gcp_command \<Rightarrow> exn + gcp_answer \<Rightarrow> bool) \<Rightarrow> 'a gcp_program \<Rightarrow> nat \<Rightarrow> int \<Rightarrow> bool" where
  "costs A p n w \<longleftrightarrow>
     0 \<le> w \<and> (\<forall>tr u. conversation p tr u \<longrightarrow> (\<forall>(c, r) \<in> set tr. A c r) \<longrightarrow> within_cost n w tr)"

lemma costs_mono: "costs A p n1 w1 \<Longrightarrow> n1 \<le> n2 \<Longrightarrow> w1 \<le> w2 \<Longrightarrow> costs A p n2 w2"
  unfolding costs_def using within_cost_mono by (meson order_trans)

lemma costs_ends:
  "0 \<le> w \<Longrightarrow> costs A (retP x) n w" "0 \<le> w \<Longrightarrow> costs A (throwP e) n w"
  "0 \<le> w \<Longrightarrow> costs A (raiseP c msg) n w" "0 \<le> w \<Longrightarrow> costs A (liftP v) n w"
  by (auto simp: costs_def within_cost_Nil)

lemma costs_endP:
  assumes "costs A p n1 w1" and "\<And>v. costs A (f v) n2 w2"
  shows "costs A (endP p f) (n1 + n2) (w1 + w2)"
  using assms unfolding costs_def conversation_endP by (force intro!: within_cost_append)

lemma costs_bindP:
  assumes "costs A p n1 w1" and "\<And>x. costs A (f x) n2 w2"
  shows "costs A (bindP p f) (n1 + n2) (w1 + w2)"
proof -
  have w2: "0 \<le> w2" using assms(2) by (simp add: costs_def)
  show ?thesis unfolding bindP_endP
    by (rule costs_endP [OF assms(1)]) (use assms(2) w2 in \<open>auto split: sum.split simp: costs_def within_cost_Nil\<close>)
qed

lemma costs_catchP:
  assumes "costs A p n1 w1" and "\<And>e. costs A (h e) n2 w2"
  shows "costs A (catchP p h) (n1 + n2) (w1 + w2)"
proof -
  have w2: "0 \<le> w2" using assms(2) by (simp add: costs_def)
  show ?thesis unfolding catchP_def
    by (rule costs_endP [OF assms(1)]) (use assms(2) w2 in \<open>auto split: sum.split simp: costs_def within_cost_Nil\<close>)
qed

lemma costs_Send:
  assumes "\<And>r. A c r \<Longrightarrow> costs A (k r) n w" and "0 \<le> w" and "0 \<le> wait_time c"
  shows "costs A (Send c k) (Suc n) (w + wait_time c)"
  unfolding costs_def
proof (intro conjI allI impI)
  fix tr u assume "conversation (Send c k) tr u" and A: "\<forall>(c, r) \<in> set tr. A c r"
  then obtain r tr' where tr: "tr = (c, r) # tr'" "conversation (k r) tr' u" by auto
  then have "within_cost n w tr'" using assms(1) [of r] A by (auto simp: costs_def)
  then show "within_cost (Suc n) (w + wait_time c) tr" unfolding tr(1) by (rule within_cost_Cons)
qed (use assms in simp)

lemma costs_request: "0 \<le> wait_time c \<Longrightarrow> costs A (request c) 1 (wait_time c)"
  by (auto simp: costs_def within_cost_def waited_def)

lemma costs_request0: "wait_time c = 0 \<Longrightarrow> costs A (request c) 1 0"
  using costs_request [of c A] by simp

lemma costs_request_catch:
  assumes "\<And>e. costs A (h e) n w" and "\<And>a. A c (Inr a) \<Longrightarrow> costs A (f a) n w" and "wait_time c = 0"
  shows "costs A (request_catch c h f) (Suc n) w"
proof -
  have w: "0 \<le> w" using assms(1) by (simp add: costs_def)
  have "costs A (case r of Inl e \<Rightarrow> h e | Inr x \<Rightarrow> f x) n w" if "A c r" for r
    using assms that by (cases r) simp_all
  from costs_Send [of A c, OF this w] show ?thesis using assms(3) by (simp add: request_catch_def)
qed

lemma costs_bind_request:
  assumes "\<And>a. A c (Inr a) \<Longrightarrow> costs A (f a) n w" and "0 \<le> w" and "wait_time c = 0"
  shows "costs A (bindP (request c) f) (Suc n) w"
proof -
  have "costs A (request_catch c throwP f) (Suc n) w"
    using assms by (intro costs_request_catch) (auto intro: costs_ends)
  then show ?thesis by (simp add: request_catch_endP bindP_endP throwP_def [abs_def])
qed

lemma costs_clock: "(\<And>t. costs A (q t) n w) \<Longrightarrow> costs A (clock q) n w"
  by (auto simp: costs_def)

lemma costs_unless: "costs A p n w \<Longrightarrow> costs A (unless_code c p e) n w"
  by (auto simp: unless_code_def costs_def within_cost_Nil)

lemma costs_option:
  "(v = None \<Longrightarrow> costs A p n w) \<Longrightarrow> (\<And>x. v = Some x \<Longrightarrow> costs A (f x) n w) \<Longrightarrow>
     costs A (case v of None \<Rightarrow> p | Some x \<Rightarrow> f x) n w"
  by (cases v) simp_all

lemma costs_if: "(b \<Longrightarrow> costs A p n w) \<Longrightarrow> (\<not> b \<Longrightarrow> costs A q n w) \<Longrightarrow> costs A (if b then p else q) n w"
  by simp

lemmas costs_intros = costs_ends costs_if costs_option costs_unless costs_clock

subsection \<open>The operations\<close>

lemma wait_costs:
  assumes "0 \<le> ms"
  shows "costs A (waitForImportJob ms name rounds) (2 * rounds) (int rounds * ms)"
proof (induction rounds)
  case (Suc n)
  have step: "costs A (bindP (request (Wait ms)) (\<lambda>_. waitForImportJob ms name n)) (1 + 2 * n) (ms + int n * ms)"
    using costs_bindP [OF costs_request [of "Wait ms"] Suc.IH] assms by simp
  have "costs A (waitForImportJob ms name (Suc n)) (1 + (1 + 2 * n)) (0 + (ms + int n * ms))"
    unfolding waitForImportJob.simps
    by (rule costs_bindP) (use assms step costs_request [of "GetImportJob name" A] in \<open>auto intro!: costs_intros\<close>)
  then show ?case by (simp add: algebra_simps)
qed (simp add: costs_ends)

abbreviation poll_requests :: "gcp_options \<Rightarrow> nat" where
  "poll_requests opts \<equiv> 2 * importJobMaxRetries opts"

abbreviation poll_time :: "gcp_options \<Rightarrow> int" where
  "poll_time opts \<equiv> int (importJobMaxRetries opts) * importJobPollIntervalMs opts"

lemma load_costs:
  assumes "0 \<le> importJobPollIntervalMs opts"
  shows "costs A (loadImportJob opts name) (Suc (poll_requests opts)) (poll_time opts)"
  unfolding loadImportJob_def
  by (rule costs_request_catch) (use assms in \<open>auto intro!: costs_intros simp: wait_for_job_def wait_costs\<close>)

lemma create_costs:
  assumes "0 \<le> importJobPollIntervalMs opts"
  shows "costs A (createImportJob L opts ring name) (Suc (poll_requests opts)) (poll_time opts)"
proof -
  have "costs A (createImportJob L opts ring name) (1 + (poll_requests opts + 0)) (wait_time (CreateImportJob ring name) + (poll_time opts + 0))"
    unfolding createImportJob_def
    by (intro costs_bindP costs_request) (use assms in \<open>auto intro!: costs_intros simp: wait_for_job_def wait_costs\<close>)
  then show ?thesis by simp
qed

lemma reusable_costs:
  assumes "0 \<le> importJobPollIntervalMs opts"
  shows "costs A (reusable_job opts canonical jobs) (length jobs * Suc (poll_requests opts)) (int (length jobs) * poll_time opts)"
proof (induction jobs)
  case (Cons job jobs)
  have "costs A (bindP (loadImportJob opts (the (ij_name job)))
      (\<lambda>found. case found of None \<Rightarrow> reusable_job opts canonical jobs | Some j \<Rightarrow> retP (Some j)))
      (Suc (poll_requests opts) + length jobs * Suc (poll_requests opts)) (poll_time opts + int (length jobs) * poll_time opts)"
    by (rule costs_bindP) (use assms Cons.IH load_costs in \<open>auto intro!: costs_intros\<close>)
  moreover have "costs A (reusable_job opts canonical jobs)
      (Suc (poll_requests opts) + length jobs * Suc (poll_requests opts)) (poll_time opts + int (length jobs) * poll_time opts)"
    by (rule costs_mono [OF Cons.IH]) (use assms in simp_all)
  ultimately show ?case by (simp add: algebra_simps)
qed (simp add: costs_ends)

lemma replacement_costs:
  assumes "0 \<le> importJobPollIntervalMs opts"
  shows "costs A (replacement_job L opts ring canonical) (2 * Suc (poll_requests opts) + 2) (2 * poll_time opts)"
proof -
  have create: "costs A (replacement_creation L opts ring canonical now)
      (Suc (poll_requests opts) + (Suc (poll_requests opts) + 0)) (poll_time opts + (poll_time opts + 0))" for now
    unfolding replacement_creation_def
    by (intro costs_catchP costs_unless costs_bindP create_costs load_costs assms) (auto intro!: costs_intros)
  have leave: "costs A (Send (LeaveCreation canonical) (\<lambda>_. liftP v)) 1 0" for v :: "exn + import_job"
    using costs_Send [of A "LeaveCreation canonical" "\<lambda>_. liftP v" 0 0] by (simp add: costs_ends)
  have rest: "costs A (clock (\<lambda>now. endP (replacement_creation L opts ring canonical now)
      (\<lambda>v. Send (LeaveCreation canonical) (\<lambda>_. liftP v)))) (2 * Suc (poll_requests opts) + 1) (2 * poll_time opts)"
    by (rule costs_clock, rule costs_mono, rule costs_endP [OF create leave]) simp_all
  have "costs A (replacement_job L opts ring canonical) (1 + (2 * Suc (poll_requests opts) + 1))
      (wait_time (JoinCreation canonical) + 2 * poll_time opts)"
    unfolding replacement_job_def
    by (intro costs_bindP costs_request) (use assms rest in \<open>auto intro!: costs_option costs_ends\<close>)
  then show ?thesis by simp
qed

text \<open>Each answer to a list request has at most \<open>k\<close> import jobs.\<close>

fun jobs_listed :: "nat \<Rightarrow> gcp_command \<Rightarrow> exn + gcp_answer \<Rightarrow> bool" where
  "jobs_listed k (ListImportJobs ring) (Inr a) = (length (ga_jobs a) \<le> k)"
| "jobs_listed k c r = True"

lemma matching_length: "length (matching_jobs L opts ring jobs) \<le> length jobs"
  by (simp add: matching_jobs_def)

lemma ensure_job_costs:
  assumes "0 \<le> importJobPollIntervalMs opts"
  shows "costs (jobs_listed k) (ensureImportJob L opts ring) ((k + 5) * Suc (poll_requests opts) + 3) (int (k + 5) * poll_time opts)"
proof -
  define r where "r = Suc (poll_requests opts)"
  define t where "t = poll_time opts"
  define canonical where "canonical = job_path L opts (baseImportJobId opts)"
  have t: "0 \<le> t" using assms by (simp add: t_def)
  have load: "costs A (loadImportJob opts canonical) r t" for A using load_costs [OF assms] by (simp add: r_def t_def)
  have fallback: "costs A (bindP (loadImportJob opts canonical) (\<lambda>found.
      case found of None \<Rightarrow> replacement_job L opts ring canonical | Some j \<Rightarrow> retP j)) (r + (2 * r + 2)) (t + 2 * t)" for A
    by (rule costs_bindP [OF load])
      (use t replacement_costs [OF assms, of A L ring canonical] in \<open>auto intro!: costs_option costs_ends simp: r_def t_def\<close>)
  have create: "costs A (catchP (createImportJob L opts ring (baseImportJobId opts)) (unless_code KMS_ALREADY_EXISTS
      (bindP (loadImportJob opts canonical) (\<lambda>found.
        case found of None \<Rightarrow> replacement_job L opts ring canonical | Some j \<Rightarrow> retP j)))) (r + (r + (2 * r + 2))) (t + (t + 2 * t))" for A
    by (intro costs_catchP costs_unless fallback) (use create_costs [OF assms] in \<open>simp add: r_def t_def\<close>)
  have reuse: "costs A (bindP (reusable_job opts canonical (matching_jobs L opts ring jobs)) (\<lambda>found. case found of
      None \<Rightarrow> catchP (createImportJob L opts ring (baseImportJobId opts)) (unless_code KMS_ALREADY_EXISTS
      (bindP (loadImportJob opts canonical) (\<lambda>found.
        case found of None \<Rightarrow> replacement_job L opts ring canonical | Some j \<Rightarrow> retP j)))
      | Some j \<Rightarrow> retP j)) (k * r + (r + (r + (2 * r + 2)))) (int k * t + (t + (t + 2 * t)))"
    if "length jobs \<le> k" for jobs and A
  proof (rule costs_bindP)
    let ?jobs = "matching_jobs L opts ring jobs"
    have "length ?jobs \<le> k" using that matching_length [of L opts ring jobs] by simp
    then show "costs A (reusable_job opts canonical ?jobs) (k * r) (int k * t)"
      using t by (intro costs_mono [OF reusable_costs [OF assms]]) (auto simp del: mult_Suc_right simp: r_def t_def intro: mult_le_mono1 mult_right_mono)
  qed (use t create in \<open>auto intro!: costs_option costs_ends\<close>)
  have listed: "costs (jobs_listed k) (bindP (request (ListImportJobs ring)) (\<lambda>listed.
      bindP (reusable_job opts canonical (matching_jobs L opts ring (ga_jobs listed))) (\<lambda>found. case found of
      None \<Rightarrow> catchP (createImportJob L opts ring (baseImportJobId opts)) (unless_code KMS_ALREADY_EXISTS
      (bindP (loadImportJob opts canonical) (\<lambda>found.
        case found of None \<Rightarrow> replacement_job L opts ring canonical | Some j \<Rightarrow> retP j)))
      | Some j \<Rightarrow> retP j))) (Suc (k * r + (r + (r + (2 * r + 2))))) (int k * t + (t + (t + 2 * t)))"
    by (rule costs_bind_request) (use t reuse in auto)
  have "costs (jobs_listed k) (ensureImportJob L opts ring) (r + Suc (k * r + (r + (r + (2 * r + 2))))) (t + (int k * t + (t + (t + 2 * t))))"
    unfolding ensureImportJob_def Let_def canonical_def [symmetric]
    by (rule costs_bindP [OF load]) (use t listed in \<open>auto intro!: costs_option costs_ends\<close>)
  then show ?thesis by (rule costs_mono) (simp_all add: r_def t_def algebra_simps)
qed

lemma ring_costs: "costs A (ensureKeyRing L opts) 2 0"
  unfolding ensureKeyRing_def Let_def numeral_2_eq_2
  by (intro costs_request_catch costs_unless) (auto intro: costs_ends)

lemma key_costs: "costs A (ensureCryptoKey L opts ring keyId alg external purpose) 2 0"
  unfolding ensureCryptoKey_def Let_def numeral_2_eq_2
  by (intro costs_request_catch costs_unless) (auto intro: costs_ends)

lemma create_pair_costs: "costs A (create_pair L opts ring keyId alg) 3 0"
  unfolding create_pair_def
  by (rule costs_mono, rule costs_bindP [OF key_costs], rule costs_ends(1) [where n = 0 and w = 0]) simp_all

lemma import_pair_costs: "costs A (import_pair L opts ring keyId alg p job pem) 3 0"
proof -
  have "costs A (import_pair L opts ring keyId alg p job pem) (0 + (0 + (2 + (1 + 0)))) (0 + (0 + (0 + (0 + 0))))"
    unfolding import_pair_def
    by (intro costs_bindP key_costs costs_ends costs_request0) simp_all
  then show ?thesis by simp
qed

text \<open>The three stores save in the same steps once the key ring is there.\<close>

lemma import_costs:
  assumes "0 \<le> importJobPollIntervalMs opts" and "\<And>nm pem. costs (jobs_listed k) (f nm pem) 3 0"
  shows "costs (jobs_listed k) (bindP (ensureImportJob L opts ring) (\<lambda>job. usable_import_job job f))
    ((k + 5) * Suc (poll_requests opts) + 6) (int (k + 5) * poll_time opts)"
proof -
  have "costs (jobs_listed k) (bindP (ensureImportJob L opts ring) (\<lambda>job. usable_import_job job f))
    ((k + 5) * Suc (poll_requests opts) + 3 + 3) (int (k + 5) * poll_time opts + 0)"
    unfolding usable_import_job_def by (intro costs_bindP ensure_job_costs assms costs_if costs_ends) simp
  then show ?thesis by simp
qed

lemma save_costs:
  assumes "0 \<le> importJobPollIntervalMs opts"
    and "p = gcp_issuer_save L opts who alg pair \<or> p = gcp_authz_save L opts who alg pair \<or> p = gcp_verifier_save L opts who alg pair"
  shows "costs (jobs_listed k) p ((k + 5) * Suc (poll_requests opts) + 8) (int (k + 5) * poll_time opts)"
proof -
  define n where "n = (k + 5) * Suc (poll_requests opts) + 6"
  define w where "w = int (k + 5) * poll_time opts"
  have w: "0 \<le> w" and n: "3 \<le> n" using assms(1) by (simp_all add: w_def n_def)
  have created: "costs (jobs_listed k) (create_pair L opts ring keyId a) n w" for ring keyId a
    by (rule costs_mono [OF create_pair_costs n w])
  have job: "costs (jobs_listed k) (bindP (ensureImportJob L opts ring) (\<lambda>job. usable_import_job job f)) n w"
    if "\<And>nm pem. costs (jobs_listed k) (f nm pem) 3 0" for ring f
    unfolding n_def w_def by (rule import_costs [OF assms(1) that])
  have ring: "costs (jobs_listed k) (bindP (ensureKeyRing L opts) f) (2 + n) (0 + w)"
    if "\<And>r. costs (jobs_listed k) (f r) n w" for f :: "string \<Rightarrow> unit gcp_program"
    by (rule costs_bindP [OF ring_costs that])
  have key: "costs (jobs_listed k) (bindP (liftP v) g) n w"
    if "\<And>x. costs (jobs_listed k) (g x) n w" for v :: "exn + string" and g :: "string \<Rightarrow> unit gcp_program"
    using costs_bindP [OF costs_ends(4) [where n = 0 and w = 0] that] by simp
  note rules = costs_if costs_ends costs_option ring key created job import_pair_costs w
  have "costs (jobs_listed k) (gcp_issuer_save L opts who alg pair) (2 + n) (0 + w)"
    unfolding gcp_issuer_save_def Let_def by (intro rules) (use w in simp_all)
  moreover have "costs (jobs_listed k) (gcp_authz_save L opts who alg pair) (2 + n) (0 + w)"
    unfolding gcp_authz_save_def Let_def by (intro rules) (use w in simp_all)
  moreover have "costs (jobs_listed k) (gcp_verifier_save L opts who alg pair) (2 + n) (0 + w)"
    unfolding gcp_verifier_save_def Let_def by (intro rules) (use w in simp_all)
  ultimately have "costs (jobs_listed k) p (2 + n) (0 + w)" using assms(2) by blast
  then show ?thesis by (simp add: n_def w_def)
qed

end
