(* ===== verification/Gcp_Service.thy ===== *)
theory Gcp_Service
  imports Gcp_Bounds
begin

text \<open>
  Google Cloud KMS as documented, and what the key stores achieve on it: an import of a key
  succeeds when its import job becomes active in time, and a saved key can be fetched and
  signs.
\<close>

subsection \<open>Google Cloud KMS as documented\<close>

record gcp_version =
  gv_pem :: string
  gv_algorithm :: string
  gv_enabled_at :: int

record gcp_key =
  gk_purpose :: string
  gk_algorithm :: string
  gk_versions :: "string list"

record gcp_job =
  gj_name :: string
  gj_active_at :: int
  gj_expires_at :: int

record gcp_view =
  gw_rings :: "string \<Rightarrow> bool"
  gw_jobs :: "gcp_job list"
  gw_keys :: "string \<Rightarrow> gcp_key option"
  gw_versions :: "string \<Rightarrow> gcp_version option"
  gw_now :: int

text \<open>What KMS chooses: key texts and signatures, how long a request takes, and how long an import
  job or a key version takes to become usable. Requests are answered within a minute.\<close>

record gcp_choice =
  gc_pem :: string
  gc_signature :: string
  gc_elapsed :: int
  gc_delay :: int

definition possible_choice :: "gcp_choice \<Rightarrow> bool" where
  "possible_choice ch \<longleftrightarrow> 0 \<le> gc_elapsed ch \<and> gc_elapsed ch \<le> 60000 \<and> 0 \<le> gc_delay ch \<and> gc_pem ch \<noteq> []"

definition no_job :: import_job where
  "no_job = \<lparr>ij_name = None, ij_state = None, ij_pem = None\<rparr>"

definition no_public :: public_key where
  "no_public = \<lparr>pk_name = None, pk_pem = None, pk_crc = None, pk_algorithm = None\<rparr>"

definition not_signed :: signed where
  "not_signed = \<lparr>sg_name = None, sg_verifiedDigestCrc32c = False, sg_signature = None, sg_crc = None\<rparr>"

definition plain_answer :: gcp_answer where
  "plain_answer = \<lparr>ga_job = no_job, ga_jobs = [], ga_creation = None, ga_versions = [], ga_public = no_public,
     ga_signed = not_signed\<rparr>"

definition job_state :: "int \<Rightarrow> gcp_job \<Rightarrow> string" where
  "job_state now j =
     (if gj_expires_at j \<le> now then ''EXPIRED'' else if gj_active_at j \<le> now then ''ACTIVE'' else ''PENDING_GENERATION'')"

definition job_answer :: "string \<Rightarrow> int \<Rightarrow> gcp_job \<Rightarrow> import_job" where
  "job_answer pem now j = \<lparr>ij_name = Some (gj_name j), ij_state = Some (job_state now j),
     ij_pem = (if job_state now j = ''ACTIVE'' then Some pem else None)\<rparr>"

definition find_job :: "gcp_view \<Rightarrow> string \<Rightarrow> gcp_job option" where
  "find_job v n = find (\<lambda>j. gj_name j = n) (gw_jobs v)"

definition gcp_missing :: exn where
  "gcp_missing = JsError ''NOT_FOUND''"

definition gcp_exists :: exn where
  "gcp_exists = JsError ''ALREADY_EXISTS''"

definition gcp_refused :: exn where
  "gcp_refused = JsError ''FAILED_PRECONDITION''"

definition add_version :: "gcp_view \<Rightarrow> string \<Rightarrow> gcp_key \<Rightarrow> gcp_choice \<Rightarrow> gcp_view" where
  "add_version v n key ch =
     (let name = n @ ''/cryptoKeyVersions/'' @ decimal (Suc (length (gk_versions key)))
      in v\<lparr>gw_keys := (gw_keys v)(n \<mapsto> key\<lparr>gk_versions := gk_versions key @ [name]\<rparr>),
           gw_versions := (gw_versions v)(name \<mapsto> \<lparr>gv_pem = gc_pem ch, gv_algorithm = gk_algorithm key,
             gv_enabled_at = gw_now v + gc_delay ch\<rparr>)\<rparr>)"

definition enabled_at :: "gcp_view \<Rightarrow> string \<Rightarrow> bool" where
  "enabled_at v n = (case gw_versions v n of Some w \<Rightarrow> gv_enabled_at w \<le> gw_now v | None \<Rightarrow> False)"

fun gcp_effect :: "gcp_lib \<Rightarrow> gcp_choice \<Rightarrow> gcp_command \<Rightarrow> gcp_view \<Rightarrow> (exn + gcp_answer) \<times> gcp_view" where
  "gcp_effect L ch (GetKeyRing n) v = (if gw_rings v n then Inr plain_answer else Inl gcp_missing, v)"
| "gcp_effect L ch (CreateKeyRing parent ident) v =
     (let n = parent @ ''/keyRings/'' @ ident in
      if gw_rings v n then (Inl gcp_exists, v) else (Inr plain_answer, v\<lparr>gw_rings := (gw_rings v)(n := True)\<rparr>))"
| "gcp_effect L ch (GetImportJob n) v =
     (case find_job v n of
        None \<Rightarrow> Inl gcp_missing
      | Some j \<Rightarrow> Inr (plain_answer\<lparr>ga_job := job_answer (gc_pem ch) (gw_now v) j\<rparr>), v)"
| "gcp_effect L ch (CreateImportJob parent ident) v =
     (let n = parent @ ''/importJobs/'' @ ident in
      if find_job v n \<noteq> None then (Inl gcp_exists, v)
      else (Inr plain_answer, v\<lparr>gw_jobs := gw_jobs v @ [\<lparr>gj_name = n, gj_active_at = gw_now v + gc_delay ch,
              gj_expires_at = gw_now v + 3 * 24 * 60 * 60 * 1000\<rparr>]\<rparr>))"
| "gcp_effect L ch (ListImportJobs parent) v =
     (Inr (plain_answer\<lparr>ga_jobs := map (job_answer (gc_pem ch) (gw_now v))
        (filter (\<lambda>j. js_starts_with (gj_name j) (parent @ ''/importJobs/'')) (gw_jobs v))\<rparr>), v)"
| "gcp_effect L ch (GetCryptoKey n) v = (if gw_keys v n = None then Inl gcp_missing else Inr plain_answer, v)"
| "gcp_effect L ch (CreateCryptoKey parent ident purpose importOnly alg) v =
     (let n = parent @ ''/cryptoKeys/'' @ ident; key = \<lparr>gk_purpose = purpose, gk_algorithm = alg, gk_versions = []\<rparr> in
      if \<not> gw_rings v parent then (Inl gcp_missing, v)
      else if gw_keys v n \<noteq> None then (Inl gcp_exists, v)
      else (Inr plain_answer, if importOnly then v\<lparr>gw_keys := (gw_keys v)(n \<mapsto> key)\<rparr> else add_version v n key ch))"
| "gcp_effect L ch (ImportCryptoKeyVersion parent alg importJob wrapped) v =
     (case (gw_keys v parent, find_job v importJob) of
        (Some key, Some j) \<Rightarrow>
          if job_state (gw_now v) j = ''ACTIVE'' then (Inr plain_answer, add_version v parent key ch)
          else (Inl gcp_refused, v)
      | _ \<Rightarrow> (Inl gcp_missing, v))"
| "gcp_effect L ch (ListCryptoKeyVersions n) v =
     (case gw_keys v n of
        None \<Rightarrow> Inl gcp_missing
      | Some key \<Rightarrow> Inr (plain_answer\<lparr>ga_versions := map Some (filter (enabled_at v) (gk_versions key))\<rparr>), v)"
| "gcp_effect L ch (GetVersionKey n) v =
     (case gw_versions v n of
        None \<Rightarrow> Inl gcp_missing
      | Some w \<Rightarrow>
          if \<not> enabled_at v n then Inl gcp_refused
          else Inr (plain_answer\<lparr>ga_public := \<lparr>pk_name = Some n, pk_pem = Some (gv_pem w),
            pk_crc = Some (num_int (crc32c L (gv_pem w))), pk_algorithm = Some (gv_algorithm w)\<rparr>\<rparr>), v)"
| "gcp_effect L ch (AsymmetricSign n field d c) v =
     (if gw_versions v n = None then Inl gcp_missing
      else if \<not> enabled_at v n then Inl gcp_refused
      else Inr (plain_answer\<lparr>ga_signed := \<lparr>sg_name = Some n, sg_verifiedDigestCrc32c = (c = crc32c L d),
        sg_signature = Some (gc_signature ch), sg_crc = Some (num_int (crc32c L (gc_signature ch)))\<rparr>\<rparr>), v)"
| "gcp_effect L ch (Wait ms) v = (Inr plain_answer, v\<lparr>gw_now := gw_now v + ms\<rparr>)"
| "gcp_effect L ch (JoinCreation n) v = (Inr plain_answer, v)"
| "gcp_effect L ch (LeaveCreation n) v = (Inr plain_answer, v)"

text \<open>The effect comes first, then the time that the request took.\<close>

definition gcp_documented :: "gcp_lib \<Rightarrow> gcp_choice \<Rightarrow> gcp_command \<Rightarrow> gcp_view \<Rightarrow> (exn + gcp_answer) \<times> gcp_view" where
  "gcp_documented L ch c v =
     (case gcp_effect L ch c v of (r, v') \<Rightarrow> (r, v'\<lparr>gw_now := gw_now v' + gc_elapsed ch\<rparr>))"

definition documented_names :: "gcp_lib \<Rightarrow> bool" where
  "documented_names L \<longleftrightarrow>
     (\<forall>p l. locationPath L p l = ''projects/'' @ p @ ''/locations/'' @ l) \<and>
     (\<forall>p l r. keyRingPath L p l r = locationPath L p l @ ''/keyRings/'' @ r) \<and>
     (\<forall>p l r j. importJobPath L p l r j = keyRingPath L p l r @ ''/importJobs/'' @ j) \<and>
     (\<forall>p l r k. cryptoKeyPath L p l r k = keyRingPath L p l r @ ''/cryptoKeys/'' @ k)"

text \<open>What is known of a supported algorithm, and of the name of its key.\<close>

lemma supported_algorithms:
  assumes "joseAlgorithmToKmsAlgorithm alg = Some a"
  shows "(alg, a) \<in> {(''ES256'', ''EC_SIGN_P256_SHA256''), (''ES384'', ''EC_SIGN_P384_SHA384''),
    (''RS256'', ''RSA_SIGN_PKCS1_2048_SHA256''), (''RS512'', ''RSA_SIGN_PKCS1_4096_SHA512''),
    (''PS256'', ''RSA_SIGN_PSS_2048_SHA256''), (''PS512'', ''RSA_SIGN_PSS_4096_SHA512''),
    (''RSA-OAEP-256'', ''RSA_DECRYPT_OAEP_3072_SHA256'')}"
  using assms unfolding joseAlgorithmToKmsAlgorithm_def by (simp only: split: if_split_asm) simp_all

lemma algorithm_back:
  assumes "joseAlgorithmToKmsAlgorithm alg = Some a"
  shows "kmsAlgorithmToJoseAlgorithm (Some a) = Some alg"
proof -
  have "list_all (\<lambda>(alg, a). kmsAlgorithmToJoseAlgorithm (Some a) = Some alg)
    [(''ES256'', ''EC_SIGN_P256_SHA256''), (''ES384'', ''EC_SIGN_P384_SHA384''),
    (''RS256'', ''RSA_SIGN_PKCS1_2048_SHA256''), (''RS512'', ''RSA_SIGN_PKCS1_4096_SHA512''),
    (''PS256'', ''RSA_SIGN_PSS_2048_SHA256''), (''PS512'', ''RSA_SIGN_PSS_4096_SHA512''),
    (''RSA-OAEP-256'', ''RSA_DECRYPT_OAEP_3072_SHA256'')]" by code_simp
  then show ?thesis using supported_algorithms [OF assms] unfolding list_all_iff by force
qed

lemma supported_key_id:
  assumes "joseAlgorithmToKmsAlgorithm alg = Some a"
  shows "issuerKeyId L who alg = Inr (md5_url L who @ ''-'' @ alg)"
proof -
  have "list_all (\<lambda>alg. js_trim alg \<noteq> [])
    [''ES256'', ''ES384'', ''RS256'', ''RS512'', ''PS256'', ''PS512'', ''RSA-OAEP-256'']" by code_simp
  then have "js_trim alg \<noteq> []" using supported_algorithms [OF assms] by auto
  then show ?thesis by (simp add: issuerKeyId_def)
qed

text \<open>From some time on the key can be fetched and signs.\<close>

definition jws_signature :: "gcp_lib \<Rightarrow> string \<Rightarrow> string \<Rightarrow> exn + string" where
  "jws_signature L alg signature =
     (if js_starts_with alg ''ES'' then
        (case der_to_jose (kms_lib.truncate L) signature alg of Inl e \<Rightarrow> Inl (sign_error e) | Inr j \<Rightarrow> Inr j)
      else Inr (base64url (kms_lib.truncate L) signature))"

definition usable_key ::
  "(gcp_command, gcp_answer, 's) service \<Rightarrow> ('s \<Rightarrow> gcp_view) \<Rightarrow> ('s \<Rightarrow> bool) \<Rightarrow> ext \<Rightarrow> gcp_lib \<Rightarrow> gcp_options \<Rightarrow>
   string \<Rightarrow> string \<Rightarrow> gcp_view \<Rightarrow> bool" where
  "usable_key send view good X L opts who alg v \<longleftrightarrow>
     (\<exists>pem enabled. \<forall>s t. good s \<and> gw_keys (view s) = gw_keys v \<and> gw_versions (view s) = gw_versions v \<and> enabled \<le> gw_now (view s) \<longrightarrow>
        fst (alone send t (gcp_issuer_fetch X L opts who alg) s) = map_sum id Some (importSPKI X pem alg) \<and>
        (\<forall>payload header. oget header ''alg'' = Some (JStr alg) \<longrightarrow>
           (\<exists>signature. fst (alone send t (gcp_issuer_sign X L opts who alg payload header) s) = jws_signature L alg signature)))"

text \<open>\<open>job_limit\<close> bounds the time that an import job takes to become active.\<close>

locale gcp_available =
  fixes send :: "(gcp_command, gcp_answer, 's) service" and view :: "'s \<Rightarrow> gcp_view"
    and good :: "'s \<Rightarrow> bool" and L :: gcp_lib and job_limit :: int
  assumes answers: "good s \<Longrightarrow> send c s = (r, s') \<Longrightarrow>
      good s' \<and> (\<exists>ch. possible_choice ch \<and> (\<forall>parent ident. c = CreateImportJob parent ident \<longrightarrow> gc_delay ch \<le> job_limit) \<and>
        (r, view s') = gcp_documented L ch c (view s))"
    and names: "documented_names L"
begin

text \<open>The service has the view \<open>v\<close>, except that some time has passed.\<close>

definition reached :: "gcp_view \<Rightarrow> int \<Rightarrow> int \<Rightarrow> 's \<Rightarrow> bool" where
  "reached v lo hi s \<longleftrightarrow> good s \<and> (\<exists>d. lo \<le> d \<and> d \<le> hi \<and> view s = v\<lparr>gw_now := gw_now v + d\<rparr>)"

lemma reachedI: "good s \<Longrightarrow> lo \<le> d \<Longrightarrow> d \<le> hi \<Longrightarrow> view s = v\<lparr>gw_now := gw_now v + d\<rparr> \<Longrightarrow> reached v lo hi s"
  unfolding reached_def by blast

lemma reached_refl: "good s \<Longrightarrow> reached (view s) 0 0 s"
  by (rule reachedI [of _ _ 0]) simp_all

lemma reached_trans:
  assumes "reached v lo1 hi1 s1" and "reached (view s1) lo2 hi2 s2"
  shows "reached v (lo1 + lo2) (hi1 + hi2) s2"
proof -
  obtain d1 d2 where "lo1 \<le> d1" "d1 \<le> hi1" "view s1 = v\<lparr>gw_now := gw_now v + d1\<rparr>"
      "lo2 \<le> d2" "d2 \<le> hi2" "view s2 = (view s1)\<lparr>gw_now := gw_now (view s1) + d2\<rparr>" "good s2"
    using assms unfolding reached_def by blast
  then show ?thesis by (intro reachedI [of _ _ "d1 + d2"]) simp_all
qed

lemma reached_mono: "reached v lo1 hi1 s \<Longrightarrow> lo2 \<le> lo1 \<Longrightarrow> hi1 \<le> hi2 \<Longrightarrow> reached v lo2 hi2 s"
  unfolding reached_def by (meson order_trans)

lemma reached_good: "reached v lo hi s \<Longrightarrow> good s"
  by (simp add: reached_def)

lemma reached_now: "reached v lo hi s \<Longrightarrow> gw_now v + lo \<le> gw_now (view s) \<and> gw_now (view s) \<le> gw_now v + hi"
  by (auto simp: reached_def)

lemma reached_fields: "reached v lo hi s \<Longrightarrow>
    find_job (view s) = find_job v \<and> gw_keys (view s) = gw_keys v \<and> gw_versions (view s) = gw_versions v \<and>
    gw_rings (view s) = gw_rings v \<and> gw_jobs (view s) = gw_jobs v"
  by (auto simp: reached_def find_job_def)

lemma answered:
  assumes "good s"
  obtains ch s' where "possible_choice ch" "\<forall>parent ident. c = CreateImportJob parent ident \<longrightarrow> gc_delay ch \<le> job_limit"
    "send c s = (fst (gcp_effect L ch c (view s)), s')" "reached (snd (gcp_effect L ch c (view s))) 0 60000 s'"
proof -
  obtain ch where ch: "possible_choice ch" "\<forall>parent ident. c = CreateImportJob parent ident \<longrightarrow> gc_delay ch \<le> job_limit"
      "(fst (send c s), view (snd (send c s))) = gcp_documented L ch c (view s)" "good (snd (send c s))"
    using answers [OF assms, of c "fst (send c s)" "snd (send c s)"] by auto
  have "send c s = (fst (gcp_effect L ch c (view s)), snd (send c s))"
    using ch(3) by (simp add: gcp_documented_def prod_eq_iff case_prod_beta)
  moreover have "reached (snd (gcp_effect L ch c (view s))) 0 60000 (snd (send c s))"
    by (rule reachedI [of _ _ "gc_elapsed ch"]) (use ch in \<open>simp_all add: gcp_documented_def possible_choice_def case_prod_beta prod_eq_iff\<close>)
  ultimately show thesis using that [of ch] ch(1,2) by blast
qed

lemma get_job:
  assumes "good s" and "find_job (view s) n = Some j"
  obtains s' pem where "send (GetImportJob n) s = (Inr (plain_answer\<lparr>ga_job := job_answer pem (gw_now (view s)) j\<rparr>), s')"
    "pem \<noteq> []" "reached (view s) 0 60000 s'"
proof -
  obtain ch s' where "possible_choice ch" "send (GetImportJob n) s = (fst (gcp_effect L ch (GetImportJob n) (view s)), s')"
      "reached (snd (gcp_effect L ch (GetImportJob n) (view s))) 0 60000 s'"
    by (rule answered [OF assms(1), of "GetImportJob n"])
  then show thesis using assms(2) by (intro that [of "gc_pem ch" s']) (simp_all add: possible_choice_def)
qed

lemma wait_step:
  assumes "good s"
  obtains s' where "send (Wait ms) s = (Inr plain_answer, s')" "reached (view s) ms (ms + 60000) s'"
proof -
  obtain ch s' where s': "send (Wait ms) s = (fst (gcp_effect L ch (Wait ms) (view s)), s')"
      "reached (snd (gcp_effect L ch (Wait ms) (view s))) 0 60000 s'"
    by (rule answered [OF assms(1), of "Wait ms"])
  then obtain d where "0 \<le> d" "d \<le> 60000" "view s' = (view s)\<lparr>gw_now := gw_now (view s) + ms + d\<rparr>" "good s'"
    by (auto simp: reached_def)
  then have "reached (view s) ms (ms + 60000) s'" by (intro reachedI [of _ _ "ms + d"]) simp_all
  then show thesis using that s'(1) by simp
qed

text \<open>Waiting for a job that becomes active in time.\<close>

lemma wait_active:
  assumes "good s" and "find_job (view s) n = Some j" and "0 \<le> ms"
    and "gj_active_at j \<le> gw_now (view s) + int rounds * ms"
    and "gw_now (view s) + int (Suc rounds) * (ms + 120000) \<le> gj_expires_at j"
  shows "\<exists>s' pem now. alone send t (waitForImportJob ms n (Suc rounds)) s = (Inr (Some (job_answer pem now j)), s') \<and>
    pem \<noteq> [] \<and> job_state now j = ''ACTIVE'' \<and> now \<le> gw_now (view s') \<and> reached (view s) 0 (int (Suc rounds) * (ms + 120000)) s'"
  using assms
proof (induction rounds arbitrary: s)
  case 0
  obtain s' pem where g: "send (GetImportJob n) s = (Inr (plain_answer\<lparr>ga_job := job_answer pem (gw_now (view s)) j\<rparr>), s')"
      "pem \<noteq> []" "reached (view s) 0 60000 s'"
    by (rule get_job [OF 0(1,2)])
  have "job_state (gw_now (view s)) j = ''ACTIVE''" using 0 by (simp add: job_state_def)
  moreover have "reached (view s) 0 (ms + 120000) s'" by (rule reached_mono [OF g(3)]) (use 0(3) in simp_all)
  ultimately show ?case using g reached_now [OF g(3)] by (auto simp: alone_bind_request job_answer_def)
next
  case (Suc rounds)
  define total where "total = int (Suc rounds) * (ms + 120000)"
  have total: "0 \<le> total" "int (Suc (Suc rounds)) * (ms + 120000) = ms + 120000 + total" "int (Suc rounds) * (ms + 120000) = total"
    using Suc.prems(3) by (simp_all add: total_def algebra_simps)
  have reach: "gj_active_at j \<le> gw_now (view s) + ms + int rounds * ms" using Suc.prems(4) by (simp add: algebra_simps)
  have last: "gw_now (view s) + ms + 120000 + total \<le> gj_expires_at j" using Suc.prems(5) total(2) by simp
  obtain s1 pem where g: "send (GetImportJob n) s = (Inr (plain_answer\<lparr>ga_job := job_answer pem (gw_now (view s)) j\<rparr>), s1)"
      "pem \<noteq> []" "reached (view s) 0 60000 s1"
    by (rule get_job [OF Suc.prems(1,2)])
  show ?case
  proof (cases "job_state (gw_now (view s)) j = ''ACTIVE''")
    case True
    have "reached (view s) 0 (ms + 120000 + total) s1" by (rule reached_mono [OF g(3)]) (use Suc.prems(3) total(1) in simp_all)
    then show ?thesis using g True total(2) reached_now [OF g(3)] by (auto simp: alone_bind_request job_answer_def)
  next
    case False
    then have pending: "ij_state (job_answer pem (gw_now (view s)) j) = Some ''PENDING_GENERATION''"
      using last total(1) Suc.prems(3) by (auto simp: job_answer_def job_state_def)
    obtain s2 where w: "send (Wait ms) s1 = (Inr plain_answer, s2)" "reached (view s1) ms (ms + 60000) s2"
      by (rule wait_step [OF reached_good [OF g(3)]])
    have l2: "reached (view s) ms (ms + 120000) s2" using reached_trans [OF g(3) w(2)] by (simp add: algebra_simps)
    note now2 = reached_now [OF l2]
    have "\<exists>s' pem now. alone send t (waitForImportJob ms n (Suc rounds)) s2 = (Inr (Some (job_answer pem now j)), s') \<and>
      pem \<noteq> [] \<and> job_state now j = ''ACTIVE'' \<and> now \<le> gw_now (view s') \<and> reached (view s2) 0 (int (Suc rounds) * (ms + 120000)) s'"
    proof (rule Suc.IH)
      show "good s2" using l2 by (rule reached_good)
      show "find_job (view s2) n = Some j" using reached_fields [OF l2] Suc.prems(2) by simp
      show "gj_active_at j \<le> gw_now (view s2) + int rounds * ms" using reach now2 by linarith
      show "gw_now (view s2) + int (Suc rounds) * (ms + 120000) \<le> gj_expires_at j" using last now2 total(3) by linarith
    qed (rule Suc.prems(3))
    then obtain s' pem' now' where r: "alone send t (waitForImportJob ms n (Suc rounds)) s2 = (Inr (Some (job_answer pem' now' j)), s')"
        "pem' \<noteq> []" "job_state now' j = ''ACTIVE''" "now' \<le> gw_now (view s')" "reached (view s2) 0 total s'"
      unfolding total(3) by blast
    have run: "alone send t (waitForImportJob ms n (Suc (Suc rounds))) s = alone send t (waitForImportJob ms n (Suc rounds)) s2"
      unfolding waitForImportJob.simps(2) [of ms n "Suc rounds"] using g(1) w(1) pending by (simp add: alone_bind_request)
    have "reached (view s) 0 (ms + 120000 + total) s'"
      by (rule reached_mono [OF reached_trans [OF l2 r(5)]]) (use Suc.prems(3) in simp_all)
    then show ?thesis using run r(1-4) total(2) by auto
  qed
qed

text \<open>The key ring and the key are there afterwards.\<close>

abbreviation ring_of :: "gcp_options \<Rightarrow> string" where
  "ring_of opts \<equiv> keyRingPath L (projectId opts) (locationId opts) (keyRingId opts)"

abbreviation with_ring :: "gcp_view \<Rightarrow> string \<Rightarrow> gcp_view" where
  "with_ring v n \<equiv> v\<lparr>gw_rings := (gw_rings v)(n := True)\<rparr>"

lemma ring_name: "locationPath L (projectId opts) (locationId opts) @ ''/keyRings/'' @ keyRingId opts = ring_of opts"
  using names by (simp add: documented_names_def)

lemma key_name: "ring_of opts @ ''/cryptoKeys/'' @ k = key_path L opts k"
  using names by (simp add: documented_names_def key_path_def)

lemma job_name: "ring_of opts @ ''/importJobs/'' @ j = job_path L opts j"
  using names by (simp add: documented_names_def job_path_def)

lemmas resource_names = ring_name [simplified] key_name [simplified] job_name [simplified]

lemma ensure_ring:
  assumes "good s"
  obtains s' where "alone send t (ensureKeyRing L opts) s = (Inr (ring_of opts), s')" "reached (with_ring (view s) (ring_of opts)) 0 120000 s'"
proof -
  obtain ch s1 where a: "send (GetKeyRing (ring_of opts)) s = (fst (gcp_effect L ch (GetKeyRing (ring_of opts)) (view s)), s1)"
      "reached (snd (gcp_effect L ch (GetKeyRing (ring_of opts)) (view s))) 0 60000 s1"
    by (rule answered [OF assms])
  then have r1: "reached (view s) 0 60000 s1" by simp
  show thesis
  proof (cases "gw_rings (view s) (ring_of opts)")
    case True
    then have same: "with_ring (view s) (ring_of opts) = view s" by (simp add: fun_upd_idem)
    have "alone send t (ensureKeyRing L opts) s = (Inr (ring_of opts), s1)"
      using a(1) True by (simp add: ensureKeyRing_def Let_def)
    then show thesis by (rule that) (use reached_mono [OF r1] same in simp)
  next
    case False
    let ?create = "CreateKeyRing (locationPath L (projectId opts) (locationId opts)) (keyRingId opts)"
    obtain ch2 s2 where b: "send ?create s1 = (fst (gcp_effect L ch2 ?create (view s1)), s2)"
        "reached (snd (gcp_effect L ch2 ?create (view s1))) 0 60000 s2"
      by (rule answered [OF reached_good [OF r1]])
    have new: "\<not> gw_rings (view s1) (ring_of opts)" using reached_fields [OF r1] False by simp
    have "alone send t (ensureKeyRing L opts) s = (Inr (ring_of opts), s2)"
      using a(1) b(1) False new by (simp add: ensureKeyRing_def Let_def gcp_missing_def unless_code_def resource_names)
    moreover have "reached (with_ring (view s1) (ring_of opts)) 0 60000 s2" using b(2) new by (simp add: Let_def resource_names)
    then obtain d1 d2 where "0 \<le> d1" "d1 \<le> 60000" "0 \<le> d2" "d2 \<le> 60000" "good s2"
        "view s2 = (with_ring (view s) (ring_of opts))\<lparr>gw_now := gw_now (view s) + d1 + d2\<rparr>"
      using r1 unfolding reached_def by auto
    then have "reached (with_ring (view s) (ring_of opts)) 0 120000 s2" by (intro reachedI [of _ _ "d1 + d2"]) simp_all
    ultimately show thesis by (rule that)
  qed
qed

definition new_key :: "string \<Rightarrow> string \<Rightarrow> gcp_key" where
  "new_key purpose alg = \<lparr>gk_purpose = purpose, gk_algorithm = alg, gk_versions = []\<rparr>"

lemma ensure_key:
  assumes "good s" and "gw_keys (view s) (key_path L opts k) = None" and "gw_rings (view s) (ring_of opts)"
  obtains ch s' d where "possible_choice ch" "0 \<le> d" "d \<le> 60000"
    "alone send t (ensureCryptoKey L opts (ring_of opts) k alg external purpose) s = (Inr (key_path L opts k), s')"
    "reached (let v = (view s)\<lparr>gw_now := gw_now (view s) + d\<rparr> in
       if external then v\<lparr>gw_keys := (gw_keys v)(key_path L opts k \<mapsto> new_key purpose alg)\<rparr>
       else add_version v (key_path L opts k) (new_key purpose alg) ch) 0 60000 s'"
proof -
  let ?get = "GetCryptoKey (key_path L opts k)" and ?create = "CreateCryptoKey (ring_of opts) k purpose external alg"
  obtain ch s1 where a: "send ?get s = (fst (gcp_effect L ch ?get (view s)), s1)"
      "reached (snd (gcp_effect L ch ?get (view s))) 0 60000 s1"
    by (rule answered [OF assms(1)])
  then have r1: "reached (view s) 0 60000 s1" by simp
  then obtain d where d: "0 \<le> d" "d \<le> 60000" "view s1 = (view s)\<lparr>gw_now := gw_now (view s) + d\<rparr>" by (auto simp: reached_def)
  obtain ch2 s2 where b: "possible_choice ch2" "send ?create s1 = (fst (gcp_effect L ch2 ?create (view s1)), s2)"
      "reached (snd (gcp_effect L ch2 ?create (view s1))) 0 60000 s2"
    by (rule answered [OF reached_good [OF r1], where c = ?create])
  have new: "gw_rings (view s1) (ring_of opts)" "gw_keys (view s1) (key_path L opts k) = None"
    using reached_fields [OF r1] assms(2,3) by simp_all
  show thesis
  proof (rule that [OF b(1) d(1,2), of s2])
    show "alone send t (ensureCryptoKey L opts (ring_of opts) k alg external purpose) s = (Inr (key_path L opts k), s2)"
      using a(1) b(2) assms(2) new
      by (simp add: ensureCryptoKey_def Let_def gcp_missing_def unless_code_def resource_names key_path_def [symmetric])
    show "reached (let v = (view s)\<lparr>gw_now := gw_now (view s) + d\<rparr> in
       if external then v\<lparr>gw_keys := (gw_keys v)(key_path L opts k \<mapsto> new_key purpose alg)\<rparr>
       else add_version v (key_path L opts k) (new_key purpose alg) ch2) 0 60000 s2"
      using b(3) new by (simp add: Let_def resource_names new_key_def flip: d(3) cong: if_cong)
  qed
qed

text \<open>The first import job of a key ring.\<close>

lemma first_import_job:
  assumes "good s" and "gw_jobs (view s) = []" and retries: "importJobMaxRetries opts = Suc rounds"
    and ms: "0 \<le> importJobPollIntervalMs opts" and limit: "job_limit \<le> int rounds * importJobPollIntervalMs opts"
    and most: "most = int (Suc rounds) * (importJobPollIntervalMs opts + 120000)"
    and room: "most + 60000 \<le> 3 * 24 * 60 * 60 * 1000"
  obtains s' j pem now where "alone send t (ensureImportJob L opts (ring_of opts)) s = (Inr (job_answer pem now j), s')"
    "pem \<noteq> []" "job_state now j = ''ACTIVE''" "gj_name j = job_path L opts (baseImportJobId opts)"
    "gw_now (view s) + 3 * 24 * 60 * 60 * 1000 \<le> gj_expires_at j" "gj_active_at j \<le> gw_now (view s')"
    "reached ((view s)\<lparr>gw_jobs := [j]\<rparr>) 0 (most + 180000) s'"
proof -
  define canonical where "canonical = job_path L opts (baseImportJobId opts)"
  let ?ms = "importJobPollIntervalMs opts" and ?create = "CreateImportJob (ring_of opts) (baseImportJobId opts)"
  obtain ch1 s1 where a: "send (GetImportJob canonical) s = (fst (gcp_effect L ch1 (GetImportJob canonical) (view s)), s1)"
      "reached (snd (gcp_effect L ch1 (GetImportJob canonical) (view s))) 0 60000 s1"
    by (rule answered [OF assms(1)])
  then have r1: "reached (view s) 0 60000 s1" by simp
  obtain ch2 s2 where b: "send (ListImportJobs (ring_of opts)) s1 = (fst (gcp_effect L ch2 (ListImportJobs (ring_of opts)) (view s1)), s2)"
      "reached (snd (gcp_effect L ch2 (ListImportJobs (ring_of opts)) (view s1))) 0 60000 s2"
    by (rule answered [OF reached_good [OF r1]])
  then have r2: "reached (view s) 0 120000 s2" using reached_trans [OF r1, of 0 60000 s2] by simp
  have none: "gw_jobs (view s1) = []" "gw_jobs (view s2) = []" using reached_fields [OF r1] reached_fields [OF r2] assms(2) by simp_all
  obtain ch3 s3 where c: "possible_choice ch3"
      "\<forall>parent ident. ?create = CreateImportJob parent ident \<longrightarrow> gc_delay ch3 \<le> job_limit" "send ?create s2 = (fst (gcp_effect L ch3 ?create (view s2)), s3)"
      "reached (snd (gcp_effect L ch3 ?create (view s2))) 0 60000 s3"
    by (rule answered [OF reached_good [OF r2], where c = ?create])
  have delay: "gc_delay ch3 \<le> job_limit" using c(2) by blast
  define j where "j = \<lparr>gj_name = canonical, gj_active_at = gw_now (view s2) + gc_delay ch3,
      gj_expires_at = gw_now (view s2) + 3 * 24 * 60 * 60 * 1000\<rparr>"
  have name: "ring_of opts @ ''/importJobs/'' @ baseImportJobId opts = canonical" unfolding canonical_def by (rule job_name)
  have c': "send ?create s2 = (Inr plain_answer, s3)" "reached ((view s2)\<lparr>gw_jobs := [j]\<rparr>) 0 60000 s3"
    using c(3,4) none(2) name by (simp_all add: find_job_def Let_def j_def)
  have job: "find_job (view s3) canonical = Some j" using reached_fields [OF c'(2)] by (simp add: find_job_def j_def)
  have now3: "gw_now (view s2) \<le> gw_now (view s3)" "gw_now (view s3) \<le> gw_now (view s2) + 60000" using reached_now [OF c'(2)] by simp_all
  have "\<exists>s' pem now. alone send t (waitForImportJob ?ms canonical (Suc rounds)) s3 = (Inr (Some (job_answer pem now j)), s') \<and>
      pem \<noteq> [] \<and> job_state now j = ''ACTIVE'' \<and> now \<le> gw_now (view s') \<and> reached (view s3) 0 (int (Suc rounds) * (?ms + 120000)) s'"
    using delay limit now3 room most by (intro wait_active reached_good [OF c'(2)] job ms) (simp_all add: j_def)
  then obtain s4 pem now where w: "alone send t (waitForImportJob ?ms canonical (Suc rounds)) s3 = (Inr (Some (job_answer pem now j)), s4)"
      "pem \<noteq> []" "job_state now j = ''ACTIVE''" "now \<le> gw_now (view s4)" "reached (view s3) 0 most s4"
    unfolding most by blast
  have load: "alone send t (loadImportJob opts canonical) s = (Inr None, s1)"
    using a(1) assms(2) by (simp add: loadImportJob_def find_job_def gcp_missing_def unless_code_def)
  have waiting: "alone send t (wait_for_job opts canonical) s3 = (Inr (Some (job_answer pem now j)), s4)"
    unfolding wait_for_job_def retries by (rule w(1))
  have create: "alone send t (createImportJob L opts (ring_of opts) (baseImportJobId opts)) s2 = (Inr (job_answer pem now j), s4)"
    using c'(1) waiting by (simp add: createImportJob_def alone_bindP bindM_def flip: canonical_def)
  have list: "alone send t (request (ListImportJobs (ring_of opts))) s1 = (Inr plain_answer, s2)"
    using b(1) none(1) by (simp add: request_def plain_answer_def)
  have "alone send t (ensureImportJob L opts (ring_of opts)) s = (Inr (job_answer pem now j), s4)"
    unfolding ensureImportJob_def Let_def canonical_def [symmetric]
    using load list create by (simp add: alone_bindP bindM_def alone_catchP catchM_def plain_answer_def matching_jobs_def js_sort_def)
  moreover have "reached ((view s)\<lparr>gw_jobs := [j]\<rparr>) 0 (most + 180000) s4"
  proof -
    obtain d where d: "0 \<le> d" "d \<le> 120000" "view s2 = (view s)\<lparr>gw_now := gw_now (view s) + d\<rparr>" using r2 by (auto simp: reached_def)
    obtain e where e: "0 \<le> e" "e \<le> most + 60000" "good s4" "view s4 = (view s2)\<lparr>gw_jobs := [j], gw_now := gw_now (view s2) + e\<rparr>"
      using reached_trans [OF c'(2) w(5)] by (auto simp: reached_def add.commute)
    then show ?thesis using d by (intro reachedI [of _ _ "d + e"]) simp_all
  qed
  moreover have "gj_active_at j \<le> gw_now (view s4)" using w(3,4) by (auto simp: job_state_def split: if_splits)
  ultimately show thesis
    using w(2,3) reached_now [OF r2] by (intro that) (simp_all add: j_def canonical_def)
qed

text \<open>A key with one enabled version.\<close>

lemma one_version_usable:
  assumes "gw_keys v (key_path L opts k) = Some key" and "gk_versions key = [n]" and "n \<noteq> []"
    and "gw_versions v n = Some w" and "gv_pem w \<noteq> []" and "kmsAlgorithmToJoseAlgorithm (Some (gv_algorithm w)) = Some alg"
    and "issuerKeyId L who alg = Inr k" and "digestFieldName alg \<noteq> None"
  shows "usable_key send view good X L opts who alg v"
  unfolding usable_key_def
proof (rule exI [of _ "gv_pem w"], rule exI [of _ "gv_enabled_at w"], intro allI impI, elim conjE, rule conjI)
  fix s t assume s: "good s" "gw_keys (view s) = gw_keys v" "gw_versions (view s) = gw_versions v" "gv_enabled_at w \<le> gw_now (view s)"
  obtain field where field: "digestFieldName alg = Some field" using assms(8) by auto
  let ?list = "ListCryptoKeyVersions (key_path L opts k)"
  have enabled: "enabled_at (view s') n" if "gw_versions (view s') = gw_versions v" "gw_now (view s) \<le> gw_now (view s')" for s'
    using that assms(4) s(4) by (simp add: enabled_at_def)
  obtain ch s1 where a: "send ?list s = (fst (gcp_effect L ch ?list (view s)), s1)" "reached (snd (gcp_effect L ch ?list (view s))) 0 60000 s1"
    by (rule answered [OF s(1)])
  then have r1: "reached (view s) 0 60000 s1" by simp
  have listed: "send ?list s = (Inr (plain_answer\<lparr>ga_versions := [Some n]\<rparr>), s1)"
    using a(1) s(2,3) assms(1,2) enabled by simp
  have latest: "latestEnabledVersion L [Some n] = Some n" using assms(3) by (simp add: latestEnabledVersion_def later_version_def)
  have v1: "gw_versions (view s1) = gw_versions v" "gw_now (view s) \<le> gw_now (view s1)"
    using reached_fields [OF r1] reached_now [OF r1] s(3) by simp_all
  show "fst (alone send t (gcp_issuer_fetch X L opts who alg) s) = map_sum id Some (importSPKI X (gv_pem w) alg)"
  proof -
    obtain ch2 s2 where b: "send (GetVersionKey n) s1 = (fst (gcp_effect L ch2 (GetVersionKey n) (view s1)), s2)"
      by (rule answered [OF reached_good [OF r1]])
    then show ?thesis
      using listed latest assms v1 enabled [OF v1]
      by (simp add: gcp_issuer_fetch_def enabled_version_def imported_key_def checked_pem_def alone_bindP bindM_def split: sum.split)
  qed
  show "\<forall>payload header. oget header ''alg'' = Some (JStr alg) \<longrightarrow>
      (\<exists>signature. fst (alone send t (gcp_issuer_sign X L opts who alg payload header) s) = jws_signature L alg signature)"
  proof (intro allI impI)
    fix payload header assume h: "oget header ''alg'' = Some (JStr alg)"
    define d where "d = digest (kms_lib.truncate L) field (encode_json X (JObj header) @ ''.'' @ encode_json X (JObj payload))"
    let ?sign = "AsymmetricSign n field d (crc32c L d)"
    obtain ch2 s2 where b: "send ?sign s1 = (fst (gcp_effect L ch2 ?sign (view s1)), s2)"
      by (rule answered [OF reached_good [OF r1]])
    have "alone send t (gcp_issuer_sign X L opts who alg payload header) s = (jws_signature L alg (gc_signature ch2), s2)"
      using listed latest assms v1 enabled [OF v1] b h field
      by (simp add: gcp_issuer_sign_def enabled_version_def sign_with_version_def checked_signature_def alone_catchP catchM_def
          alone_bindP bindM_def jws_signature_def Let_def d_def split: sum.split)
    then show "\<exists>signature. fst (alone send t (gcp_issuer_sign X L opts who alg payload header) s) = jws_signature L alg signature"
      by (intro exI [of _ "gc_signature ch2"]) simp
  qed
qed

text \<open>The first version of a key.\<close>

lemma first_version_usable:
  assumes "reached (add_version v (key_path L opts k) (key\<lparr>gk_versions := []\<rparr>) ch) lo hi s"
    and "gk_algorithm key = a" and "joseAlgorithmToKmsAlgorithm alg = Some a" and "digestFieldName alg \<noteq> None"
    and "k = md5_url L who @ ''-'' @ alg" and "possible_choice ch"
  shows "usable_key send view good X L opts who alg (view s)"
proof -
  let ?n = "key_path L opts k @ ''/cryptoKeyVersions/'' @ decimal (Suc 0)"
  have f: "gw_keys (view s) (key_path L opts k) = Some (key\<lparr>gk_versions := [?n]\<rparr>)"
    "gw_versions (view s) ?n = Some \<lparr>gv_pem = gc_pem ch, gv_algorithm = a, gv_enabled_at = gw_now v + gc_delay ch\<rparr>"
    using reached_fields [OF assms(1)] assms(2) by (simp_all add: add_version_def Let_def)
  show ?thesis
    by (rule one_version_usable [OF f(1) _ _ f(2)])
      (use assms(3-6) supported_key_id [OF assms(3), of L who] algorithm_back [OF assms(3)] in \<open>simp_all add: possible_choice_def\<close>)
qed

text \<open>A generated key.\<close>

lemma generated_usable:
  assumes "good s" and "joseAlgorithmToKmsAlgorithm alg = Some a" and "digestFieldName alg \<noteq> None"
    and "gw_keys (view s) (key_path L opts (md5_url L who @ ''-'' @ alg)) = None"
  shows "\<exists>s'. alone send t (gcp_issuer_save L opts who alg None) s = (Inr (), s') \<and> good s' \<and>
    usable_key send view good X L opts who alg (view s')"
proof -
  define k where "k = md5_url L who @ ''-'' @ alg"
  obtain s1 where r: "alone send t (ensureKeyRing L opts) s = (Inr (ring_of opts), s1)"
      "reached (with_ring (view s) (ring_of opts)) 0 120000 s1"
    by (rule ensure_ring [OF assms(1)])
  have v1: "gw_rings (view s1) (ring_of opts)" "gw_keys (view s1) (key_path L opts k) = None"
    using reached_fields [OF r(2)] assms(4) by (simp_all add: k_def)
  obtain ch s2 d where c: "possible_choice ch" "0 \<le> d" "d \<le> 60000"
      "alone send t (ensureCryptoKey L opts (ring_of opts) k a False ''ASYMMETRIC_SIGN'') s1 = (Inr (key_path L opts k), s2)"
      "reached (let v = (view s1)\<lparr>gw_now := gw_now (view s1) + d\<rparr> in
         if False then v\<lparr>gw_keys := (gw_keys v)(key_path L opts k \<mapsto> new_key ''ASYMMETRIC_SIGN'' a)\<rparr>
         else add_version v (key_path L opts k) (new_key ''ASYMMETRIC_SIGN'' a) ch) 0 60000 s2"
    by (rule ensure_key [OF reached_good [OF r(2)] v1(2,1)])
  have "alone send t (gcp_issuer_save L opts who alg None) s = (Inr (), s2)"
    using assms(2) r(1) c(4) supported_key_id [OF assms(2), of L who]
    by (simp add: gcp_issuer_save_def pair_mismatch_def create_pair_def alone_bindP bindM_def k_def)
  moreover have "usable_key send view good X L opts who alg (view s2)"
    by (rule first_version_usable [where key = "new_key ''ASYMMETRIC_SIGN'' a" and a = a and ch = ch and k = k])
      (use c(1,5) assms(2,3) in \<open>simp_all add: Let_def new_key_def k_def\<close>)
  ultimately show ?thesis using reached_good [OF c(5)] by blast
qed

text \<open>An imported key.\<close>

lemma imported_usable:
  assumes "good s" and alg: "joseAlgorithmToKmsAlgorithm alg = Some a" "digestFieldName alg \<noteq> None" "\<not> is_rsa alg"
    and key: "gw_keys (view s) (key_path L opts (md5_url L who @ ''-'' @ alg)) = None" and jobs: "gw_jobs (view s) = []"
    and opts: "importJobMaxRetries opts = 60" "importJobPollIntervalMs opts = 3000" and limit: "job_limit \<le> 177000"
    and p: "declaredAlg p = alg" "pkcs8_der (kms_lib.truncate L) (privateKey p) = Inr der"
      "\<And>pem. pem \<noteq> [] \<Longrightarrow> \<exists>w. wrap_for_import (kms_lib.truncate L) der pem = Inr w"
  shows "\<exists>s'. alone send t (gcp_issuer_save L opts who alg (Some p)) s = (Inr (), s') \<and> good s' \<and>
    usable_key send view good X L opts who alg (view s')"
proof -
  define k where "k = md5_url L who @ ''-'' @ alg"
  obtain s1 where r: "alone send t (ensureKeyRing L opts) s = (Inr (ring_of opts), s1)"
      "reached (with_ring (view s) (ring_of opts)) 0 120000 s1"
    by (rule ensure_ring [OF assms(1)])
  have v1: "gw_rings (view s1) (ring_of opts)" "gw_keys (view s1) (key_path L opts k) = None" "gw_jobs (view s1) = []"
    using reached_fields [OF r(2)] key jobs by (simp_all add: k_def)
  obtain s2 j pem now where j: "alone send t (ensureImportJob L opts (ring_of opts)) s1 = (Inr (job_answer pem now j), s2)"
      "pem \<noteq> []" "job_state now j = ''ACTIVE''" "gj_name j = job_path L opts (baseImportJobId opts)"
      "gw_now (view s1) + 3 * 24 * 60 * 60 * 1000 \<le> gj_expires_at j" "gj_active_at j \<le> gw_now (view s2)"
      "reached ((view s1)\<lparr>gw_jobs := [j]\<rparr>) 0 (7380000 + 180000) s2"
    by (rule first_import_job [OF reached_good [OF r(2)] v1(3), of opts 59 7380000]) (use opts limit in simp_all)
  obtain wrapped where w: "wrap_for_import (kms_lib.truncate L) der pem = Inr wrapped" using p(3) j(2) by blast
  have v2: "gw_rings (view s2) (ring_of opts)" "gw_keys (view s2) (key_path L opts k) = None" "gw_jobs (view s2) = [j]"
    using reached_fields [OF j(7)] v1 by simp_all
  obtain ch s3 d where c: "0 \<le> d" "d \<le> 60000"
      "alone send t (ensureCryptoKey L opts (ring_of opts) k a True ''ASYMMETRIC_SIGN'') s2 = (Inr (key_path L opts k), s3)"
      "reached (let v = (view s2)\<lparr>gw_now := gw_now (view s2) + d\<rparr> in
         if True then v\<lparr>gw_keys := (gw_keys v)(key_path L opts k \<mapsto> new_key ''ASYMMETRIC_SIGN'' a)\<rparr>
         else add_version v (key_path L opts k) (new_key ''ASYMMETRIC_SIGN'' a) ch) 0 60000 s3"
    by (rule ensure_key [OF reached_good [OF j(7)] v2(2,1)])
  have v3: "gw_keys (view s3) (key_path L opts k) = Some (new_key ''ASYMMETRIC_SIGN'' a)" "find_job (view s3) (gj_name j) = Some j"
      "gw_now (view s2) \<le> gw_now (view s3)" "gw_now (view s3) \<le> gw_now (view s2) + 120000"
    using reached_fields [OF c(4)] reached_now [OF c(4)] c(1,2) v2(3) by (simp_all add: Let_def find_job_def)
  have active: "job_state (gw_now (view s3)) j = ''ACTIVE''"
    using j(5,6) v3(3,4) reached_now [OF j(7)] by (simp add: job_state_def)
  let ?import = "ImportCryptoKeyVersion (key_path L opts k) a (gj_name j) wrapped"
  obtain ch2 s4 where i: "possible_choice ch2" "send ?import s3 = (fst (gcp_effect L ch2 ?import (view s3)), s4)"
      "reached (snd (gcp_effect L ch2 ?import (view s3))) 0 60000 s4"
    by (rule answered [OF reached_good [OF c(4)]])
  have "job_path L opts (baseImportJobId opts) \<noteq> []" using names by (simp add: job_path_def documented_names_def)
  then have "alone send t (gcp_issuer_save L opts who alg (Some p)) s = (Inr (), s4)"
    using alg r(1) c(3) supported_key_id [OF alg(1), of L who] j(1-4) p w i(2) v3 active
    by (simp add: gcp_issuer_save_def pair_mismatch_def import_pair_def usable_import_job_def job_answer_def alone_bindP bindM_def k_def)
  moreover have "usable_key send view good X L opts who alg (view s4)"
    by (rule first_version_usable [where key = "new_key ''ASYMMETRIC_SIGN'' a" and a = a and ch = ch2 and k = k])
      (use i(1,3) alg v3 active in \<open>simp_all add: new_key_def k_def\<close>)
  ultimately show ?thesis using reached_good [OF i(3)] by blast
qed

end

end
