(* ===== verification/Gcp_Properties.thy ===== *)
theory Gcp_Properties
  imports Gcp_Service
begin

text \<open>
  The properties of the key stores on Google Cloud KMS, with a service on which they are run.
\<close>

subsection \<open>A service with fixed choices\<close>

definition sample_gcp_lib :: gcp_lib where
  "sample_gcp_lib = \<lparr>md5_hex = (\<lambda>s. s), pkcs8_der = (\<lambda>k. Inr ''der''), wrap_for_import = (\<lambda>d k. Inr ''wrapped''),
     spki_pem = (\<lambda>d. Inr d), digest = (\<lambda>a s. s), der_to_jose = (\<lambda>s a. Inr s), base64url = (\<lambda>s. s),
     md5_url = (\<lambda>s. s), sha256_url = (\<lambda>s. s), crc32c = (\<lambda>s. int (length s)), localeCompare = (\<lambda>a b. 0),
     locationPath = (\<lambda>p l. ''projects/'' @ p @ ''/locations/'' @ l),
     keyRingPath = (\<lambda>p l r. ''projects/'' @ p @ ''/locations/'' @ l @ ''/keyRings/'' @ r),
     importJobPath = (\<lambda>p l r j. ''projects/'' @ p @ ''/locations/'' @ l @ ''/keyRings/'' @ r @ ''/importJobs/'' @ j),
     cryptoKeyPath = (\<lambda>p l r k. ''projects/'' @ p @ ''/locations/'' @ l @ ''/keyRings/'' @ r @ ''/cryptoKeys/'' @ k)\<rparr>"

definition sample_choice :: gcp_choice where
  "sample_choice = \<lparr>gc_pem = ''pem'', gc_signature = ''signature'', gc_elapsed = 100, gc_delay = 10000\<rparr>"

definition sample_gcp_send :: "(gcp_command, gcp_answer, gcp_view) service" where
  "sample_gcp_send = gcp_documented sample_gcp_lib sample_choice"

interpretation sample_gcp: gcp_available sample_gcp_send id "\<lambda>v. True" sample_gcp_lib 10000
proof
  show "documented_names sample_gcp_lib" by (simp add: documented_names_def sample_gcp_lib_def)
  fix s c r s'
  assume "sample_gcp_send c s = (r, s')"
  then show "True \<and> (\<exists>ch. possible_choice ch \<and> (\<forall>parent ident. c = CreateImportJob parent ident \<longrightarrow> gc_delay ch \<le> 10000) \<and>
      (r, id s') = gcp_documented sample_gcp_lib ch c (id s))"
    by (intro conjI TrueI exI [of _ sample_choice]) (simp_all add: sample_gcp_send_def sample_choice_def possible_choice_def)
qed

definition sample_settings :: gcp_settings where
  "sample_settings = \<lparr>opt_projectId = Some ''p'', env_GOOGLE_CLOUD_PROJECT_ID = None, opt_locationId = None, env_GOOGLE_CLOUD_LOCATION = None\<rparr>"

definition sample_gcp_options :: gcp_options where
  "sample_gcp_options = \<lparr>projectId = ''p'', locationId = ''global'', keyRingId = ''issuers'', baseImportJobId = ''vcknots-issuer-import-job'',
     importJobPollIntervalMs = 3000, importJobMaxRetries = 60\<rparr>"

lemma sample_gcp_options: "gcp_issuer_options sample_settings = Inr sample_gcp_options"
  by (simp add: gcp_issuer_options_def gcp_store_options_def sample_settings_def sample_gcp_options_def)

definition nothing_stored :: gcp_view where
  "nothing_stored = \<lparr>gw_rings = (\<lambda>n. False), gw_jobs = [], gw_keys = Map.empty, gw_versions = Map.empty, gw_now = 0\<rparr>"

lemma gcp_options_limits:
  "gcp_issuer_options st = Inr opts \<Longrightarrow> importJobMaxRetries opts = 60 \<and> importJobPollIntervalMs opts = 3000"
  "gcp_authz_options st = Inr opts \<Longrightarrow> importJobMaxRetries opts = 60 \<and> importJobPollIntervalMs opts = 3000"
  "gcp_verifier_options st = Inr opts \<Longrightarrow> importJobMaxRetries opts = 60 \<and> importJobPollIntervalMs opts = 3000"
  by (auto simp: gcp_issuer_options_def gcp_authz_options_def gcp_verifier_options_def gcp_store_options_def Let_def split: if_splits)

subsection \<open>The properties\<close>

text \<open>A key generated by \<open>save\<close> of the issuer's store on Google Cloud KMS works: when no key of that
  name exists, \<open>save\<close> succeeds, and from the time on at which KMS has enabled the new version,
  \<open>fetch\<close> gives its public key and \<open>sign\<close> gives the signature of KMS for the payload, in JOSE
  form.\<close>

theorem gcp_generated_key_usable:
  assumes "gcp_available send view good L limit" and "good s"
    and "joseAlgorithmToKmsAlgorithm alg = Some a" and "digestFieldName alg \<noteq> None"
    and "gw_keys (view s) (key_path L opts (md5_url L issuer @ ''-'' @ alg)) = None"
  shows "\<exists>s'. alone send t (gcp_issuer_save L opts issuer alg None) s = (Inr (), s') \<and> good s' \<and>
    usable_key send view good X L opts issuer alg (view s')"
  by (rule gcp_available.generated_usable [OF assms])

theorem gcp_generated_key_usable_witness:
  "\<exists>s'. alone sample_gcp_send 0 (gcp_issuer_save sample_gcp_lib sample_gcp_options ''i'' ''ES256'' None) nothing_stored = (Inr (), s') \<and>
    usable_key sample_gcp_send id (\<lambda>v. True) ext0 sample_gcp_lib sample_gcp_options ''i'' ''ES256'' s'"
  using gcp_generated_key_usable [OF sample_gcp.gcp_available_axioms, where s = nothing_stored and alg = "''ES256''" and a = "''EC_SIGN_P256_SHA256''"
      and opts = sample_gcp_options and issuer = "''i''" and t = 0 and X = ext0]
  by (simp add: joseAlgorithmToKmsAlgorithm_def digestFieldName_def nothing_stored_def)




definition sample_pair :: SignatureKeyEntry where
  "sample_pair = \<lparr>format = PemFormat, declaredAlg = ''ES256'', key_kid = None, publicKey = None, privateKey = Pem ''key''\<rparr>"


subsection \<open>Signatures\<close>

lemma num_not_lt_trans: "y \<noteq> NaN \<Longrightarrow> \<not> num_lt x y \<Longrightarrow> \<not> num_lt y z \<Longrightarrow> \<not> num_lt x z"
  by (cases x; cases y; cases z) auto

lemma num_lt_asym: "num_lt x y \<Longrightarrow> \<not> num_lt y x"
  by (cases x; cases y) auto

lemma later_version_newest:
  assumes "\<forall>m \<in> set (latest # vs). opt_str m \<longrightarrow> version_number (the m) \<noteq> NaN"
  shows "\<forall>m \<in> set (latest # vs). opt_str m \<longrightarrow> opt_str (foldl (later_version L) latest vs) \<and>
    \<not> num_lt (version_number (the (foldl (later_version L) latest vs))) (version_number (the m))"
  using assms
proof (induction vs arbitrary: latest)
  case (Cons v vs)
  let ?next = "later_version L latest v"
  have ne: "?next \<in> {latest, v}" by (auto simp: later_version_def Let_def)
  then have "\<forall>m \<in> set (?next # vs). opt_str m \<longrightarrow> version_number (the m) \<noteq> NaN" using Cons.prems by auto
  note IH = Cons.IH [OF this]
  have "opt_str m \<longrightarrow> opt_str ?next \<and> \<not> num_lt (version_number (the ?next)) (version_number (the m))" if "m \<in> {latest, v}" for m
    
  proof (cases "opt_str latest \<and> opt_str v")
    case True
    then have n: "version_number (the latest) \<noteq> NaN" "version_number (the v) \<noteq> NaN" using Cons.prems by simp_all
    show ?thesis
    proof (cases "num_lt (version_number (the latest)) (version_number (the v))")
      case lt: True
      then have "?next = v" using True n by (simp add: later_version_def Let_def)
      then show ?thesis using that True num_lt_asym [OF lt] by auto
    next
      case ge: False
      then have "?next = latest" using True n by (simp add: later_version_def Let_def)
      then show ?thesis using that True ge by auto
    qed
  next
    case False
    then show ?thesis using that by (auto simp: later_version_def)
  qed
  note step = this
  show ?case
  proof (intro ballI impI)
    fix m assume m: "m \<in> set (latest # v # vs)" "opt_str m"
    let ?newest = "foldl (later_version L) latest (v # vs)"
    show "opt_str ?newest \<and> \<not> num_lt (version_number (the ?newest)) (version_number (the m))"
    proof (cases "m \<in> set vs")
      case True
      then show ?thesis using IH m(2) by simp
    next
      case False
      then have n: "opt_str ?next" "\<not> num_lt (version_number (the ?next)) (version_number (the m))" using step [of m] m by auto
      then have e: "opt_str ?newest \<and> \<not> num_lt (version_number (the ?newest)) (version_number (the ?next))" using IH by simp
      have "version_number (the ?next) \<noteq> NaN" using ne n(1) Cons.prems by auto
      then show ?thesis using e n(2) num_not_lt_trans by blast
    qed
  qed
qed simp

lemma latest_newest:
  assumes "latestEnabledVersion L vs = Some n" and "\<forall>m. Some m \<in> set vs \<and> m \<noteq> [] \<longrightarrow> version_number m \<noteq> NaN"
    and "Some m \<in> set vs" and "m \<noteq> []"
  shows "\<not> num_lt (version_number n) (version_number m)"
proof -
  have "\<forall>m \<in> set (None # vs). opt_str m \<longrightarrow> version_number (the m) \<noteq> NaN" using assms(2) by (auto simp: opt_str_def)
  from later_version_newest [OF this, of L] assms show ?thesis by (auto simp: latestEnabledVersion_def)
qed

lemma latest_listed:
  assumes "latestEnabledVersion L vs = Some n"
  shows "Some n \<in> set vs"
proof -
  have "foldl (later_version L) v vs \<in> insert v (set vs)" for v
    by (induction vs arbitrary: v) (fastforce simp: later_version_def Let_def split: if_splits)+
  then show ?thesis using assms unfolding latestEnabledVersion_def by (metis insertE option.distinct(1))
qed

lemma sign_with_version_conversation:
  assumes "conversation (sign_with_version X L nf alg payload header n) tr (Inr jws)"
  shows "\<exists>field d answer signature crc. tr = [(AsymmetricSign n field d (crc32c L d), Inr answer)] \<and>
    digestFieldName alg = Some field \<and>
    d = digest (kms_lib.truncate L) field (encode_json X (JObj header) @ ''.'' @ encode_json X (JObj payload)) \<and>
    sg_name (ga_signed answer) = Some n \<and> sg_verifiedDigestCrc32c (ga_signed answer) \<and>
    sg_signature (ga_signed answer) = Some signature \<and> sg_crc (ga_signed answer) = Some crc \<and>
    num_eq (num_int (crc32c L signature)) crc \<and> jws_signature L alg signature = Inr jws"
proof -
  obtain field where field: "digestFieldName alg = Some field"
    using assms by (auto simp: sign_with_version_def split: option.splits)
  define d where "d = digest (kms_lib.truncate L) field (encode_json X (JObj header) @ ''.'' @ encode_json X (JObj payload))"
  obtain r tr' where r: "tr = (AsymmetricSign n field d (crc32c L d), r) # tr'"
      "case r of Inl e \<Rightarrow> conversation (unless_code KMS_NOT_FOUND (raiseP nf ''private key not found.'') e :: string gcp_program) tr' (Inr jws)
        | Inr a \<Rightarrow> conversation (liftP (checked_signature L alg n (ga_signed a)) :: string gcp_program) tr' (Inr jws)"
    using assms unfolding sign_with_version_def field option.case Let_def d_def [symmetric] conversation_request_catch by blast
  obtain answer where a: "r = Inr answer" "tr' = []" "checked_signature L alg n (ga_signed answer) = Inr jws"
    using r(2) by (cases r) (auto simp: unless_code_def split: if_splits)
  have "\<exists>signature crc. sg_name (ga_signed answer) = Some n \<and> sg_verifiedDigestCrc32c (ga_signed answer) \<and>
    sg_signature (ga_signed answer) = Some signature \<and> sg_crc (ga_signed answer) = Some crc \<and>
    num_eq (num_int (crc32c L signature)) crc \<and> jws_signature L alg signature = Inr jws"
    using a(3) by (auto simp: checked_signature_def jws_signature_def split: option.splits if_splits)
  then show ?thesis using r(1) a(1,2) field d_def by blast
qed

lemma enabled_version_conversation:
  assumes "conversation (enabled_version L name unknown none f) tr u" and "\<And>tr. \<not> conversation unknown tr u" and "\<And>tr. \<not> conversation none tr u"
    and "\<And>e. u \<noteq> Inl e"
  shows "\<exists>listed n tr'. tr = (ListCryptoKeyVersions name, Inr listed) # tr' \<and> latestEnabledVersion L (ga_versions listed) = Some n \<and>
    conversation (f n) tr' u"
proof -
  obtain r tr' where r: "tr = (ListCryptoKeyVersions name, r) # tr'"
      "case r of Inl e \<Rightarrow> conversation (unless_code KMS_NOT_FOUND unknown e) tr' u
        | Inr a \<Rightarrow> conversation (case latestEnabledVersion L (ga_versions a) of None \<Rightarrow> none | Some n \<Rightarrow> f n) tr' u"
    using assms(1) unfolding enabled_version_def conversation_request_catch by blast
  then show ?thesis using assms(2-4) by (cases r) (auto simp: unless_code_def split: if_splits option.splits)
qed

text \<open>C23. A signature that one of the three stores returns is KMS's own: it made exactly two requests; the
  first listed the enabled versions of the key, and the version used is one of them that has the
  highest number; the second had this version sign the digest of the given header and payload with
  the algorithm of the header, and its answer named that version, confirmed the checksum of
  the digest and carried a signature with the right checksum, which is what is returned.\<close>

theorem gcp_signature_sound:
  assumes "conversation (gcp_issuer_sign X L opts who alg payload header) tr (Inr jws) \<or>
      conversation (gcp_authz_sign X L opts who alg payload header) tr (Inr (Some jws)) \<or>
      conversation (gcp_verifier_sign X L opts who alg payload header) tr (Inr (Some jws))"
  shows "\<exists>listed n field d answer signature crc.
    tr = [(ListCryptoKeyVersions (key_path L opts (md5_url L who @ ''-'' @ alg)), Inr listed),
          (AsymmetricSign n field d (crc32c L d), Inr answer)] \<and>
    Some n \<in> set (ga_versions listed) \<and>
    ((\<forall>m. Some m \<in> set (ga_versions listed) \<and> m \<noteq> [] \<longrightarrow> version_number m \<noteq> NaN) \<longrightarrow>
     (\<forall>m. Some m \<in> set (ga_versions listed) \<and> m \<noteq> [] \<longrightarrow> \<not> num_lt (version_number n) (version_number m))) \<and>
    digestFieldName alg = Some field \<and> oget header ''alg'' = Some (JStr alg) \<and>
    d = digest (kms_lib.truncate L) field (encode_json X (JObj header) @ ''.'' @ encode_json X (JObj payload)) \<and>
    sg_name (ga_signed answer) = Some n \<and> sg_verifiedDigestCrc32c (ga_signed answer) \<and>
    sg_signature (ga_signed answer) = Some signature \<and> sg_crc (ga_signed answer) = Some crc \<and>
    num_eq (num_int (crc32c L signature)) crc \<and> jws_signature L alg signature = Inr jws"
proof -
  have signing: "alg \<noteq> []" if "conversation (sign_with_version X L nf alg payload header n) tr' (Inr jws)" for nf n tr'
    using sign_with_version_conversation [OF that] by (auto simp: digestFieldName_def)
  have "\<exists>listed n tr' nf. tr = (ListCryptoKeyVersions (key_path L opts (md5_url L who @ ''-'' @ alg)), Inr listed) # tr' \<and>
      latestEnabledVersion L (ga_versions listed) = Some n \<and> oget header ''alg'' = Some (JStr alg) \<and>
      conversation (sign_with_version X L nf alg payload header n) tr' (Inr jws)"
    using assms
  proof (elim disjE)
    assume "conversation (gcp_issuer_sign X L opts who alg payload header) tr (Inr jws)"
    then have "js_trim alg \<noteq> []" "conversation (enabled_version L (key_path L opts (md5_url L who @ ''-'' @ alg))
        (raiseP ''authz_issuer_key_not_found'' ''Issuer private key not found.'')
        (raiseP ''authz_issuer_key_not_found'' ''Issuer private key not found.'')
        (\<lambda>n. if oget header ''alg'' \<noteq> Some (JStr alg) then raiseP ''illegal_argument'' ''JWT header algorithm mismatch''
          else sign_with_version X L ''authz_issuer_key_not_found'' alg payload header n)) tr (Inr jws)"
      by (auto simp: gcp_issuer_sign_def conversation_catchP conversation_bindP issuerKeyId_def split: if_splits)
    from enabled_version_conversation [OF this(2)] show ?thesis by (force split: if_splits)
  next
    assume "conversation (gcp_authz_sign X L opts who alg payload header) tr (Inr (Some jws))"
    then have "conversation (enabled_version L (key_path L opts (authzKeyId L who alg)) (retP None)
        (raiseP ''authz_issuer_key_not_found'' ''Authorization server private key not found.'')
        (\<lambda>n. if oget header ''alg'' \<noteq> Some (JStr alg) then
            raiseP ''authz_issuer_key_not_found'' ''Authorization server private key algorithm mismatch''
          else bindP (sign_with_version X L ''authz_issuer_key_not_found'' alg payload header n) (\<lambda>s. retP (Some s)))) tr (Inr (Some jws))"
      by (simp add: gcp_authz_sign_def conversation_catchP)
    from enabled_version_conversation [OF this] show ?thesis using signing
      by (force simp: conversation_bindP authzKeyId_def split: if_splits)
  next
    assume "conversation (gcp_verifier_sign X L opts who alg payload header) tr (Inr (Some jws))"
    then have "conversation (enabled_version L (key_path L opts (verifierKeyId L who alg)) (retP None)
        (raiseP ''authz_verifier_key_not_found'' ''Verifier private key not found.'')
        (\<lambda>n. if oget header ''alg'' \<noteq> Some (JStr alg) then
            raiseP ''authz_verifier_key_not_found'' ''Verifier private key algorithm mismatch''
          else bindP (sign_with_version X L ''authz_verifier_key_not_found'' alg payload header n) (\<lambda>s. retP (Some s)))) tr (Inr (Some jws))"
      by (simp add: gcp_verifier_sign_def conversation_catchP)
    from enabled_version_conversation [OF this] show ?thesis using signing
      by (force simp: conversation_bindP verifierKeyId_def split: if_splits)
  qed
  then obtain listed n tr' nf where r: "tr = (ListCryptoKeyVersions (key_path L opts (md5_url L who @ ''-'' @ alg)), Inr listed) # tr'"
      "latestEnabledVersion L (ga_versions listed) = Some n" "oget header ''alg'' = Some (JStr alg)"
      "conversation (sign_with_version X L nf alg payload header n) tr' (Inr jws)"
    by blast
  have "Some n \<in> set (ga_versions listed)" by (rule latest_listed [OF r(2)])
  moreover have "(\<forall>m. Some m \<in> set (ga_versions listed) \<and> m \<noteq> [] \<longrightarrow> version_number m \<noteq> NaN) \<longrightarrow>
     (\<forall>m. Some m \<in> set (ga_versions listed) \<and> m \<noteq> [] \<longrightarrow> \<not> num_lt (version_number n) (version_number m))"
    using latest_newest [OF r(2)] by blast
  ultimately show ?thesis using sign_with_version_conversation [OF r(4)] r(1,3) by blast
qed

definition sample_signing :: "(gcp_command \<times> (exn + gcp_answer)) list" where
  "sample_signing =
     [(ListCryptoKeyVersions ''projects/p/locations/global/keyRings/issuers/cryptoKeys/i-ES256'',
        Inr (plain_answer\<lparr>ga_versions := [Some ''key/1'']\<rparr>)),
      (AsymmetricSign ''key/1'' ''sha256'' ''e30.e30'' 7,
        Inr (plain_answer\<lparr>ga_signed := \<lparr>sg_name = Some ''key/1'', sg_verifiedDigestCrc32c = True, sg_signature = Some ''sig'',
          sg_crc = Some (num_int 3)\<rparr>\<rparr>))]"

theorem gcp_signature_sound_witness:
  "\<exists>n field d answer. (AsymmetricSign n field d (int (length d)), Inr answer) \<in> set sample_signing \<and>
     sg_name (ga_signed answer) = Some n \<and> sg_verifiedDigestCrc32c (ga_signed answer)"
proof -
  have "conversation (gcp_issuer_sign ext0 sample_gcp_lib sample_gcp_options ''i'' ''ES256'' [] [(''alg'', JStr ''ES256'')])
      sample_signing (Inr ''sig'')"
    unfolding gcp_issuer_sign_def sample_signing_def
    by (simp add: catchP_def enabled_version_def request_catch_def sign_with_version_def checked_signature_def liftP_def
        issuerKeyId_def js_trim_def is_ws_def code_def sample_gcp_lib_def sample_gcp_options_def key_path_def digestFieldName_def
        latestEnabledVersion_def later_version_def kms_lib.truncate_def ext0_def js_starts_with_def)
  from gcp_signature_sound [OF disjI1 [OF this]] obtain listed n field d answer where
    "sample_signing = [listed, (AsymmetricSign n field d (crc32c sample_gcp_lib d), Inr answer)]"
    "sg_name (ga_signed answer) = Some n" "sg_verifiedDigestCrc32c (ga_signed answer)"
    by blast
  moreover have "crc32c sample_gcp_lib d = int (length d)" by (simp add: sample_gcp_lib_def)
  ultimately show ?thesis by (metis list.set_intros(1,2))
qed

end
