(* ===== verification/Issuer_Flow.thy ===== *)
theory Issuer_Flow
  imports Issue_Credential Authz_Flow
begin

text \<open>
  The credential issuer (\<open>initializeIssuerFlow\<close> of \<open>issuer.flows.ts\<close>) with the providers
  for transaction codes, pre-authorized codes and offers: metadata, credential offers,
  nonces, and the issuance of a credential. \<open>debug\<close> is the option of the context.
\<close>

subsection \<open>Small functions\<close>

definition is_alpha :: "char \<Rightarrow> bool" where
  "is_alpha c \<longleftrightarrow> 65 \<le> code c \<and> code c \<le> 90 \<or> 97 \<le> code c \<and> code c \<le> 122"

definition scheme_char :: "char \<Rightarrow> bool" where
  "scheme_char c \<longleftrightarrow> is_alpha c \<or> is_digit c \<or> c = CHR ''+'' \<or> c = CHR ''.'' \<or> c = CHR ''-''"

text \<open>The scheme has no colon, so it ends at the first one.\<close>

definition isUri :: "string \<Rightarrow> bool" where
  "isUri value =
     (if value = [] \<or> list_ex is_ws value then False
      else let scheme = takeWhile (\<lambda>c. c \<noteq> CHR '':'') value;
               rest = dropWhile (\<lambda>c. c \<noteq> CHR '':'') value
           in scheme \<noteq> [] \<and> is_alpha (hd scheme) \<and> list_all scheme_char (tl scheme) \<and> 2 \<le> length rest)"

datatype proofsObjects = ProofsObjects string "proof_value list"

definition getProofType :: "Proofs \<Rightarrow> proofsObjects" where
  "getProofType proofs =
     (case proofs of
        JwtProofs js \<Rightarrow> ProofsObjects ''jwt'' (map ProofString js)
      | DiVpProofs vs \<Rightarrow> ProofsObjects ''di_vp'' (map ProofObject vs)
      | AttestationProofs js \<Rightarrow> ProofsObjects ''attestation'' (map ProofString js))"

text \<open>An endpoint that is no URL makes \<open>new URL\<close> throw.\<close>

definition insecure_endpoint :: "ext \<Rightarrow> string option \<Rightarrow> exn + unit" where
  "insecure_endpoint X u =
     (if \<not> opt_str u then Inr ()
      else case url_parse X (getOr [] u) of
             None \<Rightarrow> Inl (JsError ''TypeError'')
           | Some url \<Rightarrow>
               if url_protocol url = ''http:''
               then Inl (err ''insecure_http_not_allowed'' ''CredentialIssuerMetadata contains insecure http url'')
               else Inr ())"

definition rejectInsecureIssuerMetadata ::
  "ext \<Rightarrow> bool \<Rightarrow> CredentialIssuerMetadata option \<Rightarrow> exn + unit" where
  "rejectInsecureIssuerMetadata X debug metadata =
     (case metadata of
        None \<Rightarrow> Inr ()
      | Some m \<Rightarrow>
          if debug then Inr ()
          else (case insecure_endpoint X (Some (credential_endpoint m)) of
                  Inl e \<Rightarrow> Inl e
                | Inr _ \<Rightarrow> insecure_endpoint X (deferred_credential_endpoint m)))"

subsection \<open>Transaction codes\<close>

definition MIN_TX_CODE_LENGTH :: int where "MIN_TX_CODE_LENGTH = 4"

definition MAX_TX_CODE_LENGTH :: int where "MAX_TX_CODE_LENGTH = 9"

definition TEXT_TX_CODE_CHARS :: string where
  "TEXT_TX_CODE_CHARS = ''ABCDEFGHJKLMNPQRSTUVWXYZabcdefghijkmnopqrstuvwxyz23456789''"

text \<open>
  \<open>randomInt(min, max)\<close>: the entropy read as a number picks a value of the range; every
  value of the range is picked by some entropy.
\<close>

definition entropy_nat :: "string \<Rightarrow> nat" where
  "entropy_nat e = foldl (\<lambda>n c. n * 256 + code c) 0 e"

definition randomInt :: "nat \<Rightarrow> nat \<Rightarrow> (world, nat) M" where
  "randomInt lo hi = bindM fresh (\<lambda>e. ret (lo + entropy_nat e mod (hi - lo)))"

definition transactionCode_generate ::
  "tx_mode option \<Rightarrow> int option \<Rightarrow> string option \<Rightarrow> (world, tx_code) M" where
  "transactionCode_generate mode len0 description =
     (let len = getOr 6 len0 in
      if len < MIN_TX_CODE_LENGTH \<or> MAX_TX_CODE_LENGTH < len then
        raise ''invalid_tx_code_options'' ''Length must be between 4 and 9''
      else if 300 < length (getOr [] description) then
        raise ''invalid_tx_code_options'' ''Description must be less than 300 characters''
      else let l = nat len in
        if mode = Some Text then
          bindM (mapM (\<lambda>_. bindM (randomInt 0 (length TEXT_TX_CODE_CHARS)) (\<lambda>i. ret (TEXT_TX_CODE_CHARS ! i))) [0..<l])
            (\<lambda>result. ret (TxStr result))
        else bindM (randomInt (10 ^ (l - 1)) (10 ^ l)) (\<lambda>n. ret (TxNum (Fin (of_nat n)))))"

subsection \<open>Offers\<close>

record TxCodeOptions =
  tc_input_mode :: "tx_mode option"
  tc_length :: "int option"
  tc_description :: "string option"

datatype OfferOptions =
    OfferAuthCode "jsval option" "string option"
  | OfferPreAuth "TxCodeOptions option" "jsnum option" "string option"

record CredentialOfferResponse =
  or_offer :: CredentialOffer
  or_tx_code :: "tx_code option"

definition preAuthorizedCode_generate :: "(world, string) M" where
  "preAuthorizedCode_generate = bindM fresh (\<lambda>uuid. ret (strip_dashes uuid))"

text \<open>
  \<open>credential-offer.provider.ts\<close>, for both grants; the schema of the transaction code wants
  a positive length. \<open>state\<close> is the text \<open>String(options.state)\<close>.
\<close>

datatype CreateOfferOptions =
    CreatePreAuth string "TxCodeOptions option" "string option"
  | CreateAuthCode string "string option"

definition TxCode_parse :: "TxCodeOptions \<Rightarrow> exn + TxCode" where
  "TxCode_parse v =
     (case tc_length v of
        Some l \<Rightarrow> if 0 < l then Inr \<lparr>input_mode = tc_input_mode v, tx_length = Some l, tx_description = tc_description v\<rparr>
                  else Inl (JsError ''ZodError'')
      | None \<Rightarrow> Inr \<lparr>input_mode = tc_input_mode v, tx_length = None, tx_description = tc_description v\<rparr>)"

definition truthy_str :: "string option \<Rightarrow> string option" where
  "truthy_str s = (if opt_str s then s else None)"

definition credentialOffer_create ::
  "CredentialIssuerMetadata \<Rightarrow> string list \<Rightarrow> CreateOfferOptions \<Rightarrow> exn + CredentialOffer" where
  "credentialOffer_create issuer configurations options =
     (case options of
        CreatePreAuth c txCode authorizationServer \<Rightarrow>
          (case (case txCode of None \<Rightarrow> Inr None
                 | Some t \<Rightarrow> (case TxCode_parse t of Inl e \<Rightarrow> Inl e | Inr tc \<Rightarrow> Inr (Some tc))) of
             Inl e \<Rightarrow> Inl e
           | Inr tc \<Rightarrow>
               Inr \<lparr>offer_issuer = credential_issuer issuer,
                    offer_grants = Some \<lparr>authorization_code_grant = None,
                      pre_authorized_code_grant = Some \<lparr>pre_authorized_code = c, grant_tx_code = tc,
                        pre_authorization_server = truthy_str authorizationServer\<rparr>\<rparr>,
                    offer_configuration_ids = configurations\<rparr>)
      | CreateAuthCode state authorizationServer \<Rightarrow>
          Inr \<lparr>offer_issuer = credential_issuer issuer,
               offer_grants = Some \<lparr>authorization_code_grant =
                   Some \<lparr>issuer_state = Some state, code_authorization_server = truthy_str authorizationServer\<rparr>,
                 pre_authorized_code_grant = None\<rparr>,
               offer_configuration_ids = configurations\<rparr>)"

definition configuration_of :: "CredentialIssuerMetadata \<Rightarrow> string \<Rightarrow> CredentialConfigurationSupported option" where
  "configuration_of metadata configId = map_of (credential_configurations_supported metadata) configId"

text \<open>The checks of an offer before anything is written.\<close>

definition offer_checks ::
  "CredentialIssuerMetadata \<Rightarrow> string list \<Rightarrow> string option \<Rightarrow> exn + unit" where
  "offer_checks metadata configurations authorizationServer =
     (if \<not> distinct configurations then
        Inl (err ''invalid_credential_request'' ''credential_configuration_ids must be unique.'')
      else if opt_str authorizationServer \<and>
          (case authorization_servers metadata of None \<Rightarrow> True | Some ss \<Rightarrow> length ss \<le> 1) then
        Inl (err ''invalid_credential_request'' ''authorization_server needs several authorization_servers'')
      else if opt_str authorizationServer \<and> getOr [] authorizationServer \<notin> set (getOr [] (authorization_servers metadata)) then
        Inl (err ''invalid_credential_request'' ''Authorization server is not supported by issuer'')
      else if list_ex (\<lambda>configId. configuration_of metadata configId = None) configurations then
        Inl (err ''unknown_credential_configuration'' ''Credential configuration is not supported by issuer'')
      else Inr ())"

definition offerCredential ::
  "ext \<Rightarrow> bool \<Rightarrow> string \<Rightarrow> string list \<Rightarrow> OfferOptions option \<Rightarrow> (world, CredentialOfferResponse) M" where
  "offerCredential X debug issuer configurations options =
     (case (case options of None \<Rightarrow> OfferPreAuth None None None | Some v \<Rightarrow> v) of
        OfferAuthCode state authorizationServer \<Rightarrow>
          raise ''unsupported_grant_type'' ''Authorization code flow is not supported.''
      | OfferPreAuth txCode ttl authorizationServer \<Rightarrow>
          bindM (on_issuer_metadata (issuer_metadata_fetch issuer)) (\<lambda>fetched.
          case fetched of
            None \<Rightarrow> raise ''issuer_not_found'' ''Issuer metadata not found.''
          | Some metadata \<Rightarrow>
              thenM (liftE (rejectInsecureIssuerMetadata X debug (Some metadata)))
              (thenM (liftE (offer_checks metadata configurations authorizationServer))
              (bindM (case txCode of
                        None \<Rightarrow> ret None
                      | Some t \<Rightarrow> bindM (transactionCode_generate (tc_input_mode t) (tc_length t) (tc_description t))
                          (\<lambda>c. ret (Some c))) (\<lambda>tx_code.
               bindM preAuthorizedCode_generate (\<lambda>c.
               thenM (timed (\<lambda>now. on_pac (pac_save now c configurations tx_code
                  \<lparr>so_ttlSec = ttl, so_mode = (case txCode of None \<Rightarrow> None | Some t \<Rightarrow> tc_input_mode t)\<rparr>)))
               (bindM (liftE (credentialOffer_create metadata configurations (CreatePreAuth c txCode authorizationServer)))
                 (\<lambda>offer. ret \<lparr>or_offer = offer, or_tx_code = tx_code\<rparr>))))))))"

subsection \<open>Metadata\<close>

definition findIssuerMetadata :: "ext \<Rightarrow> bool \<Rightarrow> string \<Rightarrow> (world, CredentialIssuerMetadata option) M" where
  "findIssuerMetadata X debug i =
     bindM (on_issuer_metadata (issuer_metadata_fetch i)) (\<lambda>metadata.
     thenM (liftE (rejectInsecureIssuerMetadata X debug metadata)) (ret metadata))"

definition metadata_algs :: "CredentialIssuerMetadata \<Rightarrow> string list" where
  "metadata_algs m = js_unique (concat (map (\<lambda>(i, c). getOr [] (credential_signing_alg_values_supported c))
     (credential_configurations_supported m)))"

record JwtVcIssuerResponse =
  jv_issuer :: string
  jv_jwks :: "obj list option"

definition jwt_vc_key :: "ext \<Rightarrow> string \<Rightarrow> string \<Rightarrow> (world, obj option) M" where
  "jwt_vc_key X i alg =
     bindM (on_issuer_keys (key_fetch X i (JStr alg))) (\<lambda>issuerKey.
     case issuerKey of
       None \<Rightarrow> ret None
     | Some key \<Rightarrow>
         bindM (liftE (parse_jwk (exportJWK X key))) (\<lambda>jwk.
         if truthy (oget jwk ''kid'') then ret (Some jwk)
         else case calculateJwkThumbprint X jwk of
                Inl e \<Rightarrow> raise ''invalid_issuer_key'' ''Failed to calculate kid for issuer key.''
              | Inr kid \<Rightarrow> ret (Some (oset jwk ''kid'' (JStr kid)))))"

definition findJwtVcIssuerMetadata :: "ext \<Rightarrow> bool \<Rightarrow> string \<Rightarrow> (world, JwtVcIssuerResponse option) M" where
  "findJwtVcIssuerMetadata X debug i =
     bindM (on_issuer_metadata (issuer_metadata_fetch i)) (\<lambda>fetched.
     case fetched of
       None \<Rightarrow> ret None
     | Some metadata \<Rightarrow>
         thenM (liftE (rejectInsecureIssuerMetadata X debug (Some metadata)))
         (let algs = metadata_algs metadata;
              keyAlgs = (if algs = [] then [''ES256''] else algs)
          in bindM (mapM (jwt_vc_key X i) keyAlgs) (\<lambda>found.
             let keys = map the (filter (\<lambda>k. k \<noteq> None) found) in
             ret (Some \<lparr>jv_issuer = credential_issuer metadata,
                        jv_jwks = (if keys \<noteq> [] then Some keys else None)\<rparr>))))"

text \<open>
  The keys of a new issuer are created concurrently (\<open>Promise.all\<close>): every save first reads
  the entries of the issuer and only then waits for its key, so all of them start from
  the same entries. \<open>order\<close> lists the algorithms in the order in which their keys are
  ready, and \<open>gens\<close> the algorithms of the registered generators. A save that fails
  rejects the whole, but the others still write.
\<close>

definition save_from :: "SignatureKeyEntry list \<Rightarrow> string \<Rightarrow> string \<Rightarrow> exn + (obj \<times> obj) \<Rightarrow> (key_store, unit) M" where
  "save_from current who keyAlg generated = (\<lambda>st.
     case pair_to_save keyAlg None generated of
       Inl e \<Rightarrow> (Inl e, st)
     | Inr entry \<Rightarrow> (Inr (), st(who \<mapsto> filter (\<lambda>c. declaredAlg c \<noteq> keyAlg) current @ [entry])))"

definition generated_by :: "ext \<Rightarrow> string list \<Rightarrow> string \<Rightarrow> string \<Rightarrow> exn + (obj \<times> obj)" where
  "generated_by X gens entropy keyAlg =
     (case selectProvider key_generator_canHandle gens keyAlg of
        Inl e \<Rightarrow> Inl e
      | Inr alg \<Rightarrow> Inr (authz_key_generate X alg entropy))"

fun finish_saves ::
  "ext \<Rightarrow> string list \<Rightarrow> string \<Rightarrow> SignatureKeyEntry list \<Rightarrow> string list \<Rightarrow> (world, exn option) M" where
  "finish_saves X gens who current [] = ret None"
| "finish_saves X gens who current (alg # algs) =
     bindM fresh (\<lambda>entropy.
     bindM (catchM (thenM (on_issuer_keys (save_from current who alg (generated_by X gens entropy alg))) (ret None))
                   (\<lambda>e. ret (Some e))) (\<lambda>r.
     bindM (finish_saves X gens who current algs) (\<lambda>r'. ret (orElse r r'))))"

definition createIssuerMetadata ::
  "ext \<Rightarrow> bool \<Rightarrow> string list \<Rightarrow> (string list \<Rightarrow> string list) \<Rightarrow> CredentialIssuerMetadata \<Rightarrow> (world, unit) M" where
  "createIssuerMetadata X debug gens order issuer =
     thenM (liftE (rejectInsecureIssuerMetadata X debug (Some issuer)))
     (bindM (on_issuer_metadata (issuer_metadata_fetch (credential_issuer issuer))) (\<lambda>current.
      if current \<noteq> None then raise ''duplicate_issuer'' ''issuer is already registered.''
      else
        bindM (on_issuer_keys (\<lambda>st. (Inr (getOr [] (st (credential_issuer issuer))), st))) (\<lambda>entries.
        bindM (finish_saves X gens (credential_issuer issuer) entries (order (metadata_algs issuer))) (\<lambda>failed.
        case failed of
          Some e \<Rightarrow> throw e
        | None \<Rightarrow> on_issuer_metadata (issuer_metadata_save issuer)))))"

subsection \<open>Nonces\<close>

definition createNonce :: "jsnum option \<Rightarrow> (world, string) M" where
  "createNonce ttlMs =
     bindM (nonce_generate ttlMs) (\<lambda>n.
     thenM (timed (\<lambda>now. on_nonces (nonce_save now n))) (ret (nonce n)))"

definition validateNonce :: "string \<Rightarrow> (world, bool) M" where
  "validateNonce n = timed (\<lambda>now. on_nonces (nonce_validate now (lookup_nonce n)))"

definition revokeNonce :: "string \<Rightarrow> (world, bool) M" where
  "revokeNonce n = on_nonces (nonce_revoke (lookup_nonce n))"

subsection \<open>Issuance\<close>

record IssueOptions =
  authorizationContext :: CredentialEndpointAuthorizationContext
  issue_alg :: "string option"
  cnonce :: "jsnum option"
  issue_claims :: "obj option"
  issue_subject :: "string option"
  proofJwt_usePreAuth :: "bool option"

definition issue_provider_canHandle :: "string \<Rightarrow> cred_format \<Rightarrow> bool" where
  "issue_provider_canHandle p f = (f = Format p)"

definition issue_providers :: "string list" where
  "issue_providers = [''dc+sd-jwt'', ''jwt_vc_json'']"

text \<open>The context a JWT proof is verified in; other proofs get none.\<close>

definition proof_context ::
  "CredentialIssuerMetadata \<Rightarrow> IssueOptions \<Rightarrow> string \<Rightarrow> CredentialProofJwtVerifyContext option" where
  "proof_context metadata options proofType =
     (if proofType \<noteq> ''jwt'' then None
      else if proofJwt_usePreAuth options = Some True then
        Some \<lparr>usePreAuth = True, ctx_credentialIssuer = credential_issuer metadata,
              ctx_clientId = truthy_str (ac_clientId (authorizationContext options))\<rparr>
      else
        Some \<lparr>usePreAuth = False, ctx_credentialIssuer = credential_issuer metadata,
              ctx_clientId = ac_clientId (authorizationContext options)\<rparr>)"

text \<open>The nonce of a verified proof is validated and then revoked; a proof without one passes.\<close>

definition check_proof_nonce :: "IssueOptions \<Rightarrow> ProofJwt \<Rightarrow> (world, unit) M" where
  "check_proof_nonce options v =
     (case (cnonce options, pb_nonce (proof_payload v)) of
        (Some _, Some n) \<Rightarrow>
          bindM (validateNonce n) (\<lambda>found.
          if \<not> found then raise ''invalid_nonce'' ''Nonce not found.''
          else thenM (revokeNonce n) (ret ()))
      | _ \<Rightarrow> ret ())"

text \<open>Every proof is verified; the last one is used.\<close>

fun verify_proofs ::
  "ext \<Rightarrow> CredentialProofJwtFactoryOptions \<Rightarrow> CredentialIssuerMetadata \<Rightarrow> IssueOptions \<Rightarrow> string \<Rightarrow>
   ProofJwt option \<Rightarrow> proof_value list \<Rightarrow> (world, ProofJwt option) M" where
  "verify_proofs X F metadata options proofType verified [] = ret verified"
| "verify_proofs X F metadata options proofType verified (pv # pvs) =
     bindM (verifyCredentialProof X F pv (proof_context metadata options proofType)) (\<lambda>v.
     thenM (check_proof_nonce options v)
       (verify_proofs X F metadata options proofType (Some v) pvs))"

definition request_proof ::
  "ext \<Rightarrow> CredentialProofJwtFactoryOptions \<Rightarrow> CredentialIssuerMetadata \<Rightarrow> CredentialConfigurationSupported \<Rightarrow>
   IssueOptions \<Rightarrow> Proofs option \<Rightarrow> (world, ProofJwt option) M" where
  "request_proof X F metadata configuration options proofs =
     (case proofs of
        None \<Rightarrow> ret None
      | Some ps \<Rightarrow>
          (case getProofType ps of
             ProofsObjects proofType proofValue \<Rightarrow>
               if proofType \<notin> set (map fst (getOr [] (proof_types_supported configuration))) then
                 raise ''invalid_credential_request'' ''Request contain no proofs supported by credential configuration.''
               else bindM (liftE (selectProvider credential_proof_canHandle [''jwt''] proofType)) (\<lambda>p.
                 verify_proofs X F metadata options proofType None proofValue)))"

text \<open>The configuration the request names, if this access token allows it.\<close>

definition requested_configuration ::
  "CredentialIssuerMetadata \<Rightarrow> CredentialRequest \<Rightarrow> IssueOptions \<Rightarrow>
   (world, CredentialConfigurationSupported) M" where
  "requested_configuration metadata request options =
     (if credential_identifier request \<noteq> None \<and> credential_configuration_id request \<noteq> None then
        raise ''invalid_credential_request'' ''credential_identifier and credential_configuration_id used together''
      else if credential_identifier request \<noteq> None then
        raise ''unknown_credential_identifier'' ''Credential identifier is unknown.''
      else case credential_configuration_id request of
        None \<Rightarrow> raise ''invalid_credential_request'' ''Credential configuration id is not specified.''
      | Some configId \<Rightarrow>
          (case configuration_of metadata configId of
             None \<Rightarrow> raise ''unknown_credential_configuration'' ''Credential configuration is not supported by issuer''
           | Some configuration \<Rightarrow>
               let key = allowedCredentialConfigurationKey (authorizationContext options) in
               if key = [] then raise ''invalid_credential_request'' ''allowed credential configuration key is missing.''
               else bindM (timed (\<lambda>now. on_allowed (allowed_fetch now key))) (\<lambda>allowed.
                 case allowed of
                   None \<Rightarrow> raise ''invalid_credential_request''
                     ''Allowed credential configurations for this access token were not found''
                 | Some ids \<Rightarrow>
                     if configId \<notin> set ids then
                       raise ''invalid_credential_request''
                         ''Requested credential_configuration_id is not allowed for this access token.''
                     else ret configuration)))"

definition issueCredential ::
  "ext \<Rightarrow> bool \<Rightarrow> CredentialProofJwtFactoryOptions \<Rightarrow> IssueCredentialProviderOptions \<Rightarrow> string \<Rightarrow>
   CredentialRequest \<Rightarrow> IssueOptions \<Rightarrow> (world, string list) M" where
  "issueCredential X debug F P issuer request options =
     (if opt_str (issue_subject options) \<and> \<not> isUri (getOr [] (issue_subject options)) then
        raise ''invalid_credential_request'' ''Invalid options: subject must be a URI.''
      else bindM (on_issuer_metadata (issuer_metadata_fetch issuer)) (\<lambda>fetched.
        case fetched of
          None \<Rightarrow> raise ''issuer_not_found'' ''Issuer metadata not found.''
        | Some metadata \<Rightarrow>
            thenM (liftE (rejectInsecureIssuerMetadata X debug (Some metadata)))
            (bindM (requested_configuration metadata request options) (\<lambda>configuration.
             bindM (liftE (selectProvider issue_provider_canHandle issue_providers (cc_format configuration))) (\<lambda>provider.
             bindM (request_proof X F metadata configuration options (request_proofs request)) (\<lambda>verified.
             case verified of
               None \<Rightarrow> raise ''invalid_proof'' ''Proof is required to issue credential.''
             | Some v \<Rightarrow>
                 let copts = \<lparr>ic_claims = issue_claims options,
                       ic_subject = orElse (map_option JStr (issue_subject options)) (oget (proof_header v) ''kid''),
                       ic_keyAlg = Some (getOr ''ES256'' (issue_alg options)),
                       ic_proofHeader = Some (proof_header v), ic_nonDisclosableClaims = None\<rparr>
                 in bindM (if provider = ''jwt_vc_json'' then createCredential_jwt X P issuer configuration copts
                           else createCredential_sd_jwt X issuer configuration copts)
                      (\<lambda>c. ret [c])))))))"

end
