(* ===== verification/Authz_Access.thy ===== *)
theory Authz_Access
  imports Authz_Flow
begin

text \<open>
  What the authorization server guarantees: the effects of a successful token request and
  the conditions under which the credential endpoint accepts a token.
\<close>

subsection \<open>What a successful token request did\<close>

lemma token_dpop_None_Inr:
  "token_dpop X D None w = (Inr v, w') \<longleftrightarrow> v = None \<and> w' = w"
  by (auto simp: token_dpop_def inr_simps)

lemma token_dpop_Some_Inr:
  assumes "token_dpop X D (Some d) w = (Inr v, w')"
  obtains p where "v = Some p"
    "verify_proof_at X D (w_clk w 0) (proofJwt d)
       \<lparr>htm = dp_htm d, htu = dp_htu d, ctx_nonce = None, ctx_accessToken = None\<rparr> = Inr p"
  using assms by (auto simp: token_dpop_def inr_simps verifyProof_Inr)

lemma mint_token_Inr:
  assumes "mint_token X authz c ids opts v w = (Inr t, w')"
  obtains sig payload now' where
    "payload = createTokenPayload (w_clk w 0) authz c (ttlSec opts) (tok_clientId opts) (map_option jwkThumbprint v)"
    "sig \<noteq> []"
    "access_token t = encode_json X (jwt_header (getOr ''ES256'' (tok_alg opts))) @ ''.'' @
       encode_json X payload @ ''.'' @ sig"
    "token_type t = (if v \<noteq> None then ''DPoP'' else ''bearer'')"
    "expires_in t = getOr (Fin 86400) (ttlSec opts)"
    "w_allowed w' = (w_allowed w)(calculateAccessTokenHash X (access_token t) \<mapsto>
       \<lparr>allowed_ids = ids, allowed_expires_at = now' + ttl_sec (Some (getOr (Fin 86400) (ttlSec opts))) * 1000\<rparr>)"
proof -
  define payload where "payload = createTokenPayload (w_clk w 0) authz c (ttlSec opts) (tok_clientId opts)
    (map_option jwkThumbprint v)"
  obtain sig where
    sig: "fst (authz_key_sign X (w_rnd w 0) authz (getOr ''ES256'' (tok_alg opts)) payload
        (jwt_header (getOr ''ES256'' (tok_alg opts))) (w_authz_keys w)) = Inr (Some sig)" "sig \<noteq> []"
    and t: "access_token t = encode_json X (jwt_header (getOr ''ES256'' (tok_alg opts))) @ ''.'' @
       encode_json X payload @ ''.'' @ sig"
    "token_type t = (if v \<noteq> None then ''DPoP'' else ''bearer'')"
    "expires_in t = getOr (Fin 86400) (ttlSec opts)"
    "w_allowed w' = (w_allowed w)(calculateAccessTokenHash X (access_token t) \<mapsto>
       \<lparr>allowed_ids = ids, allowed_expires_at = w_clk w 1 + ttl_sec (Some (getOr (Fin 86400) (ttlSec opts))) * 1000\<rparr>)"
    using assms
    by (auto simp: mint_token_def Let_def run_simps shift_def on_authz_keys_def on_allowed_def
        allowed_save_def payload_def opt_str_def split: sum.splits prod.splits if_splits option.splits)
  show ?thesis using that [OF payload_def sig(2) t] .
qed

lemma createAccessToken_Inr:
  assumes "createAccessToken X D limit authz req opts w = (Inr t, w')"
  obtains c tx v w1 w2 ids now where
    "req = TokenRequestPreAuthorizedCode c tx"
    "token_dpop X D (dpopProof opts) w = (Inr v, w1)"
    "fst (pac_consume limit now c tx (w_pac w)) = Inr ids"
    "w_pac w2 = snd (pac_consume limit now c tx (w_pac w))" "w_allowed w2 = w_allowed w"
    "mint_token X authz c ids opts v w2 = (Inr t, w')"
proof -
  obtain c tx where req: "req = TokenRequestPreAuthorizedCode c tx"
    using assms by (cases req) (auto simp: createAccessToken_def run_simps)
  obtain v w1 where v: "token_dpop X D (dpopProof opts) w = (Inr v, w1)"
    using assms by (auto simp: createAccessToken_def req inr_simps)
  have "preserves w_pac (token_dpop X D (dpopProof opts))"
      "preserves w_allowed (token_dpop X D (dpopProof opts))"
    by (intro preserves_intros; simp)+
  then have w1: "w_pac w1 = w_pac w" "w_allowed w1 = w_allowed w"
    using v by (auto dest: preservesD)
  define now where "now = w_clk w1 0"
  obtain r s where p: "pac_consume limit now c tx (w_pac w) = (r, s)" by fastforce
  obtain ids where ids: "r = Inr ids"
      "mint_token X authz c ids opts v (w1\<lparr>w_clk := shift (w_clk w1), w_pac := s\<rparr>) = (Inr t, w')"
    using assms p by (cases r) (auto simp: createAccessToken_def req run_simps v w1 on_pac_def now_def)
  show ?thesis
    using that [OF req v _ _ _ ids(2), of now] p ids(1) w1 by simp
qed

subsection \<open>Properties of token issuance\<close>

lemma createAccessToken_grants:
  assumes "createAccessToken X D limit authz (TokenRequestPreAuthorizedCode c tx) opts w = (Inr t, w')"
  shows "\<exists>e now now'.
    w_pac w c = Some e \<and> getOr 0 (pe_attempts e) < limit \<and> \<not> pac_expired now e \<and> tx_ok e tx \<and>
    w_allowed w' = (w_allowed w)(calculateAccessTokenHash X (access_token t) \<mapsto>
      \<lparr>allowed_ids = pe_ids e,
       allowed_expires_at = now' + ttl_sec (Some (getOr (Fin 86400) (ttlSec opts))) * 1000\<rparr>) \<and>
    w_pac w' = (w_pac w)(c := None) \<and>
    (token_type t = ''DPoP'' \<longleftrightarrow> dpopProof opts \<noteq> None)"
  using assms
proof (rule createAccessToken_Inr)
  fix c' tx' v w1 w2 ids now
  assume req: "TokenRequestPreAuthorizedCode c tx = TokenRequestPreAuthorizedCode c' tx'"
    and v: "token_dpop X D (dpopProof opts) w = (Inr v, w1)"
    and p: "fst (pac_consume limit now c' tx' (w_pac w)) = Inr ids"
    and w2: "w_pac w2 = snd (pac_consume limit now c' tx' (w_pac w))" "w_allowed w2 = w_allowed w"
    and m: "mint_token X authz c' ids opts v w2 = (Inr t, w')"
  have "preserves w_pac (mint_token X authz c' ids opts v)" by (intro preserves_intros; simp)
  then have "w_pac w' = w_pac w2" using m by (rule preservesD)
  then have pac: "w_pac w' = (w_pac w)(c := None)"
    using req p w2(1) by (simp add: pac_consume_Inr_deletes)
  obtain e where e: "w_pac w c = Some e" "getOr 0 (pe_attempts e) < limit" "\<not> pac_expired now e"
      "tx_ok e tx" "ids = pe_ids e"
    using p req by (auto simp: pac_consume_Inr_iff)
  have ty: "v \<noteq> None \<longleftrightarrow> dpopProof opts \<noteq> None"
    using v by (cases "dpopProof opts") (auto simp: token_dpop_None_Inr elim: token_dpop_Some_Inr)
  obtain now' where "token_type t = (if v \<noteq> None then ''DPoP'' else ''bearer'')"
    "w_allowed w' = (w_allowed w2)(calculateAccessTokenHash X (access_token t) \<mapsto>
       \<lparr>allowed_ids = ids, allowed_expires_at = now' + ttl_sec (Some (getOr (Fin 86400) (ttlSec opts))) * 1000\<rparr>)"
    using m by (rule mint_token_Inr)
  with e pac ty w2(2) show ?thesis by (intro exI [of _ e] exI [of _ now] exI [of _ now']) auto
qed

text \<open>A successful token request presented a code that was offered, not expired and below its
  limit of attempts, with the right transaction code; the token it returns is recorded with
  exactly the credential configurations of the offer, the records of other tokens are left
  alone, the code is gone, and the token type is DPoP exactly when a proof was presented.\<close>

theorem access_token_grants_offered:
  assumes "createAccessToken X D limit authz (TokenRequestPreAuthorizedCode c tx) opts w = (Inr t, w')"
  shows "\<exists>e now now'.
    w_pac w c = Some e \<and> getOr 0 (pe_attempts e) < limit \<and> \<not> pac_expired now e \<and> tx_ok e tx \<and>
    w_allowed w' = (w_allowed w)(calculateAccessTokenHash X (access_token t) \<mapsto>
      \<lparr>allowed_ids = pe_ids e,
       allowed_expires_at = now' + ttl_sec (Some (getOr (Fin 86400) (ttlSec opts))) * 1000\<rparr>) \<and>
    w_pac w' = (w_pac w)(c := None) \<and>
    (token_type t = ''DPoP'' \<longleftrightarrow> dpopProof opts \<noteq> None)"
  using assms by (rule createAccessToken_grants)

text \<open>C33. A token request whose DPoP proof, nonce or jti is refused does not touch the code: the
  client can repeat the request, for instance with the nonce it was asked for.\<close>

theorem dpop_failure_keeps_code:
  assumes "fst (token_dpop X D (dpopProof opts) w) = Inl e"
  shows "fst (createAccessToken X D limit authz (TokenRequestPreAuthorizedCode c tx) opts w) = Inl e \<and>
         w_pac (snd (createAccessToken X D limit authz (TokenRequestPreAuthorizedCode c tx) opts w)) = w_pac w"
proof -
  obtain w1 where v: "token_dpop X D (dpopProof opts) w = (Inl e, w1)"
    using assms by (metis prod.collapse)
  have "preserves w_pac (token_dpop X D (dpopProof opts))" by (intro preserves_intros; simp)
  then have "w_pac w1 = w_pac w" using v by (rule preservesD)
  then show ?thesis by (simp add: createAccessToken_def run_simps v)
qed

subsection \<open>The credential endpoint\<close>

lemma verifyAccessTokenPayload_Inr:
  assumes "verifyAccessTokenPayload X authz tok alg w = (Inr p, w')"
  obtains h iss key now q where
    "decode_access_token X tok = Inr (h, p)" "vget p ''iss'' = Some (JStr iss)" "zod_url X iss = Some authz"
    "fst (key_fetch X authz (token_alg (vget h ''alg'') alg) (w_authz_keys w)) = Inr (Some key)"
    "jwtVerify X now tok key (no_verify_options\<lparr>vo_issuer := Some iss\<rparr>) = Inr q"
  using assms
  by (auto simp: verifyAccessTokenPayload_def run_simps js_read_def parse_url_value_Inr on_authz_keys_def
      split: sum.splits if_splits option.splits)

lemma verifyDpopBound_Inr:
  assumes "verifyDpopBoundAccessToken X D authz tok alg dp w = (Inr p, w')"
  obtains jkt v now now' w1 s where
    "verifyAccessTokenPayload X authz tok alg w = (Inr p, w1)"
    "getCnfJkt p = Some jkt"
    "verify_proof_at X D now (proofJwt dp)
       \<lparr>htm = dp_htm dp, htu = dp_htu dp, ctx_nonce = None, ctx_accessToken = Some tok\<rparr> = Inr v"
    "jwkThumbprint v = jkt"
    "nonceRequired dp \<Longrightarrow> \<exists>n now2. vp_nonce v = Some n \<and> nonce_valid now2 (w_nonces w) n"
    "dpop_saveIfAbsent now' jkt (vp_jti v) (Some (proofJtiTtlMs D)) (w_dpop_jtis w) = (Inr True, s)"
    "w_dpop_jtis w' = s"
proof -
  obtain w1 jkt where 1: "verifyAccessTokenPayload X authz tok alg w = (Inr p, w1)" "getCnfJkt p = Some jkt"
    using assms
    by (auto simp: verifyDpopBoundAccessToken_def inr_simps split: option.splits if_splits)
  have "preserves w_nonces (verifyAccessTokenPayload X authz tok alg)"
      "preserves w_dpop_jtis (verifyAccessTokenPayload X authz tok alg)"
    by (intro preserves_intros; simp)+
  then have eq: "w_nonces w1 = w_nonces w" "w_dpop_jtis w1 = w_dpop_jtis w"
    using 1(1) by (auto dest: preservesD)
  obtain v where v: "verify_proof_at X D (w_clk w1 0) (proofJwt dp)
       \<lparr>htm = dp_htm dp, htu = dp_htu dp, ctx_nonce = None, ctx_accessToken = Some tok\<rparr> = Inr v"
    using assms 1
    by (auto simp: verifyDpopBoundAccessToken_def run_simps verifyProof_def split: sum.splits)
  define w2 where "w2 = w1\<lparr>w_clk := shift (w_clk w1)\<rparr>"
  have eq2: "w_nonces w2 = w_nonces w" "w_dpop_jtis w2 = w_dpop_jtis w"
    by (simp_all add: w2_def eq)
  have rest: "thenM (whenM (nonceRequired dp)
              (consume_dpop_nonce ''Credential issuer requires nonce in DPoP proof.'' v))
            (if jwkThumbprint v \<noteq> jkt then
               raise ''invalid_dpop_proof'' ''DPoP proof public key does not match access token cnf.jkt.''
             else thenM (guard_dpop_jti D v) (ret p)) w2 = (Inr p, w')"
    using assms 1 v
    by (simp add: verifyDpopBoundAccessToken_def run_simps verifyProof_def w2_def)
  then obtain u w3 where n: "whenM (nonceRequired dp)
        (consume_dpop_nonce ''Credential issuer requires nonce in DPoP proof.'' v) w2 = (Inr u, w3)"
      and j: "jwkThumbprint v = jkt" "thenM (guard_dpop_jti D v) (ret p) w3 = (Inr p, w')"
    by (auto simp: thenM_Inr raise_run split: if_splits)
  have "preserves w_dpop_jtis (whenM (nonceRequired dp)
        (consume_dpop_nonce ''Credential issuer requires nonce in DPoP proof.'' v))"
    by (intro preserves_intros; simp)
  then have eq3: "w_dpop_jtis w3 = w_dpop_jtis w" using n eq2 by (auto dest: preservesD)
  have nonce: "\<exists>m now2. vp_nonce v = Some m \<and> nonce_valid now2 (w_nonces w) m" if "nonceRequired dp"
    using n that
    by (auto simp: consume_dpop_nonce_def run_simps opt_str_def on_nonces_def nonce_consume_result
        lookup_nonce_def eq2 split: if_splits option.splits sum.splits)
  obtain s where "dpop_saveIfAbsent (w_clk w3 0) jkt (vp_jti v) (Some (proofJtiTtlMs D)) (w_dpop_jtis w) = (Inr True, s)"
      "w_dpop_jtis w' = s"
    using j by (auto simp: guard_dpop_jti_def run_simps on_dpop_jtis_def eq3 dpop_saveIfAbsent_admit
        split: if_splits sum.splits)
  with that [OF 1 v j(1) nonce] show ?thesis by blast
qed

text \<open>The mode that applies to an access token of the client.\<close>

definition endpoint_mode :: "world \<Rightarrow> string \<Rightarrow> string option \<Rightarrow> DPoPMode" where
  "endpoint_mode w authz cid =
     effective_mode (w_policies w authz) (if cid \<noteq> None then DefaultClient else AnonymousClient)
       (case (case cid of None \<Rightarrow> None
              | Some c \<Rightarrow> oauth_client_lookup (w_clients w) (oauth_client_key authz c)) of
          None \<Rightarrow> None
        | Some c \<Rightarrow> map_option (\<lambda>sc. \<lparr>cp_senderConstrainedAccessToken = Some sc\<rparr>) (senderConstrainedAccessToken c))"

lemma authorize_Inr:
  assumes "authorizeCredentialEndpointAccess X D authz opts w = (Inr ctx, w')"
  obtains scheme token p w1 where
    "parseAuthorizationHeader (authorizationHeader opts) = HdrOk scheme token"
    "verifyAccessTokenPayload X authz token (ep_alg opts) w = (Inr p, w1)"
    "\<And>c. getAccessTokenClientId p = Some c \<Longrightarrow> oauth_client_lookup (w_clients w) (oauth_client_key authz c) \<noteq> None"
    "endpoint_mode w authz (getAccessTokenClientId p) = Off \<Longrightarrow> scheme = Bearer \<and> \<not> opt_str (dpopHeader opts)"
    "scheme = Bearer \<Longrightarrow> endpoint_mode w authz (getAccessTokenClientId p) \<noteq> Required \<and> getCnfJkt p = None \<and>
       ctx = \<lparr>allowedCredentialConfigurationKey = calculateAccessTokenHash X token,
              ac_clientId = getAccessTokenClientId p, ac_tokenType = TokenBearer\<rparr> \<and> w' = w1"
    "scheme = Dpop \<Longrightarrow> authorize_dpop X D authz opts token (getAccessTokenClientId p) w1 = (Inr ctx, w')"
proof -
  obtain scheme token where h: "parseAuthorizationHeader (authorizationHeader opts) = HdrOk scheme token"
    using assms by (auto simp: authorizeCredentialEndpointAccess_def run_simps
        split: AuthorizationHeaderParseResult.splits HeaderReason.splits)
  obtain p w1 where p: "verifyAccessTokenPayload X authz token (ep_alg opts) w = (Inr p, w1)"
    using assms by (auto simp: authorizeCredentialEndpointAccess_def h inr_simps)
  have "preserves w_clients (verifyAccessTokenPayload X authz token (ep_alg opts))"
      "preserves w_policies (verifyAccessTokenPayload X authz token (ep_alg opts))"
    by (intro preserves_intros; simp)+
  then have eq: "w_clients w1 = w_clients w" "w_policies w1 = w_policies w"
    using p by (auto dest: preservesD)
  let ?c = "getAccessTokenClientId p"
  define cl where "cl = (case ?c of None \<Rightarrow> None | Some c \<Rightarrow> oauth_client_lookup (w_clients w) (oauth_client_key authz c))"
  have lk: "(case ?c of None \<Rightarrow> ret None | Some c \<Rightarrow> on_clients (oauth_client_fetch authz c)) w1 = (Inr cl, w1)"
    by (auto simp: cl_def run_simps on_clients_def oauth_client_fetch_def eq split: option.split)
  have mode: "endpoint_mode w authz ?c = effective_mode (w_policies w authz)
      (if ?c \<noteq> None then DefaultClient else AnonymousClient)
      (case cl of None \<Rightarrow> None
       | Some c \<Rightarrow> map_option (\<lambda>sc. \<lparr>cp_senderConstrainedAccessToken = Some sc\<rparr>) (senderConstrainedAccessToken c))"
    by (simp add: endpoint_mode_def cl_def)
  let ?mode = "endpoint_mode w authz ?c"
  have run: "(if ?c \<noteq> None \<and> cl = None then
       raise ''invalid_access_token'' ''Access token client_id is not registered.''
     else if ?mode = Off \<and> (scheme = Dpop \<or> opt_str (dpopHeader opts)) then
       raise ''invalid_access_token'' ''DPoP access tokens are not supported by this credential endpoint.''
     else if scheme = Dpop then authorize_dpop X D authz opts token ?c
     else if ?mode = Required then raise ''invalid_access_token'' ''DPoP access token is required.''
     else if getCnfJkt p \<noteq> None then
       raise ''invalid_access_token'' ''DPoP-bound access token must be presented with DPoP scheme.''
     else ret \<lparr>allowedCredentialConfigurationKey = calculateAccessTokenHash X token,
               ac_clientId = ?c, ac_tokenType = TokenBearer\<rparr>) w1 = (Inr ctx, w')"
    using assms
    unfolding mode
    by (auto simp: authorizeCredentialEndpointAccess_def h bindM_run p lk Let_def dpopMode_run eq raise_run
        split: if_splits)
  show ?thesis
  proof (rule that [OF h p])
    show "oauth_client_lookup (w_clients w) (oauth_client_key authz c) \<noteq> None" if "?c = Some c" for c
      using run that by (auto simp: raise_run cl_def split: if_splits)
  qed (use run in \<open>cases scheme; auto simp: raise_run ret_run split: if_splits\<close>)+
qed

lemma authorize_dpop_Inr:
  assumes "authorize_dpop X D authz opts token cid w = (Inr ctx, w')"
  obtains jwt p where "parseDpopHeader (dpopHeader opts) = DpopOk jwt"
    "verifyDpopBoundAccessToken X D authz token (ep_alg opts)
       \<lparr>proofJwt = jwt, dp_htm = ep_htm opts, dp_htu = ep_htu opts, nonceRequired = ep_nonceRequired opts\<rparr> w
       = (Inr p, w')"
    "ctx = \<lparr>allowedCredentialConfigurationKey = calculateAccessTokenHash X token,
            ac_clientId = cid, ac_tokenType = TokenDpop\<rparr>"
  using assms
  by (auto simp: authorize_dpop_def inr_simps raise_run
      split: ParsedDpopHeader.splits DpopHeaderReason.splits)

lemma authorizeAccess_grounds:
  assumes "authorizeCredentialEndpointAccess X D authz opts w = (Inr ctx, w')"
  shows "\<exists>scheme token h p iss key now q.
    parseAuthorizationHeader (authorizationHeader opts) = HdrOk scheme token \<and>
    decode_access_token X token = Inr (h, p) \<and>
    vget p ''iss'' = Some (JStr iss) \<and> zod_url X iss = Some authz \<and>
    jwtVerify X now token key (no_verify_options\<lparr>vo_issuer := Some iss\<rparr>) = Inr q \<and>
    allowedCredentialConfigurationKey ctx = calculateAccessTokenHash X token \<and>
    (case scheme of
       Bearer \<Rightarrow> ac_tokenType ctx = TokenBearer \<and> getCnfJkt p = None
     | Dpop \<Rightarrow> ac_tokenType ctx = TokenDpop \<and>
         (\<exists>jwt v now1 now2 s. parseDpopHeader (dpopHeader opts) = DpopOk jwt \<and>
            verify_proof_at X D now1 jwt
              \<lparr>htm = ep_htm opts, htu = ep_htu opts, ctx_nonce = None, ctx_accessToken = Some token\<rparr> = Inr v \<and>
            getCnfJkt p = Some (jwkThumbprint v) \<and>
            dpop_saveIfAbsent now2 (jwkThumbprint v) (vp_jti v) (Some (proofJtiTtlMs D)) (w_dpop_jtis w) = (Inr True, s) \<and>
            w_dpop_jtis w' = s))"
  using assms
proof (rule authorize_Inr)
  fix scheme token p w1
  assume h: "parseAuthorizationHeader (authorizationHeader opts) = HdrOk scheme token"
    and p: "verifyAccessTokenPayload X authz token (ep_alg opts) w = (Inr p, w1)"
    and b: "scheme = Bearer \<Longrightarrow> endpoint_mode w authz (getAccessTokenClientId p) \<noteq> Required \<and> getCnfJkt p = None \<and>
       ctx = \<lparr>allowedCredentialConfigurationKey = calculateAccessTokenHash X token,
              ac_clientId = getAccessTokenClientId p, ac_tokenType = TokenBearer\<rparr> \<and> w' = w1"
    and d: "scheme = Dpop \<Longrightarrow> authorize_dpop X D authz opts token (getAccessTokenClientId p) w1 = (Inr ctx, w')"
  obtain hd iss key now q where v: "decode_access_token X token = Inr (hd, p)"
      "vget p ''iss'' = Some (JStr iss)" "zod_url X iss = Some authz"
      "jwtVerify X now token key (no_verify_options\<lparr>vo_issuer := Some iss\<rparr>) = Inr q"
    using p by (rule verifyAccessTokenPayload_Inr)
  show ?thesis
  proof (cases scheme)
    case Bearer
    with b h v show ?thesis
      by (intro exI [of _ scheme] exI [of _ token] exI [of _ hd] exI [of _ p] exI [of _ iss] exI [of _ key]
          exI [of _ now] exI [of _ q]) auto
  next
    case Dpop
    have "preserves w_dpop_jtis (verifyAccessTokenPayload X authz token (ep_alg opts))"
      by (intro preserves_intros; simp)
    then have eq: "w_dpop_jtis w1 = w_dpop_jtis w" using p by (rule preservesD)
    obtain jwt p' where j: "parseDpopHeader (dpopHeader opts) = DpopOk jwt"
      "verifyDpopBoundAccessToken X D authz token (ep_alg opts)
        \<lparr>proofJwt = jwt, dp_htm = ep_htm opts, dp_htu = ep_htu opts, nonceRequired = ep_nonceRequired opts\<rparr> w1
        = (Inr p', w')"
      "ctx = \<lparr>allowedCredentialConfigurationKey = calculateAccessTokenHash X token,
            ac_clientId = getAccessTokenClientId p, ac_tokenType = TokenDpop\<rparr>"
      using d [OF Dpop] by (rule authorize_dpop_Inr)
    obtain jkt vf now1 now2 w2 s where vd: "verifyAccessTokenPayload X authz token (ep_alg opts) w1 = (Inr p', w2)"
      "getCnfJkt p' = Some jkt"
      "verify_proof_at X D now1 jwt
         \<lparr>htm = ep_htm opts, htu = ep_htu opts, ctx_nonce = None, ctx_accessToken = Some token\<rparr> = Inr vf"
      "jwkThumbprint vf = jkt"
      "dpop_saveIfAbsent now2 jkt (vp_jti vf) (Some (proofJtiTtlMs D)) (w_dpop_jtis w1) = (Inr True, s)"
      "w_dpop_jtis w' = s"
      using j(2) by (rule verifyDpopBound_Inr) auto
    have "p' = p"
      using vd(1) v(1) by (auto elim: verifyAccessTokenPayload_Inr)
    with Dpop h v j vd eq show ?thesis
      by (intro exI [of _ scheme] exI [of _ token] exI [of _ hd] exI [of _ p] exI [of _ iss] exI [of _ key]
          exI [of _ now] exI [of _ q]) auto
  qed
qed


text \<open>The DPoP policy of the client decides which tokens the endpoint takes: with mode \<open>off\<close>
  neither the DPoP scheme nor a DPoP header is accepted, with mode \<open>required\<close> every accepted
  token was presented with a proof, and a token of a client that is not registered or
  not enabled is refused.\<close>

theorem dpop_policy_enforced:
  assumes "authorizeCredentialEndpointAccess X D authz opts w = (Inr ctx, w')"
  shows "(endpoint_mode w authz (ac_clientId ctx) = Off \<longrightarrow>
            ac_tokenType ctx = TokenBearer \<and> \<not> opt_str (dpopHeader opts)) \<and>
         (endpoint_mode w authz (ac_clientId ctx) = Required \<longrightarrow> ac_tokenType ctx = TokenDpop) \<and>
         (\<forall>c. ac_clientId ctx = Some c \<longrightarrow>
            (\<exists>client. w_clients w (oauth_client_key authz c) = Some client \<and> client_enabled client \<noteq> Some False))"
  using assms
proof (rule authorize_Inr)
  fix scheme token p w1
  assume a: "\<And>c. getAccessTokenClientId p = Some c \<Longrightarrow>
        oauth_client_lookup (w_clients w) (oauth_client_key authz c) \<noteq> None"
      "endpoint_mode w authz (getAccessTokenClientId p) = Off \<Longrightarrow> scheme = Bearer \<and> \<not> opt_str (dpopHeader opts)"
    and b: "scheme = Bearer \<Longrightarrow> endpoint_mode w authz (getAccessTokenClientId p) \<noteq> Required \<and> getCnfJkt p = None \<and>
       ctx = \<lparr>allowedCredentialConfigurationKey = calculateAccessTokenHash X token,
              ac_clientId = getAccessTokenClientId p, ac_tokenType = TokenBearer\<rparr> \<and> w' = w1"
    and d: "scheme = Dpop \<Longrightarrow> authorize_dpop X D authz opts token (getAccessTokenClientId p) w1 = (Inr ctx, w')"
  have cid: "ac_clientId ctx = getAccessTokenClientId p"
    by (cases scheme) (use b in simp, auto dest!: d elim: authorize_dpop_Inr)
  have ty: "scheme = Dpop \<Longrightarrow> ac_tokenType ctx = TokenDpop"
    by (auto dest!: d elim: authorize_dpop_Inr)
  show ?thesis
    using a b ty by (cases scheme) (auto simp: cid oauth_client_lookup_def split: option.splits if_splits)
qed

subsection \<open>Examples\<close>

text \<open>
  An example: an authorization server with one signing key, one anonymous policy and one
  offered code, and third-party functions that decode one access token and one proof.
\<close>

definition demo_key :: SignatureKeyEntry where
  "demo_key = \<lparr>format = JwkFormat, declaredAlg = ''ES256'', key_kid = None,
     publicKey = Some (Jwk [(''kty'', JStr ''EC'')]), privateKey = Jwk [(''kty'', JStr ''EC''), (''d'', JStr ''1'')]\<rparr>"

definition demo_world :: world where
  "demo_world = world0\<lparr>w_authz_keys := [''as'' \<mapsto> [demo_key]],
     w_policies := [''as'' \<mapsto> \<lparr>default_client = None, anonymous_client = Some \<lparr>cp_senderConstrainedAccessToken =
       Some \<lparr>sc_method = None, sc_dpop = Some \<lparr>dpop_mode = Some Required\<rparr>\<rparr>\<rparr>\<rparr>],
     w_pac := [''code'' \<mapsto> \<lparr>pe_ids = [''cfg''], pe_tx_code = None, pe_mode = Some Numeric,
       pe_expires_at = Some 300000, pe_attempts = None\<rparr>]\<rparr>"

definition ext_access :: ext where
  "ext_access = ext0\<lparr>
     decode_json := (\<lambda>s. if s = ''H'' then Some (JObj [(''alg'', JStr ''ES256'')])
       else Some (JObj [(''iss'', JStr ''as''), (''cnf'', JObj [(''jkt'', JStr ''thumb'')])])),
     decodeProtectedHeader := (\<lambda>t. Inr [(''alg'', JStr ''ES256''), (''typ'', JStr ''dpop+jwt''),
       (''jwk'', JObj [(''kty'', JStr ''EC'')])]),
     jwtVerify := (\<lambda>now t k vo. Inr [(''jti'', JStr ''j1''), (''iat'', JNum (Fin 0)), (''htm'', JStr ''POST''),
       (''htu'', JStr ''u''), (''ath'', JStr ''#H.P.S'')])\<rparr>"

definition demo_access :: CredentialEndpointAuthorizationOptions where
  "demo_access = \<lparr>ep_alg = None, authorizationHeader = Some ''DPoP H.P.S'', dpopHeader = Some ''h.p.s'',
     ep_htm = ''post'', ep_htu = ''u'', ep_nonceRequired = False\<rparr>"

lemma demo_headers:
  "parseAuthorizationHeader (authorizationHeader demo_access) = HdrOk Dpop ''H.P.S''"
  "parseDpopHeader (dpopHeader demo_access) = DpopOk ''h.p.s''"
  by code_simp+

lemma demo_fields:
  "ep_alg demo_access = None" "ep_htm demo_access = ''post''" "ep_htu demo_access = ''u''"
  "ep_nonceRequired demo_access = False"
  by (simp_all add: demo_access_def)

lemma demo_strings2: "js_split (CHR ''.'') ''h.p.sig'' = [''h'', ''p'', ''sig'']" "\<not> isProhibitedAlg ''ES256''" "js_upper ''post'' = ''POST''"
    "js_split (CHR ''.'') ''H.P.S'' = [''H'', ''P'', ''S'']" "js_trim ''thumb'' = ''thumb''"
  by code_simp+

lemma demo_token_run:
  "\<exists>t w'. createAccessToken ext0 default_dpop_options 5 ''as'' (TokenRequestPreAuthorizedCode ''code'' None)
     no_token_options demo_world = (Inr t, w')"
  by (simp add: createAccessToken_def run_simps no_token_options_def token_dpop_def on_pac_def demo_world_def
      world0_def pac_consume_def pac_expired_def Let_def pac_delete_def mint_token_def on_authz_keys_def
      authz_key_sign_def find_key_def demo_key_def import_private_def ext0_def sign_with_def
      on_allowed_def allowed_save_def shift_def js_nth_def demo_strings2 opt_str_def)

lemma demo_access_run:
  "\<exists>ctx w'. authorizeCredentialEndpointAccess ext_access default_dpop_options ''as'' demo_access demo_world = (Inr ctx, w')
     \<and> ac_clientId ctx = None"
  by (simp add: authorizeCredentialEndpointAccess_def demo_headers run_simps verifyAccessTokenPayload_def
      decode_access_token_def demo_strings2 demo_fields opt_str_def js_nth_def ext_access_def ext0_def js_read_def parse_url_value_def
      on_authz_keys_def key_fetch_def token_alg_def find_key_def demo_world_def world0_def demo_key_def
      import_public_def getAccessTokenClientId_def dpopMode_run effective_mode_def policy_slice_def dpop_mode_of_def sender_constraint_def
      DEFAULT_DPOP_MODE_def authorize_dpop_def verifyDpopBoundAccessToken_def getCnfJkt_def verifyProof_def
      verify_proof_at_def dpop_header_checks_def DPOP_PROOF_TYP_def ohas_def parseDpopProofPayload_def
      req_str_def req_num_def opt_field_def dpop_claim_checks_def normalizeHtu_def calculateAccessTokenHash_def
      guard_dpop_jti_def on_dpop_jtis_def dpop_saveIfAbsent_admit jti_admit_def cleanupExpired_def Let_def)

theorem access_token_grants_offered_witness:
  "\<exists>t w'. createAccessToken ext0 default_dpop_options 5 ''as'' (TokenRequestPreAuthorizedCode ''code'' None)
     no_token_options demo_world = (Inr t, w') \<and> w_pac w' ''code'' = None \<and> token_type t \<noteq> ''DPoP''"
proof -
  obtain t w' where r: "createAccessToken ext0 default_dpop_options 5 ''as'' (TokenRequestPreAuthorizedCode ''code'' None)
     no_token_options demo_world = (Inr t, w')" using demo_token_run by blast
  from access_token_grants_offered [OF r] r show ?thesis by (auto simp: no_token_options_def)
qed

definition demo_bad_proof :: TokenRequestOptions where
  "demo_bad_proof = no_token_options\<lparr>dpopProof := Some
     \<lparr>proofJwt = ''p'', dp_htm = ''POST'', dp_htu = ''u'', nonceRequired = True\<rparr>\<rparr>"

theorem dpop_failure_keeps_code_witness:
  "w_pac (snd (createAccessToken ext0 default_dpop_options 5 ''as'' (TokenRequestPreAuthorizedCode ''code'' None)
     demo_bad_proof demo_world)) ''code'' \<noteq> None"
  using dpop_failure_keeps_code [of ext0 default_dpop_options demo_bad_proof demo_world
      "bad_proof ''alg must be an asymmetric signature algorithm''" 5 "''as''" "''code''" None]
  by (simp add: token_dpop_def demo_bad_proof_def run_simps verifyProof_def verify_proof_at_def
      dpop_header_checks_def ext0_def demo_world_def bad_proof_def)


theorem dpop_policy_enforced_witness:
  "\<exists>ctx w'. authorizeCredentialEndpointAccess ext_access default_dpop_options ''as'' demo_access demo_world = (Inr ctx, w')
     \<and> ac_tokenType ctx = TokenDpop"
proof -
  obtain ctx w' where r: "authorizeCredentialEndpointAccess ext_access default_dpop_options ''as'' demo_access demo_world
      = (Inr ctx, w')" and c: "ac_clientId ctx = None" using demo_access_run by blast
  have "endpoint_mode demo_world ''as'' None = Required"
    by (simp add: endpoint_mode_def demo_world_def world0_def effective_mode_def sender_constraint_def
        policy_slice_def dpop_mode_of_def)
  with dpop_policy_enforced [OF r] c have "ac_tokenType ctx = TokenDpop" by simp
  with r show ?thesis by blast
qed

end
