(* ===== verification/Dpop_Replay.thy ===== *)
theory Dpop_Replay
  imports Dpop
begin

text \<open>
  How long a DPoP proof can be used and how long its jti is remembered. jose accepts a proof
  from \<open>clockTolerance\<close> seconds before its \<open>iat\<close> until \<open>maxTokenAge + clockTolerance\<close>
  seconds after it; the jti is held for \<open>maxTokenAge + clockTolerance\<close> seconds from its
  first use.
\<close>

subsection \<open>The acceptance window\<close>

text \<open>
  The documented check of \<open>jwtVerify\<close> with \<open>maxTokenAge\<close>: the age of the token, in whole
  seconds, lies within the window.
\<close>

definition iat_window :: "ext \<Rightarrow> bool" where
  "iat_window X \<longleftrightarrow> (\<forall>now tok key vo claims m tol i.
     jwtVerify X now tok key vo = Inr claims \<longrightarrow> vo_maxTokenAge vo = Some (Fin m) \<longrightarrow>
     vo_clockTolerance vo = Some (Fin tol) \<longrightarrow> oget claims ''iat'' = Some (JNum (Fin i)) \<longrightarrow>
     of_int (now div 1000) - i \<le> m + tol \<and> i - of_int (now div 1000) \<le> tol)"

lemma accepted_age:
  assumes "iat_window X" "dpop_maxTokenAge D = Fin m" "dpop_clockTolerance D = Fin tol"
    and "verify_proof_at X D now jwt ctx = Inr v" "vp_iat v = Fin i"
  shows "of_int now \<le> 1000 * (i + m + tol) + 999"
  using assms(4)
proof (rule verify_proof_at_Inr)
  fix h proofAlg jwk key claims p
  assume j: "jwtVerify X now jwt key (dpop_verify_options D proofAlg) = Inr claims"
    and p: "parseDpopProofPayload claims = Inr p" and iat: "vp_iat v = pp_iat p"
  have "oget claims ''iat'' = Some (JNum (Fin i))"
    using parseDpopProofPayload_Inr [OF p] iat assms(5) by simp
  then have a: "of_int (now div 1000) - i \<le> m + tol"
    using assms(1-3) j
    by (auto simp: iat_window_def dpop_verify_options_def)
  have "now = 1000 * (now div 1000) + now mod 1000" by simp
  moreover have "now mod 1000 \<le> 999" using pos_mod_bound [of 1000 now] by linarith
  ultimately have "now \<le> 1000 * (now div 1000) + 999" by linarith
  then have "(of_int now :: rat) \<le> of_int (1000 * (now div 1000) + 999)" by (simp only: of_int_le_iff)
  then have "(of_int now :: rat) \<le> 1000 * of_int (now div 1000) + 999" by simp
  with a show ?thesis by (simp add: algebra_simps)
qed

subsection \<open>Properties\<close>

text \<open>C13. A DPoP proof first used at least a second (and the time between the verification and the
  jti check) after its \<open>iat\<close> is not accepted a second time: as long as jose still accepts
  it, its jti is held, whatever other proofs are recorded in between.\<close>

theorem dpop_proof_no_replay:
  assumes jose: "iat_window X"
    and ages: "dpop_maxTokenAge D = Fin m" "dpop_clockTolerance D = Fin tol"
    and first: "dpop_saveIfAbsent t1 (jwkThumbprint v) (vp_jti v) (Some (proofJtiTtlMs D)) st = (Inr True, st1)"
    and iat: "vp_iat v = Fin i" "1000 * i + 999 + of_int d \<le> of_int t1"
    and between: "st2 = jti.run qs st1" "\<forall>(now, k, ttl) \<in> set qs. of_int now \<le> of_int t1 + 1000 * (m + tol)"
    and again: "verify_proof_at X D now2 jwt ctx = Inr v" "t2 \<le> now2 + d"
  shows "fst (dpop_saveIfAbsent t2 (jwkThumbprint v) (vp_jti v) (Some (proofJtiTtlMs D)) st2) = Inr False"
proof -
  let ?k = "dpop_jti_key (jwkThumbprint v) (vp_jti v)"
  let ?e = "Fin (of_int t1 + 1000 * (m + tol))"
  have "fst (jti_admit t1 ?k (proofJtiTtlMs D) st)" "st1 = snd (jti_admit t1 ?k (proofJtiTtlMs D) st)"
    using first by (auto simp: dpop_saveIfAbsent_admit)
  then have "st1 ?k = Some ?e"
    by (auto dest!: jti.admit_records simp: proofJtiTtlMs_def ages)
  moreover have "\<not> lapsed now ?e" if "of_int now \<le> (of_int t1 :: rat) + 1000 * (m + tol)" for now
    using that by (simp add: lapsed_def)
  ultimately have held: "st2 ?k = Some ?e"
    unfolding between(1) using between(2) by (intro jti.held_run) fastforce+
  have "of_int now2 \<le> 1000 * (i + m + tol) + 999"
    using jose ages again(1) iat(1) by (rule accepted_age)
  moreover have "(of_int t2 :: rat) \<le> of_int now2 + of_int d"
    using again(2) by (metis of_int_add of_int_le_iff)
  ultimately have "of_int t2 \<le> of_int t1 + 1000 * (m + tol)"
    using iat(2) by (simp add: algebra_simps)
  then have "\<not> lapsed t2 ?e" by (simp add: lapsed_def)
  with held have "\<not> fst (jti_admit t2 ?k (proofJtiTtlMs D) st2)" by (simp add: jti.admit_result)
  then show ?thesis by (simp add: dpop_saveIfAbsent_admit)
qed

text \<open>
  A concrete instance of the parameters: proofs with a given \<open>iat\<close>, and jose's check of the
  age written out.
\<close>

definition within_window :: "int \<Rightarrow> verify_options \<Rightarrow> rat \<Rightarrow> bool" where
  "within_window now vo i =
     (case (vo_maxTokenAge vo, vo_clockTolerance vo) of
        (Some (Fin m), Some (Fin tol)) \<Rightarrow>
          of_int (now div 1000) - i \<le> m + tol \<and> i - of_int (now div 1000) \<le> tol
      | _ \<Rightarrow> True)"

definition proof_claims :: "rat \<Rightarrow> obj" where
  "proof_claims i = [(''jti'', JStr ''j1''), (''iat'', JNum (Fin i)), (''htm'', JStr ''POST''), (''htu'', JStr ''u'')]"

definition ext_proofs :: "rat \<Rightarrow> ext" where
  "ext_proofs i = ext0
     \<lparr>decodeProtectedHeader := (\<lambda>t. Inr [(''alg'', JStr ''ES256''), (''typ'', JStr ''dpop+jwt''),
        (''jwk'', JObj [(''kty'', JStr ''EC'')])]),
      jwtVerify := (\<lambda>now t k vo. if within_window now vo i then Inr (proof_claims i) else Inl (JsError ''age''))\<rparr>"

definition demo_ctx :: DPoPProofVerifyContext where
  "demo_ctx = \<lparr>htm = ''post'', htu = ''u'', ctx_nonce = None, ctx_accessToken = None\<rparr>"

definition demo_proof :: "rat \<Rightarrow> VerifiedDpopProof" where
  "demo_proof i = \<lparr>jwkThumbprint = ''thumb'', vp_jti = ''j1'', vp_iat = Fin i, vp_nonce = None\<rparr>"

lemma ext_proofs_window: "iat_window (ext_proofs i)"
  by (auto simp: iat_window_def ext_proofs_def within_window_def proof_claims_def split: if_splits)

lemma demo_alg: "\<not> isProhibitedAlg ''ES256''"
  by code_simp

lemma demo_upper: "js_upper ''post'' = ''POST''"
  by code_simp

lemma demo_verify:
  "within_window now (dpop_verify_options D ''ES256'') i \<Longrightarrow>
     verify_proof_at (ext_proofs i) D now ''p'' demo_ctx = Inr (demo_proof i)"
  by (simp add: verify_proof_at_def ext_proofs_def ext0_def dpop_header_checks_def demo_alg
      DPOP_PROOF_TYP_def ohas_def proof_claims_def parseDpopProofPayload_def req_str_def req_num_def
      opt_field_def dpop_claim_checks_def demo_ctx_def demo_upper normalizeHtu_def Let_def demo_proof_def)

lemma demo_window:
  "within_window now (dpop_verify_options default_dpop_options ''ES256'') i \<longleftrightarrow>
     of_int (now div 1000) - i \<le> 360 \<and> i - of_int (now div 1000) \<le> 60"
  by (simp add: within_window_def dpop_verify_options_def dpop_maxTokenAge_def dpop_clockTolerance_def
      default_dpop_options_def DEFAULT_DPOP_PROOF_MAX_TOKEN_AGE_SECONDS_def
      DEFAULT_DPOP_PROOF_CLOCK_TOLERANCE_SECONDS_def)

lemma demo_ages:
  "dpop_maxTokenAge default_dpop_options = Fin 300" "dpop_clockTolerance default_dpop_options = Fin 60"
  by (simp_all add: dpop_maxTokenAge_def dpop_clockTolerance_def default_dpop_options_def
      DEFAULT_DPOP_PROOF_MAX_TOKEN_AGE_SECONDS_def DEFAULT_DPOP_PROOF_CLOCK_TOLERANCE_SECONDS_def)

definition demo_jtis :: jti_store where
  "demo_jtis = snd (dpop_saveIfAbsent 1000 ''thumb'' ''j1'' (Some (proofJtiTtlMs default_dpop_options)) (\<lambda>_. None))"

theorem dpop_proof_no_replay_witness:
  "fst (dpop_saveIfAbsent 360999 ''thumb'' ''j1'' (Some (proofJtiTtlMs default_dpop_options)) demo_jtis) = Inr False"
  using dpop_proof_no_replay [of "ext_proofs 0" default_dpop_options 300 60 1000 "demo_proof 0" "\<lambda>_. None" demo_jtis 0 1
      demo_jtis "[]" 360998 "''p''" demo_ctx 360999]
  by (simp add: ext_proofs_window demo_ages demo_verify demo_window demo_jtis_def dpop_saveIfAbsent_admit
      jti_admit_def cleanupExpired_def Let_def demo_proof_def)

text \<open>With the default options the retention is shorter than the acceptance window: a proof
  whose \<open>iat\<close> is 60 seconds ahead of the server's clock is accepted at time 0 and, with the
  very same jti, accepted and admitted again one millisecond after 360 seconds, when the
  store has dropped the jti and jose still accepts the proof.\<close>

theorem dpop_replay_gap:
  "iat_window (ext_proofs 60) \<and>
   verify_proof_at (ext_proofs 60) default_dpop_options 0 ''p'' demo_ctx = Inr (demo_proof 60) \<and>
   verify_proof_at (ext_proofs 60) default_dpop_options 360001 ''p'' demo_ctx = Inr (demo_proof 60) \<and>
   (case dpop_saveIfAbsent 0 ''thumb'' ''j1'' (Some (proofJtiTtlMs default_dpop_options)) (\<lambda>_. None) of
      (r1, st1) \<Rightarrow> r1 = Inr True \<and>
        fst (dpop_saveIfAbsent 360001 ''thumb'' ''j1'' (Some (proofJtiTtlMs default_dpop_options)) st1) = Inr True)"
  by (simp add: ext_proofs_window demo_verify demo_window dpop_saveIfAbsent_admit jti_admit_def
      cleanupExpired_def Let_def proofJtiTtlMs_def demo_ages)

end
