(* ===== verification/Issuer_Safety.thy ===== *)
theory Issuer_Safety
  imports Issuer_Flow Authz_Access Dpop_Replay
begin

text \<open>
  What the issuer guarantees: which requests get a credential, what an offer puts in the
  code store, the shape of transaction codes, and what concurrent key creation does.
\<close>

subsection \<open>Which parts of the state the steps write\<close>

lemma preserves_credential_id [preserves_intros]:
  "(\<And>w c. p (w\<lparr>w_rnd := c\<rparr>) = p w) \<Longrightarrow> preserves p (credential_id P i)"
  unfolding credential_id_def by (intro preserves_intros)

lemma preserves_issuer_kid [preserves_intros]:
  "(\<And>s w. p (w_issuer_keys_update (\<lambda>_. s) w) = p w) \<Longrightarrow> preserves p (issuer_kid X i c a)"
  unfolding issuer_kid_def by (intro preserves_intros)

lemma preserves_sign_credential [preserves_intros]:
  "(\<And>w c. p (w\<lparr>w_rnd := c\<rparr>) = p w) \<Longrightarrow> (\<And>s w. p (w_issuer_keys_update (\<lambda>_. s) w) = p w) \<Longrightarrow>
     preserves p (sign_credential X i a pl h)"
  unfolding sign_credential_def by (intro preserves_intros)

lemma preserves_createCredential_jwt [preserves_intros]:
  "(\<And>w c. p (w\<lparr>w_clk := c\<rparr>) = p w) \<Longrightarrow> (\<And>w c. p (w\<lparr>w_rnd := c\<rparr>) = p w) \<Longrightarrow>
     (\<And>s w. p (w_issuer_keys_update (\<lambda>_. s) w) = p w) \<Longrightarrow> preserves p (createCredential_jwt X P i c opts)"
  unfolding createCredential_jwt_def by (intro preserves_intros)

lemma preserves_createCredential_sd_jwt [preserves_intros]:
  "(\<And>w c. p (w\<lparr>w_clk := c\<rparr>) = p w) \<Longrightarrow> (\<And>w c. p (w\<lparr>w_rnd := c\<rparr>) = p w) \<Longrightarrow>
     (\<And>s w. p (w_issuer_keys_update (\<lambda>_. s) w) = p w) \<Longrightarrow> preserves p (createCredential_sd_jwt X i c opts)"
  unfolding createCredential_sd_jwt_def createDisclosures_def by (intro preserves_intros)

subsection \<open>Issuance\<close>

lemma requested_configuration_Inr:
  assumes "requested_configuration metadata request options w = (Inr conf, w')"
  obtains configId e where
    "credential_identifier request = None" "credential_configuration_id request = Some configId"
    "configuration_of metadata configId = Some conf"
    "w_allowed w (allowedCredentialConfigurationKey (authorizationContext options)) = Some e"
    "allowed_expires_at e = 0 \<or> w_clk w 0 \<le> allowed_expires_at e" "configId \<in> set (allowed_ids e)"
    "w' = w\<lparr>w_clk := shift (w_clk w)\<rparr>"
  using assms
  by (auto simp: requested_configuration_def run_simps Let_def on_allowed_def allowed_fetch_def
      split: if_splits option.splits)

lemma check_proof_nonce_Inr:
  assumes "check_proof_nonce options v w = (Inr u, w')"
    and "cnonce options \<noteq> None" and "pb_nonce (proof_payload v) = Some n"
  shows "nonce_valid (w_clk w 0) (w_nonces w) n \<and> w_nonces w' = (w_nonces w)(n := None)"
  using assms
  by (auto simp: check_proof_nonce_def run_simps validateNonce_def revokeNonce_def on_nonces_def nonce_runs
      lookup_nonce_def split: if_splits sum.splits)

text \<open>The last proof of the list, with the states around it.\<close>

lemma verify_proofs_Inr:
  assumes "verify_proofs X F metadata options ty v0 pvs w = (Inr (Some v), w')"
  shows "(pvs = [] \<and> v0 = Some v \<and> w' = w) \<or>
    (\<exists>pv w1 w2 u. pv \<in> set pvs \<and>
       verifyCredentialProof X F pv (proof_context metadata options ty) w1 = (Inr v, w2) \<and>
       check_proof_nonce options v w2 = (Inr u, w'))"
  using assms
proof (induction pvs arbitrary: v0 w)
  case (Cons pv pvs)
  obtain v1 w1 u w2 where 1: "verifyCredentialProof X F pv (proof_context metadata options ty) w = (Inr v1, w1)"
      "check_proof_nonce options v1 w1 = (Inr u, w2)"
      "verify_proofs X F metadata options ty (Some v1) pvs w2 = (Inr (Some v), w')"
    using Cons.prems by (auto simp: bindM_Inr thenM_Inr)
  from Cons.IH [OF 1(3)] 1(1,2) show ?case by auto
qed (simp add: ret_Inr)

lemma issueCredential_Inr:
  assumes "issueCredential X debug F P issuer request options w = (Inr cs, w')"
  obtains metadata conf v w1 w2 c copts where
    "w_issuer_metadata w issuer = Some metadata"
    "rejectInsecureIssuerMetadata X debug (Some metadata) = Inr ()"
    "requested_configuration metadata request options w = (Inr conf, w1)"
    "request_proof X F metadata conf options (request_proofs request) w1 = (Inr (Some v), w2)"
    "copts = \<lparr>ic_claims = issue_claims options,
       ic_subject = orElse (map_option JStr (issue_subject options)) (oget (proof_header v) ''kid''),
       ic_keyAlg = Some (getOr ''ES256'' (issue_alg options)),
       ic_proofHeader = Some (proof_header v), ic_nonDisclosableClaims = None\<rparr>"
    "createCredential_jwt X P issuer conf copts w2 = (Inr c, w') \<or>
     createCredential_sd_jwt X issuer conf copts w2 = (Inr c, w')"
    "cs = [c]"
proof -
  have run: "on_issuer_metadata (issuer_metadata_fetch issuer) w = (Inr (w_issuer_metadata w issuer), w)"
    by (simp add: on_issuer_metadata_def run_simps issuer_metadata_fetch_def)
  obtain metadata where m: "w_issuer_metadata w issuer = Some metadata"
    using assms
    by (cases "w_issuer_metadata w issuer") (auto simp: issueCredential_def bindM_run run raise_run split: if_splits)
  obtain conf w1 provider verified w2 where 1:
      "rejectInsecureIssuerMetadata X debug (Some metadata) = Inr ()"
      "requested_configuration metadata request options w = (Inr conf, w1)"
      "request_proof X F metadata conf options (request_proofs request) w1 = (Inr verified, w2)"
      "(case verified of
               None \<Rightarrow> raise ''invalid_proof'' ''Proof is required to issue credential.''
             | Some v \<Rightarrow>
                 let copts = \<lparr>ic_claims = issue_claims options,
                       ic_subject = orElse (map_option JStr (issue_subject options)) (oget (proof_header v) ''kid''),
                       ic_keyAlg = Some (getOr ''ES256'' (issue_alg options)),
                       ic_proofHeader = Some (proof_header v), ic_nonDisclosableClaims = None\<rparr>
                 in bindM (if provider = ''jwt_vc_json'' then createCredential_jwt X P issuer conf copts
                           else createCredential_sd_jwt X issuer conf copts)
                      (\<lambda>c. ret [c])) w2 = (Inr cs, w')"
    using assms
    by (simp add: issueCredential_def bindM_run [where m = "on_issuer_metadata m" for m] run m if_Inr raise_Inr
        bindM_Inr thenM_Inr liftE_Inr split: if_splits) blast+
  obtain v where v: "verified = Some v" using 1(4) by (cases verified) (simp_all add: raise_Inr)
  let ?copts = "\<lparr>ic_claims = issue_claims options,
     ic_subject = orElse (map_option JStr (issue_subject options)) (oget (proof_header v) ''kid''),
     ic_keyAlg = Some (getOr ''ES256'' (issue_alg options)),
     ic_proofHeader = Some (proof_header v), ic_nonDisclosableClaims = None\<rparr>"
  obtain c where "createCredential_jwt X P issuer conf ?copts w2 = (Inr c, w') \<or>
      createCredential_sd_jwt X issuer conf ?copts w2 = (Inr c, w')" "cs = [c]"
    using 1(4) by (auto simp: v Let_def bindM_Inr ret_Inr split: if_splits)
  then show ?thesis by (rule that [OF m 1(1,2) 1(3) [unfolded v] refl])
qed

lemma issueCredential_grounds:
  assumes "issueCredential X debug F P issuer request options w = (Inr cs, w')"
  shows "\<exists>metadata configId conf e ps ty pvs pv v w1 w2 w3.
    w_issuer_metadata w issuer = Some metadata \<and>
    credential_configuration_id request = Some configId \<and> configuration_of metadata configId = Some conf \<and>
    w_allowed w (allowedCredentialConfigurationKey (authorizationContext options)) = Some e \<and>
    configId \<in> set (allowed_ids e) \<and> (allowed_expires_at e = 0 \<or> w_clk w 0 \<le> allowed_expires_at e) \<and>
    request_proofs request = Some ps \<and> getProofType ps = ProofsObjects ty pvs \<and> pv \<in> set pvs \<and>
    ty \<in> set (map fst (getOr [] (proof_types_supported conf))) \<and>
    verifyCredentialProof X F pv (proof_context metadata options ty) w1 = (Inr v, w2) \<and>
    (\<forall>n. cnonce options \<noteq> None \<and> pb_nonce (proof_payload v) = Some n \<longrightarrow>
       nonce_valid (w_clk w2 0) (w_nonces w2) n \<and> w_nonces w' n = None) \<and>
    (\<exists>c. cs = [c])"
  using assms
proof (rule issueCredential_Inr)
  fix metadata conf v w1 w2 c copts
  assume m: "w_issuer_metadata w issuer = Some metadata"
    and rc: "requested_configuration metadata request options w = (Inr conf, w1)"
    and rp: "request_proof X F metadata conf options (request_proofs request) w1 = (Inr (Some v), w2)"
    and cr: "createCredential_jwt X P issuer conf copts w2 = (Inr c, w') \<or>
       createCredential_sd_jwt X issuer conf copts w2 = (Inr c, w')"
    and cs: "cs = [c]"
  obtain configId e where req: "credential_configuration_id request = Some configId"
      "configuration_of metadata configId = Some conf"
      "w_allowed w (allowedCredentialConfigurationKey (authorizationContext options)) = Some e"
      "allowed_expires_at e = 0 \<or> w_clk w 0 \<le> allowed_expires_at e" "configId \<in> set (allowed_ids e)"
    using rc by (rule requested_configuration_Inr)
  obtain ps ty pvs where ps: "request_proofs request = Some ps" "getProofType ps = ProofsObjects ty pvs"
      "ty \<in> set (map fst (getOr [] (proof_types_supported conf)))"
      "verify_proofs X F metadata options ty None pvs w1 = (Inr (Some v), w2)"
    using rp
    by (auto simp: request_proof_def bindM_Inr liftE_Inr raise_Inr ret_Inr simp del: set_map
        split: option.splits proofsObjects.splits if_splits)
  obtain pv w3 w4 u where pv: "pv \<in> set pvs"
      "verifyCredentialProof X F pv (proof_context metadata options ty) w3 = (Inr v, w4)"
      "check_proof_nonce options v w4 = (Inr u, w2)"
    using verify_proofs_Inr [OF ps(4)] by blast
  have "preserves w_nonces (createCredential_jwt X P issuer conf copts)"
      "preserves w_nonces (createCredential_sd_jwt X issuer conf copts)"
    by (intro preserves_intros; simp)+
  then have "w_nonces w' = w_nonces w2" using cr by (auto dest: preservesD)
  then have "nonce_valid (w_clk w4 0) (w_nonces w4) n \<and> w_nonces w' n = None"
    if "cnonce options \<noteq> None" "pb_nonce (proof_payload v) = Some n" for n
    using check_proof_nonce_Inr [OF pv(3) that] by simp
  with m req ps pv cs show ?thesis by blast
qed

text \<open>A credential is issued only for a configuration of the issuer that was recorded for the
  presented access token and has not expired, and only after a proof of the request
  verified for this issuer and client; when nonces are in use and the proof carried
  one, it was a valid one and cannot be used again.\<close>

theorem credential_only_for_token:
  assumes "issueCredential X debug F P issuer request options w = (Inr cs, w')"
  shows "\<exists>metadata configId conf e ps ty pvs pv v w1 w2 w3.
    w_issuer_metadata w issuer = Some metadata \<and>
    credential_configuration_id request = Some configId \<and> configuration_of metadata configId = Some conf \<and>
    w_allowed w (allowedCredentialConfigurationKey (authorizationContext options)) = Some e \<and>
    configId \<in> set (allowed_ids e) \<and> (allowed_expires_at e = 0 \<or> w_clk w 0 \<le> allowed_expires_at e) \<and>
    request_proofs request = Some ps \<and> getProofType ps = ProofsObjects ty pvs \<and> pv \<in> set pvs \<and>
    ty \<in> set (map fst (getOr [] (proof_types_supported conf))) \<and>
    verifyCredentialProof X F pv (proof_context metadata options ty) w1 = (Inr v, w2) \<and>
    (\<forall>n. cnonce options \<noteq> None \<and> pb_nonce (proof_payload v) = Some n \<longrightarrow>
       nonce_valid (w_clk w2 0) (w_nonces w2) n \<and> w_nonces w' n = None) \<and>
    (\<exists>c. cs = [c])"
  using assms by (rule issueCredential_grounds)

subsection \<open>Offers and transaction codes\<close>

lemma digits_pow10: "10 ^ k \<le> n \<Longrightarrow> n < 10 ^ Suc k \<Longrightarrow> length (show_nat n) = Suc k"
proof (induction k arbitrary: n)
  case 0
  then show ?case by (subst show_nat.simps) simp
next
  case (Suc k)
  have "length (show_nat (n div 10)) = Suc k"
    by (rule Suc.IH) (use Suc.prems in \<open>simp_all add: less_eq_div_iff_mult_less_eq div_less_iff_less_mult\<close>)
  moreover have "1 \<le> (10::nat) ^ k" by simp
  then have "10 \<le> n" using Suc.prems(1) unfolding power_Suc by linarith
  then have "\<not> n < 10" by simp
  ultimately show ?case by (subst show_nat.simps) simp
qed

lemma tx_code_chars_length: "length TEXT_TX_CODE_CHARS = 57"
  by (simp add: TEXT_TX_CODE_CHARS_def)

lemma mapM_chars:
  assumes "mapM (\<lambda>_. bindM (randomInt 0 (length TEXT_TX_CODE_CHARS)) (\<lambda>i. ret (TEXT_TX_CODE_CHARS ! i))) xs w = (Inr s, w')"
  shows "length s = length xs \<and> set s \<subseteq> set TEXT_TX_CODE_CHARS"
  using assms
proof (induction xs arbitrary: w s)
  case (Cons x xs)
  then show ?case
    by (fastforce simp: inr_simps randomInt_def tx_code_chars_length)
qed (simp add: ret_Inr)

text \<open>What a transaction code looks like to the user.\<close>

definition tx_code_shape :: "tx_mode option \<Rightarrow> int option \<Rightarrow> tx_code \<Rightarrow> bool" where
  "tx_code_shape mode len t \<longleftrightarrow>
     (case t of
        TxStr s \<Rightarrow> mode = Some Text \<and> int (length s) = getOr 6 len \<and> set s \<subseteq> set TEXT_TX_CODE_CHARS
      | TxNum n \<Rightarrow> mode \<noteq> Some Text \<and>
          (\<exists>d. toDigitString t = Some d \<and> int (length d) = getOr 6 len \<and> list_all is_digit d))"

lemma pow10_safe: "k \<le> 9 \<Longrightarrow> (10::nat) ^ k \<le> 10 ^ 9"
  by (rule power_increasing) simp_all

lemma transactionCode_generate_shape:
  "(case fst (transactionCode_generate mode len descr w) of
      Inr t \<Rightarrow> 4 \<le> getOr 6 len \<and> getOr 6 len \<le> 9 \<and> length (getOr [] descr) \<le> 300 \<and> tx_code_shape mode len t
    | Inl e \<Rightarrow> (getOr 6 len < 4 \<or> 9 < getOr 6 len \<or> 300 < length (getOr [] descr)) \<and>
        (\<exists>m. e = err ''invalid_tx_code_options'' m))"
proof (cases "getOr 6 len < 4 \<or> 9 < getOr 6 len \<or> 300 < length (getOr [] descr)")
  case True
  then show ?thesis
    by (auto simp: transactionCode_generate_def Let_def MIN_TX_CODE_LENGTH_def MAX_TX_CODE_LENGTH_def run_simps)
next
  case False
  define l where "l = nat (getOr 6 len)"
  have l: "4 \<le> l" "l \<le> 9" "int l = getOr 6 len" using False by (auto simp: l_def)
  show ?thesis
  proof (cases "mode = Some Text")
    case True
    obtain r w1 where m: "mapM (\<lambda>_. bindM (randomInt 0 (length TEXT_TX_CODE_CHARS)) (\<lambda>i. ret (TEXT_TX_CODE_CHARS ! i)))
        [0..<l] w = (r, w1)" by fastforce
    have "\<exists>s. r = Inr s"
    proof -
      have "\<exists>s. fst (mapM (\<lambda>_. bindM (randomInt 0 (length TEXT_TX_CODE_CHARS)) (\<lambda>i. ret (TEXT_TX_CODE_CHARS ! i)))
          xs w) = Inr s" for xs :: "nat list" and w
        by (induction xs arbitrary: w) (auto simp: run_simps randomInt_def split: prod.splits sum.splits, (metis Inl_Inr_False fst_conv)+)
      then show ?thesis using m by (metis fst_conv)
    qed
    then obtain s where s: "r = Inr s" by blast
    have run: "transactionCode_generate mode len descr w = (Inr (TxStr s), w1)"
      using False True m s
      by (simp add: transactionCode_generate_def Let_def MIN_TX_CODE_LENGTH_def MAX_TX_CODE_LENGTH_def run_simps l_def)
    show ?thesis
      using False True l mapM_chars [OF m [unfolded s]] unfolding run by (simp add: tx_code_shape_def)
  next
    case num: False
    define n where "n = 10 ^ (l - 1) + entropy_nat (w_rnd w 0) mod (10 ^ l - 10 ^ (l - 1))"
    have pw: "(10::nat) ^ (l - 1) < 10 ^ l" using l(1) by (intro power_strict_increasing) simp_all
    have lo: "10 ^ (l - 1) \<le> n" by (simp add: n_def)
    have "entropy_nat (w_rnd w 0) mod (10 ^ l - 10 ^ (l - 1)) < 10 ^ l - 10 ^ (l - 1)"
      using pw by (intro mod_less_divisor) simp
    then have hi: "n < 10 ^ l" unfolding n_def using pw by linarith
    have sl: "Suc (l - 1) = l" using l(1) by simp
    have len: "length (show_nat n) = l" using digits_pow10 [of "l - 1" n] lo hi sl by simp
    have "n < 10 ^ 9" using hi pow10_safe [OF l(2)] by linarith
    then have safe: "int n \<le> MAX_SAFE_INTEGER" by (simp add: MAX_SAFE_INTEGER_def)
    have ds: "toDigitString (TxNum (Fin (of_nat n))) = Some (show_nat n)"
      using safe by (simp add: of_rat_floor floor_of_nat)
    have run: "transactionCode_generate mode len descr w = (Inr (TxNum (Fin (of_nat n))), w\<lparr>w_rnd := shift (w_rnd w)\<rparr>)"
      using False num
      by (simp add: transactionCode_generate_def Let_def MIN_TX_CODE_LENGTH_def MAX_TX_CODE_LENGTH_def run_simps
          randomInt_def l_def n_def)
    show ?thesis
      using False num l len ds show_nat_digits [of n]
      by (simp add: run tx_code_shape_def list_all_iff del: toDigitString.simps)
  qed
qed

text \<open>Transaction codes: a request with a length outside 4 to 9 or a description of more than 300
  characters is refused; otherwise a text code has the requested length and only
  characters that cannot be confused, and a numeric code prints as exactly that many
  digits, whatever the randomness.\<close>

theorem transaction_code_shape:
  "(case fst (transactionCode_generate mode len descr w) of
      Inr t \<Rightarrow> 4 \<le> getOr 6 len \<and> getOr 6 len \<le> 9 \<and> length (getOr [] descr) \<le> 300 \<and> tx_code_shape mode len t
    | Inl e \<Rightarrow> (getOr 6 len < 4 \<or> 9 < getOr 6 len \<or> 300 < length (getOr [] descr)) \<and>
        (\<exists>m. e = err ''invalid_tx_code_options'' m))"
  by (rule transactionCode_generate_shape)

lemma offer_checks_Inr:
  "offer_checks metadata configs a = Inr u \<Longrightarrow>
     distinct configs \<and> (\<forall>i \<in> set configs. configuration_of metadata i \<noteq> None) \<and>
     (opt_str a \<longrightarrow> (\<exists>ss. authorization_servers metadata = Some ss \<and> 1 < length ss \<and> getOr [] a \<in> set ss))"
  by (auto simp: offer_checks_def list_ex_iff split: if_splits option.splits)

lemma transactionCode_generate_world:
  assumes "transactionCode_generate m l d w = (r, w')"
  shows "\<exists>rnd. w' = w\<lparr>w_rnd := rnd\<rparr>"
proof -
  let ?p = "\<lambda>w. w\<lparr>w_rnd := undefined\<rparr>"
  have "preserves ?p (transactionCode_generate m l d)"
    unfolding transactionCode_generate_def randomInt_def by (intro preserves_intros) simp_all
  then have "?p w' = ?p w" using assms by (rule preservesD)
  then have "w'\<lparr>w_rnd := w_rnd w'\<rparr> = w\<lparr>w_rnd := w_rnd w'\<rparr>"
    by (metis world.surjective world.update_convs(19))
  then show ?thesis by (metis world.surjective world.update_convs(19))
qed

text \<open>What a successful offer wrote.\<close>

lemma offerCredential_Inr:
  assumes "offerCredential X debug issuer configs (Some (OfferPreAuth tc ttl a)) w = (Inr r, w')"
  obtains metadata c st where
    "w_issuer_metadata w issuer = Some metadata" "offer_checks metadata configs a = Inr ()"
    "(case tc of None \<Rightarrow> or_tx_code r = None
      | Some t \<Rightarrow> \<exists>x. or_tx_code r = Some x \<and> tx_code_shape (tc_input_mode t) (tc_length t) x)"
    "pac_save (w_clk w 0) c configs (or_tx_code r)
       \<lparr>so_ttlSec = ttl, so_mode = (case tc of None \<Rightarrow> None | Some t \<Rightarrow> tc_input_mode t)\<rparr> (w_pac w) = (Inr (), w_pac w')"
    "credentialOffer_create metadata configs (CreatePreAuth c tc a) = Inr (or_offer r)"
proof -
  have run: "on_issuer_metadata (issuer_metadata_fetch issuer) w = (Inr (w_issuer_metadata w issuer), w)"
    by (simp add: on_issuer_metadata_def run_simps issuer_metadata_fetch_def)
  obtain metadata where m: "w_issuer_metadata w issuer = Some metadata"
    using assms by (cases "w_issuer_metadata w issuer") (auto simp: offerCredential_def bindM_run run raise_run)
  let ?gen = "case tc of None \<Rightarrow> ret None
     | Some t \<Rightarrow> bindM (transactionCode_generate (tc_input_mode t) (tc_length t) (tc_description t)) (\<lambda>c. ret (Some c))"
  obtain tx w1 where g: "?gen w = (Inr tx, w1)" "offer_checks metadata configs a = Inr ()"
    using assms
    by (auto simp: offerCredential_def bindM_run [where m = "on_issuer_metadata m" for m] run m bindM_Inr thenM_Inr liftE_Inr)
  obtain rnd where w1: "w1 = w\<lparr>w_rnd := rnd\<rparr>"
  proof (cases tc)
    case None
    then show ?thesis using g that [of "w_rnd w"] by (simp add: ret_Inr)
  next
    case (Some t)
    then show ?thesis using g that transactionCode_generate_world by (fastforce simp: bindM_Inr ret_Inr)
  qed
  have shape: "case tc of None \<Rightarrow> tx = None
      | Some t \<Rightarrow> \<exists>x. tx = Some x \<and> tx_code_shape (tc_input_mode t) (tc_length t) x"
  proof (cases tc)
    case None
    then show ?thesis using g by (simp add: ret_Inr)
  next
    case (Some t)
    then obtain x where "transactionCode_generate (tc_input_mode t) (tc_length t) (tc_description t) w = (Inr x, w1)"
        "tx = Some x" using g by (auto simp: bindM_Inr ret_Inr)
    with transactionCode_generate_shape [where mode = "tc_input_mode t" and len = "tc_length t" and descr = "tc_description t" and w = w] Some
    show ?thesis by simp
  qed
  define c where "c = strip_dashes (w_rnd w1 0)"
  have facts: "pac_save (w_clk w 0) c configs tx
       \<lparr>so_ttlSec = ttl, so_mode = (case tc of None \<Rightarrow> None | Some t \<Rightarrow> tc_input_mode t)\<rparr> (w_pac w) = (Inr (), w_pac w')"
    "credentialOffer_create metadata configs (CreatePreAuth c tc a) = Inr (or_offer r)" "or_tx_code r = tx"
    using assms g
    by (auto simp: offerCredential_def bindM_run [where m = "on_issuer_metadata m" for m] run m bindM_Inr thenM_Inr liftE_Inr
        preAuthorizedCode_generate_def fresh_Inr ret_Inr timed_def now_ms_Inr on_pac_def zoom_Inr c_def w1)
  show ?thesis using that [of metadata c] m g(2) shape facts by (simp split: option.splits)
qed

lemma toDigitString_idem: "toDigitString x = Some d \<Longrightarrow> toDigitString (TxStr d) = Some d"
  by (cases x rule: toDigitString.cases) (auto simp: list_all_iff show_nat_digits split: if_splits)

text \<open>C31. From the offer to the token: an offer lists distinct configurations of the issuer and
  carries a code, and until the time to live has passed that code, presented with the
  transaction code that the offer returned, yields exactly the offered configurations;
  a code that comes with a transaction code is refused without one.\<close>

theorem offer_redeemable:
  assumes "offerCredential X debug issuer configs (Some (OfferPreAuth tc ttl a)) w = (Inr r, w')" and "0 < limit"
  shows "\<exists>metadata c grant.
    w_issuer_metadata w issuer = Some metadata \<and> distinct configs \<and>
    (\<forall>i \<in> set configs. configuration_of metadata i \<noteq> None) \<and>
    offer_issuer (or_offer r) = credential_issuer metadata \<and> offer_configuration_ids (or_offer r) = configs \<and>
    offer_grants (or_offer r) =
      Some \<lparr>authorization_code_grant = None, pre_authorized_code_grant = Some grant\<rparr> \<and>
    pre_authorized_code grant = c \<and> (or_tx_code r = None \<longleftrightarrow> tc = None) \<and>
    (\<forall>now. now \<le> w_clk w 0 + ttl_sec ttl * 1000 \<longrightarrow>
       fst (pac_consume limit now c (or_tx_code r) (w_pac w')) = Inr configs \<and>
       (tc \<noteq> None \<longrightarrow> (\<exists>e. fst (pac_consume limit now c None (w_pac w')) = Inl e)))"
  using assms(1)
proof (rule offerCredential_Inr)
  fix metadata c
  assume m: "w_issuer_metadata w issuer = Some metadata" and ck: "offer_checks metadata configs a = Inr ()"
    and sh: "case tc of None \<Rightarrow> or_tx_code r = None
      | Some t \<Rightarrow> \<exists>x. or_tx_code r = Some x \<and> tx_code_shape (tc_input_mode t) (tc_length t) x"
    and sv: "pac_save (w_clk w 0) c configs (or_tx_code r)
       \<lparr>so_ttlSec = ttl, so_mode = (case tc of None \<Rightarrow> None | Some t \<Rightarrow> tc_input_mode t)\<rparr> (w_pac w) = (Inr (), w_pac w')"
    and cr: "credentialOffer_create metadata configs (CreatePreAuth c tc a) = Inr (or_offer r)"
  have none: "or_tx_code r = None \<longleftrightarrow> tc = None" using sh by (auto split: option.splits)
  let ?o = "\<lparr>so_ttlSec = ttl, so_mode = (case tc of None \<Rightarrow> None | Some t \<Rightarrow> tc_input_mode t)\<rparr>"
  have sv1: "fst (pac_save (w_clk w 0) c configs (or_tx_code r) ?o (w_pac w)) = Inr ()"
    and sv2: "w_pac w' c = snd (pac_save (w_clk w 0) c configs (or_tx_code r) ?o (w_pac w)) c"
    using sv by simp_all
  obtain e where e: "w_pac w' c = Some e" "pe_ids e = configs" "pe_attempts e = None"
      "pe_expires_at e = Some (w_clk w 0 + ttl_sec ttl * 1000)" "tx_ok e (or_tx_code r)"
      "pe_tx_code e = None \<longleftrightarrow> or_tx_code r = None"
  proof (cases tc)
    case None
    with none sv2 that show ?thesis by (simp add: pac_save_def Let_def tx_ok_def)
  next
    case (Some t)
    then obtain x where x: "or_tx_code r = Some x" "tx_code_shape (tc_input_mode t) (tc_length t) x"
      using sh by auto
    show ?thesis
    proof (cases "tc_input_mode t = Some Text")
      case True
      with Some x sv2 that show ?thesis
        by (cases x) (auto simp: pac_save_def Let_def tx_ok_def tx_matches_def tx_code_shape_def)
    next
      case False
      then obtain dg where dg: "toDigitString x = Some dg"
        using x(2) by (auto simp: tx_code_shape_def split: tx_code.splits)
      from False have nt: "getOr Numeric (tc_input_mode t) \<noteq> Text" by (cases "tc_input_mode t") auto
      have "toDigitString (TxStr dg) = Some dg" using dg by (rule toDigitString_idem)
      with Some x sv2 dg nt that show ?thesis
        by (auto simp: pac_save_def Let_def tx_ok_def tx_matches_def simp del: toDigitString.simps)
    qed
  qed
  have "fst (pac_consume limit now c (or_tx_code r) (w_pac w')) = Inr configs"
    if "now \<le> w_clk w 0 + ttl_sec ttl * 1000" for now
    using e assms(2) that by (auto simp: pac_consume_Inr_iff pac_expired_def)
  moreover have "\<exists>x. fst (pac_consume limit now c None (w_pac w')) = Inl x" if "tc \<noteq> None" for now
  proof (cases "fst (pac_consume limit now c None (w_pac w'))")
    case (Inr ids)
    then show ?thesis using e none that by (auto simp: pac_consume_Inr_iff tx_ok_def)
  qed blast
  moreover obtain tcv where o: "or_offer r = \<lparr>offer_issuer = credential_issuer metadata,
      offer_grants = Some \<lparr>authorization_code_grant = None, pre_authorized_code_grant =
        Some \<lparr>pre_authorized_code = c, grant_tx_code = tcv, pre_authorization_server = truthy_str a\<rparr>\<rparr>,
      offer_configuration_ids = configs\<rparr>"
    using cr by (simp add: credentialOffer_create_def split: option.splits sum.splits) metis+
  moreover obtain grant where "or_offer r = \<lparr>offer_issuer = credential_issuer metadata,
      offer_grants = Some \<lparr>authorization_code_grant = None, pre_authorized_code_grant = Some grant\<rparr>,
      offer_configuration_ids = configs\<rparr>" "pre_authorized_code grant = c"
    using o by simp
  ultimately show ?thesis using m offer_checks_Inr [OF ck] none
    by (intro exI [of _ metadata] exI [of _ c] exI [of _ grant]) simp
qed

subsection \<open>Concurrent creation of keys\<close>

lemma generated_by_Inr:
  "alg \<in> set gens \<Longrightarrow> \<exists>p. generated_by X gens e alg = Inr p"
proof -
  assume "alg \<in> set gens"
  then obtain g where "find (\<lambda>p. alg = p) gens = Some g"
    by (cases "find (\<lambda>p. alg = p) gens") (auto simp: find_None_iff)
  then show ?thesis by (simp add: generated_by_def selectProvider_def key_generator_canHandle_def)
qed

lemma finish_saves_last:
  assumes "set algs \<subseteq> set gens"
  shows "fst (finish_saves X gens who [] algs w) = Inr None \<and>
    (algs \<noteq> [] \<longrightarrow> (\<exists>entry. declaredAlg entry = last algs \<and>
       w_issuer_keys (snd (finish_saves X gens who [] algs w)) who = Some [entry]))"
  using assms
proof (induction algs arbitrary: w)
  case (Cons a as)
  obtain p where p: "generated_by X gens (w_rnd w 0) a = Inr p"
    using Cons.prems generated_by_Inr [of a gens X "w_rnd w 0"] by auto
  obtain pub priv where pp: "p = (pub, priv)" by fastforce
  define entry where "entry = \<lparr>format = JwkFormat, declaredAlg = a, key_kid = None,
    publicKey = Some (Jwk pub), privateKey = Jwk priv\<rparr>"
  define w1 where "w1 = w\<lparr>w_rnd := shift (w_rnd w), w_issuer_keys := (w_issuer_keys w)(who \<mapsto> [entry])\<rparr>"
  have run: "finish_saves X gens who [] (a # as) w =
      (case finish_saves X gens who [] as w1 of (Inl e, w') \<Rightarrow> (Inl e, w') | (Inr r, w') \<Rightarrow> (Inr r, w'))"
    by (simp add: run_simps on_issuer_keys_def save_from_def pair_to_save_def p pp w1_def entry_def ret_def)
  obtain r w' where r: "finish_saves X gens who [] as w1 = (r, w')" by fastforce
  have ih: "r = Inr None" "as \<noteq> [] \<longrightarrow> (\<exists>entry. declaredAlg entry = last as \<and> w_issuer_keys w' who = Some [entry])"
    using Cons.IH [of w1] Cons.prems by (simp_all add: r)
  show ?case
  proof (cases "as = []")
    case True
    then have "w' = w1" using r by (simp add: run_simps)
    then show ?thesis unfolding run r using ih(1) True by (simp add: w1_def entry_def)
  next
    case False
    then show ?thesis unfolding run r using ih by simp
  qed
qed (simp add: run_simps)

text \<open>Creating an issuer whose configurations use several signing algorithms keeps only one key:
  when every algorithm has a generator and the issuer has no key yet, the creation
  succeeds, but in whatever order the keys become ready only the key of the last one can
  be found afterwards, and no key of any other algorithm of the configurations.\<close>

theorem concurrent_keys_lost:
  assumes "w_issuer_metadata w i = None" and "w_issuer_keys w i = None" and "credential_issuer m = i"
    and "rejectInsecureIssuerMetadata X debug (Some m) = Inr ()"
    and "set (metadata_algs m) \<subseteq> set gens" and "set (order (metadata_algs m)) = set (metadata_algs m)"
    and "metadata_algs m \<noteq> []"
  shows "\<exists>w'. createIssuerMetadata X debug gens order m w = (Inr (), w') \<and>
    w_issuer_metadata w' i = Some m \<and>
    (\<forall>alg. find_key (w_issuer_keys w') i (JStr alg) \<noteq> None \<longleftrightarrow> alg = last (order (metadata_algs m)))"
proof -
  let ?o = "order (metadata_algs m)"
  obtain r w1 where f: "finish_saves X gens i [] ?o w = (r, w1)" by fastforce
  have "?o \<noteq> []" using assms(6,7) by (metis set_empty)
  then obtain entry where e: "r = Inr None" "declaredAlg entry = last ?o" "w_issuer_keys w1 i = Some [entry]"
    using finish_saves_last [of ?o gens X i w] assms(5,6) by (auto simp: f)
  have "createIssuerMetadata X debug gens order m w =
      (Inr (), w1\<lparr>w_issuer_metadata := (w_issuer_metadata w1)(i \<mapsto> m)\<rparr>)"
    using assms(1-4) e(1) f
    by (simp add: createIssuerMetadata_def run_simps on_issuer_metadata_def issuer_metadata_fetch_def on_issuer_keys_def
        issuer_metadata_save_def)
  moreover have "\<forall>alg. find_key (w_issuer_keys w1) i (JStr alg) \<noteq> None \<longleftrightarrow> alg = last ?o"
    by (auto simp: find_key_def e)
  ultimately show ?thesis
    by (intro exI [of _ "w1\<lparr>w_issuer_metadata := (w_issuer_metadata w1)(i \<mapsto> m)\<rparr>"]) simp
qed

text \<open>An issuer with two configurations, signed with two algorithms.\<close>

definition demo_issuer_metadata :: "(string \<times> CredentialConfigurationSupported) list \<Rightarrow> CredentialIssuerMetadata" where
  "demo_issuer_metadata cs = \<lparr>credential_issuer = ''iss'', authorization_servers = None,
     credential_endpoint = ''e'', nonce_endpoint = None, deferred_credential_endpoint = None,
     notification_endpoint = None, credential_request_encryption = None, credential_response_encryption = None,
     batch_size = None, credential_configurations_supported = cs, credential_manifest_uri = None,
     issuer_display = None\<rparr>"

definition two_algs :: "(string \<times> CredentialConfigurationSupported) list" where
  "two_algs = [(''a'', (demo_configuration ''dc+sd-jwt'')\<lparr>credential_signing_alg_values_supported := Some [''ES256'']\<rparr>),
     (''b'', (demo_configuration ''dc+sd-jwt'')\<lparr>credential_signing_alg_values_supported := Some [''ES384'']\<rparr>)]"

lemma demo_secure: "rejectInsecureIssuerMetadata ext0 False (Some (demo_issuer_metadata cs)) = Inr ()"
  by (simp add: rejectInsecureIssuerMetadata_def insecure_endpoint_def demo_issuer_metadata_def ext0_def)

theorem concurrent_keys_lost_witness:
  "\<exists>w'. createIssuerMetadata ext0 False [''ES384'', ''ES256''] (\<lambda>as. as) (demo_issuer_metadata two_algs) world0 = (Inr (), w') \<and>
     find_key (w_issuer_keys w') ''iss'' (JStr ''ES256'') = None"
proof -
  have a: "metadata_algs (demo_issuer_metadata two_algs) = [''ES256'', ''ES384'']"
    by (simp add: metadata_algs_def demo_issuer_metadata_def two_algs_def)
  have p: "w_issuer_metadata world0 ''iss'' = None" "w_issuer_keys world0 ''iss'' = None"
      "credential_issuer (demo_issuer_metadata two_algs) = ''iss''"
    by (simp_all add: world0_def demo_issuer_metadata_def)
  obtain w' where w': "createIssuerMetadata ext0 False [''ES384'', ''ES256''] (\<lambda>as. as) (demo_issuer_metadata two_algs) world0 = (Inr (), w')"
    "\<forall>alg. find_key (w_issuer_keys w') ''iss'' (JStr alg) \<noteq> None \<longleftrightarrow> alg = last [''ES256'', ''ES384'']"
    using concurrent_keys_lost [OF p demo_secure, of "[''ES384'', ''ES256'']" "\<lambda>as. as", unfolded a] by auto
  have "find_key (w_issuer_keys w') ''iss'' (JStr ''ES256'') = None"
    using w'(2) [rule_format, of "''ES256''"] by simp
  with w'(1) show ?thesis by blast
qed

subsection \<open>Nonces of credential proofs\<close>

text \<open>The nonce of a proof is checked in two steps, validation and revocation. One request after
  the other, the second request with the same nonce is refused; but the check is not
  atomic: of two requests whose validations both happen before the revocations, both
  pass, where the single-step \<open>consume\<close> would let one through.\<close>

theorem nonce_check_not_atomic:
  "(let st1 = snd (nonce_validate t1 n st); st2 = snd (nonce_validate t2 n st1);
        st3 = snd (nonce_revoke n st2) in
    (nonce_valid t1 st (nonce n) \<and> nonce_valid t2 st (nonce n)
       \<longrightarrow> fst (nonce_validate t1 n st) = Inr True \<and> fst (nonce_validate t2 n st1) = Inr True) \<and>
    fst (nonce_validate t2 n (snd (nonce_revoke n st1))) = Inr False \<and>
    \<not> (fst (nonce_consume t1 n st) = Inr True \<and> fst (nonce_consume t2 n (snd (nonce_consume t1 n st))) = Inr True))"
  by (simp add: nonce_runs nonce_valid_def Let_def)

theorem nonce_check_not_atomic_witness:
  "fst (nonce_validate 2 demo_nonce (snd (nonce_validate 1 demo_nonce demo_nonce_store))) = Inr True"
  using nonce_check_not_atomic [of 1 demo_nonce demo_nonce_store 2]
  by (simp add: demo_nonce_store_def demo_nonce_def nonce_save_run nonce_valid_def Let_def)

subsection \<open>Examples\<close>

definition demo_offer_world :: world where
  "demo_offer_world = world0\<lparr>w_issuer_metadata := [''iss'' \<mapsto> demo_issuer_metadata two_algs]\<rparr>"

lemma demo_offer_run:
  "\<exists>r w'. offerCredential ext0 False ''iss'' [''a''] (Some (OfferPreAuth (Some \<lparr>tc_input_mode = Some Numeric,
     tc_length = Some 4, tc_description = None\<rparr>) None None)) demo_offer_world = (Inr r, w')"
proof -
  define n where "n = 1000 + entropy_nat (w_rnd demo_offer_world 0) mod 9000"
  have g: "transactionCode_generate (Some Numeric) (Some 4) None demo_offer_world =
     (Inr (TxNum (Fin (of_nat n))),
      demo_offer_world\<lparr>w_rnd := shift (w_rnd demo_offer_world)\<rparr>)"
    by (simp add: transactionCode_generate_def MIN_TX_CODE_LENGTH_def MAX_TX_CODE_LENGTH_def Let_def run_simps randomInt_def n_def)
  obtain d where d: "toDigitString (TxNum (Fin (of_nat n))) = Some d"
    using transactionCode_generate_shape [where mode = "Some Numeric" and len = "Some 4" and descr = None and w = demo_offer_world]
    by (auto simp add: g tx_code_shape_def simp del: toDigitString.simps)
  have m: "w_issuer_metadata demo_offer_world ''iss'' = Some (demo_issuer_metadata two_algs)"
    by (simp add: demo_offer_world_def)
  have c: "offer_checks (demo_issuer_metadata two_algs) [''a''] None = Inr ()"
    by (simp add: offer_checks_def configuration_of_def demo_issuer_metadata_def two_algs_def)
  show ?thesis
    by (simp add: offerCredential_def run_simps on_issuer_metadata_def issuer_metadata_fetch_def m demo_secure c
        g preAuthorizedCode_generate_def on_pac_def pac_save_def d credentialOffer_create_def TxCode_parse_def Let_def
        del: toDigitString.simps)
qed

theorem offer_redeemable_witness:
  "\<exists>r w' c. offerCredential ext0 False ''iss'' [''a''] (Some (OfferPreAuth (Some \<lparr>tc_input_mode = Some Numeric,
     tc_length = Some 4, tc_description = None\<rparr>) None None)) demo_offer_world = (Inr r, w') \<and>
     fst (pac_consume 5 0 c (or_tx_code r) (w_pac w')) = Inr [''a'']"
proof -
  obtain r w' where r: "offerCredential ext0 False ''iss'' [''a''] (Some (OfferPreAuth (Some \<lparr>tc_input_mode = Some Numeric,
     tc_length = Some 4, tc_description = None\<rparr>) None None)) demo_offer_world = (Inr r, w')" using demo_offer_run by blast
  have "0 \<le> w_clk demo_offer_world 0 + ttl_sec None * 1000"
    by (simp add: demo_offer_world_def world0_def ttl_sec_def Let_def)
  with offer_redeemable [OF r, of 5] r show ?thesis by fastforce
qed

subsection \<open>An issuance, and its replay\<close>

definition demo_plain_configuration :: CredentialConfigurationSupported where
  "demo_plain_configuration = (demo_configuration ''dc+sd-jwt'')
     \<lparr>credential_metadata := None, cryptographic_binding_methods_supported := None\<rparr>"

text \<open>A proof made at time 0, with jose's check of its age, and with or without a nonce.\<close>

definition ext_issue :: "obj \<Rightarrow> ext" where
  "ext_issue nc = ext_proof\<lparr>jwtVerify := (\<lambda>now t k vo.
     if within_window now vo 0 then Inr ([(''aud'', JStr ''iss''), (''iat'', JNum (Fin 0))] @ nc)
     else Inl (JsError ''age''))\<rparr>"

definition demo_issue_world :: world where
  "demo_issue_world = world0\<lparr>
     w_issuer_metadata := [''iss'' \<mapsto> demo_issuer_metadata [(''a'', demo_plain_configuration)]],
     w_issuer_keys := [''iss'' \<mapsto> [demo_issuer_key]],
     w_allowed := [''key'' \<mapsto> \<lparr>allowed_ids = [''a''], allowed_expires_at = 300000\<rparr>],
     w_nonces := [''n1'' \<mapsto> \<lparr>ns_nonce = \<lparr>nonce = ''n1'', nonce_expires_in = Some (Fin 300000)\<rparr>, ns_expires_at = Fin 300000\<rparr>]\<rparr>"

definition demo_issue_request :: CredentialRequest where
  "demo_issue_request = \<lparr>credential_identifier = None, credential_configuration_id = Some ''a'',
     request_proofs = Some (JwtProofs [''h.p.s''])\<rparr>"

definition demo_issue_options :: IssueOptions where
  "demo_issue_options = \<lparr>authorizationContext = \<lparr>allowedCredentialConfigurationKey = ''key'', ac_clientId = None,
       ac_tokenType = TokenBearer\<rparr>,
     issue_alg = None, cnonce = Some (Fin 300000), issue_claims = None, issue_subject = None,
     proofJwt_usePreAuth = Some True\<rparr>"

text \<open>The run, in any state with this metadata, key and token record whose clock is early.\<close>

definition demo_ready :: "world \<Rightarrow> bool" where
  "demo_ready w \<longleftrightarrow>
     w_issuer_metadata w = [''iss'' \<mapsto> demo_issuer_metadata [(''a'', demo_plain_configuration)]] \<and>
     w_issuer_keys w = [''iss'' \<mapsto> [demo_issuer_key]] \<and>
     w_allowed w = [''key'' \<mapsto> \<lparr>allowed_ids = [''a''], allowed_expires_at = 300000\<rparr>] \<and>
     (\<forall>n < 20. 0 \<le> w_clk w n \<and> w_clk w n \<le> 300000)"

lemma demo_issue_proof:
  assumes "0 \<le> w_clk w 0" "w_clk w 0 \<le> 300000" "str_of (oget nc ''nonce'') = nn" "oget nc ''iss'' = None"
    "oget nc ''aud'' = None" "oget nc ''iat'' = None"
  shows "verifyCredentialProof (ext_issue nc) no_proof_options (ProofString ''h.p.s'')
      (proof_context (demo_issuer_metadata cs) demo_issue_options ''jwt'') w =
     (Inr \<lparr>proof_header = [(''alg'', JStr ''ES256''), (''typ'', JStr ''openid4vci-proof+jwt''),
            (''jwk'', JObj [(''kty'', JStr ''EC'')])],
          proof_payload = \<lparr>pb_iss = None, pb_aud = Some (AudStr ''iss''), pb_iat = Some (Fin 0), pb_nonce = nn\<rparr>\<rparr>,
      w\<lparr>w_clk := shift (w_clk w)\<rparr>)"
proof -
  have "of_int (w_clk w 0 div 1000) \<le> (360::rat)" "- 60 \<le> (of_int (w_clk w 0 div 1000) :: rat)"
    using assms(1,2) by linarith+
  then have win: "within_window (w_clk w 0) (proof_verify_options no_proof_options a) 0" for a
    by (simp add: within_window_def proof_verify_options_def no_proof_options_def
        DEFAULT_PROOF_JWT_MAX_TOKEN_AGE_SECONDS_def DEFAULT_PROOF_JWT_CLOCK_TOLERANCE_SECONDS_def)
  show ?thesis
    using assms(3-6)
    by (simp add: verifyCredentialProof_def ext_issue_def ext_proof_def ext0_def run_simps proof_header_check_def
        demo_proof_alg win OID4VCI_JWT_PROOF_TYP_def resolveHeaderPublicKey_def resolveProofBindingMethod_def
        header_kid_def header_x5c_def ohas_def wrap_import_def proof_claims_check_def proof_context_def
        demo_issue_options_def demo_issuer_metadata_def truthy_str_def iss_rule_def oset_def Let_def)
qed

lemma demo_issue_kid:
  "w_issuer_keys w = [''iss'' \<mapsto> [demo_issuer_key]] \<Longrightarrow>
     issuer_kid (ext_issue nc) ''iss'' demo_plain_configuration ''ES256'' w = (Inr ''thumb'', w)"
  by (simp add: issuer_kid_def demo_plain_configuration_def demo_configuration_def bindM_run liftE_run on_issuer_keys_def
      zoom_def key_fetch_def find_key_def demo_issuer_key_def import_public_def ext_issue_def ext_proof_def ext0_def
      parse_jwk_def)

lemma demo_issue_sign:
  "w_issuer_keys w = [''iss'' \<mapsto> [demo_issuer_key]] \<Longrightarrow>
     sign_credential (ext_issue nc) ''iss'' ''ES256'' p h w = (Inr ''e30.e30.sig'', w\<lparr>w_rnd := shift (w_rnd w)\<rparr>)"
  by (simp add: sign_credential_def run_simps on_issuer_keys_def issuer_key_sign_def find_key_def
      demo_issuer_key_def import_private_def ext_issue_def ext_proof_def ext0_def sign_with_def js_nth_def demo_sig)

lemma demo_issue_sd:
  assumes "w_issuer_keys w = [''iss'' \<mapsto> [demo_issuer_key]]" "ic_keyAlg opts = Some ''ES256''"
  shows "createCredential_sd_jwt (ext_issue nc) ''iss'' demo_plain_configuration opts w =
     (Inr ''e30.e30.sig'', w\<lparr>w_clk := shift (w_clk w), w_rnd := shift (w_rnd w)\<rparr>)"
  using assms
  by (simp add: createCredential_sd_jwt_def run_simps demo_issue_kid demo_issue_sign holder_jwk_def metadata_claims_def
      Let_def demo_plain_configuration_def [THEN arg_cong [where f = cc_vct]]
      demo_plain_configuration_def [THEN arg_cong [where f = cc_format]]
      demo_plain_configuration_def [THEN arg_cong [where f = credential_metadata]]
      demo_plain_configuration_def [THEN arg_cong [where f = cryptographic_binding_methods_supported]]
      demo_configuration_def)

lemma demo_issue_secure: "rejectInsecureIssuerMetadata (ext_issue nc) False (Some (demo_issuer_metadata cs)) = Inr ()"
  by (simp add: rejectInsecureIssuerMetadata_def insecure_endpoint_def demo_issuer_metadata_def ext_issue_def
      ext_proof_def ext0_def)

lemma demo_issue_run:
  assumes r: "demo_ready w" and nc: "str_of (oget nc ''nonce'') = nn" "oget nc ''iss'' = None" "oget nc ''aud'' = None"
      "oget nc ''iat'' = None" and n: "\<forall>k. nn = Some k \<longrightarrow> nonce_valid (w_clk w 2) (w_nonces w) k"
  shows "\<exists>w'. issueCredential (ext_issue nc) False no_proof_options \<lparr>ip_identifier = None\<rparr> ''iss'' demo_issue_request
      demo_issue_options w = (Inr [''e30.e30.sig''], w') \<and> w_issuer_metadata w' = w_issuer_metadata w \<and>
      w_issuer_keys w' = w_issuer_keys w \<and> w_allowed w' = w_allowed w \<and> (\<exists>k \<le> 5. \<forall>i. w_clk w' i = w_clk w (i + k))"
proof -
  have m: "on_issuer_metadata (issuer_metadata_fetch ''iss'') w =
      (Inr (Some (demo_issuer_metadata [(''a'', demo_plain_configuration)])), w)"
    using r by (simp add: demo_ready_def on_issuer_metadata_def zoom_def issuer_metadata_fetch_def)
  have ks: "w_issuer_keys w = [''iss'' \<mapsto> [demo_issuer_key]]" "w_clk w 0 \<le> 300000" "w_clk w 1 \<le> 300000" "0 \<le> w_clk w 1"
    and al: "w_allowed w = [''key'' \<mapsto> \<lparr>allowed_ids = [''a''], allowed_expires_at = 300000\<rparr>]"
    using r by (auto simp: demo_ready_def)
  define w1 where "w1 = w\<lparr>w_clk := shift (w_clk w)\<rparr>"
  have c: "requested_configuration (demo_issuer_metadata [(''a'', demo_plain_configuration)]) demo_issue_request
      demo_issue_options w = (Inr demo_plain_configuration, w1)"
    using ks(2) al
    by (simp add: requested_configuration_def demo_issue_request_def demo_issue_options_def configuration_of_def
        demo_issuer_metadata_def run_simps on_allowed_def allowed_fetch_def w1_def Let_def)
  have s: "selectProvider issue_provider_canHandle issue_providers (cc_format demo_plain_configuration) = Inr ''dc+sd-jwt''"
    by (simp add: selectProvider_def issue_providers_def issue_provider_canHandle_def demo_plain_configuration_def
        demo_configuration_def)
  define v where "v = \<lparr>proof_header = [(''alg'', JStr ''ES256''), (''typ'', JStr ''openid4vci-proof+jwt''),
            (''jwk'', JObj [(''kty'', JStr ''EC'')])],
          proof_payload = \<lparr>pb_iss = None, pb_aud = Some (AudStr ''iss''), pb_iat = Some (Fin 0), pb_nonce = nn\<rparr>\<rparr>"
  define w2 where "w2 = w1\<lparr>w_clk := shift (w_clk w1)\<rparr>"
  have p: "verifyCredentialProof (ext_issue nc) no_proof_options (ProofString ''h.p.s'')
      (proof_context (demo_issuer_metadata [(''a'', demo_plain_configuration)]) demo_issue_options ''jwt'') w1 = (Inr v, w2)"
    unfolding v_def w2_def
    by (rule demo_issue_proof) (use ks nc in \<open>simp_all add: w1_def shift_def\<close>)
  obtain w3 k where w3: "check_proof_nonce demo_issue_options v w2 = (Inr (), w3)" "w_issuer_keys w3 = w_issuer_keys w"
      "w_issuer_metadata w3 = w_issuer_metadata w" "w_allowed w3 = w_allowed w" "k \<le> (3::nat)"
      "\<forall>i. w_clk w3 i = w_clk w (i + k)"
  proof (cases nn)
    case None
    then show ?thesis
      by (intro that [of w2 2]) (simp_all add: check_proof_nonce_def v_def w2_def w1_def demo_issue_options_def ret_run shift_def)
  next
    case (Some j)
    then have "nonce_valid (w_clk w2 0) (w_nonces w2) j"
      using n by (simp add: w2_def w1_def shift_def numeral_2_eq_2)
    with Some show ?thesis
      by (intro that [of "w2\<lparr>w_clk := shift (w_clk w2), w_nonces := (w_nonces w2)(j := None)\<rparr>" 3])
        (simp_all add: check_proof_nonce_def v_def w2_def w1_def demo_issue_options_def run_simps shift_def validateNonce_def
          revokeNonce_def on_nonces_def nonce_runs lookup_nonce_def numeral_3_eq_3)
  qed
  have pt: "proof_types_supported demo_plain_configuration = Some [(''jwt'', [''ES256''])]"
    by (simp add: demo_plain_configuration_def demo_configuration_def)
  have q: "request_proof (ext_issue nc) no_proof_options (demo_issuer_metadata [(''a'', demo_plain_configuration)])
      demo_plain_configuration demo_issue_options (request_proofs demo_issue_request) w1 = (Inr (Some v), w3)"
    by (simp add: request_proof_def demo_issue_request_def getProofType_def run_simps p w3(1)
        selectProvider_def credential_proof_canHandle_def pt)
  have o: "issue_subject demo_issue_options = None" "issue_alg demo_issue_options = None"
      "issue_claims demo_issue_options = None"
    by (simp_all add: demo_issue_options_def)
  have "issueCredential (ext_issue nc) False no_proof_options \<lparr>ip_identifier = None\<rparr> ''iss'' demo_issue_request
      demo_issue_options w = (Inr [''e30.e30.sig''], w3\<lparr>w_clk := shift (w_clk w3), w_rnd := shift (w_rnd w3)\<rparr>)"
    by (simp add: issueCredential_def bindM_run thenM_run liftE_run m demo_issue_secure c s q o Let_def
        demo_issue_sd w3(2) ks(1) ret_run)
  with w3 show ?thesis
    by (intro exI [of _ "w3\<lparr>w_clk := shift (w_clk w3), w_rnd := shift (w_rnd w3)\<rparr>"] conjI exI [of _ "Suc k"])
      (simp_all add: shift_def)
qed

lemma demo_issue_ready: "demo_ready demo_issue_world"
  by (simp add: demo_ready_def demo_issue_world_def world0_def)

theorem credential_only_for_token_witness:
  "\<exists>w'. issueCredential (ext_issue [(''nonce'', JStr ''n1'')]) False no_proof_options \<lparr>ip_identifier = None\<rparr> ''iss''
     demo_issue_request demo_issue_options demo_issue_world = (Inr [''e30.e30.sig''], w') \<and>
     (\<exists>e. w_allowed demo_issue_world ''key'' = Some e \<and> ''a'' \<in> set (allowed_ids e))"
proof -
  obtain w' where r: "issueCredential (ext_issue [(''nonce'', JStr ''n1'')]) False no_proof_options \<lparr>ip_identifier = None\<rparr> ''iss''
     demo_issue_request demo_issue_options demo_issue_world = (Inr [''e30.e30.sig''], w')"
    using demo_issue_run [OF demo_issue_ready, of "[(''nonce'', JStr ''n1'')]" "Some ''n1''"]
    by (auto simp: nonce_valid_def demo_issue_world_def world0_def)
  from credential_only_for_token [OF r] r show ?thesis
    by (auto simp: demo_issue_options_def demo_issue_request_def)
qed

text \<open>With nonces in use, a proof without one passes the check: the same request, with the same
  proof, is answered with a credential twice, because neither a nonce nor the identifier
  of the proof is remembered.\<close>

theorem proof_without_nonce_replayed:
  "\<exists>c1 w1 c2 w2.
     cnonce demo_issue_options \<noteq> None \<and>
     issueCredential (ext_issue []) False no_proof_options \<lparr>ip_identifier = None\<rparr> ''iss''
       demo_issue_request demo_issue_options demo_issue_world = (Inr c1, w1) \<and>
     issueCredential (ext_issue []) False no_proof_options \<lparr>ip_identifier = None\<rparr> ''iss''
       demo_issue_request demo_issue_options w1 = (Inr c2, w2)"
proof -
  obtain w1 k where 1: "issueCredential (ext_issue []) False no_proof_options \<lparr>ip_identifier = None\<rparr> ''iss''
       demo_issue_request demo_issue_options demo_issue_world = (Inr [''e30.e30.sig''], w1)"
      "w_issuer_metadata w1 = w_issuer_metadata demo_issue_world" "w_issuer_keys w1 = w_issuer_keys demo_issue_world"
      "w_allowed w1 = w_allowed demo_issue_world" "k \<le> 5" "\<forall>i. w_clk w1 i = w_clk demo_issue_world (i + k)"
    using demo_issue_run [OF demo_issue_ready, of "[]" None] by auto
  have "demo_ready w1"
    using 1(2-6) by (simp add: demo_ready_def demo_issue_world_def world0_def)
  then obtain w2 where "issueCredential (ext_issue []) False no_proof_options \<lparr>ip_identifier = None\<rparr> ''iss''
       demo_issue_request demo_issue_options w1 = (Inr [''e30.e30.sig''], w2)"
    using demo_issue_run [of w1 "[]" None] by auto
  with 1(1) show ?thesis by (auto simp: demo_issue_options_def)
qed

end
