(* ===== verification/Dynamo_Uses.thy ===== *)
theory Dynamo_Uses
  imports Dynamo_Stores
begin

text \<open>
  The DynamoDB stores of used JWT identifiers under concurrent requests: one conditional put
  decides, so an identifier is accepted once while it is retained.
\<close>

subsection \<open>An identifier is used once\<close>

text \<open>The item does not expire before \<open>t\<close>.\<close>

definition lives :: "int \<Rightarrow> obj \<Rightarrow> bool" where
  "lives t item = (case num_attr item ''expires_at'' of Some e \<Rightarrow> \<not> num_lt e (num_int t) | None \<Rightarrow> False)"

text \<open>Time to live removes no item before it expires, up to the instant \<open>t\<close>.\<close>

locale dynamo_retains = dynamo +
  fixes until :: int
  assumes retains: "expire s s' \<Longrightarrow> items s k = Some i \<Longrightarrow> lives until i \<Longrightarrow> items s' k = Some i"

text \<open>The points that a use of the key goes through, when the clock does not pass \<open>until\<close>.\<close>

definition using_key :: "int \<Rightarrow> int \<Rightarrow> string \<Rightarrow> bool dynamo_program \<Rightarrow> bool" where
  "using_key since until key p \<longleftrightarrow>
     (\<exists>msg ttl extra. p = dynamo_use msg (Fin ttl) key extra \<and> of_int (until - since) \<le> ttl \<and>
        oget extra ''expires_at'' = None) \<or>
     (\<exists>item now k. p = Send (PutUnlessHeld key item now) k \<and> lives until item \<and> now \<le> until \<and>
        (\<forall>e. \<not> won id (k (Inl e)) \<and> (\<exists>v. k (Inl e) = Done v)) \<and> (\<forall>x. k (Inr x) = Done (Inr True))) \<or>
     (\<exists>v. p = Done v)"

lemma dynamo_use_Clock:
  "dynamo_use msg (Fin ttl) key extra = Clock q \<Longrightarrow> of_int (until - since) \<le> ttl \<Longrightarrow>
     oget extra ''expires_at'' = None \<Longrightarrow> since \<le> now \<Longrightarrow> now \<le> until \<Longrightarrow>
     using_key since until key (q now)"
  unfolding using_key_def
  by (rule disjI2, rule disjI1)
    (auto simp: dynamo_use_def clock_def request_catch_def Let_def lives_def num_attr_def oget_append retP_def throwP_def)

lemma using_key_Send:
  assumes "using_key since until key (Send c k)"
  obtains item now where "c = PutUnlessHeld key item now" "lives until item" "now \<le> until"
    "\<And>e. \<not> won id (k (Inl e))" "\<And>e. \<exists>v. k (Inl e) = Done v" "\<And>x. k (Inr x) = Done (Inr True)"
  using assms by (auto simp: using_key_def dynamo_use_def clock_def)

definition held_until :: "dynamo_table \<Rightarrow> string \<Rightarrow> int \<Rightarrow> bool" where
  "held_until m key t = (case m key of Some i \<Rightarrow> lives t i | None \<Rightarrow> False)"

lemma lives_not_expired: "lives until i \<Longrightarrow> now \<le> until \<Longrightarrow> \<not> attr_less i ''expires_at'' now"
  by (auto simp: lives_def attr_less_def split: option.splits dest: num_not_lt_trans_int)

sublocale dynamo_retains \<subseteq> uses: single_winner send expire "\<lambda>t. since \<le> t \<and> t \<le> until" id
  "\<lambda>s. \<not> held_until (items s) key until" "using_key since until key" "won id" for since key
proof unfold_locales
  fix c k s r s'
  assume f: "using_key since until key (Send c k)" and sd: "send c s = (r, s')"
  obtain item now where c: "c = PutUnlessHeld key item now" "lives until item" "now \<le> until"
    and k: "\<And>e. \<not> won id (k (Inl e))" "\<And>e. \<exists>v. k (Inl e) = Done v" "\<And>x. k (Inr x) = Done (Inr True)"
    using using_key_Send [OF f] by metis
  show "using_key since until key (k r)" using k(2,3) by (cases r) (auto simp: using_key_def)
  have doc: "(r, items s') = documented c (items s) \<or> (\<exists>e. r = Inl e) \<and> items s' \<in> {items s, snd (documented c (items s))}"
    using answers [OF sd] c(1) by auto
  show "\<not> held_until (items s) key until" if "\<not> held_until (items s') key until"
    using that doc c lives_not_expired [OF _ c(3)]
    by (auto simp: held_until_def guarded_def split: option.splits if_splits)
  show "\<not> held_until (items s) key until \<and> \<not> \<not> held_until (items s') key until" if "won id (k r)"
    using that k(1) doc c lives_not_expired [OF _ c(3)]
    by (cases r) (auto simp: held_until_def guarded_def split: option.splits if_splits)
next
  fix q t assume f: "using_key since until key (Clock q)" and t: "since \<le> t \<and> t \<le> until"
  then obtain msg ttl extra where "Clock q = dynamo_use msg (Fin ttl) key extra" "of_int (until - since) \<le> ttl" "oget extra ''expires_at'' = None"
    by (auto simp: using_key_def)
  then show u: "using_key since until key (q t)" using dynamo_use_Clock t by metis
  show "won id (Clock q)" if "won id (q t)"
    using that \<open>Clock q = _\<close> by (auto simp: dynamo_use_def clock_def Let_def)
next
  fix s s' assume "expire s s'" "\<not> held_until (items s') key until"
  then show "\<not> held_until (items s) key until"
    using retains by (auto simp: held_until_def split: option.splits)
qed simp_all

context dynamo_retains begin

lemma used_once:
  assumes "together send expire (\<lambda>t. since \<le> t \<and> t \<le> until) (s0, map (\<lambda>ttl. dynamo_use msg (Fin ttl) key extra) ttls) tr (s, ps)"
    and "\<forall>ttl \<in> set ttls. of_int (until - since) \<le> ttl" and "oget extra ''expires_at'' = None"
  shows "winners id ps \<le> 1"
proof -
  let ?ps0 = "map (\<lambda>ttl. dynamo_use msg (Fin ttl) key extra) ttls"
  have "using_key since until key (dynamo_use msg (Fin ttl) key extra)" if "ttl \<in> set ttls" for ttl
    unfolding using_key_def using assms(2,3) that by blast
  then have "\<forall>p \<in> set ?ps0. using_key since until key p" by auto
  moreover have "holders (won id) ?ps0 = 0"
    by (auto simp: holders_def filter_empty_conv dynamo_use_def)
  ultimately show ?thesis by (rule order_trans [OF le_add1 uses.at_most_one_winner [OF assms(1)]])
qed

end

text \<open>C16. Between the instants \<open>since\<close> and \<open>until\<close>, any number of concurrent requests use the same
  DPoP proof identifier, or the same client assertion identifier, against the DynamoDB store,
  with calls that fail in between; the life time they ask for covers the whole
  interval. Then at most one of them is told that the identifier is new.\<close>

theorem dynamo_jti_no_replay:
  assumes "dynamo_retains send items expire until" and "\<forall>ttl \<in> set ttls. of_int (until - since) \<le> ttl"
    and "use \<in> {dynamo_dpop_saveIfAbsent sha expiresIn client jti, dynamo_oauth_saveIfAbsent sha expiresIn client jti}"
    and "together send expire (\<lambda>t. since \<le> t \<and> t \<le> until) (s0, map (\<lambda>ttl. use (Some (Fin ttl))) ttls) tr (s, ps)"
  shows "winners id ps \<le> 1"
proof (cases "use = dynamo_dpop_saveIfAbsent sha expiresIn client jti")
  case True
  then show ?thesis
    using dynamo_retains.used_once [OF assms(1) _ assms(2)] assms(4) by (simp add: dynamo_dpop_saveIfAbsent_def)
next
  case False
  then show ?thesis
    using dynamo_retains.used_once [OF assms(1) _ assms(2)] assms(3,4) by (simp add: dynamo_oauth_saveIfAbsent_def)
qed

text \<open>The documented table, where items go once they have expired.\<close>

definition ttl_drops :: "int \<Rightarrow> dynamo_table \<Rightarrow> dynamo_table \<Rightarrow> bool" where
  "ttl_drops until m m' \<longleftrightarrow> (\<forall>k. m' k = m k \<or> m' k = None \<and> \<not> held_until m k until)"

interpretation expiring: dynamo_retains documented "\<lambda>m. m" "ttl_drops until" until for until
  by unfold_locales (force simp: ttl_drops_def held_until_def split: option.splits)+

theorem dynamo_jti_no_replay_witness:
  "\<exists>tr s ps. together documented (ttl_drops 9000) (\<lambda>t. 1000 \<le> t \<and> t \<le> 9000)
      ((\<lambda>k. None), map (\<lambda>ttl. dynamo_dpop_saveIfAbsent (\<lambda>s. s) None ''thumb'' ''j1'' (Some (Fin ttl))) [8000, 9000]) tr (s, ps) \<and>
     winners id ps = 1 \<and> winners id ps \<le> 1"
proof -
  let ?start = "((\<lambda>k. None) :: dynamo_table,
    map (\<lambda>ttl. dynamo_dpop_saveIfAbsent (\<lambda>s. s) None ''thumb'' ''j1'' (Some (Fin ttl))) [8000, 9000])"
  let ?out = "schedule documented [(0, 1000), (1, 1000), (0, 1000), (1, 9000)] ?start"
  have run: "together documented (ttl_drops 9000) (\<lambda>t. 1000 \<le> t \<and> t \<le> 9000) ?start (fst ?out) (fst (snd ?out), snd (snd ?out))"
    using schedule_run [of "[(0, 1000), (1, 1000), (0, 1000), (1, 9000)]" ?start "\<lambda>t. 1000 \<le> t \<and> t \<le> 9000" documented] by simp
  have "winners id (snd (snd ?out)) = 1" by code_simp
  moreover have "winners id (snd (snd ?out)) \<le> 1"
    by (rule dynamo_jti_no_replay [OF expiring.dynamo_retains_axioms _ insertI1 run]) simp
  ultimately show ?thesis using run by blast
qed

end
