(* ===== verification/Kms_Service.thy ===== *)
theory Kms_Service
  imports Kms_Keys
begin

text \<open>
  AWS KMS as documented, and what the key stores achieve on it: concurrent saves agree on one
  key, and what a repeated delivery of a request does.
\<close>

subsection \<open>AWS KMS as documented\<close>

record kms_key =
  kk_spec :: string
  kk_state :: string
  kk_public :: string

record kms_view =
  kv_keys :: "string \<Rightarrow> kms_key option"
  kv_aliases :: "string \<Rightarrow> string option"

text \<open>What KMS chooses: the id of a new key, its public key, signatures, and import parameters.\<close>

record kms_choice =
  ch_id :: string
  ch_public :: string
  ch_text :: string

definition key_of :: "kms_view \<Rightarrow> string \<Rightarrow> (string \<times> kms_key) option" where
  "key_of v k =
     (case (if js_starts_with k ''alias/'' then kv_aliases v k else Some k) of
        None \<Rightarrow> None | Some i \<Rightarrow> map_option (Pair i) (kv_keys v i))"

definition empty_answer :: kms_answer where
  "empty_answer = \<lparr>ka_KeyMetadata = None, ka_PublicKey = None, ka_ImportToken = None, ka_Signature = None\<rparr>"

definition metadata_answer :: "string \<Rightarrow> kms_key \<Rightarrow> kms_answer" where
  "metadata_answer i key = empty_answer\<lparr>ka_KeyMetadata :=
     Some \<lparr>km_KeyId = Some i, km_KeyState = kk_state key, km_KeySpec = kk_spec key\<rparr>\<rparr>"

definition set_key :: "kms_view \<Rightarrow> string \<Rightarrow> kms_key \<Rightarrow> kms_view" where
  "set_key v i key = v\<lparr>kv_keys := (kv_keys v)(i \<mapsto> key)\<rparr>"

definition not_found :: exn where
  "not_found = JsError ''NotFoundException''"

definition on_key :: "kms_view \<Rightarrow> string \<Rightarrow> (string \<Rightarrow> kms_key \<Rightarrow> (exn + kms_answer) \<times> kms_view) \<Rightarrow> (exn + kms_answer) \<times> kms_view" where
  "on_key v k f = (case key_of v k of None \<Rightarrow> (Inl not_found, v) | Some (i, key) \<Rightarrow> f i key)"

definition if_enabled :: "kms_view \<Rightarrow> kms_key \<Rightarrow> kms_answer \<Rightarrow> (exn + kms_answer) \<times> kms_view" where
  "if_enabled v key a = (if kk_state key = ''Enabled'' then Inr a else Inl (JsError ''KMSInvalidStateException''), v)"

fun kms_documented :: "kms_choice \<Rightarrow> kms_command \<Rightarrow> kms_view \<Rightarrow> (exn + kms_answer) \<times> kms_view" where
  "kms_documented ch (DescribeKey k) v = on_key v k (\<lambda>i key. (Inr (metadata_answer i key), v))"
| "kms_documented ch (CreateKey spec external tag) v =
     (let key = \<lparr>kk_spec = spec, kk_state = (if external then ''PendingImport'' else ''Enabled''), kk_public = ch_public ch\<rparr>
      in (Inr (metadata_answer (ch_id ch) key), set_key v (ch_id ch) key))"
| "kms_documented ch (CreateAlias a k) v =
     (if kv_aliases v a \<noteq> None then (Inl (JsError ''AlreadyExistsException''), v)
      else on_key v k (\<lambda>i key. (Inr empty_answer, v\<lparr>kv_aliases := (kv_aliases v)(a \<mapsto> i)\<rparr>)))"
| "kms_documented ch (UpdateAlias a k) v =
     (if kv_aliases v a = None then (Inl not_found, v)
      else on_key v k (\<lambda>i key. (Inr empty_answer, v\<lparr>kv_aliases := (kv_aliases v)(a \<mapsto> i)\<rparr>)))"
| "kms_documented ch (ScheduleKeyDeletion k) v =
     on_key v k (\<lambda>i key. (Inr empty_answer, set_key v i (key\<lparr>kk_state := ''PendingDeletion''\<rparr>)))"
| "kms_documented ch (GetParametersForImport k) v =
     on_key v k (\<lambda>i key. (Inr (empty_answer\<lparr>ka_PublicKey := Some (ch_public ch), ka_ImportToken := Some (ch_text ch)\<rparr>), v))"
| "kms_documented ch (ImportKeyMaterial k token material) v =
     on_key v k (\<lambda>i key. (Inr empty_answer, set_key v i (key\<lparr>kk_state := ''Enabled''\<rparr>)))"
| "kms_documented ch (GetPublicKey k) v =
     on_key v k (\<lambda>i key. if_enabled v key (empty_answer\<lparr>ka_PublicKey := Some (kk_public key)\<rparr>))"
| "kms_documented ch (SignDigest k hashed alg) v =
     on_key v k (\<lambda>i key. if_enabled v key (empty_answer\<lparr>ka_Signature := Some (ch_text ch)\<rparr>))"

text \<open>The ids of new keys are new, not empty and not of the form of an alias.\<close>

definition fresh_choice :: "kms_choice \<Rightarrow> kms_view \<Rightarrow> bool" where
  "fresh_choice ch v \<longleftrightarrow> kv_keys v (ch_id ch) = None \<and> ch_id ch \<noteq> [] \<and> \<not> js_starts_with (ch_id ch) ''alias/''"

locale kms_available =
  fixes send :: "(kms_command, kms_answer, 's) service" and view :: "'s \<Rightarrow> kms_view" and good :: "'s \<Rightarrow> bool"
  assumes answers: "good s \<Longrightarrow> send c s = (r, s') \<Longrightarrow>
    good s' \<and> (\<exists>ch. fresh_choice ch (view s) \<and> (r, view s') = kms_documented ch c (view s))"

text \<open>A service with numbered keys.\<close>

definition numbered :: "nat \<Rightarrow> kms_choice" where
  "numbered n = \<lparr>ch_id = replicate (Suc n) (CHR ''k''), ch_public = ''spki'', ch_text = ''text''\<rparr>"

definition numbered_send :: "(kms_command, kms_answer, kms_view \<times> nat) service" where
  "numbered_send c s = (case kms_documented (numbered (snd s)) c (fst s) of (r, v) \<Rightarrow> (r, (v, Suc (snd s))))"

definition numbered_good :: "kms_view \<times> nat \<Rightarrow> bool" where
  "numbered_good s \<longleftrightarrow> (\<forall>n \<ge> snd s. kv_keys (fst s) (replicate (Suc n) (CHR ''k'')) = None)"

lemma kms_documented_keys:
  "kv_keys v k = None \<Longrightarrow> k \<noteq> ch_id ch \<Longrightarrow> kv_keys (snd (kms_documented ch c v)) k = None"
  by (cases c) (auto simp: on_key_def key_of_def set_key_def if_enabled_def Let_def split: option.split)

interpretation numbered: kms_available numbered_send fst numbered_good
proof
  fix s c r s'
  assume g: "numbered_good s" and sd: "numbered_send c s = (r, s')"
  have ch: "(r, fst s') = kms_documented (numbered (snd s)) c (fst s)" "snd s' = Suc (snd s)"
    using sd by (auto simp: numbered_send_def split: prod.splits)
  have "kv_keys (fst s') (replicate (Suc n) (CHR ''k'')) = None" if "Suc (snd s) \<le> n" for n
  proof -
    have "kv_keys (fst s) (replicate (Suc n) (CHR ''k'')) = None" using g that by (simp add: numbered_good_def)
    moreover have "replicate (Suc n) (CHR ''k'') \<noteq> ch_id (numbered (snd s))"
      using that by (auto simp: numbered_def dest: arg_cong [where f = length])
    ultimately show ?thesis using kms_documented_keys ch(1) by (metis snd_conv)
  qed
  then have "numbered_good s'" using ch(2) by (simp add: numbered_good_def)
  moreover have "fresh_choice (numbered (snd s)) (fst s)"
    using g by (simp add: fresh_choice_def numbered_good_def numbered_def js_starts_with_def)
  ultimately show "numbered_good s' \<and> (\<exists>ch. fresh_choice ch (fst s) \<and> (r, fst s') = kms_documented ch c (fst s))"
    using ch(1) by blast
qed

subsection \<open>Concurrent saves agree on one key\<close>

datatype phase = Start | Creating | Naming string | Dropping string | Finished

fun at_phase :: "kms_config \<Rightarrow> string \<Rightarrow> string \<Rightarrow> phase \<Rightarrow> unit kms_program" where
  "at_phase cfg spec a Start = save_generated cfg spec a"
| "at_phase cfg spec a Creating =
     createKey spec False (tagKey cfg) (\<lambda>k.
       request_catch (CreateAlias a k)
         (\<lambda>e. discardOrphanKey k (if kms_error e ''AlreadyExistsException'' then retP () else throwP e)) (\<lambda>_. retP ()))"
| "at_phase cfg spec a (Naming k) =
     request_catch (CreateAlias a k)
       (\<lambda>e. discardOrphanKey k (if kms_error e ''AlreadyExistsException'' then retP () else throwP e)) (\<lambda>_. retP ())"
| "at_phase cfg spec a (Dropping k) = discardOrphanKey k (retP ())"
| "at_phase cfg spec a Finished = retP ()"

fun held :: "phase \<Rightarrow> string option" where
  "held (Naming k) = Some k"
| "held (Dropping k) = Some k"
| "held p = None"

definition usable :: "kms_view \<Rightarrow> string \<Rightarrow> string \<Rightarrow> bool" where
  "usable v spec k \<longleftrightarrow> (\<exists>key. kv_keys v k = Some key \<and> kk_state key = ''Enabled'' \<and> kk_spec key = spec) \<and>
     \<not> js_starts_with k ''alias/'' \<and> k \<noteq> []"

definition phases_ok :: "kms_view \<Rightarrow> string \<Rightarrow> string \<Rightarrow> kms_view \<Rightarrow> phase list \<Rightarrow> bool" where
  "phases_ok v0 spec a v phs \<longleftrightarrow>
     (\<forall>k. kv_aliases v a = Some k \<longrightarrow> usable v spec k) \<and>
     (\<forall>i < length phs. phs ! i = Finished \<or> (\<exists>k. phs ! i = Dropping k) \<longrightarrow> kv_aliases v a \<noteq> None) \<and>
     (\<forall>i < length phs. \<forall>k. held (phs ! i) = Some k \<longrightarrow> usable v spec k \<and> kv_aliases v a \<noteq> Some k \<and>
        (\<forall>j < length phs. held (phs ! j) = Some k \<longrightarrow> j = i)) \<and>
     (\<forall>k key. kv_keys v k = Some key \<longrightarrow>
        kv_keys v0 k \<noteq> None \<or> kv_aliases v a = Some k \<or> (\<exists>i < length phs. held (phs ! i) = Some k) \<or>
        kk_state key = ''PendingDeletion'')"

text \<open>One phase changes.\<close>

definition others_hold :: "nat \<Rightarrow> phase list \<Rightarrow> string \<Rightarrow> bool" where
  "others_hold i phs k \<longleftrightarrow> (\<exists>j < length phs. j \<noteq> i \<and> held (phs ! j) = Some k)"

lemma phases_facts:
  assumes "phases_ok v0 spec a v phs" and "i < length phs"
  shows "kv_aliases v a = Some k \<Longrightarrow> usable v spec k"
    and "others_hold i phs k \<Longrightarrow> usable v spec k \<and> kv_aliases v a \<noteq> Some k \<and> held (phs ! i) \<noteq> Some k"
    and "held (phs ! i) = Some k \<Longrightarrow> usable v spec k \<and> kv_aliases v a \<noteq> Some k"
    and "kv_keys v k = Some key \<Longrightarrow> kv_keys v0 k \<noteq> None \<or> kv_aliases v a = Some k \<or> held (phs ! i) = Some k \<or>
        others_hold i phs k \<or> kk_state key = ''PendingDeletion''"
    and "phs ! i = Dropping k \<Longrightarrow> kv_aliases v a \<noteq> None"
proof -
  show "phs ! i = Dropping k \<Longrightarrow> kv_aliases v a \<noteq> None" using assms unfolding phases_ok_def by blast
  have all: "\<forall>k. kv_aliases v a = Some k \<longrightarrow> usable v spec k"
    "\<forall>i < length phs. \<forall>k. held (phs ! i) = Some k \<longrightarrow> usable v spec k \<and> kv_aliases v a \<noteq> Some k \<and>
        (\<forall>j < length phs. held (phs ! j) = Some k \<longrightarrow> j = i)"
    "\<forall>k key. kv_keys v k = Some key \<longrightarrow>
        kv_keys v0 k \<noteq> None \<or> kv_aliases v a = Some k \<or> (\<exists>i < length phs. held (phs ! i) = Some k) \<or>
        kk_state key = ''PendingDeletion''"
    using assms(1) unfolding phases_ok_def by blast+
  show "kv_aliases v a = Some k \<Longrightarrow> usable v spec k" using all(1) by blast
  show "others_hold i phs k \<Longrightarrow> usable v spec k \<and> kv_aliases v a \<noteq> Some k \<and> held (phs ! i) \<noteq> Some k"
    using all(2) assms(2) unfolding others_hold_def by blast
  show "held (phs ! i) = Some k \<Longrightarrow> usable v spec k \<and> kv_aliases v a \<noteq> Some k" using all(2) assms(2) by blast
  show "kv_keys v k = Some key \<Longrightarrow> kv_keys v0 k \<noteq> None \<or> kv_aliases v a = Some k \<or> held (phs ! i) = Some k \<or>
        others_hold i phs k \<or> kk_state key = ''PendingDeletion''"
  proof -
    assume "kv_keys v k = Some key"
    then have "kv_keys v0 k \<noteq> None \<or> kv_aliases v a = Some k \<or> (\<exists>i < length phs. held (phs ! i) = Some k) \<or>
        kk_state key = ''PendingDeletion''" by (rule all(3) [rule_format])
    then show ?thesis unfolding others_hold_def by metis
  qed
qed

lemma phases_update:
  assumes inv: "phases_ok v0 spec a v phs" and i: "i < length phs"
    and ali: "kv_aliases v a \<noteq> None \<Longrightarrow> kv_aliases v' a \<noteq> None" "\<And>k. kv_aliases v' a = Some k \<Longrightarrow> usable v' spec k"
    and rest: "\<And>k. others_hold i phs k \<Longrightarrow> usable v' spec k \<and> kv_aliases v' a \<noteq> Some k \<and> held p \<noteq> Some k"
    and here: "p = Finished \<or> (\<exists>k. p = Dropping k) \<Longrightarrow> kv_aliases v' a \<noteq> None"
      "\<And>k. held p = Some k \<Longrightarrow> usable v' spec k \<and> kv_aliases v' a \<noteq> Some k"
    and keys: "\<And>k key. kv_keys v' k = Some key \<Longrightarrow> kv_keys v0 k \<noteq> None \<or> kv_aliases v' a = Some k \<or> held p = Some k \<or>
        others_hold i phs k \<or> kk_state key = ''PendingDeletion''"
  shows "phases_ok v0 spec a v' (phs[i := p])"
proof -
  have one: "\<forall>i < length phs. \<forall>k. held (phs ! i) = Some k \<longrightarrow> (\<forall>j < length phs. held (phs ! j) = Some k \<longrightarrow> j = i)"
    and fin: "\<forall>i < length phs. phs ! i = Finished \<or> (\<exists>k. phs ! i = Dropping k) \<longrightarrow> kv_aliases v a \<noteq> None"
    using inv unfolding phases_ok_def by blast+
  have held: "usable v' spec k \<and> kv_aliases v' a \<noteq> Some k \<and>
      (\<forall>j' < length phs. held (phs[i := p] ! j') = Some k \<longrightarrow> j' = j)"
    if j: "j < length phs" "held (phs[i := p] ! j) = Some k" for j k
  proof (cases "j = i")
    case True
    then show ?thesis using j i here(2) rest unfolding others_hold_def by (auto simp: nth_list_update)
  next
    case False
    then have hj: "held (phs ! j) = Some k" using j by simp
    then have r: "usable v' spec k \<and> kv_aliases v' a \<noteq> Some k \<and> held p \<noteq> Some k"
      using j(1) False rest unfolding others_hold_def by blast
    have "j' = j" if j': "j' < length phs" "held (phs[i := p] ! j') = Some k" for j'
    proof (cases "j' = i")
      case True
      then show ?thesis using j' i r by simp
    next
      case False
      then have "held (phs ! j') = Some k" using j'(2) by simp
      then show ?thesis using one [rule_format, OF j(1) hj j'(1)] by blast
    qed
    then show ?thesis using r by blast
  qed
  have kept: "\<exists>j < length phs. held (phs[i := p] ! j) = Some k" if "held p = Some k \<or> others_hold i phs k" for k
    using that i unfolding others_hold_def by (metis nth_list_update_eq nth_list_update_neq)
  have named: "kv_aliases v' a \<noteq> None" if "j < length phs" "phs[i := p] ! j = Finished \<or> (\<exists>k. phs[i := p] ! j = Dropping k)" for j
    using that fin here(1) ali(1) by (cases "j = i") (auto simp: nth_list_update)
  have keyed: "kv_keys v0 k \<noteq> None \<or> kv_aliases v' a = Some k \<or> (\<exists>j < length phs. held (phs[i := p] ! j) = Some k) \<or>
      kk_state key = ''PendingDeletion''" if "kv_keys v' k = Some key" for k key
    using keys [OF that] kept by blast
  show ?thesis
    unfolding phases_ok_def length_list_update
  proof (intro conjI)
    show "\<forall>k. kv_aliases v' a = Some k \<longrightarrow> usable v' spec k" using ali(2) by blast
    show "\<forall>j < length phs. phs[i := p] ! j = Finished \<or> (\<exists>k. phs[i := p] ! j = Dropping k) \<longrightarrow> kv_aliases v' a \<noteq> None"
      by (intro allI impI named)
    show "\<forall>j < length phs. \<forall>k. held (phs[i := p] ! j) = Some k \<longrightarrow> usable v' spec k \<and> kv_aliases v' a \<noteq> Some k \<and>
        (\<forall>j' < length phs. held (phs[i := p] ! j') = Some k \<longrightarrow> j' = j)" by (intro allI impI held)
    show "\<forall>k key. kv_keys v' k = Some key \<longrightarrow> kv_keys v0 k \<noteq> None \<or> kv_aliases v' a = Some k \<or>
        (\<exists>j < length phs. held (phs[i := p] ! j) = Some k) \<or> kk_state key = ''PendingDeletion''" by (intro allI impI keyed)
  qed
qed

lemma phase_step:
  assumes inv: "phases_ok v0 spec a v phs" and i: "i < length phs" and a: "js_starts_with a ''alias/''"
    and at: "at_phase cfg spec a (phs ! i) = Send c k" and ch: "fresh_choice ch v" and doc: "(r, v') = kms_documented ch c v"
  shows "\<exists>p. k r = at_phase cfg spec a p \<and> phases_ok v0 spec a v' (phs[i := p])"
proof -
  note facts = phases_facts [OF inv i] and update = phases_update [OF inv i]
  show ?thesis
proof (cases "phs ! i")
  case Start
  then have c: "c = DescribeKey a" using at by (simp add: save_generated_def describeKey_def request_catch_def)
  show ?thesis
  proof (cases "kv_aliases v a")
    case None
    then have "r = Inl not_found" "v' = v" using doc c a by (auto simp: on_key_def key_of_def)
    moreover have "phases_ok v0 spec a v (phs[i := Creating])"
      using facts Start None by (intro update) auto
    ultimately show ?thesis
      using at Start by (intro exI [of _ Creating]) (auto simp: save_generated_def describeKey_def request_catch_def not_found_def kms_error_def)
  next
    case (Some k0)
    then obtain key where key: "kv_keys v k0 = Some key" "kk_state key = ''Enabled''"
      using facts(1) by (auto simp: usable_def)
    then have "r = Inr (metadata_answer k0 key)" "v' = v" using doc c a Some by (auto simp: on_key_def key_of_def)
    moreover have "phases_ok v0 spec a v (phs[i := Finished])"
      using facts Start Some by (intro update) auto
    ultimately show ?thesis
      using at Start key
      by (intro exI [of _ Finished]) (auto simp: save_generated_def describeKey_def request_catch_def metadata_answer_def empty_answer_def)
  qed
next
  case Creating
  let ?k = "ch_id ch"
  let ?key = "\<lparr>kk_spec = spec, kk_state = ''Enabled'', kk_public = ch_public ch\<rparr>"
  have c: "c = CreateKey spec False (tagKey cfg)" using at Creating by (simp add: createKey_def request_catch_def)
  then have r: "r = Inr (metadata_answer ?k ?key)" "v' = set_key v ?k ?key" using doc by (simp_all add: Let_def)
  have new: "kv_keys v ?k = None" "?k \<noteq> []" "\<not> js_starts_with ?k ''alias/''" using ch by (simp_all add: fresh_choice_def)
  have no: "\<not> others_hold i phs ?k" "kv_aliases v a \<noteq> Some ?k" using facts(1,2) [of ?k] new(1) by (auto simp: usable_def)
  have "phases_ok v0 spec a v' (phs[i := Naming ?k])"
    using facts(1,2) Creating new no unfolding r
    by (intro update) (auto simp: set_key_def usable_def dest: facts(4) split: if_splits)
  then show ?thesis
    using at Creating r new(2)
    by (intro exI [of _ "Naming ?k"]) (auto simp: createKey_def request_catch_def metadata_answer_def empty_answer_def)
next
  case (Naming k1)
  have c: "c = CreateAlias a k1" using at Naming by (simp add: request_catch_def)
  have u: "usable v spec k1" "kv_aliases v a \<noteq> Some k1" using facts(3) [of k1] Naming by auto
  show ?thesis
  proof (cases "kv_aliases v a")
    case None
    then have "r = Inr empty_answer" "v' = v\<lparr>kv_aliases := (kv_aliases v)(a \<mapsto> k1)\<rparr>"
      using doc c u by (auto simp: on_key_def key_of_def usable_def)
    moreover have "phases_ok v0 spec a (v\<lparr>kv_aliases := (kv_aliases v)(a \<mapsto> k1)\<rparr>) (phs[i := Finished])"
      using facts Naming None u by (intro update) (auto simp: usable_def)
    ultimately show ?thesis using at Naming by (intro exI [of _ Finished]) (auto simp: request_catch_def)
  next
    case (Some k0)
    then have "r = Inl (JsError ''AlreadyExistsException'')" "v' = v" using doc c by auto
    moreover have "phases_ok v0 spec a v (phs[i := Dropping k1])"
      using facts Naming Some u by (intro update) auto
    ultimately show ?thesis
      using at Naming by (intro exI [of _ "Dropping k1"]) (auto simp: request_catch_def kms_error_def)
  qed
next
  case (Dropping k1)
  have c: "c = ScheduleKeyDeletion k1" "k r = retP ()"
    using at Dropping by (auto simp: discardOrphanKey_def request_catch_def split: sum.split)
  have u: "usable v spec k1" "kv_aliases v a \<noteq> Some k1" using facts(3) [of k1] Dropping by auto
  obtain key where key: "kv_keys v k1 = Some key" using u by (auto simp: usable_def)
  have v': "v' = set_key v k1 (key\<lparr>kk_state := ''PendingDeletion''\<rparr>)"
    using doc c u key by (auto simp: on_key_def key_of_def usable_def)
  have "phases_ok v0 spec a v' (phs[i := Finished])"
    using facts(1,2) facts(5) [OF Dropping] Dropping u key unfolding v'
    by (intro update) (auto simp: usable_def set_key_def dest: facts(4) split: if_splits)
  then show ?thesis using c(2) by (intro exI [of _ Finished]) simp
next
  case Finished
  then show ?thesis using at by (simp add: retP_def)
qed
qed

lemma phase_not_clock: "at_phase cfg spec a p \<noteq> Clock q"
  by (cases p) (simp_all add: save_generated_def describeKey_def createKey_def request_catch_def discardOrphanKey_def retP_def)

lemma phase_ended: "at_phase cfg spec a p = Done v \<longleftrightarrow> p = Finished \<and> v = Inr ()"
  by (cases p) (auto simp: save_generated_def describeKey_def createKey_def request_catch_def discardOrphanKey_def retP_def)

context kms_available begin

lemma phases_run:
  assumes "together send (\<lambda>s s'. s' = s) clk (s0, map (at_phase cfg spec a) phs0) tr (s, ps)" and "good s0"
    and start: "phases_ok v0 spec a (view s0) phs0" and a: "js_starts_with a ''alias/''"
  shows "good s \<and> (\<exists>phs. ps = map (at_phase cfg spec a) phs \<and> length phs = length phs0 \<and> phases_ok v0 spec a (view s) phs)"
  using assms(1)
proof (induction tr "(s, ps)" arbitrary: s ps rule: together.induct)
  case begin_together
  then show ?case using start assms(2) by auto
next
  case (answer tr s ps i c k r s')
  then obtain phs where phs: "ps = map (at_phase cfg spec a) phs" "length phs = length phs0" "phases_ok v0 spec a (view s) phs" "good s"
    by blast
  obtain ch where ch: "good s'" "fresh_choice ch (view s)" "(r, view s') = kms_documented ch c (view s)"
    using answers [OF phs(4) answer(5)] by blast
  have i: "i < length phs" "at_phase cfg spec a (phs ! i) = Send c k" using answer(3,4) phs(1) by simp_all
  obtain p where p: "k r = at_phase cfg spec a p" "phases_ok v0 spec a (view s') (phs[i := p])"
    using phase_step [OF phs(3) i(1) a i(2) ch(2,3)] by blast
  have "ps[i := k r] = map (at_phase cfg spec a) (phs[i := p])" using p(1) phs(1) by (simp add: map_update)
  then show ?case using ch(1) p(2) phs(2) by (intro conjI exI [of _ "phs[i := p]"]) simp_all
next
  case (tick tr s ps i k t)
  then show ?case using phase_not_clock by (metis nth_map length_map)
next
  case (idle tr s ps s')
  then show ?case by simp
qed

lemma fetch_named:
  assumes "good s" and "keyAlias L cfg who alg = Inr a" and "js_starts_with a ''alias/''" and "kv_aliases (view s) a = Some k"
    and "kv_keys (view s) k = Some key" and "kk_state key = ''Enabled''" and "joseAlgorithmToKeySpec alg = Some (kk_spec key)"
  shows "fst (alone send now (kms_fetch X L cfg who alg) s) =
    (case spki_pem L (kk_public key) of Inl e \<Rightarrow> Inl e | Inr pem \<Rightarrow> map_sum (\<lambda>e. e) Some (importSPKI X pem alg))"
proof -
  have key: "key_of (view s) a = Some (k, key)" using assms(3-5) by (simp add: key_of_def)
  obtain r s1 where d: "send (DescribeKey a) s = (r, s1)" by fastforce
  then have r: "r = Inr (metadata_answer k key)" "view s1 = view s" "good s1"
    using answers [OF assms(1) d] key by (auto simp: on_key_def)
  obtain r' s2 where g: "send (GetPublicKey a) s1 = (r', s2)" by fastforce
  then have r': "r' = Inr (empty_answer\<lparr>ka_PublicKey := Some (kk_public key)\<rparr>)"
    using answers [OF r(3) g] key r(2) assms(6) by (auto simp: on_key_def if_enabled_def)
  show ?thesis
    using d g r r' assms(2,6,7)
    by (simp add: kms_fetch_def describeKey_def metadata_answer_def empty_answer_def keySpecMatchesAlgorithm_def fetch_public_def
        split: sum.split)
qed

end

lemma supported_alias:
  assumes "joseAlgorithmToKeySpec alg = Some spec" and "cfg \<in> {kms_authz_config, kms_issuer_config, kms_verifier_config}"
  shows "keyAlias L cfg who alg = Inr (aliasPrefix cfg @ md5_hex L who @ ''-'' @ alg)"
    and "js_starts_with (aliasPrefix cfg @ x) ''alias/''"
proof -
  have "alg \<in> {''ES256'', ''ES384'', ''RS256'', ''RS512'', ''PS256'', ''PS512''}"
    using assms(1) by (auto simp: joseAlgorithmToKeySpec_def split: if_splits)
  then have "js_trim alg \<noteq> []" by (elim insertE emptyE) (simp_all, code_simp+)
  then show "keyAlias L cfg who alg = Inr (aliasPrefix cfg @ md5_hex L who @ ''-'' @ alg)" by (simp add: keyAlias_def)
  show "js_starts_with (aliasPrefix cfg @ x) ''alias/''"
    using assms(2) by (auto simp: js_starts_with_def kms_authz_config_def kms_issuer_config_def kms_verifier_config_def)
qed


text \<open>A request that the client library repeats, as it does when an answer is lost: both deliveries
  take effect, the second answer is seen.\<close>

definition repeated :: "(kms_command \<Rightarrow> bool) \<Rightarrow> (kms_command, kms_answer, 's) service \<Rightarrow> (kms_command, kms_answer, 's) service" where
  "repeated which send c s = (if which c then send c (snd (send c s)) else send c s)"

definition no_keys :: "kms_view \<times> nat" where
  "no_keys = (\<lparr>kv_keys = (\<lambda>k. None), kv_aliases = (\<lambda>a. None)\<rparr>, 0)"

text \<open>When the request that names the new key is delivered twice, \<open>save\<close> reports success but
  schedules the key that the alias points to for deletion: afterwards \<open>fetch\<close> finds no key,
  \<open>sign\<close> fails and \<open>save\<close> fails.\<close>

theorem kms_repeated_alias:
  "\<exists>s. alone (repeated (\<lambda>c. \<exists>a k. c = CreateAlias a k) numbered_send) now (kms_save L kms_issuer_config who ''ES256'' None) no_keys
      = (Inr (), s) \<and>
    fst (alone numbered_send now (kms_fetch X L kms_issuer_config who ''ES256'') s) = Inr None \<and>
    (\<exists>e. fst (alone numbered_send now (kms_sign X L kms_issuer_config who ''ES256'' payload [(''alg'', JStr ''ES256'')]) s) = Inl e) \<and>
    (\<exists>e. fst (alone numbered_send now (kms_save L kms_issuer_config who ''ES256'' None) s) = Inl e)"
proof -
  have spec: "joseAlgorithmToKeySpec ''ES256'' = Some ''ECC_NIST_P256''" by (simp add: joseAlgorithmToKeySpec_def)
  define a where "a = aliasPrefix kms_issuer_config @ md5_hex L who @ ''-'' @ ''ES256''"
  have al: "keyAlias L kms_issuer_config who ''ES256'' = Inr a" "js_starts_with a ''alias/''"
    using supported_alias [OF spec, of kms_issuer_config] by (simp_all add: a_def)
  define v where "v = \<lparr>kv_keys = [''kk'' \<mapsto> \<lparr>kk_spec = ''ECC_NIST_P256'', kk_state = ''PendingDeletion'', kk_public = ''spki''\<rparr>],
      kv_aliases = [a \<mapsto> ''kk'']\<rparr>"
  let ?send = "repeated (\<lambda>c. \<exists>a k. c = CreateAlias a k) numbered_send"
  have "alone ?send now (kms_save L kms_issuer_config who ''ES256'' None) no_keys = (Inr (), (v, 5))"
    using al spec
    by (simp add: kms_save_def save_generated_def describeKey_def createKey_def discardOrphanKey_def repeated_def numbered_send_def
        no_keys_def on_key_def key_of_def kms_error_def not_found_def Let_def metadata_answer_def empty_answer_def set_key_def numbered_def
        js_starts_with_def v_def)
  moreover have "fst (alone numbered_send now (kms_fetch X L kms_issuer_config who ''ES256'') (v, 5)) = Inr None"
    using al by (simp add: kms_fetch_def describeKey_def numbered_send_def on_key_def key_of_def v_def metadata_answer_def empty_answer_def)
  moreover have "\<exists>e. fst (alone numbered_send now (kms_sign X L kms_issuer_config who ''ES256'' payload [(''alg'', JStr ''ES256'')]) (v, 5)) = Inl e"
    using al by (simp add: kms_sign_def describeKey_def numbered_send_def on_key_def key_of_def v_def metadata_answer_def empty_answer_def
        joseAlgorithmToSigningAlgorithm_def digestAlgorithm_def sign_digest_def if_enabled_def kms_error_def)
  moreover have "\<exists>e. fst (alone numbered_send now (kms_save L kms_issuer_config who ''ES256'' None) (v, 5)) = Inl e"
    using al spec by (simp add: kms_save_def save_generated_def describeKey_def numbered_send_def on_key_def key_of_def v_def metadata_answer_def
        empty_answer_def)
  ultimately show ?thesis by blast
qed

subsection \<open>Two concurrent saves\<close>

definition sample_kms_lib :: kms_lib where
  "sample_kms_lib = \<lparr>md5_hex = (\<lambda>s. s), pkcs8_der = (\<lambda>k. Inr ''der''), wrap_for_import = (\<lambda>d k. Inr ''wrapped''),
     spki_pem = (\<lambda>d. Inr d), digest = (\<lambda>a s. s), der_to_jose = (\<lambda>s a. Inr s), base64url = (\<lambda>s. s)\<rparr>"

definition sample_calls :: "(string \<times> string \<times> SignatureKeyEntry option) list" where
  "sample_calls = replicate 2 (''i'', ''ES256'', None)"

text \<open>The second call runs between the creation of a key by the first one and its alias.\<close>

definition sample_saves ::
  "(kms_command \<times> (exn + kms_answer)) list \<times> (kms_view \<times> nat) \<times> unit kms_program list" where
  "sample_saves = schedule numbered_send (map (\<lambda>i. (i, 0)) [0, 0, 1, 1, 1, 0, 0])
     (no_keys, map (\<lambda>(who, alg, pair). kms_save sample_kms_lib kms_issuer_config who alg pair) sample_calls)"

lemma sample_saves_run:
  "together numbered_send (\<lambda>s s'. s' = s) (\<lambda>t. True)
     (no_keys, map (\<lambda>(who, alg, pair). kms_save sample_kms_lib kms_issuer_config who alg pair) sample_calls)
     (fst sample_saves) (fst (snd sample_saves), snd (snd sample_saves))"
  unfolding sample_saves_def prod.collapse by (rule schedule_run) (simp add: sample_calls_def)

definition ended :: "'a kms_program \<Rightarrow> bool" where
  "ended p = (case p of Done v \<Rightarrow> True | _ \<Rightarrow> False)"

lemma ended_Done: "ended p \<Longrightarrow> \<exists>v. p = Done v"
  by (cases p) (simp_all add: ended_def)

lemma sample_saves_ended: "\<forall>p \<in> set (snd (snd sample_saves)). \<exists>v. p = Done v"
proof -
  have "list_all ended (snd (snd sample_saves))" by code_simp
  then show ?thesis using ended_Done by (auto simp: list_all_iff)
qed

theorem kms_no_orphan_keys_witness:
  "\<exists>c' r'. (c', r') \<in> set (fst sample_saves) \<and> accounted ''kk'' c' r'"
proof -
  have "created_key (fst (fst sample_saves ! 1)) (snd (fst sample_saves ! 1)) = Some ''kk'' \<and> 1 < length (fst sample_saves)" by code_simp
  then show ?thesis
    using nth_mem by (intro kms_no_orphan_keys [OF sample_saves_run sample_saves_ended,
        of "fst (fst sample_saves ! 1)" "snd (fst sample_saves ! 1)"]) (simp_all)
qed


end
