(* ===== verification/Http_Responses.thy ===== *)
theory Http_Responses
  imports Issuer_Flow Verifier_Metadata
begin

text \<open>
  The responses that the HTTP endpoints of \<open>server/core\<close> share: a status, headers and the value
  given to \<open>c.json\<close> or \<open>c.text\<close>, the translation of errors (\<open>utils/error-handler.ts\<close>,
  \<open>app.ts\<close>), and the \<open>WWW-Authenticate\<close> challenges (\<open>utils/www-authenticate.ts\<close>) with a
  reader of challenges that shows that a value cannot leave its quotes. Logging is not modelled.
\<close>

subsection \<open>Responses\<close>

datatype http_body =
    ErrorBody string string
  | JsonBody jsval
  | TextBody string
  | TokenBody TokenResponse
  | CredentialsBody "string list"
  | AuthzMetadataBody AuthorizationServerMetadata
  | IssuerMetadataBody CredentialIssuerMetadata
  | JwtVcIssuerBody JwtVcIssuerResponse
  | OfferBody CredentialOffer

record http_response =
  status :: nat
  http_headers :: "(string \<times> string) list"
  http_body :: http_body

definition respond :: "nat \<Rightarrow> http_body \<Rightarrow> http_response" where
  "respond s b = \<lparr>status = s, http_headers = [], http_body = b\<rparr>"

definition refuse :: "nat \<Rightarrow> string \<Rightarrow> string \<Rightarrow> http_response" where
  "refuse s e d = respond s (ErrorBody e d)"

fun handleError :: "exn \<Rightarrow> string \<times> string" where
  "handleError (VcknotsError c msg) = (c, msg)"
| "handleError (JsError e) = (''internal_server_error'', e)"

text \<open>The last \<open>catch\<close> of every handler.\<close>

definition error_response :: "exn \<Rightarrow> http_response" where
  "error_response e =
     (case handleError e of (name, description) \<Rightarrow>
        refuse (if name = ''internal_server_error'' then 500 else 400) name description)"

definition guarded_route :: "('w, http_response) M \<Rightarrow> ('w, http_response) M" where
  "guarded_route m = catchM m (\<lambda>e. ret (error_response e))"

text \<open>An error that leaves a handler (\<open>app.ts\<close>).\<close>

definition on_error :: "('w, http_response) M \<Rightarrow> ('w, http_response) M" where
  "on_error m = catchM m (\<lambda>e. ret (respond 500 (JsonBody (JObj [(''error'', JStr ''internal_server_error'')]))))"

lemma error_response_status: "status (error_response e) = 400 \<or> status (error_response e) = 500"
  by (cases e) (simp_all add: error_response_def refuse_def respond_def)

lemma error_response_not_ok [simp]: "status (error_response e) \<noteq> 200"
  using error_response_status [of e] by auto

lemma error_response_body:
  "\<exists>n d. http_body (error_response e) = ErrorBody n d \<and> (n = ''use_dpop_nonce'' \<longrightarrow> (\<exists>m. e = VcknotsError ''use_dpop_nonce'' m))"
  by (cases e) (simp_all add: error_response_def refuse_def respond_def)

lemma guarded_route_Inr:
  assumes "guarded_route m w = (Inr r, w')"
  obtains "m w = (Inr r, w')" | e n d where "m w = (Inl e, w')" "r = error_response e" "http_body r = ErrorBody n d"
  using assms error_response_body by (cases "m w"; cases "fst (m w)") (fastforce simp: guarded_route_def run_simps)+

subsection \<open>Challenges\<close>

text \<open>The replacements of \<open>escapeQuotedString\<close>: the backslash, the quote, and runs of line ends.\<close>

fun space_lines :: "string \<Rightarrow> string" where
  "space_lines [] = []"
| "space_lines (c # cs) =
     (if code c = 10 \<or> code c = 13 then
        (case cs of d # ds \<Rightarrow> (if code d = 10 \<or> code d = 13 then space_lines cs else CHR '' '' # space_lines cs)
         | [] \<Rightarrow> [CHR '' ''])
      else c # space_lines cs)"

definition escapeQuotedString :: "string \<Rightarrow> string" where
  "escapeQuotedString v =
     space_lines (concat (map (\<lambda>c. if code c = 34 then [CHR 0x5C, c] else [c])
       (concat (map (\<lambda>c. if code c = 92 then [c, c] else [c]) v))))"

definition quoteAuthParam :: "string \<Rightarrow> string \<Rightarrow> string" where
  "quoteAuthParam n v = n @ ''='' @ [CHR 0x22] @ escapeQuotedString v @ [CHR 0x22]"

definition opt_param :: "string \<Rightarrow> string option \<Rightarrow> string list" where
  "opt_param n v = (if opt_str v then [quoteAuthParam n (getOr [] v)] else [])"

definition buildBearerAuthenticateHeader ::
  "string \<Rightarrow> string option \<Rightarrow> string option \<Rightarrow> string option \<Rightarrow> string option \<Rightarrow> string" where
  "buildBearerAuthenticateHeader realm e errorDescription errorUri scope =
     ''Bearer '' @ js_join '', '' ([quoteAuthParam ''realm'' realm] @ opt_param ''error'' e @
       opt_param ''error_description'' errorDescription @ opt_param ''error_uri'' errorUri @ opt_param ''scope'' scope)"

definition buildDpopAuthenticateHeader ::
  "string \<Rightarrow> string option \<Rightarrow> string option \<Rightarrow> string option \<Rightarrow> string" where
  "buildDpopAuthenticateHeader realm e errorDescription errorUri =
     ''DPoP '' @ js_join '', '' ([quoteAuthParam ''realm'' realm] @ opt_param ''error'' e @
       opt_param ''error_description'' errorDescription @ opt_param ''error_uri'' errorUri)"

subsection \<open>Reading a challenge\<close>

text \<open>A reader of the quoted strings of HTTP, given what follows the opening quote.\<close>

fun read_quoted :: "string \<Rightarrow> (string \<times> string) option" where
  "read_quoted [] = None"
| "read_quoted (c # cs) =
     (if code c = 34 then Some ([], cs)
      else if code c = 92 then
        (case cs of [] \<Rightarrow> None | d # ds \<Rightarrow> map_option (\<lambda>(v, r). (d # v, r)) (read_quoted ds))
      else map_option (\<lambda>(v, r). (c # v, r)) (read_quoted cs))"

text \<open>The parameters of a challenge, separated by a comma and a space; fuel bounds their number.\<close>

fun read_params :: "nat \<Rightarrow> string \<Rightarrow> (string \<times> string) list option" where
  "read_params 0 s = None"
| "read_params (Suc n) s =
     (let name = takeWhile (\<lambda>c. code c \<noteq> 61) s in
      case drop (length name) s of
        e # q # body \<Rightarrow>
          if code q \<noteq> 34 then None
          else (case read_quoted body of
             None \<Rightarrow> None
           | Some (v, rest) \<Rightarrow>
               if rest = [] then Some [(name, v)]
               else if take 2 rest = '', '' then map_option (Cons (name, v)) (read_params n (drop 2 rest))
               else None)
      | _ \<Rightarrow> None)"

definition read_challenge :: "string \<Rightarrow> (string \<times> (string \<times> string) list) option" where
  "read_challenge s =
     (let scheme = takeWhile (\<lambda>c. code c \<noteq> 32) s; rest = drop (length scheme + 1) s
      in map_option (Pair scheme) (read_params (length s) rest))"

definition esc_char :: "char \<Rightarrow> string" where
  "esc_char c = (if code c = 34 \<or> code c = 92 then [CHR 0x5C, c] else [c])"

lemma code_backslash [simp]: "code (CHR 0x5C) = 92"
  by code_simp

lemma code_quote [simp]: "code (CHR 0x22) = 34"
  by code_simp

lemma code_space [simp]: "code (CHR '' '') = 32"
  by code_simp

lemma escape_by_char:
  "concat (map (\<lambda>c. if code c = 34 then [CHR 0x5C, c] else [c])
     (concat (map (\<lambda>c. if code c = 92 then [c, c] else [c]) v))) = concat (map esc_char v)"
proof (induction v)
  case (Cons c v)
  have "char_of (92 :: nat) = CHR 0x5C" by code_simp
  then have "code c = 92 \<Longrightarrow> c = CHR 0x5C" by (metis char_of_char code_def)
  with Cons show ?case by (auto simp: esc_char_def)
qed simp

lemma space_lines_esc: "space_lines (concat (map esc_char v)) = concat (map esc_char (space_lines v))"
proof (induction v rule: space_lines.induct)
  case (2 c cs)
  then show ?case
    by (cases cs) (auto simp: esc_char_def)
qed simp

lemma space_lines_one_line: "list_all (\<lambda>c. code c \<noteq> 10 \<and> code c \<noteq> 13) (space_lines v)"
proof (induction v rule: space_lines.induct)
  case (2 c cs)
  then show ?case by (cases cs) auto
qed simp

lemma read_quoted_esc: "code q = 34 \<Longrightarrow> read_quoted (concat (map esc_char u) @ q # rest) = Some (u, rest)"
  by (induction u) (auto simp: esc_char_def)

lemma read_quoted_value: "read_quoted (escapeQuotedString v @ CHR 0x22 # rest) = Some (space_lines v, rest)"
  by (simp add: escapeQuotedString_def escape_by_char space_lines_esc read_quoted_esc)

definition param_name :: "string \<Rightarrow> bool" where
  "param_name n = list_all (\<lambda>c. code c \<noteq> 61) n"

lemma takeWhile_name: "param_name n \<Longrightarrow> takeWhile (\<lambda>c. code c \<noteq> 61) (n @ CHR ''='' # rest) = n"
  by (induction n) (simp_all add: param_name_def code_def)

lemma read_params_join:
  "list_all (\<lambda>(n, v). param_name n) ps \<Longrightarrow> ps \<noteq> [] \<Longrightarrow> length ps \<le> fuel \<Longrightarrow>
   read_params fuel (js_join '', '' (map (\<lambda>(n, v). quoteAuthParam n v) ps)) = Some (map (\<lambda>(n, v). (n, space_lines v)) ps)"
proof (induction ps arbitrary: fuel)
  case (Cons p ps)
  obtain n v where p: "p = (n, v)" by (cases p)
  from Cons.prems obtain k where k: "fuel = Suc k" "length ps \<le> k" by (cases fuel) auto
  have n: "param_name n" using Cons.prems by (simp add: p)
  show ?case
  proof (cases ps)
    case Nil
    then show ?thesis
      by (simp add: p k quoteAuthParam_def takeWhile_name [OF n] read_quoted_value [where rest = "[]"])
  next
    case (Cons p' ps')
    then have "read_params k (js_join '', '' (map (\<lambda>(n, v). quoteAuthParam n v) ps)) = Some (map (\<lambda>(n, v). (n, space_lines v)) ps)"
      using Cons.IH [of k] Cons.prems k by simp
    then show ?thesis
      by (simp add: p k Cons quoteAuthParam_def takeWhile_name [OF n] read_quoted_value)
  qed
qed simp

definition given :: "string \<Rightarrow> string option \<Rightarrow> (string \<times> string) list" where
  "given n v = (if opt_str v then [(n, getOr [] v)] else [])"

lemma opt_param_given: "opt_param n v = map (\<lambda>(n, v). quoteAuthParam n v) (given n v)"
  by (simp add: opt_param_def given_def)

lemma js_join_length: "length ps \<le> Suc (length (js_join '', '' ps))"
  by (induction "'', ''" ps rule: js_join.induct) simp_all

lemma read_challenge_scheme:
  assumes "list_all (\<lambda>c. code c \<noteq> 32) scheme" and "scheme \<noteq> []"
    and "list_all (\<lambda>(n, v). param_name n) ps" and "ps \<noteq> []"
  shows "read_challenge (scheme @ '' '' @ js_join '', '' (map (\<lambda>(n, v). quoteAuthParam n v) ps)) =
    Some (scheme, map (\<lambda>(n, v). (n, space_lines v)) ps)"
proof -
  have s: "takeWhile (\<lambda>c. code c \<noteq> 32) (scheme @ CHR '' '' # r) = scheme" for r
    using assms(1) by (induction scheme) simp_all
  have "length ps \<le> Suc (length (js_join '', '' (map (\<lambda>(n, v). quoteAuthParam n v) ps)))"
    using js_join_length [of "map (\<lambda>(n, v). quoteAuthParam n v) ps"] by simp
  also have "\<dots> \<le> length (scheme @ '' '' @ js_join '', '' (map (\<lambda>(n, v). quoteAuthParam n v) ps))" by simp
  finally show ?thesis
    using read_params_join [OF assms(3,4)] by (simp del: read_params.simps add: read_challenge_def s)
qed

definition one_line :: "string \<Rightarrow> bool" where
  "one_line s = list_all (\<lambda>c. code c \<noteq> 10 \<and> code c \<noteq> 13) s"

lemma one_line_simps [simp]:
  "one_line []" "one_line (c # s) \<longleftrightarrow> code c \<noteq> 10 \<and> code c \<noteq> 13 \<and> one_line s"
  "one_line (s @ t) \<longleftrightarrow> one_line s \<and> one_line t"
  by (auto simp: one_line_def)

lemma one_line_join: "one_line sep \<Longrightarrow> list_all one_line xs \<Longrightarrow> one_line (js_join sep xs)"
  by (induction sep xs rule: js_join.induct) simp_all

lemma one_line_esc: "one_line u \<Longrightarrow> one_line (concat (map esc_char u))"
  by (induction u) (auto simp: esc_char_def)

lemma one_line_param: "one_line n \<Longrightarrow> one_line (quoteAuthParam n v)"
proof -
  have "one_line (escapeQuotedString v)"
    using one_line_esc [of "space_lines v"] space_lines_one_line [of v]
    by (simp add: escapeQuotedString_def escape_by_char space_lines_esc one_line_def)
  moreover have "code (CHR ''='') = 61" by code_simp
  ultimately show "one_line n \<Longrightarrow> one_line (quoteAuthParam n v)" by (simp add: quoteAuthParam_def)
qed

definition challenge_params :: "string \<Rightarrow> string option \<Rightarrow> string option \<Rightarrow> string option \<Rightarrow> string option \<Rightarrow> (string \<times> string) list" where
  "challenge_params realm e description uri scope =
     (''realm'', realm) # given ''error'' e @ given ''error_description'' description @ given ''error_uri'' uri @
     given ''scope'' scope"

lemma challenge_params_names:
  "list_all (\<lambda>(n, v). param_name n \<and> one_line n) (challenge_params realm e description uri scope)"
proof -
  have "list_all (\<lambda>n. param_name n \<and> one_line n) [''realm'', ''error'', ''error_description'', ''error_uri'', ''scope'']"
    by code_simp
  then show ?thesis by (simp add: challenge_params_def given_def)
qed

lemma challenge_params_built:
  "buildBearerAuthenticateHeader realm e description uri scope =
     ''Bearer'' @ '' '' @ js_join '', '' (map (\<lambda>(n, v). quoteAuthParam n v) (challenge_params realm e description uri scope))"
  "buildDpopAuthenticateHeader realm e description uri =
     ''DPoP'' @ '' '' @ js_join '', '' (map (\<lambda>(n, v). quoteAuthParam n v) (challenge_params realm e description uri None))"
  by (simp_all add: buildBearerAuthenticateHeader_def buildDpopAuthenticateHeader_def challenge_params_def opt_param_given
      given_def)

lemma challenge_read:
  assumes "list_all (\<lambda>c. code c \<noteq> 32) scheme" and "scheme \<noteq> []" and "one_line scheme"
    and "h = scheme @ '' '' @ js_join '', '' (map (\<lambda>(n, v). quoteAuthParam n v) (challenge_params realm e description uri scope))"
  shows "read_challenge h = Some (scheme, map (\<lambda>(n, v). (n, space_lines v)) (challenge_params realm e description uri scope)) \<and>
    one_line h"
proof -
  let ?ps = "challenge_params realm e description uri scope"
  have names: "list_all (\<lambda>(n, v). param_name n) ?ps" and lines: "list_all one_line (map (\<lambda>(n, v). quoteAuthParam n v) ?ps)"
    using challenge_params_names [of realm e description uri scope] by (auto simp: list_all_iff one_line_param)
  have "code (CHR '','') = 44" by code_simp
  then have "one_line (js_join '', '' (map (\<lambda>(n, v). quoteAuthParam n v) ?ps))" by (intro one_line_join lines) simp
  moreover have "?ps \<noteq> []" by (simp add: challenge_params_def)
  ultimately show ?thesis
    using read_challenge_scheme [OF assms(1,2) names] assms(3) by (simp add: assms(4))
qed

text \<open>C9. A challenge is read back as the parameters it was built from: whatever quotes, backslashes or
  commas a description has, it stays one value, in which only the runs of line ends have
  become a space, so that no header can be injected.\<close>

theorem challenge_roundtrip:
  "read_challenge (buildBearerAuthenticateHeader realm e description uri scope) =
     Some (''Bearer'', map (\<lambda>(n, v). (n, space_lines v)) (challenge_params realm e description uri scope)) \<and>
   read_challenge (buildDpopAuthenticateHeader realm e description uri) =
     Some (''DPoP'', map (\<lambda>(n, v). (n, space_lines v)) (challenge_params realm e description uri None)) \<and>
   one_line (buildBearerAuthenticateHeader realm e description uri scope) \<and>
   one_line (buildDpopAuthenticateHeader realm e description uri)"
proof -
  have "list_all (\<lambda>c. code c \<noteq> 32) ''Bearer''" "one_line ''Bearer''" "list_all (\<lambda>c. code c \<noteq> 32) ''DPoP''" "one_line ''DPoP''"
    by code_simp+
  then show ?thesis
    using challenge_read [OF _ _ _ challenge_params_built(1)] challenge_read [OF _ _ _ challenge_params_built(2)] by simp
qed

end
