(* ===== verification/Http_Authz.thy ===== *)
theory Http_Authz
  imports Http_Responses Authz_Access
begin

text \<open>
  The HTTP endpoints of the authorization server (\<open>server/core/src/routes/authz.ts\<close>): the token
  endpoint and the metadata. A request is the values the handlers read from the framework.
\<close>

subsection \<open>The token endpoint\<close>

text \<open>\<open>token-request.types.ts\<close>: the schema tries the authorization code grant first.\<close>

fun is_str_or_num :: "jsval \<Rightarrow> bool" where
  "is_str_or_num (JStr s) = True"
| "is_str_or_num (JNum n) = num_finite n"
| "is_str_or_num v = False"

definition tx_code_of :: "jsval option \<Rightarrow> tx_code option" where
  "tx_code_of v = (case v of Some (JStr s) \<Rightarrow> Some (TxStr s) | Some (JNum n) \<Rightarrow> Some (TxNum n) | _ \<Rightarrow> None)"

definition TokenRequest_parse :: "ext \<Rightarrow> obj \<Rightarrow> TokenRequest option" where
  "TokenRequest_parse X ob =
     (if oget ob ''grant_type'' = Some (JStr ''authorization_code'') \<and> req_ok is_str ob ''code'' \<and>
         opt_ok (is_url X) ob ''redirect_uri'' \<and> opt_ok is_str ob ''code_verifier''
      then Some (TokenRequestAuthorizationCode (getOr [] (str_of (oget ob ''code'')))
             (Option.bind (str_of (oget ob ''redirect_uri'')) (zod_url X)) (str_of (oget ob ''code_verifier'')))
      else if oget ob ''grant_type'' = Some (JStr GrantType_PreAuthorizedCode) \<and> req_ok is_str ob ''pre-authorized_code'' \<and>
         opt_ok is_str_or_num ob ''tx_code''
      then Some (TokenRequestPreAuthorizedCode (getOr [] (str_of (oget ob ''pre-authorized_code''))) (tx_code_of (oget ob ''tx_code'')))
      else None)"

definition DPOP_NONCE_TTL_MS :: jsnum where
  "DPOP_NONCE_TTL_MS = Fin 300000"

definition dpop_nonce_response :: "(world, http_response) M" where
  "dpop_nonce_response =
     bindM (createDpopNonceChallenge (Some DPOP_NONCE_TTL_MS)) (\<lambda>n.
     ret \<lparr>status = 400, http_headers = [(''DPoP-Nonce'', n)],
          http_body = ErrorBody ''use_dpop_nonce'' ''Authorization server requires nonce in DPoP proof.''\<rparr>)"

text \<open>The refusal of the DPoP header, if any.\<close>

definition dpop_header_refusal :: "DPoPMode \<Rightarrow> ParsedDpopHeader \<Rightarrow> http_response option" where
  "dpop_header_refusal mode proof =
     (case proof of
        DpopOk p \<Rightarrow> None
      | DpopBad reason \<Rightarrow>
          if mode = Required \<or> (mode \<noteq> Off \<and> reason \<noteq> DpopMissing) then
            Some (refuse 400 ''invalid_request''
              (case reason of DpopMissing \<Rightarrow> ''DPoP proof JWT is required.''
               | DpopDuplicate \<Rightarrow> ''DPoP header must appear exactly once.''
               | DpopMalformed \<Rightarrow> ''DPoP header must contain a compact JWT.''))
          else None)"

definition token_options :: "string \<Rightarrow> string \<Rightarrow> DPoPMode \<Rightarrow> ParsedDpopHeader \<Rightarrow> string option \<Rightarrow> TokenRequestOptions" where
  "token_options baseUrl meth mode proof clientId =
     (case (mode, proof) of
        (Off, _) \<Rightarrow> no_token_options\<lparr>tok_clientId := clientId, ttlSec := Some (Fin 1800)\<rparr>
      | (_, DpopBad r) \<Rightarrow> no_token_options\<lparr>tok_clientId := clientId, ttlSec := Some (Fin 1800)\<rparr>
      | (_, DpopOk p) \<Rightarrow> no_token_options\<lparr>tok_clientId := clientId,
          dpopProof := Some \<lparr>proofJwt = p, dp_htm = meth, dp_htu = baseUrl @ ''/token'', nonceRequired = True\<rparr>\<rparr>)"

definition token_catch :: "exn \<Rightarrow> (world, http_response) M" where
  "token_catch e =
     (case e of
        VcknotsError c msg \<Rightarrow>
          if c = ''invalid_dpop_proof'' then ret (refuse 400 ''invalid_dpop_proof'' msg)
          else if c = ''use_dpop_nonce'' then dpop_nonce_response
          else ret (error_response e)
      | JsError n \<Rightarrow> ret (error_response e))"

text \<open>The rest of the handler, once the client is known.\<close>

definition token_for_client ::
  "ext \<Rightarrow> DPoPProofFactoryOptions \<Rightarrow> int \<Rightarrow> string \<Rightarrow> string \<Rightarrow> obj \<Rightarrow> string option \<Rightarrow> string \<Rightarrow>
   TokenRequestPolicyClientResolution \<Rightarrow> (world, http_response) M" where
  "token_for_client X D limit baseUrl meth requestData dpop issuer resolution =
     (case resolution of
        ResBad description c \<Rightarrow> ret (refuse 400 ''invalid_client'' description)
      | ResOk kind mode clientId policy \<Rightarrow>
          let proof = parseDpopHeader dpop in
          (case dpop_header_refusal mode proof of
             Some r \<Rightarrow> ret r
           | None \<Rightarrow>
               (case TokenRequest_parse X requestData of
                  None \<Rightarrow> ret (refuse 400 ''invalid_request'' ''Invalid token request parameters.'')
                | Some tokenRequest \<Rightarrow>
                    bindM (createAccessToken X D limit issuer tokenRequest (token_options baseUrl meth mode proof clientId)) (\<lambda>t.
                    ret (respond 200 (TokenBody t))))))"

text \<open>\<open>form\<close> is the form of the request, or the error of reading it.\<close>

definition token_handler ::
  "ext \<Rightarrow> DPoPProofFactoryOptions \<Rightarrow> int \<Rightarrow> string \<Rightarrow> string \<Rightarrow> exn + obj \<Rightarrow> string option \<Rightarrow> (world, http_response) M" where
  "token_handler X D limit baseUrl meth form dpop =
     bindM (liftE form) (\<lambda>requestData.
     bindM (liftE (case zod_url X baseUrl of None \<Rightarrow> Inl zod_error | Some u \<Rightarrow> Inr u)) (\<lambda>issuer.
     bindM (resolveTokenRequestClientPolicy X issuer requestData) (\<lambda>resolution.
     token_for_client X D limit baseUrl meth requestData dpop issuer resolution)))"

definition token_route ::
  "ext \<Rightarrow> DPoPProofFactoryOptions \<Rightarrow> int \<Rightarrow> string \<Rightarrow> string \<Rightarrow> exn + obj \<Rightarrow> string option \<Rightarrow> (world, http_response) M" where
  "token_route X D limit baseUrl meth form dpop =
     on_error (catchM (token_handler X D limit baseUrl meth form dpop) token_catch)"

definition authz_metadata_route :: "ext \<Rightarrow> string \<Rightarrow> (world, http_response) M" where
  "authz_metadata_route X baseUrl =
     guarded_route
       (bindM (liftE (case zod_url X baseUrl of None \<Rightarrow> Inl zod_error | Some u \<Rightarrow> Inr u)) (\<lambda>authz.
        bindM (findAuthzServerMetadata authz) (\<lambda>metadata.
        case metadata of
          None \<Rightarrow> ret (refuse 404 ''not_found'' ''Authorization server metadata not found.'')
        | Some m \<Rightarrow> ret (respond 200 (AuthzMetadataBody m)))))"

subsection \<open>What the token endpoint answers\<close>

lemma mint_token_Inl_allowed:
  "mint_token X authz c ids opts v w = (Inl e, w') \<Longrightarrow> w_allowed w' = w_allowed w"
  by (auto simp: mint_token_def Let_def run_simps on_authz_keys_def on_allowed_def allowed_save_def
      split: sum.splits prod.splits if_splits option.splits)

lemma createAccessToken_Inl_allowed:
  assumes "createAccessToken X D limit authz req opts w = (Inl e, w')"
  shows "w_allowed w' = w_allowed w"
proof (cases req)
  case (TokenRequestPreAuthorizedCode c tx)
  have P: "preserves w_allowed (token_dpop X D (dpopProof opts))"
    and Q: "preserves w_allowed (timed (\<lambda>now. on_pac (pac_consume limit now c tx)))"
    by (intro preserves_intros; simp)+
  consider "token_dpop X D (dpopProof opts) w = (Inl e, w')"
    | v w1 where "token_dpop X D (dpopProof opts) w = (Inr v, w1)"
        "timed (\<lambda>now. on_pac (pac_consume limit now c tx)) w1 = (Inl e, w')"
    | v w1 ids w2 where "token_dpop X D (dpopProof opts) w = (Inr v, w1)"
        "timed (\<lambda>now. on_pac (pac_consume limit now c tx)) w1 = (Inr ids, w2)" "mint_token X authz c ids opts v w2 = (Inl e, w')"
    using assms TokenRequestPreAuthorizedCode by (auto simp: createAccessToken_def bindM_Inl)
  then show ?thesis
    by cases (simp_all add: preservesD [OF P] preservesD [OF Q] mint_token_Inl_allowed)
qed (use assms in \<open>simp_all add: createAccessToken_def raise_run\<close>)

text \<open>An error is answered with a status of 400 or 500, and none of the tables changes then but that of nonces.\<close>

lemma dpop_nonce_response_run:
  "\<exists>n e w'. dpop_nonce_response w = (Inr \<lparr>status = 400, http_headers = [(''DPoP-Nonce'', n)], http_body = e\<rparr>, w') \<and>
     w_nonces w' n \<noteq> None \<and> w_allowed w' = w_allowed w \<and> w_pac w' = w_pac w"
  by (simp add: dpop_nonce_response_def createDpopNonceChallenge_def nonce_generate_def nonce_save_def on_nonces_def run_simps)

definition nonce_attached :: "http_response \<Rightarrow> world \<Rightarrow> bool" where
  "nonce_attached r w \<longleftrightarrow>
     (\<forall>d. http_body r = ErrorBody ''use_dpop_nonce'' d \<longrightarrow>
        (\<exists>n. (''DPoP-Nonce'', n) \<in> set (http_headers r) \<and> w_nonces w n \<noteq> None))"

lemma token_catch_run:
  obtains r w' where "token_catch e w = (Inr r, w')" "status r \<in> {400, 500}" "nonce_attached r w'"
    "w_allowed w' = w_allowed w"  "w_pac w' = w_pac w"
proof (cases e)
  case (VcknotsError c msg)
  consider "c = ''invalid_dpop_proof''" | "c = ''use_dpop_nonce''" | "c \<noteq> ''invalid_dpop_proof''" "c \<noteq> ''use_dpop_nonce''"
    by blast
  then show thesis
  proof cases
    case 1
    then show thesis
      using that [of "refuse 400 ''invalid_dpop_proof'' msg" w]
      by (simp add: token_catch_def VcknotsError ret_run refuse_def respond_def nonce_attached_def)
  next
    case 2
    obtain n b w' where "dpop_nonce_response w = (Inr \<lparr>status = 400, http_headers = [(''DPoP-Nonce'', n)], http_body = b\<rparr>, w')"
        "w_nonces w' n \<noteq> None" "w_allowed w' = w_allowed w" "w_pac w' = w_pac w"
      using dpop_nonce_response_run by blast
    with 2 show thesis using that [of "\<lparr>status = 400, http_headers = [(''DPoP-Nonce'', n)], http_body = b\<rparr>" w']
      by (simp add: token_catch_def VcknotsError nonce_attached_def)
  next
    case 3
    then show thesis
      using that [of "error_response e" w] error_response_status [of e] error_response_body [of e]
      by (auto simp: token_catch_def VcknotsError ret_run nonce_attached_def)
  qed
next
  case (JsError n)
  then show thesis
    using that [of "error_response e" w] error_response_status [of e] error_response_body [of e]
    by (auto simp: token_catch_def ret_run nonce_attached_def)
qed

lemma dpop_header_refusal_status:
  "dpop_header_refusal mode p = Some r \<Longrightarrow> status r = 400 \<and> (\<exists>d. http_body r = ErrorBody ''invalid_request'' d)"
  by (auto simp: dpop_header_refusal_def refuse_def respond_def split: ParsedDpopHeader.splits if_splits)

text \<open>The successful run of the handler.\<close>

definition token_granted ::
  "ext \<Rightarrow> DPoPProofFactoryOptions \<Rightarrow> int \<Rightarrow> string \<Rightarrow> string \<Rightarrow> obj \<Rightarrow> string option \<Rightarrow> world \<Rightarrow> TokenResponse \<Rightarrow> world \<Rightarrow> bool" where
  "token_granted X D limit baseUrl meth form dpop w t w' \<longleftrightarrow>
     (\<exists>issuer kind mode cid pol w1 req.
        zod_url X baseUrl = Some issuer \<and>
        resolveTokenRequestClientPolicy X issuer form w = (Inr (ResOk kind mode cid pol), w1) \<and>
        dpop_header_refusal mode (parseDpopHeader dpop) = None \<and>
        TokenRequest_parse X form = Some req \<and>
        createAccessToken X D limit issuer req (token_options baseUrl meth mode (parseDpopHeader dpop) cid) w1 = (Inr t, w'))"

lemma resolution_keeps:
  assumes "resolveTokenRequestClientPolicy X issuer ob w = (r, w')"
  shows "w_allowed w' = w_allowed w \<and> w_pac w' = w_pac w"
proof -
  have P: "preserves w_allowed (resolveTokenRequestClientPolicy X issuer ob)"
    and Q: "preserves w_pac (resolveTokenRequestClientPolicy X issuer ob)"
    unfolding resolveTokenRequestClientPolicy_def by (intro preserves_intros; simp)+
  show ?thesis using preservesD [OF P assms] preservesD [OF Q assms] by simp
qed

lemma token_handler_cases:
  assumes "token_handler X D limit baseUrl meth form dpop w = (Inr r, w')"
  obtains (granted) ob t where "form = Inr ob" "r = respond 200 (TokenBody t)"
      "token_granted X D limit baseUrl meth ob dpop w t w'"
    | (refused) "status r = 400" "nonce_attached r w'" "w_allowed w' = w_allowed w" "w_pac w' = w_pac w"
proof -
  obtain ob issuer res w1 where h: "form = Inr ob" "zod_url X baseUrl = Some issuer"
      "resolveTokenRequestClientPolicy X issuer ob w = (Inr res, w1)"
      "token_for_client X D limit baseUrl meth ob dpop issuer res w1 = (Inr r, w')"
    using assms by (auto simp: token_handler_def bindM_Inr liftE_Inr split: option.splits)
  note w1 = resolution_keeps [OF h(3)]
  show thesis
  proof (cases res)
    case (ResBad description c)
    then show thesis
      using refused h(4) w1 by (auto simp: token_for_client_def ret_run refuse_def respond_def nonce_attached_def)
  next
    case (ResOk kind mode cid pol)
    show thesis
    proof (cases "dpop_header_refusal mode (parseDpopHeader dpop)")
      case (Some r')
      then show thesis
        using refused h(4) w1 dpop_header_refusal_status [OF Some]
        by (auto simp: token_for_client_def ResOk ret_run nonce_attached_def)
    next
      case None
      show thesis
      proof (cases "TokenRequest_parse X ob")
        case pn: None
        then show thesis
          using refused h(4) w1
          by (auto simp: token_for_client_def ResOk None ret_run refuse_def respond_def nonce_attached_def)
      next
        case ps: (Some req)
        then obtain t where t: "createAccessToken X D limit issuer req (token_options baseUrl meth mode (parseDpopHeader dpop) cid) w1
            = (Inr t, w')" "r = respond 200 (TokenBody t)"
          using h(4) by (auto simp: token_for_client_def ResOk None bindM_Inr ret_Inr)
        have "token_granted X D limit baseUrl meth ob dpop w t w'"
          using h(2,3) None ps t(1) by (auto simp: token_granted_def ResOk)
        with h(1) t(2) show thesis by (rule granted)
      qed
    qed
  qed
qed

lemma token_for_client_Inl_allowed:
  "token_for_client X D limit baseUrl meth ob dpop issuer res w = (Inl e, w') \<Longrightarrow> w_allowed w' = w_allowed w"
  by (auto simp: token_for_client_def Let_def bindM_Inl ret_run createAccessToken_Inl_allowed
      split: TokenRequestPolicyClientResolution.splits option.splits)

lemma token_handler_Inl_allowed:
  assumes "token_handler X D limit baseUrl meth form dpop w = (Inl e, w')"
  shows "w_allowed w' = w_allowed w"
  using assms
  by (auto simp: token_handler_def bindM_Inl liftE_run token_for_client_Inl_allowed dest: resolution_keeps)

lemma token_granted_grounds:
  assumes "token_granted X D limit baseUrl meth ob dpop w t w'"
  shows "\<exists>issuer kind mode cid pol w1 c tx e now life.
    zod_url X baseUrl = Some issuer \<and>
    resolveTokenRequestClientPolicy X issuer ob w = (Inr (ResOk kind mode cid pol), w1) \<and>
    TokenRequest_parse X ob = Some (TokenRequestPreAuthorizedCode c tx) \<and>
    w_pac w c = Some e \<and> getOr 0 (pe_attempts e) < limit \<and> \<not> pac_expired now e \<and> tx_ok e tx \<and>
    w_pac w' = (w_pac w)(c := None) \<and>
    w_allowed w' = (w_allowed w)(calculateAccessTokenHash X (access_token t) \<mapsto>
      \<lparr>allowed_ids = pe_ids e, allowed_expires_at = life\<rparr>) \<and>
    (token_type t = ''DPoP'' \<longleftrightarrow> mode \<noteq> Off \<and> (\<exists>p. parseDpopHeader dpop = DpopOk p)) \<and>
    (mode = Required \<longrightarrow> token_type t = ''DPoP'')"
proof -
  let ?p = "parseDpopHeader dpop"
  obtain issuer kind mode cid pol w1 req where g: "zod_url X baseUrl = Some issuer"
      "resolveTokenRequestClientPolicy X issuer ob w = (Inr (ResOk kind mode cid pol), w1)"
      "dpop_header_refusal mode ?p = None" "TokenRequest_parse X ob = Some req"
      "createAccessToken X D limit issuer req (token_options baseUrl meth mode ?p cid) w1 = (Inr t, w')"
    using assms by (auto simp: token_granted_def)
  obtain c tx where req: "req = TokenRequestPreAuthorizedCode c tx"
    using g(5) by (rule createAccessToken_Inr)
  have proof_given: "dpopProof (token_options baseUrl meth mode ?p cid) \<noteq> None \<longleftrightarrow> mode \<noteq> Off \<and> (\<exists>p. ?p = DpopOk p)"
    by (cases mode; cases ?p) (simp_all add: token_options_def no_token_options_def)
  have "mode = Required \<Longrightarrow> \<exists>p. ?p = DpopOk p"
    using g(3) by (auto simp: dpop_header_refusal_def split: ParsedDpopHeader.splits)
  moreover have "token_type t = ''DPoP'' \<longleftrightarrow> mode \<noteq> Off \<and> (\<exists>p. ?p = DpopOk p)"
    using createAccessToken_grants [OF g(5) [unfolded req]] proof_given by auto
  ultimately show ?thesis
    using createAccessToken_grants [OF g(5) [unfolded req]] g(1,2,4) req resolution_keeps [OF g(2)]
    by (fastforce simp del: fun_upd_apply)
qed


subsection \<open>An exchange\<close>

definition http_world :: world where
  "http_world = demo_world\<lparr>w_policies := Map.empty,
     w_authz_metadata := [''as'' \<mapsto> demo_metadata\<lparr>pre_authorized_grant_anonymous_access_supported := Some True\<rparr>]\<rparr>"

definition token_form :: obj where
  "token_form = [(''grant_type'', JStr GrantType_PreAuthorizedCode), (''pre-authorized_code'', JStr ''code'')]"

lemma token_run:
  "returns (\<lambda>r. status r = 200) (token_route ext0 default_dpop_options 5 ''as'' ''POST'' (Inr token_form) None http_world)"
  by code_simp


end
