(* ===== verification/Http_Issue.thy ===== *)
theory Http_Issue
  imports Http_Authz
begin

text \<open>
  The HTTP endpoints of the issuer (\<open>server/core/src/routes/issue.ts\<close>) with the schema of a
  credential request (\<open>credential-request.types.ts\<close>, \<open>proofs.types.ts\<close>).
\<close>

subsection \<open>Credential requests\<close>

definition nonempty_str :: "jsval \<Rightarrow> bool" where
  "nonempty_str v = (case v of JStr s \<Rightarrow> s \<noteq> [] | _ \<Rightarrow> False)"

definition nonempty_strs :: "jsval \<Rightarrow> bool" where
  "nonempty_strs v = (case v of JArr xs \<Rightarrow> xs \<noteq> [] \<and> list_all nonempty_str xs | _ \<Rightarrow> False)"

definition compact_jwt :: "jsval \<Rightarrow> bool" where
  "compact_jwt v = (case v of JStr s \<Rightarrow> compactJwtPattern s | _ \<Rightarrow> False)"

definition integrity_proof_ok :: "jsval \<Rightarrow> bool" where
  "integrity_proof_ok v =
     (case v of
        JObj ob \<Rightarrow>
          list_all (opt_ok nonempty_str ob) [''type'', ''verificationMethod'', ''created'', ''challenge'', ''proofValue''] \<and>
          list_all (req_ok nonempty_str ob) [''cryptosuite'', ''domain''] \<and>
          oget ob ''proofPurpose'' = Some (JStr ''authentication'')
      | _ \<Rightarrow> False)"

definition di_vp_ok :: "jsval \<Rightarrow> bool" where
  "di_vp_ok v =
     (case v of
        JObj ob \<Rightarrow>
          list_all (opt_ok nonempty_strs ob) [''@context'', ''type''] \<and> opt_ok nonempty_str ob ''holder'' \<and>
          (case oget ob ''proof'' of
             Some (JArr ps) \<Rightarrow> ps \<noteq> [] \<and> list_all integrity_proof_ok ps
           | Some p \<Rightarrow> integrity_proof_ok p
           | None \<Rightarrow> False)
      | _ \<Rightarrow> False)"

text \<open>The three strict objects: one member each, and no other.\<close>

definition Proofs_parse :: "jsval \<Rightarrow> Proofs option" where
  "Proofs_parse v =
     (case v of
        JObj [(k, JArr xs)] \<Rightarrow>
          if k = ''jwt'' \<and> xs \<noteq> [] \<and> list_all compact_jwt xs then Some (JwtProofs (map (\<lambda>x. getOr [] (str_of (Some x))) xs))
          else if k = ''di_vp'' \<and> xs \<noteq> [] \<and> list_all di_vp_ok xs then Some (DiVpProofs xs)
          else if k = ''attestation'' \<and> length xs = 1 \<and> list_all compact_jwt xs
            then Some (AttestationProofs (map (\<lambda>x. getOr [] (str_of (Some x))) xs))
          else None
      | _ \<Rightarrow> None)"

definition response_encryption_ok :: "jsval \<Rightarrow> bool" where
  "response_encryption_ok v =
     (case v of JObj ob \<Rightarrow> list_all (req_ok is_str ob) [''jwk'', ''alg''] \<and> opt_ok is_str ob ''zip'' | _ \<Rightarrow> False)"

definition CredentialRequest_parse :: "jsval \<Rightarrow> exn + CredentialRequest" where
  "CredentialRequest_parse v =
     (case v of
        JObj ob \<Rightarrow>
          if list_all (opt_ok is_str ob) [''credential_identifier'', ''credential_configuration_id''] \<and>
             opt_ok (\<lambda>p. Proofs_parse p \<noteq> None) ob ''proofs'' \<and> opt_ok response_encryption_ok ob ''credential_response_encryption''
          then Inr \<lparr>credential_identifier = str_of (oget ob ''credential_identifier''),
                    credential_configuration_id = str_of (oget ob ''credential_configuration_id''),
                    request_proofs = Option.bind (oget ob ''proofs'') Proofs_parse\<rparr>
          else Inl zod_error
      | _ \<Rightarrow> Inl zod_error)"

subsection \<open>Responses\<close>

definition C_NONCE_TTL_MS :: jsnum where
  "C_NONCE_TTL_MS = Fin 120000"

definition unauthorized :: "string \<Rightarrow> string \<Rightarrow> string \<Rightarrow> string option \<Rightarrow> http_response" where
  "unauthorized realm e description challenge =
     \<lparr>status = 401,
      http_headers = [(''WWW-Authenticate'', buildBearerAuthenticateHeader realm challenge
        (if opt_str challenge then Some description else None) None None)],
      http_body = ErrorBody e description\<rparr>"

definition issuer_dpop_nonce_response :: "string \<Rightarrow> (world, http_response) M" where
  "issuer_dpop_nonce_response realm =
     bindM (createDpopNonceChallenge (Some DPOP_NONCE_TTL_MS)) (\<lambda>n.
     let description = ''Credential issuer requires nonce in DPoP proof.'' in
     ret \<lparr>status = 401,
          http_headers = [(''DPoP-Nonce'', n),
            (''WWW-Authenticate'', buildDpopAuthenticateHeader realm (Some ''use_dpop_nonce'') (Some description) None)],
          http_body = ErrorBody ''use_dpop_nonce'' description\<rparr>)"

definition invalidDpopProof :: "string \<Rightarrow> string \<Rightarrow> http_response" where
  "invalidDpopProof realm description =
     \<lparr>status = 401,
      http_headers = [(''WWW-Authenticate'',
        buildDpopAuthenticateHeader realm (Some ''invalid_dpop_proof'') (Some description) None)],
      http_body = ErrorBody ''invalid_dpop_proof'' description\<rparr>"

definition CredentialIssuer_parse :: "ext \<Rightarrow> string \<Rightarrow> exn + string" where
  "CredentialIssuer_parse X u = (case zod_url X u of None \<Rightarrow> Inl zod_error | Some v \<Rightarrow> Inr v)"

subsection \<open>Offers\<close>

text \<open>The body of an offer request: absent, not JSON, or the options it names.\<close>

datatype offer_input = NoOfferBody | BadOfferBody | OfferInput "TxCodeOptions option" "string option"

definition offer_route :: "ext \<Rightarrow> bool \<Rightarrow> string \<Rightarrow> string \<Rightarrow> offer_input \<Rightarrow> (world, http_response) M" where
  "offer_route X debug baseUrl configuration body =
     guarded_route
       (bindM (liftE (CredentialIssuer_parse X baseUrl)) (\<lambda>issuer.
        let run = (\<lambda>txCode server.
          bindM (offerCredential X debug issuer [configuration] (Some (OfferPreAuth txCode (Some (Fin 600)) server)))
            (\<lambda>r. ret (respond 200 (OfferBody (or_offer r)))))
        in case body of
             BadOfferBody \<Rightarrow> ret (refuse 400 ''invalid_request'' ''Request body must be valid JSON.'')
           | NoOfferBody \<Rightarrow> run None None
           | OfferInput txCode server \<Rightarrow> run txCode server))"

subsection \<open>The credential endpoint\<close>

definition issueClaimsSample :: obj where
  "issueClaimsSample =
     [(''given_name'', JStr ''test''), (''family_name'', JStr ''taro''), (''degree'', JStr ''5''), (''gpa'', JStr ''test''),
      (''address'', JObj [(''country'', JStr ''fuga''), (''region'', JStr ''xyz'')])]"

text \<open>The inner \<open>catch\<close>: what a refused authorization becomes.\<close>

definition authorization_refused :: "string \<Rightarrow> exn \<Rightarrow> (world, http_response) M" where
  "authorization_refused realm e =
     (case e of
        VcknotsError c msg \<Rightarrow>
          if c = ''invalid_access_token'' then ret (unauthorized realm ''invalid_token'' msg (Some ''invalid_token''))
          else if c = ''invalid_dpop_proof'' then ret (invalidDpopProof realm msg)
          else if c = ''use_dpop_nonce'' then issuer_dpop_nonce_response realm
          else throw e
      | JsError n \<Rightarrow> throw e)"

definition tryM :: "('w, 'a) M \<Rightarrow> ('w, exn + 'a) M" where
  "tryM m = (\<lambda>w. case m w of (r, w') \<Rightarrow> (Inr r, w'))"

definition credential_body ::
  "ext \<Rightarrow> bool \<Rightarrow> CredentialProofJwtFactoryOptions \<Rightarrow> IssueCredentialProviderOptions \<Rightarrow> string \<Rightarrow>
   CredentialEndpointAuthorizationContext \<Rightarrow> jsval option \<Rightarrow> (world, http_response) M" where
  "credential_body X debug F P issuer ctx body =
     (if \<not> truthy body then ret (refuse 400 ''invalid_credential_request'' ''Request body must be a valid JSON.'')
      else case CredentialRequest_parse (getOr JNull body) of
        Inl e \<Rightarrow> ret (refuse 400 ''invalid_credential_request'' ''Request body does not conform to CredentialRequest schema.'')
      | Inr request \<Rightarrow>
          bindM (issueCredential X debug F P issuer request
            \<lparr>authorizationContext = ctx, issue_alg = Some ''ES256'', cnonce = Some (Fin 300000),
             issue_claims = Some issueClaimsSample, issue_subject = None, proofJwt_usePreAuth = Some True\<rparr>)
            (\<lambda>credentials. ret (respond 200 (CredentialsBody credentials))))"

text \<open>\<open>body\<close> is the JSON value of the request, none when it cannot be read.\<close>

definition credentials_route ::
  "ext \<Rightarrow> bool \<Rightarrow> DPoPProofFactoryOptions \<Rightarrow> CredentialProofJwtFactoryOptions \<Rightarrow> IssueCredentialProviderOptions \<Rightarrow>
   string \<Rightarrow> string \<Rightarrow> string \<Rightarrow> string option \<Rightarrow> string option \<Rightarrow> jsval option \<Rightarrow> (world, http_response) M" where
  "credentials_route X debug D F P authz baseUrl meth authorization dpop body =
     guarded_route
       (bindM (liftE (CredentialIssuer_parse X baseUrl)) (\<lambda>issuer.
        bindM (tryM (authorizeCredentialEndpointAccess X D authz
          \<lparr>ep_alg = None, authorizationHeader = authorization, dpopHeader = dpop, ep_htm = meth,
           ep_htu = baseUrl @ ''/credentials'', ep_nonceRequired = True\<rparr>)) (\<lambda>r.
        case r of
          Inl e \<Rightarrow> authorization_refused baseUrl e
        | Inr ctx \<Rightarrow> credential_body X debug F P issuer ctx body)))"

subsection \<open>Metadata\<close>

definition issuer_metadata_route :: "ext \<Rightarrow> bool \<Rightarrow> string \<Rightarrow> (world, http_response) M" where
  "issuer_metadata_route X debug baseUrl =
     guarded_route
       (bindM (liftE (CredentialIssuer_parse X baseUrl)) (\<lambda>issuer.
        bindM (findIssuerMetadata X debug issuer) (\<lambda>metadata.
        case metadata of
          None \<Rightarrow> ret (refuse 404 ''not_found'' ''Credential issuer metadata not found.'')
        | Some m \<Rightarrow> ret (respond 200 (IssuerMetadataBody m)))))"

definition jwt_vc_issuer_route :: "ext \<Rightarrow> bool \<Rightarrow> string \<Rightarrow> (world, http_response) M" where
  "jwt_vc_issuer_route X debug baseUrl =
     guarded_route
       (bindM (liftE (CredentialIssuer_parse X baseUrl)) (\<lambda>issuer.
        bindM (findJwtVcIssuerMetadata X debug issuer) (\<lambda>metadata.
        case metadata of
          None \<Rightarrow> ret (refuse 404 ''not_found'' ''Credential issuer metadata not found.'')
        | Some m \<Rightarrow> ret (respond 200 (JwtVcIssuerBody m)))))"

subsection \<open>Nonces\<close>

definition nonce_route :: "string \<Rightarrow> (world, http_response) M" where
  "nonce_route authz =
     guarded_route
       (bindM (createNonce (Some C_NONCE_TTL_MS)) (\<lambda>cnonce.
        bindM (resolveAuthzPolicyDpopModeForIssuer authz DefaultClient None) (\<lambda>dpopMode.
        let payload = JsonBody (JObj [(''c_nonce'', JStr cnonce)]); caching = (''Cache-Control'', ''no-store'') in
        if dpopMode \<noteq> Off then
          bindM (createNonce (Some DPOP_NONCE_TTL_MS)) (\<lambda>dpopNonce.
          ret \<lparr>status = 200, http_headers = [caching, (''DPoP-Nonce'', dpopNonce)], http_body = payload\<rparr>)
        else ret \<lparr>status = 200, http_headers = [caching], http_body = payload\<rparr>)))"

definition validate_nonce_route :: "string \<Rightarrow> (world, http_response) M" where
  "validate_nonce_route n =
     guarded_route (bindM (validateNonce n) (\<lambda>valid. ret (respond 200 (JsonBody (JObj [(''valid'', JBool valid)])))))"

definition delete_nonce_route :: "string \<Rightarrow> (world, http_response) M" where
  "delete_nonce_route n =
     guarded_route (bindM (revokeNonce n) (\<lambda>deleted.
       if \<not> deleted then ret (refuse 404 ''not_found'' ''Nonce not found.'')
       else ret (respond 200 (JsonBody (JObj [(''deleted'', JBool True)])))))"

end
