(* ===== verification/Http_Issuance.thy ===== *)
theory Http_Issuance
  imports Http_Issue Issuer_Safety
begin

text \<open>
  The issuer's server as a whole: sequences of HTTP requests to the routes of
  \<open>server/core/src/routes/issue.ts\<close> and \<open>authz.ts\<close>, and what a credential that such a server
  returns says about the requests before it.
\<close>

subsection \<open>The server\<close>

record issuer_server =
  is_ext :: ext
  is_debug :: bool
  is_dpop :: DPoPProofFactoryOptions
  is_proof :: CredentialProofJwtFactoryOptions
  is_identifier :: IssueCredentialProviderOptions
  is_limit :: int
  is_authz :: string
  is_baseUrl :: string

datatype http_request =
    OfferRequest string offer_input
  | TokenHttpRequest "exn + obj" "string option"
  | CredentialsRequest "string option" "string option" "jsval option"
  | NonceRequest
  | ValidateNonceRequest string
  | DeleteNonceRequest string
  | IssuerMetadataRequest
  | JwtVcIssuerRequest
  | AuthzMetadataRequest

fun route :: "issuer_server \<Rightarrow> http_request \<Rightarrow> (world, http_response) M" where
  "route S (OfferRequest configuration body) =
     offer_route (is_ext S) (is_debug S) (is_baseUrl S) configuration body"
| "route S (TokenHttpRequest form dpop) =
     token_route (is_ext S) (is_dpop S) (is_limit S) (is_baseUrl S) ''POST'' form dpop"
| "route S (CredentialsRequest authorization dpop body) =
     credentials_route (is_ext S) (is_debug S) (is_dpop S) (is_proof S) (is_identifier S) (is_authz S) (is_baseUrl S)
       ''POST'' authorization dpop body"
| "route S NonceRequest = nonce_route (is_authz S)"
| "route S (ValidateNonceRequest n) = validate_nonce_route n"
| "route S (DeleteNonceRequest n) = delete_nonce_route n"
| "route S IssuerMetadataRequest = issuer_metadata_route (is_ext S) (is_debug S) (is_baseUrl S)"
| "route S JwtVcIssuerRequest = jwt_vc_issuer_route (is_ext S) (is_debug S) (is_baseUrl S)"
| "route S AuthzMetadataRequest = authz_metadata_route (is_ext S) (is_baseUrl S)"

definition serve :: "issuer_server \<Rightarrow> http_request \<Rightarrow> world \<Rightarrow> http_response \<times> world" where
  "serve S rq w =
     (case on_error (route S rq) w of
        (Inr r, w') \<Rightarrow> (r, w')
      | (Inl e, w') \<Rightarrow> (error_response e, w'))"

type_synonym history = "(http_request \<times> http_response) list"

fun serve_all :: "issuer_server \<Rightarrow> http_request list \<Rightarrow> history \<times> world \<Rightarrow> history \<times> world" where
  "serve_all S [] s = s"
| "serve_all S (rq # rqs) (h, w) = (case serve S rq w of (r, w') \<Rightarrow> serve_all S rqs (h @ [(rq, r)], w'))"

text \<open>What the history says of an identifier of a configuration, and of a token.\<close>

definition offer_requested :: "history \<Rightarrow> string \<Rightarrow> bool" where
  "offer_requested h configId \<longleftrightarrow> (\<exists>b r. (OfferRequest configId b, r) \<in> set h)"

definition token_answered :: "history \<Rightarrow> TokenResponse \<Rightarrow> bool" where
  "token_answered h t \<longleftrightarrow> (\<exists>f d r. (TokenHttpRequest f d, r) \<in> set h \<and> status r = 200 \<and> http_body r = TokenBody t)"

definition grants_ok :: "ext \<Rightarrow> history \<Rightarrow> world \<Rightarrow> bool" where
  "grants_ok X h w \<longleftrightarrow>
     (\<forall>c e. w_pac w c = Some e \<longrightarrow> (\<forall>i \<in> set (pe_ids e). offer_requested h i)) \<and>
     (\<forall>k e. w_allowed w k = Some e \<longrightarrow>
        (\<exists>t. token_answered h t \<and> calculateAccessTokenHash X (access_token t) = k) \<and>
        (\<forall>i \<in> set (allowed_ids e). offer_requested h i))"

subsection \<open>What the routes do to codes and records\<close>

definition grants :: "world \<Rightarrow> pac_store \<times> allowed_store" where
  "grants w = (w_pac w, w_allowed w)"

lemma grants_ok_cong: "grants w' = grants w \<Longrightarrow> grants_ok X h w' = grants_ok X h w"
  by (simp add: grants_def grants_ok_def)

lemma keeps_grants: "preserves grants m \<Longrightarrow> keeps (grants_ok X h) m"
  unfolding preserves_keeps keeps_def by (metis grants_ok_cong)

lemma grants_ok_append: "grants_ok X h w \<Longrightarrow> grants_ok X (h @ h') w"
  unfolding grants_ok_def offer_requested_def token_answered_def by (fastforce simp del: split_paired_Ex)

lemma keeps_allowed_fetch: "keeps (grants_ok X h) (timed (\<lambda>now. on_allowed (allowed_fetch now k)))"
  by (auto simp: keeps_def timed_run on_allowed_def zoom_run allowed_fetch_def grants_ok_def split: option.splits)

lemma grants_updates [simp]:
  "grants (w\<lparr>w_clk := c\<rparr>) = grants w" "grants (w\<lparr>w_rnd := r\<rparr>) = grants w" "grants (w\<lparr>w_nonces := n\<rparr>) = grants w"
  "grants (w\<lparr>w_dpop_jtis := j\<rparr>) = grants w" "grants (w\<lparr>w_authz_keys := ak\<rparr>) = grants w"
  "grants (w\<lparr>w_issuer_keys := ik\<rparr>) = grants w" "grants (w\<lparr>w_clients := cl\<rparr>) = grants w"
  "grants (w\<lparr>w_policies := po\<rparr>) = grants w" "grants (w\<lparr>w_authz_metadata := am\<rparr>) = grants w"
  "grants (w\<lparr>w_issuer_metadata := im\<rparr>) = grants w" "grants (w\<lparr>w_oauth_jtis := oj\<rparr>) = grants w"
  by (simp_all add: grants_def)

lemma preserves_grants_nonce:
  "preserves grants (createNonce ttl)" "preserves grants (validateNonce n)" "preserves grants (revokeNonce n)"
  "preserves grants (createDpopNonceChallenge ttl)"
  unfolding createNonce_def validateNonce_def revokeNonce_def createDpopNonceChallenge_def nonce_generate_def
  by (intro preserves_intros; simp)+

lemma preserves_grants_access:
  "preserves grants (authorizeCredentialEndpointAccess X D authz opts)"
  unfolding authorizeCredentialEndpointAccess_def authorize_dpop_def
  by (cases "parseAuthorizationHeader (authorizationHeader opts)"; cases "parseDpopHeader (dpopHeader opts)")
    (auto intro!: preserves_intros split: HeaderReason.split DpopHeaderReason.split)

lemma preserves_grants_metadata:
  "preserves grants (findIssuerMetadata X debug i)" "preserves grants (findJwtVcIssuerMetadata X debug i)"
  "preserves grants (findAuthzServerMetadata i)"
  unfolding findIssuerMetadata_def findJwtVcIssuerMetadata_def findAuthzServerMetadata_def jwt_vc_key_def
  by (intro preserves_intros; simp)+

lemma keeps_grants_verify_proofs: "preserves grants (verify_proofs X F metadata options ty v pvs)"
  by (induction pvs arbitrary: v)
    (auto intro!: preserves_intros preserves_grants_nonce simp: check_proof_nonce_def split: option.split)

lemma keeps_grants_issue: "keeps (grants_ok X' h) (issueCredential X debug F P issuer request options)"
proof -
  have "preserves grants (request_proof X F metadata conf options ps)" for metadata conf ps
    unfolding request_proof_def
    by (auto intro!: preserves_intros keeps_grants_verify_proofs split: option.split proofsObjects.split)
  moreover have "preserves grants (createCredential_jwt X P issuer conf copts)" "preserves grants (createCredential_sd_jwt X issuer conf copts)"
    for conf copts by (intro preserves_intros; simp)+
  moreover have "preserves grants (on_issuer_metadata (issuer_metadata_fetch issuer))" by (intro preserves_intros; simp)
  moreover have "keeps (grants_ok X' h) (requested_configuration metadata request options)" for metadata
    unfolding requested_configuration_def by (intro keeps_intros keeps_allowed_fetch)
  ultimately show ?thesis
    unfolding issueCredential_def by (intro keeps_intros; simp add: keeps_grants)
qed

lemma keeps_pac_save:
  assumes "\<forall>i \<in> set ids. offer_requested h i"
  shows "keeps (grants_ok X h) (timed (\<lambda>now. on_pac (pac_save now c ids tx opts)))"
  using assms
  by (auto simp: keeps_def timed_run on_pac_def zoom_run pac_save_def Let_def raise_run grants_ok_def split: option.splits)

lemma offer_requested_last: "offer_requested (h @ [(OfferRequest c b, r)]) c"
  unfolding offer_requested_def by (intro exI [of _ b] exI [of _ r]) simp

lemma keeps_grants_offerCredential:
  assumes "offer_requested h configuration"
  shows "keeps (grants_ok X' h) (offerCredential X debug issuer [configuration] (Some (OfferPreAuth tc ttl a)))"
proof -
  have "preserves grants (transactionCode_generate m l d)" "preserves grants preAuthorizedCode_generate"
    "preserves grants (on_issuer_metadata (issuer_metadata_fetch issuer))" for m l d issuer
    unfolding transactionCode_generate_def randomInt_def preAuthorizedCode_generate_def by (intro preserves_intros; simp)+
  note p = this [THEN keeps_grants]
  show ?thesis
    unfolding offerCredential_def option.case OfferOptions.case
    by (intro keeps_intros p keeps_pac_save) (simp add: assms)
qed

lemma keeps_grants_offer:
  "offer_requested h configuration \<Longrightarrow> keeps (grants_ok X' h) (offer_route X debug baseUrl configuration body)"
  unfolding offer_route_def guarded_route_def Let_def
  by (cases body) (auto intro!: keeps_intros keeps_grants_offerCredential)

lemma pac_consume_ids:
  assumes "snd (pac_consume limit now c tx st) c' = Some e"
  shows "\<exists>e0. st c' = Some e0 \<and> pe_ids e = pe_ids e0"
proof (cases "st c")
  case (Some e1)
  with assms show ?thesis
    by (cases "limit \<le> getOr 0 (pe_attempts e1)"; cases "pac_expired now e1"; cases "tx_ok e1 tx")
      (auto simp: pac_consume_runs split: if_splits)
qed (use assms in \<open>simp add: pac_consume_absent\<close>)

text \<open>The codes of a state come from those of an earlier one.\<close>

definition codes_from :: "pac_store \<Rightarrow> world \<Rightarrow> bool" where
  "codes_from st w \<longleftrightarrow> (\<forall>c e. w_pac w c = Some e \<longrightarrow> (\<exists>e0. st c = Some e0 \<and> pe_ids e = pe_ids e0))"

lemma keeps_codes: "preserves w_pac m \<Longrightarrow> keeps (codes_from st) m"
  unfolding preserves_keeps keeps_def codes_from_def by metis

lemma keeps_codes_consume: "keeps (codes_from st) (timed (\<lambda>now. on_pac (pac_consume limit now c tx)))"
proof (unfold keeps_def, intro allI impI)
  fix w assume "codes_from st w"
  then show "codes_from st (snd (timed (\<lambda>now. on_pac (pac_consume limit now c tx)) w))"
    using pac_consume_ids [where st = "w_pac w"]
    by (fastforce simp: codes_from_def timed_run on_pac_def zoom_run)
qed

lemma keeps_codes_createAccessToken: "keeps (codes_from st) (createAccessToken X D limit issuer req opts)"
proof -
  have "preserves w_pac (token_dpop X D dp)" "preserves w_pac (mint_token X authz c ids opts v)" for dp authz c ids opts v
    by (intro preserves_intros; simp)+
  note p = this [THEN keeps_codes]
  show ?thesis
    unfolding createAccessToken_def by (cases req) (auto intro!: keeps_intros p keeps_codes_consume)
qed

lemma keeps_codes_token: "keeps (codes_from st) (token_handler X D limit baseUrl meth form dpop)"
proof -
  have "keeps (codes_from st) (token_for_client X D limit baseUrl meth ob dpop issuer res)" for ob issuer res
    unfolding token_for_client_def by (cases res) (auto intro!: keeps_intros keeps_codes_createAccessToken)
  moreover have "keeps (codes_from st) (resolveTokenRequestClientPolicy X issuer ob)" for issuer ob
    by (rule keeps_codes [OF preserves_resolveTokenRequestClientPolicy])
  ultimately show ?thesis unfolding token_handler_def by (intro keeps_intros)
qed

lemma grants_ok_token_granted:
  assumes "grants_ok X h w" and "token_granted X D limit baseUrl meth ob dpop w t w'"
    and "r = respond 200 (TokenBody t)"
  shows "grants_ok X (h @ [(TokenHttpRequest f d, r)]) w'"
proof -
  obtain c e life where w': "w_pac w c = Some e" "w_pac w' = (w_pac w)(c := None)"
      "w_allowed w' = (w_allowed w)(calculateAccessTokenHash X (access_token t) \<mapsto>
        \<lparr>allowed_ids = pe_ids e, allowed_expires_at = life\<rparr>)"
    using token_granted_grounds [OF assms(2)] by blast
  have "token_answered (h @ [(TokenHttpRequest f d, r)]) t"
    unfolding token_answered_def by (intro exI [of _ f] exI [of _ d] exI [of _ r]) (simp add: assms(3) respond_def)
  with w' grants_ok_append [OF assms(1), of "[(TokenHttpRequest f d, r)]"] show ?thesis
    by (auto simp: grants_ok_def)
qed

lemma grants_ok_token:
  assumes "grants_ok X h w" and "token_route X D limit baseUrl meth form dpop w = (Inr r, w')"
  shows "grants_ok X (h @ [(TokenHttpRequest f d, r)]) w'"
proof (cases "token_handler X D limit baseUrl meth form dpop w")
  case (Pair y w2)
  show ?thesis
  proof (cases y)
    case (Inl e)
    obtain r' w3 where c: "token_catch e w2 = (Inr r', w3)" "w_allowed w3 = w_allowed w2" "w_pac w3 = w_pac w2"
      by (rule token_catch_run)
    have "w3 = w'" using assms(2) c(1) by (auto simp: token_route_def on_error_def catchM_run Pair Inl)
    moreover have "codes_from (w_pac w) w2"
      using keepsD_run [OF keeps_codes_token _ Pair, of "w_pac w"] by (auto simp: codes_from_def)
    ultimately have "grants_ok X h w'"
      using assms(1) token_handler_Inl_allowed [OF Pair [unfolded Inl]] c(2,3)
      by (fastforce simp: grants_ok_def codes_from_def)
    then show ?thesis by (rule grants_ok_append)
  next
    case (Inr r')
    have r: "r' = r" "w2 = w'" using assms(2) by (auto simp: token_route_def on_error_def catchM_run Pair Inr)
    from Pair [unfolded Inr r] show ?thesis
    proof (cases rule: token_handler_cases)
      case (granted ob t)
      then show ?thesis using assms(1) by (intro grants_ok_token_granted)
    next
      case refused
      then have "grants_ok X h w'" using assms(1) by (simp add: grants_ok_def)
      then show ?thesis by (rule grants_ok_append)
    qed
  qed
qed

lemma keeps_tryM: "keeps I m \<Longrightarrow> keeps I (tryM m)"
  by (auto simp: keeps_def tryM_def split: prod.splits)

lemma keeps_grants_refused: "keeps (grants_ok X' h) (authorization_refused realm e)"
proof -
  have "preserves grants (issuer_dpop_nonce_response realm)"
    unfolding issuer_dpop_nonce_response_def Let_def by (intro preserves_intros preserves_grants_nonce)
  then show ?thesis
    by (cases e) (auto simp: authorization_refused_def keeps_grants intro!: keeps_intros)
qed

lemma keeps_grants_credentials:
  "keeps (grants_ok X' h) (credentials_route X debug D F P authz baseUrl meth authorization dpop body)"
proof -
  have b: "keeps (grants_ok X' h) (credential_body X debug F P issuer ctx body)" for issuer ctx
    unfolding credential_body_def by (intro keeps_intros keeps_grants_issue)
  show ?thesis
    unfolding credentials_route_def guarded_route_def
    by (intro keeps_intros keeps_tryM keeps_grants_refused b keeps_grants preserves_grants_access)
qed

lemma keeps_grants_rest:
  "keeps (grants_ok X' h) (nonce_route authz)" "keeps (grants_ok X' h) (validate_nonce_route n)"
  "keeps (grants_ok X' h) (delete_nonce_route n)" "keeps (grants_ok X' h) (issuer_metadata_route X debug baseUrl)"
  "keeps (grants_ok X' h) (jwt_vc_issuer_route X debug baseUrl)" "keeps (grants_ok X' h) (authz_metadata_route X baseUrl)"
proof -
  have "preserves grants (resolveAuthzPolicyDpopModeForIssuer authz k p)" for k p by (intro preserves_intros; simp)
  then show "keeps (grants_ok X' h) (nonce_route authz)"
    unfolding nonce_route_def guarded_route_def Let_def by (intro keeps_intros keeps_grants preserves_grants_nonce)
qed (unfold validate_nonce_route_def delete_nonce_route_def issuer_metadata_route_def jwt_vc_issuer_route_def
    authz_metadata_route_def guarded_route_def, (intro keeps_intros keeps_grants preserves_grants_nonce preserves_grants_metadata)+)

lemma on_error_run: "\<exists>r w'. on_error m w = (Inr r, w') \<and> (\<forall>x. m w = (Inr x, w') \<longrightarrow> r = x) \<and> snd (m w) = w'"
  by (cases "m w"; cases "fst (m w)") (auto simp: on_error_def run_simps)

lemma route_guarded: "\<exists>r w'. guarded_route m w = (Inr r, w')"
  by (cases "m w"; cases "fst (m w)") (auto simp: guarded_route_def run_simps)

lemma serve_keeps:
  assumes "grants_ok (is_ext S) h w" and "serve S rq w = (r, w')"
  shows "grants_ok (is_ext S) (h @ [(rq, r)]) w'"
proof -
  obtain r' where e: "on_error (route S rq) w = (Inr r', w')" "r' = r"
    using assms(2) on_error_run [of "route S rq" w] by (auto simp: serve_def)
  then have s: "snd (route S rq w) = w'" using on_error_run [of "route S rq" w] by auto
  have k: "keeps (grants_ok (is_ext S) h) (route S rq) \<Longrightarrow> ?thesis"
    using keepsD [where I = "grants_ok (is_ext S) h" and m = "route S rq" and w = w] assms(1) s
    by (auto intro: grants_ok_append)
  show ?thesis
  proof (cases rq)
    case (OfferRequest configuration body)
    let ?h = "h @ [(rq, r)]"
    have "keeps (grants_ok (is_ext S) ?h) (route S rq)"
      using OfferRequest by (simp add: keeps_grants_offer offer_requested_last)
    then show ?thesis
      using keepsD [where I = "grants_ok (is_ext S) ?h" and m = "route S rq" and w = w] grants_ok_append [OF assms(1)] s by auto
  next
    case (TokenHttpRequest form dpop)
    then have "token_route (is_ext S) (is_dpop S) (is_limit S) (is_baseUrl S) ''POST'' form dpop w = (Inr r, w')"
      using e by (auto simp: on_error_def token_route_def run_simps split: prod.splits sum.splits)
    from grants_ok_token [OF assms(1) this] TokenHttpRequest show ?thesis by simp
  qed (rule k; simp add: keeps_grants_rest keeps_grants_credentials)+
qed

lemma serve_all_keeps:
  "grants_ok (is_ext S) h w \<Longrightarrow> serve_all S rqs (h, w) = (h', w') \<Longrightarrow> grants_ok (is_ext S) h' w'"
proof (induction rqs arbitrary: h w)
  case (Cons rq rqs)
  obtain r w1 where s: "serve S rq w = (r, w1)" by (cases "serve S rq w")
  with Cons.IH [OF serve_keeps [OF Cons.prems(1) s]] Cons.prems(2) show ?case by simp
qed simp

subsection \<open>Credentials\<close>

text \<open>The run of the credential endpoint that returns credentials.\<close>

lemma authorization_refused_body:
  "authorization_refused realm e w = (Inr r, w') \<Longrightarrow> \<exists>n d. http_body r = ErrorBody n d"
  by (cases e) (auto simp: authorization_refused_def issuer_dpop_nonce_response_def Let_def bindM_Inr ret_run throw_run
      unauthorized_def invalidDpopProof_def split: if_splits)

lemma credentials_route_issued:
  assumes "credentials_route X debug D F P authz baseUrl meth authorization dpop body w = (Inr r, w')"
    and "http_body r = CredentialsBody cs"
  obtains issuer ctx w1 request where "zod_url X baseUrl = Some issuer"
    "authorizeCredentialEndpointAccess X D authz
       \<lparr>ep_alg = None, authorizationHeader = authorization, dpopHeader = dpop, ep_htm = meth,
        ep_htu = baseUrl @ ''/credentials'', ep_nonceRequired = True\<rparr> w = (Inr ctx, w1)"
    "CredentialRequest_parse (getOr JNull body) = Inr request"
    "issueCredential X debug F P issuer request
       \<lparr>authorizationContext = ctx, issue_alg = Some ''ES256'', cnonce = Some (Fin 300000),
        issue_claims = Some issueClaimsSample, issue_subject = None, proofJwt_usePreAuth = Some True\<rparr> w1 = (Inr cs, w')"
    "status r = 200"
proof -
  let ?opts = "\<lparr>ep_alg = None, authorizationHeader = authorization, dpopHeader = dpop, ep_htm = meth,
     ep_htu = baseUrl @ ''/credentials'', ep_nonceRequired = True\<rparr>"
  let ?m = "bindM (liftE (CredentialIssuer_parse X baseUrl)) (\<lambda>issuer.
    bindM (tryM (authorizeCredentialEndpointAccess X D authz ?opts)) (\<lambda>r.
    case r of Inl e \<Rightarrow> authorization_refused baseUrl e | Inr ctx \<Rightarrow> credential_body X debug F P issuer ctx body))"
  have "?m w = (Inr r, w')"
    using assms(1)[unfolded credentials_route_def] by (rule guarded_route_Inr) (use assms(2) in auto)
  then obtain issuer x w1 where run: "zod_url X baseUrl = Some issuer"
      "authorizeCredentialEndpointAccess X D authz ?opts w = (x, w1)"
      "(case x of Inl e \<Rightarrow> authorization_refused baseUrl e | Inr ctx \<Rightarrow> credential_body X debug F P issuer ctx body) w1 = (Inr r, w')"
    by (auto simp: CredentialIssuer_parse_def bindM_Inr liftE_Inr tryM_def split: prod.splits option.splits)
  obtain ctx where x: "x = Inr ctx"
    using run(3) assms(2) by (cases x) (auto dest: authorization_refused_body)
  then have b: "credential_body X debug F P issuer ctx body w1 = (Inr r, w')" using run(3) by simp
  then obtain request where rq: "CredentialRequest_parse (getOr JNull body) = Inr request"
    using assms(2) by (auto simp: credential_body_def ret_run refuse_def respond_def split: if_splits sum.splits)
  let ?io = "\<lparr>authorizationContext = ctx, issue_alg = Some ''ES256'', cnonce = Some (Fin 300000),
        issue_claims = Some issueClaimsSample, issue_subject = None, proofJwt_usePreAuth = Some True\<rparr>"
  have "issueCredential X debug F P issuer request ?io w1 = (Inr cs, w')" "status r = 200"
    using b rq assms(2)
    by (auto simp: credential_body_def bindM_Inr ret_run refuse_def respond_def split: if_splits)
  with run(1,2) x rq show thesis by (intro that) simp_all
qed

lemma credentials_route_answers:
  "\<exists>r w'. credentials_route X debug D F P authz baseUrl meth authorization dpop body w = (Inr r, w')"
  by (simp only: credentials_route_def route_guarded)

lemma serve_credentials:
  assumes "serve S (CredentialsRequest authorization dpop body) w = (r, w')" and "http_body r = CredentialsBody cs"
  shows "credentials_route (is_ext S) (is_debug S) (is_dpop S) (is_proof S) (is_identifier S) (is_authz S) (is_baseUrl S)
    ''POST'' authorization dpop body w = (Inr r, w')"
proof -
  let ?m = "credentials_route (is_ext S) (is_debug S) (is_dpop S) (is_proof S) (is_identifier S) (is_authz S) (is_baseUrl S)
    ''POST'' authorization dpop body"
  have "on_error ?m w = (Inr r, w')"
    using assms(1) on_error_run [of ?m w] by (auto simp: serve_def)
  moreover obtain r' w2 where "?m w = (Inr r', w2)"
    using credentials_route_answers by blast
  ultimately show ?thesis by (simp add: on_error_def catchM_run)
qed


text \<open>C1. A server that starts without codes and tokens returns a credential only for a configuration that an
  earlier request asked it to offer, and only to the bearer of a token that an earlier answer
  of its token endpoint gave out (up to a collision of the hash). This holds for every
  sequence of requests to its endpoints, failing ones included.\<close>

theorem credentials_need_offer:
  assumes "serve_all S rqs ([], w0) = (h, w)" and "w_pac w0 = Map.empty" and "w_allowed w0 = Map.empty"
    and "serve S (CredentialsRequest authorization dpop body) w = (r, w')" and "http_body r = CredentialsBody cs"
  shows "\<exists>scheme token t request configId.
    parseAuthorizationHeader authorization = HdrOk scheme token \<and> token_answered h t \<and>
    calculateAccessTokenHash (is_ext S) token = calculateAccessTokenHash (is_ext S) (access_token t) \<and>
    CredentialRequest_parse (getOr JNull body) = Inr request \<and>
    credential_configuration_id request = Some configId \<and> offer_requested h configId"
proof -
  have ok: "grants_ok (is_ext S) h w"
    using assms(2,3) by (intro serve_all_keeps [OF _ assms(1)]) (simp add: grants_ok_def)
  obtain issuer ctx w1 request where run: "zod_url (is_ext S) (is_baseUrl S) = Some issuer"
    "authorizeCredentialEndpointAccess (is_ext S) (is_dpop S) (is_authz S)
       \<lparr>ep_alg = None, authorizationHeader = authorization, dpopHeader = dpop, ep_htm = ''POST'',
        ep_htu = is_baseUrl S @ ''/credentials'', ep_nonceRequired = True\<rparr> w = (Inr ctx, w1)"
    "CredentialRequest_parse (getOr JNull body) = Inr request"
    "issueCredential (is_ext S) (is_debug S) (is_proof S) (is_identifier S) issuer request
       \<lparr>authorizationContext = ctx, issue_alg = Some ''ES256'', cnonce = Some (Fin 300000),
        issue_claims = Some issueClaimsSample, issue_subject = None, proofJwt_usePreAuth = Some True\<rparr> w1 = (Inr cs, w')"
    by (rule credentials_route_issued [OF serve_credentials [OF assms(4,5)] assms(5)])
  have w1: "grants w1 = grants w" using preservesD [OF preserves_grants_access run(2)] .
  obtain scheme token where tok: "parseAuthorizationHeader authorization = HdrOk scheme token"
      "allowedCredentialConfigurationKey ctx = calculateAccessTokenHash (is_ext S) token"
    using authorizeAccess_grounds [OF run(2)] by auto
  obtain configId e where c: "credential_configuration_id request = Some configId"
      "w_allowed w1 (allowedCredentialConfigurationKey ctx) = Some e" "configId \<in> set (allowed_ids e)"
    using issueCredential_grounds [OF run(4)] by auto
  have "w_allowed w (calculateAccessTokenHash (is_ext S) token) = Some e"
    using c(2) w1 by (simp add: tok(2) grants_def)
  with ok obtain t where "token_answered h t"
      "calculateAccessTokenHash (is_ext S) (access_token t) = calculateAccessTokenHash (is_ext S) token"
      "\<forall>i \<in> set (allowed_ids e). offer_requested h i"
    unfolding grants_ok_def by metis
  with tok(1) run(3) c(1,3) show ?thesis by (metis (full_types))
qed

end
