(* ===== verification/Multi_Server.thy ===== *)
theory Multi_Server
  imports Http_Issuance Issuer_Schema Verifier_Registration
begin

text \<open>
  The server that hosts several issuers and authorization servers (\<open>server/multi\<close>): the routes of
  \<open>routes/issue.ts\<close>, \<open>routes/authz.ts\<close> and \<open>routes/mold.ts\<close>. The tenant of a request is a
  parameter of its path, the stores are shared by all tenants. \<open>routes/verify.ts\<close> is not
  modelled: it is written against an earlier interface of the verifier.
\<close>

subsection \<open>Answers\<close>

text \<open>The offer endpoint encodes the whole response of the flow, not the offer in it.\<close>

datatype multi_answer = Reply http_response | OfferResponseText CredentialOfferResponse

text \<open>The last \<open>catch\<close> of every handler: always 400.\<close>

definition multi_error :: "exn \<Rightarrow> http_response" where
  "multi_error e = (case handleError e of (name, description) \<Rightarrow> refuse 400 name description)"

definition multi_guarded :: "(world, multi_answer) M \<Rightarrow> (world, multi_answer) M" where
  "multi_guarded m = catchM m (\<lambda>e. ret (Reply (multi_error e)))"

definition reply :: "(world, http_response) M \<Rightarrow> (world, multi_answer) M" where
  "reply m = bindM m (\<lambda>r. ret (Reply r))"

definition AuthorizationServerIssuer_parse :: "ext \<Rightarrow> string \<Rightarrow> exn + string" where
  "AuthorizationServerIssuer_parse X u = (case zod_url X u of None \<Rightarrow> Inl zod_error | Some v \<Rightarrow> Inr v)"

text \<open>The refusals are those of \<open>server/core\<close>, with the tenant as the realm.\<close>

abbreviation multi_dpop_nonce_response :: "(world, http_response) M" where
  "multi_dpop_nonce_response \<equiv> dpop_nonce_response"

abbreviation multi_authorization_refused :: "string \<Rightarrow> exn \<Rightarrow> (world, http_response) M" where
  "multi_authorization_refused \<equiv> authorization_refused"

subsection \<open>The token endpoint of a tenant\<close>

definition multi_token_options ::
  "string \<Rightarrow> string \<Rightarrow> string \<Rightarrow> DPoPMode \<Rightarrow> ParsedDpopHeader \<Rightarrow> string option \<Rightarrow> TokenRequestOptions" where
  "multi_token_options baseUrl issuer meth mode proof clientId =
     (case (mode, proof) of
        (Off, _) \<Rightarrow> no_token_options\<lparr>tok_clientId := clientId\<rparr>
      | (_, DpopBad r) \<Rightarrow> no_token_options\<lparr>tok_clientId := clientId\<rparr>
      | (_, DpopOk p) \<Rightarrow> no_token_options\<lparr>tok_clientId := clientId,
          dpopProof := Some \<lparr>proofJwt = p, dp_htm = meth,
            dp_htu = baseUrl @ ''/authorizations/'' @ encodeURIComponent issuer @ ''/token'', nonceRequired = True\<rparr>\<rparr>)"

definition multi_token_for_client ::
  "ext \<Rightarrow> DPoPProofFactoryOptions \<Rightarrow> int \<Rightarrow> string \<Rightarrow> string \<Rightarrow> string \<Rightarrow> string \<Rightarrow> obj \<Rightarrow> string option \<Rightarrow>
   TokenRequestPolicyClientResolution \<Rightarrow> (world, http_response) M" where
  "multi_token_for_client X D limit baseUrl meth issuer authz requestData dpop resolution =
     (case resolution of
        ResBad description c \<Rightarrow> ret (refuse 400 ''invalid_client'' description)
      | ResOk kind mode clientId policy \<Rightarrow>
          let proof = parseDpopHeader dpop in
          (case dpop_header_refusal mode proof of
             Some r \<Rightarrow> ret r
           | None \<Rightarrow>
               bindM (liftE (case TokenRequest_parse X requestData of None \<Rightarrow> Inl zod_error | Some q \<Rightarrow> Inr q)) (\<lambda>tokenRequest.
               bindM (createAccessToken X D limit authz tokenRequest
                 (multi_token_options baseUrl issuer meth mode proof clientId)) (\<lambda>t.
               ret (respond 200 (TokenBody t))))))"

definition multi_token_catch :: "exn \<Rightarrow> (world, http_response) M" where
  "multi_token_catch e =
     (case e of
        VcknotsError c msg \<Rightarrow>
          if c = ''invalid_dpop_proof'' then ret (refuse 400 ''invalid_dpop_proof'' msg)
          else if c = ''use_dpop_nonce'' then multi_dpop_nonce_response
          else ret (multi_error e)
      | JsError n \<Rightarrow> ret (multi_error e))"

definition multi_token_handler ::
  "ext \<Rightarrow> DPoPProofFactoryOptions \<Rightarrow> int \<Rightarrow> string \<Rightarrow> string \<Rightarrow> string \<Rightarrow> exn + obj \<Rightarrow> string option \<Rightarrow> (world, http_response) M" where
  "multi_token_handler X D limit baseUrl meth issuer form dpop =
     bindM (liftE (AuthorizationServerIssuer_parse X issuer)) (\<lambda>authz.
     bindM (liftE form) (\<lambda>requestData.
     bindM (resolveTokenRequestClientPolicy X authz requestData) (\<lambda>resolution.
     multi_token_for_client X D limit baseUrl meth issuer authz requestData dpop resolution)))"

definition multi_token_route ::
  "ext \<Rightarrow> DPoPProofFactoryOptions \<Rightarrow> int \<Rightarrow> string \<Rightarrow> string \<Rightarrow> string \<Rightarrow> exn + obj \<Rightarrow> string option \<Rightarrow> (world, multi_answer) M" where
  "multi_token_route X D limit baseUrl meth issuer form dpop =
     reply (on_error (catchM (multi_token_handler X D limit baseUrl meth issuer form dpop) multi_token_catch))"

definition found :: "string \<Rightarrow> (world, 'm option) M \<Rightarrow> ('m \<Rightarrow> http_body) \<Rightarrow> (world, multi_answer) M" where
  "found missing m body =
     bindM m (\<lambda>metadata. ret (Reply
       (case metadata of None \<Rightarrow> refuse 404 ''not_found'' missing | Some v \<Rightarrow> respond 200 (body v))))"

definition multi_authz_metadata_route :: "ext \<Rightarrow> string \<Rightarrow> (world, multi_answer) M" where
  "multi_authz_metadata_route X issuer =
     multi_guarded (bindM (liftE (AuthorizationServerIssuer_parse X issuer)) (\<lambda>authz.
       found ''Authorization server metadata not found.'' (findAuthzServerMetadata authz) AuthzMetadataBody))"

subsection \<open>The endpoints of an issuer\<close>

definition multi_offer_route :: "ext \<Rightarrow> bool \<Rightarrow> string \<Rightarrow> string \<Rightarrow> (world, multi_answer) M" where
  "multi_offer_route X debug issuer configuration =
     multi_guarded (bindM (liftE (CredentialIssuer_parse X issuer)) (\<lambda>i.
       bindM (offerCredential X debug i [configuration] (Some (OfferPreAuth None None None))) (\<lambda>offer.
       ret (OfferResponseText offer))))"

definition multi_claims_sample :: obj where
  "multi_claims_sample =
     [(''given_name'', JStr ''test''), (''family_name'', JStr ''taro''), (''degree'', JStr ''5''), (''gpa'', JStr ''test'')]"

definition multi_credential_options :: "CredentialEndpointAuthorizationContext \<Rightarrow> IssueOptions" where
  "multi_credential_options ctx =
     \<lparr>authorizationContext = ctx, issue_alg = Some ''ES256'', cnonce = Some (Fin 300000),
      issue_claims = Some multi_claims_sample, issue_subject = None, proofJwt_usePreAuth = Some True\<rparr>"

text \<open>\<open>body\<close> is the JSON value of the request, or the error of reading it.\<close>

definition multi_credentials_route ::
  "ext \<Rightarrow> bool \<Rightarrow> DPoPProofFactoryOptions \<Rightarrow> CredentialProofJwtFactoryOptions \<Rightarrow> IssueCredentialProviderOptions \<Rightarrow>
   string \<Rightarrow> string \<Rightarrow> string option \<Rightarrow> string option \<Rightarrow> exn + jsval \<Rightarrow> (world, multi_answer) M" where
  "multi_credentials_route X debug D F P param meth authorization dpop body =
     multi_guarded
       (bindM (liftE (CredentialIssuer_parse X param)) (\<lambda>issuer.
        bindM (liftE (AuthorizationServerIssuer_parse X param)) (\<lambda>authz.
        bindM (tryM (authorizeCredentialEndpointAccess X D authz
          \<lparr>ep_alg = None, authorizationHeader = authorization, dpopHeader = dpop, ep_htm = meth,
           ep_htu = issuer @ ''/credentials'', ep_nonceRequired = True\<rparr>)) (\<lambda>r.
        case r of
          Inl e \<Rightarrow> reply (multi_authorization_refused param e)
        | Inr ctx \<Rightarrow>
            bindM (liftE body) (\<lambda>request.
            bindM (liftE (CredentialRequest_parse request)) (\<lambda>parse.
            bindM (issueCredential X debug F P issuer parse (multi_credential_options ctx)) (\<lambda>credential.
            ret (Reply (respond 200 (CredentialsBody credential))))))))))"

definition multi_issuer_metadata_route :: "ext \<Rightarrow> bool \<Rightarrow> string \<Rightarrow> (world, multi_answer) M" where
  "multi_issuer_metadata_route X debug param =
     multi_guarded (bindM (liftE (CredentialIssuer_parse X param)) (\<lambda>issuer.
       found ''Credential issuer metadata not found.'' (findIssuerMetadata X debug issuer) IssuerMetadataBody))"

definition multi_jwt_vc_issuer_route :: "ext \<Rightarrow> bool \<Rightarrow> string \<Rightarrow> (world, multi_answer) M" where
  "multi_jwt_vc_issuer_route X debug param =
     multi_guarded (bindM (liftE (CredentialIssuer_parse X param)) (\<lambda>issuer.
       found ''Credential issuer metadata not found.'' (findJwtVcIssuerMetadata X debug issuer) JwtVcIssuerBody))"

subsection \<open>Registration of tenants\<close>

definition message_ok :: multi_answer where
  "message_ok = Reply (respond 200 (JsonBody (JObj [(''message'', JStr ''OK'')])))"

definition or_zod :: "'a option \<Rightarrow> exn + 'a" where
  "or_zod v = (case v of None \<Rightarrow> Inl zod_error | Some x \<Rightarrow> Inr x)"

definition multi_issuers_route ::
  "ext \<Rightarrow> bool \<Rightarrow> string list \<Rightarrow> (string list \<Rightarrow> string list) \<Rightarrow> exn + jsval \<Rightarrow> (world, multi_answer) M" where
  "multi_issuers_route X debug gens order body =
     multi_guarded (bindM (liftE body) (\<lambda>json.
       bindM (liftE (or_zod (CredentialIssuerMetadata_parse X json))) (\<lambda>issuer.
       thenM (createIssuerMetadata X debug gens order issuer) (ret message_ok))))"

definition multi_authorization_route :: "ext \<Rightarrow> exn + jsval \<Rightarrow> (world, multi_answer) M" where
  "multi_authorization_route X body =
     multi_guarded (bindM (liftE body) (\<lambda>json.
       bindM (liftE (or_zod (AuthorizationServerMetadata_parse X json))) (\<lambda>authz.
       thenM (createAuthzServerMetadata X authz None) (ret message_ok))))"

text \<open>Every verifier gets the same key and certificate, read from the samples of the repository.\<close>

definition sample_verifier_options :: "string \<Rightarrow> string \<Rightarrow> CreateVerifierMetadataOptions option" where
  "sample_verifier_options keyPem certPem =
     Some \<lparr>cv_format = PemFormat, cv_alg = ''ES256'', cv_kid = None, cv_encryptionKeyAlg = None,
       cv_privateKey = Pem keyPem, cv_publicKey = None, cv_certificate = Some [certPem]\<rparr>"

definition multi_verifiers_route ::
  "ext \<Rightarrow> string \<Rightarrow> string \<Rightarrow> string \<Rightarrow> exn + jsval \<Rightarrow> (world, multi_answer) M" where
  "multi_verifiers_route X keyPem certPem param body =
     multi_guarded (bindM (liftE (case zod_url X param of None \<Rightarrow> Inl zod_error | Some v \<Rightarrow> Inr v)) (\<lambda>verifierId.
       bindM (liftE body) (\<lambda>json.
       bindM (liftE (case json of JObj ob \<Rightarrow> VerifierMetadata_parse X ob | _ \<Rightarrow> Inl zod_error)) (\<lambda>metadata.
       thenM (createVerifierMetadata X verifierId (metadata_json metadata) (sample_verifier_options keyPem certPem)) (ret message_ok)))))"

end
