(* ===== verification/Multi_Safety.thy ===== *)
theory Multi_Safety
  imports Multi_Server
begin

text \<open>
  The server of several tenants as a whole: sequences of requests to its routes, what a
  credential that it returns says about the requests before it, and what it does not say: which
  tenant made the offer.
\<close>

subsection \<open>The server\<close>

record multi_server =
  ms_ext :: ext
  ms_debug :: bool
  ms_dpop :: DPoPProofFactoryOptions
  ms_proof :: CredentialProofJwtFactoryOptions
  ms_identifier :: IssueCredentialProviderOptions
  ms_limit :: int
  ms_baseUrl :: string
  ms_keyPem :: string
  ms_certPem :: string

text \<open>The first argument of a request is its tenant. The generators and the order of the algorithms are those
  of the saves that run at the same time.\<close>

datatype multi_request =
    MultiOffer string string
  | MultiToken string "exn + obj" "string option"
  | MultiCredentials string "string option" "string option" "exn + jsval"
  | MultiIssuerMetadata string
  | MultiJwtVcIssuer string
  | MultiAuthzMetadata string
  | RegisterIssuer "string list" "string list \<Rightarrow> string list" "exn + jsval"
  | RegisterAuthz "exn + jsval"
  | RegisterVerifier string "exn + jsval"

fun multi_route :: "multi_server \<Rightarrow> multi_request \<Rightarrow> (world, multi_answer) M" where
  "multi_route S (MultiOffer tenant configuration) = multi_offer_route (ms_ext S) (ms_debug S) tenant configuration"
| "multi_route S (MultiToken tenant form dpop) =
     multi_token_route (ms_ext S) (ms_dpop S) (ms_limit S) (ms_baseUrl S) ''POST'' tenant form dpop"
| "multi_route S (MultiCredentials tenant authorization dpop body) =
     multi_credentials_route (ms_ext S) (ms_debug S) (ms_dpop S) (ms_proof S) (ms_identifier S) tenant ''POST''
       authorization dpop body"
| "multi_route S (MultiIssuerMetadata tenant) = multi_issuer_metadata_route (ms_ext S) (ms_debug S) tenant"
| "multi_route S (MultiJwtVcIssuer tenant) = multi_jwt_vc_issuer_route (ms_ext S) (ms_debug S) tenant"
| "multi_route S (MultiAuthzMetadata tenant) = multi_authz_metadata_route (ms_ext S) tenant"
| "multi_route S (RegisterIssuer gens order body) = multi_issuers_route (ms_ext S) (ms_debug S) gens order body"
| "multi_route S (RegisterAuthz body) = multi_authorization_route (ms_ext S) body"
| "multi_route S (RegisterVerifier tenant body) = multi_verifiers_route (ms_ext S) (ms_keyPem S) (ms_certPem S) tenant body"

type_synonym multi_history = "(multi_request \<times> multi_answer) list"

definition multi_serve :: "multi_server \<Rightarrow> multi_request \<Rightarrow> world \<Rightarrow> multi_answer \<times> world" where
  "multi_serve S rq w =
     (case multi_route S rq w of
        (Inr a, w') \<Rightarrow> (a, w')
      | (Inl e, w') \<Rightarrow> (Reply (respond 500 (JsonBody (JObj [(''error'', JStr (snd (handleError e)))]))), w'))"

fun multi_serve_all :: "multi_server \<Rightarrow> multi_request list \<Rightarrow> multi_history \<times> world \<Rightarrow> multi_history \<times> world" where
  "multi_serve_all S [] s = s"
| "multi_serve_all S (rq # rqs) (h, w) =
     (case multi_serve S rq w of (a, w') \<Rightarrow> multi_serve_all S rqs (h @ [(rq, a)], w'))"

definition multi_offered :: "multi_history \<Rightarrow> string \<Rightarrow> bool" where
  "multi_offered h configId \<longleftrightarrow> (\<exists>tenant a. (MultiOffer tenant configId, a) \<in> set h)"

definition multi_token_answered :: "multi_history \<Rightarrow> TokenResponse \<Rightarrow> bool" where
  "multi_token_answered h t \<longleftrightarrow>
     (\<exists>tenant f d r. (MultiToken tenant f d, Reply r) \<in> set h \<and> status r = 200 \<and> http_body r = TokenBody t)"

subsection \<open>As a history of one tenant\<close>

text \<open>The requests for offers and tokens, with their tenants forgotten.\<close>

fun forget_tenant :: "multi_request \<times> multi_answer \<Rightarrow> history" where
  "forget_tenant (MultiOffer tenant configuration, a) = [(OfferRequest configuration NoOfferBody, respond 200 (TextBody []))]"
| "forget_tenant (MultiToken tenant f d, Reply r) = [(TokenHttpRequest f d, r)]"
| "forget_tenant _ = []"

definition one_tenant :: "multi_history \<Rightarrow> history" where
  "one_tenant h = concat (map forget_tenant h)"

lemma one_tenant_append: "one_tenant (h @ [(rq, a)]) = one_tenant h @ forget_tenant (rq, a)"
  by (simp add: one_tenant_def)

lemma forget_tenant_in:
  "(OfferRequest c b, r) \<in> set (forget_tenant x) \<Longrightarrow> \<exists>tenant. fst x = MultiOffer tenant c"
  "(TokenHttpRequest f d, r) \<in> set (forget_tenant x) \<Longrightarrow> \<exists>tenant. x = (MultiToken tenant f d, Reply r)"
  by (cases x rule: forget_tenant.cases; simp)+

lemma offered_one_tenant: "offer_requested (one_tenant h) c \<Longrightarrow> multi_offered h c"
  unfolding offer_requested_def multi_offered_def one_tenant_def by (force dest: forget_tenant_in(1))

lemma answered_one_tenant: "token_answered (one_tenant h) t \<Longrightarrow> multi_token_answered h t"
  unfolding token_answered_def multi_token_answered_def one_tenant_def by (fastforce dest: forget_tenant_in(2))

subsection \<open>What the routes do to codes and records\<close>

lemma grants_ok_createAccessToken:
  assumes "grants_ok X h w" and "createAccessToken X D limit issuer req opts w = (x, w')"
  shows "case x of
      Inl e \<Rightarrow> grants_ok X h w'
    | Inr t \<Rightarrow> \<forall>f d. grants_ok X (h @ [(TokenHttpRequest f d, respond 200 (TokenBody t))]) w'"
proof (cases x)
  case (Inl e)
  have "codes_from (w_pac w) w'"
    using keepsD_run [OF keeps_codes_createAccessToken _ assms(2), of "w_pac w"] by (auto simp: codes_from_def)
  then show ?thesis
    using assms(1) createAccessToken_Inl_allowed [OF assms(2) [unfolded Inl]]
    by (fastforce simp: Inl grants_ok_def codes_from_def)
next
  case (Inr t)
  obtain c tx where req: "req = TokenRequestPreAuthorizedCode c tx"
    using assms(2) unfolding Inr by (rule createAccessToken_Inr)
  obtain e life where w': "w_pac w c = Some e" "w_pac w' = (w_pac w)(c := None)"
      "w_allowed w' = (w_allowed w)(calculateAccessTokenHash X (access_token t) \<mapsto>
        \<lparr>allowed_ids = pe_ids e, allowed_expires_at = life\<rparr>)"
    using createAccessToken_grants [OF assms(2) [unfolded Inr req]] by blast
  show ?thesis
  proof (simp add: Inr, intro allI)
    fix f d
    let ?rq = "(TokenHttpRequest f d, respond 200 (TokenBody t))"
    have "token_answered (h @ [?rq]) t"
      unfolding token_answered_def by (intro exI [of _ f] exI [of _ d] exI) (auto simp: respond_def)
    with w' grants_ok_append [OF assms(1), of "[?rq]"] show "grants_ok X (h @ [?rq]) w'"
      by (auto simp: grants_ok_def)
  qed
qed

definition token_outcome :: "ext \<Rightarrow> history \<Rightarrow> (exn + http_response) \<times> world \<Rightarrow> bool" where
  "token_outcome X h s =
     (case s of
        (Inl e, w) \<Rightarrow> grants_ok X h w
      | (Inr r, w) \<Rightarrow> \<forall>f d. grants_ok X (h @ [(TokenHttpRequest f d, r)]) w)"

lemma token_outcome_for_client:
  assumes "grants_ok X h w"
  shows "token_outcome X h (multi_token_for_client X D limit baseUrl meth issuer authz ob dpop res w)"
proof (cases res)
  case (ResOk kind mode cid pol)
  show ?thesis
  proof (cases "dpop_header_refusal mode (parseDpopHeader dpop)")
    case None
    show ?thesis
    proof (cases "TokenRequest_parse X ob")
      case (Some req)
      obtain x w' where x: "createAccessToken X D limit authz req
          (multi_token_options baseUrl issuer meth mode (parseDpopHeader dpop) cid) w = (x, w')" by fastforce
      show ?thesis
        using grants_ok_createAccessToken [OF assms x]
        by (cases x) (simp_all add: multi_token_for_client_def ResOk None Some run_simps x token_outcome_def)
    qed (simp add: multi_token_for_client_def ResOk None run_simps token_outcome_def assms)
  qed (simp add: multi_token_for_client_def ResOk run_simps token_outcome_def assms grants_ok_append)
qed (simp add: multi_token_for_client_def run_simps token_outcome_def assms grants_ok_append)

lemma token_outcome_handler:
  assumes "grants_ok X h w"
  shows "token_outcome X h (multi_token_handler X D limit baseUrl meth issuer form dpop w)"
proof (cases "AuthorizationServerIssuer_parse X issuer")
  case (Inr authz)
  show ?thesis
  proof (cases form)
    case (Inr ob)
    obtain x w1 where x: "resolveTokenRequestClientPolicy X authz ob w = (x, w1)" by fastforce
    have "preserves grants (resolveTokenRequestClientPolicy X authz ob)"
      unfolding resolveTokenRequestClientPolicy_def by (intro preserves_intros; simp)
    then have "grants_ok X h w1" using assms x grants_ok_cong by (metis preservesD)
    then show ?thesis
      using token_outcome_for_client
      by (cases x) (simp_all add: multi_token_handler_def \<open>AuthorizationServerIssuer_parse X issuer = Inr authz\<close> Inr run_simps x
          token_outcome_def)
  qed (simp add: multi_token_handler_def Inr run_simps token_outcome_def assms)
qed (simp add: multi_token_handler_def run_simps token_outcome_def assms)

lemma grants_ok_multi_token:
  assumes "grants_ok X h w" and "multi_token_route X D limit baseUrl meth issuer form dpop w = (x, w')"
  shows "\<exists>r. x = Inr (Reply r) \<and> grants_ok X (h @ [(TokenHttpRequest f d, r)]) w'"
proof -
  have ok: "grants_ok X h' u" if "grants_ok X h' w1" "grants u = grants w1" for h' u w1
    using that grants_ok_cong by blast
  have caught: "\<exists>r w3. multi_token_catch e w1 = (Inr r, w3) \<and> grants w3 = grants w1" for e w1
  proof -
    have "preserves grants (multi_token_catch e)"
      unfolding multi_token_catch_def dpop_nonce_response_def
      by (cases e) (auto intro!: preserves_intros preserves_grants_nonce)
    moreover have "\<exists>r w3. multi_token_catch e w1 = (Inr r, w3)"
      by (cases e) (auto simp: multi_token_catch_def run_simps dpop_nonce_response_def createDpopNonceChallenge_def
          nonce_generate_def nonce_save_def on_nonces_def)
    ultimately show ?thesis by (metis preservesD)
  qed
  obtain y w2 where y: "multi_token_handler X D limit baseUrl meth issuer form dpop w = (y, w2)" by fastforce
  note h = token_outcome_handler [OF assms(1), of D limit baseUrl meth issuer form dpop, unfolded y token_outcome_def]
  show ?thesis
  proof (cases y)
    case (Inl e)
    obtain r w3 where c: "multi_token_catch e w2 = (Inr r, w3)" "grants w3 = grants w2" using caught by blast
    have "x = Inr (Reply r)" "w' = w3"
      using assms(2) c(1) by (auto simp: multi_token_route_def reply_def on_error_def run_simps y Inl)
    then show ?thesis using h ok [OF _ c(2)] grants_ok_append by (auto simp: Inl)
  next
    case (Inr r)
    have "x = Inr (Reply r)" "w' = w2"
      using assms(2) by (auto simp: multi_token_route_def reply_def on_error_def run_simps y Inr)
    then show ?thesis using h by (simp add: Inr)
  qed
qed

lemma grants_verifier_updates [simp]:
  "grants (w\<lparr>w_verifier_metadata := a\<rparr>) = grants w" "grants (w\<lparr>w_enc_keys := b\<rparr>) = grants w"
  "grants (w\<lparr>w_verifier_keys := c\<rparr>) = grants w" "grants (w\<lparr>w_certificates := d\<rparr>) = grants w"
  by (simp_all add: grants_def)

lemma preserves_grants_registration:
  "preserves grants (createIssuerMetadata X debug gens order m)"
  "preserves grants (createAuthzServerMetadata X am alg)"
  "preserves grants (createVerifierMetadata X v ob options)"
proof -
  have "preserves grants (finish_saves X gens who current algs)" for gens who current algs
    by (induction algs) (auto intro!: preserves_intros)
  then show "preserves grants (createIssuerMetadata X debug gens order m)"
    unfolding createIssuerMetadata_def by (intro preserves_intros; simp)
  show "preserves grants (createAuthzServerMetadata X am alg)"
    unfolding createAuthzServerMetadata_def Let_def by (intro preserves_intros; simp)
  show "preserves grants (createVerifierMetadata X v ob options)"
    unfolding createVerifierMetadata_def case_prod_beta save_registration_def
    by (intro preserves_intros; simp)
qed

lemma keeps_found: "keeps I m \<Longrightarrow> keeps I (found missing m body)"
  unfolding found_def by (intro keeps_intros)

lemma multi_keeps:
  assumes "\<And>tenant c. rq = MultiOffer tenant c \<Longrightarrow> offer_requested h c" and "\<And>tenant f d. rq \<noteq> MultiToken tenant f d"
  shows "keeps (grants_ok X h) (multi_route S rq)"
proof -
  note k = keeps_intros keeps_found keeps_tryM keeps_grants_refused keeps_grants_issue preserves_grants_access [THEN keeps_grants]
    preserves_grants_metadata [THEN keeps_grants] preserves_grants_registration [THEN keeps_grants]
  show ?thesis
  proof (cases rq)
    case (MultiOffer tenant c)
    then show ?thesis
      by (simp add: multi_offer_route_def multi_guarded_def) (intro k keeps_grants_offerCredential assms(1))
  next
    case MultiToken
    then show ?thesis using assms(2) by blast
  qed (simp add: multi_credentials_route_def multi_issuer_metadata_route_def multi_jwt_vc_issuer_route_def
      multi_authz_metadata_route_def multi_issuers_route_def multi_authorization_route_def multi_verifiers_route_def
      multi_guarded_def reply_def; intro k)+
qed

lemma multi_serve_keeps:
  assumes "grants_ok (ms_ext S) (one_tenant h) w" and "multi_serve S rq w = (a, w')"
  shows "grants_ok (ms_ext S) (one_tenant (h @ [(rq, a)])) w'"
proof -
  have s: "snd (multi_route S rq w) = w'"
    using assms(2) by (auto simp: multi_serve_def split: prod.splits sum.splits)
  show ?thesis
  proof (cases "\<exists>tenant f d. rq = MultiToken tenant f d")
    case True
    then obtain tenant f d where rq: "rq = MultiToken tenant f d" by blast
    obtain x where x: "multi_route S rq w = (x, w')" using s by (metis prod.collapse)
    with grants_ok_multi_token [OF assms(1), where f = f and d = d] rq obtain r where
      "x = Inr (Reply r)" "grants_ok (ms_ext S) (one_tenant h @ [(TokenHttpRequest f d, r)]) w'"
      by (metis multi_route.simps(2))
    with assms(2) x rq show ?thesis by (auto simp: multi_serve_def one_tenant_append)
  next
    case False
    have "offer_requested (one_tenant (h @ [(rq, a)])) c" if "rq = MultiOffer tenant c" for tenant c
      using offer_requested_last by (simp add: that one_tenant_append)
    then have "keeps (grants_ok (ms_ext S) (one_tenant (h @ [(rq, a)]))) (multi_route S rq)"
      using False by (intro multi_keeps) auto
    with s show ?thesis
      using keepsD [where m = "multi_route S rq" and w = w] grants_ok_append [OF assms(1), of "forget_tenant (rq, a)"]
      by (metis one_tenant_append)
  qed
qed

lemma multi_serve_all_keeps:
  "grants_ok (ms_ext S) (one_tenant h) w \<Longrightarrow> multi_serve_all S rqs (h, w) = (h', w') \<Longrightarrow> grants_ok (ms_ext S) (one_tenant h') w'"
proof (induction rqs arbitrary: h w)
  case (Cons rq rqs)
  obtain a w1 where s: "multi_serve S rq w = (a, w1)" by (cases "multi_serve S rq w")
  with Cons.IH [OF multi_serve_keeps [OF Cons.prems(1) s]] Cons.prems(2) show ?case by simp
qed simp

subsection \<open>Credentials\<close>

lemma multi_guarded_Inr:
  assumes "multi_guarded m w = (Inr a, w')"
  obtains "m w = (Inr a, w')" | e n d where "a = Reply (refuse 400 n d)"
  using assms by (cases "m w"; cases "fst (m w)") (auto simp: multi_guarded_def multi_error_def run_simps split: prod.splits)

text \<open>The run of the credential endpoint that returns credentials.\<close>

lemma multi_credentials_issued:
  assumes "multi_serve S (MultiCredentials tenant authorization dpop body) w = (Reply r, w')"
    and "http_body r = CredentialsBody cs"
  obtains issuer ctx w1 v request where "zod_url (ms_ext S) tenant = Some issuer"
    "authorizeCredentialEndpointAccess (ms_ext S) (ms_dpop S) issuer
       \<lparr>ep_alg = None, authorizationHeader = authorization, dpopHeader = dpop, ep_htm = ''POST'',
        ep_htu = issuer @ ''/credentials'', ep_nonceRequired = True\<rparr> w = (Inr ctx, w1)"
    "body = Inr v" "CredentialRequest_parse v = Inr request"
    "issueCredential (ms_ext S) (ms_debug S) (ms_proof S) (ms_identifier S) issuer request (multi_credential_options ctx) w1
       = (Inr cs, w')"
    "status r = 200"
proof -
  let ?route = "multi_route S (MultiCredentials tenant authorization dpop body)"
  let ?opts = "\<lambda>issuer. \<lparr>ep_alg = None, authorizationHeader = authorization, dpopHeader = dpop, ep_htm = ''POST'',
    ep_htu = issuer @ ''/credentials'', ep_nonceRequired = True\<rparr>"
  let ?rest = "\<lambda>issuer x. case x of Inl e \<Rightarrow> reply (authorization_refused tenant e)
    | Inr ctx \<Rightarrow> bindM (liftE body) (\<lambda>request. bindM (liftE (CredentialRequest_parse request)) (\<lambda>parse.
        bindM (issueCredential (ms_ext S) (ms_debug S) (ms_proof S) (ms_identifier S) issuer parse
          (multi_credential_options ctx)) (\<lambda>credential. ret (Reply (respond 200 (CredentialsBody credential))))))"
  have "?route w = (Inr (Reply r), w')"
    using assms by (auto simp: multi_serve_def respond_def split: prod.splits sum.splits)
  then have m: "bindM (liftE (CredentialIssuer_parse (ms_ext S) tenant)) (\<lambda>issuer.
      bindM (liftE (AuthorizationServerIssuer_parse (ms_ext S) tenant)) (\<lambda>authz.
      bindM (tryM (authorizeCredentialEndpointAccess (ms_ext S) (ms_dpop S) authz (?opts issuer))) (?rest issuer))) w
    = (Inr (Reply r), w')"
    unfolding multi_route.simps multi_credentials_route_def
    by - (erule multi_guarded_Inr, assumption, insert assms(2), simp add: refuse_def respond_def)
  then obtain issuer where z: "zod_url (ms_ext S) tenant = Some issuer"
    by (auto simp: CredentialIssuer_parse_def bindM_Inr liftE_Inr split: option.splits)
  obtain x w1 where a: "authorizeCredentialEndpointAccess (ms_ext S) (ms_dpop S) issuer (?opts issuer) w = (x, w1)"
    by fastforce
  have run: "?rest issuer x w1 = (Inr (Reply r), w')"
    using m by (simp add: CredentialIssuer_parse_def AuthorizationServerIssuer_parse_def z bindM_run liftE_run tryM_def a)
  obtain ctx where x: "x = Inr ctx"
    using run assms(2) by (cases x) (auto simp: reply_def bindM_Inr ret_Inr dest!: authorization_refused_body)
  show thesis
    using run assms(2) that [OF z a [unfolded x]]
    by (auto simp: x bindM_Inr liftE_Inr ret_run respond_def)
qed

text \<open>C4. A server of several tenants that starts without codes and tokens returns a credential only to the
  bearer of a token whose issuer is the tenant of the request and that an earlier answer of a
  token endpoint gave out (up to a collision of the hash), and only for a configuration that an
  earlier request asked some tenant to offer. This holds for every sequence of requests,
  registrations and failing ones included.\<close>

theorem tenant_credentials_need_offer:
  assumes "multi_serve_all S rqs ([], w0) = (h, w)" and "w_pac w0 = Map.empty" and "w_allowed w0 = Map.empty"
    and "multi_serve S (MultiCredentials tenant authorization dpop body) w = (Reply r, w')"
    and "http_body r = CredentialsBody cs"
  shows "\<exists>issuer scheme token head claims iss t v request configId.
    zod_url (ms_ext S) tenant = Some issuer \<and>
    parseAuthorizationHeader authorization = HdrOk scheme token \<and>
    decode_access_token (ms_ext S) token = Inr (head, claims) \<and>
    vget claims ''iss'' = Some (JStr iss) \<and> zod_url (ms_ext S) iss = Some issuer \<and>
    multi_token_answered h t \<and>
    calculateAccessTokenHash (ms_ext S) token = calculateAccessTokenHash (ms_ext S) (access_token t) \<and>
    body = Inr v \<and> CredentialRequest_parse v = Inr request \<and>
    credential_configuration_id request = Some configId \<and> multi_offered h configId"
proof -
  have ok: "grants_ok (ms_ext S) (one_tenant h) w"
    using assms(2,3) by (intro multi_serve_all_keeps [OF _ assms(1)]) (simp add: grants_ok_def)
  obtain issuer ctx w1 v request where run: "zod_url (ms_ext S) tenant = Some issuer"
    "authorizeCredentialEndpointAccess (ms_ext S) (ms_dpop S) issuer
       \<lparr>ep_alg = None, authorizationHeader = authorization, dpopHeader = dpop, ep_htm = ''POST'',
        ep_htu = issuer @ ''/credentials'', ep_nonceRequired = True\<rparr> w = (Inr ctx, w1)"
    "body = Inr v" "CredentialRequest_parse v = Inr request"
    "issueCredential (ms_ext S) (ms_debug S) (ms_proof S) (ms_identifier S) issuer request (multi_credential_options ctx) w1
       = (Inr cs, w')"
    by (rule multi_credentials_issued [OF assms(4,5)])
  have w1: "grants w1 = grants w" using preservesD [OF preserves_grants_access run(2)] .
  obtain scheme token head claims iss where tok: "parseAuthorizationHeader authorization = HdrOk scheme token"
      "decode_access_token (ms_ext S) token = Inr (head, claims)" "vget claims ''iss'' = Some (JStr iss)"
      "zod_url (ms_ext S) iss = Some issuer"
      "allowedCredentialConfigurationKey ctx = calculateAccessTokenHash (ms_ext S) token"
    using authorizeAccess_grounds [OF run(2)] by auto
  obtain configId e where c: "credential_configuration_id request = Some configId"
      "w_allowed w1 (allowedCredentialConfigurationKey ctx) = Some e" "configId \<in> set (allowed_ids e)"
    using issueCredential_grounds [OF run(5)] by (auto simp: multi_credential_options_def)
  have "w_allowed w (calculateAccessTokenHash (ms_ext S) token) = Some e"
    using c(2) w1 by (simp add: tok(5) grants_def)
  with ok obtain t where "token_answered (one_tenant h) t"
      "calculateAccessTokenHash (ms_ext S) (access_token t) = calculateAccessTokenHash (ms_ext S) token"
      "\<forall>i \<in> set (allowed_ids e). offer_requested (one_tenant h) i"
    unfolding grants_ok_def by metis
  with tok(1-4) run(1,3,4) c(1,3) show ?thesis
    by (metis (full_types) answered_one_tenant offered_one_tenant)
qed

end
