(* ===== verification/State_Binding.thy ===== *)
theory State_Binding
  imports Http_Responses
begin

text \<open>
  The store that binds the \<open>state\<close> of a presentation to its transaction
  (\<open>server/core/src/utils/direct-post-vp-aud-transaction-store.ts\<close>). An operation takes the
  readings of the clock it makes. A binding is exclusive: until it is given back or has
  expired, no other request gets the state and every look-up finds the same transaction.
\<close>

subsection \<open>The binding of states\<close>

record StateTransaction =
  st_transactionId :: string
  st_expiresAt :: jsnum

type_synonym state_store = "string \<Rightarrow> StateTransaction option"

definition DEFAULT_DIRECT_POST_STATE_TTL_MS :: jsnum where
  "DEFAULT_DIRECT_POST_STATE_TTL_MS = Fin 300000"

definition state_consume :: "string \<Rightarrow> state_store \<Rightarrow> state_store" where
  "state_consume state st = st(state := None)"

definition sweepExpired :: "int \<Rightarrow> state_store \<Rightarrow> state_store" where
  "sweepExpired now st = (\<lambda>k. case st k of None \<Rightarrow> None
     | Some v \<Rightarrow> if num_lt (st_expiresAt v) (num_int now) then None else Some v)"

definition state_in_use :: http_body where
  "state_in_use = ErrorBody ''invalid_request'' ''state is already in use for an active presentation transaction''"

text \<open>The three readings of the clock: the sweep, the check and the new entry.\<close>

definition state_reserve :: "jsnum \<Rightarrow> int \<Rightarrow> int \<Rightarrow> int \<Rightarrow> string \<Rightarrow> state_store \<Rightarrow> http_body option \<times> state_store" where
  "state_reserve ttl now1 now2 now3 state st0 =
     (let st = sweepExpired now1 st0;
          put = st(state \<mapsto> \<lparr>st_transactionId = [], st_expiresAt = num_add (num_int now3) ttl\<rparr>)
      in case st state of
           None \<Rightarrow> (None, put)
         | Some existing \<Rightarrow>
             if num_le (num_int now2) (st_expiresAt existing) then (Some state_in_use, st) else (None, put))"

definition state_register :: "jsnum \<Rightarrow> int \<Rightarrow> int \<Rightarrow> string \<Rightarrow> string \<Rightarrow> state_store \<Rightarrow> http_body option \<times> state_store" where
  "state_register ttl now1 now2 state transactionId st =
     (let put = st(state \<mapsto> \<lparr>st_transactionId = transactionId, st_expiresAt = num_add (num_int now2) ttl\<rparr>)
      in case st state of
           None \<Rightarrow> (None, put)
         | Some existing \<Rightarrow>
             if st_transactionId existing \<noteq> [] \<and> num_le (num_int now1) (st_expiresAt existing)
             then (Some state_in_use, st) else (None, put))"

definition unknown_state :: http_body where
  "unknown_state = ErrorBody ''invalid_request'' ''unknown or expired state''"

definition state_resolve :: "int \<Rightarrow> string option \<Rightarrow> state_store \<Rightarrow> (http_body + string) \<times> state_store" where
  "state_resolve now state st =
     (case state of
        None \<Rightarrow> (Inl (ErrorBody ''invalid_request'' ''state is required for VP audience validation''), st)
      | Some s \<Rightarrow>
          if js_trim s = [] then (Inl (ErrorBody ''invalid_request'' ''state is required for VP audience validation''), st)
          else (case st s of
                  None \<Rightarrow> (Inl unknown_state, st)
                | Some rec \<Rightarrow>
                    if num_lt (st_expiresAt rec) (num_int now) then (Inl unknown_state, state_consume s st)
                    else if st_transactionId rec = [] then (Inl unknown_state, st)
                    else (Inr (st_transactionId rec), st)))"

subsection \<open>Sequences of calls\<close>

datatype state_call = Reserve string | Register string string | Resolve "string option" | Consume string

text \<open>A call with its three readings of the clock, of which some calls use fewer.\<close>

fun state_step :: "jsnum \<Rightarrow> state_call \<times> int \<times> int \<times> int \<Rightarrow> state_store \<Rightarrow> state_store" where
  "state_step ttl (Reserve s, t1, t2, t3) st = snd (state_reserve ttl t1 t2 t3 s st)"
| "state_step ttl (Register s i, t1, t2, t3) st = snd (state_register ttl t1 t2 s i st)"
| "state_step ttl (Resolve s, t1, t2, t3) st = snd (state_resolve t1 s st)"
| "state_step ttl (Consume s, t1, t2, t3) st = state_consume s st"

definition state_run :: "jsnum \<Rightarrow> (state_call \<times> int \<times> int \<times> int) list \<Rightarrow> state_store \<Rightarrow> state_store" where
  "state_run ttl cs st = fold (state_step ttl) cs st"

definition within_life :: "StateTransaction \<Rightarrow> state_call \<times> int \<times> int \<times> int \<Rightarrow> bool" where
  "within_life r = (\<lambda>(c, t1, t2, t3). list_all (\<lambda>t. num_le (num_int t) (st_expiresAt r)) [t1, t2, t3])"

lemma num_le_not_lt: "num_le x y \<Longrightarrow> \<not> num_lt y x"
  by (cases x; cases y) (auto simp: num_le_def)

lemma sweepExpired_live:
  "st s = Some r \<Longrightarrow> num_le (num_int t) (st_expiresAt r) \<Longrightarrow> sweepExpired t st s = Some r"
  by (simp add: sweepExpired_def num_le_not_lt)

lemma state_reserve_live:
  assumes "st s = Some r" and "num_le (num_int t1) (st_expiresAt r)" and "num_le (num_int t2) (st_expiresAt r)"
  shows "state_reserve ttl t1 t2 t3 s st = (Some state_in_use, sweepExpired t1 st)"
  using assms by (simp add: state_reserve_def sweepExpired_live Let_def)

lemma state_register_live:
  assumes "st s = Some r" and "num_le (num_int t1) (st_expiresAt r)" and "st_transactionId r \<noteq> []"
  shows "state_register ttl t1 t2 s i st = (Some state_in_use, st)"
  using assms by (simp add: state_register_def Let_def)

lemma state_resolve_live:
  assumes "st s = Some r" and "num_le (num_int t) (st_expiresAt r)" and "st_transactionId r \<noteq> []" and "js_trim s \<noteq> []"
  shows "state_resolve t (Some s) st = (Inr (st_transactionId r), st)"
  using assms by (simp add: state_resolve_def num_le_not_lt)

text \<open>A live binding survives every call but the one that gives it back.\<close>

lemma state_step_live:
  assumes "st s = Some r" and "st_transactionId r \<noteq> []" and "within_life r (c, ts)" and "c \<noteq> Consume s"
  shows "state_step ttl (c, ts) st s = Some r"
proof -
  obtain t1 t2 t3 where ts: "ts = (t1, t2, t3)" by (cases ts) auto
  have le: "num_le (num_int t1) (st_expiresAt r)" "num_le (num_int t2) (st_expiresAt r)"
    using assms(3) by (simp_all add: within_life_def ts)
  show ?thesis
  proof (cases c)
    case (Reserve s')
    have "fst (sweepExpired t1 st, s') = sweepExpired t1 st" by simp
    then show ?thesis
      using assms(1) le
      by (cases "s' = s") (auto simp: ts Reserve state_reserve_live, auto simp: state_reserve_def sweepExpired_live Let_def
          split: option.split)
  next
    case (Register s' i)
    then show ?thesis
      using assms(1,2) le
      by (cases "s' = s") (auto simp: ts state_register_live sweepExpired_live, auto simp: state_register_def Let_def
          split: option.split)
  next
    case (Resolve v)
    then show ?thesis
      using assms(1) le num_le_not_lt [OF le(1)]
      by (auto simp: ts state_resolve_def state_consume_def split: option.split)
  next
    case (Consume s')
    then show ?thesis using assms(1,4) by (simp add: ts state_consume_def)
  qed
qed

lemma state_run_live:
  assumes "st s = Some r" and "st_transactionId r \<noteq> []" and "list_all (within_life r) cs" and "Consume s \<notin> fst ` set cs"
  shows "state_run ttl cs st s = Some r"
  using assms(1,3,4)
proof (induction cs arbitrary: st)
  case (Cons c cs)
  obtain k ts where c: "c = (k, ts)" by (cases c)
  have "state_step ttl c st s = Some r"
    using state_step_live [of st s r k ts ttl] Cons.prems assms(2) by (auto simp: c)
  with Cons show ?case by (simp add: state_run_def)
qed (simp add: state_run_def)

text \<open>A state that was given back, or whose binding has expired, can be reserved again.\<close>

lemma state_reserve_free:
  assumes "state_run ttl cs st s = None \<or> (\<exists>r. state_run ttl cs st s = Some r \<and> num_lt (st_expiresAt r) (num_int t1))"
  shows "fst (state_reserve ttl t1 t2 t3 s (state_run ttl cs st)) = None"
  using assms by (auto simp: state_reserve_def sweepExpired_def Let_def)

lemma state_consume_frees: "fst (state_reserve ttl t1 t2 t3 s (state_consume s st)) = None"
  by (simp add: state_reserve_def sweepExpired_def state_consume_def Let_def)

text \<open>C8. A registered state belongs to its transaction until it is given back or expires: after any
  calls within its life time, on this state and on others, looking it up gives the
  transaction that was registered, and reserving or registering it for another one is refused. Once
  given back it can be reserved again.\<close>

theorem state_binding_exclusive:
  assumes "state_register ttl a b s i st0 = (None, st)" and "i \<noteq> []" and "js_trim s \<noteq> []"
    and "list_all (within_life \<lparr>st_transactionId = i, st_expiresAt = num_add (num_int b) ttl\<rparr>) ((Resolve None, t1, t2, t3) # cs)"
    and "Consume s \<notin> fst ` set cs"
  shows "fst (state_resolve t1 (Some s) (state_run ttl cs st)) = Inr i \<and>
    fst (state_reserve ttl t1 t2 t3 s (state_run ttl cs st)) = Some state_in_use \<and>
    fst (state_register ttl t1 t2 s i' (state_run ttl cs st)) = Some state_in_use \<and>
    fst (state_reserve ttl t1 t2 t3 s (state_consume s (state_run ttl cs st))) = None"
proof -
  let ?r = "\<lparr>st_transactionId = i, st_expiresAt = num_add (num_int b) ttl\<rparr>"
  let ?st = "state_run ttl cs st"
  have "st s = Some ?r"
    using assms(1) by (auto simp: state_register_def Let_def split: option.splits if_splits)
  then have r: "?st s = Some ?r"
    using assms(2,4,5) by (intro state_run_live) simp_all
  have t: "num_le (num_int t1) (st_expiresAt ?r)" "num_le (num_int t2) (st_expiresAt ?r)"
    using assms(4) by (simp_all add: within_life_def)
  show ?thesis
    using state_resolve_live [where st = ?st and s = s and r = ?r, OF r t(1)]
      state_reserve_live [where st = ?st, OF r t] state_register_live [where st = ?st, OF r t(1)] assms(2,3)
    by (simp add: state_consume_frees)
qed

theorem state_binding_exclusive_witness:
  "fst (state_resolve 60000 (Some ''s'') (state_run DEFAULT_DIRECT_POST_STATE_TTL_MS
     [(Reserve ''s'', 10, 10, 10), (Register ''s'' ''t2'', 20, 20, 20), (Consume ''u'', 30, 30, 30)]
     (snd (state_register DEFAULT_DIRECT_POST_STATE_TTL_MS 0 0 ''s'' ''t1'' Map.empty)))) = Inr ''t1''"
proof -
  let ?ttl = DEFAULT_DIRECT_POST_STATE_TTL_MS
  have "state_register ?ttl 0 0 ''s'' ''t1'' Map.empty = (None, snd (state_register ?ttl 0 0 ''s'' ''t1'' Map.empty))"
    by (simp add: state_register_def)
  moreover have "js_trim ''s'' \<noteq> []" by code_simp
  moreover have "list_all (within_life \<lparr>st_transactionId = ''t1'', st_expiresAt = num_add (num_int 0) ?ttl\<rparr>)
      [(Resolve None, 60000, 60000, 60000), (Reserve ''s'', 10, 10, 10), (Register ''s'' ''t2'', 20, 20, 20), (Consume ''u'', 30, 30, 30)]"
    by code_simp
  ultimately show ?thesis
    using state_binding_exclusive [of ?ttl 0 0 "''s''" "''t1''" Map.empty _ 60000 60000 60000] by simp
qed

end
