(* ===== verification/Http_Verify.thy ===== *)
theory Http_Verify
  imports State_Binding Verifier_Flow
begin

text \<open>
  The HTTP endpoints of the verifier (\<open>server/core/src/routes/verify.ts\<close>). The state of a router
  is the library's state and the store of bindings. \<open>parse_json\<close> is \<open>JSON.parse\<close>.
\<close>

subsection \<open>The state of the router\<close>

record server =
  srv_world :: world
  srv_states :: state_store

definition on_world :: "(world, 'a) M \<Rightarrow> (server, 'a) M" where
  "on_world = zoom srv_world (\<lambda>w. srv_world_update (\<lambda>_. w))"

definition on_states :: "(state_store \<Rightarrow> 'a \<times> state_store) \<Rightarrow> (server, 'a) M" where
  "on_states f = zoom srv_states (\<lambda>s. srv_states_update (\<lambda>_. s)) (\<lambda>st. case f st of (x, st') \<Rightarrow> (Inr x, st'))"

definition reserve_state :: "string \<Rightarrow> (server, http_body option) M" where
  "reserve_state state =
     bindM (on_world now_ms) (\<lambda>t1. bindM (on_world now_ms) (\<lambda>t2. bindM (on_world now_ms) (\<lambda>t3.
     on_states (state_reserve DEFAULT_DIRECT_POST_STATE_TTL_MS t1 t2 t3 state))))"

definition register_state :: "string \<Rightarrow> string \<Rightarrow> (server, http_body option) M" where
  "register_state state transactionId =
     bindM (on_world now_ms) (\<lambda>t1. bindM (on_world now_ms) (\<lambda>t2.
     on_states (state_register DEFAULT_DIRECT_POST_STATE_TTL_MS t1 t2 state transactionId)))"

definition resolve_state :: "string option \<Rightarrow> (server, http_body + string) M" where
  "resolve_state state = bindM (on_world now_ms) (\<lambda>t. on_states (state_resolve t state))"

definition consume_state :: "string \<Rightarrow> (server, unit) M" where
  "consume_state state = on_states (\<lambda>st. ((), state_consume state st))"

subsection \<open>Client identifiers\<close>

text \<open>\<open>/^([^:]+):(.+)$/\<close> with one of the two prefixes.\<close>

definition validateClientIdScheme :: "jsval option \<Rightarrow> exn + string" where
  "validateClientIdScheme cid =
     (case cid of
        None \<Rightarrow> Inr ''x509_san_dns:localhost''
      | Some JNull \<Rightarrow> Inr ''x509_san_dns:localhost''
      | Some (JStr s) \<Rightarrow>
          if s = [] then Inr ''x509_san_dns:localhost''
          else let p = takeWhile (\<lambda>c. c \<noteq> CHR '':'') s; rest = drop (length p + 1) s in
            if p \<in> {''redirect_uri'', ''x509_san_dns''} \<and> rest \<noteq> [] \<and> list_all (\<lambda>c. \<not> is_nl c) rest
            then ClientIdentifier_parse s
            else Inl (JsError ''Invalid client_id format'')
      | Some _ \<Rightarrow> Inl (JsError ''TypeError''))"

definition ClientId_parse :: "ext \<Rightarrow> string \<Rightarrow> exn + string" where
  "ClientId_parse X u = (case zod_url X u of None \<Rightarrow> Inl zod_error | Some v \<Rightarrow> Inr v)"

definition sample_dcql :: "string \<Rightarrow> string \<Rightarrow> obj" where
  "sample_dcql uuid type =
     [(''dcql_query'', JObj [(''credentials'', JArr [JObj [(''id'', JStr uuid), (''format'', JStr ''jwt_vc_json''),
        (''meta'', JObj [(''type_values'', JArr [JArr [JStr type]])])]])])]"

definition filled_str :: "jsval option \<Rightarrow> string option" where
  "filled_str v = (case v of Some (JStr s) \<Rightarrow> (if js_trim s \<noteq> [] then Some s else None) | _ \<Rightarrow> None)"

subsection \<open>Requests\<close>

datatype verify_answer = Answer http_response | RequestText AuthorizationRequest "string option"

definition answer_errors :: "('w, verify_answer) M \<Rightarrow> ('w, verify_answer) M" where
  "answer_errors m = catchM m (\<lambda>e. ret (Answer (error_response e)))"

definition bad_request :: "string \<Rightarrow> verify_answer" where
  "bad_request d = Answer (refuse 400 ''invalid_request'' d)"

text \<open>The rest of \<open>/request\<close> once the state is reserved: a failure gives the state back.\<close>

definition request_reserved ::
  "ext \<Rightarrow> vlib \<Rightarrow> string \<Rightarrow> string \<Rightarrow> string \<Rightarrow> obj \<Rightarrow> string \<Rightarrow> (server, verify_answer) M" where
  "request_reserved X V baseUrl verifierId clientId query state =
     bindM (catchM
       (on_world (createAuthzRequest X V verifierId ''vp_token'' clientId ''direct_post'' query False
          \<lparr>ar_state = Some state, ar_scope = None, ar_response_uri = Some (baseUrl @ ''/callback''), ar_base_url = Some baseUrl,
           ar_request_uri = None, ar_transaction_data = None\<rparr>))
       (\<lambda>e. thenM (consume_state state) (throw e))) (\<lambda>r.
     bindM (register_state state (cr_transactionId r)) (\<lambda>_.
     ret (RequestText (cr_request r) (Some state))))"

text \<open>\<open>body\<close> is the JSON value of the request, the empty object when it cannot be read.\<close>

definition request_route :: "ext \<Rightarrow> vlib \<Rightarrow> string \<Rightarrow> jsval \<Rightarrow> (server, verify_answer) M" where
  "request_route X V baseUrl body =
     answer_errors
       (bindM (liftE (ClientId_parse X baseUrl)) (\<lambda>verifierId.
        bindM (liftE (js_prop body ''credentialId'')) (\<lambda>credentialId.
        case filled_str credentialId of
          None \<Rightarrow> ret (bad_request ''credentialId must be a non-empty string.'')
        | Some cid \<Rightarrow>
            (case map_option js_trim (filled_str (vget body ''state'')) of
               None \<Rightarrow> ret (bad_request ''state is required.'')
             | Some state \<Rightarrow>
                 bindM (liftE (validateClientIdScheme
                   (case vget body ''client_id'' of None \<Rightarrow> Some (JStr ''redirect_uri:localhost'')
                    | Some JNull \<Rightarrow> Some (JStr ''redirect_uri:localhost'') | Some v \<Rightarrow> Some v))) (\<lambda>clientId.
                 bindM (on_world fresh) (\<lambda>uuid.
                 bindM (reserve_state state) (\<lambda>reserved.
                 case reserved of
                   Some e \<Rightarrow> ret (Answer (respond 400 e))
                 | None \<Rightarrow> request_reserved X V baseUrl verifierId clientId (sample_dcql uuid cid) state))))))) "

text \<open>The members of the body of \<open>/request-object\<close>, with their defaults.\<close>

record RequestObjectShape =
  rs_query :: obj
  rs_state :: string
  rs_is_request_uri :: bool
  rs_is_transaction_data :: bool
  rs_response_uri :: "string option"
  rs_client_id :: string

definition bool_or :: "bool \<Rightarrow> jsval option \<Rightarrow> bool" where
  "bool_or d v = (case v of Some (JBool b) \<Rightarrow> b | _ \<Rightarrow> d)"

definition request_object_shape :: "obj \<Rightarrow> string \<Rightarrow> jsval \<Rightarrow> exn + RequestObjectShape" where
  "request_object_shape dcqlQuery state input =
     (case (case filled_str (vget input ''client_id'') of
              None \<Rightarrow> Inr ''x509_san_dns:localhost'' | Some s \<Rightarrow> validateClientIdScheme (Some (JStr s))) of
        Inl e \<Rightarrow> Inl e
      | Inr clientId \<Rightarrow>
          Inr \<lparr>rs_query = (case vget input ''query'' of Some (JObj q) \<Rightarrow> q | _ \<Rightarrow> dcqlQuery),
               rs_state = state,
               rs_is_request_uri = bool_or True (vget input ''is_request_uri''),
               rs_is_transaction_data = bool_or False (vget input ''is_transaction_data''),
               rs_response_uri = filled_str (vget input ''response_uri''),
               rs_client_id = clientId\<rparr>)"

definition request_object_reserved ::
  "ext \<Rightarrow> vlib \<Rightarrow> string \<Rightarrow> RequestObjectShape \<Rightarrow> (server, verify_answer) M" where
  "request_object_reserved X V baseUrl r =
     bindM (liftE (ClientId_parse X baseUrl)) (\<lambda>verifierId.
     bindM (on_world (createAuthzRequest X V verifierId ''vp_token'' (rs_client_id r) ''direct_post'' (rs_query r) (rs_is_request_uri r)
       \<lparr>ar_state = Some (rs_state r), ar_scope = None,
        ar_response_uri = Some (getOr (baseUrl @ ''/callback'') (rs_response_uri r)), ar_base_url = Some baseUrl,
        ar_request_uri = Some (baseUrl @ ''/request.jwt''),
        ar_transaction_data = (if rs_is_transaction_data r then Some (''sample_type'', None) else None)\<rparr>)) (\<lambda>resp.
     bindM (register_state (rs_state r) (cr_transactionId resp)) (\<lambda>_.
     ret (RequestText (cr_request resp) None))))"

text \<open>\<open>raw\<close> is the text of the body. What is not an object counts as no input.\<close>

definition request_object_route ::
  "ext \<Rightarrow> vlib \<Rightarrow> (string \<Rightarrow> jsval option) \<Rightarrow> string \<Rightarrow> string \<Rightarrow> (server, verify_answer) M" where
  "request_object_route X V parse_json baseUrl raw =
     bindM (on_world fresh) (\<lambda>uuid.
     case (if js_trim raw = [] then Some (JObj []) else parse_json raw) of
       None \<Rightarrow> ret (bad_request ''Request body must be valid JSON'')
     | Some parsed \<Rightarrow>
         let input = (case parsed of JObj ob \<Rightarrow> JObj ob | _ \<Rightarrow> JObj []) in
         bindM (case filled_str (vget input ''state'') of
                  Some s \<Rightarrow> ret s | None \<Rightarrow> on_world (bindM fresh (\<lambda>u. ret (strip_dashes u)))) (\<lambda>state.
         bindM (liftE (request_object_shape (sample_dcql uuid ''VerifiableCredential'') state input)) (\<lambda>r.
         bindM (reserve_state (rs_state r)) (\<lambda>reserved.
         case reserved of
           Some e \<Rightarrow> ret (Answer (respond 400 e))
         | None \<Rightarrow> answer_errors (catchM (request_object_reserved X V baseUrl r)
             (\<lambda>e. thenM (consume_state (rs_state r)) (throw e)))))))"

subsection \<open>Responses of wallets\<close>

text \<open>\<open>authorization-response.types.ts\<close>.\<close>

definition presentation_of :: "jsval \<Rightarrow> VerifiablePresentation option" where
  "presentation_of v = (case v of JStr s \<Rightarrow> Some (VpString s) | JObj ob \<Rightarrow> Some (VpObject ob) | _ \<Rightarrow> None)"

definition presentations_of :: "jsval \<Rightarrow> VerifiablePresentation list option" where
  "presentations_of v =
     (case v of JArr xs \<Rightarrow> if list_all (\<lambda>x. presentation_of x \<noteq> None) xs then Some (map (\<lambda>x. the (presentation_of x)) xs) else None
      | _ \<Rightarrow> None)"

definition AuthorizationResponse_parse :: "obj option \<Rightarrow> string option \<Rightarrow> exn + AuthorizationResponse" where
  "AuthorizationResponse_parse vpt state =
     (case vpt of
        None \<Rightarrow> Inl zod_error
      | Some ob \<Rightarrow>
          if list_all (\<lambda>(k, v). presentations_of v \<noteq> None) ob
          then Inr \<lparr>vp_token = map (\<lambda>(k, v). (k, the (presentations_of v))) ob, resp_state = state\<rparr>
          else Inl zod_error)"

text \<open>The form: a blank or missing \<open>vp_token\<close> is left out; otherwise it must be a JSON object.\<close>

definition parseFormPayload :: "(string \<Rightarrow> jsval option) \<Rightarrow> obj \<Rightarrow> string + (obj option \<times> string option)" where
  "parseFormPayload parse_json form =
     (let state = str_of (oget form ''state'') in
      case filled_str (oget form ''vp_token'') of
        None \<Rightarrow> Inr (None, state)
      | Some raw \<Rightarrow>
          (case parse_json raw of
             Some (JObj ob) \<Rightarrow> Inr (Some ob, state)
           | _ \<Rightarrow> Inl ''vp_token must be a JSON object''))"

definition normalizeContentType :: "string \<Rightarrow> string" where
  "normalizeContentType v = js_lower (js_trim (hd (js_split (CHR '';'') v)))"

definition callback_verified ::
  "ext \<Rightarrow> vlib \<Rightarrow> SdJwtFactoryOptions \<Rightarrow> string \<Rightarrow> VerifyPresentationOptions option \<Rightarrow> AuthorizationResponse \<Rightarrow>
   (server, verify_answer) M" where
  "callback_verified X V F baseUrl options resp =
     bindM (resolve_state (resp_state resp)) (\<lambda>resolved.
     case resolved of
       Inl e \<Rightarrow> ret (Answer (respond 400 e))
     | Inr transactionId \<Rightarrow>
         bindM (on_world (verifyPresentations X V F resp transactionId options)) (\<lambda>payload.
         thenM (consume_state (getOr [] (resp_state resp)))
         (ret (Answer (respond 200 (JsonBody (JObj [(''redirect_uri'', JStr (baseUrl @ ''/verified''))])))))))"

text \<open>\<open>/callback\<close> and \<open>/callback-kbjwt\<close>, which differ in the options alone.\<close>

definition callback_route ::
  "ext \<Rightarrow> vlib \<Rightarrow> SdJwtFactoryOptions \<Rightarrow> (string \<Rightarrow> jsval option) \<Rightarrow> string \<Rightarrow> bool \<Rightarrow> string option \<Rightarrow> obj option \<Rightarrow>
   (server, verify_answer) M" where
  "callback_route X V F parse_json baseUrl kb contentType form =
     answer_errors
       (if normalizeContentType (getOr [] contentType) \<noteq> ''application/x-www-form-urlencoded'' then
          ret (bad_request ''content-type must be application/x-www-form-urlencoded'')
        else case form of
          None \<Rightarrow> ret (bad_request ''Request body must be a valid form data.'')
        | Some fm \<Rightarrow>
            (case parseFormPayload parse_json fm of
               Inl d \<Rightarrow> ret (bad_request d)
             | Inr (vp, state) \<Rightarrow>
                 bindM (liftE (AuthorizationResponse_parse vp state)) (\<lambda>resp.
                 callback_verified X V F baseUrl
                   (if kb then Some \<lparr>vq_isKbJwt = Some True, vq_expectedTransactionDataHashes = None\<rparr> else None) resp)))"

definition callback_kbjwt_route ::
  "ext \<Rightarrow> vlib \<Rightarrow> SdJwtFactoryOptions \<Rightarrow> (string \<Rightarrow> jsval option) \<Rightarrow> string \<Rightarrow> string option \<Rightarrow> obj option \<Rightarrow>
   (server, verify_answer) M" where
  "callback_kbjwt_route X V F parse_json baseUrl contentType form = callback_route X V F parse_json baseUrl True contentType form"

definition verified_route :: "(server, verify_answer) M" where
  "verified_route = ret (Answer (respond 200 (JsonBody (JObj [(''message'', JStr ''DONE!!'')]))))"

subsection \<open>Request objects and transactions\<close>

definition request_jwt_route :: "ext \<Rightarrow> string \<Rightarrow> string \<Rightarrow> (server, verify_answer) M" where
  "request_jwt_route X baseUrl objectId =
     answer_errors
       (bindM (liftE (ClientId_parse X baseUrl)) (\<lambda>verifierId.
        bindM (on_world (findRequestObject X verifierId objectId None)) (\<lambda>jar.
        ret (Answer \<lparr>status = 200, http_headers = [(''Content-Type'', ''application/oauth-authz-req+jwt'')], http_body = TextBody jar\<rparr>))))"

definition transaction_json :: "string \<Rightarrow> TransactionView \<Rightarrow> jsval" where
  "transaction_json transactionId t =
     JObj ([(''transaction_id'', JStr transactionId)] @ opt_member ''state'' (map_option JStr (tv_state t)) @
       [(''client_id'', JStr (tv_clientId t)), (''expires_at'', JNum (tv_expiresAt t))])"

definition get_transaction_route :: "string \<Rightarrow> (server, verify_answer) M" where
  "get_transaction_route param =
     (let transactionId = js_trim param in
      if transactionId = [] then ret (bad_request ''transactionId is required'')
      else answer_errors
        (bindM (on_world (getTransaction transactionId)) (\<lambda>t. ret (Answer (respond 200 (JsonBody (transaction_json transactionId t)))))))"

definition delete_transaction_route :: "string \<Rightarrow> (server, verify_answer) M" where
  "delete_transaction_route param =
     (let transactionId = js_trim param in
      if transactionId = [] then ret (bad_request ''transactionId is required'')
      else answer_errors
        (bindM (on_world (getTransaction transactionId)) (\<lambda>t.
         thenM (if opt_str (tv_state t) then consume_state (getOr [] (tv_state t)) else ret ())
         (thenM (on_world (deleteTransaction transactionId))
         (ret (Answer (respond 200 (JsonBody (JObj [(''ok'', JBool True)])))))))))"

end
