(* ===== verification/Http_Verify_Safety.thy ===== *)
theory Http_Verify_Safety
  imports Http_Verify Verifier_Safety Verifier_Requests
begin

text \<open>
  What the verifier's endpoints guarantee: a response is accepted only for the transaction its
  state is bound to, and once; a request binds its state to the transaction it opened, and a
  request that fails binds nothing.
\<close>

subsection \<open>Runs on the parts of the server\<close>

lemma on_world_run: "on_world m s = (fst (m (srv_world s)), s\<lparr>srv_world := snd (m (srv_world s))\<rparr>)"
  by (simp add: on_world_def zoom_run)

lemma on_states_run: "on_states f s = (Inr (fst (f (srv_states s))), s\<lparr>srv_states := snd (f (srv_states s))\<rparr>)"
  by (simp add: on_states_def zoom_run split: prod.split)

lemma on_world_Inr: "on_world m s = (Inr x, s') \<longleftrightarrow> (\<exists>w. m (srv_world s) = (Inr x, w) \<and> s' = s\<lparr>srv_world := w\<rparr>)"
  by (auto simp: on_world_def zoom_Inr)

lemma on_states_Inr: "on_states f s = (Inr x, s') \<longleftrightarrow> (\<exists>st. f (srv_states s) = (x, st) \<and> s' = s\<lparr>srv_states := st\<rparr>)"
  by (auto simp: on_states_def zoom_Inr split: prod.splits)

lemma answer_errors_Inr:
  assumes "answer_errors m s = (Inr a, s')"
  obtains "m s = (Inr a, s')" | e where "m s = (Inl e, s')" "a = Answer (error_response e)"
  using assms by (cases "m s"; cases "fst (m s)") (auto simp: answer_errors_def run_simps)

lemma Answer_bad_request: "Answer r = bad_request d \<longleftrightarrow> r = refuse 400 ''invalid_request'' d"
  by (simp add: bad_request_def)

subsection \<open>Responses\<close>

lemma state_resolve_Inr:
  "state_resolve now v st = (Inr i, st') \<Longrightarrow>
     \<exists>state rc. v = Some state \<and> js_trim state \<noteq> [] \<and> st state = Some rc \<and> \<not> num_lt (st_expiresAt rc) (num_int now) \<and>
       st_transactionId rc = i \<and> i \<noteq> [] \<and> st' = st"
  by (auto simp: state_resolve_def split: option.splits if_splits)

lemma callback_verified_accepts:
  assumes "callback_verified X V F baseUrl options resp s = (Inr (Answer r), s')" and "status r = 200"
  obtains state rc payload where "resp_state resp = Some state" "js_trim state \<noteq> []" "srv_states s state = Some rc"
    "\<not> num_lt (st_expiresAt rc) (num_int (w_clk (srv_world s) 0))" "st_transactionId rc \<noteq> []"
    "verifyPresentations X V F resp (st_transactionId rc) options
       ((srv_world s)\<lparr>w_clk := shift (w_clk (srv_world s))\<rparr>) = (Inr payload, srv_world s')"
    "srv_states s' = (srv_states s)(state := None)"
proof -
  let ?w = "(srv_world s)\<lparr>w_clk := shift (w_clk (srv_world s))\<rparr>"
  obtain res st where res: "state_resolve (w_clk (srv_world s) 0) (resp_state resp) (srv_states s) = (res, st)"
      "(case res of Inl e \<Rightarrow> ret (Answer (respond 400 e))
        | Inr transactionId \<Rightarrow>
            bindM (on_world (verifyPresentations X V F resp transactionId options)) (\<lambda>payload.
            thenM (consume_state (getOr [] (resp_state resp)))
            (ret (Answer (respond 200 (JsonBody (JObj [(''redirect_uri'', JStr (baseUrl @ ''/verified''))])))))))
        (s\<lparr>srv_world := ?w, srv_states := st\<rparr>) = (Inr (Answer r), s')"
    using assms(1)
    by (auto simp: callback_verified_def resolve_state_def bindM_Inr on_world_Inr on_states_Inr now_ms_Inr)
  obtain i where i: "res = Inr i" using res(2) assms(2) by (cases res) (auto simp: ret_Inr respond_def)
  from state_resolve_Inr [OF res(1) [unfolded i]] obtain state rc where st: "resp_state resp = Some state" "js_trim state \<noteq> []"
      "srv_states s state = Some rc" "\<not> num_lt (st_expiresAt rc) (num_int (w_clk (srv_world s) 0))" "st_transactionId rc = i"
      "i \<noteq> []" "st = srv_states s" by auto
  obtain payload where "verifyPresentations X V F resp i options ?w = (Inr payload, srv_world s')"
      "srv_states s' = (srv_states s)(state := None)"
    using res(2) st(1,7)
    by (auto simp: i bindM_Inr thenM_Inr on_world_Inr consume_state_def on_states_Inr state_consume_def ret_Inr)
  with st show thesis by (intro that) auto
qed

text \<open>C6. The wallet's answer is accepted only if its state is bound to a transaction, not expired, and the
  presentations verify for that very transaction, which was opened with this state; the binding
  is then given up and the transaction is gone, so the state is unknown to any later answer.\<close>

theorem callback_sound:
  assumes "callback_route X V F parse_json baseUrl kb contentType form s = (Inr (Answer r), s')" and "status r = 200"
  shows "\<exists>fm vp state resp rc t metadata results.
    form = Some fm \<and> parseFormPayload parse_json fm = Inr (vp, Some state) \<and>
    AuthorizationResponse_parse vp (Some state) = Inr resp \<and>
    srv_states s state = Some rc \<and> \<not> num_lt (st_expiresAt rc) (num_int (w_clk (srv_world s) 0)) \<and>
    w_transactions (srv_world s) (st_transactionId rc) = Some t \<and> (tx_state t = None \<or> tx_state t = Some state) \<and>
    w_verifier_metadata (srv_world s) (tx_verifierId t) = Some metadata \<and>
    list_all2 (answers X V F t (vp_formats_supported metadata)
      (if kb then Some \<lparr>vq_isKbJwt = Some True, vq_expectedTransactionDataHashes = None\<rparr> else None))
      (vp_token resp) results \<and>
    required_presented (tx_dcqlQuery t) (map fst results) \<and>
    w_transactions (srv_world s') (st_transactionId rc) = None \<and> srv_states s' = (srv_states s)(state := None) \<and>
    fst (state_resolve later (Some state) (srv_states s')) = Inl unknown_state"
proof -
  obtain fm vp v resp where c: "form = Some fm" "parseFormPayload parse_json fm = Inr (vp, v)"
      "AuthorizationResponse_parse vp v = Inr resp"
      "callback_verified X V F baseUrl
         (if kb then Some \<lparr>vq_isKbJwt = Some True, vq_expectedTransactionDataHashes = None\<rparr> else None) resp s = (Inr (Answer r), s')"
    using assms(1) unfolding callback_route_def
  proof (rule answer_errors_Inr, goal_cases)
    case 1
    then show ?case
      using assms(2)
      by (auto simp: Answer_bad_request refuse_def respond_def ret_Inr bindM_Inr liftE_Inr split: if_splits option.splits sum.splits)
  qed (use assms(2) in auto)
  have v: "resp_state resp = v"
    using c(3) by (auto simp: AuthorizationResponse_parse_def split: option.splits if_splits)
  obtain state rc payload where a: "resp_state resp = Some state" "js_trim state \<noteq> []" "srv_states s state = Some rc"
    "\<not> num_lt (st_expiresAt rc) (num_int (w_clk (srv_world s) 0))" "st_transactionId rc \<noteq> []"
    "verifyPresentations X V F resp (st_transactionId rc)
       (if kb then Some \<lparr>vq_isKbJwt = Some True, vq_expectedTransactionDataHashes = None\<rparr> else None)
       ((srv_world s)\<lparr>w_clk := shift (w_clk (srv_world s))\<rparr>) = (Inr payload, srv_world s')"
    "srv_states s' = (srv_states s)(state := None)"
    by (rule callback_verified_accepts [OF c(4) assms(2)])
  have gone: "fst (state_resolve later (Some state) (srv_states s')) = Inl unknown_state"
    using a(2,7) by (simp add: state_resolve_def)
  from verifyPresentations_grounds [OF a(6)] show ?thesis
    using c(1-3) v a(1,3,4,7) gone by (elim exE conjE) (fastforce)
qed

subsection \<open>Requests\<close>

text \<open>Entries disappear, and no other changes.\<close>

definition only_dropped :: "state_store \<Rightarrow> state_store \<Rightarrow> bool" where
  "only_dropped st st' \<longleftrightarrow> (\<forall>k. st' k = None \<or> st' k = st k)"

lemma only_dropped_simps [simp]:
  "only_dropped st st" "only_dropped st (sweepExpired t st)" "only_dropped st st1 \<Longrightarrow> only_dropped st (st1(k := None))"
  by (auto simp: only_dropped_def sweepExpired_def split: option.splits)

definition free_state :: "state_store \<Rightarrow> string \<Rightarrow> bool" where
  "free_state st state \<longleftrightarrow>
     st state = None \<or> (\<exists>rc now. st state = Some rc \<and> \<not> num_le (num_int now) (st_expiresAt rc))"

lemma reserve_state_run:
  obtains (granted) st e c where "reserve_state state s = (Inr None, s\<lparr>srv_world := (srv_world s)\<lparr>w_clk := c\<rparr>,
      srv_states := st(state \<mapsto> \<lparr>st_transactionId = [], st_expiresAt = e\<rparr>)\<rparr>)"
      "only_dropped (srv_states s) st" "free_state (srv_states s) state"
    | (refused) st c where "reserve_state state s = (Inr (Some state_in_use), s\<lparr>srv_world := (srv_world s)\<lparr>w_clk := c\<rparr>, srv_states := st\<rparr>)"
      "only_dropped (srv_states s) st"
proof -
  let ?t = "w_clk (srv_world s)"
  let ?st = "sweepExpired (?t 0) (srv_states s)"
  obtain r st' where r: "state_reserve DEFAULT_DIRECT_POST_STATE_TTL_MS (?t 0) (?t 1) (?t 2) state (srv_states s) = (r, st')"
    by fastforce
  have run: "reserve_state state s = (Inr r, s\<lparr>srv_world := (srv_world s)\<lparr>w_clk := shift (shift (shift ?t))\<rparr>, srv_states := st'\<rparr>)"
    using r by (simp add: reserve_state_def bindM_run on_world_run on_states_run now_ms_run shift_def numeral_2_eq_2)
  show thesis
  proof (cases r)
    case None
    then obtain e where e: "st' = ?st(state \<mapsto> \<lparr>st_transactionId = [], st_expiresAt = e\<rparr>)"
      using r by (auto simp: state_reserve_def Let_def split: option.splits if_splits)
    have "free_state (srv_states s) state"
      using r None num_le_not_lt
      by (fastforce simp: state_reserve_def Let_def free_state_def sweepExpired_def split: option.splits if_splits)
    with run None e show thesis by (intro granted [OF _ only_dropped_simps(2)]) simp_all
  next
    case (Some x)
    then have "x = state_in_use" "st' = ?st"
      using r by (auto simp: state_reserve_def Let_def split: option.splits if_splits)
    with run Some show thesis by (intro refused [OF _ only_dropped_simps(2)]) simp_all
  qed
qed

lemma register_state_run:
  assumes "srv_states s state = Some rc" and "st_transactionId rc = []"
  shows "\<exists>e c. register_state state i s = (Inr None, s\<lparr>srv_world := (srv_world s)\<lparr>w_clk := c\<rparr>,
    srv_states := (srv_states s)(state \<mapsto> \<lparr>st_transactionId = i, st_expiresAt = e\<rparr>)\<rparr>)"
  using assms
  by (auto simp: register_state_def bindM_run on_world_run on_states_run now_ms_run state_register_def Let_def shift_def)

text \<open>A reserved state is bound to the transaction that was opened, or given back.\<close>

definition bound_to_opened :: "string \<Rightarrow> server \<Rightarrow> server \<Rightarrow> bool" where
  "bound_to_opened state s s' \<longleftrightarrow>
     (\<exists>i e t. srv_states s' = (srv_states s)(state \<mapsto> \<lparr>st_transactionId = i, st_expiresAt = e\<rparr>) \<and>
        w_transactions (srv_world s') i = Some t \<and> tx_state t = Some state)"

lemma opened_and_registered:
  assumes "createAuthzRequest X V v rt c rm query byref opts (srv_world s) = (Inr r, w)" and "ar_state opts = Some state"
    and "srv_states s state = Some rc" and "st_transactionId rc = []"
  shows "\<exists>s'. register_state state (cr_transactionId r) (s\<lparr>srv_world := w\<rparr>) = (Inr None, s') \<and> bound_to_opened state s s'"
proof -
  obtain t where t: "w_transactions w (cr_transactionId r) = Some t" "tx_state t = Some state"
    using createAuthzRequest_opens [OF assms(1)] assms(2) by auto
  show ?thesis
    using register_state_run [of "s\<lparr>srv_world := w\<rparr>" state rc "cr_transactionId r"] assms(3,4) t
    by (fastforce simp: bound_to_opened_def)
qed

lemma request_reserved_run:
  assumes "request_reserved X V baseUrl v c q state s = (x, s')"
    and "srv_states s state = Some rc" and "st_transactionId rc = []"
  shows "case x of Inr a \<Rightarrow> (\<exists>req. a = RequestText req (Some state)) \<and> bound_to_opened state s s'
    | Inl e \<Rightarrow> srv_states s' = (srv_states s)(state := None)"
proof -
  let ?o = "\<lparr>ar_state = Some state, ar_scope = None, ar_response_uri = Some (baseUrl @ ''/callback''), ar_base_url = Some baseUrl,
           ar_request_uri = None, ar_transaction_data = None\<rparr>"
  obtain y w where y: "createAuthzRequest X V v ''vp_token'' c ''direct_post'' q False ?o (srv_world s) = (y, w)" by fastforce
  show ?thesis
  proof (cases y)
    case (Inl e)
    then show ?thesis
      using assms(1) y by (auto simp: request_reserved_def bindM_run catchM_run thenM_run on_world_run throw_run consume_state_def
          on_states_run state_consume_def)
  next
    case (Inr r)
    obtain s2 where "register_state state (cr_transactionId r) (s\<lparr>srv_world := w\<rparr>) = (Inr None, s2)" "bound_to_opened state s s2"
      using opened_and_registered [OF y [unfolded Inr] _ assms(2,3)] by auto
    then show ?thesis
      using assms(1) y Inr by (auto simp: request_reserved_def bindM_run catchM_run on_world_run ret_run)
  qed
qed

lemma request_object_reserved_run:
  assumes "answer_errors (catchM (request_object_reserved X V baseUrl q) (\<lambda>e. thenM (consume_state (rs_state q)) (throw e))) s = (x, s')"
    and "srv_states s (rs_state q) = Some rc" and "st_transactionId rc = []"
  shows "(\<exists>req. x = Inr (RequestText req None) \<and> bound_to_opened (rs_state q) s s') \<or>
    (\<exists>e. x = Inr (Answer (error_response e)) \<and> srv_states s' = (srv_states s)(rs_state q := None))"
proof (cases "ClientId_parse X baseUrl")
  case (Inl e)
  then show ?thesis
    using assms(1) by (auto simp: request_object_reserved_def answer_errors_def bindM_run catchM_run thenM_run liftE_run throw_run
        consume_state_def on_states_run state_consume_def ret_run)
next
  case v: (Inr v)
  let ?o = "\<lparr>ar_state = Some (rs_state q), ar_scope = None,
        ar_response_uri = Some (getOr (baseUrl @ ''/callback'') (rs_response_uri q)), ar_base_url = Some baseUrl,
        ar_request_uri = Some (baseUrl @ ''/request.jwt''),
        ar_transaction_data = (if rs_is_transaction_data q then Some (''sample_type'', None) else None)\<rparr>"
  obtain y w where y: "createAuthzRequest X V v ''vp_token'' (rs_client_id q) ''direct_post'' (rs_query q) (rs_is_request_uri q) ?o
      (srv_world s) = (y, w)" by fastforce
  show ?thesis
  proof (cases y)
    case (Inl e)
    then show ?thesis
      using assms(1) y v
      by (auto simp: request_object_reserved_def answer_errors_def bindM_run catchM_run thenM_run liftE_run throw_run on_world_run
          consume_state_def on_states_run state_consume_def ret_run)
  next
    case (Inr r)
    obtain s2 where "register_state (rs_state q) (cr_transactionId r) (s\<lparr>srv_world := w\<rparr>) = (Inr None, s2)"
        "bound_to_opened (rs_state q) s s2"
      using opened_and_registered [OF y [unfolded Inr] _ assms(2,3)] by auto
    then show ?thesis
      using assms(1) y v Inr
      by (auto simp: request_object_reserved_def answer_errors_def bindM_run catchM_run liftE_run on_world_run ret_run)
  qed
qed

text \<open>What a request does to the bindings.\<close>

definition binds_or_drops :: "verify_answer \<Rightarrow> server \<Rightarrow> server \<Rightarrow> bool" where
  "binds_or_drops a s s' \<longleftrightarrow>
     (case a of
        RequestText req v \<Rightarrow>
          (\<exists>state rc t st. free_state (srv_states s) state \<and> only_dropped (srv_states s) st \<and>
             srv_states s' = st(state \<mapsto> rc) \<and>
             w_transactions (srv_world s') (st_transactionId rc) = Some t \<and> tx_state t = Some state)
      | Answer r \<Rightarrow> status r \<in> {400, 500} \<and> only_dropped (srv_states s) (srv_states s'))"

lemma bound_to_opened_binds:
  assumes "bound_to_opened state s1 s'" and "srv_states s1 = st(state \<mapsto> rc)"
    and "only_dropped (srv_states s) st" and "free_state (srv_states s) state"
  shows "binds_or_drops (RequestText req v) s s'"
  using assms unfolding binds_or_drops_def bound_to_opened_def by (fastforce simp del: fun_upd_apply)

lemma error_binds: "only_dropped (srv_states s) (srv_states s') \<Longrightarrow> binds_or_drops (Answer (error_response e)) s s'"
  using error_response_status [of e] by (auto simp: binds_or_drops_def)

lemma refused_binds:
  "only_dropped (srv_states s) (srv_states s') \<Longrightarrow> binds_or_drops (bad_request d) s s'"
  "only_dropped (srv_states s) (srv_states s') \<Longrightarrow> binds_or_drops (Answer (respond 400 b)) s s'"
  by (simp_all add: binds_or_drops_def bad_request_def refuse_def respond_def)

lemma on_world_keeps_states: "on_world m s = (x, s') \<Longrightarrow> srv_states s' = srv_states s"
  by (auto simp: on_world_run)

text \<open>
  A handler binds a state or none, whatever it answers. The rules follow the structure of the
  two handlers; between the reservation and the answer the state is settled.
\<close>

definition binding_handler :: "(server, verify_answer) M \<Rightarrow> bool" where
  "binding_handler m \<longleftrightarrow>
     (\<forall>s. case m s of
        (Inr a, s') \<Rightarrow> binds_or_drops a s s'
      | (Inl e, s') \<Rightarrow> only_dropped (srv_states s) (srv_states s'))"

definition settles_state :: "string \<Rightarrow> (server, verify_answer) M \<Rightarrow> bool" where
  "settles_state state m \<longleftrightarrow>
     (\<forall>s rc x s'. srv_states s state = Some rc \<and> st_transactionId rc = [] \<and> m s = (x, s') \<longrightarrow>
        (\<exists>req v. x = Inr (RequestText req v) \<and> bound_to_opened state s s') \<or>
        ((\<exists>e. x = Inl e \<or> x = Inr (Answer (error_response e))) \<and> srv_states s' = (srv_states s)(state := None)))"

lemma settles_request_reserved: "settles_state state (request_reserved X V baseUrl v c q state)"
proof (unfold settles_state_def, intro allI impI, elim conjE)
  fix s rc x s'
  assume "srv_states s state = Some rc" "st_transactionId rc = []" "request_reserved X V baseUrl v c q state s = (x, s')"
  from request_reserved_run [OF this(3,1,2)]
  show "(\<exists>req v. x = Inr (RequestText req v) \<and> bound_to_opened state s s') \<or>
        ((\<exists>e. x = Inl e \<or> x = Inr (Answer (error_response e))) \<and> srv_states s' = (srv_states s)(state := None))"
    by (cases x) auto
qed

lemma settles_request_object: 
  "settles_state (rs_state q) (answer_errors (catchM (request_object_reserved X V baseUrl q)
     (\<lambda>e. thenM (consume_state (rs_state q)) (throw e))))"
  unfolding settles_state_def using request_object_reserved_run by blast

lemma binding_bad_request: "binding_handler (ret (bad_request d))"
  by (simp add: binding_handler_def ret_run refused_binds)

lemma binding_liftE: "(\<And>y. binding_handler (f y)) \<Longrightarrow> binding_handler (bindM (liftE r) f)"
  by (cases r) (simp_all add: binding_handler_def bindM_run liftE_run)

lemma binding_on_world: "(\<And>y. binding_handler (f y)) \<Longrightarrow> binding_handler (bindM (on_world m) f)"
proof (unfold binding_handler_def, intro allI)
  fix s
  assume f: "\<And>y. \<forall>s. case f y s of (Inr a, s') \<Rightarrow> binds_or_drops a s s' | (Inl e, s') \<Rightarrow> only_dropped (srv_states s) (srv_states s')"
  obtain y s1 where y: "on_world m s = (y, s1)" by fastforce
  note eq = on_world_keeps_states [OF y]
  show "case bindM (on_world m) f s of (Inr a, s') \<Rightarrow> binds_or_drops a s s' | (Inl e, s') \<Rightarrow> only_dropped (srv_states s) (srv_states s')"
  proof (cases y)
    case (Inr v)
    then show ?thesis
      using f [of v, THEN spec, of s1] eq
      by (simp add: bindM_run y binds_or_drops_def split: prod.splits sum.splits verify_answer.splits)
  qed (simp add: bindM_run y eq)
qed

lemma binding_or_fresh:
  "(\<And>y. binding_handler (f y)) \<Longrightarrow>
     binding_handler (bindM (case v of None \<Rightarrow> on_world m | Some x \<Rightarrow> ret x) f)"
  by (cases v) (simp_all add: binding_on_world, simp add: binding_handler_def bindM_run ret_run)

lemma binding_option:
  "binding_handler m \<Longrightarrow> (\<And>x. binding_handler (f x)) \<Longrightarrow> binding_handler (case v of None \<Rightarrow> m | Some x \<Rightarrow> f x)"
  by (cases v) simp_all

lemma binding_errors: "binding_handler m \<Longrightarrow> binding_handler (answer_errors m)"
proof (unfold binding_handler_def, intro allI)
  fix s
  assume m: "\<forall>s. case m s of (Inr a, s') \<Rightarrow> binds_or_drops a s s' | (Inl e, s') \<Rightarrow> only_dropped (srv_states s) (srv_states s')"
  obtain x s' where x: "m s = (x, s')" by fastforce
  show "case answer_errors m s of (Inr a, s') \<Rightarrow> binds_or_drops a s s' | (Inl e, s') \<Rightarrow> only_dropped (srv_states s) (srv_states s')"
    using m [THEN spec, of s] error_binds by (cases x) (simp_all add: x answer_errors_def catchM_run ret_run)
qed

lemma binding_reserved:
  assumes "settles_state state m"
  shows "binding_handler (bindM (reserve_state state) (\<lambda>reserved. case reserved of
      Some e \<Rightarrow> ret (Answer (respond 400 e)) | None \<Rightarrow> m))"
proof (unfold binding_handler_def, intro allI)
  fix s
  let ?m = "bindM (reserve_state state) (\<lambda>reserved. case reserved of
      Some e \<Rightarrow> ret (Answer (respond 400 e)) | None \<Rightarrow> m)"
  show "case ?m s of (Inr a, s') \<Rightarrow> binds_or_drops a s s' | (Inl e, s') \<Rightarrow> only_dropped (srv_states s) (srv_states s')"
  proof (cases rule: reserve_state_run [of state s])
    case (granted st e c)
    let ?s1 = "s\<lparr>srv_world := (srv_world s)\<lparr>w_clk := c\<rparr>, srv_states := st(state \<mapsto> \<lparr>st_transactionId = [], st_expiresAt = e\<rparr>)\<rparr>"
    obtain x s' where m: "m ?s1 = (x, s')" by fastforce
    have run: "?m s = (x, s')" using granted(1) m by (simp add: bindM_run)
    consider req v where "x = Inr (RequestText req v)" "bound_to_opened state ?s1 s'"
      | e where "x = Inl e \<or> x = Inr (Answer (error_response e))" "srv_states s' = st(state := None)"
      using assms [unfolded settles_state_def, rule_format, of ?s1 "\<lparr>st_transactionId = [], st_expiresAt = e\<rparr>" x s'] m by auto
    then show ?thesis
    proof cases
      case 1
      then show ?thesis using bound_to_opened_binds [OF 1(2) _ granted(2,3)] by (simp add: run)
    next
      case 2
      then have "only_dropped (srv_states s) (srv_states s')" using granted(2) by simp
      with 2(1) error_binds [of s s'] show ?thesis by (auto simp: run)
    qed
  next
    case (refused st c)
    then show ?thesis using refused_binds(2) by (simp add: bindM_run ret_run)
  qed
qed

lemmas binding_rules = binding_errors binding_liftE binding_on_world binding_or_fresh binding_option binding_bad_request binding_reserved
  settles_request_reserved settles_request_object

lemma binding_request_route: "binding_handler (request_route X V baseUrl body)"
  unfolding request_route_def by (intro binding_rules)

lemma binding_request_object_route: "binding_handler (request_object_route X V parse_json baseUrl raw)"
  unfolding request_object_route_def Let_def
  by (intro binding_rules)


end
