(* ===== verification/Http_Examples.thy ===== *)
theory Http_Examples
  imports Http_Issuance Http_Verify_Safety Verifier_Examples
begin

text \<open>An exchange with the issuer's server, from the offer to the credential, and an answer to the verifier's, evaluated.\<close>

definition shop_ext :: ext where
  "shop_ext = ext_proof\<lparr>
     decode_json := (\<lambda>s. Some (JObj [(''alg'', JStr ''ES256''), (''iss'', JStr ''as'')])),
     jwtVerify := (\<lambda>now t k vo. Inr [(''aud'', JStr ''iss''), (''iat'', JNum (Fin 0))])\<rparr>"

definition shop :: issuer_server where
  "shop = \<lparr>is_ext = shop_ext, is_debug = False, is_dpop = default_dpop_options, is_proof = no_proof_options,
     is_identifier = \<lparr>ip_identifier = None\<rparr>, is_limit = 5, is_authz = ''as'', is_baseUrl = ''as''\<rparr>"

definition shop_world :: world where
  "shop_world = world0\<lparr>
     w_issuer_metadata := [''as'' \<mapsto> demo_issuer_metadata [(''a'', demo_plain_configuration)]],
     w_authz_metadata := [''as'' \<mapsto> demo_metadata\<lparr>pre_authorized_grant_anonymous_access_supported := Some True\<rparr>],
     w_issuer_keys := [''as'' \<mapsto> [demo_issuer_key]], w_authz_keys := [''as'' \<mapsto> [demo_key]]\<rparr>"

definition shop_requests :: "http_request list" where
  "shop_requests = [OfferRequest ''a'' NoOfferBody,
     TokenHttpRequest (Inr [(''grant_type'', JStr GrantType_PreAuthorizedCode), (''pre-authorized_code'', JStr ''0'')]) None]"

definition shop_body :: jsval where
  "shop_body = JObj [(''credential_configuration_id'', JStr ''a''), (''proofs'', JObj [(''jwt'', JArr [JStr ''h.p.s''])])]"

definition shop_answer :: "http_response \<times> world" where
  "shop_answer = serve shop (CredentialsRequest (Some ''Bearer e30.e30.sig'') None (Some shop_body))
     (snd (serve_all shop shop_requests ([], shop_world)))"

lemma shop_run: "\<exists>cs. http_body (fst shop_answer) = CredentialsBody cs"
proof -
  have "case http_body (fst shop_answer) of CredentialsBody cs \<Rightarrow> True | _ \<Rightarrow> False"
    by code_simp
  then show ?thesis by (simp split: http_body.splits)
qed

theorem credentials_need_offer_witness:
  "\<exists>h w t. serve_all shop shop_requests ([], shop_world) = (h, w) \<and> token_answered h t \<and>
     calculateAccessTokenHash shop_ext ''e30.e30.sig'' = calculateAccessTokenHash shop_ext (access_token t) \<and>
     offer_requested h ''a''"
proof -
  obtain h w where h: "serve_all shop shop_requests ([], shop_world) = (h, w)" by fastforce
  obtain r w' where r: "serve shop (CredentialsRequest (Some ''Bearer e30.e30.sig'') None (Some shop_body)) w = (r, w')" by fastforce
  obtain cs where cs: "http_body r = CredentialsBody cs"
    using shop_run by (auto simp: shop_answer_def h r)
  have w0: "w_pac shop_world = Map.empty" "w_allowed shop_world = Map.empty" by (simp_all add: shop_world_def world0_def)
  have "parseAuthorizationHeader (Some ''Bearer e30.e30.sig'') = HdrOk Bearer ''e30.e30.sig''" by code_simp
  moreover have "case CredentialRequest_parse (getOr JNull (Some shop_body)) of
      Inl e \<Rightarrow> False | Inr q \<Rightarrow> credential_configuration_id q = Some ''a''" by code_simp
  ultimately show ?thesis
    using credentials_need_offer [OF h w0 r cs] h by (auto simp: shop_def)
qed


subsection \<open>An answer of a wallet\<close>

definition sample_server :: server where
  "sample_server = \<lparr>srv_world = sample_world,
     srv_states = [''s1'' \<mapsto> \<lparr>st_transactionId = ''t1'', st_expiresAt = Fin 300000\<rparr>]\<rparr>"

definition sample_callback :: "(exn + verify_answer) \<times> server" where
  "sample_callback = callback_route sample_ext (sample_lib sample_tokens) sample_window
     (\<lambda>raw. Some (JObj [(''q1'', JArr [JStr ''vp''])])) ''https://v'' False
     (Some ''application/x-www-form-urlencoded; charset=UTF-8'') (Some [(''vp_token'', JStr ''{}''), (''state'', JStr ''s1'')])
     sample_server"

lemma sample_callback_run:
  "returns (\<lambda>a. case a of Answer r \<Rightarrow> status r = 200 | RequestText q v \<Rightarrow> False) sample_callback"
  by code_simp

theorem callback_sound_witness:
  "\<exists>a s'. sample_callback = (Inr a, s') \<and> w_transactions (srv_world s') ''t1'' = None \<and>
     fst (state_resolve 0 (Some ''s1'') (srv_states s')) = Inl unknown_state"
proof -
  obtain r s' where r: "sample_callback = (Inr (Answer r), s')" "status r = 200"
    using sample_callback_run by (rule returnsE) (auto split: verify_answer.splits)
  from callback_sound [OF r(1) [unfolded sample_callback_def] r(2), of 0]
  show ?thesis using r(1) by (auto simp: sample_server_def parseFormPayload_def filled_str_def Let_def split: if_splits option.splits)
qed

end
