(* ===== verification/Multi_Examples.thy ===== *)
theory Multi_Examples
  imports Multi_Safety Http_Examples
begin

text \<open>
  An exchange with a server of two tenants, evaluated: the offer of one issuer is redeemed at
  the authorization server of the other, and the token buys a credential of the other issuer.
\<close>

definition mall :: multi_server where
  "mall = \<lparr>ms_ext = shop_ext, ms_debug = False, ms_dpop = default_dpop_options, ms_proof = no_proof_options,
     ms_identifier = \<lparr>ip_identifier = None\<rparr>, ms_limit = 5, ms_baseUrl = ''m'', ms_keyPem = [], ms_certPem = []\<rparr>"

definition mall_world :: world where
  "mall_world = shop_world\<lparr>
     w_issuer_metadata := (w_issuer_metadata shop_world)(''other'' \<mapsto>
       (demo_issuer_metadata [(''a'', demo_plain_configuration)])\<lparr>credential_issuer := ''other''\<rparr>)\<rparr>"

definition mall_requests :: "multi_request list" where
  "mall_requests = [MultiOffer ''other'' ''a'',
     MultiToken ''as'' (Inr [(''grant_type'', JStr GrantType_PreAuthorizedCode), (''pre-authorized_code'', JStr ''0'')]) None]"

definition mall_history :: "multi_history \<times> world" where
  "mall_history = multi_serve_all mall mall_requests ([], mall_world)"

definition mall_credential_request :: multi_request where
  "mall_credential_request = MultiCredentials ''as'' (Some ''Bearer e30.e30.sig'') None (Inr shop_body)"

definition mall_answer :: "multi_answer \<times> world" where
  "mall_answer = multi_serve mall mall_credential_request (snd mall_history)"

lemma mall_run: "case fst mall_answer of Reply r \<Rightarrow> (case http_body r of CredentialsBody cs \<Rightarrow> True | _ \<Rightarrow> False) | OfferResponseText v \<Rightarrow> False"
  by code_simp

lemma mall_requests_kept: "map fst (fst mall_history) = mall_requests"
proof -
  have "map fst (fst (multi_serve_all S rqs (h, w))) = map fst h @ rqs" for S rqs h w
    by (induction rqs arbitrary: h w) (simp_all split: prod.split)
  then show ?thesis by (simp add: mall_history_def)
qed

text \<open>The tenant that returned a credential was never asked to offer it.\<close>

theorem offer_of_another_tenant:
  "\<exists>h w r cs. multi_serve_all mall mall_requests ([], mall_world) = (h, w) \<and>
     fst (multi_serve mall (MultiCredentials ''as'' (Some ''Bearer e30.e30.sig'') None (Inr shop_body)) w) = Reply r \<and>
     http_body r = CredentialsBody cs \<and> (\<forall>c a. (MultiOffer ''as'' c, a) \<notin> set h)"
proof -
  obtain h w where h: "multi_serve_all mall mall_requests ([], mall_world) = (h, w)" by fastforce
  have "map fst h = mall_requests" using mall_requests_kept by (simp only: mall_history_def h fst_conv)
  from arg_cong [OF this, of set] have k: "fst ` set h = {MultiOffer ''other'' ''a'', mall_requests ! 1}"
    by (simp add: mall_requests_def)
  have "(MultiOffer ''as'' c, a) \<notin> set h" for c a
  proof
    assume "(MultiOffer ''as'' c, a) \<in> set h"
    then have "MultiOffer ''as'' c \<in> fst ` set h" by (rule image_eqI [rotated]) simp
    then show False unfolding k by (simp add: mall_requests_def)
  qed
  moreover obtain r cs where "fst mall_answer = Reply r" "http_body r = CredentialsBody cs"
    using mall_run by (auto split: multi_answer.splits http_body.splits)
  moreover have "mall_answer = multi_serve mall (MultiCredentials ''as'' (Some ''Bearer e30.e30.sig'') None (Inr shop_body)) w"
    by (simp only: mall_answer_def mall_credential_request_def mall_history_def h snd_conv)
  ultimately show ?thesis using h by metis
qed

theorem tenant_credentials_need_offer_witness:
  "\<exists>h w t. multi_serve_all mall mall_requests ([], mall_world) = (h, w) \<and> multi_token_answered h t \<and>
     calculateAccessTokenHash shop_ext ''e30.e30.sig'' = calculateAccessTokenHash shop_ext (access_token t) \<and>
     multi_offered h ''a''"
proof -
  obtain h w where h: "multi_serve_all mall mall_requests ([], mall_world) = (h, w)" by fastforce
  obtain r cs where r: "fst mall_answer = Reply r" "http_body r = CredentialsBody cs"
    using mall_run by (auto split: multi_answer.splits http_body.splits)
  obtain w' where "mall_answer = (Reply r, w')" using r(1) by (metis prod.collapse)
  then have a: "multi_serve mall (MultiCredentials ''as'' (Some ''Bearer e30.e30.sig'') None (Inr shop_body)) w = (Reply r, w')"
    by (simp only: mall_answer_def mall_credential_request_def mall_history_def h snd_conv)
  have w0: "w_pac mall_world = Map.empty" "w_allowed mall_world = Map.empty"
    by (simp_all add: mall_world_def shop_world_def world0_def)
  have "parseAuthorizationHeader (Some ''Bearer e30.e30.sig'') = HdrOk Bearer ''e30.e30.sig''" by code_simp
  moreover have "case CredentialRequest_parse shop_body of Inl e \<Rightarrow> False | Inr q \<Rightarrow> credential_configuration_id q = Some ''a''"
    by code_simp
  ultimately show ?thesis
    using tenant_credentials_need_offer [OF h w0 a r(2)] h by (auto simp: mall_def)
qed

end
