(* ===== verification/Startup.thy ===== *)
theory Startup
  imports Verifier_Examples Issuer_Safety
begin

text \<open>
  The start of the server (\<open>main\<close> and the \<open>initialize\<close> functions of \<open>server/core/src/server.ts\<close>):
  the samples are registered unless the stores already have them. What a second start does on
  the stores that a first one left.
\<close>

subsection \<open>The steps\<close>

text \<open>The parsed samples, and the texts of the key and of the certificate or the errors of reading them.\<close>

record server_config =
  cfg_issuer :: CredentialIssuerMetadata
  cfg_authz :: AuthorizationServerMetadata
  cfg_policy :: AuthzOAuthPolicy
  cfg_clients :: "AuthzOAuthClient list"
  cfg_verifier :: VerifierMetadata
  cfg_key :: "exn + string"
  cfg_certificate :: "exn + string"
  cfg_debug :: bool
  cfg_gens :: "string list"
  cfg_order :: "string list \<Rightarrow> string list"

text \<open>Every step answers whether it succeeded; its errors are logged.\<close>

definition succeeded :: "('w, unit) M \<Rightarrow> ('w, bool) M" where
  "succeeded m = catchM (thenM m (ret True)) (\<lambda>e. ret False)"

definition unless_found :: "('w, 'm option) M \<Rightarrow> ('w, unit) M \<Rightarrow> ('w, unit) M" where
  "unless_found lookup create = bindM lookup (\<lambda>current. if current \<noteq> None then ret () else create)"

definition initializeIssuerMetadata :: "ext \<Rightarrow> server_config \<Rightarrow> CredentialIssuerMetadata \<Rightarrow> (world, bool) M" where
  "initializeIssuerMetadata X C m =
     succeeded (unless_found (findIssuerMetadata X (cfg_debug C) (credential_issuer m))
       (createIssuerMetadata X (cfg_debug C) (cfg_gens C) (cfg_order C) m))"

definition initializeAuthzMetadata :: "ext \<Rightarrow> AuthorizationServerMetadata \<Rightarrow> (world, bool) M" where
  "initializeAuthzMetadata X m =
     succeeded (unless_found (findAuthzServerMetadata (as_issuer m)) (createAuthzServerMetadata X m None))"

definition initializeAuthzOAuthPolicy :: "string \<Rightarrow> AuthzOAuthPolicy \<Rightarrow> (world, bool) M" where
  "initializeAuthzOAuthPolicy authz policy =
     succeeded (unless_found (findAuthzOAuthPolicy authz) (createAuthzOAuthPolicy authz policy))"

definition initializeAuthzOAuthClients :: "string \<Rightarrow> AuthzOAuthClient list \<Rightarrow> (world, bool) M" where
  "initializeAuthzOAuthClients authz clients =
     succeeded (forM clients (\<lambda>c.
       unless_found (findAuthzOAuthClient authz (client_id c)) (createAuthzOAuthClient authz c)))"

definition initializeVerifierMetadata :: "ext \<Rightarrow> server_config \<Rightarrow> string \<Rightarrow> (world, bool) M" where
  "initializeVerifierMetadata X C verifierId =
     succeeded
       (bindM (liftE (case zod_url X verifierId of None \<Rightarrow> Inl zod_error | Some v \<Rightarrow> Inr v)) (\<lambda>clientId.
        unless_found (findVerifierMetadata clientId)
          (bindM (findVerifierCertificate clientId) (\<lambda>verifierCertificate.
           if verifierCertificate \<noteq> [] then ret ()
           else bindM (liftE (cfg_key C)) (\<lambda>key.
                bindM (liftE (cfg_certificate C)) (\<lambda>certificate.
                createVerifierMetadata X clientId (metadata_json (cfg_verifier C))
                  (Some \<lparr>cv_format = PemFormat, cv_alg = ''ES256'', cv_kid = None, cv_encryptionKeyAlg = None,
                     cv_privateKey = Pem key, cv_publicKey = None, cv_certificate = Some [certificate]\<rparr>)))))))"

definition required_step :: "('w, bool) M \<Rightarrow> ('w, unit) M" where
  "required_step m = bindM m (\<lambda>ok. if ok then ret () else throw (JsError ''Failed to initialize''))"

definition issuer_at :: "string \<Rightarrow> string \<Rightarrow> CredentialIssuerMetadata \<Rightarrow> CredentialIssuerMetadata" where
  "issuer_at baseUrl issuer m = m\<lparr>credential_issuer := issuer, authorization_servers := Some [baseUrl],
     credential_endpoint := baseUrl @ ''/credentials'',
     deferred_credential_endpoint := Some (baseUrl @ ''/deferred_credential''),
     nonce_endpoint := Some (baseUrl @ ''/nonce'')\<rparr>"

definition authz_at :: "string \<Rightarrow> string \<Rightarrow> AuthorizationServerMetadata \<Rightarrow> AuthorizationServerMetadata" where
  "authz_at baseUrl issuer m = m\<lparr>as_issuer := issuer, authorization_endpoint := baseUrl @ ''/authorize'',
     token_endpoint := baseUrl @ ''/token''\<rparr>"

definition base_issuer :: "ext \<Rightarrow> string \<Rightarrow> (world, string) M" where
  "base_issuer X baseUrl = liftE (case zod_url X baseUrl of None \<Rightarrow> Inl zod_error | Some v \<Rightarrow> Inr v)"

text \<open>\<open>main\<close>, up to the call of \<open>serve\<close>.\<close>

definition server_main :: "ext \<Rightarrow> server_config \<Rightarrow> string \<Rightarrow> (world, unit) M" where
  "server_main X C baseUrl =
     thenM (required_step (initializeVerifierMetadata X C baseUrl))
     (bindM (base_issuer X baseUrl) (\<lambda>issuer.
     thenM (required_step (initializeIssuerMetadata X C (issuer_at baseUrl issuer (cfg_issuer C))))
     (bindM (base_issuer X baseUrl) (\<lambda>authz.
     thenM (required_step (initializeAuthzMetadata X (authz_at baseUrl authz (cfg_authz C))))
     (thenM (required_step (initializeAuthzOAuthPolicy authz (cfg_policy C)))
     (required_step (initializeAuthzOAuthClients authz (cfg_clients C))))))))"

subsection \<open>Every step\<close>

lemma required_succeeded_Inr: "required_step (succeeded m) w = (Inr u, w') \<longleftrightarrow> m w = (Inr (), w')"
  by (cases "m w"; cases "fst (m w)") (auto simp: required_step_def succeeded_def run_simps)

lemma preserves_required: "preserves p m \<Longrightarrow> preserves p (required_step (succeeded m))"
  unfolding required_step_def succeeded_def by (intro preserves_intros)

lemma preserves_unless: "preserves p f \<Longrightarrow> preserves p c \<Longrightarrow> preserves p (unless_found f c)"
  unfolding unless_found_def by (intro preserves_intros)

definition verifier_settled :: "string \<Rightarrow> world \<Rightarrow> bool" where
  "verifier_settled v w \<longleftrightarrow> w_verifier_metadata w v \<noteq> None \<or> getOr [] (w_certificates w v) \<noteq> []"

definition issuer_settled :: "ext \<Rightarrow> bool \<Rightarrow> string \<Rightarrow> world \<Rightarrow> bool" where
  "issuer_settled X debug i w \<longleftrightarrow>
     (\<exists>m. w_issuer_metadata w i = Some m \<and> rejectInsecureIssuerMetadata X debug (Some m) = Inr ())"

lemma verifier_step:
  assumes "required_step (initializeVerifierMetadata X C baseUrl) w = (Inr u, w')"
  shows "\<exists>v. zod_url X baseUrl = Some v \<and> verifier_settled v w'"
  using assms
  by (auto simp: initializeVerifierMetadata_def required_succeeded_Inr unless_found_def bindM_Inr liftE_Inr findVerifierMetadata_def
      findVerifierCertificate_def on_verifier_metadata_def on_certificates_def verifier_metadata_fetch_def certificate_fetch_def
      zoom_run verifier_settled_def ret_Inr save_registration_def thenM_def verifier_metadata_save_def
      dest!: createVerifierMetadata_Inr split: if_splits option.splits)

lemma verifier_step_again:
  assumes "zod_url X baseUrl = Some v" and "verifier_settled v w"
  shows "required_step (initializeVerifierMetadata X C baseUrl) w = (Inr (), w)"
  using assms(2)
  by (auto simp: initializeVerifierMetadata_def required_succeeded_Inr unless_found_def run_simps assms(1) findVerifierMetadata_def
      findVerifierCertificate_def on_verifier_metadata_def on_certificates_def verifier_metadata_fetch_def certificate_fetch_def
      verifier_settled_def)

lemma issuer_step:
  assumes "required_step (initializeIssuerMetadata X C m) w = (Inr u, w')"
  shows "issuer_settled X (cfg_debug C) (credential_issuer m) w'"
  using assms
  by (auto simp: initializeIssuerMetadata_def required_succeeded_Inr unless_found_def bindM_Inr liftE_Inr findIssuerMetadata_def
      on_issuer_metadata_def issuer_metadata_fetch_def zoom_run issuer_settled_def ret_Inr thenM_def createIssuerMetadata_def
      issuer_metadata_save_def raise_Inr throw_run
      split: if_splits option.splits)

lemma issuer_step_again:
  assumes "issuer_settled X (cfg_debug C) (credential_issuer m) w"
  shows "required_step (initializeIssuerMetadata X C m) w = (Inr (), w)"
  using assms
  by (auto simp: initializeIssuerMetadata_def required_succeeded_Inr unless_found_def run_simps findIssuerMetadata_def
      on_issuer_metadata_def issuer_metadata_fetch_def issuer_settled_def)

lemma authz_step:
  assumes "required_step (initializeAuthzMetadata X m) w = (Inr u, w')"
  shows "w_authz_metadata w' (as_issuer m) \<noteq> None"
  using assms
  by (auto simp: initializeAuthzMetadata_def required_succeeded_Inr unless_found_def bindM_Inr findAuthzServerMetadata_def
      on_authz_metadata_def authz_metadata_fetch_def zoom_run ret_Inr thenM_def createAuthzServerMetadata_def
      authz_metadata_save_def raise_Inr Let_def split: if_splits)

lemma authz_step_again:
  assumes "w_authz_metadata w (as_issuer m) \<noteq> None"
  shows "required_step (initializeAuthzMetadata X m) w = (Inr (), w)"
  using assms
  by (auto simp: initializeAuthzMetadata_def required_succeeded_Inr unless_found_def run_simps findAuthzServerMetadata_def
      on_authz_metadata_def authz_metadata_fetch_def)

lemma policy_step:
  assumes "required_step (initializeAuthzOAuthPolicy authz policy) w = (Inr u, w')"
  shows "w_policies w' authz \<noteq> None"
  using assms
  by (auto simp: initializeAuthzOAuthPolicy_def required_succeeded_Inr unless_found_def bindM_Inr findAuthzOAuthPolicy_def
      on_policies_def authz_policy_fetch_def zoom_run ret_Inr createAuthzOAuthPolicy_def authz_policy_save_def split: if_splits)

lemma policy_step_again:
  assumes "w_policies w authz \<noteq> None"
  shows "required_step (initializeAuthzOAuthPolicy authz policy) w = (Inr (), w)"
  using assms
  by (auto simp: initializeAuthzOAuthPolicy_def required_succeeded_Inr unless_found_def run_simps findAuthzOAuthPolicy_def
      on_policies_def authz_policy_fetch_def)

subsection \<open>Clients\<close>

text \<open>What the entry of one client becomes: a visible one stays, any other is overwritten.\<close>

definition entry_after :: "AuthzOAuthClient option \<Rightarrow> AuthzOAuthClient \<Rightarrow> AuthzOAuthClient option" where
  "entry_after v c = (if pred_option client_visible v \<and> v \<noteq> None then v else Some c)"

fun clients_after :: "string \<Rightarrow> AuthzOAuthClient list \<Rightarrow> oauth_client_store \<Rightarrow> oauth_client_store" where
  "clients_after authz [] st = st"
| "clients_after authz (c # cs) st =
     (let k = oauth_client_key authz (client_id c) in clients_after authz cs (st(k := entry_after (st k) c)))"

lemma clients_step:
  "forM cs (\<lambda>c. unless_found (findAuthzOAuthClient authz (client_id c)) (createAuthzOAuthClient authz c)) w =
     (Inr (), w\<lparr>w_clients := clients_after authz cs (w_clients w)\<rparr>)"
proof (induction cs arbitrary: w)
  case (Cons c cs)
  let ?k = "oauth_client_key authz (client_id c)"
  have "unless_found (findAuthzOAuthClient authz (client_id c)) (createAuthzOAuthClient authz c) w =
      (Inr (), w\<lparr>w_clients := (w_clients w)(?k := entry_after (w_clients w ?k) c)\<rparr>)"
    by (auto simp: unless_found_def run_simps findAuthzOAuthClient_def createAuthzOAuthClient_def on_clients_def oauth_client_fetch_def
        oauth_client_save_def oauth_client_lookup_def entry_after_def client_visible_def fun_upd_idem split: option.splits)
  with Cons show ?case by (simp add: run_simps Let_def)
qed (simp add: run_simps)

lemma clients_after_key:
  "clients_after authz cs st k = foldl entry_after (st k) (filter (\<lambda>c. oauth_client_key authz (client_id c) = k) cs)"
  by (induction cs arbitrary: st) (auto simp: Let_def)

lemma entry_after_visible: "v \<noteq> None \<Longrightarrow> pred_option client_visible v \<Longrightarrow> foldl entry_after v cs = v"
  by (induction cs) (simp_all add: entry_after_def)

lemma entry_after_idem: "foldl entry_after (foldl entry_after v cs) cs = foldl entry_after v cs"
proof (cases "foldl entry_after v cs \<noteq> None \<and> pred_option client_visible (foldl entry_after v cs)")
  case True
  then show ?thesis by (intro entry_after_visible) auto
next
  case False
  have "foldl entry_after u cs = foldl entry_after v cs" if "\<not> (u \<noteq> None \<and> pred_option client_visible u)" "cs \<noteq> []" for u
    using that False
  proof (induction cs arbitrary: u v)
    case (Cons c cs)
    have "\<not> (v \<noteq> None \<and> pred_option client_visible v)" using Cons.prems(3) entry_after_visible by metis
    with Cons.prems(1) show ?case by (auto simp: entry_after_def)
  qed simp
  with False show ?thesis by (cases "cs = []") auto
qed

lemma clients_after_idem: "clients_after authz cs (clients_after authz cs st) = clients_after authz cs st"
  by (rule ext) (simp add: clients_after_key entry_after_idem)

subsection \<open>The start as a whole\<close>

definition verifier_tables :: "world \<Rightarrow> verifier_metadata_store \<times> certificate_store" where
  "verifier_tables w = (w_verifier_metadata w, w_certificates w)"

lemma verifier_settled_cong: "verifier_tables w' = verifier_tables w \<Longrightarrow> verifier_settled v w' = verifier_settled v w"
  by (simp add: verifier_tables_def verifier_settled_def)

lemma issuer_settled_cong: "w_issuer_metadata w' = w_issuer_metadata w \<Longrightarrow> issuer_settled X d i w' = issuer_settled X d i w"
  by (simp add: issuer_settled_def)

lemma preserves_finish_saves:
  "(\<And>w st. p (w\<lparr>w_rnd := st\<rparr>) = p w) \<Longrightarrow> (\<And>w st. p (w\<lparr>w_issuer_keys := st\<rparr>) = p w) \<Longrightarrow>
   preserves p (finish_saves X gens who current algs)"
  by (induction algs) (auto intro!: preserves_intros)

lemma preserves_issuer_step: "preserves verifier_tables (required_step (initializeIssuerMetadata X C m))"
  unfolding initializeIssuerMetadata_def findIssuerMetadata_def createIssuerMetadata_def
  by (intro preserves_required preserves_unless preserves_intros preserves_finish_saves; simp add: verifier_tables_def)

lemma preserves_authz_step:
  "preserves verifier_tables (required_step (initializeAuthzMetadata X am))"
  "preserves w_issuer_metadata (required_step (initializeAuthzMetadata X am))"
  unfolding initializeAuthzMetadata_def findAuthzServerMetadata_def createAuthzServerMetadata_def Let_def
  by (intro preserves_required preserves_unless preserves_intros; simp add: verifier_tables_def)+

lemma preserves_policy_step:
  "preserves verifier_tables (required_step (initializeAuthzOAuthPolicy a q))"
  "preserves w_issuer_metadata (required_step (initializeAuthzOAuthPolicy a q))"
  "preserves w_authz_metadata (required_step (initializeAuthzOAuthPolicy a q))"
  unfolding initializeAuthzOAuthPolicy_def findAuthzOAuthPolicy_def createAuthzOAuthPolicy_def
  by (intro preserves_required preserves_unless preserves_intros; simp add: verifier_tables_def)+

text \<open>What a start establishes.\<close>

definition started :: "ext \<Rightarrow> server_config \<Rightarrow> string \<Rightarrow> world \<Rightarrow> bool" where
  "started X C baseUrl w \<longleftrightarrow>
     (\<exists>i. zod_url X baseUrl = Some i \<and> verifier_settled i w \<and> issuer_settled X (cfg_debug C) i w \<and>
        w_authz_metadata w i \<noteq> None \<and> w_policies w i \<noteq> None \<and>
        clients_after i (cfg_clients C) (w_clients w) = w_clients w)"

lemma clients_required:
  "required_step (initializeAuthzOAuthClients authz cs) w = (Inr (), w\<lparr>w_clients := clients_after authz cs (w_clients w)\<rparr>)"
  by (simp add: initializeAuthzOAuthClients_def required_succeeded_Inr clients_step)

lemma server_main_started:
  assumes "server_main X C baseUrl w = (Inr (), w')"
  shows "started X C baseUrl w'"
proof -
  obtain i w1 w2 w3 w4 where run: "zod_url X baseUrl = Some i"
      "required_step (initializeVerifierMetadata X C baseUrl) w = (Inr (), w1)"
      "required_step (initializeIssuerMetadata X C (issuer_at baseUrl i (cfg_issuer C))) w1 = (Inr (), w2)"
      "required_step (initializeAuthzMetadata X (authz_at baseUrl i (cfg_authz C))) w2 = (Inr (), w3)"
      "required_step (initializeAuthzOAuthPolicy i (cfg_policy C)) w3 = (Inr (), w4)"
      "w' = w4\<lparr>w_clients := clients_after i (cfg_clients C) (w_clients w4)\<rparr>"
    using assms
    by (auto simp: server_main_def thenM_def bindM_Inr base_issuer_def liftE_Inr clients_required split: option.splits)
  have "verifier_settled i w1" using verifier_step [OF run(2)] run(1) by auto
  moreover have "verifier_tables w4 = verifier_tables w1"
    using preservesD [OF preserves_issuer_step run(3)] preservesD [OF preserves_authz_step(1) run(4)]
      preservesD [OF preserves_policy_step(1) run(5)] by simp
  moreover have "issuer_settled X (cfg_debug C) i w2" using issuer_step [OF run(3)] by (simp add: issuer_at_def)
  moreover have "w_issuer_metadata w4 = w_issuer_metadata w2"
    using preservesD [OF preserves_authz_step(2) run(4)] preservesD [OF preserves_policy_step(2) run(5)] by simp
  moreover have "w_authz_metadata w3 i \<noteq> None" using authz_step [OF run(4)] by (simp add: authz_at_def)
  moreover have "w_authz_metadata w4 = w_authz_metadata w3" using preservesD [OF preserves_policy_step(3) run(5)] .
  moreover have "w_policies w4 i \<noteq> None" using policy_step [OF run(5)] .
  ultimately show ?thesis
    unfolding started_def run(6)
    using verifier_settled_cong [of w4 w1 i] issuer_settled_cong [of w4 w2 X "cfg_debug C" i]
    by (auto simp: run(1) clients_after_idem verifier_settled_def issuer_settled_def)
qed

lemma server_main_again: "started X C baseUrl w \<Longrightarrow> server_main X C baseUrl w = (Inr (), w)"
  by (auto simp: started_def server_main_def run_simps base_issuer_def clients_required
      verifier_step_again issuer_step_again authz_step_again policy_step_again issuer_at_def authz_at_def)


definition sample_verifier :: VerifierMetadata where
  "sample_verifier = \<lparr>redirect_uris = None, vm_token_endpoint_auth_method = None, vm_grant_types = None, vm_client_name = Some ''v'',
     vm_client_uri = None, vm_logo_uri = None, vm_scope = None, contacts = None, tos_uri = None, policy_uri = None,
     vm_jwks_uri = None, vm_jwks = None, software_id = None, software_version = None, vm_response_types = None,
     encrypted_response_enc_values_supported = None, vp_formats_supported = []\<rparr>"

definition registered_world :: world where
  "registered_world = world0\<lparr>w_verifier_metadata := [''as'' \<mapsto> sample_verifier]\<rparr>"

definition sample_config :: server_config where
  "sample_config = \<lparr>cfg_issuer = demo_issuer_metadata [(''a'', demo_plain_configuration)], cfg_authz = demo_metadata,
     cfg_policy = \<lparr>default_client = None, anonymous_client = None\<rparr>, cfg_clients = [demo_client, demo_client\<lparr>client_id := ''d'', client_enabled := Some False\<rparr>],
     cfg_verifier = sample_verifier, cfg_key = Inl (JsError ''Error''), cfg_certificate = Inl (JsError ''Error''), cfg_debug = True,
     cfg_gens = [''ES256''], cfg_order = (\<lambda>xs. xs)\<rparr>"

lemma sample_start: "returns (\<lambda>u. True) (server_main sample_ext sample_config ''as'' registered_world)"
  by code_simp


subsection \<open>What a start does not repair\<close>

text \<open>A verifier with a certificate and no metadata counts as initialized.\<close>

lemma certificate_hides_missing_metadata:
  assumes "zod_url X baseUrl = Some v" and "w_verifier_metadata w v = None" and "getOr [] (w_certificates w v) \<noteq> []"
  shows "initializeVerifierMetadata X C baseUrl w = (Inr True, w)"
  using assms(2,3)
  by (simp add: initializeVerifierMetadata_def succeeded_def unless_found_def run_simps assms(1) findVerifierMetadata_def
      findVerifierCertificate_def on_verifier_metadata_def on_certificates_def verifier_metadata_fetch_def certificate_fetch_def)

text \<open>A client of the sample that was disabled is enabled again by the next start.\<close>

lemma disabled_client_restored:
  assumes "w_clients w (oauth_client_key authz (client_id c)) = Some old" and "client_enabled old = Some False"
  shows "initializeAuthzOAuthClients authz [c] w =
    (Inr True, w\<lparr>w_clients := (w_clients w)(oauth_client_key authz (client_id c) \<mapsto> c)\<rparr>)"
  using clients_step [of "[c]" authz w] assms
  by (simp add: initializeAuthzOAuthClients_def succeeded_def run_simps entry_after_def client_visible_def)

end
