(* ===== verification/Secret_Stores.thy ===== *)
theory Secret_Stores
  imports Verifier_Metadata Gcp_Kms
begin

text \<open>
  The certificates of verifiers in AWS Secrets Manager and in Google Cloud Secret Manager
  (\<open>aws/src/providers/secrets-manager-verifier-certificate-store.provider.ts\<close>,
  \<open>google-cloud/src/providers/secret-manager-verifier-certificate-store.provider.ts\<close>) as programs of
  requests, and that they answer as the store in memory.
\<close>

subsection \<open>Reading and writing certificates\<close>

text \<open>\<open>JSON.stringify\<close>, \<open>JSON.parse\<close> and MD5 are parameters.\<close>

record secret_lib =
  to_json :: "jsval \<Rightarrow> string"
  of_json :: "string \<Rightarrow> exn + jsval"
  md5_hex :: "string \<Rightarrow> string"
  md5_base64url :: "string \<Rightarrow> string"

text \<open>\<open>certificateSchema.parse\<close> of a JSON value.\<close>

definition certificates_of :: "jsval \<Rightarrow> exn + string list" where
  "certificates_of v = (case strings_of (Some v) of None \<Rightarrow> Inl zod_error | Some cs \<Rightarrow> Certificate_parse cs)"

definition read_certificates :: "secret_lib \<Rightarrow> string \<Rightarrow> exn + string list" where
  "read_certificates L raw =
     (if raw = [] then Inr []
      else case of_json L raw of Inl e \<Rightarrow> Inl e | Inr v \<Rightarrow> certificates_of v)"

subsection \<open>AWS Secrets Manager\<close>

datatype sm_command = GetSecretValue string | CreateSecret string string | PutSecretValue string string

text \<open>The string of a secret, and the text of its bytes.\<close>

datatype sm_result = SecretValue "string option" "string option" | SecretStored

type_synonym 'a sm_program = "(sm_command, sm_result, 'a) program"

definition isSecretsManagerError :: "exn \<Rightarrow> string \<Rightarrow> bool" where
  "isSecretsManagerError e name \<longleftrightarrow> e = JsError name"

definition secretName :: "secret_lib \<Rightarrow> string \<Rightarrow> string \<Rightarrow> string" where
  "secretName L pre verifier = pre @ ''/'' @ md5_hex L verifier"

definition secret_text :: "sm_result \<Rightarrow> string" where
  "secret_text r = (case r of SecretValue (Some t) b \<Rightarrow> t | SecretValue None b \<Rightarrow> getOr [] b | SecretStored \<Rightarrow> [])"

definition sm_loadCertificate :: "secret_lib \<Rightarrow> string \<Rightarrow> string \<Rightarrow> string list sm_program" where
  "sm_loadCertificate L pre verifier =
     (let failed = raiseP ''internal_server_error'' ''Failed to load verifier certificate from Secrets Manager.'' in
      request_catch (GetSecretValue (secretName L pre verifier))
        (\<lambda>e. if isSecretsManagerError e ''ResourceNotFoundException'' then retP [] else failed)
        (\<lambda>r. case read_certificates L (secret_text r) of
             Inr cs \<Rightarrow> retP cs
           | Inl e \<Rightarrow> if isSecretsManagerError e ''ResourceNotFoundException'' then retP [] else failed))"

definition sm_save :: "secret_lib \<Rightarrow> string \<Rightarrow> string \<Rightarrow> string list \<Rightarrow> unit sm_program" where
  "sm_save L pre verifier cert =
     bindP (liftP (Certificate_parse cert)) (\<lambda>validatedCert.
       let name = secretName L pre verifier; secretString = to_json L (JStrs validatedCert) in
       request_catch (CreateSecret name secretString)
         (\<lambda>e. if isSecretsManagerError e ''InvalidRequestException'' then
                raiseP ''internal_server_error'' ''Failed to create verifier certificate secret. It may be scheduled for deletion''
              else if \<not> isSecretsManagerError e ''ResourceExistsException'' then
                raiseP ''internal_server_error'' ''Failed to create verifier certificate secret in Secrets Manager.''
              else
                request_catch (PutSecretValue name secretString)
                  (\<lambda>_. raiseP ''internal_server_error'' ''Failed to store verifier certificate in Secrets Manager.'')
                  (\<lambda>_. retP ()))
         (\<lambda>_. retP ()))"

definition sm_fetch :: "secret_lib \<Rightarrow> string \<Rightarrow> string \<Rightarrow> string list sm_program" where
  "sm_fetch L pre verifier = bindP (sm_loadCertificate L pre verifier) (\<lambda>cert. retP (map strip_pem cert))"

subsection \<open>Google Cloud Secret Manager\<close>

datatype gs_command = AccessVersion string | CreateSecretIn string string | AddSecretVersion string string

datatype gs_result = VersionData "string option" | SecretDone

type_synonym 'a gs_program = "(gs_command, gs_result, 'a) program"

text \<open>The names of the project and of a secret of it, built by the client library.\<close>

record gs_names =
  projectPath :: string
  secretPath :: "string \<Rightarrow> string"

definition getSecretId :: "secret_lib \<Rightarrow> string \<Rightarrow> string \<Rightarrow> string" where
  "getSecretId L pre verifier = pre @ ''-'' @ md5_base64url L verifier"

definition decodeSecretData :: "gs_result \<Rightarrow> string" where
  "decodeSecretData r = (case r of VersionData (Some t) \<Rightarrow> t | _ \<Rightarrow> [])"

definition isGoogleApiError :: "exn \<Rightarrow> int \<Rightarrow> bool" where
  "isGoogleApiError e c \<longleftrightarrow> grpcCode e = Some c"

definition gs_loadCertificate :: "secret_lib \<Rightarrow> gs_names \<Rightarrow> string \<Rightarrow> string \<Rightarrow> string list gs_program" where
  "gs_loadCertificate L N pre verifier =
     (let failed = raiseP ''internal_server_error'' ''Failed to load verifier certificate from Secret Manager.'' in
      request_catch (AccessVersion (secretPath N (getSecretId L pre verifier) @ ''/versions/latest''))
        (\<lambda>e. if isGoogleApiError e 5 then retP [] else failed)
        (\<lambda>r. case read_certificates L (decodeSecretData r) of
             Inr cs \<Rightarrow> retP cs
           | Inl e \<Rightarrow> if isGoogleApiError e 5 then retP [] else failed))"

definition gs_fetch :: "secret_lib \<Rightarrow> gs_names \<Rightarrow> string \<Rightarrow> string \<Rightarrow> string list gs_program" where
  "gs_fetch L N pre verifier = bindP (gs_loadCertificate L N pre verifier) (\<lambda>cert. retP (map strip_pem cert))"

definition gs_save :: "secret_lib \<Rightarrow> gs_names \<Rightarrow> string \<Rightarrow> string \<Rightarrow> string list \<Rightarrow> unit gs_program" where
  "gs_save L N pre verifier cert =
     bindP (liftP (Certificate_parse cert)) (\<lambda>validatedCert.
       let secretId = getSecretId L pre verifier;
           add = request_catch (AddSecretVersion (secretPath N secretId) (to_json L (JStrs validatedCert)))
             (\<lambda>_. raiseP ''internal_server_error'' ''Failed to store verifier certificate in Secret Manager.'')
             (\<lambda>_. retP ()) in
       request_catch (CreateSecretIn (projectPath N) secretId)
         (\<lambda>e. if \<not> isGoogleApiError e 6 then
                raiseP ''internal_server_error'' ''Failed to create verifier certificate secret in Secret Manager.''
              else add)
         (\<lambda>_. add))"

subsection \<open>The services\<close>

text \<open>What the documentations say of the requests: a secret has a name and a value, or versions.\<close>

fun sm_documented :: "sm_command \<Rightarrow> (string \<Rightarrow> string option) \<Rightarrow> (exn + sm_result) \<times> (string \<Rightarrow> string option)" where
  "sm_documented (GetSecretValue n) m =
     ((case m n of None \<Rightarrow> Inl (JsError ''ResourceNotFoundException'') | Some t \<Rightarrow> Inr (SecretValue (Some t) None)), m)"
| "sm_documented (CreateSecret n t) m =
     (if m n = None then (Inr SecretStored, m(n \<mapsto> t)) else (Inl (JsError ''ResourceExistsException''), m))"
| "sm_documented (PutSecretValue n t) m =
     (if m n = None then (Inl (JsError ''ResourceNotFoundException''), m) else (Inr SecretStored, m(n \<mapsto> t)))"

definition secret_of_version :: "string \<Rightarrow> string option" where
  "secret_of_version n =
     (let k = length n - length ''/versions/latest'' in
      if length ''/versions/latest'' \<le> length n \<and> drop k n = ''/versions/latest'' then Some (take k n) else None)"

fun gs_documented ::
  "gs_command \<Rightarrow> (string \<Rightarrow> string list option) \<Rightarrow> (exn + gs_result) \<times> (string \<Rightarrow> string list option)" where
  "gs_documented (AccessVersion n) m =
     ((case Option.bind (secret_of_version n) m of
         Some (v # vs) \<Rightarrow> Inr (VersionData (Some v))
       | _ \<Rightarrow> Inl (JsError ''NOT_FOUND'')), m)"
| "gs_documented (CreateSecretIn parent i) m =
     (let n = parent @ ''/secrets/'' @ i in
      if m n = None then (Inr SecretDone, m(n \<mapsto> [])) else (Inl (JsError ''ALREADY_EXISTS''), m))"
| "gs_documented (AddSecretVersion n t) m =
     (case m n of None \<Rightarrow> (Inl (JsError ''NOT_FOUND''), m) | Some vs \<Rightarrow> (Inr SecretDone, m(n \<mapsto> t # vs)))"

text \<open>A service that answers as a documented one does, seen through its contents.\<close>

locale answering =
  fixes send :: "('c, 'r, 's) service" and contents :: "'s \<Rightarrow> 'h" and book :: "('c, 'r, 'h) service"
  assumes available: "send c s = (r, s') \<Longrightarrow> (r, contents s') = book c (contents s)"
begin

lemma alone_contents:
  "fst (alone send now p s) = fst (alone book now p (contents s)) \<and>
   contents (snd (alone send now p s)) = snd (alone book now p (contents s))"
proof (induction p arbitrary: s)
  case (Send c k)
  obtain r s' where r: "send c s = (r, s')" by fastforce
  have "book c (contents s) = (r, contents s')" using available [OF r] by simp
  then show ?case using Send [OF rangeI, of r s'] by (simp add: r)
qed simp_all

end

interpretation aws_secrets: answering sm_documented "\<lambda>m. m" sm_documented
  by unfold_locales simp

interpretation google_secrets: answering gs_documented "\<lambda>m. m" gs_documented
  by unfold_locales simp

subsection \<open>The stores answer as the store in memory\<close>

datatype certificate_call = SaveCertificate string "string list" | FetchCertificate string

fun run_certificates ::
  "(string \<Rightarrow> string list \<Rightarrow> ('s, unit) M) \<Rightarrow> (string \<Rightarrow> ('s, string list) M) \<Rightarrow> certificate_call \<Rightarrow> ('s, string list) M" where
  "run_certificates save fetch (SaveCertificate v cs) = thenM (save v cs) (ret [])"
| "run_certificates save fetch (FetchCertificate v) = fetch v"

definition certificates_in_memory :: "certificate_call \<Rightarrow> (certificate_store, string list) M" where
  "certificates_in_memory = run_certificates certificate_save certificate_fetch"

definition certificates_on_aws ::
  "(sm_command, sm_result, 's) service \<Rightarrow> secret_lib \<Rightarrow> string \<Rightarrow> certificate_call \<Rightarrow> ('s, string list) M" where
  "certificates_on_aws send L pre =
     run_certificates (\<lambda>v cs. alone send 0 (sm_save L pre v cs)) (\<lambda>v. alone send 0 (sm_fetch L pre v))"

definition certificates_on_google ::
  "(gs_command, gs_result, 's) service \<Rightarrow> secret_lib \<Rightarrow> gs_names \<Rightarrow> string \<Rightarrow> certificate_call \<Rightarrow> ('s, string list) M" where
  "certificates_on_google send L N pre =
     run_certificates (\<lambda>v cs. alone send 0 (gs_save L N pre v cs)) (\<lambda>v. alone send 0 (gs_fetch L N pre v))"

fun certificate_call_ok :: "string set \<Rightarrow> certificate_call \<Rightarrow> bool" where
  "certificate_call_ok K (SaveCertificate v cs) \<longleftrightarrow> v \<in> K \<and> list_all pem_ok cs"
| "certificate_call_ok K (FetchCertificate v) \<longleftrightarrow> v \<in> K"

text \<open>JSON reads back what it wrote, and the hash of verifiers in use is their own.\<close>

definition keeps_certificates :: "secret_lib \<Rightarrow> string set \<Rightarrow> bool" where
  "keeps_certificates L K \<longleftrightarrow>
     (\<forall>cs. to_json L (JStrs cs) \<noteq> [] \<and> of_json L (to_json L (JStrs cs)) = Inr (JStrs cs)) \<and>
     inj_on (md5_hex L) K \<and> inj_on (md5_base64url L) K"

lemma strings_of_written [simp]: "strings_of (Some (JStrs cs)) = Some cs"
  by (simp add: strings_of_def JStrs_def list_all_iff comp_def)

lemma read_written:
  "keeps_certificates L K \<Longrightarrow> list_all pem_ok cs \<Longrightarrow> read_certificates L (to_json L (JStrs cs)) = Inr cs"
  by (simp add: keeps_certificates_def read_certificates_def certificates_of_def Certificate_parse_def)

definition aws_kept :: "secret_lib \<Rightarrow> string \<Rightarrow> string set \<Rightarrow> (string \<Rightarrow> string option) \<Rightarrow> certificate_store \<Rightarrow> bool" where
  "aws_kept L pre K m st \<longleftrightarrow> keeps_certificates L K \<and>
     (\<forall>v \<in> K. m (secretName L pre v) = map_option (\<lambda>cs. to_json L (JStrs cs)) (st v) \<and> pred_option (list_all pem_ok) (st v))"

definition google_names :: "gs_names \<Rightarrow> bool" where
  "google_names N \<longleftrightarrow> (\<forall>i. secretPath N i = projectPath N @ ''/secrets/'' @ i)"

definition google_kept ::
  "secret_lib \<Rightarrow> gs_names \<Rightarrow> string \<Rightarrow> string set \<Rightarrow> (string \<Rightarrow> string list option) \<Rightarrow> certificate_store \<Rightarrow> bool" where
  "google_kept L N pre K m st \<longleftrightarrow> keeps_certificates L K \<and> google_names N \<and>
     (\<forall>v \<in> K. case st v of
          None \<Rightarrow> m (secretPath N (getSecretId L pre v)) \<in> {None, Some []}
        | Some cs \<Rightarrow> list_all pem_ok cs \<and> (\<exists>vs. m (secretPath N (getSecretId L pre v)) = Some (to_json L (JStrs cs) # vs)))"

lemma secret_of_latest [simp]: "secret_of_version (n @ ''/versions/latest'') = Some n"
  by (simp add: secret_of_version_def)

lemma secretName_inj: "keeps_certificates L K \<Longrightarrow> v \<in> K \<Longrightarrow> u \<in> K \<Longrightarrow> secretName L pre v = secretName L pre u \<longleftrightarrow> v = u"
  by (auto simp: keeps_certificates_def secretName_def inj_on_eq_iff)

lemma getSecretId_inj: "keeps_certificates L K \<Longrightarrow> v \<in> K \<Longrightarrow> u \<in> K \<Longrightarrow> getSecretId L pre v = getSecretId L pre u \<longleftrightarrow> v = u"
  by (auto simp: keeps_certificates_def getSecretId_def inj_on_eq_iff)

interpretation aws_store: step_refinement "certificates_on_aws sm_documented L pre" certificates_in_memory
  "aws_kept L pre K" "certificate_call_ok K" for L pre K
proof
  fix m st c assume r: "aws_kept L pre K m st" and ok: "certificate_call_ok K c"
  show "fst (certificates_on_aws sm_documented L pre c m) = fst (certificates_in_memory c st) \<and>
    aws_kept L pre K (snd (certificates_on_aws sm_documented L pre c m)) (snd (certificates_in_memory c st))"
  proof (cases c)
    case (SaveCertificate v cs)
    let ?m = "m(secretName L pre v \<mapsto> to_json L (JStrs cs))"
    have "alone sm_documented 0 (sm_save L pre v cs) m = (Inr (), ?m)"
      using ok SaveCertificate
      by (simp add: sm_save_def Certificate_parse_def liftP_def isSecretsManagerError_def Let_def)
    moreover have "aws_kept L pre K ?m (st(v \<mapsto> cs))"
      using r ok SaveCertificate secretName_inj [of L K] by (auto simp: aws_kept_def)
    ultimately show ?thesis
      by (simp add: SaveCertificate certificates_on_aws_def certificates_in_memory_def run_simps certificate_save_def)
  next
    case (FetchCertificate v)
    have "m (secretName L pre v) = map_option (\<lambda>cs. to_json L (JStrs cs)) (st v)" "pred_option (list_all pem_ok) (st v)"
      "keeps_certificates L K" using r ok FetchCertificate by (auto simp: aws_kept_def)
    then show ?thesis
      using r by (cases "st v") (simp_all add: FetchCertificate certificates_on_aws_def certificates_in_memory_def sm_fetch_def
          sm_loadCertificate_def Let_def alone_bindP run_simps certificate_fetch_def isSecretsManagerError_def secret_text_def
          read_written)
  qed
qed

interpretation google_store: step_refinement "certificates_on_google gs_documented L N pre" certificates_in_memory
  "google_kept L N pre K" "certificate_call_ok K" for L N pre K
proof
  fix m st c assume r: "google_kept L N pre K m st" and ok: "certificate_call_ok K c"
  show "fst (certificates_on_google gs_documented L N pre c m) = fst (certificates_in_memory c st) \<and>
    google_kept L N pre K (snd (certificates_on_google gs_documented L N pre c m)) (snd (certificates_in_memory c st))"
  proof (cases c)
    case (SaveCertificate v cs)
    let ?n = "secretPath N (getSecretId L pre v)"
    let ?m = "m(?n \<mapsto> to_json L (JStrs cs) # getOr [] (m ?n))"
    have n: "projectPath N @ ''/secrets/'' @ getSecretId L pre v = ?n" using r by (simp add: google_kept_def google_names_def)
    have "alone gs_documented 0 (gs_save L N pre v cs) m = (Inr (), ?m)"
      using ok SaveCertificate n
      by (cases "m ?n") (simp_all add: gs_save_def Certificate_parse_def liftP_def isGoogleApiError_def Let_def
          KMS_ALREADY_EXISTS_def)
    moreover have "google_kept L N pre K ?m (st(v \<mapsto> cs))"
      using r ok SaveCertificate getSecretId_inj [of L K]
      by (auto simp: google_kept_def google_names_def split: option.split)
    ultimately show ?thesis
      by (simp add: SaveCertificate certificates_on_google_def certificates_in_memory_def run_simps certificate_save_def)
  next
    case (FetchCertificate v)
    have "case st v of
          None \<Rightarrow> m (secretPath N (getSecretId L pre v)) \<in> {None, Some []}
        | Some cs \<Rightarrow> list_all pem_ok cs \<and> (\<exists>vs. m (secretPath N (getSecretId L pre v)) = Some (to_json L (JStrs cs) # vs))"
      "keeps_certificates L K" using r ok FetchCertificate by (auto simp: google_kept_def)
    then show ?thesis
      using r by (cases "st v") (auto simp: FetchCertificate certificates_on_google_def certificates_in_memory_def gs_fetch_def
          gs_loadCertificate_def Let_def alone_bindP run_simps certificate_fetch_def isGoogleApiError_def decodeSecretData_def
          KMS_NOT_FOUND_def read_written)
  qed
qed

lemma run_on_contents:
  assumes "\<And>v cs s. fst (save v cs s) = fst (save' v cs (f s)) \<and> f (snd (save v cs s)) = snd (save' v cs (f s))"
    and "\<And>v s. fst (fetch v s) = fst (fetch' v (f s)) \<and> f (snd (fetch v s)) = snd (fetch' v (f s))"
  shows "replies (run_certificates save fetch) calls s = replies (run_certificates save' fetch') calls (f s)"
proof (induction calls arbitrary: s)
  case (Cons c calls)
  have "fst (run_certificates save fetch c s) = fst (run_certificates save' fetch' c (f s)) \<and>
    f (snd (run_certificates save fetch c s)) = snd (run_certificates save' fetch' c (f s))"
    using assms by (cases c) (auto simp: thenM_def bindM_def ret_def case_prod_beta split: sum.split)
  with Cons show ?case by (simp add: case_prod_beta)
qed simp

text \<open>On an available Secrets Manager or Secret Manager without secrets of its verifiers, any sequence of
  saves and reads of certificates is answered as the store in memory answers it; the
  certificates pass the schema, JSON reads back what it wrote, and the hashes of the verifiers
  in use differ.\<close>

theorem secret_certificates_refine:
  assumes "answering send contents sm_documented" and "answering gsend versions gs_documented"
    and "keeps_certificates L K" and "google_names N" and "list_all (certificate_call_ok K) calls"
    and "\<forall>v \<in> K. contents s (secretName L pre v) = None" and "\<forall>v \<in> K. versions g (secretPath N (getSecretId L pre' v)) = None"
  shows "replies (certificates_on_aws send L pre) calls s = replies certificates_in_memory calls (\<lambda>v. None) \<and>
    replies (certificates_on_google gsend L N pre') calls g = replies certificates_in_memory calls (\<lambda>v. None)"
proof
  have "replies (certificates_on_aws send L pre) calls s = replies (certificates_on_aws sm_documented L pre) calls (contents s)"
    unfolding certificates_on_aws_def by (intro run_on_contents answering.alone_contents assms(1))
  also have "\<dots> = replies certificates_in_memory calls (\<lambda>v. None)"
    using assms(3,6) by (intro aws_store.replies_eq [OF _ assms(5)]) (simp add: aws_kept_def)
  finally show "replies (certificates_on_aws send L pre) calls s = replies certificates_in_memory calls (\<lambda>v. None)" .
  have "replies (certificates_on_google gsend L N pre') calls g =
      replies (certificates_on_google gs_documented L N pre') calls (versions g)"
    unfolding certificates_on_google_def by (intro run_on_contents answering.alone_contents assms(2))
  also have "\<dots> = replies certificates_in_memory calls (\<lambda>v. None)"
    using assms(3,4,7) by (intro google_store.replies_eq [OF _ assms(5)]) (simp add: google_kept_def)
  finally show "replies (certificates_on_google gsend L N pre') calls g = replies certificates_in_memory calls (\<lambda>v. None)" .
qed

subsection \<open>An exchange\<close>

text \<open>A text for lists of strings that is read back.\<close>

fun sample_words :: "string \<Rightarrow> string \<Rightarrow> string list" where
  "sample_words w [] = []"
| "sample_words w [c] = (if c = CHR ''1'' then [w] else [])"
| "sample_words w (c # x # u) = (if c = CHR ''1'' then w # sample_words [] (x # u) else sample_words (w @ [x]) u)"

definition sample_text :: "string list \<Rightarrow> string" where
  "sample_text cs = concat (map (\<lambda>c. concat (map (\<lambda>x. [CHR ''0'', x]) c) @ ''1'') cs) @ ''2''"

lemma sample_words_word:
  "rest \<noteq> [] \<Longrightarrow> sample_words w (concat (map (\<lambda>x. [CHR ''0'', x]) c) @ CHR ''1'' # rest) = (w @ c) # sample_words [] rest"
  by (induction c arbitrary: w) (auto simp: neq_Nil_conv)

lemma sample_words_text: "sample_words [] (sample_text cs) = cs"
  by (induction cs) (simp_all add: sample_text_def sample_words_word)

definition sample_secret_lib :: secret_lib where
  "sample_secret_lib = \<lparr>
     to_json = (\<lambda>v. sample_text (getOr [] (strings_of (Some v)))),
     of_json = (\<lambda>s. Inr (JStrs (sample_words [] s))), md5_hex = (\<lambda>v. v), md5_base64url = (\<lambda>v. v)\<rparr>"

lemma sample_secret_lib_keeps: "keeps_certificates sample_secret_lib K"
  by (simp add: keeps_certificates_def sample_secret_lib_def sample_words_text) (simp add: sample_text_def)

definition sample_names :: gs_names where
  "sample_names = \<lparr>projectPath = ''p'', secretPath = (\<lambda>i. ''p/secrets/'' @ i)\<rparr>"

definition sample_pem :: string where
  "sample_pem = ''-----BEGIN CERTIFICATE-----'' @ [CHR 0x0A] @ ''MIIB'' @ [CHR 0x0A] @ ''-----END CERTIFICATE-----''"

definition sample_certificate_calls :: "certificate_call list" where
  "sample_certificate_calls = [FetchCertificate ''v'', SaveCertificate ''v'' [], SaveCertificate ''v'' [sample_pem], FetchCertificate ''v'']"

theorem secret_certificates_refine_witness:
  "replies (certificates_on_aws sm_documented sample_secret_lib ''a'') sample_certificate_calls (\<lambda>n. None) =
     [Inr [], Inr [], Inr [], Inr [''MIIB'']] \<and>
   replies (certificates_on_google gs_documented sample_secret_lib sample_names ''b'') sample_certificate_calls (\<lambda>n. None) =
     [Inr [], Inr [], Inr [], Inr [''MIIB'']]"
proof -
  have "replies certificates_in_memory sample_certificate_calls (\<lambda>v. None) = [Inr [], Inr [], Inr [], Inr [''MIIB'']]" by code_simp
  moreover have "list_all (certificate_call_ok {''v''}) sample_certificate_calls" by code_simp
  moreover have "google_names sample_names" by (simp add: google_names_def sample_names_def)
  ultimately show ?thesis
    using secret_certificates_refine [OF aws_secrets.answering_axioms google_secrets.answering_axioms sample_secret_lib_keeps,
        of sample_names "{''v''}" sample_certificate_calls "\<lambda>n. None" "''a''" "\<lambda>n. None" "''b''"]
    by simp
qed

end
