(* ===== verification/Provider_Registry.thy ===== *)
theory Provider_Registry
  imports Extern
begin

text \<open>
  The registry of providers (\<open>providers/provider.registry.ts\<close>) and the extensions woven around their
  methods (\<open>extensions/extension.registry.ts\<close>): the default providers, the providers of the
  options on top of them, lookup by kind and selection by \<open>canHandle\<close>.
\<close>

subsection \<open>Providers and extensions\<close>

text \<open>A provider is what the registry sees of it: kind, name, and its methods by name.\<close>

record ('a, 'r) provider =
  pr_kind :: string
  pr_name :: string
  pr_single :: bool
  pr_method :: "string \<Rightarrow> ('a list \<Rightarrow> 'r) option"

record ('a, 'r) extension =
  ex_on :: string
  intercept :: "('a list \<Rightarrow> 'r) \<Rightarrow> 'a list \<Rightarrow> 'r"

definition matchers :: "('a, 'r) extension list \<Rightarrow> ('a, 'r) provider \<Rightarrow> string \<Rightarrow> ('a, 'r) extension list" where
  "matchers extensions p method = filter (\<lambda>e. ex_on e = pr_kind p @ ''.'' @ method) extensions"

fun weave_apply :: "('a list \<Rightarrow> 'r) \<Rightarrow> ('a, 'r) extension list \<Rightarrow> 'a list \<Rightarrow> 'r" where
  "weave_apply original [] args = original args"
| "weave_apply original (current # others) args = intercept current (weave_apply original others) args"

definition weave :: "('a, 'r) extension list \<Rightarrow> ('a, 'r) provider \<Rightarrow> ('a, 'r) provider" where
  "weave extensions p = p\<lparr>pr_method := (\<lambda>method.
     map_option (\<lambda>original. weave_apply original (matchers extensions p method)) (pr_method p method))\<rparr>"

subsection \<open>Registration\<close>

text \<open>What the map holds under a kind: one provider, or several.\<close>

datatype 'p slot = OneProvider 'p | ManyProviders "'p list"

type_synonym ('a, 'r) provider_map = "string \<Rightarrow> ('a, 'r) provider slot option"

definition toProviderArray :: "('a, 'r) provider list \<Rightarrow> ('a, 'r) provider \<Rightarrow> ('a, 'r) provider list" where
  "toProviderArray acc p = (if pr_single p then filter (\<lambda>it. pr_kind it \<noteq> pr_kind p) acc @ [p] else acc @ [p])"

text \<open>Spreading a single provider is a \<open>TypeError\<close>.\<close>

definition toProviderMap :: "exn + ('a, 'r) provider_map \<Rightarrow> ('a, 'r) provider \<Rightarrow> exn + ('a, 'r) provider_map" where
  "toProviderMap acc p =
     (case acc of
        Inl e \<Rightarrow> Inl e
      | Inr providers \<Rightarrow>
          if pr_single p then Inr (providers(pr_kind p \<mapsto> OneProvider p))
          else (case providers (pr_kind p) of
                  None \<Rightarrow> Inr (providers(pr_kind p \<mapsto> ManyProviders [p]))
                | Some (ManyProviders current) \<Rightarrow> Inr (providers(pr_kind p \<mapsto> ManyProviders (p # current)))
                | Some (OneProvider q) \<Rightarrow> Inl (JsError ''TypeError'')))"

definition initializeProviderRegistry ::
  "('a, 'r) provider list \<Rightarrow> ('a, 'r) provider list list \<Rightarrow> exn + ('a, 'r) provider_map" where
  "initializeProviderRegistry defaultProviders options =
     foldl toProviderMap (Inr (\<lambda>k. None)) (foldl toProviderArray defaultProviders (concat options))"

definition map_slot :: "('p \<Rightarrow> 'q) \<Rightarrow> 'p slot \<Rightarrow> 'q slot" where
  "map_slot f v = (case v of OneProvider p \<Rightarrow> OneProvider (f p) | ManyProviders ps \<Rightarrow> ManyProviders (map f ps))"

definition registry_get :: "('a, 'r) extension list \<Rightarrow> ('a, 'r) provider_map \<Rightarrow> string \<Rightarrow> exn + ('a, 'r) provider slot" where
  "registry_get extensions providers kind =
     (case providers kind of
        None \<Rightarrow> Inl (err ''provider_not_found'' kind)
      | Some v \<Rightarrow> Inr (map_slot (weave extensions) v))"

text \<open>\<open>truth\<close> is the truthiness of what a method returns; a missing method cannot be called.\<close>

fun find_handler :: "('r \<Rightarrow> bool) \<Rightarrow> ('a, 'r) provider list \<Rightarrow> 'a \<Rightarrow> exn + ('a, 'r) provider" where
  "find_handler truth [] u = Inl (err ''provider_not_found'' ''No provider found'')"
| "find_handler truth (p # ps) u =
     (case pr_method p ''canHandle'' of
        None \<Rightarrow> Inl (JsError ''TypeError'')
      | Some f \<Rightarrow> if truth (f [u]) then Inr p else find_handler truth ps u)"

definition registry_select ::
  "('r \<Rightarrow> bool) \<Rightarrow> ('a, 'r) extension list \<Rightarrow> ('a, 'r) provider_map \<Rightarrow> string \<Rightarrow> 'a \<Rightarrow> exn + ('a, 'r) provider" where
  "registry_select truth extensions providers kind u =
     (case registry_get extensions providers kind of
        Inl e \<Rightarrow> Inl e
      | Inr (OneProvider p) \<Rightarrow> find_handler truth [p] u
      | Inr (ManyProviders ps) \<Rightarrow> find_handler truth ps u)"

text \<open>The kinds, names and multiplicity of the default providers, in their order.\<close>

definition default_entries :: "(string \<times> string \<times> bool) list" where
  "default_entries =
     [(''issuer-metadata-store-provider'', ''in-memory-issuer-metadata-store-provider'', True),
      (''pre-authorized-code-store-provider'', ''in-memory-pre-authorized-code-provider'', True),
      (''verifier-metadata-store-provider'', ''in-memory-verifier-metadata-store-provider'', True),
      (''issuer-signature-key-store-provider'', ''in-memory-issuer-signature-key-store-provider'', True),
      (''authz-server-metadata-store-provider'', ''in-memory-authz-server-metadata-store-provider'', True),
      (''authz-oauth-policy-store-provider'', ''in-memory-authz-oauth-policy-store-provider'', True),
      (''authz-oauth-client-store-provider'', ''in-memory-authz-oauth-client-store-provider'', True),
      (''authz-signature-key-store-provider'', ''in-memory-authz-signature-key-store-provider'', True),
      (''oauth-client-assertion-jti-store-provider'', ''in-memory-oauth-client-assertion-jti-store-provider'', True),
      (''dpop-proof-jti-store-provider'', ''in-memory-dpop-proof-jti-store-provider'', True),
      (''nonce-store-provider'', ''in-memory-nonce-provider'', True),
      (''request-object-store-provider'', ''in-memory-request-object-store-provider'', True),
      (''verifier-encryption-key-store-provider'', ''in-memory-verifier-encryption-key-store-provider'', True),
      (''verifier-signature-key-store-provider'', ''in-memory-verifier-signature-key-store-provider'', True),
      (''verifier-certificate-store-provider'', ''in-memory-verifier-certificate-store-provider'', True),
      (''verifier-transaction-store-provider'', ''in-memory-transaction-data-provider'', True),
      (''credential-offer-provider'', ''default-credential-offer-provider'', True),
      (''nonce-provider'', ''default-nonce-provider'', True),
      (''access-token-provider'', ''default-access-token-provider'', True),
      (''pre-authorized-code-provider'', ''default-pre-authorized-code-provider'', True),
      (''transaction-code-provider'', ''default-transaction-code-provider'', True),
      (''issuer-signature-key-provider'', ''default-issuer-signature-key-provider'', False),
      (''authz-signature-key-provider'', ''default-authz-signature-key-provider'', False),
      (''issue-credential-provider'', ''default-issue-credential-w3c-jwt-vc-json-provider'', False),
      (''issue-credential-provider'', ''issue-credential-dc-sd-jwt-provider'', False),
      (''did-provider'', ''default-did-key-provider'', False),
      (''credential-query-provider'', ''default-dcql-provider'', True),
      (''credential-proof-provider'', ''default-credential-proof-jwt-provider'', False),
      (''dpop-proof-provider'', ''default-dpop-proof-provider'', True),
      (''verify-verifiable-credential-provider'', ''default-verifiable-jwt-vc-provider'', True),
      (''jwt-signature-provider'', ''default-jwt-signature-provider'', True),
      (''holder-binding-provider'', ''default-holder-binding-provider'', True),
      (''verifier-encryption-key-provider'', ''default-verifier-encryption-key-provider'', False),
      (''verifier-signature-key-provider'', ''default-verifier-signature-key-provider'', False),
      (''request-object-id-provider'', ''default-request-object-id-provider'', True),
      (''request-object-store-provider'', ''in-memory-request-object-store-provider'', True),
      (''authz-request-jar-provider'', ''default-authz-request-jar-provider'', False),
      (''authz-request-jar-provider'', ''authorization-request-jar-x5c.provider'', False),
      (''certificate-provider'', ''default-certificate-provider'', True),
      (''transaction-data-provider'', ''default-transaction-data-provider'', True),
      (''transaction-id-provider'', ''default-transaction-id-provider'', True),
      (''verify-verifiable-presentation-provider'', ''verifier-verifiable-presentation-jwt-vp-json-provider'', False),
      (''verify-verifiable-presentation-provider'', ''verify-verifiable-presentation-dc-sd-jwt-provider'', False),
      (''allowed-credential-configuration-store-provider'', ''in-memory-allowed-credential-configuration-store-provider'', True)]"

definition initializeDefaultProviders :: "(string \<Rightarrow> string \<Rightarrow> ('a list \<Rightarrow> 'r) option) \<Rightarrow> ('a, 'r) provider list" where
  "initializeDefaultProviders methods =
     map (\<lambda>(k, n, s). \<lparr>pr_kind = k, pr_name = n, pr_single = s, pr_method = methods n\<rparr>) default_entries"

subsection \<open>What the registry holds\<close>

text \<open>Providers of a kind agree on whether it is single, as their types say.\<close>

definition uniform :: "('a, 'r) provider list \<Rightarrow> bool" where
  "uniform ps \<longleftrightarrow> (\<forall>p \<in> set ps. \<forall>q \<in> set ps. pr_kind p = pr_kind q \<longrightarrow> pr_single p = pr_single q)"

text \<open>The specification: of a single kind the last registration counts, of the others all, the last one first.\<close>

definition registered :: "('a, 'r) provider list \<Rightarrow> string \<Rightarrow> ('a, 'r) provider slot option" where
  "registered ps k =
     (let mine = filter (\<lambda>p. pr_kind p = k) ps in
      if mine = [] then None
      else if pr_single (List.last mine) then Some (OneProvider (List.last mine)) else Some (ManyProviders (rev mine)))"

lemma registered_snoc:
  "registered (ps @ [p]) k =
     (if pr_kind p \<noteq> k then registered ps k
      else if pr_single p then Some (OneProvider p)
      else Some (ManyProviders (p # rev (filter (\<lambda>q. pr_kind q = k) ps))))"
  by (simp add: registered_def Let_def)

lemma registered_many:
  assumes "\<And>q. q \<in> set ps \<Longrightarrow> pr_kind q = k \<Longrightarrow> \<not> pr_single q"
  shows "registered ps k =
    (if filter (\<lambda>q. pr_kind q = k) ps = [] then None else Some (ManyProviders (rev (filter (\<lambda>q. pr_kind q = k) ps))))"
proof (cases "filter (\<lambda>q. pr_kind q = k) ps = []")
  case False
  then have "\<not> pr_single (List.last (filter (\<lambda>q. pr_kind q = k) ps))" using last_in_set [OF False] assms by simp
  then show ?thesis by (simp add: registered_def Let_def)
qed (simp add: registered_def)

lemma many_inject [simp]:
  "(if A = [] then None else Some (ManyProviders (rev A))) = (if B = [] then None else Some (ManyProviders (rev B))) \<longleftrightarrow> A = B"
  by auto

lemma uniform_same: "uniform ps \<Longrightarrow> p \<in> set ps \<Longrightarrow> q \<in> set ps \<Longrightarrow> pr_kind q = pr_kind p \<Longrightarrow> pr_single q \<longleftrightarrow> pr_single p"
  unfolding uniform_def by blast

lemma uniform_sub: "uniform ps \<Longrightarrow> set qs \<subseteq> set ps \<Longrightarrow> uniform qs"
  unfolding uniform_def by blast

lemma uniform_snoc: "uniform (ps @ [p]) \<Longrightarrow> uniform ps"
  by (erule uniform_sub) auto

lemma map_pass: "uniform ps \<Longrightarrow> foldl toProviderMap (Inr (\<lambda>k. None)) ps = Inr (registered ps)"
proof (induction ps rule: rev_induct)
  case Nil
  then show ?case by (simp add: registered_def fun_eq_iff)
next
  case (snoc p ps)
  let ?mine = "filter (\<lambda>q. pr_kind q = pr_kind p) ps"
  have ih: "foldl toProviderMap (Inr (\<lambda>k. None)) ps = Inr (registered ps)" using snoc.IH uniform_snoc [OF snoc.prems] by blast
  have many: "registered ps (pr_kind p) = (if ?mine = [] then None else Some (ManyProviders (rev ?mine)))" if "\<not> pr_single p"
  proof (rule registered_many)
    fix q assume "q \<in> set ps" "pr_kind q = pr_kind p"
    then show "\<not> pr_single q" using uniform_same [OF snoc.prems, of p q] that by simp
  qed
  have upd: "registered (ps @ [p]) = (registered ps)(pr_kind p := registered (ps @ [p]) (pr_kind p))"
  proof
    fix k
    show "registered (ps @ [p]) k = ((registered ps)(pr_kind p := registered (ps @ [p]) (pr_kind p))) k"
      by (cases "pr_kind p = k") (simp_all add: registered_snoc)
  qed
  show ?case
  proof (cases "pr_single p")
    case True
    then show ?thesis by (subst upd) (simp add: ih toProviderMap_def registered_snoc)
  next
    case False
    then show ?thesis by (subst upd) (simp add: ih toProviderMap_def registered_snoc many filter_empty_conv split: if_splits)
  qed
qed

text \<open>The first pass keeps the last provider of a single kind, and the order of the others.\<close>

lemma array_pass:
  "uniform (ds @ us) \<Longrightarrow> registered (foldl toProviderArray ds us) = registered (ds @ us) \<and>
     set (foldl toProviderArray ds us) \<subseteq> set (ds @ us)"
proof (induction us rule: rev_induct)
  case (snoc u us)
  let ?a = "foldl toProviderArray ds us"
  have ih: "registered ?a = registered (ds @ us)" "set ?a \<subseteq> set (ds @ us)"
    using snoc.IH uniform_snoc [of "ds @ us" u] snoc.prems by auto
  have sub: "set (toProviderArray ?a u) \<subseteq> set (ds @ us @ [u])" using ih(2) by (auto simp: toProviderArray_def)
  have "registered (toProviderArray ?a u) k = registered (ds @ us @ [u]) k" for k
  proof (cases "pr_kind u = k")
    case True
    show ?thesis
    proof (cases "pr_single u")
      case True
      then show ?thesis using \<open>pr_kind u = k\<close> registered_snoc [of "ds @ us" u k] by (simp add: toProviderArray_def registered_snoc)
    next
      case False
      let ?f = "\<lambda>ps. filter (\<lambda>q. pr_kind q = k) ps"
      have many: "\<not> pr_single q" if "q \<in> set (ds @ us)" "pr_kind q = k" for q
        using uniform_same [OF snoc.prems, of u q] that True False by simp
      have ra: "registered ?a k = (if ?f ?a = [] then None else Some (ManyProviders (rev (?f ?a))))"
        by (rule registered_many) (use many ih(2) in blast)
      have rb: "registered (ds @ us) k = (if ?f (ds @ us) = [] then None else Some (ManyProviders (rev (?f (ds @ us)))))"
        by (rule registered_many) (rule many)
      have a: "?f ?a = ?f (ds @ us)" using fun_cong [OF ih(1), of k] unfolding ra rb many_inject .
      show ?thesis
        using False \<open>pr_kind u = k\<close> registered_snoc [of "ds @ us" u k] a by (simp add: toProviderArray_def registered_snoc)
    qed
  next
    case False
    have "filter (\<lambda>p. pr_kind p = k) (filter (\<lambda>it. pr_kind it \<noteq> pr_kind u) ?a) = filter (\<lambda>p. pr_kind p = k) ?a"
      using False by (auto simp: filter_filter intro: filter_cong)
    then have "registered (filter (\<lambda>it. pr_kind it \<noteq> pr_kind u) ?a) k = registered ?a k" by (simp add: registered_def)
    then show ?thesis
      using False ih(1) registered_snoc [of "ds @ us" u k] by (simp add: toProviderArray_def registered_snoc)
  qed
  then show ?case using sub by auto
qed simp

lemma registry_passes:
  assumes "uniform (ds @ concat us)"
  shows "initializeProviderRegistry ds us = Inr (registered (ds @ concat us))"
proof -
  have a: "registered (foldl toProviderArray ds (concat us)) = registered (ds @ concat us)"
    "set (foldl toProviderArray ds (concat us)) \<subseteq> set (ds @ concat us)"
    using array_pass [OF assms] by simp_all
  show ?thesis
    unfolding initializeProviderRegistry_def
    using map_pass [OF uniform_sub [OF assms a(2)]] a(1) by simp
qed

subsection \<open>Lookup and selection\<close>

lemma find_handler_find:
  assumes "\<And>p. p \<in> set ps \<Longrightarrow> pr_method p ''canHandle'' \<noteq> None"
  shows "find_handler truth ps u =
    (case List.find (\<lambda>p. truth (the (pr_method p ''canHandle'') [u])) ps of
       None \<Rightarrow> Inl (err ''provider_not_found'' ''No provider found'')
     | Some p \<Rightarrow> Inr p)"
  using assms
proof (induction ps)
  case (Cons p ps)
  obtain f where f: "pr_method p ''canHandle'' = Some f" using Cons.prems [of p] by auto
  show ?case using Cons f by simp
qed simp

lemma weave_apply_none [simp]: "weave_apply f [] = f"
  by (simp add: fun_eq_iff)

lemma weave_apply_cons: "weave_apply f (e # es) = intercept e (weave_apply f es)"
  by (simp add: fun_eq_iff)

lemma weave_unmatched: "(\<And>m. matchers extensions p m = []) \<Longrightarrow> weave extensions p = p"
  by (simp add: weave_def option.map_ident)

lemma weave_method:
  "pr_method (weave extensions p) m = map_option (\<lambda>f. weave_apply f (matchers extensions p m)) (pr_method p m)"
  by (simp add: weave_def)

text \<open>The extension of an earlier position sees the call first, and what it passes on is what the next one gets.\<close>

lemma weave_apply_append:
  "weave_apply f (xs @ ys) = weave_apply (weave_apply f ys) xs"
  by (induction xs) (simp_all add: weave_apply_cons del: weave_apply.simps)

lemma default_uniform: "uniform (initializeDefaultProviders methods)"
proof -
  have "list_all (\<lambda>(k, n, s). list_all (\<lambda>(k', n', s'). k = k' \<longrightarrow> s = s') default_entries) default_entries"
    by code_simp
  then show ?thesis
    unfolding uniform_def initializeDefaultProviders_def list_all_iff by fastforce
qed

theorem provider_overrides:
  assumes "pr_single p" and "uniform (initializeDefaultProviders methods @ concat us @ [p])"
  shows "\<exists>m. initializeProviderRegistry (initializeDefaultProviders methods) (us @ [[p]]) = Inr m \<and>
    registry_get extensions m (pr_kind p) = Inr (OneProvider (weave extensions p))"
proof -
  have "initializeProviderRegistry (initializeDefaultProviders methods) (us @ [[p]])
    = Inr (registered ((initializeDefaultProviders methods @ concat us) @ [p]))"
    using registry_passes [of "initializeDefaultProviders methods" "us @ [[p]]"] assms(2) by simp
  moreover have "registered ((initializeDefaultProviders methods @ concat us) @ [p]) (pr_kind p) = Some (OneProvider p)"
    using assms(1) by (simp only: registered_snoc) simp
  ultimately show ?thesis by (auto simp: registry_get_def map_slot_def)
qed

end
