(* ===== verification/Spec2Isabelle.thy ===== *)
theory Spec2Isabelle
  imports Cloud_Records Gcp_Properties Issuer_Safety Verifier_Examples Dynamo_Refinement Dynamo_Uses
    Dynamo_Store_Refinement Kms_Service Multi_Examples Startup Secret_Stores Provider_Registry
begin

text \<open>
  Verification of vcknots: a library for issuers and verifiers of verifiable credentials
  (\<open>issuer+verifier/src\<close>, OpenID4VCI and OpenID4VP), HTTP servers on top of it
  (\<open>server/core\<close>, \<open>server/multi\<close>) and providers that keep its state in the clouds of AWS and
  Google (\<open>aws/src\<close>, \<open>google-cloud/src\<close>).

  \<^bold>\<open>The program.\<close> Three flows share stores. The issuer offers a credential: it saves a
  pre-authorized code with the configurations of the offer (\<open>issuer.flows.ts\<close>). The
  authorization server exchanges the code, with its transaction code, for an access token and
  records the configurations under the hash of the token; a client may have to authenticate
  with a signed assertion and to prove a key by DPoP (\<open>authz.flows.ts\<close>). The issuer returns a
  credential for a recorded configuration to the bearer of the token who proves a key of their
  own. The verifier opens a transaction with a nonce, hands out a signed request, and accepts
  at most one response for the transaction (\<open>verifier.flows.ts\<close>). Everything a flow uses
  (stores, keys, formats, checks) is a provider; the registry holds the default ones and those of the
  options. The routes translate HTTP into calls of the flows and errors into answers.

  \<^bold>\<open>Theories, from the bottom.\<close>
  \<^item> \<open>Js\<close>, \<open>Prelude\<close>, \<open>Interfaces\<close>: values and functions of JavaScript; the errors of
    \<open>errors/\<close>, computations \<open>'w \<Rightarrow> (exn + 'a) \<times> 'w\<close> whose writes before a throw persist, with
    the collections \<open>run_simps\<close>, \<open>inr_simps\<close>, \<open>keeps_intros\<close>; the contracts of stores as
    locales (values taken once, guards against replays, records read back).
  \<^item> \<open>Pac_Store\<close>, \<open>Nonce_Store\<close>, \<open>Jti_Stores\<close>, \<open>Stores\<close>, \<open>Key_Stores\<close>: the stores in memory
    (\<open>providers/in-memory/\<close>); \<open>Types\<close>, \<open>Verifier_Types\<close>: the data (\<open>*.types.ts\<close>); \<open>Extern\<close>,
    \<open>Verifier_Extern\<close>: the third-party code, as parameters; \<open>World\<close>: the state of a program with
    the default providers, one field per store, with the clock and the source of random
    values, and the collection \<open>preserves_intros\<close>; \<open>Provider_Registry\<close>: the registry and the
    extensions, equal to a specification of what is registered.
  \<^item> \<open>Headers\<close>, \<open>Dpop\<close>, \<open>Dpop_Replay\<close>, \<open>Authz_Client\<close>, \<open>Authz_Flow\<close>, \<open>Authz_Access\<close>: the parsers of headers, the
    proofs of DPoP and how long their identifiers are kept, clients, tokens and the access to
    the credential endpoint.
  \<^item> \<open>Claim_Paths\<close>, \<open>Certificates\<close>, \<open>Credential_Proof\<close>, \<open>Issue_Credential\<close>, \<open>Issuer_Flow\<close>,
    \<open>Issuer_Safety\<close>: the parts of a credential, proofs of keys, both formats of credentials,
    the issuer and its guarantees; \<open>Schemas\<close>, \<open>Issuer_Schema\<close>: the schemas of the registered
    records, every one a codec that reads back what it writes.
  \<^item> \<open>Presentation_Types\<close>, \<open>Verify_Jwt_Vp\<close>, \<open>Verify_Sd_Jwt\<close>, \<open>Verifier_Metadata\<close>,
    \<open>Verifier_Flow\<close>, \<open>Verifier_Safety\<close>, \<open>Verifier_Requests\<close>, \<open>Verifier_Registration\<close>,
    \<open>Verifier_Examples\<close>: the verifier, its checks of both formats, its requests and registration.
  \<^item> \<open>Http_Responses\<close>, \<open>Http_Authz\<close>, \<open>Http_Issue\<close>, \<open>Http_Issuance\<close>, \<open>State_Binding\<close>,
    \<open>Http_Verify\<close>, \<open>Http_Verify_Safety\<close>, \<open>Http_Examples\<close>: the routes of \<open>server/core\<close> and
    sequences of requests to them; \<open>Startup\<close>: the start of its server (\<open>server.ts\<close>);
    \<open>Multi_Server\<close>, \<open>Multi_Safety\<close>, \<open>Multi_Examples\<close>: \<open>server/multi\<close>, whose tenants share all stores.
  \<^item> \<open>Services\<close>, \<open>Conversations\<close>: programs of requests to a remote service, alone, in any
    interleaving, and refinement between stores; \<open>Dynamo_*\<close>, \<open>Firestore_*\<close>, \<open>Cloud_Records\<close>:
    the stores on DynamoDB and Firestore; \<open>Kms_Keys\<close>, \<open>Kms_Service\<close>: keys on AWS KMS;
    \<open>Gcp_*\<close>: keys on Google Cloud KMS; \<open>Secret_Stores\<close>: certificates in both secret managers.

  \<^bold>\<open>Correspondence.\<close> A definition has the name of the function it models; an operation of a
  store or flow takes its arguments and returns a computation on the state. A \<open>Map\<close> is a
  function to options, an object is a list of members in the order of insertion, numbers are
  exact rationals with the infinities and NaN, strings are lists of code units below 256. An
  error is \<open>VcknotsError\<close> with the exact code and an abbreviated text, or \<open>JsError\<close> with the name
  of what was thrown. \<open>Date.now()\<close> reads the stream \<open>w_clk\<close>, \<open>randomUUID()\<close> and entropy read
  \<open>w_rnd\<close>; nothing is assumed of either unless a property says so. An \<open>await\<close> between two
  uses of a store matters where requests run at the same time: there the operation is a
  program of requests and the properties are about all interleavings
  (\<open>together\<close>); the flows themselves run request by request.

  \<^bold>\<open>What the lemmas show.\<close>
  \<^item> Issuance: which requests get a credential, over HTTP and for sequences of requests with one
    tenant or several; one token per code, the lockout after wrong transaction codes, no replay
    of client assertions and DPoP proofs, what a refused request leaves untouched.
  \<^item> Proofs, certificates and formats: what an accepted proof implies, the chain check equals its
    specification, selective disclosure hides what it should, claims are read back.
  \<^item> Presentations: what an accepted response implies, at most one per transaction, request
    objects fetched once, states bound to one transaction at a time.
  \<^item> Clouds: every store answers like the one in memory on a service that behaves as
    documented, and under concurrency a code, an identifier or a nonce is used once; keys of
    AWS KMS are never orphaned and concurrent saves agree; saves on Google KMS end within a
    bound and succeed when the import job becomes active in time.
  \<^item> Start: a second start changes nothing.

  \<^bold>\<open>Parameters and hypotheses.\<close> \<open>ext\<close> (jose, JSON and base64url, SHA-256, the URL check of
  zod, WHATWG URLs, X.509, DID resolution), \<open>vlib\<close> (jsonwebtoken, the SD-JWT packages, dcql, fetch), \<open>tx_hashing\<close>,
  \<open>kms_lib\<close>, \<open>gcp_lib\<close>, \<open>fs_lib\<close> and \<open>secret_lib\<close> are records of functions. A remote service is
  an argument \<open>send\<close>; its documented behaviour is a locale: \<open>dynamo\<close> and \<open>firestore\<close> let any
  request fail with or without effect, \<open>dynamo_available\<close>, \<open>firestore_available\<close>,
  \<open>kms_available\<close>, \<open>gcp_available\<close> and \<open>answering\<close> are the available services,
  \<open>dynamo_retains\<close> and \<open>firestore_retains\<close> say when items may expire. Each is interpreted
  on an executable service. Other hypotheses are that a URL that the check of zod returns passes it unchanged
  (\<open>url_stable\<close>), that hashes of the keys in use differ, and that JSON reads back what it wrote.

  \<^bold>\<open>Bounds and fuel.\<close> Recursion is structural or has a measure, except where the code
  waits: an import job of Google KMS is polled 60 times at intervals of 3000 ms, which is the
  number in the code, so that a job active within 177 s is seen; a save takes at
  most 613 requests and 121 more for each import job that is listed. \<open>read_params\<close>, a reader
  used in one property, gets the length of its text as fuel, one unit per parameter.

  \<^bold>\<open>Choices to know when reading.\<close> The body of an HTTP answer is the value given to the framework;
  the text of an offer or a request URI is the value it encodes; \<open>HTTPException\<close> is
  never thrown by a handler. A registration of a verifier with an algorithm and neither
  a key nor a certificate saves no key; certificates without a trust anchor are accepted; a
  response without \<open>vp_token\<close> is answered with status 500, as in the code. The clock of a
  Firestore transaction is read before the transaction, as its body is a function of the
  document. Property lookups ignore members inherited from \<open>Object.prototype\<close>, and the objects of
  claims are values, so that sharing between them is not visible.

  \<^bold>\<open>Not modelled.\<close> Logging; reading of environment variables, files and options; construction
  of the client objects of the clouds; the application wiring of \<open>server/aws\<close>,
  \<open>server/single\<close>, \<open>server/google-cloud\<close> and the examples, and the description of cloud
  resources, which only put the parts above together; \<open>server/multi/src/routes/verify.ts\<close>, which is
  written against an interface that the library no longer has; the documentation site, the
  release script \<open>bump.mjs\<close> and the wallet, which is a Go program.
\<close>

end
